(* ===== verification/Prelude.thy ===== *)
theory Prelude
  imports Main
begin

text \<open>
  Shared vocabulary of the StoryForge development: time stamps, the exceptions of
  \<open>src/src/storyforge/exceptions.py\<close> as values, the result of a call that may raise
  (\<open>exn + 'a\<close>, \<open>Inl\<close> the exception) with its sequencing operator, JSON values, and the
  generic lemmas and \<open>named_theorems\<close> collections the component theories use.
\<close>

section \<open>Time\<close>

text \<open>
  A \<open>datetime\<close> is its number of microseconds since the epoch (the resolution of the Python
  type); a \<open>timedelta\<close> is a number of microseconds.
\<close>

type_synonym time = int

definition seconds :: "int \<Rightarrow> time" where
  "seconds n = n * 1000000"

lemma seconds_mono [simp]: "seconds a \<le> seconds b \<longleftrightarrow> a \<le> b"
  by (simp add: seconds_def)

lemma seconds_pos [simp]: "0 < seconds a \<longleftrightarrow> 0 < a"
  by (simp add: seconds_def)

section \<open>Exceptions\<close>

text \<open>
  One constructor per exception class that the modelled code raises, catches or tells apart;
  \<open>OtherException\<close> stands for any other subclass of \<open>Exception\<close>, with its class name.
  Message texts are not part of the value: where the code stores a rendered message it is a
  separate argument of the operation.
\<close>

datatype exn =
    EntityNotFoundError | InvalidStateError | DomainValidationError | ConfigurationError
  | WorkflowAlreadyRunningError | WorkflowNotResumableError | WorkflowExecutionError
  | QueueBackpressureError | QueueUnavailableError
  | JobRetryableError | JobCancellationRequested | JobPauseRequested
  | BudgetBlockedError | ProviderRateLimitError | CircuitOpenError | PrivacyPolicyError
  | IdempotencyConflictError
  | LLMTimeoutError | LLMRateLimitError | LLMServiceError | LLMAuthenticationError
  | LLMRefusalError | LLMProviderError
  | IntegrityError | OperationalError
  | ValueError | KeyError | RuntimeError
  | OtherException string

text \<open>\<open>type(error).__name__\<close>.\<close>

fun exn_name :: "exn \<Rightarrow> string" where
  "exn_name EntityNotFoundError = ''EntityNotFoundError''"
| "exn_name InvalidStateError = ''InvalidStateError''"
| "exn_name DomainValidationError = ''DomainValidationError''"
| "exn_name ConfigurationError = ''ConfigurationError''"
| "exn_name WorkflowAlreadyRunningError = ''WorkflowAlreadyRunningError''"
| "exn_name WorkflowNotResumableError = ''WorkflowNotResumableError''"
| "exn_name WorkflowExecutionError = ''WorkflowExecutionError''"
| "exn_name QueueBackpressureError = ''QueueBackpressureError''"
| "exn_name QueueUnavailableError = ''QueueUnavailableError''"
| "exn_name JobRetryableError = ''JobRetryableError''"
| "exn_name JobCancellationRequested = ''JobCancellationRequested''"
| "exn_name JobPauseRequested = ''JobPauseRequested''"
| "exn_name BudgetBlockedError = ''BudgetBlockedError''"
| "exn_name ProviderRateLimitError = ''ProviderRateLimitError''"
| "exn_name CircuitOpenError = ''CircuitOpenError''"
| "exn_name PrivacyPolicyError = ''PrivacyPolicyError''"
| "exn_name IdempotencyConflictError = ''IdempotencyConflictError''"
| "exn_name LLMTimeoutError = ''LLMTimeoutError''"
| "exn_name LLMRateLimitError = ''LLMRateLimitError''"
| "exn_name LLMServiceError = ''LLMServiceError''"
| "exn_name LLMAuthenticationError = ''LLMAuthenticationError''"
| "exn_name LLMRefusalError = ''LLMRefusalError''"
| "exn_name LLMProviderError = ''LLMProviderError''"
| "exn_name IntegrityError = ''IntegrityError''"
| "exn_name OperationalError = ''OperationalError''"
| "exn_name ValueError = ''ValueError''"
| "exn_name KeyError = ''KeyError''"
| "exn_name RuntimeError = ''RuntimeError''"
| "exn_name (OtherException n) = n"

section \<open>Calls that may raise\<close>

type_synonym 'a result = "exn + 'a"

text \<open>Sequencing: the first exception ends the computation.\<close>

fun and_then :: "'a result \<Rightarrow> ('a \<Rightarrow> 'b result) \<Rightarrow> 'b result" where
  "and_then (Inl e) f = Inl e"
| "and_then (Inr a) f = f a"

lemma and_then_Inr_iff [simp]:
  "and_then m f = Inr b \<longleftrightarrow> (\<exists>a. m = Inr a \<and> f a = Inr b)"
  by (cases m) auto

lemma and_then_Inl_iff:
  "and_then m f = Inl e \<longleftrightarrow> m = Inl e \<or> (\<exists>a. m = Inr a \<and> f a = Inl e)"
  by (cases m) auto

lemma and_then_assoc: "and_then (and_then m f) g = and_then m (\<lambda>a. and_then (f a) g)"
  by (cases m) auto

text \<open>\<open>x if x is not None else raise e\<close>.\<close>

fun or_raise :: "exn \<Rightarrow> 'a option \<Rightarrow> 'a result" where
  "or_raise e None = Inl e"
| "or_raise e (Some a) = Inr a"

lemma or_raise_Inr_iff [simp]: "or_raise e x = Inr a \<longleftrightarrow> x = Some a"
  by (cases x) auto

text \<open>\<open>if not ok: raise e\<close>.\<close>

definition require :: "bool \<Rightarrow> exn \<Rightarrow> unit result" where
  "require ok e = (if ok then Inr () else Inl e)"

lemma require_Inr_iff [simp]: "require ok e = Inr u \<longleftrightarrow> ok"
  by (simp add: require_def)

lemma require_Inl_iff [simp]: "require ok e = Inl e' \<longleftrightarrow> \<not> ok \<and> e' = e"
  by (auto simp: require_def)

section \<open>JSON-like values\<close>

text \<open>
  What a Python payload dictionary holds: the JSON types, and \<open>JOther\<close> for a value of any
  other class. Floating-point numbers are kept by their rendering. A dictionary is the list
  of its items in iteration order.
\<close>

datatype json =
    JNull | JBool bool | JInt int | JFloat string | JStr string
  | JList "json list" | JDict "(string \<times> json) list" | JOther

section \<open>Rendering integers: \<open>str(n)\<close>\<close>

definition digit :: "nat \<Rightarrow> char" where
  "digit n = ''0123456789'' ! n"

fun nat_str :: "nat \<Rightarrow> string" where
  "nat_str n = (if n < 10 then [digit n] else nat_str (n div 10) @ [digit (n mod 10)])"

declare nat_str.simps [simp del]

definition int_str :: "int \<Rightarrow> string" where
  "int_str i = (if i < 0 then CHR ''-'' # nat_str (nat (- i)) else nat_str (nat i))"

text \<open>Reading the digits back shows that the rendering is injective.\<close>

definition undigits :: "string \<Rightarrow> nat" where
  "undigits cs = foldl (\<lambda>a c. 10 * a + (of_char c - 48)) 0 cs"

lemma digit_cases: "n < 10 \<Longrightarrow> n \<in> {0, 1, 2, 3, 4, 5, 6, 7, 8, 9 :: nat}"
  by auto

lemma of_char_digit: "n < 10 \<Longrightarrow> of_char (digit n) = (48 + n :: nat)"
  by (drule digit_cases) (auto simp: digit_def)

lemma digit_chars: "n < 10 \<Longrightarrow> digit n \<in> set ''0123456789''"
  by (drule digit_cases) (auto simp: digit_def)

lemma undigits_nat_str: "undigits (nat_str n) = n"
proof (induction n rule: nat_str.induct)
  case (1 n)
  show ?case
  proof (cases "n < 10")
    case True
    then show ?thesis by (simp add: nat_str.simps [of n] undigits_def of_char_digit)
  next
    case False
    with 1 show ?thesis
      by (simp add: nat_str.simps [of n] undigits_def of_char_digit)
  qed
qed

lemma nat_str_inj [simp]: "nat_str m = nat_str n \<longleftrightarrow> m = n"
  by (metis undigits_nat_str)

lemma nat_str_chars: "set (nat_str n) \<subseteq> set ''0123456789''"
proof (induction n rule: nat_str.induct)
  case (1 n)
  then show ?case
    using digit_chars [of n] digit_chars [of "n mod 10"]
    by (subst nat_str.simps) auto
qed

lemma nat_str_nonempty [simp]: "nat_str n \<noteq> []"
  by (subst nat_str.simps) simp

lemma nat_str_no_minus: "CHR ''-'' \<notin> set (nat_str n)"
  using nat_str_chars [of n] by auto

lemma nat_str_neq_minus [simp]:
  "nat_str n \<noteq> CHR ''-'' # xs" "CHR ''-'' # xs \<noteq> nat_str n"
  using nat_str_no_minus [of n] by (metis list.set_intros(1))+

lemma int_str_inj [simp]: "int_str i = int_str j \<longleftrightarrow> i = j"
  by (auto simp: int_str_def split: if_splits)

lemma int_str_no_colon: "CHR '':'' \<notin> set (int_str i)"
  using nat_str_chars [of "nat i"] nat_str_chars [of "nat (- i)"]
  by (auto simp: int_str_def)

text \<open>Text up to the first occurrence of a separator is determined by the whole.\<close>

lemma append_sep_eq:
  assumes "c \<notin> set xs" and "c \<notin> set ys"
  shows "xs @ c # us = ys @ c # vs \<longleftrightarrow> xs = ys \<and> us = vs"
proof
  assume eq: "xs @ c # us = ys @ c # vs"
  have "takeWhile (\<lambda>x. x \<noteq> c) (xs @ c # us) = xs"
    using assms(1) by (subst takeWhile_append2) auto
  moreover have "takeWhile (\<lambda>x. x \<noteq> c) (ys @ c # vs) = ys"
    using assms(2) by (subst takeWhile_append2) auto
  ultimately have "xs = ys" using eq by simp
  with eq show "xs = ys \<and> us = vs" by simp
qed simp

section \<open>Lists\<close>

lemma find_map_replace:
  "(\<And>x. P (f x) = P x) \<Longrightarrow> find P (map f xs) = map_option f (find P xs)"
  by (induction xs) auto

lemma find_append:
  "find P (xs @ ys) = (case find P xs of Some x \<Rightarrow> Some x | None \<Rightarrow> find P ys)"
  by (induction xs) auto

lemma find_SomeD: "find P xs = Some x \<Longrightarrow> x \<in> set xs \<and> P x"
  by (induction xs) (auto split: if_splits)

lemma find_NoneD: "find P xs = None \<Longrightarrow> x \<in> set xs \<Longrightarrow> \<not> P x"
  by (induction xs) (auto split: if_splits)

lemma find_unique:
  "distinct (map k xs) \<Longrightarrow> x \<in> set xs \<Longrightarrow> find (\<lambda>y. k y = k x) xs = Some x"
  by (induction xs) force+

text \<open>Python's slices \<open>xs[:n]\<close> and \<open>xs[n:]\<close> for a non-negative bound are \<open>take\<close> and \<open>drop\<close>.\<close>

definition bounded :: "nat \<Rightarrow> string \<Rightarrow> string" where
  "bounded n s = take n s"

lemma length_bounded [simp]: "length (bounded n s) \<le> n"
  by (simp add: bounded_def)

section \<open>Enumerations: decoding a stored value\<close>

text \<open>
  \<open>E(value)\<close> of a \<open>StrEnum\<close>: the member, in declaration order, whose value it is.
\<close>

definition enum_parse :: "('e \<Rightarrow> string) \<Rightarrow> 'e list \<Rightarrow> string \<Rightarrow> 'e result" where
  "enum_parse val members v = or_raise ValueError (find (\<lambda>e. val e = v) members)"

lemma enum_roundtrip:
  "distinct (map val members) \<Longrightarrow> e \<in> set members \<Longrightarrow> enum_parse val members (val e) = Inr e"
  by (simp add: enum_parse_def find_unique)

end
