(* ===== verification/Enums.thy ===== *)
theory Enums
  imports Prelude
begin

text \<open>
  The enumerations of \<open>src/src/storyforge/enums.py\<close>: one datatype per class, whose
  constructors carry the class name as a prefix, the string value each member is stored
  as (\<open>E_value\<close>), and the members in declaration order (\<open>E_members\<close>). The database columns
  hold the values, so that decoding a stored value must give the member back.
\<close>

section \<open>ProjectStatus\<close>

datatype project_status =
    ProjectStatus_CREATED
  | ProjectStatus_DRAFT
  | ProjectStatus_PLANNING
  | ProjectStatus_PLANNED
  | ProjectStatus_GENERATING
  | ProjectStatus_ACTIVE
  | ProjectStatus_COMPLETED
  | ProjectStatus_FAILED
  | ProjectStatus_ARCHIVED

fun project_status_value :: "project_status \<Rightarrow> string" where
  "project_status_value ProjectStatus_CREATED = ''created''"
| "project_status_value ProjectStatus_DRAFT = ''draft''"
| "project_status_value ProjectStatus_PLANNING = ''planning''"
| "project_status_value ProjectStatus_PLANNED = ''planned''"
| "project_status_value ProjectStatus_GENERATING = ''generating''"
| "project_status_value ProjectStatus_ACTIVE = ''active''"
| "project_status_value ProjectStatus_COMPLETED = ''completed''"
| "project_status_value ProjectStatus_FAILED = ''failed''"
| "project_status_value ProjectStatus_ARCHIVED = ''archived''"

definition project_status_members :: "project_status list" where
  "project_status_members =
    [ProjectStatus_CREATED,
     ProjectStatus_DRAFT,
     ProjectStatus_PLANNING,
     ProjectStatus_PLANNED,
     ProjectStatus_GENERATING,
     ProjectStatus_ACTIVE,
     ProjectStatus_COMPLETED,
     ProjectStatus_FAILED,
     ProjectStatus_ARCHIVED]"

lemma project_status_members_complete: "e \<in> set project_status_members"
  by (cases e) (simp_all add: project_status_members_def)

lemma project_status_roundtrip [simp]: "enum_parse project_status_value project_status_members (project_status_value e) = Inr e"
  by (rule enum_roundtrip [OF _ project_status_members_complete]) (simp add: project_status_members_def)

section \<open>ChapterStatus\<close>

datatype chapter_status =
    ChapterStatus_PLANNED
  | ChapterStatus_GENERATING
  | ChapterStatus_DRAFT
  | ChapterStatus_EXTRACTING_FACTS
  | ChapterStatus_GENERATED
  | ChapterStatus_FACT_EXTRACTION_FAILED
  | ChapterStatus_FAILED
  | ChapterStatus_EVALUATING
  | ChapterStatus_EVALUATED_PASSED
  | ChapterStatus_EVALUATED_NEEDS_REVISION
  | ChapterStatus_EVALUATION_FAILED
  | ChapterStatus_NEEDS_REVISION
  | ChapterStatus_ACCEPTED
  | ChapterStatus_NEEDS_HUMAN_REVIEW
  | ChapterStatus_WORKFLOW_RUNNING
  | ChapterStatus_DRAFTING
  | ChapterStatus_REVISING
  | ChapterStatus_WORKFLOW_FAILED

fun chapter_status_value :: "chapter_status \<Rightarrow> string" where
  "chapter_status_value ChapterStatus_PLANNED = ''planned''"
| "chapter_status_value ChapterStatus_GENERATING = ''generating''"
| "chapter_status_value ChapterStatus_DRAFT = ''draft''"
| "chapter_status_value ChapterStatus_EXTRACTING_FACTS = ''extracting_facts''"
| "chapter_status_value ChapterStatus_GENERATED = ''generated''"
| "chapter_status_value ChapterStatus_FACT_EXTRACTION_FAILED = ''fact_extraction_failed''"
| "chapter_status_value ChapterStatus_FAILED = ''failed''"
| "chapter_status_value ChapterStatus_EVALUATING = ''evaluating''"
| "chapter_status_value ChapterStatus_EVALUATED_PASSED = ''evaluated_passed''"
| "chapter_status_value ChapterStatus_EVALUATED_NEEDS_REVISION = ''evaluated_needs_revision''"
| "chapter_status_value ChapterStatus_EVALUATION_FAILED = ''evaluation_failed''"
| "chapter_status_value ChapterStatus_NEEDS_REVISION = ''needs_revision''"
| "chapter_status_value ChapterStatus_ACCEPTED = ''accepted''"
| "chapter_status_value ChapterStatus_NEEDS_HUMAN_REVIEW = ''needs_human_review''"
| "chapter_status_value ChapterStatus_WORKFLOW_RUNNING = ''workflow_running''"
| "chapter_status_value ChapterStatus_DRAFTING = ''drafting''"
| "chapter_status_value ChapterStatus_REVISING = ''revising''"
| "chapter_status_value ChapterStatus_WORKFLOW_FAILED = ''workflow_failed''"

definition chapter_status_members :: "chapter_status list" where
  "chapter_status_members =
    [ChapterStatus_PLANNED,
     ChapterStatus_GENERATING,
     ChapterStatus_DRAFT,
     ChapterStatus_EXTRACTING_FACTS,
     ChapterStatus_GENERATED,
     ChapterStatus_FACT_EXTRACTION_FAILED,
     ChapterStatus_FAILED,
     ChapterStatus_EVALUATING,
     ChapterStatus_EVALUATED_PASSED,
     ChapterStatus_EVALUATED_NEEDS_REVISION,
     ChapterStatus_EVALUATION_FAILED,
     ChapterStatus_NEEDS_REVISION,
     ChapterStatus_ACCEPTED,
     ChapterStatus_NEEDS_HUMAN_REVIEW,
     ChapterStatus_WORKFLOW_RUNNING,
     ChapterStatus_DRAFTING,
     ChapterStatus_REVISING,
     ChapterStatus_WORKFLOW_FAILED]"

lemma chapter_status_members_complete: "e \<in> set chapter_status_members"
  by (cases e) (simp_all add: chapter_status_members_def)

lemma chapter_status_roundtrip [simp]: "enum_parse chapter_status_value chapter_status_members (chapter_status_value e) = Inr e"
  by (rule enum_roundtrip [OF _ chapter_status_members_complete]) (simp add: chapter_status_members_def)

section \<open>ForeshadowingStatus\<close>

datatype foreshadowing_status =
    ForeshadowingStatus_PLANNED
  | ForeshadowingStatus_OPEN
  | ForeshadowingStatus_RESOLVED
  | ForeshadowingStatus_ABANDONED

fun foreshadowing_status_value :: "foreshadowing_status \<Rightarrow> string" where
  "foreshadowing_status_value ForeshadowingStatus_PLANNED = ''planned''"
| "foreshadowing_status_value ForeshadowingStatus_OPEN = ''open''"
| "foreshadowing_status_value ForeshadowingStatus_RESOLVED = ''resolved''"
| "foreshadowing_status_value ForeshadowingStatus_ABANDONED = ''abandoned''"

definition foreshadowing_status_members :: "foreshadowing_status list" where
  "foreshadowing_status_members =
    [ForeshadowingStatus_PLANNED,
     ForeshadowingStatus_OPEN,
     ForeshadowingStatus_RESOLVED,
     ForeshadowingStatus_ABANDONED]"

lemma foreshadowing_status_members_complete: "e \<in> set foreshadowing_status_members"
  by (cases e) (simp_all add: foreshadowing_status_members_def)

lemma foreshadowing_status_roundtrip [simp]: "enum_parse foreshadowing_status_value foreshadowing_status_members (foreshadowing_status_value e) = Inr e"
  by (rule enum_roundtrip [OF _ foreshadowing_status_members_complete]) (simp add: foreshadowing_status_members_def)

section \<open>WorkflowRunStatus\<close>

datatype workflow_run_status =
    WorkflowRunStatus_PENDING
  | WorkflowRunStatus_RUNNING
  | WorkflowRunStatus_SUCCEEDED
  | WorkflowRunStatus_FAILED
  | WorkflowRunStatus_NEEDS_HUMAN_REVIEW
  | WorkflowRunStatus_PAUSED
  | WorkflowRunStatus_COMPLETED
  | WorkflowRunStatus_COMPLETED_NEEDS_REVIEW
  | WorkflowRunStatus_CANCELLED

fun workflow_run_status_value :: "workflow_run_status \<Rightarrow> string" where
  "workflow_run_status_value WorkflowRunStatus_PENDING = ''pending''"
| "workflow_run_status_value WorkflowRunStatus_RUNNING = ''running''"
| "workflow_run_status_value WorkflowRunStatus_SUCCEEDED = ''succeeded''"
| "workflow_run_status_value WorkflowRunStatus_FAILED = ''failed''"
| "workflow_run_status_value WorkflowRunStatus_NEEDS_HUMAN_REVIEW = ''needs_human_review''"
| "workflow_run_status_value WorkflowRunStatus_PAUSED = ''paused''"
| "workflow_run_status_value WorkflowRunStatus_COMPLETED = ''completed''"
| "workflow_run_status_value WorkflowRunStatus_COMPLETED_NEEDS_REVIEW = ''completed_needs_review''"
| "workflow_run_status_value WorkflowRunStatus_CANCELLED = ''cancelled''"

definition workflow_run_status_members :: "workflow_run_status list" where
  "workflow_run_status_members =
    [WorkflowRunStatus_PENDING,
     WorkflowRunStatus_RUNNING,
     WorkflowRunStatus_SUCCEEDED,
     WorkflowRunStatus_FAILED,
     WorkflowRunStatus_NEEDS_HUMAN_REVIEW,
     WorkflowRunStatus_PAUSED,
     WorkflowRunStatus_COMPLETED,
     WorkflowRunStatus_COMPLETED_NEEDS_REVIEW,
     WorkflowRunStatus_CANCELLED]"

lemma workflow_run_status_members_complete: "e \<in> set workflow_run_status_members"
  by (cases e) (simp_all add: workflow_run_status_members_def)

lemma workflow_run_status_roundtrip [simp]: "enum_parse workflow_run_status_value workflow_run_status_members (workflow_run_status_value e) = Inr e"
  by (rule enum_roundtrip [OF _ workflow_run_status_members_complete]) (simp add: workflow_run_status_members_def)

section \<open>ChapterVersionStatus\<close>

datatype chapter_version_status =
    ChapterVersionStatus_DRAFT
  | ChapterVersionStatus_EVALUATED
  | ChapterVersionStatus_REVISION
  | ChapterVersionStatus_ACCEPTED
  | ChapterVersionStatus_REJECTED
  | ChapterVersionStatus_SUPERSEDED
  | ChapterVersionStatus_NEEDS_REVIEW

fun chapter_version_status_value :: "chapter_version_status \<Rightarrow> string" where
  "chapter_version_status_value ChapterVersionStatus_DRAFT = ''draft''"
| "chapter_version_status_value ChapterVersionStatus_EVALUATED = ''evaluated''"
| "chapter_version_status_value ChapterVersionStatus_REVISION = ''revision''"
| "chapter_version_status_value ChapterVersionStatus_ACCEPTED = ''accepted''"
| "chapter_version_status_value ChapterVersionStatus_REJECTED = ''rejected''"
| "chapter_version_status_value ChapterVersionStatus_SUPERSEDED = ''superseded''"
| "chapter_version_status_value ChapterVersionStatus_NEEDS_REVIEW = ''needs_review''"

definition chapter_version_status_members :: "chapter_version_status list" where
  "chapter_version_status_members =
    [ChapterVersionStatus_DRAFT,
     ChapterVersionStatus_EVALUATED,
     ChapterVersionStatus_REVISION,
     ChapterVersionStatus_ACCEPTED,
     ChapterVersionStatus_REJECTED,
     ChapterVersionStatus_SUPERSEDED,
     ChapterVersionStatus_NEEDS_REVIEW]"

lemma chapter_version_status_members_complete: "e \<in> set chapter_version_status_members"
  by (cases e) (simp_all add: chapter_version_status_members_def)

lemma chapter_version_status_roundtrip [simp]: "enum_parse chapter_version_status_value chapter_version_status_members (chapter_version_status_value e) = Inr e"
  by (rule enum_roundtrip [OF _ chapter_version_status_members_complete]) (simp add: chapter_version_status_members_def)

section \<open>FactStatus\<close>

datatype fact_status =
    FactStatus_CANDIDATE
  | FactStatus_ACCEPTED
  | FactStatus_REJECTED
  | FactStatus_SUPERSEDED

fun fact_status_value :: "fact_status \<Rightarrow> string" where
  "fact_status_value FactStatus_CANDIDATE = ''candidate''"
| "fact_status_value FactStatus_ACCEPTED = ''accepted''"
| "fact_status_value FactStatus_REJECTED = ''rejected''"
| "fact_status_value FactStatus_SUPERSEDED = ''superseded''"

definition fact_status_members :: "fact_status list" where
  "fact_status_members =
    [FactStatus_CANDIDATE,
     FactStatus_ACCEPTED,
     FactStatus_REJECTED,
     FactStatus_SUPERSEDED]"

lemma fact_status_members_complete: "e \<in> set fact_status_members"
  by (cases e) (simp_all add: fact_status_members_def)

lemma fact_status_roundtrip [simp]: "enum_parse fact_status_value fact_status_members (fact_status_value e) = Inr e"
  by (rule enum_roundtrip [OF _ fact_status_members_complete]) (simp add: fact_status_members_def)

section \<open>WorkflowEventType\<close>

datatype workflow_event_type =
    WorkflowEventType_NODE_STARTED
  | WorkflowEventType_NODE_COMPLETED
  | WorkflowEventType_NODE_FAILED
  | WorkflowEventType_ROUTE_SELECTED
  | WorkflowEventType_VERSION_CREATED
  | WorkflowEventType_EVALUATION_CREATED
  | WorkflowEventType_REVISION_REJECTED
  | WorkflowEventType_VERSION_ACCEPTED
  | WorkflowEventType_WORKFLOW_COMPLETED

fun workflow_event_type_value :: "workflow_event_type \<Rightarrow> string" where
  "workflow_event_type_value WorkflowEventType_NODE_STARTED = ''node_started''"
| "workflow_event_type_value WorkflowEventType_NODE_COMPLETED = ''node_completed''"
| "workflow_event_type_value WorkflowEventType_NODE_FAILED = ''node_failed''"
| "workflow_event_type_value WorkflowEventType_ROUTE_SELECTED = ''route_selected''"
| "workflow_event_type_value WorkflowEventType_VERSION_CREATED = ''version_created''"
| "workflow_event_type_value WorkflowEventType_EVALUATION_CREATED = ''evaluation_created''"
| "workflow_event_type_value WorkflowEventType_REVISION_REJECTED = ''revision_rejected''"
| "workflow_event_type_value WorkflowEventType_VERSION_ACCEPTED = ''version_accepted''"
| "workflow_event_type_value WorkflowEventType_WORKFLOW_COMPLETED = ''workflow_completed''"

definition workflow_event_type_members :: "workflow_event_type list" where
  "workflow_event_type_members =
    [WorkflowEventType_NODE_STARTED,
     WorkflowEventType_NODE_COMPLETED,
     WorkflowEventType_NODE_FAILED,
     WorkflowEventType_ROUTE_SELECTED,
     WorkflowEventType_VERSION_CREATED,
     WorkflowEventType_EVALUATION_CREATED,
     WorkflowEventType_REVISION_REJECTED,
     WorkflowEventType_VERSION_ACCEPTED,
     WorkflowEventType_WORKFLOW_COMPLETED]"

lemma workflow_event_type_members_complete: "e \<in> set workflow_event_type_members"
  by (cases e) (simp_all add: workflow_event_type_members_def)

lemma workflow_event_type_roundtrip [simp]: "enum_parse workflow_event_type_value workflow_event_type_members (workflow_event_type_value e) = Inr e"
  by (rule enum_roundtrip [OF _ workflow_event_type_members_complete]) (simp add: workflow_event_type_members_def)

section \<open>ConflictType\<close>

datatype conflict_type =
    ConflictType_CHARACTER_STATE
  | ConflictType_CHARACTER_KNOWLEDGE
  | ConflictType_CHARACTER_EXISTENCE
  | ConflictType_LOCATION
  | ConflictType_TIMELINE
  | ConflictType_OBJECT_STATE
  | ConflictType_STORY_RULE
  | ConflictType_FACT_CONTRADICTION
  | ConflictType_FORESHADOWING
  | ConflictType_OUTLINE_VIOLATION

fun conflict_type_value :: "conflict_type \<Rightarrow> string" where
  "conflict_type_value ConflictType_CHARACTER_STATE = ''character_state''"
| "conflict_type_value ConflictType_CHARACTER_KNOWLEDGE = ''character_knowledge''"
| "conflict_type_value ConflictType_CHARACTER_EXISTENCE = ''character_existence''"
| "conflict_type_value ConflictType_LOCATION = ''location''"
| "conflict_type_value ConflictType_TIMELINE = ''timeline''"
| "conflict_type_value ConflictType_OBJECT_STATE = ''object_state''"
| "conflict_type_value ConflictType_STORY_RULE = ''story_rule''"
| "conflict_type_value ConflictType_FACT_CONTRADICTION = ''fact_contradiction''"
| "conflict_type_value ConflictType_FORESHADOWING = ''foreshadowing''"
| "conflict_type_value ConflictType_OUTLINE_VIOLATION = ''outline_violation''"

definition conflict_type_members :: "conflict_type list" where
  "conflict_type_members =
    [ConflictType_CHARACTER_STATE,
     ConflictType_CHARACTER_KNOWLEDGE,
     ConflictType_CHARACTER_EXISTENCE,
     ConflictType_LOCATION,
     ConflictType_TIMELINE,
     ConflictType_OBJECT_STATE,
     ConflictType_STORY_RULE,
     ConflictType_FACT_CONTRADICTION,
     ConflictType_FORESHADOWING,
     ConflictType_OUTLINE_VIOLATION]"

lemma conflict_type_members_complete: "e \<in> set conflict_type_members"
  by (cases e) (simp_all add: conflict_type_members_def)

lemma conflict_type_roundtrip [simp]: "enum_parse conflict_type_value conflict_type_members (conflict_type_value e) = Inr e"
  by (rule enum_roundtrip [OF _ conflict_type_members_complete]) (simp add: conflict_type_members_def)

section \<open>ConflictSeverity\<close>

datatype conflict_severity =
    ConflictSeverity_LOW
  | ConflictSeverity_MEDIUM
  | ConflictSeverity_HIGH
  | ConflictSeverity_CRITICAL

fun conflict_severity_value :: "conflict_severity \<Rightarrow> string" where
  "conflict_severity_value ConflictSeverity_LOW = ''low''"
| "conflict_severity_value ConflictSeverity_MEDIUM = ''medium''"
| "conflict_severity_value ConflictSeverity_HIGH = ''high''"
| "conflict_severity_value ConflictSeverity_CRITICAL = ''critical''"

definition conflict_severity_members :: "conflict_severity list" where
  "conflict_severity_members =
    [ConflictSeverity_LOW,
     ConflictSeverity_MEDIUM,
     ConflictSeverity_HIGH,
     ConflictSeverity_CRITICAL]"

lemma conflict_severity_members_complete: "e \<in> set conflict_severity_members"
  by (cases e) (simp_all add: conflict_severity_members_def)

lemma conflict_severity_roundtrip [simp]: "enum_parse conflict_severity_value conflict_severity_members (conflict_severity_value e) = Inr e"
  by (rule enum_roundtrip [OF _ conflict_severity_members_complete]) (simp add: conflict_severity_members_def)

section \<open>ConflictStatus\<close>

datatype conflict_status =
    ConflictStatus_OPEN
  | ConflictStatus_IGNORED
  | ConflictStatus_RESOLVED
  | ConflictStatus_FALSE_POSITIVE

fun conflict_status_value :: "conflict_status \<Rightarrow> string" where
  "conflict_status_value ConflictStatus_OPEN = ''open''"
| "conflict_status_value ConflictStatus_IGNORED = ''ignored''"
| "conflict_status_value ConflictStatus_RESOLVED = ''resolved''"
| "conflict_status_value ConflictStatus_FALSE_POSITIVE = ''false_positive''"

definition conflict_status_members :: "conflict_status list" where
  "conflict_status_members =
    [ConflictStatus_OPEN,
     ConflictStatus_IGNORED,
     ConflictStatus_RESOLVED,
     ConflictStatus_FALSE_POSITIVE]"

lemma conflict_status_members_complete: "e \<in> set conflict_status_members"
  by (cases e) (simp_all add: conflict_status_members_def)

lemma conflict_status_roundtrip [simp]: "enum_parse conflict_status_value conflict_status_members (conflict_status_value e) = Inr e"
  by (rule enum_roundtrip [OF _ conflict_status_members_complete]) (simp add: conflict_status_members_def)

section \<open>EvaluationStatus\<close>

datatype evaluation_status =
    EvaluationStatus_COMPLETED
  | EvaluationStatus_PARTIAL_FAILED

fun evaluation_status_value :: "evaluation_status \<Rightarrow> string" where
  "evaluation_status_value EvaluationStatus_COMPLETED = ''completed''"
| "evaluation_status_value EvaluationStatus_PARTIAL_FAILED = ''partial_failed''"

definition evaluation_status_members :: "evaluation_status list" where
  "evaluation_status_members =
    [EvaluationStatus_COMPLETED,
     EvaluationStatus_PARTIAL_FAILED]"

lemma evaluation_status_members_complete: "e \<in> set evaluation_status_members"
  by (cases e) (simp_all add: evaluation_status_members_def)

lemma evaluation_status_roundtrip [simp]: "enum_parse evaluation_status_value evaluation_status_members (evaluation_status_value e) = Inr e"
  by (rule enum_roundtrip [OF _ evaluation_status_members_complete]) (simp add: evaluation_status_members_def)

section \<open>MemoryStatus\<close>

datatype memory_status =
    MemoryStatus_CANDIDATE
  | MemoryStatus_ACCEPTED
  | MemoryStatus_REJECTED
  | MemoryStatus_SUPERSEDED
  | MemoryStatus_DELETED

fun memory_status_value :: "memory_status \<Rightarrow> string" where
  "memory_status_value MemoryStatus_CANDIDATE = ''candidate''"
| "memory_status_value MemoryStatus_ACCEPTED = ''accepted''"
| "memory_status_value MemoryStatus_REJECTED = ''rejected''"
| "memory_status_value MemoryStatus_SUPERSEDED = ''superseded''"
| "memory_status_value MemoryStatus_DELETED = ''deleted''"

definition memory_status_members :: "memory_status list" where
  "memory_status_members =
    [MemoryStatus_CANDIDATE,
     MemoryStatus_ACCEPTED,
     MemoryStatus_REJECTED,
     MemoryStatus_SUPERSEDED,
     MemoryStatus_DELETED]"

lemma memory_status_members_complete: "e \<in> set memory_status_members"
  by (cases e) (simp_all add: memory_status_members_def)

lemma memory_status_roundtrip [simp]: "enum_parse memory_status_value memory_status_members (memory_status_value e) = Inr e"
  by (rule enum_roundtrip [OF _ memory_status_members_complete]) (simp add: memory_status_members_def)

section \<open>MemoryIndexStatus\<close>

datatype memory_index_status =
    MemoryIndexStatus_PENDING
  | MemoryIndexStatus_INDEXING
  | MemoryIndexStatus_COMPLETED
  | MemoryIndexStatus_FAILED
  | MemoryIndexStatus_SUPERSEDED

fun memory_index_status_value :: "memory_index_status \<Rightarrow> string" where
  "memory_index_status_value MemoryIndexStatus_PENDING = ''pending''"
| "memory_index_status_value MemoryIndexStatus_INDEXING = ''indexing''"
| "memory_index_status_value MemoryIndexStatus_COMPLETED = ''completed''"
| "memory_index_status_value MemoryIndexStatus_FAILED = ''failed''"
| "memory_index_status_value MemoryIndexStatus_SUPERSEDED = ''superseded''"

definition memory_index_status_members :: "memory_index_status list" where
  "memory_index_status_members =
    [MemoryIndexStatus_PENDING,
     MemoryIndexStatus_INDEXING,
     MemoryIndexStatus_COMPLETED,
     MemoryIndexStatus_FAILED,
     MemoryIndexStatus_SUPERSEDED]"

lemma memory_index_status_members_complete: "e \<in> set memory_index_status_members"
  by (cases e) (simp_all add: memory_index_status_members_def)

lemma memory_index_status_roundtrip [simp]: "enum_parse memory_index_status_value memory_index_status_members (memory_index_status_value e) = Inr e"
  by (rule enum_roundtrip [OF _ memory_index_status_members_complete]) (simp add: memory_index_status_members_def)

section \<open>GraphEntityType\<close>

datatype graph_entity_type =
    GraphEntityType_CHARACTER
  | GraphEntityType_LOCATION
  | GraphEntityType_OBJECT
  | GraphEntityType_EVENT
  | GraphEntityType_SECRET
  | GraphEntityType_FACTION
  | GraphEntityType_RULE
  | GraphEntityType_FORESHADOWING
  | GraphEntityType_CHAPTER

fun graph_entity_type_value :: "graph_entity_type \<Rightarrow> string" where
  "graph_entity_type_value GraphEntityType_CHARACTER = ''character''"
| "graph_entity_type_value GraphEntityType_LOCATION = ''location''"
| "graph_entity_type_value GraphEntityType_OBJECT = ''object''"
| "graph_entity_type_value GraphEntityType_EVENT = ''event''"
| "graph_entity_type_value GraphEntityType_SECRET = ''secret''"
| "graph_entity_type_value GraphEntityType_FACTION = ''faction''"
| "graph_entity_type_value GraphEntityType_RULE = ''rule''"
| "graph_entity_type_value GraphEntityType_FORESHADOWING = ''foreshadowing''"
| "graph_entity_type_value GraphEntityType_CHAPTER = ''chapter''"

definition graph_entity_type_members :: "graph_entity_type list" where
  "graph_entity_type_members =
    [GraphEntityType_CHARACTER,
     GraphEntityType_LOCATION,
     GraphEntityType_OBJECT,
     GraphEntityType_EVENT,
     GraphEntityType_SECRET,
     GraphEntityType_FACTION,
     GraphEntityType_RULE,
     GraphEntityType_FORESHADOWING,
     GraphEntityType_CHAPTER]"

lemma graph_entity_type_members_complete: "e \<in> set graph_entity_type_members"
  by (cases e) (simp_all add: graph_entity_type_members_def)

lemma graph_entity_type_roundtrip [simp]: "enum_parse graph_entity_type_value graph_entity_type_members (graph_entity_type_value e) = Inr e"
  by (rule enum_roundtrip [OF _ graph_entity_type_members_complete]) (simp add: graph_entity_type_members_def)

section \<open>GraphPredicate\<close>

datatype graph_predicate =
    GraphPredicate_APPEARS_IN
  | GraphPredicate_LOCATED_AT
  | GraphPredicate_KNOWS
  | GraphPredicate_OWNS
  | GraphPredicate_MEMBER_OF
  | GraphPredicate_CAUSED
  | GraphPredicate_PARTICIPATED_IN
  | GraphPredicate_FORESHADOWS
  | GraphPredicate_REVEALS
  | GraphPredicate_CONFLICTS_WITH
  | GraphPredicate_RELATED_TO

fun graph_predicate_value :: "graph_predicate \<Rightarrow> string" where
  "graph_predicate_value GraphPredicate_APPEARS_IN = ''APPEARS_IN''"
| "graph_predicate_value GraphPredicate_LOCATED_AT = ''LOCATED_AT''"
| "graph_predicate_value GraphPredicate_KNOWS = ''KNOWS''"
| "graph_predicate_value GraphPredicate_OWNS = ''OWNS''"
| "graph_predicate_value GraphPredicate_MEMBER_OF = ''MEMBER_OF''"
| "graph_predicate_value GraphPredicate_CAUSED = ''CAUSED''"
| "graph_predicate_value GraphPredicate_PARTICIPATED_IN = ''PARTICIPATED_IN''"
| "graph_predicate_value GraphPredicate_FORESHADOWS = ''FORESHADOWS''"
| "graph_predicate_value GraphPredicate_REVEALS = ''REVEALS''"
| "graph_predicate_value GraphPredicate_CONFLICTS_WITH = ''CONFLICTS_WITH''"
| "graph_predicate_value GraphPredicate_RELATED_TO = ''RELATED_TO''"

definition graph_predicate_members :: "graph_predicate list" where
  "graph_predicate_members =
    [GraphPredicate_APPEARS_IN,
     GraphPredicate_LOCATED_AT,
     GraphPredicate_KNOWS,
     GraphPredicate_OWNS,
     GraphPredicate_MEMBER_OF,
     GraphPredicate_CAUSED,
     GraphPredicate_PARTICIPATED_IN,
     GraphPredicate_FORESHADOWS,
     GraphPredicate_REVEALS,
     GraphPredicate_CONFLICTS_WITH,
     GraphPredicate_RELATED_TO]"

lemma graph_predicate_members_complete: "e \<in> set graph_predicate_members"
  by (cases e) (simp_all add: graph_predicate_members_def)

lemma graph_predicate_roundtrip [simp]: "enum_parse graph_predicate_value graph_predicate_members (graph_predicate_value e) = Inr e"
  by (rule enum_roundtrip [OF _ graph_predicate_members_complete]) (simp add: graph_predicate_members_def)

section \<open>TaskType\<close>

datatype task_type =
    TaskType_PLANNING
  | TaskType_CHAPTER_DRAFTING
  | TaskType_FACT_EXTRACTION
  | TaskType_GRAPH_EXTRACTION
  | TaskType_LITERARY_CRITIQUE
  | TaskType_REVISION
  | TaskType_VERSION_COMPARISON
  | TaskType_EMBEDDING_DOCUMENT
  | TaskType_EMBEDDING_QUERY
  | TaskType_BOOK_CRITIQUE

fun task_type_value :: "task_type \<Rightarrow> string" where
  "task_type_value TaskType_PLANNING = ''planning''"
| "task_type_value TaskType_CHAPTER_DRAFTING = ''chapter_drafting''"
| "task_type_value TaskType_FACT_EXTRACTION = ''fact_extraction''"
| "task_type_value TaskType_GRAPH_EXTRACTION = ''graph_extraction''"
| "task_type_value TaskType_LITERARY_CRITIQUE = ''literary_critique''"
| "task_type_value TaskType_REVISION = ''revision''"
| "task_type_value TaskType_VERSION_COMPARISON = ''version_comparison''"
| "task_type_value TaskType_EMBEDDING_DOCUMENT = ''embedding_document''"
| "task_type_value TaskType_EMBEDDING_QUERY = ''embedding_query''"
| "task_type_value TaskType_BOOK_CRITIQUE = ''book_critique''"

definition task_type_members :: "task_type list" where
  "task_type_members =
    [TaskType_PLANNING,
     TaskType_CHAPTER_DRAFTING,
     TaskType_FACT_EXTRACTION,
     TaskType_GRAPH_EXTRACTION,
     TaskType_LITERARY_CRITIQUE,
     TaskType_REVISION,
     TaskType_VERSION_COMPARISON,
     TaskType_EMBEDDING_DOCUMENT,
     TaskType_EMBEDDING_QUERY,
     TaskType_BOOK_CRITIQUE]"

lemma task_type_members_complete: "e \<in> set task_type_members"
  by (cases e) (simp_all add: task_type_members_def)

lemma task_type_roundtrip [simp]: "enum_parse task_type_value task_type_members (task_type_value e) = Inr e"
  by (rule enum_roundtrip [OF _ task_type_members_complete]) (simp add: task_type_members_def)

section \<open>ModelProfile\<close>

datatype model_profile =
    ModelProfile_OFFLINE
  | ModelProfile_ECONOMY
  | ModelProfile_BALANCED
  | ModelProfile_QUALITY

fun model_profile_value :: "model_profile \<Rightarrow> string" where
  "model_profile_value ModelProfile_OFFLINE = ''offline''"
| "model_profile_value ModelProfile_ECONOMY = ''economy''"
| "model_profile_value ModelProfile_BALANCED = ''balanced''"
| "model_profile_value ModelProfile_QUALITY = ''quality''"

definition model_profile_members :: "model_profile list" where
  "model_profile_members =
    [ModelProfile_OFFLINE,
     ModelProfile_ECONOMY,
     ModelProfile_BALANCED,
     ModelProfile_QUALITY]"

lemma model_profile_members_complete: "e \<in> set model_profile_members"
  by (cases e) (simp_all add: model_profile_members_def)

lemma model_profile_roundtrip [simp]: "enum_parse model_profile_value model_profile_members (model_profile_value e) = Inr e"
  by (rule enum_roundtrip [OF _ model_profile_members_complete]) (simp add: model_profile_members_def)

section \<open>PrivacyPolicy\<close>

datatype privacy_policy =
    PrivacyPolicy_OFFLINE
  | PrivacyPolicy_STRICT
  | PrivacyPolicy_STANDARD

fun privacy_policy_value :: "privacy_policy \<Rightarrow> string" where
  "privacy_policy_value PrivacyPolicy_OFFLINE = ''offline''"
| "privacy_policy_value PrivacyPolicy_STRICT = ''strict''"
| "privacy_policy_value PrivacyPolicy_STANDARD = ''standard''"

definition privacy_policy_members :: "privacy_policy list" where
  "privacy_policy_members =
    [PrivacyPolicy_OFFLINE,
     PrivacyPolicy_STRICT,
     PrivacyPolicy_STANDARD]"

lemma privacy_policy_members_complete: "e \<in> set privacy_policy_members"
  by (cases e) (simp_all add: privacy_policy_members_def)

lemma privacy_policy_roundtrip [simp]: "enum_parse privacy_policy_value privacy_policy_members (privacy_policy_value e) = Inr e"
  by (rule enum_roundtrip [OF _ privacy_policy_members_complete]) (simp add: privacy_policy_members_def)

section \<open>ProviderCallStatus\<close>

datatype provider_call_status =
    ProviderCallStatus_PENDING
  | ProviderCallStatus_RUNNING
  | ProviderCallStatus_SUCCEEDED
  | ProviderCallStatus_FAILED
  | ProviderCallStatus_RATE_LIMITED
  | ProviderCallStatus_TIMED_OUT
  | ProviderCallStatus_BUDGET_BLOCKED
  | ProviderCallStatus_CIRCUIT_OPEN
  | ProviderCallStatus_CANCELLED

fun provider_call_status_value :: "provider_call_status \<Rightarrow> string" where
  "provider_call_status_value ProviderCallStatus_PENDING = ''pending''"
| "provider_call_status_value ProviderCallStatus_RUNNING = ''running''"
| "provider_call_status_value ProviderCallStatus_SUCCEEDED = ''succeeded''"
| "provider_call_status_value ProviderCallStatus_FAILED = ''failed''"
| "provider_call_status_value ProviderCallStatus_RATE_LIMITED = ''rate_limited''"
| "provider_call_status_value ProviderCallStatus_TIMED_OUT = ''timed_out''"
| "provider_call_status_value ProviderCallStatus_BUDGET_BLOCKED = ''budget_blocked''"
| "provider_call_status_value ProviderCallStatus_CIRCUIT_OPEN = ''circuit_open''"
| "provider_call_status_value ProviderCallStatus_CANCELLED = ''cancelled''"

definition provider_call_status_members :: "provider_call_status list" where
  "provider_call_status_members =
    [ProviderCallStatus_PENDING,
     ProviderCallStatus_RUNNING,
     ProviderCallStatus_SUCCEEDED,
     ProviderCallStatus_FAILED,
     ProviderCallStatus_RATE_LIMITED,
     ProviderCallStatus_TIMED_OUT,
     ProviderCallStatus_BUDGET_BLOCKED,
     ProviderCallStatus_CIRCUIT_OPEN,
     ProviderCallStatus_CANCELLED]"

lemma provider_call_status_members_complete: "e \<in> set provider_call_status_members"
  by (cases e) (simp_all add: provider_call_status_members_def)

lemma provider_call_status_roundtrip [simp]: "enum_parse provider_call_status_value provider_call_status_members (provider_call_status_value e) = Inr e"
  by (rule enum_roundtrip [OF _ provider_call_status_members_complete]) (simp add: provider_call_status_members_def)

section \<open>TokenUsageSource\<close>

datatype token_usage_source =
    TokenUsageSource_PROVIDER_REPORTED
  | TokenUsageSource_LOCAL_ESTIMATE
  | TokenUsageSource_MOCK
  | TokenUsageSource_UNKNOWN

fun token_usage_source_value :: "token_usage_source \<Rightarrow> string" where
  "token_usage_source_value TokenUsageSource_PROVIDER_REPORTED = ''provider_reported''"
| "token_usage_source_value TokenUsageSource_LOCAL_ESTIMATE = ''local_estimate''"
| "token_usage_source_value TokenUsageSource_MOCK = ''mock''"
| "token_usage_source_value TokenUsageSource_UNKNOWN = ''unknown''"

definition token_usage_source_members :: "token_usage_source list" where
  "token_usage_source_members =
    [TokenUsageSource_PROVIDER_REPORTED,
     TokenUsageSource_LOCAL_ESTIMATE,
     TokenUsageSource_MOCK,
     TokenUsageSource_UNKNOWN]"

lemma token_usage_source_members_complete: "e \<in> set token_usage_source_members"
  by (cases e) (simp_all add: token_usage_source_members_def)

lemma token_usage_source_roundtrip [simp]: "enum_parse token_usage_source_value token_usage_source_members (token_usage_source_value e) = Inr e"
  by (rule enum_roundtrip [OF _ token_usage_source_members_complete]) (simp add: token_usage_source_members_def)

section \<open>BudgetPeriod\<close>

datatype budget_period =
    BudgetPeriod_LIFETIME
  | BudgetPeriod_DAILY
  | BudgetPeriod_MONTHLY

fun budget_period_value :: "budget_period \<Rightarrow> string" where
  "budget_period_value BudgetPeriod_LIFETIME = ''lifetime''"
| "budget_period_value BudgetPeriod_DAILY = ''daily''"
| "budget_period_value BudgetPeriod_MONTHLY = ''monthly''"

definition budget_period_members :: "budget_period list" where
  "budget_period_members =
    [BudgetPeriod_LIFETIME,
     BudgetPeriod_DAILY,
     BudgetPeriod_MONTHLY]"

lemma budget_period_members_complete: "e \<in> set budget_period_members"
  by (cases e) (simp_all add: budget_period_members_def)

lemma budget_period_roundtrip [simp]: "enum_parse budget_period_value budget_period_members (budget_period_value e) = Inr e"
  by (rule enum_roundtrip [OF _ budget_period_members_complete]) (simp add: budget_period_members_def)

section \<open>IdempotencyStatus\<close>

datatype idempotency_status =
    IdempotencyStatus_ACTIVE
  | IdempotencyStatus_SUCCEEDED
  | IdempotencyStatus_FAILED

fun idempotency_status_value :: "idempotency_status \<Rightarrow> string" where
  "idempotency_status_value IdempotencyStatus_ACTIVE = ''active''"
| "idempotency_status_value IdempotencyStatus_SUCCEEDED = ''succeeded''"
| "idempotency_status_value IdempotencyStatus_FAILED = ''failed''"

definition idempotency_status_members :: "idempotency_status list" where
  "idempotency_status_members =
    [IdempotencyStatus_ACTIVE,
     IdempotencyStatus_SUCCEEDED,
     IdempotencyStatus_FAILED]"

lemma idempotency_status_members_complete: "e \<in> set idempotency_status_members"
  by (cases e) (simp_all add: idempotency_status_members_def)

lemma idempotency_status_roundtrip [simp]: "enum_parse idempotency_status_value idempotency_status_members (idempotency_status_value e) = Inr e"
  by (rule enum_roundtrip [OF _ idempotency_status_members_complete]) (simp add: idempotency_status_members_def)

section \<open>JobType\<close>

datatype job_type =
    JobType_GENERATE_PLAN
  | JobType_GENERATE_CHAPTER
  | JobType_EVALUATE_CHAPTER
  | JobType_RUN_CHAPTER_WORKFLOW
  | JobType_RESUME_WORKFLOW
  | JobType_REINDEX_MEMORY
  | JobType_RUN_RETRIEVAL_WARMUP
  | JobType_RUN_BOOK
  | JobType_RESUME_BOOK

fun job_type_value :: "job_type \<Rightarrow> string" where
  "job_type_value JobType_GENERATE_PLAN = ''generate_plan''"
| "job_type_value JobType_GENERATE_CHAPTER = ''generate_chapter''"
| "job_type_value JobType_EVALUATE_CHAPTER = ''evaluate_chapter''"
| "job_type_value JobType_RUN_CHAPTER_WORKFLOW = ''run_chapter_workflow''"
| "job_type_value JobType_RESUME_WORKFLOW = ''resume_workflow''"
| "job_type_value JobType_REINDEX_MEMORY = ''reindex_memory''"
| "job_type_value JobType_RUN_RETRIEVAL_WARMUP = ''run_retrieval_warmup''"
| "job_type_value JobType_RUN_BOOK = ''run_book''"
| "job_type_value JobType_RESUME_BOOK = ''resume_book''"

definition job_type_members :: "job_type list" where
  "job_type_members =
    [JobType_GENERATE_PLAN,
     JobType_GENERATE_CHAPTER,
     JobType_EVALUATE_CHAPTER,
     JobType_RUN_CHAPTER_WORKFLOW,
     JobType_RESUME_WORKFLOW,
     JobType_REINDEX_MEMORY,
     JobType_RUN_RETRIEVAL_WARMUP,
     JobType_RUN_BOOK,
     JobType_RESUME_BOOK]"

lemma job_type_members_complete: "e \<in> set job_type_members"
  by (cases e) (simp_all add: job_type_members_def)

lemma job_type_roundtrip [simp]: "enum_parse job_type_value job_type_members (job_type_value e) = Inr e"
  by (rule enum_roundtrip [OF _ job_type_members_complete]) (simp add: job_type_members_def)

section \<open>BookRunMode\<close>

datatype book_run_mode =
    BookRunMode_SEQUENTIAL
  | BookRunMode_DEPENDENCY_AWARE

fun book_run_mode_value :: "book_run_mode \<Rightarrow> string" where
  "book_run_mode_value BookRunMode_SEQUENTIAL = ''sequential''"
| "book_run_mode_value BookRunMode_DEPENDENCY_AWARE = ''dependency_aware''"

definition book_run_mode_members :: "book_run_mode list" where
  "book_run_mode_members =
    [BookRunMode_SEQUENTIAL,
     BookRunMode_DEPENDENCY_AWARE]"

lemma book_run_mode_members_complete: "e \<in> set book_run_mode_members"
  by (cases e) (simp_all add: book_run_mode_members_def)

lemma book_run_mode_roundtrip [simp]: "enum_parse book_run_mode_value book_run_mode_members (book_run_mode_value e) = Inr e"
  by (rule enum_roundtrip [OF _ book_run_mode_members_complete]) (simp add: book_run_mode_members_def)

section \<open>BookRunStatus\<close>

datatype book_run_status =
    BookRunStatus_PENDING
  | BookRunStatus_PLANNING_VALIDATION
  | BookRunStatus_GENERATING
  | BookRunStatus_PAUSED
  | BookRunStatus_GLOBAL_REVIEW
  | BookRunStatus_GLOBAL_REVISION
  | BookRunStatus_COMPLETED
  | BookRunStatus_COMPLETED_NEEDS_REVIEW
  | BookRunStatus_CANCEL_REQUESTED
  | BookRunStatus_CANCELLED
  | BookRunStatus_FAILED
  | BookRunStatus_BUDGET_BLOCKED

fun book_run_status_value :: "book_run_status \<Rightarrow> string" where
  "book_run_status_value BookRunStatus_PENDING = ''pending''"
| "book_run_status_value BookRunStatus_PLANNING_VALIDATION = ''planning_validation''"
| "book_run_status_value BookRunStatus_GENERATING = ''generating''"
| "book_run_status_value BookRunStatus_PAUSED = ''paused''"
| "book_run_status_value BookRunStatus_GLOBAL_REVIEW = ''global_review''"
| "book_run_status_value BookRunStatus_GLOBAL_REVISION = ''global_revision''"
| "book_run_status_value BookRunStatus_COMPLETED = ''completed''"
| "book_run_status_value BookRunStatus_COMPLETED_NEEDS_REVIEW = ''completed_needs_review''"
| "book_run_status_value BookRunStatus_CANCEL_REQUESTED = ''cancel_requested''"
| "book_run_status_value BookRunStatus_CANCELLED = ''cancelled''"
| "book_run_status_value BookRunStatus_FAILED = ''failed''"
| "book_run_status_value BookRunStatus_BUDGET_BLOCKED = ''budget_blocked''"

definition book_run_status_members :: "book_run_status list" where
  "book_run_status_members =
    [BookRunStatus_PENDING,
     BookRunStatus_PLANNING_VALIDATION,
     BookRunStatus_GENERATING,
     BookRunStatus_PAUSED,
     BookRunStatus_GLOBAL_REVIEW,
     BookRunStatus_GLOBAL_REVISION,
     BookRunStatus_COMPLETED,
     BookRunStatus_COMPLETED_NEEDS_REVIEW,
     BookRunStatus_CANCEL_REQUESTED,
     BookRunStatus_CANCELLED,
     BookRunStatus_FAILED,
     BookRunStatus_BUDGET_BLOCKED]"

lemma book_run_status_members_complete: "e \<in> set book_run_status_members"
  by (cases e) (simp_all add: book_run_status_members_def)

lemma book_run_status_roundtrip [simp]: "enum_parse book_run_status_value book_run_status_members (book_run_status_value e) = Inr e"
  by (rule enum_roundtrip [OF _ book_run_status_members_complete]) (simp add: book_run_status_members_def)

section \<open>BookSnapshotStatus\<close>

datatype book_snapshot_status =
    BookSnapshotStatus_CANDIDATE
  | BookSnapshotStatus_REVIEWED
  | BookSnapshotStatus_ACCEPTED
  | BookSnapshotStatus_SUPERSEDED
  | BookSnapshotStatus_NEEDS_REVIEW

fun book_snapshot_status_value :: "book_snapshot_status \<Rightarrow> string" where
  "book_snapshot_status_value BookSnapshotStatus_CANDIDATE = ''candidate''"
| "book_snapshot_status_value BookSnapshotStatus_REVIEWED = ''reviewed''"
| "book_snapshot_status_value BookSnapshotStatus_ACCEPTED = ''accepted''"
| "book_snapshot_status_value BookSnapshotStatus_SUPERSEDED = ''superseded''"
| "book_snapshot_status_value BookSnapshotStatus_NEEDS_REVIEW = ''needs_review''"

definition book_snapshot_status_members :: "book_snapshot_status list" where
  "book_snapshot_status_members =
    [BookSnapshotStatus_CANDIDATE,
     BookSnapshotStatus_REVIEWED,
     BookSnapshotStatus_ACCEPTED,
     BookSnapshotStatus_SUPERSEDED,
     BookSnapshotStatus_NEEDS_REVIEW]"

lemma book_snapshot_status_members_complete: "e \<in> set book_snapshot_status_members"
  by (cases e) (simp_all add: book_snapshot_status_members_def)

lemma book_snapshot_status_roundtrip [simp]: "enum_parse book_snapshot_status_value book_snapshot_status_members (book_snapshot_status_value e) = Inr e"
  by (rule enum_roundtrip [OF _ book_snapshot_status_members_complete]) (simp add: book_snapshot_status_members_def)

section \<open>KnowledgeStatus\<close>

datatype knowledge_status =
    KnowledgeStatus_KNOWN
  | KnowledgeStatus_FORGOTTEN
  | KnowledgeStatus_MISLED
  | KnowledgeStatus_FALSE_BELIEF

fun knowledge_status_value :: "knowledge_status \<Rightarrow> string" where
  "knowledge_status_value KnowledgeStatus_KNOWN = ''known''"
| "knowledge_status_value KnowledgeStatus_FORGOTTEN = ''forgotten''"
| "knowledge_status_value KnowledgeStatus_MISLED = ''misled''"
| "knowledge_status_value KnowledgeStatus_FALSE_BELIEF = ''false_belief''"

definition knowledge_status_members :: "knowledge_status list" where
  "knowledge_status_members =
    [KnowledgeStatus_KNOWN,
     KnowledgeStatus_FORGOTTEN,
     KnowledgeStatus_MISLED,
     KnowledgeStatus_FALSE_BELIEF]"

lemma knowledge_status_members_complete: "e \<in> set knowledge_status_members"
  by (cases e) (simp_all add: knowledge_status_members_def)

lemma knowledge_status_roundtrip [simp]: "enum_parse knowledge_status_value knowledge_status_members (knowledge_status_value e) = Inr e"
  by (rule enum_roundtrip [OF _ knowledge_status_members_complete]) (simp add: knowledge_status_members_def)

section \<open>BookRevisionStatus\<close>

datatype book_revision_status =
    BookRevisionStatus_PENDING
  | BookRevisionStatus_RUNNING
  | BookRevisionStatus_COMPLETED
  | BookRevisionStatus_SKIPPED
  | BookRevisionStatus_FAILED

fun book_revision_status_value :: "book_revision_status \<Rightarrow> string" where
  "book_revision_status_value BookRevisionStatus_PENDING = ''pending''"
| "book_revision_status_value BookRevisionStatus_RUNNING = ''running''"
| "book_revision_status_value BookRevisionStatus_COMPLETED = ''completed''"
| "book_revision_status_value BookRevisionStatus_SKIPPED = ''skipped''"
| "book_revision_status_value BookRevisionStatus_FAILED = ''failed''"

definition book_revision_status_members :: "book_revision_status list" where
  "book_revision_status_members =
    [BookRevisionStatus_PENDING,
     BookRevisionStatus_RUNNING,
     BookRevisionStatus_COMPLETED,
     BookRevisionStatus_SKIPPED,
     BookRevisionStatus_FAILED]"

lemma book_revision_status_members_complete: "e \<in> set book_revision_status_members"
  by (cases e) (simp_all add: book_revision_status_members_def)

lemma book_revision_status_roundtrip [simp]: "enum_parse book_revision_status_value book_revision_status_members (book_revision_status_value e) = Inr e"
  by (rule enum_roundtrip [OF _ book_revision_status_members_complete]) (simp add: book_revision_status_members_def)

section \<open>ChapterImpactStatus\<close>

datatype chapter_impact_status =
    ChapterImpactStatus_UNAFFECTED
  | ChapterImpactStatus_RECHECK_REQUIRED
  | ChapterImpactStatus_REVISION_REQUIRED

fun chapter_impact_status_value :: "chapter_impact_status \<Rightarrow> string" where
  "chapter_impact_status_value ChapterImpactStatus_UNAFFECTED = ''unaffected''"
| "chapter_impact_status_value ChapterImpactStatus_RECHECK_REQUIRED = ''recheck_required''"
| "chapter_impact_status_value ChapterImpactStatus_REVISION_REQUIRED = ''revision_required''"

definition chapter_impact_status_members :: "chapter_impact_status list" where
  "chapter_impact_status_members =
    [ChapterImpactStatus_UNAFFECTED,
     ChapterImpactStatus_RECHECK_REQUIRED,
     ChapterImpactStatus_REVISION_REQUIRED]"

lemma chapter_impact_status_members_complete: "e \<in> set chapter_impact_status_members"
  by (cases e) (simp_all add: chapter_impact_status_members_def)

lemma chapter_impact_status_roundtrip [simp]: "enum_parse chapter_impact_status_value chapter_impact_status_members (chapter_impact_status_value e) = Inr e"
  by (rule enum_roundtrip [OF _ chapter_impact_status_members_complete]) (simp add: chapter_impact_status_members_def)

section \<open>JobStatus\<close>

datatype job_status =
    JobStatus_PENDING
  | JobStatus_OUTBOX_PENDING
  | JobStatus_QUEUED
  | JobStatus_LEASED
  | JobStatus_RUNNING
  | JobStatus_PAUSE_REQUESTED
  | JobStatus_PAUSED
  | JobStatus_CANCEL_REQUESTED
  | JobStatus_CANCELLED
  | JobStatus_RETRY_SCHEDULED
  | JobStatus_SUCCEEDED
  | JobStatus_FAILED
  | JobStatus_DEAD_LETTERED

fun job_status_value :: "job_status \<Rightarrow> string" where
  "job_status_value JobStatus_PENDING = ''pending''"
| "job_status_value JobStatus_OUTBOX_PENDING = ''outbox_pending''"
| "job_status_value JobStatus_QUEUED = ''queued''"
| "job_status_value JobStatus_LEASED = ''leased''"
| "job_status_value JobStatus_RUNNING = ''running''"
| "job_status_value JobStatus_PAUSE_REQUESTED = ''pause_requested''"
| "job_status_value JobStatus_PAUSED = ''paused''"
| "job_status_value JobStatus_CANCEL_REQUESTED = ''cancel_requested''"
| "job_status_value JobStatus_CANCELLED = ''cancelled''"
| "job_status_value JobStatus_RETRY_SCHEDULED = ''retry_scheduled''"
| "job_status_value JobStatus_SUCCEEDED = ''succeeded''"
| "job_status_value JobStatus_FAILED = ''failed''"
| "job_status_value JobStatus_DEAD_LETTERED = ''dead_lettered''"

definition job_status_members :: "job_status list" where
  "job_status_members =
    [JobStatus_PENDING,
     JobStatus_OUTBOX_PENDING,
     JobStatus_QUEUED,
     JobStatus_LEASED,
     JobStatus_RUNNING,
     JobStatus_PAUSE_REQUESTED,
     JobStatus_PAUSED,
     JobStatus_CANCEL_REQUESTED,
     JobStatus_CANCELLED,
     JobStatus_RETRY_SCHEDULED,
     JobStatus_SUCCEEDED,
     JobStatus_FAILED,
     JobStatus_DEAD_LETTERED]"

lemma job_status_members_complete: "e \<in> set job_status_members"
  by (cases e) (simp_all add: job_status_members_def)

lemma job_status_roundtrip [simp]: "enum_parse job_status_value job_status_members (job_status_value e) = Inr e"
  by (rule enum_roundtrip [OF _ job_status_members_complete]) (simp add: job_status_members_def)

section \<open>JobEventType\<close>

datatype job_event_type =
    JobEventType_JOB_CREATED
  | JobEventType_JOB_QUEUED
  | JobEventType_JOB_LEASED
  | JobEventType_JOB_STARTED
  | JobEventType_PROGRESS_UPDATED
  | JobEventType_WORKFLOW_NODE_STARTED
  | JobEventType_WORKFLOW_NODE_COMPLETED
  | JobEventType_RETRY_SCHEDULED
  | JobEventType_PAUSE_REQUESTED
  | JobEventType_JOB_PAUSED
  | JobEventType_RESUME_REQUESTED
  | JobEventType_CANCEL_REQUESTED
  | JobEventType_JOB_CANCELLED
  | JobEventType_JOB_SUCCEEDED
  | JobEventType_JOB_FAILED
  | JobEventType_JOB_DEAD_LETTERED
  | JobEventType_JOB_DISCARDED

fun job_event_type_value :: "job_event_type \<Rightarrow> string" where
  "job_event_type_value JobEventType_JOB_CREATED = ''job_created''"
| "job_event_type_value JobEventType_JOB_QUEUED = ''job_queued''"
| "job_event_type_value JobEventType_JOB_LEASED = ''job_leased''"
| "job_event_type_value JobEventType_JOB_STARTED = ''job_started''"
| "job_event_type_value JobEventType_PROGRESS_UPDATED = ''progress_updated''"
| "job_event_type_value JobEventType_WORKFLOW_NODE_STARTED = ''workflow_node_started''"
| "job_event_type_value JobEventType_WORKFLOW_NODE_COMPLETED = ''workflow_node_completed''"
| "job_event_type_value JobEventType_RETRY_SCHEDULED = ''retry_scheduled''"
| "job_event_type_value JobEventType_PAUSE_REQUESTED = ''pause_requested''"
| "job_event_type_value JobEventType_JOB_PAUSED = ''job_paused''"
| "job_event_type_value JobEventType_RESUME_REQUESTED = ''resume_requested''"
| "job_event_type_value JobEventType_CANCEL_REQUESTED = ''cancel_requested''"
| "job_event_type_value JobEventType_JOB_CANCELLED = ''job_cancelled''"
| "job_event_type_value JobEventType_JOB_SUCCEEDED = ''job_succeeded''"
| "job_event_type_value JobEventType_JOB_FAILED = ''job_failed''"
| "job_event_type_value JobEventType_JOB_DEAD_LETTERED = ''job_dead_lettered''"
| "job_event_type_value JobEventType_JOB_DISCARDED = ''job_discarded''"

definition job_event_type_members :: "job_event_type list" where
  "job_event_type_members =
    [JobEventType_JOB_CREATED,
     JobEventType_JOB_QUEUED,
     JobEventType_JOB_LEASED,
     JobEventType_JOB_STARTED,
     JobEventType_PROGRESS_UPDATED,
     JobEventType_WORKFLOW_NODE_STARTED,
     JobEventType_WORKFLOW_NODE_COMPLETED,
     JobEventType_RETRY_SCHEDULED,
     JobEventType_PAUSE_REQUESTED,
     JobEventType_JOB_PAUSED,
     JobEventType_RESUME_REQUESTED,
     JobEventType_CANCEL_REQUESTED,
     JobEventType_JOB_CANCELLED,
     JobEventType_JOB_SUCCEEDED,
     JobEventType_JOB_FAILED,
     JobEventType_JOB_DEAD_LETTERED,
     JobEventType_JOB_DISCARDED]"

lemma job_event_type_members_complete: "e \<in> set job_event_type_members"
  by (cases e) (simp_all add: job_event_type_members_def)

lemma job_event_type_roundtrip [simp]: "enum_parse job_event_type_value job_event_type_members (job_event_type_value e) = Inr e"
  by (rule enum_roundtrip [OF _ job_event_type_members_complete]) (simp add: job_event_type_members_def)

section \<open>OutboxStatus\<close>

datatype outbox_status =
    OutboxStatus_PENDING
  | OutboxStatus_CLAIMED
  | OutboxStatus_PUBLISHED
  | OutboxStatus_FAILED

fun outbox_status_value :: "outbox_status \<Rightarrow> string" where
  "outbox_status_value OutboxStatus_PENDING = ''pending''"
| "outbox_status_value OutboxStatus_CLAIMED = ''claimed''"
| "outbox_status_value OutboxStatus_PUBLISHED = ''published''"
| "outbox_status_value OutboxStatus_FAILED = ''failed''"

definition outbox_status_members :: "outbox_status list" where
  "outbox_status_members =
    [OutboxStatus_PENDING,
     OutboxStatus_CLAIMED,
     OutboxStatus_PUBLISHED,
     OutboxStatus_FAILED]"

lemma outbox_status_members_complete: "e \<in> set outbox_status_members"
  by (cases e) (simp_all add: outbox_status_members_def)

lemma outbox_status_roundtrip [simp]: "enum_parse outbox_status_value outbox_status_members (outbox_status_value e) = Inr e"
  by (rule enum_roundtrip [OF _ outbox_status_members_complete]) (simp add: outbox_status_members_def)

section \<open>WorkerStatus\<close>

datatype worker_status =
    WorkerStatus_STARTING
  | WorkerStatus_IDLE
  | WorkerStatus_BUSY
  | WorkerStatus_STOPPING
  | WorkerStatus_OFFLINE

fun worker_status_value :: "worker_status \<Rightarrow> string" where
  "worker_status_value WorkerStatus_STARTING = ''starting''"
| "worker_status_value WorkerStatus_IDLE = ''idle''"
| "worker_status_value WorkerStatus_BUSY = ''busy''"
| "worker_status_value WorkerStatus_STOPPING = ''stopping''"
| "worker_status_value WorkerStatus_OFFLINE = ''offline''"

definition worker_status_members :: "worker_status list" where
  "worker_status_members =
    [WorkerStatus_STARTING,
     WorkerStatus_IDLE,
     WorkerStatus_BUSY,
     WorkerStatus_STOPPING,
     WorkerStatus_OFFLINE]"

lemma worker_status_members_complete: "e \<in> set worker_status_members"
  by (cases e) (simp_all add: worker_status_members_def)

lemma worker_status_roundtrip [simp]: "enum_parse worker_status_value worker_status_members (worker_status_value e) = Inr e"
  by (rule enum_roundtrip [OF _ worker_status_members_complete]) (simp add: worker_status_members_def)

end
