(* ===== verification/Repository.thy ===== *)
theory Repository
  imports Prelude "HOL-Library.Product_Lexorder"
begin

text \<open>
  The generic repository of \<open>src/src/storyforge/repositories/base.py\<close> over an in-memory
  table: the rows in insertion order and the next primary key the database will hand out.
  A repository is fixed by the primary key of a row (\<open>key\<close>) and by how the database writes
  a fresh key into a row (\<open>with_key\<close>); the locale \<open>repository\<close> states the two laws that
  make this an identity column and proves what every concrete repository relies on.
\<close>

section \<open>Tables and the operations of Repository\<close>

record 'r table =
  t_rows :: "'r list"
  t_next :: int

definition empty_table :: "'r table" where
  "empty_table = \<lparr>t_rows = [], t_next = 1\<rparr>"

text \<open>\<open>Repository.get\<close>: one row by primary key.\<close>

definition repo_get :: "('r \<Rightarrow> int) \<Rightarrow> 'r table \<Rightarrow> int \<Rightarrow> 'r option" where
  "repo_get key t i = find (\<lambda>r. key r = i) (t_rows t)"

text \<open>\<open>Repository.add\<close>: insert, flush, and return the row with its database key.\<close>

definition repo_add :: "(int \<Rightarrow> 'r \<Rightarrow> 'r) \<Rightarrow> 'r table \<Rightarrow> 'r \<Rightarrow> 'r table \<times> 'r" where
  "repo_add with_key t r =
     (let row = with_key (t_next t) r
      in (t\<lparr>t_rows := t_rows t @ [row], t_next := t_next t + 1\<rparr>, row))"

text \<open>
  Flushing a loaded entity whose columns were assigned (the unit of work behind \<open>update\<close>
  and behind every attribute assignment in the services).
\<close>

definition repo_save :: "('r \<Rightarrow> int) \<Rightarrow> 'r table \<Rightarrow> 'r \<Rightarrow> 'r table" where
  "repo_save key t r =
     t\<lparr>t_rows := map (\<lambda>x. if key x = key r then r else x) (t_rows t)\<rparr>"

text \<open>\<open>Repository.delete\<close>.\<close>

definition repo_delete :: "('r \<Rightarrow> int) \<Rightarrow> 'r table \<Rightarrow> 'r \<Rightarrow> 'r table" where
  "repo_delete key t r = t\<lparr>t_rows := filter (\<lambda>x. key x \<noteq> key r) (t_rows t)\<rparr>"

text \<open>\<open>Repository.list\<close>: a bounded page in primary-key order, with both argument checks.\<close>

definition repo_list :: "('r \<Rightarrow> int) \<Rightarrow> 'r table \<Rightarrow> int \<Rightarrow> int \<Rightarrow> 'r list result" where
  "repo_list key t offset limit =
     (if offset < 0 then Inl ValueError
      else if limit \<le> 0 then Inl ValueError
      else Inr (take (nat limit) (drop (nat offset) (sort_key key (t_rows t)))))"

text \<open>\<open>PageSlice\<close> and \<open>Repository.paginate\<close> over the rows a statement selects, in its order.\<close>

record 'r page_slice =
  ps_items :: "'r list"
  ps_total_items :: int

definition paginate :: "'r list \<Rightarrow> int \<Rightarrow> int \<Rightarrow> 'r page_slice result" where
  "paginate selected page page_size =
     (if page \<le> 0 \<or> page_size \<le> 0 then Inl ValueError
      else Inr \<lparr>ps_items = take (nat page_size) (drop (nat ((page - 1) * page_size)) selected),
                ps_total_items = int (length selected)\<rparr>)"

section \<open>What the operations guarantee\<close>

text \<open>The rows have distinct primary keys, all handed out before \<open>t_next\<close>.\<close>

definition table_ok :: "('r \<Rightarrow> int) \<Rightarrow> 'r table \<Rightarrow> bool" where
  "table_ok key t \<longleftrightarrow> distinct (map key (t_rows t)) \<and> (\<forall>r \<in> set (t_rows t). key r < t_next t)"

locale repository =
  fixes key :: "'r \<Rightarrow> int"
    and with_key :: "int \<Rightarrow> 'r \<Rightarrow> 'r"
  assumes key_with_key: "key (with_key i r) = i"
begin

lemma get_Some: "repo_get key t i = Some r \<Longrightarrow> r \<in> set (t_rows t) \<and> key r = i"
  by (auto simp: repo_get_def dest: find_SomeD)

lemma get_None: "repo_get key t i = None \<longleftrightarrow> (\<forall>r \<in> set (t_rows t). key r \<noteq> i)"
  by (auto simp: repo_get_def find_None_iff)

lemma get_row: "table_ok key t \<Longrightarrow> r \<in> set (t_rows t) \<Longrightarrow> repo_get key t (key r) = Some r"
  by (simp add: repo_get_def table_ok_def find_unique)

lemma ok_empty: "table_ok key empty_table"
  by (simp add: table_ok_def empty_table_def)

lemma ok_add: "table_ok key t \<Longrightarrow> table_ok key (fst (repo_add with_key t r))"
  by (force simp: table_ok_def repo_add_def Let_def key_with_key)

lemma ok_save: "table_ok key t \<Longrightarrow> table_ok key (repo_save key t r)"
proof -
  assume ok: "table_ok key t"
  have "map key (t_rows (repo_save key t r)) = map key (t_rows t)"
    by (simp add: repo_save_def)
  moreover have "\<forall>x \<in> set (t_rows (repo_save key t r)). key x < t_next t"
    using ok by (auto simp: table_ok_def repo_save_def)
  ultimately show ?thesis using ok by (simp add: table_ok_def) (simp add: repo_save_def)
qed

lemma ok_delete: "table_ok key t \<Longrightarrow> table_ok key (repo_delete key t r)"
  by (auto simp: table_ok_def repo_delete_def intro: distinct_map_filter)

lemma key_add: "key (snd (repo_add with_key t r)) = t_next t"
  by (simp add: repo_add_def Let_def key_with_key)

lemma get_fresh: "table_ok key t \<Longrightarrow> repo_get key t (t_next t) = None"
  by (auto simp: get_None table_ok_def)

lemma get_add:
  assumes "table_ok key t"
  shows "repo_get key (fst (repo_add with_key t r)) i =
     (if i = t_next t then Some (snd (repo_add with_key t r)) else repo_get key t i)"
proof -
  have "repo_get key (fst (repo_add with_key t r)) i =
      (case repo_get key t i of Some x \<Rightarrow> Some x
       | None \<Rightarrow> if i = t_next t then Some (with_key (t_next t) r) else None)"
    by (simp add: repo_get_def repo_add_def Let_def key_with_key find_append split: option.split)
  then show ?thesis
    using get_fresh [OF assms] by (auto simp: repo_add_def Let_def split: option.split)
qed

lemma get_save:
  "repo_get key (repo_save key t r) i =
     (if i = key r then map_option (\<lambda>_. r) (repo_get key t i) else repo_get key t i)"
proof -
  have "repo_get key (repo_save key t r) i =
      map_option (\<lambda>x. if key x = key r then r else x) (repo_get key t i)"
    by (simp add: repo_get_def repo_save_def find_map_replace)
  then show ?thesis
    by (cases "repo_get key t i") (auto dest: get_Some)
qed

lemma get_delete:
  "repo_get key (repo_delete key t r) i = (if i = key r then None else repo_get key t i)"
proof (cases "i = key r")
  case True
  then show ?thesis by (simp add: get_None repo_delete_def)
next
  case False
  have "find (\<lambda>x. key x = i) (filter (\<lambda>x. key x \<noteq> key r) xs) = find (\<lambda>x. key x = i) xs" for xs
    using False by (induction xs) auto
  with False show ?thesis by (simp add: repo_get_def repo_delete_def)
qed

lemma rows_save: "set (t_rows (repo_save key t r)) \<subseteq> insert r (set (t_rows t))"
  by (auto simp: repo_save_def)

lemma rows_add:
  "t_rows (fst (repo_add with_key t r)) = t_rows t @ [snd (repo_add with_key t r)]"
  by (simp add: repo_add_def Let_def)

lemma map_save:
  "f r = f' \<Longrightarrow> (\<And>x. x \<in> set (t_rows t) \<Longrightarrow> key x = key r \<Longrightarrow> f x = f') \<Longrightarrow>
   map f (t_rows (repo_save key t r)) = map f (t_rows t)"
  by (simp add: repo_save_def)

lemma list_bounded:
  "repo_list key t offset limit = Inr xs \<Longrightarrow>
   length xs \<le> nat limit \<and> set xs \<subseteq> set (t_rows t) \<and> sorted (map key xs)"
  by (auto simp: repo_list_def drop_map [symmetric] take_map [symmetric] sorted_wrt_take
      sorted_wrt_drop split: if_splits dest!: in_set_takeD in_set_dropD)

end

subsection \<open>Pagination partitions the selection\<close>

lemma concat_slices:
  "0 < s \<Longrightarrow> concat (map (\<lambda>p. take s (drop (p * s) xs)) [0..<n]) = take (n * s) xs"
proof (induction n)
  case 0
  then show ?case by simp
next
  case (Suc n)
  have "take (n * s + s) xs = take (n * s) xs @ take s (drop (n * s) xs)"
    by (rule take_add)
  with Suc show ?case by (simp add: add.commute)
qed

lemma paginate_items:
  "0 < page \<Longrightarrow> 0 < psize \<Longrightarrow>
   paginate xs page psize =
     Inr \<lparr>ps_items = take (nat psize) (drop ((nat page - 1) * nat psize) xs),
          ps_total_items = int (length xs)\<rparr>"
  by (simp add: paginate_def nat_mult_distrib nat_diff_distrib)

end
