(* ===== verification/Entities.thy ===== *)
theory Entities
  imports Complex_Main Enums Repository
begin

text \<open>
  The persisted entities of \<open>src/src/storyforge/models/entities.py\<close> and \<open>models/books.py\<close>
  that the job, workflow and book-run services read and write: one record per table, one
  field per column, in the order of the class. \<open>Mapped[X | None]\<close> is an option, \<open>Numeric\<close>
  (a \<open>Decimal\<close>) a rational, a JSON dictionary the list of its items. Relationships are
  queries over the other tables and have no field.
\<close>

section \<open>Project and Chapter\<close>

record project =
  pr_id :: int
  pr_title :: string
  pr_genre :: string
  pr_premise :: string
  pr_target_chapters :: int
  pr_target_words_per_chapter :: int
  pr_language :: string
  pr_tone :: "string option"
  pr_audience :: "string option"
  pr_additional_requirements :: string
  pr_logline :: "string option"
  pr_themes :: "string list"
  pr_world_summary :: "string option"
  pr_central_conflict :: "string option"
  pr_ending_direction :: "string option"
  pr_style_guide :: "string option"
  pr_status :: project_status
  pr_model_profile :: model_profile
  pr_privacy_policy :: privacy_policy

record chapter_row =
  ch_id :: int
  ch_project_id :: int
  ch_chapter_number :: int
  ch_title :: string
  ch_outline :: string
  ch_objective :: string
  ch_outline_metadata :: "(string \<times> json) list"
  ch_content :: string
  ch_summary :: "string option"
  ch_status :: chapter_status
  ch_version :: int
  ch_score :: "rat option"
  ch_generation_metadata :: "(string \<times> json) list"
  ch_current_version_id :: "int option"
  ch_accepted_version_id :: "int option"

section \<open>WorkflowRun\<close>

record workflow_run =
  wr_id :: int
  wr_project_id :: int
  wr_chapter_id :: int
  wr_current_node :: string
  wr_status :: workflow_run_status
  wr_retry_count :: int
  wr_workflow_type :: string
  wr_operation :: string
  wr_thread_id :: string
  wr_original_version_id :: "int option"
  wr_current_version_id :: "int option"
  wr_best_version_id :: "int option"
  wr_accepted_version_id :: "int option"
  wr_revision_attempt :: int
  wr_max_revision_attempts :: int
  wr_node_history :: "string list"
  wr_blocking_reasons :: "string list"
  wr_error_code :: "string option"
  wr_prompt_versions :: "(string \<times> string) list"
  wr_error_message :: "string option"
  wr_started_at :: time
  wr_finished_at :: "time option"
  wr_updated_at :: time
  wr_provider_call_count :: int
  wr_provider_input_tokens :: int
  wr_provider_output_tokens :: int
  wr_provider_estimated_cost :: rat
  wr_provider_fallback_count :: int
  wr_provider_rate_limit_count :: int

section \<open>Job, JobEvent, OutboxMessage, WorkerRecord\<close>

record job =
  j_id :: int
  j_project_id :: "int option"
  j_chapter_id :: "int option"
  j_workflow_run_id :: "int option"
  j_book_run_id :: "int option"
  j_parent_job_id :: "int option"
  j_job_type :: job_type
  j_queue_name :: string
  j_status :: job_status
  j_priority :: int
  j_idempotency_key :: string
  j_payload :: "(string \<times> json) list"
  j_payload_schema_version :: int
  j_result :: "(string \<times> json) list"
  j_result_schema_version :: int
  j_progress :: int
  j_current_step :: "string option"
  j_attempt :: int
  j_max_attempts :: int
  j_event_sequence :: int
  j_available_at :: time
  j_queued_at :: "time option"
  j_started_at :: "time option"
  j_heartbeat_at :: "time option"
  j_lease_expires_at :: "time option"
  j_finished_at :: "time option"
  j_cancel_requested_at :: "time option"
  j_cancelled_at :: "time option"
  j_error_code :: "string option"
  j_error_message :: "string option"
  j_worker_id :: "string option"
  j_correlation_id :: string
  j_created_at :: time
  j_updated_at :: time

record job_event =
  e_id :: int
  e_job_id :: int
  e_sequence :: int
  e_event_type :: job_event_type
  e_status :: job_status
  e_step :: "string option"
  e_progress :: int
  e_message_code :: string
  e_message :: string
  e_attempt :: int
  e_worker_id :: "string option"
  e_workflow_event_id :: "int option"
  e_created_at :: time

record outbox_message =
  o_id :: int
  o_aggregate_type :: string
  o_aggregate_id :: int
  o_event_type :: string
  o_payload :: "(string \<times> json) list"
  o_status :: outbox_status
  o_attempt :: int
  o_available_at :: time
  o_created_at :: time
  o_published_at :: "time option"
  o_claimed_at :: "time option"
  o_claimed_by :: "string option"
  o_last_error :: "string option"
  o_deduplication_key :: string

record worker_record =
  w_id :: int
  w_worker_id :: string
  w_queue_name :: string
  w_status :: worker_status
  w_current_job_id :: "int option"
  w_started_at :: time
  w_last_heartbeat_at :: time
  w_version :: string

section \<open>BookRun\<close>

record book_run =
  br_id :: int
  br_project_id :: int
  br_status :: book_run_status
  br_mode :: book_run_mode
  br_thread_id :: string
  br_idempotency_key :: string
  br_total_chapters :: int
  br_completed_chapters :: int
  br_accepted_chapters :: int
  br_failed_chapters :: int
  br_needs_review_chapters :: int
  br_current_chapter_number :: "int option"
  br_max_chapter_retries :: int
  br_max_global_revision_rounds :: int
  br_current_global_revision_round :: int
  br_model_profile :: model_profile
  br_privacy_policy :: privacy_policy
  br_budget_id :: "int option"
  br_job_id :: "int option"
  br_workflow_run_id :: "int option"
  br_book_snapshot_id :: "int option"
  br_best_snapshot_id :: "int option"
  br_current_node :: string
  br_node_history :: "string list"
  br_blocking_reasons :: "string list"
  br_chapter_job_map :: "(string \<times> int) list"
  br_chapter_status_map :: "(string \<times> string) list"
  br_impacted_chapters :: "(string \<times> string) list"
  br_periodic_checks :: "json list"
  br_progress :: int
  br_max_estimated_cost :: rat
  br_max_total_tokens :: int
  br_max_provider_calls :: int
  br_spent_cost :: rat
  br_used_tokens :: int
  br_provider_calls :: int
  br_started_at :: "time option"
  br_updated_at :: time
  br_finished_at :: "time option"
  br_error_code :: "string option"
  br_error_message :: "string option"

section \<open>The repositories\<close>

text \<open>Every table is an identity-keyed table of the generic repository.\<close>

interpretation projects: repository pr_id "\<lambda>i r. r\<lparr>pr_id := i\<rparr>"
  by unfold_locales simp

interpretation chapters: repository ch_id "\<lambda>i r. r\<lparr>ch_id := i\<rparr>"
  by unfold_locales simp

interpretation workflow_runs: repository wr_id "\<lambda>i r. r\<lparr>wr_id := i\<rparr>"
  by unfold_locales simp

interpretation jobs: repository j_id "\<lambda>i r. r\<lparr>j_id := i\<rparr>"
  by unfold_locales simp

interpretation job_events: repository e_id "\<lambda>i r. r\<lparr>e_id := i\<rparr>"
  by unfold_locales simp

interpretation outbox: repository o_id "\<lambda>i r. r\<lparr>o_id := i\<rparr>"
  by unfold_locales simp

interpretation workers: repository w_id "\<lambda>i r. r\<lparr>w_id := i\<rparr>"
  by unfold_locales simp

interpretation book_runs: repository br_id "\<lambda>i r. r\<lparr>br_id := i\<rparr>"
  by unfold_locales simp

end
