(* ===== verification/Transitions.thy ===== *)
theory Transitions
  imports Entities
begin

text \<open>
  The three centralised state machines: \<open>jobs/transitions.py\<close>, \<open>workflows/transitions.py\<close> and
  \<open>book/transitions.py\<close>. Each has a table of allowed targets and a function that applies one
  transition or raises \<open>InvalidStateError\<close>. The locale \<open>status_machine\<close> states what all three
  share and derives what a history of transitions can look like.
\<close>

section \<open>Jobs: jobs/transitions.py\<close>

definition terminal_job_statuses :: "job_status list" where
  "terminal_job_statuses =
     [JobStatus_SUCCEEDED, JobStatus_FAILED, JobStatus_CANCELLED, JobStatus_DEAD_LETTERED]"

fun job_allowed :: "job_status \<Rightarrow> job_status list" where
  "job_allowed JobStatus_PENDING = [JobStatus_OUTBOX_PENDING, JobStatus_CANCEL_REQUESTED]"
| "job_allowed JobStatus_OUTBOX_PENDING =
     [JobStatus_QUEUED, JobStatus_PAUSE_REQUESTED, JobStatus_CANCEL_REQUESTED, JobStatus_FAILED]"
| "job_allowed JobStatus_QUEUED =
     [JobStatus_LEASED, JobStatus_PAUSE_REQUESTED, JobStatus_CANCEL_REQUESTED,
      JobStatus_RETRY_SCHEDULED]"
| "job_allowed JobStatus_LEASED =
     [JobStatus_RUNNING, JobStatus_QUEUED, JobStatus_RETRY_SCHEDULED, JobStatus_CANCEL_REQUESTED]"
| "job_allowed JobStatus_RUNNING =
     [JobStatus_SUCCEEDED, JobStatus_FAILED, JobStatus_RETRY_SCHEDULED, JobStatus_PAUSE_REQUESTED,
      JobStatus_CANCEL_REQUESTED]"
| "job_allowed JobStatus_PAUSE_REQUESTED =
     [JobStatus_PAUSED, JobStatus_CANCEL_REQUESTED, JobStatus_FAILED]"
| "job_allowed JobStatus_PAUSED = [JobStatus_OUTBOX_PENDING, JobStatus_CANCEL_REQUESTED]"
| "job_allowed JobStatus_CANCEL_REQUESTED = [JobStatus_CANCELLED, JobStatus_FAILED]"
| "job_allowed JobStatus_CANCELLED = []"
| "job_allowed JobStatus_RETRY_SCHEDULED =
     [JobStatus_OUTBOX_PENDING, JobStatus_QUEUED, JobStatus_CANCEL_REQUESTED,
      JobStatus_DEAD_LETTERED]"
| "job_allowed JobStatus_SUCCEEDED = []"
| "job_allowed JobStatus_FAILED = [JobStatus_RETRY_SCHEDULED, JobStatus_DEAD_LETTERED]"
| "job_allowed JobStatus_DEAD_LETTERED = [JobStatus_OUTBOX_PENDING]"

definition transition_job :: "job \<Rightarrow> job_status \<Rightarrow> time \<Rightarrow> job result" where
  "transition_job job target now =
     (if target = j_status job then Inr job
      else if target \<notin> set (job_allowed (j_status job)) then Inl InvalidStateError
      else
        let job1 = job\<lparr>j_status := target, j_updated_at := now\<rparr>;
            job2 = (if target \<in> set terminal_job_statuses \<or> target = JobStatus_FAILED
                    then job1\<lparr>j_finished_at := Some now, j_lease_expires_at := None,
                              j_heartbeat_at := None, j_worker_id := None\<rparr>
                    else job1);
            job3 = (if target = JobStatus_CANCELLED then job2\<lparr>j_cancelled_at := Some now\<rparr>
                    else job2)
        in Inr job3)"

definition is_terminal_job :: "job_status \<Rightarrow> bool" where
  "is_terminal_job status \<longleftrightarrow> status \<in> set terminal_job_statuses"

section \<open>Chapter workflows: workflows/transitions.py\<close>

fun workflow_allowed :: "workflow_run_status \<Rightarrow> workflow_run_status list" where
  "workflow_allowed WorkflowRunStatus_PENDING =
     [WorkflowRunStatus_RUNNING, WorkflowRunStatus_CANCELLED, WorkflowRunStatus_FAILED]"
| "workflow_allowed WorkflowRunStatus_RUNNING =
     [WorkflowRunStatus_PAUSED, WorkflowRunStatus_COMPLETED,
      WorkflowRunStatus_COMPLETED_NEEDS_REVIEW, WorkflowRunStatus_FAILED,
      WorkflowRunStatus_CANCELLED]"
| "workflow_allowed WorkflowRunStatus_PAUSED =
     [WorkflowRunStatus_RUNNING, WorkflowRunStatus_CANCELLED, WorkflowRunStatus_FAILED]"
| "workflow_allowed WorkflowRunStatus_COMPLETED = []"
| "workflow_allowed WorkflowRunStatus_COMPLETED_NEEDS_REVIEW = []"
| "workflow_allowed WorkflowRunStatus_CANCELLED = []"
| "workflow_allowed WorkflowRunStatus_FAILED = []"
| "workflow_allowed WorkflowRunStatus_SUCCEEDED = []"
| "workflow_allowed WorkflowRunStatus_NEEDS_HUMAN_REVIEW = []"

definition transition_workflow :: "workflow_run \<Rightarrow> workflow_run_status \<Rightarrow> workflow_run result" where
  "transition_workflow run target =
     (if wr_status run = target then Inr run
      else if target \<notin> set (workflow_allowed (wr_status run)) then Inl InvalidStateError
      else Inr (run\<lparr>wr_status := target\<rparr>))"

section \<open>Full-book runs: book/transitions.py\<close>

fun book_run_allowed :: "book_run_status \<Rightarrow> book_run_status list" where
  "book_run_allowed BookRunStatus_PENDING =
     [BookRunStatus_PLANNING_VALIDATION, BookRunStatus_PAUSED, BookRunStatus_CANCELLED,
      BookRunStatus_FAILED]"
| "book_run_allowed BookRunStatus_PLANNING_VALIDATION =
     [BookRunStatus_GENERATING, BookRunStatus_PAUSED, BookRunStatus_CANCEL_REQUESTED,
      BookRunStatus_FAILED]"
| "book_run_allowed BookRunStatus_GENERATING =
     [BookRunStatus_GLOBAL_REVIEW, BookRunStatus_PAUSED, BookRunStatus_CANCEL_REQUESTED,
      BookRunStatus_COMPLETED_NEEDS_REVIEW, BookRunStatus_BUDGET_BLOCKED, BookRunStatus_FAILED]"
| "book_run_allowed BookRunStatus_PAUSED =
     [BookRunStatus_PLANNING_VALIDATION, BookRunStatus_GENERATING, BookRunStatus_GLOBAL_REVIEW,
      BookRunStatus_CANCELLED]"
| "book_run_allowed BookRunStatus_GLOBAL_REVIEW =
     [BookRunStatus_GLOBAL_REVISION, BookRunStatus_COMPLETED, BookRunStatus_COMPLETED_NEEDS_REVIEW,
      BookRunStatus_PAUSED, BookRunStatus_CANCEL_REQUESTED, BookRunStatus_BUDGET_BLOCKED,
      BookRunStatus_FAILED]"
| "book_run_allowed BookRunStatus_GLOBAL_REVISION =
     [BookRunStatus_GLOBAL_REVIEW, BookRunStatus_COMPLETED_NEEDS_REVIEW, BookRunStatus_PAUSED,
      BookRunStatus_CANCEL_REQUESTED, BookRunStatus_BUDGET_BLOCKED, BookRunStatus_FAILED]"
| "book_run_allowed BookRunStatus_BUDGET_BLOCKED =
     [BookRunStatus_GENERATING, BookRunStatus_GLOBAL_REVIEW, BookRunStatus_CANCELLED]"
| "book_run_allowed BookRunStatus_CANCEL_REQUESTED = [BookRunStatus_CANCELLED]"
| "book_run_allowed BookRunStatus_COMPLETED = []"
| "book_run_allowed BookRunStatus_COMPLETED_NEEDS_REVIEW = []"
| "book_run_allowed BookRunStatus_CANCELLED = []"
| "book_run_allowed BookRunStatus_FAILED = []"

definition terminal_book_run_statuses :: "book_run_status list" where
  "terminal_book_run_statuses =
     [BookRunStatus_COMPLETED, BookRunStatus_COMPLETED_NEEDS_REVIEW, BookRunStatus_CANCELLED,
      BookRunStatus_FAILED]"

definition transition_book_run :: "book_run \<Rightarrow> book_run_status \<Rightarrow> time \<Rightarrow> book_run result" where
  "transition_book_run run target now =
     (if target = br_status run then Inr run
      else if target \<notin> set (book_run_allowed (br_status run)) then Inl InvalidStateError
      else
        let run1 = run\<lparr>br_status := target, br_updated_at := now\<rparr>;
            run2 = (if br_started_at run1 = None
                      \<and> target \<notin> {BookRunStatus_PENDING, BookRunStatus_CANCELLED}
                    then run1\<lparr>br_started_at := Some now\<rparr> else run1);
            run3 = (if target \<in> set terminal_book_run_statuses
                    then run2\<lparr>br_finished_at := Some now\<rparr> else run2)
        in Inr run3)"

section \<open>What the three machines share\<close>

locale status_machine =
  fixes status :: "'r \<Rightarrow> 's"
    and allowed :: "'s \<Rightarrow> 's list"
    and transition :: "'r \<Rightarrow> 's \<Rightarrow> time \<Rightarrow> 'r result"
  assumes no_op: "transition r (status r) now = Inr r"
    and rejected: "\<lbrakk>t \<noteq> status r; t \<notin> set (allowed (status r))\<rbrakk> \<Longrightarrow>
      transition r t now = Inl InvalidStateError"
    and applied: "\<lbrakk>t \<noteq> status r; t \<in> set (allowed (status r))\<rbrakk> \<Longrightarrow>
      \<exists>r'. transition r t now = Inr r' \<and> status r' = t"
begin

lemma transition_cases:
  obtains (same) "t = status r" "transition r t now = Inr r"
  | (bad) "t \<noteq> status r" "t \<notin> set (allowed (status r))" "transition r t now = Inl InvalidStateError"
  | (moved) r' where "t \<noteq> status r" "t \<in> set (allowed (status r))" "transition r t now = Inr r'"
      "status r' = t"
  using no_op rejected applied by metis

lemma succeeds_iff:
  "(\<exists>r'. transition r t now = Inr r') \<longleftrightarrow> t = status r \<or> t \<in> set (allowed (status r))"
  by (rule transition_cases [of t r now]) simp_all

lemma error_only: "transition r t now = Inl e \<Longrightarrow> e = InvalidStateError"
  by (rule transition_cases [of t r now]) simp_all

lemma result_status: "transition r t now = Inr r' \<Longrightarrow> status r' = t"
  by (rule transition_cases [of t r now]) simp_all

lemma edge: "transition r t now = Inr r' \<Longrightarrow> r' = r \<or> status r' \<in> set (allowed (status r))"
  by (rule transition_cases [of t r now]) simp_all

lemma absorbing: "transition r t now = Inr r' \<Longrightarrow> allowed (status r) = [] \<Longrightarrow> r' = r"
  using edge [of r t now r'] by simp

text \<open>Every history of transitions is a path of the table.\<close>

inductive history :: "'r \<Rightarrow> 'r \<Rightarrow> bool" where
  here: "history r r"
| more: "history r r' \<Longrightarrow> transition r' t now = Inr r'' \<Longrightarrow> history r r''"

lemma history_path: "history r r' \<Longrightarrow> (\<lambda>a b. b \<in> set (allowed a))\<^sup>*\<^sup>* (status r) (status r')"
proof (induction rule: history.induct)
  case (more r r' t now r'')
  from edge [OF more.hyps(2)] show ?case
    using more.IH by (auto intro: rtranclp.rtrancl_into_rtrancl)
qed simp

lemma history_absorbing: "history r r' \<Longrightarrow> allowed (status r) = [] \<Longrightarrow> r' = r"
  by (induction rule: history.induct) (auto dest: absorbing)

end

interpretation job_machine: status_machine j_status job_allowed transition_job
  by unfold_locales (auto simp: transition_job_def Let_def)

interpretation workflow_machine: status_machine wr_status workflow_allowed
    "\<lambda>run t now. transition_workflow run t"
  by unfold_locales (auto simp: transition_workflow_def)

interpretation book_run_machine: status_machine br_status book_run_allowed transition_book_run
  by unfold_locales (auto simp: transition_book_run_def Let_def)

section \<open>Frame facts of a job transition\<close>

text \<open>What a transition leaves alone, as simplification rules on its result.\<close>

lemma transition_job_frame:
  assumes "transition_job job t now = Inr job'"
  shows "j_id job' = j_id job" "j_event_sequence job' = j_event_sequence job"
    "j_attempt job' = j_attempt job" "j_max_attempts job' = j_max_attempts job"
    "j_idempotency_key job' = j_idempotency_key job" "j_chapter_id job' = j_chapter_id job"
    "j_project_id job' = j_project_id job" "j_workflow_run_id job' = j_workflow_run_id job"
    "j_book_run_id job' = j_book_run_id job" "j_parent_job_id job' = j_parent_job_id job"
    "j_priority job' = j_priority job" "j_progress job' = j_progress job"
    "j_started_at job' = j_started_at job" "j_job_type job' = j_job_type job"
    "j_queue_name job' = j_queue_name job" "j_payload job' = j_payload job"
    "j_result job' = j_result job" "j_available_at job' = j_available_at job"
    "j_queued_at job' = j_queued_at job" "j_current_step job' = j_current_step job"
    "j_status job' = t"
  using assms by (auto simp: transition_job_def Let_def split: if_splits)

lemma transition_job_terminal:
  assumes "transition_job job t now = Inr job'" and "t \<in> set terminal_job_statuses"
    and "t \<noteq> j_status job"
  shows "j_worker_id job' = None" "j_lease_expires_at job' = None" "j_heartbeat_at job' = None"
    "j_finished_at job' = Some now"
  using assms by (auto simp: transition_job_def Let_def split: if_splits)

lemma transition_job_open:
  assumes "transition_job job t now = Inr job'" and "t \<notin> set terminal_job_statuses"
  shows "j_worker_id job' = j_worker_id job" "j_lease_expires_at job' = j_lease_expires_at job"
    "j_heartbeat_at job' = j_heartbeat_at job" "j_finished_at job' = j_finished_at job"
  using assms by (auto simp: transition_job_def Let_def terminal_job_statuses_def split: if_splits)

end
