(* ===== verification/Job_Store.thy ===== *)
theory Job_Store
  imports Transitions
begin

text \<open>
  The database the asynchronous subsystem works on, and its repositories
  (\<open>src/src/storyforge/repositories/jobs.py\<close>): job, event, outbox and worker rows with the
  queries and updates the services issue. A transaction is one function on the database:
  it works on the committed state and its caller keeps that state when it raises (the
  rollback). Transactions are serialised by the row locks, so \<open>SKIP LOCKED\<close> skips nothing.
\<close>

section \<open>The database\<close>

record db =
  db_projects :: "project table"
  db_chapters :: "chapter_row table"
  db_workflow_runs :: "workflow_run table"
  db_jobs :: "job table"
  db_events :: "job_event table"
  db_outbox :: "outbox_message table"
  db_workers :: "worker_record table"
  db_book_runs :: "book_run table"

definition empty_db :: db where
  "empty_db = \<lparr>db_projects = empty_table, db_chapters = empty_table,
     db_workflow_runs = empty_table, db_jobs = empty_table, db_events = empty_table,
     db_outbox = empty_table, db_workers = empty_table, db_book_runs = empty_table\<rparr>"

abbreviation job_rows :: "db \<Rightarrow> job list" where
  "job_rows db \<equiv> t_rows (db_jobs db)"

abbreviation event_rows :: "db \<Rightarrow> job_event list" where
  "event_rows db \<equiv> t_rows (db_events db)"

abbreviation outbox_rows :: "db \<Rightarrow> outbox_message list" where
  "outbox_rows db \<equiv> t_rows (db_outbox db)"

definition get_project :: "db \<Rightarrow> int \<Rightarrow> project option" where
  "get_project db i = repo_get pr_id (db_projects db) i"

definition get_chapter :: "db \<Rightarrow> int \<Rightarrow> chapter_row option" where
  "get_chapter db i = repo_get ch_id (db_chapters db) i"

definition save_chapter :: "db \<Rightarrow> chapter_row \<Rightarrow> db" where
  "save_chapter db r = db\<lparr>db_chapters := repo_save ch_id (db_chapters db) r\<rparr>"

definition get_workflow_run :: "db \<Rightarrow> int \<Rightarrow> workflow_run option" where
  "get_workflow_run db i = repo_get wr_id (db_workflow_runs db) i"

definition save_workflow_run :: "db \<Rightarrow> workflow_run \<Rightarrow> db" where
  "save_workflow_run db r = db\<lparr>db_workflow_runs := repo_save wr_id (db_workflow_runs db) r\<rparr>"

definition get_job :: "db \<Rightarrow> int \<Rightarrow> job option" where
  "get_job db i = repo_get j_id (db_jobs db) i"

definition save_job :: "db \<Rightarrow> job \<Rightarrow> db" where
  "save_job db r = db\<lparr>db_jobs := repo_save j_id (db_jobs db) r\<rparr>"

definition add_job :: "db \<Rightarrow> job \<Rightarrow> db \<times> job" where
  "add_job db r = (let (t, row) = repo_add (\<lambda>i r. r\<lparr>j_id := i\<rparr>) (db_jobs db) r
                   in (db\<lparr>db_jobs := t\<rparr>, row))"

definition add_event_row :: "db \<Rightarrow> job_event \<Rightarrow> db \<times> job_event" where
  "add_event_row db r = (let (t, row) = repo_add (\<lambda>i r. r\<lparr>e_id := i\<rparr>) (db_events db) r
                         in (db\<lparr>db_events := t\<rparr>, row))"

definition get_outbox :: "db \<Rightarrow> int \<Rightarrow> outbox_message option" where
  "get_outbox db i = repo_get o_id (db_outbox db) i"

definition save_outbox :: "db \<Rightarrow> outbox_message \<Rightarrow> db" where
  "save_outbox db r = db\<lparr>db_outbox := repo_save o_id (db_outbox db) r\<rparr>"

definition add_outbox :: "db \<Rightarrow> outbox_message \<Rightarrow> db \<times> outbox_message" where
  "add_outbox db r = (let (t, row) = repo_add (\<lambda>i r. r\<lparr>o_id := i\<rparr>) (db_outbox db) r
                      in (db\<lparr>db_outbox := t\<rparr>, row))"

section \<open>JobRepository\<close>

definition active_job_statuses :: "job_status list" where
  "active_job_statuses =
     [JobStatus_PENDING, JobStatus_OUTBOX_PENDING, JobStatus_QUEUED, JobStatus_LEASED,
      JobStatus_RUNNING, JobStatus_PAUSE_REQUESTED, JobStatus_PAUSED, JobStatus_CANCEL_REQUESTED,
      JobStatus_RETRY_SCHEDULED]"

definition job_active :: "job \<Rightarrow> bool" where
  "job_active job \<longleftrightarrow> j_status job \<in> set active_job_statuses"

definition get_by_idempotency_key :: "db \<Rightarrow> string \<Rightarrow> job option" where
  "get_by_idempotency_key db key = find (\<lambda>j. j_idempotency_key j = key) (job_rows db)"

definition active_count :: "db \<Rightarrow> int option \<Rightarrow> int" where
  "active_count db project_id =
     int (length (filter (\<lambda>j. job_active j \<and>
                              (project_id \<noteq> None \<longrightarrow> j_project_id j = project_id))
                         (job_rows db)))"

definition active_for_chapter :: "db \<Rightarrow> int \<Rightarrow> job option" where
  "active_for_chapter db chapter_id =
     (case sort_key (\<lambda>j. - j_id j)
             (filter (\<lambda>j. j_chapter_id j = Some chapter_id \<and> job_active j) (job_rows db)) of
        [] \<Rightarrow> None | j # _ \<Rightarrow> Some j)"

text \<open>An optional filter: absent, or the column must satisfy it.\<close>

fun opt_filter :: "('v \<Rightarrow> bool) \<Rightarrow> 'v option \<Rightarrow> bool" where
  "opt_filter p None = True"
| "opt_filter p (Some v) = p v"

definition page_filtered ::
  "db \<Rightarrow> int \<Rightarrow> int \<Rightarrow> job_status option \<Rightarrow> job_type option \<Rightarrow> int option \<Rightarrow> int option \<Rightarrow>
   int option \<Rightarrow> time option \<Rightarrow> time option \<Rightarrow> job page_slice result" where
  "page_filtered db page page_size status job_type project_id chapter_id chapter_number
     created_from created_to =
     paginate
       (sort_key (\<lambda>j. - j_id j)
         (filter (\<lambda>j.
             opt_filter (\<lambda>v. j_status j = v) status \<and>
             opt_filter (\<lambda>v. j_job_type j = v) job_type \<and>
             opt_filter (\<lambda>v. j_project_id j = Some v) project_id \<and>
             opt_filter (\<lambda>v. j_chapter_id j = Some v) chapter_id \<and>
             opt_filter (\<lambda>v. \<exists>c \<in> set (t_rows (db_chapters db)).
                 j_chapter_id j = Some (ch_id c) \<and> ch_chapter_number c = v) chapter_number \<and>
             opt_filter (\<lambda>v. j_created_at j \<ge> v) created_from \<and>
             opt_filter (\<lambda>v. j_created_at j \<le> v) created_to)
           (job_rows db)))
       page page_size"

text \<open>\<open>claim\<close>: one conditional UPDATE; no row matched means no lease.\<close>

definition claimable_statuses :: "job_status list" where
  "claimable_statuses = [JobStatus_OUTBOX_PENDING, JobStatus_QUEUED, JobStatus_RETRY_SCHEDULED]"

definition claim :: "db \<Rightarrow> int \<Rightarrow> string \<Rightarrow> time \<Rightarrow> time \<Rightarrow> db \<times> job option" where
  "claim db job_id worker_id now lease_expires_at =
     (case get_job db job_id of
        None \<Rightarrow> (db, None)
      | Some job \<Rightarrow>
          if j_status job \<in> set claimable_statuses \<and> j_available_at job \<le> now then
            let job' = job\<lparr>j_status := JobStatus_LEASED, j_worker_id := Some worker_id,
                           j_heartbeat_at := Some now,
                           j_lease_expires_at := Some lease_expires_at,
                           j_attempt := j_attempt job + 1, j_updated_at := now\<rparr>
            in (save_job db job', Some job')
          else (db, None))"

definition lease_of :: "job \<Rightarrow> time" where
  "lease_of job = (case j_lease_expires_at job of Some t \<Rightarrow> t | None \<Rightarrow> 0)"

definition expired_leases :: "db \<Rightarrow> time \<Rightarrow> nat \<Rightarrow> job list" where
  "expired_leases db now limit =
     take limit
       (sort_key (\<lambda>j. (lease_of j, j_id j))
         (filter (\<lambda>j. j_status j \<in> {JobStatus_LEASED, JobStatus_RUNNING} \<and>
                      j_lease_expires_at j \<noteq> None \<and> lease_of j \<le> now)
           (job_rows db)))"

definition queued_of :: "job \<Rightarrow> time" where
  "queued_of job = (case j_queued_at job of Some t \<Rightarrow> t | None \<Rightarrow> 0)"

definition stale_queued :: "db \<Rightarrow> time \<Rightarrow> nat \<Rightarrow> job list" where
  "stale_queued db cutoff limit =
     take limit
       (sort_key (\<lambda>j. (queued_of j, j_id j))
         (filter (\<lambda>j. j_status j = JobStatus_QUEUED \<and> j_queued_at j \<noteq> None \<and> queued_of j \<le> cutoff)
           (job_rows db)))"

section \<open>JobEventRepository\<close>

text \<open>
  \<open>add_ordered\<close>: the sequence number comes from
  \<open>UPDATE jobs SET event_sequence = event_sequence + 1 \<dots> RETURNING event_sequence\<close>; the
  column's \<open>onupdate\<close> stamps the row.
\<close>

definition add_ordered :: "db \<Rightarrow> job_event \<Rightarrow> (db \<times> job_event) result" where
  "add_ordered db event =
     (case get_job db (e_job_id event) of
        None \<Rightarrow> Inl ValueError
      | Some job \<Rightarrow>
          let sequence = j_event_sequence job + 1
          in Inr (add_event_row
                    (save_job db (job\<lparr>j_event_sequence := sequence,
                                      j_updated_at := e_created_at event\<rparr>))
                    (event\<lparr>e_sequence := sequence\<rparr>)))"

definition list_after :: "db \<Rightarrow> int \<Rightarrow> int option \<Rightarrow> nat \<Rightarrow> job_event list" where
  "list_after db job_id after_id limit =
     take limit
       (sort_key e_id
         (filter (\<lambda>e. e_job_id e = job_id \<and> opt_filter (\<lambda>a. e_id e > a) after_id) (event_rows db)))"

definition page_for_job :: "db \<Rightarrow> int \<Rightarrow> int \<Rightarrow> int \<Rightarrow> job_event page_slice result" where
  "page_for_job db job_id page page_size =
     paginate (sort_key e_id (filter (\<lambda>e. e_job_id e = job_id) (event_rows db))) page page_size"

section \<open>OutboxRepository\<close>

definition outbox_priority :: "db \<Rightarrow> outbox_message \<Rightarrow> int" where
  "outbox_priority db row =
     (case get_job db (o_aggregate_id row) of Some job \<Rightarrow> j_priority job | None \<Rightarrow> 0)"

definition claimable_row :: "db \<Rightarrow> time \<Rightarrow> time option \<Rightarrow> outbox_message \<Rightarrow> bool" where
  "claimable_row db now stale_before row \<longleftrightarrow>
     (o_status row = OutboxStatus_PENDING \<or>
      (case stale_before of
         None \<Rightarrow> False
       | Some cutoff \<Rightarrow> o_status row = OutboxStatus_CLAIMED \<and>
           (case o_claimed_at row of None \<Rightarrow> False | Some t \<Rightarrow> t \<le> cutoff))) \<and>
     o_available_at row \<le> now \<and> get_job db (o_aggregate_id row) \<noteq> None"

definition claim_row :: "string \<Rightarrow> time \<Rightarrow> outbox_message \<Rightarrow> outbox_message" where
  "claim_row dispatcher_id now row =
     row\<lparr>o_status := OutboxStatus_CLAIMED, o_claimed_by := Some dispatcher_id,
         o_claimed_at := Some now, o_attempt := o_attempt row + 1\<rparr>"

definition claim_batch ::
  "db \<Rightarrow> string \<Rightarrow> time \<Rightarrow> nat \<Rightarrow> time option \<Rightarrow> db \<times> outbox_message list" where
  "claim_batch db dispatcher_id now limit stale_before =
     (let rows = take limit
                   (sort_key (\<lambda>r. (- outbox_priority db r, o_id r))
                     (filter (claimable_row db now stale_before) (outbox_rows db)));
          claimed = map (claim_row dispatcher_id now) rows
      in (foldl save_outbox db claimed, claimed))"

definition get_by_deduplication_key :: "db \<Rightarrow> string \<Rightarrow> outbox_message option" where
  "get_by_deduplication_key db key = find (\<lambda>r. o_deduplication_key r = key) (outbox_rows db)"

definition latest_for_job :: "db \<Rightarrow> int \<Rightarrow> outbox_message option" where
  "latest_for_job db job_id =
     (case sort_key (\<lambda>r. - o_id r)
             (filter (\<lambda>r. o_aggregate_type r = ''job'' \<and> o_aggregate_id r = job_id)
               (outbox_rows db)) of
        [] \<Rightarrow> None | r # _ \<Rightarrow> Some r)"

section \<open>WorkerRepository\<close>

definition get_by_worker_id :: "db \<Rightarrow> string \<Rightarrow> worker_record option" where
  "get_by_worker_id db worker_id =
     find (\<lambda>w. w_worker_id w = worker_id) (t_rows (db_workers db))"

definition list_recent :: "db \<Rightarrow> nat \<Rightarrow> worker_record list" where
  "list_recent db limit = take limit (sort_key (\<lambda>w. - w_last_heartbeat_at w) (t_rows (db_workers db)))"

text \<open>\<open>heartbeat\<close>: an upsert on \<open>worker_id\<close> that keeps the first \<open>started_at\<close>.\<close>

definition worker_heartbeat ::
  "db \<Rightarrow> string \<Rightarrow> string \<Rightarrow> worker_status \<Rightarrow> int option \<Rightarrow> string \<Rightarrow> time \<Rightarrow> db" where
  "worker_heartbeat db worker_id queue_name status current_job_id version now =
     (case get_by_worker_id db worker_id of
        None \<Rightarrow>
          db\<lparr>db_workers := fst (repo_add (\<lambda>i r. r\<lparr>w_id := i\<rparr>) (db_workers db)
               \<lparr>w_id = 0, w_worker_id = worker_id, w_queue_name = queue_name, w_status = status,
                w_current_job_id = current_job_id, w_started_at = now,
                w_last_heartbeat_at = now, w_version = version\<rparr>)\<rparr>
      | Some row \<Rightarrow>
          db\<lparr>db_workers := repo_save w_id (db_workers db)
               (row\<lparr>w_queue_name := queue_name, w_status := status,
                    w_current_job_id := current_job_id, w_version := version,
                    w_last_heartbeat_at := now\<rparr>)\<rparr>)"

text \<open>\<open>keepalive\<close>: register as idle, or refresh without touching status and current job.\<close>

definition keepalive :: "db \<Rightarrow> string \<Rightarrow> string \<Rightarrow> string \<Rightarrow> time \<Rightarrow> db" where
  "keepalive db worker_id queue_name version now =
     (case get_by_worker_id db worker_id of
        None \<Rightarrow> worker_heartbeat db worker_id queue_name WorkerStatus_IDLE None version now
      | Some row \<Rightarrow>
          db\<lparr>db_workers := repo_save w_id (db_workers db)
               (row\<lparr>w_queue_name := queue_name, w_version := version,
                    w_last_heartbeat_at := now\<rparr>)\<rparr>)"

end
