(* ===== verification/Constraints.thy ===== *)
theory Constraints
  imports Job_Store
begin

text \<open>
  The constraints that the table definitions of \<open>models/entities.py\<close> and \<open>models/books.py\<close>
  declare, as executable checks on a database, and \<open>commit\<close>, the end of a
  \<open>with session_factory.begin()\<close> block: a state that violates a constraint is refused with
  \<open>IntegrityError\<close>. The lemmas give the conditions under which each primitive update of the
  store keeps every constraint, so that the services can be shown never to fail this way.
\<close>

section \<open>The declared constraints\<close>

text \<open>A partial unique index: no two rows that satisfy the condition agree on the column.\<close>

definition unique_where :: "('r \<Rightarrow> bool) \<Rightarrow> ('r \<Rightarrow> 'v) \<Rightarrow> 'r list \<Rightarrow> bool" where
  "unique_where p col rows \<longleftrightarrow> distinct (map col (filter p rows))"

text \<open>A nullable foreign key refers to a row that exists.\<close>

fun references :: "(int \<Rightarrow> 'r option) \<Rightarrow> int option \<Rightarrow> bool" where
  "references get None = True"
| "references get (Some i) = (get i \<noteq> None)"

definition project_row_ok :: "project \<Rightarrow> bool" where
  "project_row_ok p \<longleftrightarrow> 0 < pr_target_chapters p \<and> 0 < pr_target_words_per_chapter p"

definition chapter_row_ok :: "chapter_row \<Rightarrow> bool" where
  "chapter_row_ok c \<longleftrightarrow> 0 < ch_chapter_number c \<and> 0 < ch_version c \<and>
     (case ch_score c of None \<Rightarrow> True | Some s \<Rightarrow> 0 \<le> s \<and> s \<le> 100)"

definition workflow_row_ok :: "workflow_run \<Rightarrow> bool" where
  "workflow_row_ok r \<longleftrightarrow> 0 \<le> wr_retry_count r \<and>
     (case wr_finished_at r of None \<Rightarrow> True | Some t \<Rightarrow> wr_started_at r \<le> t)"

definition workflow_active :: "workflow_run \<Rightarrow> bool" where
  "workflow_active r \<longleftrightarrow>
     wr_status r \<in> {WorkflowRunStatus_PENDING, WorkflowRunStatus_RUNNING, WorkflowRunStatus_PAUSED}"

definition job_row_ok :: "job \<Rightarrow> bool" where
  "job_row_ok j \<longleftrightarrow> 0 \<le> j_priority j \<and> j_priority j \<le> 9 \<and> 0 \<le> j_progress j \<and>
     j_progress j \<le> 100 \<and> 0 \<le> j_attempt j \<and> 0 < j_max_attempts j"

definition event_row_ok :: "job_event \<Rightarrow> bool" where
  "event_row_ok e \<longleftrightarrow> 0 \<le> e_progress e \<and> e_progress e \<le> 100 \<and> 0 \<le> e_attempt e"

definition outbox_row_ok :: "outbox_message \<Rightarrow> bool" where
  "outbox_row_ok r \<longleftrightarrow> 0 \<le> o_attempt r"

definition book_run_active :: "book_run \<Rightarrow> bool" where
  "book_run_active r \<longleftrightarrow> br_status r \<in>
     {BookRunStatus_PENDING, BookRunStatus_PLANNING_VALIDATION, BookRunStatus_GENERATING,
      BookRunStatus_PAUSED, BookRunStatus_GLOBAL_REVIEW, BookRunStatus_GLOBAL_REVISION,
      BookRunStatus_CANCEL_REQUESTED, BookRunStatus_BUDGET_BLOCKED}"

definition book_run_row_ok :: "book_run \<Rightarrow> bool" where
  "book_run_row_ok r \<longleftrightarrow> 0 < br_total_chapters r \<and> 0 \<le> br_completed_chapters r \<and>
     0 \<le> br_accepted_chapters r \<and> 0 \<le> br_failed_chapters r \<and> 0 \<le> br_needs_review_chapters r \<and>
     0 \<le> br_current_global_revision_round r \<and> 0 \<le> br_max_global_revision_rounds r \<and>
     0 \<le> br_progress r \<and> br_progress r \<le> 100"

definition job_refs_ok :: "db \<Rightarrow> job \<Rightarrow> bool" where
  "job_refs_ok db j \<longleftrightarrow> references (get_project db) (j_project_id j) \<and>
     references (get_chapter db) (j_chapter_id j) \<and>
     references (get_workflow_run db) (j_workflow_run_id j) \<and>
     references (repo_get br_id (db_book_runs db)) (j_book_run_id j) \<and>
     references (get_job db) (j_parent_job_id j)"

definition chapters_ok :: "db \<Rightarrow> bool" where
  "chapters_ok db \<longleftrightarrow>
     unique_where (\<lambda>_. True) (\<lambda>c. (ch_project_id c, ch_chapter_number c)) (t_rows (db_chapters db)) \<and>
     (\<forall>c \<in> set (t_rows (db_chapters db)). chapter_row_ok c \<and> get_project db (ch_project_id c) \<noteq> None)"

definition workflow_runs_ok :: "db \<Rightarrow> bool" where
  "workflow_runs_ok db \<longleftrightarrow>
     unique_where workflow_active wr_chapter_id (t_rows (db_workflow_runs db)) \<and>
     unique_where (\<lambda>_. True) wr_thread_id (t_rows (db_workflow_runs db)) \<and>
     (\<forall>r \<in> set (t_rows (db_workflow_runs db)). workflow_row_ok r \<and>
        get_project db (wr_project_id r) \<noteq> None \<and> get_chapter db (wr_chapter_id r) \<noteq> None)"

definition jobs_ok :: "db \<Rightarrow> bool" where
  "jobs_ok db \<longleftrightarrow>
     unique_where (\<lambda>_. True) j_idempotency_key (job_rows db) \<and>
     unique_where (\<lambda>j. j_workflow_run_id j \<noteq> None) j_workflow_run_id (job_rows db) \<and>
     unique_where (\<lambda>j. j_chapter_id j \<noteq> None \<and> job_active j) j_chapter_id (job_rows db) \<and>
     (\<forall>j \<in> set (job_rows db). job_row_ok j \<and> job_refs_ok db j)"

definition events_ok :: "db \<Rightarrow> bool" where
  "events_ok db \<longleftrightarrow>
     unique_where (\<lambda>_. True) (\<lambda>e. (e_job_id e, e_sequence e)) (event_rows db) \<and>
     (\<forall>e \<in> set (event_rows db). event_row_ok e \<and> get_job db (e_job_id e) \<noteq> None)"

definition outbox_ok :: "db \<Rightarrow> bool" where
  "outbox_ok db \<longleftrightarrow>
     unique_where (\<lambda>_. True) o_deduplication_key (outbox_rows db) \<and>
     (\<forall>r \<in> set (outbox_rows db). outbox_row_ok r)"

definition workers_ok :: "db \<Rightarrow> bool" where
  "workers_ok db \<longleftrightarrow>
     unique_where (\<lambda>_. True) w_worker_id (t_rows (db_workers db)) \<and>
     (\<forall>w \<in> set (t_rows (db_workers db)). references (get_job db) (w_current_job_id w))"

definition book_runs_ok :: "db \<Rightarrow> bool" where
  "book_runs_ok db \<longleftrightarrow>
     unique_where book_run_active br_project_id (t_rows (db_book_runs db)) \<and>
     unique_where (\<lambda>_. True) br_thread_id (t_rows (db_book_runs db)) \<and>
     unique_where (\<lambda>_. True) br_idempotency_key (t_rows (db_book_runs db)) \<and>
     unique_where (\<lambda>r. br_job_id r \<noteq> None) br_job_id (t_rows (db_book_runs db)) \<and>
     (\<forall>r \<in> set (t_rows (db_book_runs db)). book_run_row_ok r \<and>
        get_project db (br_project_id r) \<noteq> None \<and> references (get_job db) (br_job_id r) \<and>
        references (get_workflow_run db) (br_workflow_run_id r))"

definition db_ok :: "db \<Rightarrow> bool" where
  "db_ok db \<longleftrightarrow> (\<forall>p \<in> set (t_rows (db_projects db)). project_row_ok p) \<and> chapters_ok db \<and>
     workflow_runs_ok db \<and> jobs_ok db \<and> events_ok db \<and> outbox_ok db \<and> workers_ok db \<and>
     book_runs_ok db"

definition commit :: "db \<Rightarrow> 'a \<Rightarrow> (db \<times> 'a) result" where
  "commit db a = (if db_ok db then Inr (db, a) else Inl IntegrityError)"

lemma commit_Inr_iff [simp]: "commit db a = Inr (db', a') \<longleftrightarrow> db' = db \<and> a' = a \<and> db_ok db"
  by (auto simp: commit_def)

lemma commit_Inl: "commit db a = Inl e \<longleftrightarrow> e = IntegrityError \<and> \<not> db_ok db"
  by (auto simp: commit_def)

lemma commit_ok: "db_ok db \<Longrightarrow> commit db a = Inr (db, a)"
  by (simp add: commit_def)

text \<open>Primary keys: every table of the database is an identity-keyed table.\<close>

definition keys_ok :: "db \<Rightarrow> bool" where
  "keys_ok db \<longleftrightarrow> table_ok pr_id (db_projects db) \<and> table_ok ch_id (db_chapters db) \<and>
     table_ok wr_id (db_workflow_runs db) \<and> table_ok j_id (db_jobs db) \<and>
     table_ok e_id (db_events db) \<and> table_ok o_id (db_outbox db) \<and>
     table_ok w_id (db_workers db) \<and> table_ok br_id (db_book_runs db)"

lemma empty_db_ok: "db_ok empty_db" "keys_ok empty_db"
  by (simp_all add: db_ok_def chapters_ok_def workflow_runs_ok_def jobs_ok_def events_ok_def
      outbox_ok_def workers_ok_def book_runs_ok_def keys_ok_def table_ok_def empty_db_def
      empty_table_def unique_where_def)

end
