(* ===== verification/Store_Laws.thy ===== *)
theory Store_Laws
  imports Constraints
begin

text \<open>
  How each primitive of the store acts on what the services read back: lookups after an
  update, the tables it leaves alone, and the conditions under which the declared
  constraints survive it. \<open>store_inv\<close> is the invariant every transaction keeps: keys and
  constraints hold, and the events of a job are numbered 1, 2, \dots, \<open>event_sequence\<close> in the
  order they were recorded.
\<close>

section \<open>Frames: the tables a primitive leaves alone\<close>

lemma save_job_frame [simp]:
  "db_projects (save_job db r) = db_projects db" "db_chapters (save_job db r) = db_chapters db"
  "db_workflow_runs (save_job db r) = db_workflow_runs db" "db_events (save_job db r) = db_events db"
  "db_outbox (save_job db r) = db_outbox db" "db_workers (save_job db r) = db_workers db"
  "db_book_runs (save_job db r) = db_book_runs db"
  by (simp_all add: save_job_def)

lemma save_outbox_frame [simp]:
  "db_projects (save_outbox db r) = db_projects db" "db_chapters (save_outbox db r) = db_chapters db"
  "db_workflow_runs (save_outbox db r) = db_workflow_runs db"
  "db_events (save_outbox db r) = db_events db" "db_jobs (save_outbox db r) = db_jobs db"
  "db_workers (save_outbox db r) = db_workers db" "db_book_runs (save_outbox db r) = db_book_runs db"
  by (simp_all add: save_outbox_def)

lemma save_workflow_run_frame [simp]:
  "db_projects (save_workflow_run db r) = db_projects db"
  "db_chapters (save_workflow_run db r) = db_chapters db"
  "db_outbox (save_workflow_run db r) = db_outbox db"
  "db_events (save_workflow_run db r) = db_events db" "db_jobs (save_workflow_run db r) = db_jobs db"
  "db_workers (save_workflow_run db r) = db_workers db"
  "db_book_runs (save_workflow_run db r) = db_book_runs db"
  by (simp_all add: save_workflow_run_def)

lemma save_chapter_frame [simp]:
  "db_projects (save_chapter db r) = db_projects db"
  "db_workflow_runs (save_chapter db r) = db_workflow_runs db"
  "db_outbox (save_chapter db r) = db_outbox db"
  "db_events (save_chapter db r) = db_events db" "db_jobs (save_chapter db r) = db_jobs db"
  "db_workers (save_chapter db r) = db_workers db" "db_book_runs (save_chapter db r) = db_book_runs db"
  by (simp_all add: save_chapter_def)

lemma add_job_frame [simp]:
  "db_projects (fst (add_job db r)) = db_projects db" "db_chapters (fst (add_job db r)) = db_chapters db"
  "db_workflow_runs (fst (add_job db r)) = db_workflow_runs db"
  "db_events (fst (add_job db r)) = db_events db" "db_outbox (fst (add_job db r)) = db_outbox db"
  "db_workers (fst (add_job db r)) = db_workers db" "db_book_runs (fst (add_job db r)) = db_book_runs db"
  by (simp_all add: add_job_def repo_add_def Let_def)

lemma add_event_row_frame [simp]:
  "db_projects (fst (add_event_row db r)) = db_projects db"
  "db_chapters (fst (add_event_row db r)) = db_chapters db"
  "db_workflow_runs (fst (add_event_row db r)) = db_workflow_runs db"
  "db_jobs (fst (add_event_row db r)) = db_jobs db" "db_outbox (fst (add_event_row db r)) = db_outbox db"
  "db_workers (fst (add_event_row db r)) = db_workers db"
  "db_book_runs (fst (add_event_row db r)) = db_book_runs db"
  by (simp_all add: add_event_row_def repo_add_def Let_def)

lemma add_outbox_frame [simp]:
  "db_projects (fst (add_outbox db r)) = db_projects db" "db_chapters (fst (add_outbox db r)) = db_chapters db"
  "db_workflow_runs (fst (add_outbox db r)) = db_workflow_runs db"
  "db_jobs (fst (add_outbox db r)) = db_jobs db" "db_events (fst (add_outbox db r)) = db_events db"
  "db_workers (fst (add_outbox db r)) = db_workers db"
  "db_book_runs (fst (add_outbox db r)) = db_book_runs db"
  by (simp_all add: add_outbox_def repo_add_def Let_def)

text \<open>A lookup depends on its own table only.\<close>

lemma lookup_frame:
  "db_projects db' = db_projects db \<Longrightarrow> get_project db' = get_project db"
  "db_chapters db' = db_chapters db \<Longrightarrow> get_chapter db' = get_chapter db"
  "db_workflow_runs db' = db_workflow_runs db \<Longrightarrow> get_workflow_run db' = get_workflow_run db"
  "db_jobs db' = db_jobs db \<Longrightarrow> get_job db' = get_job db"
  "db_outbox db' = db_outbox db \<Longrightarrow> get_outbox db' = get_outbox db"
  "db_outbox db' = db_outbox db \<Longrightarrow> get_by_deduplication_key db' = get_by_deduplication_key db"
  by (simp_all add: get_project_def get_chapter_def get_workflow_run_def get_job_def get_outbox_def
      get_by_deduplication_key_def fun_eq_iff)

lemma get_project_frame [simp]:
  "get_project (save_job db r) = get_project db" "get_project (save_outbox db o1) = get_project db"
  "get_project (save_workflow_run db w) = get_project db"
  "get_project (save_chapter db c) = get_project db"
  "get_project (fst (add_job db r)) = get_project db"
  "get_project (fst (add_event_row db e)) = get_project db"
  "get_project (fst (add_outbox db o1)) = get_project db"
  by (rule lookup_frame, simp)+

lemma get_chapter_frame [simp]:
  "get_chapter (save_job db r) = get_chapter db" "get_chapter (save_outbox db o1) = get_chapter db"
  "get_chapter (save_workflow_run db w) = get_chapter db"
  "get_chapter (fst (add_job db r)) = get_chapter db"
  "get_chapter (fst (add_event_row db e)) = get_chapter db"
  "get_chapter (fst (add_outbox db o1)) = get_chapter db"
  by (rule lookup_frame, simp)+

lemma get_workflow_run_frame [simp]:
  "get_workflow_run (save_job db r) = get_workflow_run db"
  "get_workflow_run (save_outbox db o1) = get_workflow_run db"
  "get_workflow_run (save_chapter db c) = get_workflow_run db"
  "get_workflow_run (fst (add_job db r)) = get_workflow_run db"
  "get_workflow_run (fst (add_event_row db e)) = get_workflow_run db"
  "get_workflow_run (fst (add_outbox db o1)) = get_workflow_run db"
  by (rule lookup_frame, simp)+

lemma get_job_frame [simp]:
  "get_job (save_outbox db o1) = get_job db" "get_job (save_workflow_run db w) = get_job db"
  "get_job (save_chapter db c) = get_job db" "get_job (fst (add_event_row db e)) = get_job db"
  "get_job (fst (add_outbox db o1)) = get_job db"
  by (rule lookup_frame, simp)+

section \<open>Lookups after an update\<close>

lemma get_job_save [simp]:
  "get_job (save_job db r) i = (if i = j_id r then map_option (\<lambda>_. r) (get_job db i) else get_job db i)"
  unfolding get_job_def save_job_def by (simp add: jobs.get_save)

lemma get_job_id: "get_job db i = Some j \<Longrightarrow> j_id j = i"
  unfolding get_job_def using jobs.get_Some by metis

lemma get_job_row: "get_job db i = Some j \<Longrightarrow> j \<in> set (job_rows db)"
  unfolding get_job_def using jobs.get_Some by metis

lemma job_row_get: "keys_ok db \<Longrightarrow> j \<in> set (job_rows db) \<Longrightarrow> get_job db (j_id j) = Some j"
  unfolding get_job_def keys_ok_def using jobs.get_row by metis

lemma get_job_add:
  "keys_ok db \<Longrightarrow> get_job (fst (add_job db r)) i =
     (if i = t_next (db_jobs db) then Some (r\<lparr>j_id := i\<rparr>) else get_job db i)"
  unfolding get_job_def keys_ok_def
  using jobs.get_add [of "db_jobs db" r i]
  by (simp add: add_job_def repo_add_def Let_def)

lemma add_job_row: "snd (add_job db r) = r\<lparr>j_id := t_next (db_jobs db)\<rparr>"
  by (simp add: add_job_def repo_add_def Let_def)

lemma add_job_rows: "job_rows (fst (add_job db r)) = job_rows db @ [r\<lparr>j_id := t_next (db_jobs db)\<rparr>]"
  by (simp add: add_job_def repo_add_def Let_def)

lemma get_job_fresh: "keys_ok db \<Longrightarrow> get_job db (t_next (db_jobs db)) = None"
  unfolding get_job_def keys_ok_def using jobs.get_fresh by metis

lemma save_job_rows:
  "job_rows (save_job db r) = map (\<lambda>x. if j_id x = j_id r then r else x) (job_rows db)"
  by (simp add: save_job_def repo_save_def)

lemma event_rows_add:
  "event_rows (fst (add_event_row db e)) = event_rows db @ [e\<lparr>e_id := t_next (db_events db)\<rparr>]"
  "snd (add_event_row db e) = e\<lparr>e_id := t_next (db_events db)\<rparr>"
  by (simp_all add: add_event_row_def repo_add_def Let_def)

lemma outbox_rows_add:
  "outbox_rows (fst (add_outbox db r)) = outbox_rows db @ [r\<lparr>o_id := t_next (db_outbox db)\<rparr>]"
  "snd (add_outbox db r) = r\<lparr>o_id := t_next (db_outbox db)\<rparr>"
  by (simp_all add: add_outbox_def repo_add_def Let_def)

lemma get_outbox_save [simp]:
  "get_outbox (save_outbox db r) i =
     (if i = o_id r then map_option (\<lambda>_. r) (get_outbox db i) else get_outbox db i)"
  unfolding get_outbox_def save_outbox_def by (simp add: outbox.get_save)

lemma get_outbox_frame [simp]:
  "get_outbox (save_job db j) = get_outbox db" "get_outbox (save_workflow_run db w) = get_outbox db"
  "get_outbox (save_chapter db c) = get_outbox db"
  "get_outbox (fst (add_event_row db e)) = get_outbox db"
  by (rule lookup_frame, simp)+

section \<open>Keys\<close>

lemma keys_ok_updates [simp]:
  "keys_ok db \<Longrightarrow> keys_ok (save_job db j)"
  "keys_ok db \<Longrightarrow> keys_ok (save_outbox db r)"
  "keys_ok db \<Longrightarrow> keys_ok (save_workflow_run db w)"
  "keys_ok db \<Longrightarrow> keys_ok (save_chapter db c)"
  "keys_ok db \<Longrightarrow> keys_ok (fst (add_job db j))"
  "keys_ok db \<Longrightarrow> keys_ok (fst (add_event_row db e))"
  "keys_ok db \<Longrightarrow> keys_ok (fst (add_outbox db r))"
  using jobs.ok_add [of "db_jobs db" j] job_events.ok_add [of "db_events db" e]
    outbox.ok_add [of "db_outbox db" r]
  by (auto simp: keys_ok_def save_job_def save_outbox_def save_workflow_run_def save_chapter_def
      add_job_def add_event_row_def add_outbox_def repo_add_def Let_def
      intro: jobs.ok_save outbox.ok_save workflow_runs.ok_save chapters.ok_save)

section \<open>Constraints\<close>

lemma unique_where_save:
  assumes "unique_where p col rows"
    and "\<And>x. x \<in> set rows \<Longrightarrow> key x = key r \<Longrightarrow> col x = col r \<and> (p r \<longrightarrow> p x)"
  shows "unique_where p col (map (\<lambda>x. if key x = key r then r else x) rows)"
proof (cases "p r")
  case True
  have "map col (filter p (map (\<lambda>x. if key x = key r then r else x) rows)) = map col (filter p rows)"
    using assms(2) True by (induction rows) auto
  then show ?thesis using assms(1) by (simp add: unique_where_def)
next
  case False
  have "filter p (map (\<lambda>x. if key x = key r then r else x) rows) =
      filter (\<lambda>x. key x \<noteq> key r) (filter p rows)"
    using False by (induction rows) auto
  then show ?thesis
    using assms(1) distinct_map_filter [of col "filter p rows" "\<lambda>x. key x \<noteq> key r"]
    by (simp add: unique_where_def)
qed

lemma unique_where_add:
  "unique_where p col rows \<Longrightarrow> (p r \<Longrightarrow> \<forall>x \<in> set rows. p x \<longrightarrow> col x \<noteq> col r) \<Longrightarrow>
   unique_where p col (rows @ [r])"
  by (auto simp: unique_where_def)

text \<open>
  \<open>evolves j j'\<close>: \<open>j'\<close> is the row \<open>j\<close> with columns changed that no constraint between rows
  involves, and still satisfies the checks of its own row.
\<close>

definition evolves :: "job \<Rightarrow> job \<Rightarrow> bool" where
  "evolves j j' \<longleftrightarrow> j_id j' = j_id j \<and> j_idempotency_key j' = j_idempotency_key j \<and>
     j_workflow_run_id j' = j_workflow_run_id j \<and> j_chapter_id j' = j_chapter_id j \<and>
     j_project_id j' = j_project_id j \<and> j_book_run_id j' = j_book_run_id j \<and>
     j_parent_job_id j' = j_parent_job_id j \<and> (job_active j' \<longrightarrow> job_active j) \<and> job_row_ok j'"

lemma references_cong: "(\<And>i. get i \<noteq> None \<Longrightarrow> get' i \<noteq> None) \<Longrightarrow> references get r \<Longrightarrow> references get' r"
  by (cases r) auto

lemma job_refs_mono:
  assumes "get_project db' = get_project db" "get_chapter db' = get_chapter db"
    "get_workflow_run db' = get_workflow_run db" "db_book_runs db' = db_book_runs db"
    "\<And>i. get_job db i \<noteq> None \<Longrightarrow> get_job db' i \<noteq> None" "job_refs_ok db j"
  shows "job_refs_ok db' j"
  using assms by (auto simp: job_refs_ok_def elim: references_cong [rotated])

lemma jobs_ok_save:
  assumes "jobs_ok db" and "keys_ok db" and "get_job db (j_id j') = Some j" and "evolves j j'"
  shows "jobs_ok (save_job db j')"
proof -
  have same: "x = j" if "x \<in> set (job_rows db)" "j_id x = j_id j'" for x
    using that assms(2,3) job_row_get [of db x] by auto
  note ev = assms(4) [unfolded evolves_def]
  note ok = assms(1) [unfolded jobs_ok_def]
  have refs: "job_refs_ok (save_job db j') x" if "job_refs_ok db x" for x
    by (rule job_refs_mono [OF _ _ _ _ _ that]) auto
  have j: "j \<in> set (job_rows db)" using assms(3) by (rule get_job_row)
  have "job_refs_ok db j'" using j ok ev by (auto simp: job_refs_ok_def)
  then have rows: "\<forall>x \<in> set (job_rows (save_job db j')). job_row_ok x \<and> job_refs_ok (save_job db j') x"
    using ok ev refs by (auto simp: save_job_rows)
  have "unique_where (\<lambda>_. True) j_idempotency_key (job_rows (save_job db j'))"
    unfolding save_job_rows using ok ev by (intro unique_where_save) (auto dest: same)
  moreover have "unique_where (\<lambda>j. j_workflow_run_id j \<noteq> None) j_workflow_run_id
      (job_rows (save_job db j'))"
    unfolding save_job_rows using ok ev by (intro unique_where_save) (auto dest: same)
  moreover have "unique_where (\<lambda>j. j_chapter_id j \<noteq> None \<and> job_active j) j_chapter_id
      (job_rows (save_job db j'))"
    unfolding save_job_rows using ok ev by (intro unique_where_save) (auto dest: same)
  ultimately show ?thesis using rows by (simp add: jobs_ok_def)
qed

lemma db_ok_save_job:
  assumes "db_ok db" and "keys_ok db" and "get_job db (j_id j') = Some j" and "evolves j j'"
  shows "db_ok (save_job db j')"
proof -
  have mono: "get_job (save_job db j') i \<noteq> None" if "get_job db i \<noteq> None" for i
    using that by auto
  have refs: "references (get_job (save_job db j')) r" if "references (get_job db) r" for r
    using mono that by (rule references_cong)
  have "jobs_ok (save_job db j')"
    by (rule jobs_ok_save) (use assms in \<open>simp_all add: db_ok_def\<close>)
  moreover have "\<forall>e \<in> set (event_rows db). get_job (save_job db j') (e_job_id e) \<noteq> None"
    using assms(1) mono by (auto simp: db_ok_def events_ok_def simp del: get_job_save)
  ultimately show ?thesis
    using assms(1) refs
    by (simp add: db_ok_def chapters_ok_def workflow_runs_ok_def events_ok_def outbox_ok_def
        workers_ok_def book_runs_ok_def del: get_job_save)
qed

lemma db_ok_add_event:
  assumes "db_ok db" and "event_row_ok e" and "get_job db (e_job_id e) \<noteq> None"
    and "\<forall>x \<in> set (event_rows db). e_job_id x = e_job_id e \<longrightarrow> e_sequence x \<noteq> e_sequence e"
  shows "db_ok (fst (add_event_row db e))"
proof -
  have "unique_where (\<lambda>_. True) (\<lambda>e. (e_job_id e, e_sequence e))
      (event_rows (fst (add_event_row db e)))"
    unfolding event_rows_add using assms(1,4)
    by (intro unique_where_add) (auto simp: db_ok_def events_ok_def)
  moreover have "event_row_ok (e\<lparr>e_id := t_next (db_events db)\<rparr>)"
    using assms(2) by (simp add: event_row_ok_def)
  ultimately have "events_ok (fst (add_event_row db e))"
    using assms(1,3) by (simp add: db_ok_def events_ok_def event_rows_add)
  moreover have "job_refs_ok (fst (add_event_row db e)) x = job_refs_ok db x" for x
    by (simp add: job_refs_ok_def)
  ultimately show ?thesis
    using assms(1)
    by (simp add: db_ok_def chapters_ok_def workflow_runs_ok_def jobs_ok_def outbox_ok_def
        workers_ok_def book_runs_ok_def)
qed

lemma db_ok_outbox:
  assumes "db_ok db" and "outbox_ok db'" and "db_projects db' = db_projects db"
    "db_chapters db' = db_chapters db" "db_workflow_runs db' = db_workflow_runs db"
    "db_jobs db' = db_jobs db" "db_events db' = db_events db" "db_workers db' = db_workers db"
    "db_book_runs db' = db_book_runs db"
  shows "db_ok db'"
  using assms lookup_frame [of db' db]
  by (simp add: db_ok_def chapters_ok_def workflow_runs_ok_def jobs_ok_def events_ok_def
      workers_ok_def book_runs_ok_def job_refs_ok_def)

lemma db_ok_add_outbox:
  assumes "db_ok db" and "outbox_row_ok r" and "get_by_deduplication_key db (o_deduplication_key r) = None"
  shows "db_ok (fst (add_outbox db r))"
proof (rule db_ok_outbox [OF assms(1)])
  have "unique_where (\<lambda>_. True) o_deduplication_key (outbox_rows (fst (add_outbox db r)))"
    unfolding outbox_rows_add using assms(1,3)
    by (intro unique_where_add)
      (auto simp: db_ok_def outbox_ok_def get_by_deduplication_key_def find_None_iff)
  moreover have "outbox_row_ok (r\<lparr>o_id := t_next (db_outbox db)\<rparr>)"
    using assms(2) by (simp add: outbox_row_ok_def)
  ultimately show "outbox_ok (fst (add_outbox db r))"
    using assms(1) by (simp add: db_ok_def outbox_ok_def outbox_rows_add)
qed simp_all

lemma get_outbox_row: "get_outbox db i = Some r \<Longrightarrow> r \<in> set (outbox_rows db) \<and> o_id r = i"
  unfolding get_outbox_def using outbox.get_Some by metis

lemma db_ok_save_outbox:
  assumes "db_ok db" and "keys_ok db" and "get_outbox db (o_id r') = Some r"
    and "o_deduplication_key r' = o_deduplication_key r" and "outbox_row_ok r'"
  shows "db_ok (save_outbox db r')"
proof (rule db_ok_outbox [OF assms(1)])
  have same: "x = r" if "x \<in> set (outbox_rows db)" "o_id x = o_id r'" for x
    using that assms(2,3) outbox.get_row [of "db_outbox db" x]
    by (simp add: keys_ok_def get_outbox_def)
  have "unique_where (\<lambda>_. True) o_deduplication_key
      (map (\<lambda>x. if o_id x = o_id r' then r' else x) (outbox_rows db))"
    using assms(1,4) by (intro unique_where_save) (auto simp: db_ok_def outbox_ok_def dest: same)
  then show "outbox_ok (save_outbox db r')"
    using assms(1,5) by (auto simp: db_ok_def outbox_ok_def save_outbox_def repo_save_def)
qed simp_all

section \<open>Event numbering and the store invariant\<close>

definition event_numbers :: "db \<Rightarrow> int \<Rightarrow> int list" where
  "event_numbers db job_id = map e_sequence (filter (\<lambda>e. e_job_id e = job_id) (event_rows db))"

definition events_numbered :: "db \<Rightarrow> bool" where
  "events_numbered db \<longleftrightarrow>
     (\<forall>j \<in> set (job_rows db). 0 \<le> j_event_sequence j \<and>
        event_numbers db (j_id j) = [1..j_event_sequence j])"

definition store_inv :: "db \<Rightarrow> bool" where
  "store_inv db \<longleftrightarrow> keys_ok db \<and> db_ok db \<and> events_numbered db"

lemma store_inv_empty: "store_inv empty_db"
  by (simp add: store_inv_def empty_db_ok events_numbered_def) (simp add: empty_db_def empty_table_def)

lemma store_invD [dest]: "store_inv db \<Longrightarrow> keys_ok db" "store_inv db \<Longrightarrow> db_ok db"
  by (simp_all add: store_inv_def)

lemma store_inv_job: "store_inv db \<Longrightarrow> get_job db i = Some j \<Longrightarrow> job_row_ok j \<and> job_refs_ok db j"
  using get_job_row [of db i j] by (auto simp: store_inv_def db_ok_def jobs_ok_def)

lemma store_inv_numbers:
  "store_inv db \<Longrightarrow> get_job db i = Some j \<Longrightarrow>
   event_numbers db i = [1..j_event_sequence j] \<and> 0 \<le> j_event_sequence j"
  using get_job_row [of db i j] get_job_id [of db i j]
  by (auto simp: store_inv_def events_numbered_def)

text \<open>A save that keeps the event counter keeps the invariant.\<close>

lemma store_inv_save_job:
  assumes inv: "store_inv db" and j: "get_job db (j_id j') = Some j" and ev: "evolves j j'"
    and seq: "j_event_sequence j' = j_event_sequence j"
  shows "store_inv (save_job db j')"
proof -
  have ok: "db_ok (save_job db j')"
    using db_ok_save_job [OF _ _ j ev] inv by (simp add: store_inv_def)
  have "event_numbers (save_job db j') = event_numbers db"
    by (simp add: event_numbers_def fun_eq_iff)
  moreover have "j \<in> set (job_rows db)" "j_id j = j_id j'"
    using j by (auto dest: get_job_row get_job_id)
  ultimately have "events_numbered (save_job db j')"
    using inv seq by (auto simp: store_inv_def events_numbered_def save_job_rows)
  with ok inv show ?thesis by (simp add: store_inv_def)
qed

text \<open>\<open>add_ordered\<close> allocates the next number of the job's sequence.\<close>

lemma events_numbered_append:
  assumes num: "events_numbered db" and id: "j_id j' = i" and j: "get_job db i = Some j"
    and seq: "j_event_sequence j' = j_event_sequence j + 1"
    and e: "e_job_id e = i" "e_sequence e = j_event_sequence j + 1"
  shows "events_numbered (fst (add_event_row (save_job db j') e))"
  unfolding events_numbered_def
proof
  let ?db = "fst (add_event_row (save_job db j') e)"
  fix x assume "x \<in> set (job_rows ?db)"
  then have x: "x = j' \<or> (x \<in> set (job_rows db) \<and> j_id x \<noteq> i)"
    using id by (auto simp: save_job_rows split: if_splits)
  have nums: "event_numbers db i = [1..j_event_sequence j]" "0 \<le> j_event_sequence j"
    using num j get_job_row [OF j] get_job_id [OF j] by (auto simp: events_numbered_def)
  from x show "0 \<le> j_event_sequence x \<and> event_numbers ?db (j_id x) = [1..j_event_sequence x]"
  proof
    assume "x = j'"
    moreover have "event_numbers ?db i = event_numbers db i @ [j_event_sequence j + 1]"
      using e by (simp add: event_numbers_def event_rows_add)
    ultimately show ?thesis
      using nums id seq upto_rec2 [of 1 "j_event_sequence j + 1"] by simp
  next
    assume "x \<in> set (job_rows db) \<and> j_id x \<noteq> i"
    then show ?thesis
      using num e by (auto simp: events_numbered_def event_numbers_def event_rows_add)
  qed
qed

lemma event_number_fresh:
  assumes "events_numbered db" and j: "get_job db i = Some j"
    and "e \<in> set (event_rows db)" and "e_job_id e = i"
  shows "e_sequence e \<noteq> j_event_sequence j + 1"
proof -
  have "e_sequence e \<in> set (event_numbers db i)"
    using assms by (auto simp: event_numbers_def)
  then show ?thesis
    using assms(1) get_job_row [OF j] get_job_id [OF j] by (auto simp: events_numbered_def)
qed

text \<open>The part of the invariant that holds between the statements of a transaction.\<close>

definition struct_ok :: "db \<Rightarrow> bool" where
  "struct_ok db \<longleftrightarrow> keys_ok db \<and> events_numbered db"

lemma store_inv_struct: "store_inv db \<longleftrightarrow> struct_ok db \<and> db_ok db"
  by (auto simp: store_inv_def struct_ok_def)

lemma struct_ok_keys [dest]: "struct_ok db \<Longrightarrow> keys_ok db"
  by (simp add: struct_ok_def)

lemma struct_ok_frame:
  "struct_ok db \<Longrightarrow> keys_ok db' \<Longrightarrow> db_jobs db' = db_jobs db \<Longrightarrow> db_events db' = db_events db \<Longrightarrow>
   struct_ok db'"
  by (simp add: struct_ok_def events_numbered_def event_numbers_def)

lemma struct_ok_updates [simp]:
  "struct_ok db \<Longrightarrow> struct_ok (save_outbox db r)"
  "struct_ok db \<Longrightarrow> struct_ok (save_workflow_run db w)"
  "struct_ok db \<Longrightarrow> struct_ok (save_chapter db c)"
  "struct_ok db \<Longrightarrow> struct_ok (fst (add_outbox db r))"
  by (simp_all add: struct_ok_def events_numbered_def event_numbers_def)

lemma struct_ok_save_job:
  assumes "struct_ok db" and "get_job db (j_id j') = Some j"
    and "j_event_sequence j' = j_event_sequence j"
  shows "struct_ok (save_job db j')"
proof -
  have "event_numbers (save_job db j') = event_numbers db"
    by (simp add: event_numbers_def fun_eq_iff)
  moreover have "j \<in> set (job_rows db)" "j_id j = j_id j'"
    using assms(2) by (auto dest: get_job_row get_job_id)
  ultimately show ?thesis
    using assms(1,3) by (auto simp: struct_ok_def events_numbered_def save_job_rows)
qed

lemma store_inv_add_outbox:
  "store_inv db \<Longrightarrow> outbox_row_ok r \<Longrightarrow> get_by_deduplication_key db (o_deduplication_key r) = None \<Longrightarrow>
   store_inv (fst (add_outbox db r))"
  by (simp add: store_inv_struct db_ok_add_outbox)

lemma store_inv_save_outbox:
  "store_inv db \<Longrightarrow> get_outbox db (o_id r') = Some r \<Longrightarrow>
   o_deduplication_key r' = o_deduplication_key r \<Longrightarrow> outbox_row_ok r' \<Longrightarrow>
   store_inv (save_outbox db r')"
  using db_ok_save_outbox [of db r' r] by (simp add: store_inv_struct struct_ok_keys)

end
