(* ===== verification/Settings.thy ===== *)
theory Settings
  imports Complex_Main Enums
begin

text \<open>
  The validated process configuration (\<open>src/src/storyforge/settings.py\<close>): one record with every
  field of \<open>Settings\<close>, its defaults, the declared field ranges, the governance defaults applied
  before validation and the cross-field validator. A \<open>float\<close> or \<open>Decimal\<close> setting is its exact
  rational value, a \<open>Literal\<close> a datatype with one constructor per alternative, a \<open>SecretStr\<close> or
  \<open>Path\<close> its text. Strings are over the first 256 code points. \<open>make_url\<close> of SQLAlchemy is a
  parameter: it gives the back-end name and the password of a URL, or raises. \<open>from_env\<close>, which
  reads the fields from the process environment, is not modelled.
\<close>

section \<open>Text helpers of the standard library\<close>

definition is_space :: "char \<Rightarrow> bool" where
  "is_space c \<longleftrightarrow>
     c \<in> set [CHR 0x09, CHR 0x0A, CHR 0x0B, CHR 0x0C, CHR 0x0D, CHR 0x20, CHR 0x85, CHR 0xA0]"

definition strip :: "string \<Rightarrow> string" where
  "strip s = rev (dropWhile is_space (rev (dropWhile is_space s)))"

definition is_alnum :: "char \<Rightarrow> bool" where
  "is_alnum c \<longleftrightarrow>
     (let n = of_char c :: int
      in (48 \<le> n \<and> n \<le> 57) \<or> (65 \<le> n \<and> n \<le> 90) \<or> (97 \<le> n \<and> n \<le> 122) \<or>
         n \<in> set [170, 178, 179, 181, 185, 186, 188, 189, 190] \<or>
         (192 \<le> n \<and> n \<noteq> 215 \<and> n \<noteq> 247))"

text \<open>A character that \<open>str.upper\<close> changes.\<close>

definition is_lower :: "char \<Rightarrow> bool" where
  "is_lower c \<longleftrightarrow>
     (let n = of_char c :: int
      in (97 \<le> n \<and> n \<le> 122) \<or> n = 181 \<or> (223 \<le> n \<and> n \<noteq> 247))"

definition starts_with :: "string \<Rightarrow> string \<Rightarrow> bool" where
  "starts_with s p \<longleftrightarrow> take (length p) s = p"

definition ends_with :: "string \<Rightarrow> string \<Rightarrow> bool" where
  "ends_with s p \<longleftrightarrow> length p \<le> length s \<and> drop (length s - length p) s = p"

text \<open>
  \<open>round\<close> to an integer, ties to even, and \<open>timedelta(seconds=q)\<close> at its microsecond
  resolution.
\<close>

definition round_half_even :: "rat \<Rightarrow> int" where
  "round_half_even q =
     (let f = \<lfloor>q\<rfloor>; d = q - of_int f
      in if d < 1 / 2 \<or> d = 1 / 2 \<and> even f then f else f + 1)"

definition timedelta_seconds :: "rat \<Rightarrow> time" where
  "timedelta_seconds q = round_half_even (q * 1000000)"

lemma round_half_even_ge: "of_int n \<le> q \<Longrightarrow> n \<le> round_half_even q"
  by (simp add: round_half_even_def Let_def le_floor_iff) linarith

lemma timedelta_seconds_ge: "of_int n \<le> q \<Longrightarrow> seconds n \<le> timedelta_seconds q"
  unfolding timedelta_seconds_def seconds_def by (rule round_half_even_ge) simp

section \<open>The fields\<close>

datatype setting_environment =
    Environment_development | Environment_test | Environment_production

datatype setting_llm_provider =
    LlmProvider_mock | LlmProvider_openai_compatible

datatype setting_output_mode =
    OutputMode_auto | OutputMode_json_schema | OutputMode_json_object

datatype setting_embedding_provider =
    EmbeddingProvider_mock | EmbeddingProvider_openai_compatible

datatype setting_vector_distance =
    VectorDistance_cosine

datatype setting_mock_workflow =
    MockWorkflow_pass | MockWorkflow_improve | MockWorkflow_stagnate

datatype setting_mock_critic =
    MockCritic_normal
  | MockCritic_death
  | MockCritic_outline
  | MockCritic_poor
  | MockCritic_conflict

datatype setting_log_level =
    LogLevel_DEBUG
  | LogLevel_INFO
  | LogLevel_WARNING
  | LogLevel_ERROR
  | LogLevel_CRITICAL

datatype setting_log_format =
    LogFormat_text | LogFormat_json

datatype setting_execution_mode =
    ExecutionMode_inline | ExecutionMode_queue

datatype setting_book_mode =
    BookMode_sequential | BookMode_dependency_aware

record settings =
  s_environment :: setting_environment
  s_database_url :: string
  s_llm_provider :: setting_llm_provider
  s_llm_model :: string
  s_llm_api_base_url :: string
  s_llm_api_key :: "string option"
  s_llm_timeout_seconds :: rat
  s_llm_max_retries :: int
  s_llm_repair_retries :: int
  s_llm_retry_base_delay_seconds :: rat
  s_llm_structured_output_mode :: setting_output_mode
  s_llm_max_output_tokens :: int
  s_embedding_provider :: setting_embedding_provider
  s_embedding_model :: string
  s_embedding_base_url :: string
  s_embedding_api_key :: "string option"
  s_embedding_dimensions :: int
  s_embedding_batch_size :: int
  s_embedding_timeout_seconds :: rat
  s_embedding_max_retries :: int
  s_vector_distance :: setting_vector_distance
  s_retrieval_top_k :: int
  s_retrieval_max_top_k :: int
  s_retrieval_max_context_chars :: int
  s_hybrid_keyword_weight :: rat
  s_hybrid_vector_weight :: rat
  s_hybrid_fact_weight :: rat
  s_hybrid_graph_weight :: rat
  s_retrieval_debug :: bool
  s_mock_workflow_scenario :: setting_mock_workflow
  s_mock_critic_scenario :: setting_mock_critic
  s_mock_mode :: bool
  s_auto_migrate :: bool
  s_api_host :: string
  s_api_port :: int
  s_log_level :: setting_log_level
  s_log_format :: setting_log_format
  s_allowed_origins :: "string list"
  s_cors_allow_credentials :: bool
  s_api_prefix :: string
  s_default_page_size :: int
  s_maximum_page_size :: int
  s_max_revision_attempts :: int
  s_allow_debug_pause_nodes :: bool
  s_include_error_detail_in_logs :: bool
  s_max_request_body_bytes :: int
  s_max_chapter_content_chars :: int
  s_max_diff_chars :: int
  s_checkpoint_path :: "string option"
  s_enable_http_logging :: bool
  s_database_wait_attempts :: int
  s_database_wait_interval_seconds :: rat
  s_model_profile :: model_profile
  s_privacy_policy :: privacy_policy
  s_provider_config_path :: "string option"
  s_pricing_config_path :: "string option"
  s_default_currency :: string
  s_project_soft_budget :: rat
  s_project_hard_budget :: rat
  s_workflow_max_cost :: rat
  s_workflow_max_tokens :: int
  s_workflow_max_provider_calls :: int
  s_provider_max_retries :: int
  s_provider_total_deadline_seconds :: rat
  s_rate_limit_rpm :: int
  s_rate_limit_tpm :: int
  s_provider_max_concurrency :: int
  s_circuit_failure_threshold :: int
  s_circuit_cooldown_seconds :: rat
  s_allow_unknown_pricing :: bool
  s_enable_real_provider_tests :: bool
  s_job_execution_mode :: setting_execution_mode
  s_redis_url :: string
  s_queue_prefix :: string
  s_worker_concurrency :: int
  s_worker_heartbeat_seconds :: rat
  s_worker_offline_after_seconds :: rat
  s_job_lease_seconds :: rat
  s_job_default_timeout :: int
  s_job_max_attempts :: int
  s_outbox_poll_interval :: rat
  s_outbox_batch_size :: int
  s_queue_pending_soft_limit :: int
  s_queue_pending_hard_limit :: int
  s_project_pending_limit :: int
  s_sse_heartbeat_seconds :: rat
  s_sse_max_connections :: int
  s_distributed_rate_limit_enabled :: bool
  s_distributed_circuit_enabled :: bool
  s_book_default_mode :: setting_book_mode
  s_book_max_active_runs_per_project :: int
  s_book_chapter_concurrency :: int
  s_book_global_check_interval :: int
  s_book_max_chapter_retries :: int
  s_book_max_global_revision_rounds :: int
  s_book_max_revision_chapters_per_round :: int
  s_book_min_pass_score :: rat
  s_book_min_foreshadowing_payoff_rate :: rat
  s_book_max_cost :: rat
  s_book_max_tokens :: int
  s_book_max_provider_calls :: int

definition default_settings :: settings where
  "default_settings =
    \<lparr>s_environment = Environment_development, s_database_url = ''sqlite:///./storyforge.db'',
     s_llm_provider = LlmProvider_mock, s_llm_model = ''mock-storyforge-v1'',
     s_llm_api_base_url = ''https://api.openai.com/v1'', s_llm_api_key = None,
     s_llm_timeout_seconds = 30, s_llm_max_retries = 2, s_llm_repair_retries = 1,
     s_llm_retry_base_delay_seconds = 1 / 2, s_llm_structured_output_mode = OutputMode_auto,
     s_llm_max_output_tokens = 8192, s_embedding_provider = EmbeddingProvider_mock,
     s_embedding_model = ''mock-hash-embedding-v1'',
     s_embedding_base_url = ''https://api.openai.com/v1'', s_embedding_api_key = None,
     s_embedding_dimensions = 64, s_embedding_batch_size = 32,
     s_embedding_timeout_seconds = 30, s_embedding_max_retries = 2,
     s_vector_distance = VectorDistance_cosine, s_retrieval_top_k = 20,
     s_retrieval_max_top_k = 100, s_retrieval_max_context_chars = 16000,
     s_hybrid_keyword_weight = 1 / 5, s_hybrid_vector_weight = 7 / 20,
     s_hybrid_fact_weight = 1 / 4, s_hybrid_graph_weight = 1 / 5, s_retrieval_debug = False,
     s_mock_workflow_scenario = MockWorkflow_improve,
     s_mock_critic_scenario = MockCritic_normal, s_mock_mode = True, s_auto_migrate = False,
     s_api_host = ''127.0.0.1'', s_api_port = 8000, s_log_level = LogLevel_INFO,
     s_log_format = LogFormat_text, s_allowed_origins = [], s_cors_allow_credentials = False,
     s_api_prefix = ''/api/v1'', s_default_page_size = 20, s_maximum_page_size = 100,
     s_max_revision_attempts = 3, s_allow_debug_pause_nodes = False,
     s_include_error_detail_in_logs = False, s_max_request_body_bytes = 1048576,
     s_max_chapter_content_chars = 500000, s_max_diff_chars = 50000, s_checkpoint_path = None,
     s_enable_http_logging = True, s_database_wait_attempts = 30,
     s_database_wait_interval_seconds = 1, s_model_profile = ModelProfile_OFFLINE,
     s_privacy_policy = PrivacyPolicy_OFFLINE, s_provider_config_path = None,
     s_pricing_config_path = None, s_default_currency = ''USD'', s_project_soft_budget = 5,
     s_project_hard_budget = 10, s_workflow_max_cost = 2, s_workflow_max_tokens = 500000,
     s_workflow_max_provider_calls = 100, s_provider_max_retries = 2,
     s_provider_total_deadline_seconds = 120, s_rate_limit_rpm = 60,
     s_rate_limit_tpm = 1000000, s_provider_max_concurrency = 4,
     s_circuit_failure_threshold = 3, s_circuit_cooldown_seconds = 30,
     s_allow_unknown_pricing = False, s_enable_real_provider_tests = False,
     s_job_execution_mode = ExecutionMode_inline, s_redis_url = ''redis://127.0.0.1:6379/0'',
     s_queue_prefix = ''storyforge'', s_worker_concurrency = 2, s_worker_heartbeat_seconds = 5,
     s_worker_offline_after_seconds = 20, s_job_lease_seconds = 30,
     s_job_default_timeout = 3600, s_job_max_attempts = 3, s_outbox_poll_interval = 1 / 2,
     s_outbox_batch_size = 50, s_queue_pending_soft_limit = 100,
     s_queue_pending_hard_limit = 500, s_project_pending_limit = 25,
     s_sse_heartbeat_seconds = 15, s_sse_max_connections = 100,
     s_distributed_rate_limit_enabled = False, s_distributed_circuit_enabled = False,
     s_book_default_mode = BookMode_sequential, s_book_max_active_runs_per_project = 1,
     s_book_chapter_concurrency = 1, s_book_global_check_interval = 3,
     s_book_max_chapter_retries = 2, s_book_max_global_revision_rounds = 2,
     s_book_max_revision_chapters_per_round = 3, s_book_min_pass_score = 7,
     s_book_min_foreshadowing_payoff_rate = 3 / 5, s_book_max_cost = 5,
     s_book_max_tokens = 1000000, s_book_max_provider_calls = 250\<rparr>"

text \<open>The ranges declared with \<open>Field(gt=, ge=, lt=, le=, min_length=, max_length=)\<close>.\<close>

definition field_ranges_ok :: "settings \<Rightarrow> bool" where
  "field_ranges_ok s \<longleftrightarrow>
     0 < s_llm_timeout_seconds s \<and> s_llm_timeout_seconds s \<le> 300 \<and>
     0 \<le> s_llm_max_retries s \<and> s_llm_max_retries s \<le> 10 \<and>
     0 \<le> s_llm_repair_retries s \<and> s_llm_repair_retries s \<le> 5 \<and>
     0 \<le> s_llm_retry_base_delay_seconds s \<and>
     s_llm_retry_base_delay_seconds s \<le> 30 \<and> 1 \<le> s_llm_max_output_tokens s \<and>
     s_llm_max_output_tokens s \<le> 131072 \<and> 2 \<le> s_embedding_dimensions s \<and>
     s_embedding_dimensions s \<le> 4096 \<and> 1 \<le> s_embedding_batch_size s \<and>
     s_embedding_batch_size s \<le> 2048 \<and> 0 < s_embedding_timeout_seconds s \<and>
     s_embedding_timeout_seconds s \<le> 600 \<and> 0 \<le> s_embedding_max_retries s \<and>
     s_embedding_max_retries s \<le> 10 \<and> 1 \<le> s_retrieval_top_k s \<and>
     s_retrieval_top_k s \<le> 100 \<and> 1 \<le> s_retrieval_max_top_k s \<and>
     s_retrieval_max_top_k s \<le> 500 \<and> 500 \<le> s_retrieval_max_context_chars s \<and>
     s_retrieval_max_context_chars s \<le> 100000 \<and>
     0 \<le> s_hybrid_keyword_weight s \<and> s_hybrid_keyword_weight s \<le> 1 \<and>
     0 \<le> s_hybrid_vector_weight s \<and> s_hybrid_vector_weight s \<le> 1 \<and>
     0 \<le> s_hybrid_fact_weight s \<and> s_hybrid_fact_weight s \<le> 1 \<and>
     0 \<le> s_hybrid_graph_weight s \<and> s_hybrid_graph_weight s \<le> 1 \<and>
     1 \<le> s_api_port s \<and> s_api_port s \<le> 65535 \<and>
     1 \<le> s_default_page_size s \<and> s_default_page_size s \<le> 100 \<and>
     1 \<le> s_maximum_page_size s \<and> s_maximum_page_size s \<le> 500 \<and>
     0 \<le> s_max_revision_attempts s \<and> s_max_revision_attempts s \<le> 10 \<and>
     1024 \<le> s_max_request_body_bytes s \<and>
     s_max_request_body_bytes s \<le> 10485760 \<and>
     1000 \<le> s_max_chapter_content_chars s \<and>
     s_max_chapter_content_chars s \<le> 2000000 \<and> 1000 \<le> s_max_diff_chars s \<and>
     s_max_diff_chars s \<le> 500000 \<and> 1 \<le> s_database_wait_attempts s \<and>
     s_database_wait_attempts s \<le> 300 \<and>
     0 \<le> s_database_wait_interval_seconds s \<and>
     s_database_wait_interval_seconds s \<le> 30 \<and>
     3 \<le> length (s_default_currency s) \<and> length (s_default_currency s) \<le> 3 \<and>
     0 \<le> s_project_soft_budget s \<and> 0 < s_project_hard_budget s \<and>
     0 < s_workflow_max_cost s \<and> 0 < s_workflow_max_tokens s \<and>
     0 < s_workflow_max_provider_calls s \<and> 0 \<le> s_provider_max_retries s \<and>
     s_provider_max_retries s \<le> 10 \<and> 0 < s_provider_total_deadline_seconds s \<and>
     s_provider_total_deadline_seconds s \<le> 900 \<and> 0 < s_rate_limit_rpm s \<and>
     s_rate_limit_rpm s \<le> 100000 \<and> 0 < s_rate_limit_tpm s \<and>
     0 < s_provider_max_concurrency s \<and> s_provider_max_concurrency s \<le> 1000 \<and>
     0 < s_circuit_failure_threshold s \<and> s_circuit_failure_threshold s \<le> 100 \<and>
     0 < s_circuit_cooldown_seconds s \<and> s_circuit_cooldown_seconds s \<le> 3600 \<and>
     1 \<le> length (s_queue_prefix s) \<and> length (s_queue_prefix s) \<le> 50 \<and>
     1 \<le> s_worker_concurrency s \<and> s_worker_concurrency s \<le> 128 \<and>
     0 < s_worker_heartbeat_seconds s \<and> s_worker_heartbeat_seconds s \<le> 300 \<and>
     0 < s_worker_offline_after_seconds s \<and>
     s_worker_offline_after_seconds s \<le> 3600 \<and> 1 < s_job_lease_seconds s \<and>
     s_job_lease_seconds s \<le> 3600 \<and> 1 \<le> s_job_default_timeout s \<and>
     s_job_default_timeout s \<le> 86400 \<and> 1 \<le> s_job_max_attempts s \<and>
     s_job_max_attempts s \<le> 20 \<and> 0 < s_outbox_poll_interval s \<and>
     s_outbox_poll_interval s \<le> 60 \<and> 1 \<le> s_outbox_batch_size s \<and>
     s_outbox_batch_size s \<le> 1000 \<and> 1 \<le> s_queue_pending_soft_limit s \<and>
     s_queue_pending_soft_limit s \<le> 1000000 \<and>
     1 \<le> s_queue_pending_hard_limit s \<and>
     s_queue_pending_hard_limit s \<le> 1000000 \<and> 1 \<le> s_project_pending_limit s \<and>
     s_project_pending_limit s \<le> 100000 \<and> 0 < s_sse_heartbeat_seconds s \<and>
     s_sse_heartbeat_seconds s \<le> 120 \<and> 1 \<le> s_sse_max_connections s \<and>
     s_sse_max_connections s \<le> 10000 \<and>
     1 \<le> s_book_max_active_runs_per_project s \<and>
     s_book_max_active_runs_per_project s \<le> 1 \<and>
     1 \<le> s_book_chapter_concurrency s \<and> s_book_chapter_concurrency s \<le> 4 \<and>
     1 \<le> s_book_global_check_interval s \<and>
     s_book_global_check_interval s \<le> 20 \<and> 0 \<le> s_book_max_chapter_retries s \<and>
     s_book_max_chapter_retries s \<le> 10 \<and>
     0 \<le> s_book_max_global_revision_rounds s \<and>
     s_book_max_global_revision_rounds s \<le> 5 \<and>
     1 \<le> s_book_max_revision_chapters_per_round s \<and>
     s_book_max_revision_chapters_per_round s \<le> 10 \<and>
     0 \<le> s_book_min_pass_score s \<and> s_book_min_pass_score s \<le> 10 \<and>
     0 \<le> s_book_min_foreshadowing_payoff_rate s \<and>
     s_book_min_foreshadowing_payoff_rate s \<le> 1 \<and> 0 < s_book_max_cost s \<and>
     0 < s_book_max_tokens s \<and> 0 < s_book_max_provider_calls s"

text \<open>\<open>str_strip_whitespace=True\<close>: every text field is stripped before it is checked.\<close>

definition strip_fields :: "settings \<Rightarrow> settings" where
  "strip_fields s =
     s\<lparr>s_database_url := strip (s_database_url s), s_llm_model := strip (s_llm_model s),
       s_llm_api_base_url := strip (s_llm_api_base_url s),
       s_embedding_model := strip (s_embedding_model s),
       s_embedding_base_url := strip (s_embedding_base_url s),
       s_api_host := strip (s_api_host s), s_allowed_origins := map strip (s_allowed_origins s),
       s_api_prefix := strip (s_api_prefix s), s_default_currency := strip (s_default_currency s),
       s_redis_url := strip (s_redis_url s), s_queue_prefix := strip (s_queue_prefix s)\<rparr>"

section \<open>Defaults chosen from the provider and the environment\<close>

text \<open>The raw values: the fields given explicitly, by name.\<close>

definition setdefault :: "string \<Rightarrow> string \<Rightarrow> (string \<rightharpoonup> string) \<Rightarrow> (string \<rightharpoonup> string)" where
  "setdefault k v m = (if m k = None then m(k \<mapsto> v) else m)"

definition default_provider_governance :: "(string \<rightharpoonup> string) \<Rightarrow> (string \<rightharpoonup> string)" where
  "default_provider_governance data =
     (let provider = (case data ''llm_provider'' of Some p \<Rightarrow> p | None \<Rightarrow> ''mock'');
          mock = (provider = ''mock'');
          values1 = setdefault ''model_profile'' (if mock then ''offline'' else ''balanced'') data;
          values2 = setdefault ''privacy_policy'' (if mock then ''offline'' else ''strict'') values1
      in if values2 ''environment'' = Some ''production''
         then setdefault ''distributed_circuit_enabled'' ''True''
                (setdefault ''distributed_rate_limit_enabled'' ''True''
                  (setdefault ''job_execution_mode'' ''queue'' values2))
         else values2)"

section \<open>Cross-field validation\<close>

definition normalize_database_url :: "string \<Rightarrow> string result" where
  "normalize_database_url database_url =
     (let value = strip database_url
      in if value = [] then Inl ValueError
         else if starts_with value ''postgres://''
         then Inr (''postgresql+psycopg://'' @ drop (length ''postgres://'') value)
         else if starts_with value ''postgresql://''
         then Inr (''postgresql+psycopg://'' @ drop (length ''postgresql://'') value)
         else Inr value)"

definition hybrid_total :: "settings \<Rightarrow> rat" where
  "hybrid_total s = s_hybrid_keyword_weight s + s_hybrid_vector_weight s +
     s_hybrid_fact_weight s + s_hybrid_graph_weight s"

definition key_text :: "string option \<Rightarrow> string" where
  "key_text k = (case k of None \<Rightarrow> [] | Some t \<Rightarrow> t)"

text \<open>The rejections that precede the parse of the database URL, in order, then the rest.\<close>

definition early_rejections :: "settings \<Rightarrow> bool list" where
  "early_rejections s =
     [strip (s_database_url s) = [],
      \<not> starts_with (s_api_prefix s) ''/'' \<or> ends_with (s_api_prefix s) ''/'',
      s_default_page_size s > s_maximum_page_size s,
      s_retrieval_top_k s > s_retrieval_max_top_k s,
      s_embedding_dimensions s \<noteq> 64,
      \<bar>hybrid_total s - 1\<bar> > 1 / 1000000000]"

definition late_rejections :: "settings \<Rightarrow> string \<Rightarrow> string option \<Rightarrow> bool list" where
  "late_rejections s backend password =
     (let production = (s_environment s = Environment_production)
      in [production \<and> backend \<noteq> ''postgresql'',
          production \<and> password = Some ''storyforge-dev-only'',
          production \<and> s_llm_provider s = LlmProvider_mock,
          production \<and> s_mock_mode s,
          production \<and> s_embedding_provider s = EmbeddingProvider_mock,
          s_llm_provider s = LlmProvider_mock \<and> \<not> s_mock_mode s,
          s_cors_allow_credentials s \<and> ''*'' \<in> set (s_allowed_origins s),
          s_project_soft_budget s > s_project_hard_budget s,
          \<exists>c \<in> set (s_default_currency s). is_lower c,
          s_queue_pending_soft_limit s > s_queue_pending_hard_limit s,
          strip (s_redis_url s) = [],
          (let name = filter (\<lambda>c. c \<noteq> CHR ''-'' \<and> c \<noteq> CHR ''_'') (s_queue_prefix s)
           in name = [] \<or> (\<exists>c \<in> set name. \<not> is_alnum c)),
          s_worker_heartbeat_seconds s \<ge> s_job_lease_seconds s,
          s_worker_offline_after_seconds s \<le> s_worker_heartbeat_seconds s,
          s_book_default_mode s = BookMode_sequential \<and> s_book_chapter_concurrency s \<noteq> 1,
          production \<and> s_job_execution_mode s \<noteq> ExecutionMode_queue,
          production \<and> \<not> s_distributed_rate_limit_enabled s,
          production \<and> \<not> s_distributed_circuit_enabled s,
          s_model_profile s = ModelProfile_OFFLINE \<and> s_privacy_policy s \<noteq> PrivacyPolicy_OFFLINE,
          s_privacy_policy s = PrivacyPolicy_OFFLINE \<and> s_llm_provider s \<noteq> LlmProvider_mock,
          s_llm_provider s = LlmProvider_openai_compatible \<and> key_text (s_llm_api_key s) = [],
          s_llm_provider s = LlmProvider_openai_compatible \<and>
            (s_llm_model s = [] \<or> starts_with (s_llm_model s) ''replace-with''),
          s_embedding_provider s = EmbeddingProvider_openai_compatible \<and>
            key_text (s_embedding_api_key s) = [],
          s_embedding_provider s = EmbeddingProvider_openai_compatible \<and>
            (s_embedding_model s = [] \<or> starts_with (s_embedding_model s) ''replace-with'')])"

definition validate_configuration ::
  "(string \<Rightarrow> (string \<times> string option) result) \<Rightarrow> settings \<Rightarrow> settings result" where
  "validate_configuration make_url s =
     (if True \<in> set (early_rejections s) then Inl ConfigurationError
      else and_then (and_then (normalize_database_url (s_database_url s)) make_url)
        (\<lambda>(backend, password).
           if True \<in> set (late_rejections s backend password) then Inl ConfigurationError
           else Inr s))"

text \<open>Constructing \<open>Settings(...)\<close>: strip, check the fields, then validate across fields.\<close>

definition make_settings ::
  "(string \<Rightarrow> (string \<times> string option) result) \<Rightarrow> settings \<Rightarrow> settings result" where
  "make_settings make_url raw =
     (let s = strip_fields raw
      in if \<not> field_ranges_ok s then Inl (OtherException ''ValidationError'')
         else validate_configuration make_url s)"

section \<open>What a validated configuration guarantees\<close>

lemma strip_idem_nil: "strip [] = []"
  by (simp add: strip_def)

lemma make_settings_Inr:
  "make_settings make_url raw = Inr s \<longleftrightarrow>
     s = strip_fields raw \<and> field_ranges_ok s \<and> True \<notin> set (early_rejections s) \<and>
     (\<exists>url backend password. normalize_database_url (s_database_url s) = Inr url \<and>
        make_url url = Inr (backend, password) \<and> True \<notin> set (late_rejections s backend password))"
  by (auto simp: make_settings_def validate_configuration_def Let_def split: if_splits)

text \<open>The facts the components below rely on.\<close>

definition settings_ok :: "settings \<Rightarrow> bool" where
  "settings_ok s \<longleftrightarrow> field_ranges_ok s \<and> s_worker_heartbeat_seconds s < s_job_lease_seconds s \<and>
     s_queue_pending_soft_limit s \<le> s_queue_pending_hard_limit s \<and>
     s_project_soft_budget s \<le> s_project_hard_budget s \<and>
     (s_book_default_mode s = BookMode_sequential \<longrightarrow> s_book_chapter_concurrency s = 1)"

lemma late_rejections_facts:
  assumes "True \<notin> set (late_rejections s backend password)"
  shows "s_worker_heartbeat_seconds s < s_job_lease_seconds s"
    "s_queue_pending_soft_limit s \<le> s_queue_pending_hard_limit s"
    "s_project_soft_budget s \<le> s_project_hard_budget s"
    "s_book_default_mode s = BookMode_sequential \<longrightarrow> s_book_chapter_concurrency s = 1"
    "s_privacy_policy s = PrivacyPolicy_OFFLINE \<longrightarrow> s_llm_provider s = LlmProvider_mock"
    "s_model_profile s = ModelProfile_OFFLINE \<longrightarrow> s_privacy_policy s = PrivacyPolicy_OFFLINE"
    "s_environment s = Environment_production \<longrightarrow> backend = ''postgresql'' \<and>
       s_llm_provider s \<noteq> LlmProvider_mock \<and> \<not> s_mock_mode s \<and>
       s_job_execution_mode s = ExecutionMode_queue \<and> s_distributed_rate_limit_enabled s \<and>
       s_distributed_circuit_enabled s"
  using assms unfolding late_rejections_def Let_def list.set insert_iff
  by (simp_all only: de_Morgan_disj simp_thms not_le not_less) blast+

lemma make_settings_ok: "make_settings make_url raw = Inr s \<Longrightarrow> settings_ok s"
  unfolding make_settings_Inr settings_ok_def using late_rejections_facts [of s] by blast

lemma settings_ok_bounds:
  assumes "settings_ok s"
  shows "1 \<le> s_job_max_attempts s" "s_job_max_attempts s \<le> 20" "1 < s_job_lease_seconds s"
    "1 \<le> s_outbox_batch_size s" "1 \<le> s_queue_pending_hard_limit s"
    "1 \<le> s_project_pending_limit s"
  using assms by (simp_all add: settings_ok_def field_ranges_ok_def)

end
