(* ===== verification/Job_Requests.thy ===== *)
theory Job_Requests
  imports Store_Laws Settings "HOL-Library.List_Lexorder" "HOL-Library.Char_ord"
begin

text \<open>
  What a job request is before it becomes a row: the registry of job definitions
  (\<open>jobs/registry.py\<close>, \<open>jobs/models.py\<close>), the payload checks and the idempotency key of
  \<open>services/jobs.py\<close>, and the retry schedule. \<open>hexdigest\<close>, a parameter of the functions that
  use it, is SHA-256 of the canonical JSON text of a value (\<open>json.dumps\<close> with sorted keys);
  what is assumed of it is stated where it is used.
\<close>

section \<open>JobDefinition and JobRegistry\<close>

record job_definition =
  jd_job_type :: job_type
  jd_handler_name :: string
  jd_queue_name :: string
  jd_max_attempts :: int
  jd_timeout_seconds :: int
  jd_retry_policy :: string
  jd_cancellable :: bool
  jd_resumable :: bool
  jd_idempotent :: bool

text \<open>The field constraints of the model: \<open>min_length\<close>, \<open>max_length\<close>, \<open>ge\<close>, \<open>le\<close>.\<close>

definition job_definition_ok :: "job_definition \<Rightarrow> bool" where
  "job_definition_ok d \<longleftrightarrow>
     1 \<le> length (jd_handler_name d) \<and> length (jd_handler_name d) \<le> 100 \<and>
     1 \<le> length (jd_queue_name d) \<and> length (jd_queue_name d) \<le> 100 \<and>
     1 \<le> jd_max_attempts d \<and> jd_max_attempts d \<le> 20 \<and>
     1 \<le> jd_timeout_seconds d \<and> jd_timeout_seconds d \<le> 86400 \<and>
     1 \<le> length (jd_retry_policy d) \<and> length (jd_retry_policy d) \<le> 100"

definition job_definitions :: "job_definition list" where
  "job_definitions =
     [\<lparr>jd_job_type = JobType_GENERATE_PLAN, jd_handler_name = ''generate_plan'',
       jd_queue_name = ''storyforge.default'', jd_max_attempts = 3, jd_timeout_seconds = 900,
       jd_retry_policy = ''infrastructure_only'', jd_cancellable = True, jd_resumable = False,
       jd_idempotent = True\<rparr>,
      \<lparr>jd_job_type = JobType_GENERATE_CHAPTER, jd_handler_name = ''generate_chapter'',
       jd_queue_name = ''storyforge.default'', jd_max_attempts = 3, jd_timeout_seconds = 1800,
       jd_retry_policy = ''infrastructure_only'', jd_cancellable = True, jd_resumable = False,
       jd_idempotent = True\<rparr>,
      \<lparr>jd_job_type = JobType_EVALUATE_CHAPTER, jd_handler_name = ''evaluate_chapter'',
       jd_queue_name = ''storyforge.default'', jd_max_attempts = 3, jd_timeout_seconds = 1800,
       jd_retry_policy = ''infrastructure_only'', jd_cancellable = True, jd_resumable = False,
       jd_idempotent = True\<rparr>,
      \<lparr>jd_job_type = JobType_RUN_CHAPTER_WORKFLOW, jd_handler_name = ''run_chapter_workflow'',
       jd_queue_name = ''storyforge.workflow'', jd_max_attempts = 3, jd_timeout_seconds = 7200,
       jd_retry_policy = ''infrastructure_only'', jd_cancellable = True, jd_resumable = True,
       jd_idempotent = True\<rparr>,
      \<lparr>jd_job_type = JobType_RESUME_WORKFLOW, jd_handler_name = ''resume_workflow'',
       jd_queue_name = ''storyforge.workflow'', jd_max_attempts = 3, jd_timeout_seconds = 7200,
       jd_retry_policy = ''infrastructure_only'', jd_cancellable = True, jd_resumable = True,
       jd_idempotent = True\<rparr>,
      \<lparr>jd_job_type = JobType_REINDEX_MEMORY, jd_handler_name = ''reindex_memory'',
       jd_queue_name = ''storyforge.indexing'', jd_max_attempts = 4, jd_timeout_seconds = 3600,
       jd_retry_policy = ''provider_or_infrastructure'', jd_cancellable = True,
       jd_resumable = False, jd_idempotent = True\<rparr>,
      \<lparr>jd_job_type = JobType_RUN_RETRIEVAL_WARMUP, jd_handler_name = ''run_retrieval_warmup'',
       jd_queue_name = ''storyforge.indexing'', jd_max_attempts = 2, jd_timeout_seconds = 600,
       jd_retry_policy = ''infrastructure_only'', jd_cancellable = True, jd_resumable = False,
       jd_idempotent = True\<rparr>,
      \<lparr>jd_job_type = JobType_RUN_BOOK, jd_handler_name = ''run_book'',
       jd_queue_name = ''storyforge.book'', jd_max_attempts = 3, jd_timeout_seconds = 86400,
       jd_retry_policy = ''infrastructure_only'', jd_cancellable = True, jd_resumable = True,
       jd_idempotent = True\<rparr>,
      \<lparr>jd_job_type = JobType_RESUME_BOOK, jd_handler_name = ''resume_book'',
       jd_queue_name = ''storyforge.book'', jd_max_attempts = 3, jd_timeout_seconds = 86400,
       jd_retry_policy = ''infrastructure_only'', jd_cancellable = True, jd_resumable = True,
       jd_idempotent = True\<rparr>]"

definition registry_get :: "job_type \<Rightarrow> job_definition result" where
  "registry_get t = or_raise KeyError (find (\<lambda>d. jd_job_type d = t) job_definitions)"

definition registry_list :: "job_definition result list" where
  "registry_list = map registry_get job_type_members"

text \<open>Every member of \<open>JobType\<close> has its own definition, which satisfies the model.\<close>

lemma registry_total: "\<exists>d. registry_get t = Inr d \<and> jd_job_type d = t \<and> job_definition_ok d"
  by (cases t) (simp_all add: registry_get_def job_definitions_def job_definition_ok_def)

definition definition_of :: "job_type \<Rightarrow> job_definition" where
  "definition_of t = projr (registry_get t)"

lemma definition_of_ok: "registry_get t = Inr (definition_of t)" "job_definition_ok (definition_of t)"
  "jd_job_type (definition_of t) = t"
  using registry_total [of t] by (auto simp: definition_of_def)

lemma definition_of_attempts: "1 \<le> jd_max_attempts (definition_of t)" "jd_max_attempts (definition_of t) \<le> 20"
  using definition_of_ok(2) [of t] by (simp_all add: job_definition_ok_def)

section \<open>Payloads\<close>

text \<open>\<open>normalized_payload\<close>: the same entries, in key order.\<close>

definition normalized_payload :: "(string \<times> json) list \<Rightarrow> (string \<times> json) list" where
  "normalized_payload payload = sort_key fst payload"

text \<open>\<open>str.casefold\<close>; the folding of code point 181 is outside the first 256 and leaves the character.\<close>

definition fold_case :: "char \<Rightarrow> string" where
  "fold_case c =
     (let n = of_char c :: int
      in if 65 \<le> n \<and> n \<le> 90 \<or> 192 \<le> n \<and> n \<le> 222 \<and> n \<noteq> 215 then [char_of (n + 32)]
         else if n = 223 then ''ss'' else [c])"

definition casefold :: "string \<Rightarrow> string" where
  "casefold s = concat (map fold_case s)"

definition sensitive_keys :: "string list" where
  "sensitive_keys =
     [''api_key'', ''authorization'', ''password'', ''secret'', ''token'', ''database_url'',
      ''content'']"

definition sensitive_key :: "string \<Rightarrow> bool" where
  "sensitive_key key \<longleftrightarrow>
     casefold key \<in> set sensitive_keys \<or> ends_with (casefold key) ''_key''"

text \<open>\<open>_validate_payload.inspect\<close>: depth first, in iteration order, first problem wins.\<close>

fun inspect :: "json \<Rightarrow> unit result"
  and inspect_items :: "(string \<times> json) list \<Rightarrow> unit result"
  and inspect_list :: "json list \<Rightarrow> unit result" where
  "inspect (JDict items) = inspect_items items"
| "inspect (JList vs) = inspect_list vs"
| "inspect JOther = Inl DomainValidationError"
| "inspect JNull = Inr ()"
| "inspect (JBool b) = Inr ()"
| "inspect (JInt i) = Inr ()"
| "inspect (JFloat x) = Inr ()"
| "inspect (JStr s) = Inr ()"
| "inspect_items [] = Inr ()"
| "inspect_items ((key, item) # rest) =
     (if sensitive_key key then Inl DomainValidationError
      else and_then (inspect item) (\<lambda>_. inspect_items rest))"
| "inspect_list [] = Inr ()"
| "inspect_list (item # rest) = and_then (inspect item) (\<lambda>_. inspect_list rest)"

definition validate_payload :: "(string \<times> json) list \<Rightarrow> unit result" where
  "validate_payload payload = inspect (JDict payload)"

text \<open>What the check is for: no sensitive key and no foreign value at any depth.\<close>

inductive reaches :: "json \<Rightarrow> json \<Rightarrow> bool" where
  self: "reaches v v"
| in_dict: "(k, w) \<in> set items \<Longrightarrow> reaches w v \<Longrightarrow> reaches (JDict items) v"
| in_list: "w \<in> set vs \<Longrightarrow> reaches w v \<Longrightarrow> reaches (JList vs) v"

inductive_cases reaches_JDict: "reaches (JDict items) v"
inductive_cases reaches_JList: "reaches (JList vs) v"

definition clean :: "json \<Rightarrow> bool" where
  "clean v \<longleftrightarrow> (\<forall>w. reaches v w \<longrightarrow> w \<noteq> JOther \<and>
     (\<forall>items k x. w = JDict items \<longrightarrow> (k, x) \<in> set items \<longrightarrow> \<not> sensitive_key k))"

lemma clean_atom: "v \<in> {JNull, JBool b, JInt i, JFloat x, JStr s} \<Longrightarrow> clean v"
  by (auto simp: clean_def elim: reaches.cases)

lemma clean_JOther: "\<not> clean JOther"
  by (auto simp: clean_def intro: reaches.self)

lemma clean_JDict:
  "clean (JDict items) \<longleftrightarrow> (\<forall>(k, v) \<in> set items. \<not> sensitive_key k \<and> clean v)"
proof
  assume c: "clean (JDict items)"
  show "\<forall>(k, v) \<in> set items. \<not> sensitive_key k \<and> clean v"
  proof clarify
    fix k v assume kv: "(k, v) \<in> set items"
    with c have "\<not> sensitive_key k" unfolding clean_def using reaches.self by blast
    moreover have "clean v"
      using c reaches.in_dict [OF kv] unfolding clean_def by blast
    ultimately show "\<not> sensitive_key k \<and> clean v" by blast
  qed
next
  assume all: "\<forall>(k, v) \<in> set items. \<not> sensitive_key k \<and> clean v"
  show "clean (JDict items)"
    unfolding clean_def
  proof (intro allI impI)
    fix w assume "reaches (JDict items) w"
    then consider "w = JDict items" | k x where "(k, x) \<in> set items" "reaches x w"
      by (auto elim: reaches_JDict)
    then show "w \<noteq> JOther \<and>
        (\<forall>its k x. w = JDict its \<longrightarrow> (k, x) \<in> set its \<longrightarrow> \<not> sensitive_key k)"
    proof cases
      case 1
      then show ?thesis using all by auto
    next
      case 2
      then have "clean x" using all by auto
      then show ?thesis using 2(2) unfolding clean_def by blast
    qed
  qed
qed

lemma clean_JList: "clean (JList vs) \<longleftrightarrow> (\<forall>v \<in> set vs. clean v)"
proof
  assume "clean (JList vs)"
  then show "\<forall>v \<in> set vs. clean v" unfolding clean_def using reaches.in_list by blast
next
  assume all: "\<forall>v \<in> set vs. clean v"
  show "clean (JList vs)"
    unfolding clean_def
  proof (intro allI impI)
    fix w assume "reaches (JList vs) w"
    then consider "w = JList vs" | x where "x \<in> set vs" "reaches x w"
      by (auto elim: reaches_JList)
    then show "w \<noteq> JOther \<and>
        (\<forall>its k x. w = JDict its \<longrightarrow> (k, x) \<in> set its \<longrightarrow> \<not> sensitive_key k)"
    proof cases
      case 1
      then show ?thesis by auto
    next
      case 2
      then show ?thesis using all unfolding clean_def by blast
    qed
  qed
qed

lemma inspect_iff:
  "inspect v = Inr () \<longleftrightarrow> clean v"
  "inspect_items items = Inr () \<longleftrightarrow> (\<forall>(k, v) \<in> set items. \<not> sensitive_key k \<and> clean v)"
  "inspect_list vs = Inr () \<longleftrightarrow> (\<forall>v \<in> set vs. clean v)"
  by (induction v and items and vs rule: inspect_inspect_items_inspect_list.induct)
    (auto simp: clean_JDict clean_JList clean_JOther intro: clean_atom)

lemma inspect_error:
  "inspect v = Inl e \<Longrightarrow> e = DomainValidationError"
  "inspect_items items = Inl e \<Longrightarrow> e = DomainValidationError"
  "inspect_list vs = Inl e \<Longrightarrow> e = DomainValidationError"
  by (induction v and items and vs rule: inspect_inspect_items_inspect_list.induct)
    (auto simp: and_then_Inl_iff split: if_splits)

section \<open>Idempotency keys\<close>

text \<open>The canonical form that \<open>json.dumps(sort_keys=True)\<close> renders: every dictionary sorted.\<close>

fun canonical :: "json \<Rightarrow> json" where
  "canonical (JDict items) = JDict (sort_key fst (map (\<lambda>(k, v). (k, canonical v)) items))"
| "canonical (JList vs) = JList (map canonical vs)"
| "canonical v = v"

definition json_opt_int :: "int option \<Rightarrow> json" where
  "json_opt_int x = (case x of None \<Rightarrow> JNull | Some i \<Rightarrow> JInt i)"

record job_request =
  q_job_type :: job_type
  q_project_id :: "int option"
  q_chapter_id :: "int option"
  q_workflow_run_id :: "int option"
  q_payload :: "(string \<times> json) list"
  q_operation :: string
  q_external_key :: "string option"
  q_priority :: int
  q_correlation_id :: "string option"

definition idempotency_body :: "job_request \<Rightarrow> (string \<times> json) list \<Rightarrow> json" where
  "idempotency_body q payload = canonical (JDict
     [(''job_type'', JStr (job_type_value (q_job_type q))),
      (''project_id'', json_opt_int (q_project_id q)),
      (''chapter_id'', json_opt_int (q_chapter_id q)),
      (''workflow_run_id'', json_opt_int (q_workflow_run_id q)),
      (''operation'', JStr (q_operation q)),
      (''payload_schema_version'', JInt 1),
      (''payload'', JDict payload),
      (''external_key'', JStr (case q_external_key q of None \<Rightarrow> [] | Some k \<Rightarrow> k))])"

definition idempotency_key ::
  "(json \<Rightarrow> string) \<Rightarrow> job_request \<Rightarrow> (string \<times> json) list \<Rightarrow> string" where
  "idempotency_key hexdigest q payload = hexdigest (idempotency_body q payload)"

section \<open>The retry schedule\<close>

definition retry_available_at :: "int \<Rightarrow> time \<Rightarrow> time" where
  "retry_available_at attempt now = now + seconds (min 300 (2 ^ nat (max 0 (attempt - 1))))"

end
