(* ===== verification/Job_Service.thy ===== *)
theory Job_Service
  imports Job_Requests
begin

text \<open>
  \<open>JobService\<close> (\<open>src/src/storyforge/services/jobs.py\<close>): the transactional admission of jobs,
  their controls (cancel, pause, resume, dead-letter retry and discard) and event recording.
  An operation maps the committed database to the next committed database with what it
  returns, or to the exception it raises. \<open>now\<close> is the clock reading of the transaction.
\<close>

section \<open>Events and locked rows\<close>

text \<open>
  An event is recorded from a session that holds \<open>job\<close> with unflushed changes: they are
  flushed, the sequence number is allocated, and the session's object is refreshed.
\<close>

definition emit :: "db \<Rightarrow> job \<Rightarrow> job_event \<Rightarrow> (db \<times> job \<times> job_event) result" where
  "emit db job event =
     and_then (add_ordered (save_job db job) event) (\<lambda>(db', event').
       and_then (or_raise ValueError (get_job db' (j_id job))) (\<lambda>job'.
         Inr (db', job', event')))"

definition event_for ::
  "job \<Rightarrow> job_event_type \<Rightarrow> string \<Rightarrow> string \<Rightarrow> string option \<Rightarrow> int option \<Rightarrow> time \<Rightarrow> job_event" where
  "event_for job event_type code message worker workflow_event_id now =
     \<lparr>e_id = 0, e_job_id = j_id job, e_sequence = 0, e_event_type = event_type,
      e_status = j_status job, e_step = j_current_step job, e_progress = j_progress job,
      e_message_code = code, e_message = message, e_attempt = j_attempt job,
      e_worker_id = worker, e_workflow_event_id = workflow_event_id, e_created_at = now\<rparr>"

definition service_event ::
  "db \<Rightarrow> job \<Rightarrow> job_event_type \<Rightarrow> string \<Rightarrow> string \<Rightarrow> int option \<Rightarrow> time \<Rightarrow>
   (db \<times> job \<times> job_event) result" where
  "service_event db job event_type code message workflow_event_id now =
     emit db job
       (event_for job event_type code (bounded 500 message) (j_worker_id job) workflow_event_id now)"

definition require_locked :: "db \<Rightarrow> int \<Rightarrow> job result" where
  "require_locked db job_id = or_raise EntityNotFoundError (get_job db job_id)"

section \<open>The outbox\<close>

definition outbox_key :: "job \<Rightarrow> string \<Rightarrow> string" where
  "outbox_key job reason = ''job:'' @ int_str (j_id job) @ '':'' @ reason"

definition enqueue_message :: "job \<Rightarrow> time \<Rightarrow> string \<Rightarrow> time \<Rightarrow> outbox_message" where
  "enqueue_message job available_at key now =
     \<lparr>o_id = 0, o_aggregate_type = ''job'', o_aggregate_id = j_id job,
      o_event_type = ''job.enqueue'',
      o_payload = [(''job_id'', JInt (j_id job)), (''queue_name'', JStr (j_queue_name job))],
      o_status = OutboxStatus_PENDING, o_attempt = 0, o_available_at = available_at,
      o_created_at = now, o_published_at = None, o_claimed_at = None, o_claimed_by = None,
      o_last_error = None, o_deduplication_key = key\<rparr>"

text \<open>\<open>_create_outbox\<close>: an existing message with the same key, whatever its status, is reused.\<close>

definition create_outbox :: "db \<Rightarrow> job \<Rightarrow> string \<Rightarrow> time \<Rightarrow> db \<times> outbox_message" where
  "create_outbox db job reason now =
     (let key = outbox_key job reason
      in case get_by_deduplication_key db key of
           Some existing \<Rightarrow> (db, existing)
         | None \<Rightarrow> add_outbox db (enqueue_message job now key now))"

section \<open>Admission\<close>

definition check_backpressure :: "settings \<Rightarrow> db \<Rightarrow> int option \<Rightarrow> unit result" where
  "check_backpressure s db project_id =
     (let total = active_count db None
      in if total \<ge> s_queue_pending_hard_limit s then Inl QueueBackpressureError
         else case project_id of
                None \<Rightarrow> Inr ()
              | Some p \<Rightarrow>
                  if active_count db (Some p) \<ge> s_project_pending_limit s
                  then Inl QueueBackpressureError else Inr ())"

text \<open>\<open>name.rsplit('.', 1)[-1]\<close>: what follows the last dot, or the whole name.\<close>

definition rsplit_dot :: "string \<Rightarrow> string" where
  "rsplit_dot name = rev (takeWhile (\<lambda>c. c \<noteq> CHR ''.'') (rev name))"

definition queue_name :: "settings \<Rightarrow> string \<Rightarrow> string" where
  "queue_name s name = s_queue_prefix s @ ''.'' @ rsplit_dot name"

definition new_job :: "settings \<Rightarrow> job_request \<Rightarrow> job_definition \<Rightarrow> (string \<times> json) list \<Rightarrow> string \<Rightarrow>
    string \<Rightarrow> time \<Rightarrow> job" where
  "new_job s q d payload key uuid now =
     \<lparr>j_id = 0, j_project_id = q_project_id q, j_chapter_id = q_chapter_id q,
      j_workflow_run_id = q_workflow_run_id q, j_book_run_id = None, j_parent_job_id = None,
      j_job_type = q_job_type q, j_queue_name = queue_name s (jd_queue_name d),
      j_status = JobStatus_OUTBOX_PENDING, j_priority = q_priority q, j_idempotency_key = key,
      j_payload = payload, j_payload_schema_version = 1, j_result = [],
      j_result_schema_version = 1, j_progress = 0, j_current_step = None, j_attempt = 0,
      j_max_attempts = min (jd_max_attempts d) (s_job_max_attempts s), j_event_sequence = 0,
      j_available_at = now, j_queued_at = None, j_started_at = None, j_heartbeat_at = None,
      j_lease_expires_at = None, j_finished_at = None, j_cancel_requested_at = None,
      j_cancelled_at = None, j_error_code = None, j_error_message = None, j_worker_id = None,
      j_correlation_id = (case q_correlation_id q of None \<Rightarrow> uuid
                          | Some c \<Rightarrow> if c = [] then uuid else c),
      j_created_at = now, j_updated_at = now\<rparr>"

record creation_result =
  cr_job_id :: int
  cr_reused :: bool

text \<open>The writing transaction of \<open>create\<close>.\<close>

definition create_txn ::
  "settings \<Rightarrow> db \<Rightarrow> job_request \<Rightarrow> job_definition \<Rightarrow> (string \<times> json) list \<Rightarrow> string \<Rightarrow> string \<Rightarrow>
   time \<Rightarrow> (db \<times> creation_result) result" where
  "create_txn s db q d payload key uuid now =
     and_then (case q_project_id q of
                 None \<Rightarrow> Inr ()
               | Some p \<Rightarrow> require (get_project db p \<noteq> None) EntityNotFoundError) (\<lambda>_.
     and_then (check_backpressure s db (q_project_id q)) (\<lambda>_.
     and_then (case q_chapter_id q of
                 None \<Rightarrow> Inr ()
               | Some c \<Rightarrow> require (active_for_chapter db c = None) InvalidStateError) (\<lambda>_.
     and_then (let (db1, job) = add_job db (new_job s q d payload key uuid now)
               in commit db1 job) (\<lambda>(db1, job).
     and_then (service_event db1 job JobEventType_JOB_CREATED ''job.created'' ''Job created''
                 None now) (\<lambda>(db2, job2, _).
     commit (fst (create_outbox db2 job2 ''create'' now))
       \<lparr>cr_job_id = j_id job2, cr_reused = False\<rparr>)))))"

text \<open>
  \<open>create\<close>. The three sessions may see different committed states: \<open>seen\<close> at the lookup, \<open>db\<close>
  in the writing transaction, \<open>after\<close> in the lookup that follows an \<open>IntegrityError\<close>.
\<close>

definition create_between ::
  "(json \<Rightarrow> string) \<Rightarrow> settings \<Rightarrow> db \<Rightarrow> db \<Rightarrow> db \<Rightarrow> job_request \<Rightarrow> string \<Rightarrow> time \<Rightarrow>
   (db \<times> creation_result) result" where
  "create_between hexdigest s seen db after q uuid now =
     and_then (registry_get (q_job_type q)) (\<lambda>d.
     let payload = normalized_payload (q_payload q) in
     and_then (validate_payload payload) (\<lambda>_.
     let key = idempotency_key hexdigest q payload in
     case get_by_idempotency_key seen key of
       Some existing \<Rightarrow> Inr (db, \<lparr>cr_job_id = j_id existing, cr_reused = True\<rparr>)
     | None \<Rightarrow>
         (case create_txn s db q d payload key uuid now of
            Inl IntegrityError \<Rightarrow>
              (case get_by_idempotency_key after key of
                 Some existing \<Rightarrow> Inr (db, \<lparr>cr_job_id = j_id existing, cr_reused = True\<rparr>)
               | None \<Rightarrow> Inl InvalidStateError)
          | r \<Rightarrow> r)))"

definition create ::
  "(json \<Rightarrow> string) \<Rightarrow> settings \<Rightarrow> db \<Rightarrow> job_request \<Rightarrow> string \<Rightarrow> time \<Rightarrow>
   (db \<times> creation_result) result" where
  "create hexdigest s db q uuid now = create_between hexdigest s db db db q uuid now"

definition job_get :: "db \<Rightarrow> int \<Rightarrow> job result" where
  "job_get db job_id = or_raise EntityNotFoundError (get_job db job_id)"

section \<open>Cancellation and pause\<close>

definition cancel_linked_workflow :: "db \<Rightarrow> job \<Rightarrow> time \<Rightarrow> db result" where
  "cancel_linked_workflow db job now =
     (case j_workflow_run_id job of
        None \<Rightarrow> Inr db
      | Some run_id \<Rightarrow>
          (case get_workflow_run db run_id of
             None \<Rightarrow> Inr db
           | Some run \<Rightarrow>
               if wr_status run \<notin> {WorkflowRunStatus_PENDING, WorkflowRunStatus_RUNNING,
                                   WorkflowRunStatus_PAUSED}
               then Inr db
               else
                 and_then (transition_workflow run WorkflowRunStatus_CANCELLED) (\<lambda>run1.
                 let run2 = run1\<lparr>wr_current_node := ''cancelled'', wr_finished_at := Some now,
                                 wr_updated_at := now\<rparr>;
                     db1 = save_workflow_run db run2
                 in case get_chapter db1 (wr_chapter_id run2) of
                      None \<Rightarrow> Inr db1
                    | Some c \<Rightarrow>
                        Inr (save_chapter db1
                          (c\<lparr>ch_status := (if ch_accepted_version_id c \<noteq> None
                                          then ChapterStatus_ACCEPTED
                                          else ChapterStatus_WORKFLOW_FAILED)\<rparr>)))))"

definition request_cancel :: "db \<Rightarrow> int \<Rightarrow> time \<Rightarrow> (db \<times> job) result" where
  "request_cancel db job_id now =
     and_then (require_locked db job_id) (\<lambda>job.
     let previous_status = j_status job in
     if previous_status = JobStatus_CANCEL_REQUESTED then commit db job
     else if previous_status \<in> {JobStatus_SUCCEEDED, JobStatus_CANCELLED, JobStatus_DEAD_LETTERED}
     then Inl InvalidStateError
     else
       and_then (transition_job job JobStatus_CANCEL_REQUESTED now) (\<lambda>job1.
       let job2 = job1\<lparr>j_cancel_requested_at := Some now\<rparr> in
       and_then (service_event db job2 JobEventType_CANCEL_REQUESTED ''job.cancel_requested''
                   ''Cancellation requested'' None now) (\<lambda>(db3, job3, _).
       if j_started_at job3 = None \<or> previous_status = JobStatus_PAUSED then
         and_then (transition_job job3 JobStatus_CANCELLED now) (\<lambda>job4.
         and_then (cancel_linked_workflow db3 job4 now) (\<lambda>db4.
         and_then (service_event db4 job4 JobEventType_JOB_CANCELLED ''job.cancelled''
                     ''Job cancelled before execution'' None now) (\<lambda>(db5, job5, _).
         commit db5 job5)))
       else commit db3 job3)))"

definition request_pause :: "db \<Rightarrow> int \<Rightarrow> time \<Rightarrow> (db \<times> job) result" where
  "request_pause db job_id now =
     and_then (require_locked db job_id) (\<lambda>job.
     if j_status job = JobStatus_PAUSED then commit db job
     else if j_status job \<notin> {JobStatus_OUTBOX_PENDING, JobStatus_QUEUED, JobStatus_LEASED,
                            JobStatus_RUNNING}
     then Inl InvalidStateError
     else
       and_then (transition_job job JobStatus_PAUSE_REQUESTED now) (\<lambda>job1.
       and_then (service_event db job1 JobEventType_PAUSE_REQUESTED ''job.pause_requested''
                   ''Pause requested'' None now) (\<lambda>(db2, job2, _).
       if j_started_at job2 = None then
         and_then (transition_job job2 JobStatus_PAUSED now) (\<lambda>job3.
         and_then (service_event db2 job3 JobEventType_JOB_PAUSED ''job.paused''
                     ''Job paused before execution'' None now) (\<lambda>(db4, job4, _).
         commit db4 job4))
       else commit db2 job2)))"

section \<open>Resume, dead letters\<close>

definition resume :: "db \<Rightarrow> int \<Rightarrow> time \<Rightarrow> (db \<times> job) result" where
  "resume db job_id now =
     and_then (require_locked db job_id) (\<lambda>job.
     if j_status job \<noteq> JobStatus_PAUSED then Inl InvalidStateError
     else
       and_then (transition_job job JobStatus_OUTBOX_PENDING now) (\<lambda>job1.
       and_then (service_event db (job1\<lparr>j_finished_at := None\<rparr>) JobEventType_RESUME_REQUESTED
                   ''job.resume_requested'' ''Job resume requested'' None now) (\<lambda>(db2, job2, _).
       commit (fst (create_outbox db2 job2 (''resume-'' @ int_str (j_attempt job2 + 1)) now)) job2)))"

definition retry_dead_letter :: "db \<Rightarrow> int \<Rightarrow> time \<Rightarrow> (db \<times> job) result" where
  "retry_dead_letter db job_id now =
     and_then (require_locked db job_id) (\<lambda>job.
     if j_status job \<noteq> JobStatus_DEAD_LETTERED then Inl InvalidStateError
     else
       and_then (transition_job job JobStatus_OUTBOX_PENDING now) (\<lambda>job1.
       and_then (registry_get (j_job_type job1)) (\<lambda>d.
       let job2 = job1\<lparr>j_max_attempts := j_attempt job1 + jd_max_attempts d,
                       j_available_at := now, j_finished_at := None, j_error_code := None,
                       j_error_message := None\<rparr> in
       and_then (service_event db job2 JobEventType_RESUME_REQUESTED ''job.dlq_retry_requested''
                   ''Dead-letter retry requested'' None now) (\<lambda>(db3, job3, _).
       commit (fst (create_outbox db3 job3 (''dlq-retry-'' @ int_str (j_attempt job3 + 1)) now))
         job3))))"

text \<open>\<open>{**result, key: value}\<close>: an existing key keeps its place.\<close>

fun dict_set :: "string \<Rightarrow> 'v \<Rightarrow> (string \<times> 'v) list \<Rightarrow> (string \<times> 'v) list" where
  "dict_set k v [] = [(k, v)]"
| "dict_set k v ((k', v') # rest) = (if k' = k then (k, v) # rest else (k', v') # dict_set k v rest)"

definition discard_dead_letter :: "db \<Rightarrow> int \<Rightarrow> time \<Rightarrow> (db \<times> job) result" where
  "discard_dead_letter db job_id now =
     and_then (require_locked db job_id) (\<lambda>job.
     if j_status job \<noteq> JobStatus_DEAD_LETTERED then Inl InvalidStateError
     else
       and_then (service_event db (job\<lparr>j_result := dict_set ''discarded'' (JBool True) (j_result job)\<rparr>)
                   JobEventType_JOB_DISCARDED ''job.discarded'' ''Dead-letter job discarded''
                   None now) (\<lambda>(db2, job2, _).
       commit db2 job2))"

section \<open>Event recording\<close>

text \<open>
  \<open>notify_event\<close>: the wake-up that follows the commit, absent without a bus. Only
  \<open>QueueUnavailableError\<close> of the bus is swallowed.
\<close>

definition notify_event :: "(int \<Rightarrow> int \<Rightarrow> unit result) option \<Rightarrow> job_event \<Rightarrow> unit result" where
  "notify_event bus event =
     (case bus of
        None \<Rightarrow> Inr ()
      | Some publish \<Rightarrow>
          (case publish (e_job_id event) (e_id event) of
             Inl QueueUnavailableError \<Rightarrow> Inr ()
           | r \<Rightarrow> r))"

text \<open>The committed database stands even when the notification raises.\<close>

definition record_event ::
  "(int \<Rightarrow> int \<Rightarrow> unit result) option \<Rightarrow> db \<Rightarrow> int \<Rightarrow> job_event_type \<Rightarrow> string \<Rightarrow> string \<Rightarrow>
   string option \<Rightarrow> int option \<Rightarrow> int option \<Rightarrow> time \<Rightarrow> (db \<times> job_event result) result" where
  "record_event bus db job_id event_type code message step progress workflow_event_id now =
     and_then (require_locked db job_id) (\<lambda>job.
     let job1 = (case progress of None \<Rightarrow> job | Some p \<Rightarrow> job\<lparr>j_progress := p\<rparr>);
         job2 = (case step of None \<Rightarrow> job1 | Some st \<Rightarrow> job1\<lparr>j_current_step := Some st\<rparr>) in
     and_then (service_event db job2 event_type code message workflow_event_id now)
       (\<lambda>(db3, job3, event).
     and_then (commit db3 event) (\<lambda>(db4, event).
     Inr (db4, and_then (notify_event bus event) (\<lambda>_. Inr event)))))"

text \<open>\<open>safe_error\<close>, on the redacted text of the error.\<close>

definition safe_error :: "exn \<Rightarrow> string \<Rightarrow> string \<times> string" where
  "safe_error error rendered = (bounded 100 (exn_name error), bounded 1000 rendered)"

end
