(* ===== verification/Job_Service_Laws.thy ===== *)
theory Job_Service_Laws
  imports Job_Service
begin

text \<open>
  The laws of event recording, which every transaction of the job subsystem is built from,
  and what the operations of \<open>JobService\<close> do on each branch.
\<close>

section \<open>Recording an event\<close>

definition bumped :: "job \<Rightarrow> job_event \<Rightarrow> job" where
  "bumped job event =
     job\<lparr>j_event_sequence := j_event_sequence job + 1, j_updated_at := e_created_at event\<rparr>"

definition emitted :: "db \<Rightarrow> job \<Rightarrow> job_event \<Rightarrow> db" where
  "emitted db job event =
     fst (add_event_row (save_job db (bumped job event))
           (event\<lparr>e_sequence := j_event_sequence job + 1\<rparr>))"

lemma bumped_sel [simp]:
  "j_id (bumped j e) = j_id j" "j_status (bumped j e) = j_status j"
  "j_event_sequence (bumped j e) = j_event_sequence j + 1"
  "j_attempt (bumped j e) = j_attempt j" "j_max_attempts (bumped j e) = j_max_attempts j"
  "j_worker_id (bumped j e) = j_worker_id j" "j_lease_expires_at (bumped j e) = j_lease_expires_at j"
  "j_heartbeat_at (bumped j e) = j_heartbeat_at j" "j_finished_at (bumped j e) = j_finished_at j"
  "j_started_at (bumped j e) = j_started_at j" "j_chapter_id (bumped j e) = j_chapter_id j"
  "j_idempotency_key (bumped j e) = j_idempotency_key j" "j_queue_name (bumped j e) = j_queue_name j"
  "j_workflow_run_id (bumped j e) = j_workflow_run_id j" "j_project_id (bumped j e) = j_project_id j"
  "j_book_run_id (bumped j e) = j_book_run_id j" "j_parent_job_id (bumped j e) = j_parent_job_id j"
  "j_priority (bumped j e) = j_priority j" "j_progress (bumped j e) = j_progress j"
  "j_job_type (bumped j e) = j_job_type j" "j_result (bumped j e) = j_result j"
  "j_available_at (bumped j e) = j_available_at j" "j_current_step (bumped j e) = j_current_step j"
  "j_queued_at (bumped j e) = j_queued_at j" "j_error_code (bumped j e) = j_error_code j"
  "j_cancelled_at (bumped j e) = j_cancelled_at j" "j_payload (bumped j e) = j_payload j"
  "j_cancel_requested_at (bumped j e) = j_cancel_requested_at j"
  "job_active (bumped j e) = job_active j" "job_row_ok (bumped j e) = job_row_ok j"
  by (simp_all add: bumped_def job_active_def job_row_ok_def)

lemma save_job_twice: "j_id r = j_id r' \<Longrightarrow> save_job (save_job db r) r' = save_job db r'"
  by (simp add: save_job_def repo_save_def)

lemma event_for_sel [simp]:
  "e_job_id (event_for j t c m w f now) = j_id j" "e_created_at (event_for j t c m w f now) = now"
  "e_status (event_for j t c m w f now) = j_status j" "e_event_type (event_for j t c m w f now) = t"
  "e_attempt (event_for j t c m w f now) = j_attempt j" "e_message_code (event_for j t c m w f now) = c"
  "event_row_ok (event_for j t c m w f now) = (0 \<le> j_progress j \<and> j_progress j \<le> 100 \<and> 0 \<le> j_attempt j)"
  by (simp_all add: event_for_def event_row_ok_def)

lemma emit_Inr:
  assumes "e_job_id event = j_id job"
  shows "emit db job event = Inr r \<longleftrightarrow> get_job db (j_id job) \<noteq> None \<and>
    r = (emitted db job event, bumped job event,
         event\<lparr>e_sequence := j_event_sequence job + 1, e_id := t_next (db_events db)\<rparr>)"
proof (cases "get_job db (j_id job)")
  case None
  then show ?thesis using assms by (simp add: emit_def add_ordered_def)
next
  case (Some j0)
  have "add_ordered (save_job db job) event =
      Inr (add_event_row (save_job db (bumped job event))
            (event\<lparr>e_sequence := j_event_sequence job + 1\<rparr>))"
    using Some assms
    by (simp add: add_ordered_def Let_def bumped_def save_job_twice)
  moreover have "get_job (emitted db job event) (j_id job) = Some (bumped job event)"
    using Some by (simp add: emitted_def)
  moreover have "snd (add_event_row (save_job db (bumped job event))
      (event\<lparr>e_sequence := j_event_sequence job + 1\<rparr>)) =
      event\<lparr>e_sequence := j_event_sequence job + 1, e_id := t_next (db_events db)\<rparr>"
    by (simp add: event_rows_add)
  ultimately show ?thesis
    using Some by (auto simp: emit_def emitted_def split_beta simp del: get_job_save)
qed

lemma emit_Inl:
  assumes "e_job_id event = j_id job"
  shows "emit db job event = Inl e \<longleftrightarrow> get_job db (j_id job) = None \<and> e = ValueError"
proof (cases "get_job db (j_id job)")
  case None
  then show ?thesis using assms by (auto simp: emit_def add_ordered_def)
next
  case (Some j0)
  then show ?thesis using emit_Inr [OF assms, of db] by (metis Inl_Inr_False option.distinct(1))
qed

lemma service_event_Inr [simp]:
  "service_event db job t c m f now = Inr r \<longleftrightarrow> get_job db (j_id job) \<noteq> None \<and>
     r = (let e = event_for job t c (bounded 500 m) (j_worker_id job) f now
          in (emitted db job e, bumped job e,
              e\<lparr>e_sequence := j_event_sequence job + 1, e_id := t_next (db_events db)\<rparr>))"
  by (simp add: service_event_def emit_Inr Let_def)

section \<open>The database after an event\<close>

lemma emitted_frame [simp]:
  "db_projects (emitted db j e) = db_projects db" "db_chapters (emitted db j e) = db_chapters db"
  "db_workflow_runs (emitted db j e) = db_workflow_runs db"
  "db_outbox (emitted db j e) = db_outbox db" "db_workers (emitted db j e) = db_workers db"
  "db_book_runs (emitted db j e) = db_book_runs db"
  "get_project (emitted db j e) = get_project db" "get_chapter (emitted db j e) = get_chapter db"
  "get_workflow_run (emitted db j e) = get_workflow_run db"
  "get_outbox (emitted db j e) = get_outbox db"
  "get_by_deduplication_key (emitted db j e) = get_by_deduplication_key db"
  by (simp_all add: emitted_def get_by_deduplication_key_def fun_eq_iff)

lemma get_job_emitted [simp]:
  "get_job (emitted db job e) i =
     (if i = j_id job then map_option (\<lambda>_. bumped job e) (get_job db i) else get_job db i)"
  by (simp add: emitted_def)

lemma event_rows_emitted:
  "event_rows (emitted db job e) =
     event_rows db @ [e\<lparr>e_sequence := j_event_sequence job + 1, e_id := t_next (db_events db)\<rparr>]"
  by (simp add: emitted_def event_rows_add)

lemma struct_ok_emitted:
  assumes "struct_ok db" and "get_job db (j_id job) = Some j"
    and "j_event_sequence job = j_event_sequence j" and "e_job_id e = j_id job"
  shows "struct_ok (emitted db job e)"
proof -
  have "events_numbered (emitted db job e)"
    unfolding emitted_def
    by (rule events_numbered_append [of db _ "j_id job" j])
      (use assms in \<open>simp_all add: struct_ok_def\<close>)
  then show ?thesis using assms(1) by (simp add: struct_ok_def emitted_def)
qed

lemma db_ok_emitted:
  assumes inv: "struct_ok db" "db_ok db" and j: "get_job db (j_id job) = Some j"
    and ev: "evolves j job" and seq: "j_event_sequence job = j_event_sequence j"
    and e: "e_job_id e = j_id job" "event_row_ok e"
  shows "db_ok (emitted db job e)"
  unfolding emitted_def
proof (rule db_ok_add_event)
  have "evolves j (bumped job e)" using ev by (simp add: evolves_def)
  then show "db_ok (save_job db (bumped job e))"
    using db_ok_save_job [of db "bumped job e" j] inv j by auto
  show "event_row_ok (e\<lparr>e_sequence := j_event_sequence job + 1\<rparr>)"
    using e by (simp add: event_row_ok_def)
  show "\<forall>x \<in> set (event_rows (save_job db (bumped job e))).
      e_job_id x = e_job_id (e\<lparr>e_sequence := j_event_sequence job + 1\<rparr>) \<longrightarrow>
      e_sequence x \<noteq> e_sequence (e\<lparr>e_sequence := j_event_sequence job + 1\<rparr>)"
    using event_number_fresh [of db "j_id job" j] inv(1) j seq e by (auto simp: struct_ok_def)
qed (use j e in simp)

end
