(* ===== verification/Job_Worker.thy ===== *)
theory Job_Worker
  imports Job_Service_Laws
begin

text \<open>
  \<open>JobExecutor\<close> (\<open>src/src/storyforge/jobs/worker.py\<close>): the leased execution of one job, its
  heartbeat, the five outcomes and the recovery of expired leases. The handler, which runs
  application services on the same database, is a parameter of \<open>execute\<close>. The heartbeat
  thread is not part of \<open>execute\<close>: its loop calls \<open>heartbeat\<close>, an operation of its own.
\<close>

section \<open>Worker rows\<close>

definition storyforge_version :: string where
  "storyforge_version = ''0.1.0''"

text \<open>\<open>_worker_heartbeat\<close>: a failed write is ignored.\<close>

definition record_worker :: "db \<Rightarrow> string \<Rightarrow> worker_status \<Rightarrow> int option \<Rightarrow> time \<Rightarrow> db" where
  "record_worker db worker_id status current_job_id now =
     (let db1 = worker_heartbeat db worker_id ''all'' status current_job_id storyforge_version now
      in case commit db1 () of Inl _ \<Rightarrow> db | Inr (db2, _) \<Rightarrow> db2)"

section \<open>Events, ownership, retry messages\<close>

definition worker_event ::
  "db \<Rightarrow> job \<Rightarrow> job_event_type \<Rightarrow> string \<Rightarrow> string \<Rightarrow> time \<Rightarrow> (db \<times> job \<times> job_event) result" where
  "worker_event db job event_type code message now =
     emit db job (event_for job event_type code message (j_worker_id job) None now)"

definition owned_job :: "db \<Rightarrow> int \<Rightarrow> string \<Rightarrow> job result" where
  "owned_job db job_id worker_id =
     (case get_job db job_id of
        None \<Rightarrow> Inl RuntimeError
      | Some job \<Rightarrow> if j_worker_id job \<noteq> Some worker_id then Inl RuntimeError else Inr job)"

definition retry_key :: "job \<Rightarrow> string" where
  "retry_key job = ''job:'' @ int_str (j_id job) @ '':attempt:'' @ int_str (j_attempt job + 1)"

definition retry_outbox :: "db \<Rightarrow> job \<Rightarrow> time \<Rightarrow> db \<times> outbox_message" where
  "retry_outbox db job now =
     add_outbox db (enqueue_message job (j_available_at job) (retry_key job) now)"

section \<open>Claiming and keeping a lease\<close>

definition lease_end :: "settings \<Rightarrow> time \<Rightarrow> time" where
  "lease_end s now = now + timedelta_seconds (s_job_lease_seconds s)"

definition claim_txn :: "settings \<Rightarrow> db \<Rightarrow> int \<Rightarrow> string \<Rightarrow> time \<Rightarrow> (db \<times> job option) result" where
  "claim_txn s db job_id worker_id now =
     (case claim db job_id worker_id now (lease_end s now) of
        (db1, None) \<Rightarrow> commit db1 None
      | (db1, Some job) \<Rightarrow>
          and_then (worker_event db1 job JobEventType_JOB_LEASED ''job.leased''
                      ''Job leased by worker'' now) (\<lambda>(db2, job2, _).
          and_then (transition_job job2 JobStatus_RUNNING now) (\<lambda>job3.
          let job4 = (if j_started_at job3 = None then job3\<lparr>j_started_at := Some now\<rparr> else job3) in
          and_then (worker_event db2 job4 JobEventType_JOB_STARTED ''job.started''
                      ''Job execution started'' now) (\<lambda>(db5, job5, _).
          commit db5 (Some job5)))))"

definition claim_job :: "settings \<Rightarrow> db \<Rightarrow> int \<Rightarrow> string \<Rightarrow> time \<Rightarrow> (db \<times> job option) result" where
  "claim_job s db job_id worker_id now =
     and_then (claim_txn s db job_id worker_id now) (\<lambda>(db1, claimed).
     case claimed of
       None \<Rightarrow> Inr (db1, None)
     | Some job \<Rightarrow> Inr (record_worker db1 worker_id WorkerStatus_BUSY (Some job_id) now, Some job))"

definition heartbeat_txn :: "settings \<Rightarrow> db \<Rightarrow> int \<Rightarrow> string \<Rightarrow> time \<Rightarrow> (db \<times> bool) result" where
  "heartbeat_txn s db job_id worker_id now =
     (case get_job db job_id of
        None \<Rightarrow> commit db False
      | Some job \<Rightarrow>
          if j_worker_id job \<noteq> Some worker_id \<or>
             j_status job \<notin> {JobStatus_LEASED, JobStatus_RUNNING}
          then commit db False
          else commit (save_job db
                 (job\<lparr>j_heartbeat_at := Some now, j_lease_expires_at := Some (lease_end s now),
                      j_updated_at := now\<rparr>)) True)"

definition heartbeat :: "settings \<Rightarrow> db \<Rightarrow> int \<Rightarrow> string \<Rightarrow> time \<Rightarrow> (db \<times> bool) result" where
  "heartbeat s db job_id worker_id now =
     and_then (heartbeat_txn s db job_id worker_id now) (\<lambda>(db1, active).
     if active then Inr (record_worker db1 worker_id WorkerStatus_BUSY (Some job_id) now, True)
     else Inr (db1, False))"

section \<open>Outcomes\<close>

definition succeed ::
  "db \<Rightarrow> int \<Rightarrow> string \<Rightarrow> (string \<times> json) list \<Rightarrow> time \<Rightarrow> (db \<times> unit) result" where
  "succeed db job_id worker_id result now =
     and_then (owned_job db job_id worker_id) (\<lambda>job.
     and_then
       (if j_status job = JobStatus_CANCEL_REQUESTED then
          and_then (transition_job job JobStatus_CANCELLED now) (\<lambda>job1.
            Inr (job1, JobEventType_JOB_CANCELLED, ''job.cancelled'',
                 ''Job cancelled at a safe boundary''))
        else if j_status job = JobStatus_PAUSE_REQUESTED then
          and_then (transition_job job JobStatus_PAUSED now) (\<lambda>job1.
            Inr (job1, JobEventType_JOB_PAUSED, ''job.paused'', ''Job paused at a safe boundary''))
        else
          and_then (transition_job job JobStatus_SUCCEEDED now) (\<lambda>job1.
            Inr (job1\<lparr>j_result := result, j_progress := 100,
                      j_current_step := Some ''completed''\<rparr>,
                 JobEventType_JOB_SUCCEEDED, ''job.succeeded'', ''Job succeeded'')))
       (\<lambda>(job1, event_type, code, message).
     and_then (worker_event db job1 event_type code message now) (\<lambda>(db2, _, _).
     commit db2 ())))"

definition cancel_running :: "db \<Rightarrow> int \<Rightarrow> string \<Rightarrow> time \<Rightarrow> (db \<times> unit) result" where
  "cancel_running db job_id worker_id now =
     and_then (owned_job db job_id worker_id) (\<lambda>job.
     and_then (if j_status job \<noteq> JobStatus_CANCEL_REQUESTED
               then transition_job job JobStatus_CANCEL_REQUESTED now else Inr job) (\<lambda>job1.
     and_then (transition_job job1 JobStatus_CANCELLED now) (\<lambda>job2.
     and_then (worker_event db job2 JobEventType_JOB_CANCELLED ''job.cancelled''
                 ''Job cancelled at a safe boundary'' now) (\<lambda>(db3, _, _).
     commit db3 ()))))"

definition pause_running :: "db \<Rightarrow> int \<Rightarrow> string \<Rightarrow> time \<Rightarrow> (db \<times> unit) result" where
  "pause_running db job_id worker_id now =
     and_then (owned_job db job_id worker_id) (\<lambda>job.
     and_then (if j_status job \<noteq> JobStatus_PAUSE_REQUESTED
               then transition_job job JobStatus_PAUSE_REQUESTED now else Inr job) (\<lambda>job1.
     and_then (transition_job job1 JobStatus_PAUSED now) (\<lambda>job2.
     and_then (worker_event db (job2\<lparr>j_lease_expires_at := None, j_worker_id := None\<rparr>)
                 JobEventType_JOB_PAUSED ''job.paused'' ''Job paused at a safe boundary'' now)
       (\<lambda>(db3, _, _).
     commit db3 ()))))"

text \<open>What a retry does to the row: the lease is given up and the job waits.\<close>

definition release_for_retry :: "job \<Rightarrow> time \<Rightarrow> job" where
  "release_for_retry job now =
     job\<lparr>j_worker_id := None, j_lease_expires_at := None, j_heartbeat_at := None,
         j_available_at := retry_available_at (j_attempt job) now\<rparr>"

definition retry_or_dead_letter ::
  "db \<Rightarrow> int \<Rightarrow> string \<Rightarrow> exn \<Rightarrow> string \<Rightarrow> time \<Rightarrow> (db \<times> unit) result" where
  "retry_or_dead_letter db job_id worker_id error rendered now =
     (let (code, message) = safe_error error rendered in
      and_then (owned_job db job_id worker_id) (\<lambda>job.
      let job1 = job\<lparr>j_error_code := Some code, j_error_message := Some message\<rparr> in
      if j_attempt job1 \<ge> j_max_attempts job1 then
        and_then (transition_job job1 JobStatus_FAILED now) (\<lambda>job2.
        and_then (transition_job job2 JobStatus_DEAD_LETTERED now) (\<lambda>job3.
        and_then (worker_event db job3 JobEventType_JOB_DEAD_LETTERED ''job.dead_lettered''
                    ''Job exhausted infrastructure retries'' now) (\<lambda>(db4, _, _).
        commit db4 ())))
      else
        and_then (transition_job job1 JobStatus_RETRY_SCHEDULED now) (\<lambda>job2.
        let job3 = release_for_retry job2 now in
        and_then (worker_event (fst (retry_outbox db job3 now)) job3 JobEventType_RETRY_SCHEDULED ''job.retry_scheduled''
                    ''Infrastructure retry scheduled'' now) (\<lambda>(db4, _, _).
        commit db4 ()))))"

definition fail_job ::
  "db \<Rightarrow> int \<Rightarrow> string \<Rightarrow> exn \<Rightarrow> string \<Rightarrow> time \<Rightarrow> (db \<times> unit) result" where
  "fail_job db job_id worker_id error rendered now =
     (let (code, message) = safe_error error rendered in
      and_then (owned_job db job_id worker_id) (\<lambda>job.
      and_then (transition_job job JobStatus_FAILED now) (\<lambda>job1.
      and_then (worker_event db (job1\<lparr>j_error_code := Some code, j_error_message := Some message\<rparr>)
                  JobEventType_JOB_FAILED ''job.failed'' ''Job failed without automatic retry'' now)
        (\<lambda>(db2, _, _).
      commit db2 ()))))"

section \<open>Recovery of expired leases\<close>

definition pause_workflow_of :: "db \<Rightarrow> job \<Rightarrow> time \<Rightarrow> db result" where
  "pause_workflow_of db job now =
     (case j_workflow_run_id job of
        None \<Rightarrow> Inr db
      | Some run_id \<Rightarrow>
          (case get_workflow_run db run_id of
             None \<Rightarrow> Inr db
           | Some workflow \<Rightarrow>
               if wr_status workflow = WorkflowRunStatus_RUNNING then
                 and_then (transition_workflow workflow WorkflowRunStatus_PAUSED) (\<lambda>w.
                   Inr (save_workflow_run db (w\<lparr>wr_updated_at := now\<rparr>)))
               else Inr db))"

definition recover_one :: "time \<Rightarrow> db \<Rightarrow> job \<Rightarrow> db result" where
  "recover_one now db job =
     and_then (pause_workflow_of db job now) (\<lambda>db1.
     if j_attempt job \<ge> j_max_attempts job then
       and_then (transition_job job JobStatus_FAILED now) (\<lambda>job1.
       and_then (transition_job job1 JobStatus_DEAD_LETTERED now) (\<lambda>job2.
       and_then (worker_event db1 job2 JobEventType_JOB_DEAD_LETTERED ''job.lease_exhausted''
                   ''Expired lease exhausted attempts'' now) (\<lambda>(db2, _, _).
       Inr db2)))
     else
       and_then (transition_job job JobStatus_RETRY_SCHEDULED now) (\<lambda>job1.
       let job2 = release_for_retry job1 now in
       and_then (worker_event (fst (retry_outbox db1 job2 now)) job2 JobEventType_RETRY_SCHEDULED ''job.lease_recovered''
                   ''Expired worker lease scheduled for recovery'' now) (\<lambda>(db3, _, _).
       Inr db3)))"

text \<open>A loop whose body may raise.\<close>

fun fold_result :: "('s \<Rightarrow> 'x \<Rightarrow> 's result) \<Rightarrow> 's \<Rightarrow> 'x list \<Rightarrow> 's result" where
  "fold_result f st [] = Inr st"
| "fold_result f st (x # xs) = and_then (f st x) (\<lambda>st'. fold_result f st' xs)"

definition recover_expired :: "db \<Rightarrow> time \<Rightarrow> (db \<times> nat) result" where
  "recover_expired db now =
     (let expired = expired_leases db now 100 in
      and_then (fold_result (recover_one now) db expired) (\<lambda>db1.
      commit db1 (length expired)))"

section \<open>One execution\<close>

text \<open>
  \<open>execute\<close>: the claim, the handler, the outcome, and the final worker row. The database is
  returned in every case, since each transaction of the sequence commits on its own.
  \<open>rendered\<close> gives the redacted text of an exception.
\<close>

definition run_txn :: "db \<Rightarrow> (db \<times> unit) result \<Rightarrow> db \<times> unit result" where
  "run_txn db r = (case r of Inl e \<Rightarrow> (db, Inl e) | Inr (db', _) \<Rightarrow> (db', Inr ()))"

definition settle_error ::
  "db \<Rightarrow> int \<Rightarrow> string \<Rightarrow> (exn \<Rightarrow> string) \<Rightarrow> exn \<Rightarrow> time \<Rightarrow> db \<times> unit result" where
  "settle_error db job_id worker_id rendered e now =
     run_txn db
       (if e = JobCancellationRequested then cancel_running db job_id worker_id now
        else if e = JobPauseRequested then pause_running db job_id worker_id now
        else if e \<in> {JobRetryableError, OperationalError, QueueUnavailableError}
        then retry_or_dead_letter db job_id worker_id e (rendered e) now
        else fail_job db job_id worker_id e (rendered e) now)"

definition execute ::
  "settings \<Rightarrow> (db \<Rightarrow> job \<Rightarrow> db \<times> (string \<times> json) list result) \<Rightarrow> (exn \<Rightarrow> string) \<Rightarrow> db \<Rightarrow> int \<Rightarrow>
   string \<Rightarrow> time \<Rightarrow> time \<Rightarrow> db \<times> bool result" where
  "execute s handle rendered db job_id worker_id now later =
     (case claim_job s db job_id worker_id now of
        Inl e \<Rightarrow> (db, Inl e)
      | Inr (db1, None) \<Rightarrow> (db1, Inr False)
      | Inr (db1, Some job) \<Rightarrow>
          let (db2, outcome) = handle db1 job;
              (db3, settled) =
                (case outcome of
                   Inl e \<Rightarrow> settle_error db2 job_id worker_id rendered e later
                 | Inr result \<Rightarrow>
                     (case succeed db2 job_id worker_id result later of
                        Inl e \<Rightarrow> settle_error db2 job_id worker_id rendered e later
                      | Inr (db', _) \<Rightarrow> (db', Inr ())));
              db4 = record_worker db3 worker_id WorkerStatus_IDLE None later
          in (db4, and_then settled (\<lambda>_. Inr True)))"

end
