(* ===== verification/Job_Dispatcher.thy ===== *)
theory Job_Dispatcher
  imports Job_Worker
begin

text \<open>
  \<open>OutboxDispatcher\<close> (\<open>src/src/storyforge/jobs/dispatcher.py\<close>) and the brokers of
  \<open>jobs/broker.py\<close>: pending outbox rows are claimed in batches, handed to the broker and marked
  published, or rescheduled with bounded retries when the broker refuses them. The broker is
  an interface, the locale \<open>job_broker\<close>; the in-memory broker of the repository and the
  Dramatiq broker over a transport are its instances.
\<close>

section \<open>Brokers\<close>

record memory_broker =
  mb_messages :: "(int \<times> string) list"
  mb_timeouts :: "int option list"

definition empty_memory_broker :: memory_broker where
  "empty_memory_broker = \<lparr>mb_messages = [], mb_timeouts = []\<rparr>"

definition memory_enqueue ::
  "memory_broker \<Rightarrow> int \<Rightarrow> string \<Rightarrow> int option \<Rightarrow> memory_broker \<times> string result" where
  "memory_enqueue b job_id queue timeout_seconds =
     (let b' = b\<lparr>mb_messages := mb_messages b @ [(job_id, queue)],
                 mb_timeouts := mb_timeouts b @ [timeout_seconds]\<rparr>
      in (b', Inr (''memory-'' @ int_str (int (length (mb_messages b'))))))"

text \<open>
  \<open>DramatiqJobBroker\<close>: the message it builds, and the translation of a transport failure. The
  transport (the Redis broker of Dramatiq) keeps its queue in a state of any type and answers
  whether it accepted a message; \<open>new_id\<close> is the message identifier Dramatiq generated.
\<close>

record dramatiq_message =
  dm_queue_name :: string
  dm_actor_name :: string
  dm_args :: "int list"
  dm_time_limit :: "int option"

definition actor_name :: "string \<Rightarrow> string" where
  "actor_name queue =
     (let suffix = rsplit_dot queue
      in if suffix = ''workflow'' then ''storyforge_execute_workflow_job''
         else if suffix = ''indexing'' then ''storyforge_execute_indexing_job''
         else if suffix = ''book'' then ''storyforge_execute_book_job''
         else ''storyforge_execute_default_job'')"

definition dramatiq_enqueue ::
  "('t \<Rightarrow> dramatiq_message \<Rightarrow> 't option) \<Rightarrow> string \<Rightarrow> 't \<Rightarrow> int \<Rightarrow> string \<Rightarrow> int option \<Rightarrow>
   't \<times> string result" where
  "dramatiq_enqueue transport new_id t job_id queue timeout_seconds =
     (let message = \<lparr>dm_queue_name = queue, dm_actor_name = actor_name queue, dm_args = [job_id],
                     dm_time_limit = map_option (\<lambda>s. s * 1000) timeout_seconds\<rparr>
      in case transport t message of
           None \<Rightarrow> (t, Inl QueueUnavailableError)
         | Some t' \<Rightarrow> (t', Inr new_id))"

section \<open>Batches\<close>

definition stale_claim_cutoff :: "time \<Rightarrow> rat \<Rightarrow> time" where
  "stale_claim_cutoff now lease_seconds = now - timedelta_seconds lease_seconds"

definition claim_outbox :: "settings \<Rightarrow> string \<Rightarrow> db \<Rightarrow> time \<Rightarrow> (db \<times> int list) result" where
  "claim_outbox s dispatcher_id db now =
     (let (db1, rows) = claim_batch db dispatcher_id now (nat (s_outbox_batch_size s))
            (Some (stale_claim_cutoff now (s_job_lease_seconds s)))
      in commit db1 (map o_id rows))"

text \<open>\<open>str(payload.get('queue_name', ''))\<close>: the payload is written by the service as text.\<close>

definition queue_of_payload :: "(string \<times> json) list \<Rightarrow> string" where
  "queue_of_payload payload =
     (case map_of payload ''queue_name'' of
        Some (JStr q) \<Rightarrow> q
      | Some (JInt i) \<Rightarrow> int_str i
      | Some (JBool b) \<Rightarrow> (if b then ''True'' else ''False'')
      | Some JNull \<Rightarrow> ''None''
      | Some (JFloat x) \<Rightarrow> x
      | _ \<Rightarrow> [])"

definition dispatcher_event ::
  "db \<Rightarrow> job \<Rightarrow> job_event_type \<Rightarrow> string \<Rightarrow> string \<Rightarrow> time \<Rightarrow> (db \<times> job \<times> job_event) result" where
  "dispatcher_event db job event_type code message now =
     emit db job (event_for job event_type code message None None now)"

definition record_published :: "db \<Rightarrow> int \<Rightarrow> time \<Rightarrow> (db \<times> unit) result" where
  "record_published db row_id now =
     (case get_outbox db row_id of
        None \<Rightarrow> commit db ()
      | Some row \<Rightarrow>
          if o_status row = OutboxStatus_PUBLISHED then commit db ()
          else
            let db1 = save_outbox db (row\<lparr>o_status := OutboxStatus_PUBLISHED,
                                          o_published_at := Some now, o_last_error := None\<rparr>)
            in case get_job db1 (o_aggregate_id row) of
                 None \<Rightarrow> commit db1 ()
               | Some job \<Rightarrow>
                   if j_status job \<in> {JobStatus_OUTBOX_PENDING, JobStatus_RETRY_SCHEDULED} then
                     and_then (dispatcher_event db1
                         (job\<lparr>j_status := JobStatus_QUEUED, j_queued_at := Some now,
                              j_updated_at := now\<rparr>)
                         JobEventType_JOB_QUEUED ''job.queued'' ''Job queued'' now) (\<lambda>(db2, _, _).
                     commit db2 ())
                   else commit db1 ())"

definition record_failure ::
  "settings \<Rightarrow> db \<Rightarrow> int \<Rightarrow> exn \<Rightarrow> string \<Rightarrow> time \<Rightarrow> (db \<times> unit) result" where
  "record_failure s db row_id error rendered now =
     (let (code, message) = safe_error error rendered in
      case get_outbox db row_id of
        None \<Rightarrow> commit db ()
      | Some row \<Rightarrow>
          let row1 = row\<lparr>o_last_error := Some (bounded 1000 (code @ '': '' @ message)),
                         o_claimed_at := None, o_claimed_by := None\<rparr> in
          if o_attempt row1 \<ge> s_job_max_attempts s then
            let db1 = save_outbox db (row1\<lparr>o_status := OutboxStatus_FAILED\<rparr>) in
            case get_job db1 (o_aggregate_id row1) of
              None \<Rightarrow> commit db1 ()
            | Some job \<Rightarrow>
                if j_status job \<in> {JobStatus_OUTBOX_PENDING, JobStatus_RETRY_SCHEDULED} then
                  and_then (if j_status job = JobStatus_OUTBOX_PENDING
                            then transition_job job JobStatus_FAILED now else Inr job) (\<lambda>job1.
                  and_then (transition_job job1 JobStatus_DEAD_LETTERED now) (\<lambda>job2.
                  and_then (dispatcher_event db1
                      (job2\<lparr>j_error_code := Some ''outbox_publish_failed'',
                            j_error_message := Some ''Job could not be published to the queue''\<rparr>)
                      JobEventType_JOB_DEAD_LETTERED ''job.outbox_dead_lettered''
                      ''Queue publishing exhausted attempts'' now) (\<lambda>(db2, _, _).
                  commit db2 ())))
                else commit db1 ()
          else
            commit (save_outbox db
              (row1\<lparr>o_status := OutboxStatus_PENDING,
                    o_available_at := retry_available_at (o_attempt row1) now\<rparr>)) ())"

text \<open>
  One row of the batch. The state is the database, the broker and the published count; an
  exception of a recording transaction leaves \<open>dispatch_once\<close> with the state reached so far.
\<close>

definition publish_one ::
  "settings \<Rightarrow> ('b \<Rightarrow> int \<Rightarrow> string \<Rightarrow> int option \<Rightarrow> 'b \<times> string result) \<Rightarrow> (exn \<Rightarrow> string) \<Rightarrow> time \<Rightarrow>
   db \<times> 'b \<times> nat \<Rightarrow> int \<Rightarrow> (db \<times> 'b \<times> nat) \<times> unit result" where
  "publish_one s enqueue rendered now st row_id =
     (let (db, b, published) = st in
      case get_outbox db row_id of
        None \<Rightarrow> (st, Inr ())
      | Some row \<Rightarrow>
          (case get_job db (o_aggregate_id row) of
             None \<Rightarrow> (st, Inr ())
           | Some job \<Rightarrow>
               (case registry_get (j_job_type job) of
                  Inl e \<Rightarrow> (st, Inl e)
                | Inr d \<Rightarrow>
                    (case enqueue b (o_aggregate_id row) (queue_of_payload (o_payload row))
                            (Some (jd_timeout_seconds d)) of
                       (b', Inl e) \<Rightarrow>
                         let (db', r) = run_txn db (record_failure s db row_id e (rendered e) now)
                         in ((db', b', published), r)
                     | (b', Inr _) \<Rightarrow>
                         let (db', r) = run_txn db (record_published db row_id now)
                         in ((db', b', (case r of Inl _ \<Rightarrow> published | Inr _ \<Rightarrow> published + 1)), r)))))"

fun publish_rows ::
  "settings \<Rightarrow> ('b \<Rightarrow> int \<Rightarrow> string \<Rightarrow> int option \<Rightarrow> 'b \<times> string result) \<Rightarrow> (exn \<Rightarrow> string) \<Rightarrow> time \<Rightarrow>
   db \<times> 'b \<times> nat \<Rightarrow> int list \<Rightarrow> (db \<times> 'b \<times> nat) \<times> unit result" where
  "publish_rows s enqueue rendered now st [] = (st, Inr ())"
| "publish_rows s enqueue rendered now st (i # is) =
     (case publish_one s enqueue rendered now st i of
        (st', Inl e) \<Rightarrow> (st', Inl e)
      | (st', Inr _) \<Rightarrow> publish_rows s enqueue rendered now st' is)"

definition dispatch_once ::
  "settings \<Rightarrow> ('b \<Rightarrow> int \<Rightarrow> string \<Rightarrow> int option \<Rightarrow> 'b \<times> string result) \<Rightarrow> (exn \<Rightarrow> string) \<Rightarrow> string \<Rightarrow>
   db \<Rightarrow> 'b \<Rightarrow> time \<Rightarrow> db \<times> 'b \<times> nat result" where
  "dispatch_once s enqueue rendered dispatcher_id db b now =
     (case claim_outbox s dispatcher_id db now of
        Inl e \<Rightarrow> (db, b, Inl e)
      | Inr (db1, row_ids) \<Rightarrow>
          (case publish_rows s enqueue rendered now (db1, b, 0) row_ids of
             ((db2, b2, published), r) \<Rightarrow> (db2, b2, and_then r (\<lambda>_. Inr published))))"

section \<open>Stranded jobs\<close>

text \<open>One stale queued job; whether it was recovered.\<close>

definition recover_stranded_one :: "time \<Rightarrow> db \<times> nat \<Rightarrow> job \<Rightarrow> (db \<times> nat) result" where
  "recover_stranded_one now st job =
     (let (db, recovered) = st in
      case latest_for_job db (j_id job) of
        None \<Rightarrow> Inr st
      | Some row \<Rightarrow>
          if o_status row \<noteq> OutboxStatus_PUBLISHED then Inr st
          else
            and_then (transition_job job JobStatus_RETRY_SCHEDULED now) (\<lambda>job1.
            let job2 = job1\<lparr>j_available_at := now\<rparr>;
                db1 = save_outbox db
                        (row\<lparr>o_status := OutboxStatus_PENDING, o_available_at := now,
                             o_claimed_at := None, o_claimed_by := None, o_published_at := None\<rparr>) in
            and_then (dispatcher_event db1 job2 JobEventType_RETRY_SCHEDULED
                        ''job.redis_recovery_scheduled'' ''Queue delivery recovery scheduled'' now)
              (\<lambda>(db2, _, _).
            Inr (db2, recovered + 1))))"

definition recover_stranded :: "settings \<Rightarrow> db \<Rightarrow> time \<Rightarrow> (db \<times> nat) result" where
  "recover_stranded s db now =
     (let cutoff = stale_claim_cutoff now (s_job_lease_seconds s);
          jobs = stale_queued db cutoff (nat (s_outbox_batch_size s))
      in and_then (fold_result (recover_stranded_one now) (db, 0) jobs) (\<lambda>(db1, recovered).
         commit db1 recovered))"

end
