(* ===== verification/Job_Lifecycle.thy ===== *)
theory Job_Lifecycle
  imports Job_Dispatcher
begin

text \<open>
  The contract of the job subsystem: what one committed transaction may do to the control
  state of one job, as an abstract state machine. \<open>control\<close> projects a job row to its control
  state; \<open>life c a ts c'\<close> says that action \<open>a\<close> may take \<open>c\<close> to \<open>c'\<close>, recording events of types
  \<open>ts\<close>. The theory \<open>Job_System\<close> shows that every operation of the services, the worker and the
  dispatcher implements this machine; the safety properties are proved here, once.
\<close>

section \<open>Control states and actions\<close>

record job_control =
  c_status :: job_status
  c_attempt :: int
  c_max_attempts :: int
  c_worker :: "string option"
  c_lease :: "time option"
  c_heartbeat :: "time option"
  c_started :: "time option"
  c_finished :: "time option"

definition control :: "job \<Rightarrow> job_control" where
  "control j = \<lparr>c_status = j_status j, c_attempt = j_attempt j, c_max_attempts = j_max_attempts j,
     c_worker = j_worker_id j, c_lease = j_lease_expires_at j, c_heartbeat = j_heartbeat_at j,
     c_started = j_started_at j, c_finished = j_finished_at j\<rparr>"

text \<open>Who acts: a worker by name with its clock, the sweeper of leases, a user, the dispatcher.\<close>

datatype job_action =
    Claimed string time | Beat string time | Settled string
  | Expired time | Cancelled_By_User | Paused_By_User | Resumed_By_User | Retried_By_User
  | Edited | Published | Publish_Failed | Requeued

definition finish :: "job_status \<Rightarrow> time \<Rightarrow> job_control \<Rightarrow> job_control" where
  "finish st now c = c\<lparr>c_status := st, c_finished := Some now, c_lease := None,
                       c_heartbeat := None, c_worker := None\<rparr>"

definition release :: "job_control \<Rightarrow> job_control" where
  "release c = c\<lparr>c_status := JobStatus_RETRY_SCHEDULED, c_worker := None, c_lease := None,
                 c_heartbeat := None\<rparr>"

text \<open>Giving up a lease: dead letter when the attempts are used up, another attempt otherwise.\<close>

inductive give_up :: "job_control \<Rightarrow> job_event_type list \<Rightarrow> job_control \<Rightarrow> bool" where
  dead: "c_max_attempts c \<le> c_attempt c \<Longrightarrow> JobStatus_FAILED \<in> set (job_allowed (c_status c)) \<Longrightarrow>
    give_up c [JobEventType_JOB_DEAD_LETTERED] (finish JobStatus_DEAD_LETTERED now c)"
| again: "c_attempt c < c_max_attempts c \<Longrightarrow>
    c_status c = JobStatus_RETRY_SCHEDULED \<or>
    JobStatus_RETRY_SCHEDULED \<in> set (job_allowed (c_status c)) \<Longrightarrow>
    give_up c [JobEventType_RETRY_SCHEDULED] (release c)"

inductive life :: "job_control \<Rightarrow> job_action \<Rightarrow> job_event_type list \<Rightarrow> job_control \<Rightarrow> bool" where
  claim: "c_status c \<in> set claimable_statuses \<Longrightarrow>
    life c (Claimed w now) [JobEventType_JOB_LEASED, JobEventType_JOB_STARTED]
      (c\<lparr>c_status := JobStatus_RUNNING, c_attempt := c_attempt c + 1, c_worker := Some w,
         c_heartbeat := Some now, c_lease := Some until,
         c_started := Some (case c_started c of None \<Rightarrow> now | Some t \<Rightarrow> t)\<rparr>)"
| beat: "c_worker c = Some w \<Longrightarrow> c_status c \<in> {JobStatus_LEASED, JobStatus_RUNNING} \<Longrightarrow>
    life c (Beat w now) [] (c\<lparr>c_heartbeat := Some now, c_lease := Some until\<rparr>)"
| succeeded: "c_worker c = Some w \<Longrightarrow> c_status c = JobStatus_RUNNING \<Longrightarrow>
    life c (Settled w) [JobEventType_JOB_SUCCEEDED] (finish JobStatus_SUCCEEDED now c)"
| stopped: "c_worker c = Some w \<Longrightarrow> c_status c = JobStatus_CANCEL_REQUESTED \<or>
      JobStatus_CANCEL_REQUESTED \<in> set (job_allowed (c_status c)) \<Longrightarrow>
    life c (Settled w) [JobEventType_JOB_CANCELLED] (finish JobStatus_CANCELLED now c)"
| paused: "c_worker c = Some w \<Longrightarrow> c_status c = JobStatus_PAUSE_REQUESTED \<Longrightarrow>
    life c (Settled w) [JobEventType_JOB_PAUSED] (c\<lparr>c_status := JobStatus_PAUSED\<rparr>)"
| yielded: "c_worker c = Some w \<Longrightarrow> c_status c = JobStatus_PAUSE_REQUESTED \<or>
      JobStatus_PAUSE_REQUESTED \<in> set (job_allowed (c_status c)) \<Longrightarrow>
    life c (Settled w) [JobEventType_JOB_PAUSED]
      (c\<lparr>c_status := JobStatus_PAUSED, c_lease := None, c_worker := None\<rparr>)"
| gave_up: "c_worker c = Some w \<Longrightarrow> give_up c ts c' \<Longrightarrow> life c (Settled w) ts c'"
| failed: "c_worker c = Some w \<Longrightarrow> JobStatus_FAILED \<in> set (job_allowed (c_status c)) \<Longrightarrow>
    life c (Settled w) [JobEventType_JOB_FAILED] (finish JobStatus_FAILED now c)"
| expired: "c_status c \<in> {JobStatus_LEASED, JobStatus_RUNNING} \<Longrightarrow> c_lease c = Some t \<Longrightarrow> t \<le> now \<Longrightarrow>
    give_up c ts c' \<Longrightarrow> life c (Expired now) ts c'"
| cancel_again: "c_status c = JobStatus_CANCEL_REQUESTED \<Longrightarrow> life c Cancelled_By_User [] c"
| cancel_later: "JobStatus_CANCEL_REQUESTED \<in> set (job_allowed (c_status c)) \<Longrightarrow>
    c_started c \<noteq> None \<Longrightarrow> c_status c \<noteq> JobStatus_PAUSED \<Longrightarrow>
    life c Cancelled_By_User [JobEventType_CANCEL_REQUESTED]
      (c\<lparr>c_status := JobStatus_CANCEL_REQUESTED\<rparr>)"
| cancel_now: "JobStatus_CANCEL_REQUESTED \<in> set (job_allowed (c_status c)) \<Longrightarrow>
    c_started c = None \<or> c_status c = JobStatus_PAUSED \<Longrightarrow>
    life c Cancelled_By_User [JobEventType_CANCEL_REQUESTED, JobEventType_JOB_CANCELLED]
      (finish JobStatus_CANCELLED now c)"
| pause_again: "c_status c = JobStatus_PAUSED \<Longrightarrow> life c Paused_By_User [] c"
| pause_later: "JobStatus_PAUSE_REQUESTED \<in> set (job_allowed (c_status c)) \<Longrightarrow> c_started c \<noteq> None \<Longrightarrow>
    life c Paused_By_User [JobEventType_PAUSE_REQUESTED]
      (c\<lparr>c_status := JobStatus_PAUSE_REQUESTED\<rparr>)"
| pause_now: "JobStatus_PAUSE_REQUESTED \<in> set (job_allowed (c_status c)) \<Longrightarrow> c_started c = None \<Longrightarrow>
    life c Paused_By_User [JobEventType_PAUSE_REQUESTED, JobEventType_JOB_PAUSED]
      (c\<lparr>c_status := JobStatus_PAUSED\<rparr>)"
| resumed: "c_status c = JobStatus_PAUSED \<Longrightarrow>
    life c Resumed_By_User [JobEventType_RESUME_REQUESTED]
      (c\<lparr>c_status := JobStatus_OUTBOX_PENDING, c_finished := None\<rparr>)"
| retried: "c_status c = JobStatus_DEAD_LETTERED \<Longrightarrow> 1 \<le> k \<Longrightarrow>
    life c Retried_By_User [JobEventType_RESUME_REQUESTED]
      (c\<lparr>c_status := JobStatus_OUTBOX_PENDING, c_max_attempts := c_attempt c + k,
         c_finished := None\<rparr>)"
| edited: "t \<notin> {JobEventType_JOB_LEASED, JobEventType_RESUME_REQUESTED} \<Longrightarrow> life c Edited [t] c"
| linked: "life c Edited [] c"
| published: "c_status c \<in> {JobStatus_OUTBOX_PENDING, JobStatus_RETRY_SCHEDULED} \<Longrightarrow>
    life c Published [JobEventType_JOB_QUEUED] (c\<lparr>c_status := JobStatus_QUEUED\<rparr>)"
| undeliverable: "c_status c \<in> {JobStatus_OUTBOX_PENDING, JobStatus_RETRY_SCHEDULED} \<Longrightarrow>
    life c Publish_Failed [JobEventType_JOB_DEAD_LETTERED] (finish JobStatus_DEAD_LETTERED now c)"
| requeued: "c_status c = JobStatus_QUEUED \<Longrightarrow>
    life c Requeued [JobEventType_RETRY_SCHEDULED] (c\<lparr>c_status := JobStatus_RETRY_SCHEDULED\<rparr>)"

inductive_cases life_cases: "life c a ts c'"

section \<open>Well-formed control states\<close>

text \<open>
  A finishing time is only recorded in a terminal status. A terminal row without one is the record of
  a chapter that a book run finished: it was inserted as succeeded and never executed.
\<close>

definition control_wf :: "job_control \<Rightarrow> bool" where
  "control_wf c \<longleftrightarrow>
     c_status c \<notin> {JobStatus_PENDING, JobStatus_LEASED} \<and>
     (c_status c = JobStatus_RUNNING \<longrightarrow> c_worker c \<noteq> None \<and> c_lease c \<noteq> None \<and>
        c_heartbeat c \<noteq> None) \<and>
     (c_status c \<in> {JobStatus_RUNNING, JobStatus_PAUSE_REQUESTED, JobStatus_CANCEL_REQUESTED} \<longrightarrow>
        c_started c \<noteq> None) \<and>
     (c_status c \<in> set terminal_job_statuses \<longrightarrow>
        c_worker c = None \<and> c_lease c = None \<and> c_heartbeat c = None) \<and>
     (c_finished c \<noteq> None \<longrightarrow> c_status c \<in> set terminal_job_statuses) \<and>
     (c_status c \<in> set terminal_job_statuses \<and> c_finished c = None \<longrightarrow>
        c_status c = JobStatus_SUCCEEDED \<and> c_attempt c = 0 \<and> c_started c = None)"

lemma finish_wf: "st \<in> set terminal_job_statuses \<Longrightarrow> control_wf (finish st now c)"
  by (auto simp: control_wf_def finish_def terminal_job_statuses_def)

lemma release_wf: "control_wf c \<Longrightarrow> c_status c \<notin> set terminal_job_statuses \<Longrightarrow> control_wf (release c)"
  by (simp add: control_wf_def release_def) (simp add: terminal_job_statuses_def)

lemma give_up_wf:
  assumes "give_up c ts c'" and "control_wf c" and "c_status c \<notin> set terminal_job_statuses"
  shows "control_wf c'"
  using assms(1)
proof (cases rule: give_up.cases)
  case dead
  then show ?thesis using finish_wf by (simp add: terminal_job_statuses_def)
next
  case again
  then show ?thesis using assms(2,3) by (simp add: release_wf)
qed

text \<open>A row that a worker owns, or that a request may still stop, is not terminal.\<close>

lemma owned_open: "control_wf c \<Longrightarrow> c_worker c = Some w \<Longrightarrow> c_status c \<notin> set terminal_job_statuses"
  by (auto simp: control_wf_def)

lemma terminal_stuck:
  "st \<in> set terminal_job_statuses \<Longrightarrow> t \<in> set (job_allowed st) \<Longrightarrow>
   t \<in> {JobStatus_OUTBOX_PENDING, JobStatus_RETRY_SCHEDULED, JobStatus_DEAD_LETTERED}"
  by (cases st) (auto simp: terminal_job_statuses_def)

lemma open_statuses:
  "JobStatus_RUNNING \<notin> set terminal_job_statuses" "JobStatus_PAUSED \<notin> set terminal_job_statuses"
  "JobStatus_QUEUED \<notin> set terminal_job_statuses" "JobStatus_LEASED \<notin> set terminal_job_statuses"
  "JobStatus_OUTBOX_PENDING \<notin> set terminal_job_statuses"
  "JobStatus_RETRY_SCHEDULED \<notin> set terminal_job_statuses"
  "JobStatus_PAUSE_REQUESTED \<notin> set terminal_job_statuses"
  "JobStatus_CANCEL_REQUESTED \<notin> set terminal_job_statuses"
  "JobStatus_PENDING \<notin> set terminal_job_statuses"
  by (simp_all add: terminal_job_statuses_def)

lemma claimable_open: "st \<in> set claimable_statuses \<Longrightarrow> st \<notin> set terminal_job_statuses"
  by (auto simp: claimable_statuses_def open_statuses)

lemma controllable_open:
  "JobStatus_CANCEL_REQUESTED \<in> set (job_allowed st) \<Longrightarrow> st \<notin> set terminal_job_statuses"
  "JobStatus_PAUSE_REQUESTED \<in> set (job_allowed st) \<Longrightarrow> st \<notin> set terminal_job_statuses"
  by (cases st; simp add: terminal_job_statuses_def)+

lemma wf_openI:
  assumes "c_status c \<notin> set terminal_job_statuses"
    and "c_status c \<notin> {JobStatus_PENDING, JobStatus_LEASED}"
    and "c_status c = JobStatus_RUNNING \<Longrightarrow>
      c_worker c \<noteq> None \<and> c_lease c \<noteq> None \<and> c_heartbeat c \<noteq> None"
    and "c_status c \<in> {JobStatus_RUNNING, JobStatus_PAUSE_REQUESTED, JobStatus_CANCEL_REQUESTED} \<Longrightarrow>
      c_started c \<noteq> None"
    and "c_finished c = None"
  shows "control_wf c"
  using assms by (simp add: control_wf_def)

lemma wf_unfinished: "control_wf c \<Longrightarrow> c_status c \<notin> set terminal_job_statuses \<Longrightarrow> c_finished c = None"
  by (simp add: control_wf_def)

lemma wf_beat: "control_wf c \<Longrightarrow> c_worker c = Some w \<Longrightarrow>
    control_wf (c\<lparr>c_heartbeat := Some now, c_lease := Some until\<rparr>)"
  by (auto simp: control_wf_def)

lemma life_wf:
  assumes "life c a ts c'" and wf: "control_wf c"
  shows "control_wf c'"
  using assms(1)
proof (cases rule: life.cases)
  case (claim w now until)
  then show ?thesis
    using wf_unfinished [OF wf] claimable_open by (intro wf_openI) (simp_all add: open_statuses)
next
  case (paused w)
  then show ?thesis
    using wf_unfinished [OF wf] by (intro wf_openI) (simp_all add: open_statuses)
next
  case (yielded w)
  then show ?thesis
    using wf_unfinished [OF wf] owned_open [OF wf] by (intro wf_openI) (simp_all add: open_statuses)
next
  case (gave_up w)
  then show ?thesis using wf owned_open give_up_wf by blast
next
  case (expired t now)
  then have "c_status c \<notin> set terminal_job_statuses" by (auto simp: open_statuses)
  with expired show ?thesis using wf give_up_wf by blast
next
  case cancel_later
  then show ?thesis
    using wf_unfinished [OF wf] controllable_open by (intro wf_openI) (simp_all add: open_statuses)
next
  case pause_later
  then show ?thesis
    using wf_unfinished [OF wf] controllable_open by (intro wf_openI) (simp_all add: open_statuses)
next
  case pause_now
  then show ?thesis
    using wf_unfinished [OF wf] controllable_open by (intro wf_openI) (simp_all add: open_statuses)
next
  case (beat w until now)
  then show ?thesis using wf wf_beat by simp
next
  case resumed
  then show ?thesis by (intro wf_openI) (simp_all add: open_statuses)
next
  case (retried k)
  then show ?thesis by (intro wf_openI) (simp_all add: open_statuses)
next
  case published
  then have "c_status c \<notin> set terminal_job_statuses" by (auto simp: open_statuses)
  with published show ?thesis
    using wf_unfinished [OF wf] by (intro wf_openI) (simp_all add: open_statuses)
next
  case requeued
  then show ?thesis
    using wf_unfinished [OF wf] by (intro wf_openI) (simp_all add: open_statuses)
qed (use wf finish_wf in \<open>simp_all add: terminal_job_statuses_def\<close>)

section \<open>Safety of the machine\<close>

text \<open>Three statuses are final: nothing leaves them, and nothing rewrites their control state.\<close>

definition final_statuses :: "job_status list" where
  "final_statuses = [JobStatus_SUCCEEDED, JobStatus_FAILED, JobStatus_CANCELLED]"

lemma final_terminal: "st \<in> set final_statuses \<Longrightarrow> st \<in> set terminal_job_statuses"
  by (auto simp: final_statuses_def terminal_job_statuses_def)

lemma life_final:
  assumes "life c a ts c'" and wf: "control_wf c" and fin: "c_status c \<in> set final_statuses"
  shows "c' = c \<and> JobEventType_JOB_LEASED \<notin> set ts \<and> JobEventType_RESUME_REQUESTED \<notin> set ts"
proof -
  have over: "c_status c \<in> set terminal_job_statuses" using fin by (rule final_terminal)
  have free: "c_worker c = None" using wf over by (simp add: control_wf_def)
  have stay: "c_status c \<notin> set claimable_statuses"
    "c_status c \<notin> {JobStatus_LEASED, JobStatus_RUNNING}"
    "c_status c \<notin> {JobStatus_PAUSED, JobStatus_QUEUED, JobStatus_DEAD_LETTERED}"
    "c_status c \<notin> {JobStatus_OUTBOX_PENDING, JobStatus_RETRY_SCHEDULED}"
    using fin by (auto simp: final_statuses_def claimable_statuses_def)
  show ?thesis
    using assms(1)
    by (cases rule: life.cases) (use free stay over controllable_open in auto)
qed

text \<open>A running job leaves its worker only by that worker's own outcome, or once its lease is over.\<close>

lemma life_lease:
  assumes "life c a ts c'" and wf: "control_wf c" and run: "c_status c = JobStatus_RUNNING"
    and w: "c_worker c = Some w"
  shows "(c_worker c' = Some w \<and>
      c_status c' \<in> {JobStatus_RUNNING, JobStatus_PAUSE_REQUESTED, JobStatus_CANCEL_REQUESTED}) \<or>
    a = Settled w \<or> (\<exists>now t. a = Expired now \<and> c_lease c = Some t \<and> t \<le> now)"
  using assms(1)
proof (cases rule: life.cases)
  case cancel_now
  then show ?thesis using wf run by (simp add: control_wf_def)
next
  case pause_now
  then show ?thesis using wf run by (simp add: control_wf_def)
qed (use run w in \<open>simp_all add: claimable_statuses_def\<close>)

text \<open>Accounting: every attempt is one lease event, and user requests alone add attempts.\<close>

definition count :: "'a list \<Rightarrow> 'a \<Rightarrow> int" where
  "count xs x = int (length (filter (\<lambda>y. y = x) xs))"

lemma count_simps [simp]:
  "count [] x = 0" "count (y # ys) x = (if y = x then 1 else 0) + count ys x"
  "count (xs @ ys) x = count xs x + count ys x"
  by (simp_all add: count_def)

lemma count_nonneg [simp]: "0 \<le> count xs x"
  by (simp add: count_def)

definition accounted :: "job_control \<Rightarrow> job_event_type list \<Rightarrow> bool" where
  "accounted c ts \<longleftrightarrow>
     c_attempt c = count ts JobEventType_JOB_LEASED \<and>
     c_attempt c \<le> c_max_attempts c + count ts JobEventType_RESUME_REQUESTED \<and>
     (c_status c \<in> set claimable_statuses \<longrightarrow>
        c_attempt c < c_max_attempts c + count ts JobEventType_RESUME_REQUESTED)"

lemma give_up_accounted:
  assumes "give_up c new c'" and "accounted c ts"
  shows "accounted c' (ts @ new)"
  using assms(1)
proof (cases rule: give_up.cases)
  case (dead now)
  then show ?thesis using assms(2) by (simp add: accounted_def finish_def claimable_statuses_def)
next
  case again
  then show ?thesis
    using assms(2)
    by (simp add: accounted_def release_def claimable_statuses_def)
      (use count_nonneg [of ts JobEventType_RESUME_REQUESTED] in linarith)
qed

lemma life_accounted:
  assumes "life c a new c'" and acc: "accounted c ts"
  shows "accounted c' (ts @ new)"
  using assms(1)
proof (cases rule: life.cases)
  case (gave_up w)
  then show ?thesis using acc give_up_accounted by blast
next
  case (expired t now)
  then show ?thesis using acc give_up_accounted by blast
next
  case published
  then have "c_status c \<in> set claimable_statuses" by (auto simp: claimable_statuses_def)
  with published acc show ?thesis by (simp add: accounted_def)
next
  case requeued
  then have "c_status c \<in> set claimable_statuses" by (auto simp: claimable_statuses_def)
  with requeued acc show ?thesis by (simp add: accounted_def)
next
  case (retried k)
  then show ?thesis
    using acc by (simp add: accounted_def)
      (use count_nonneg [of ts JobEventType_RESUME_REQUESTED] in linarith)
next
  case (beat w now until)
  then show ?thesis using acc by (auto simp: accounted_def)
next
  case (edited t)
  then show ?thesis using acc by (auto simp: accounted_def)
next
  case linked
  then show ?thesis using acc by (auto simp: accounted_def)
qed (use acc in \<open>simp_all add: accounted_def finish_def claimable_statuses_def\<close>)

end
