(* ===== verification/Job_Handlers.thy ===== *)
theory Job_Handlers
  imports Job_Lifecycle
begin

text \<open>
  The boundary between a running handler and the job subsystem
  (\<open>src/src/storyforge/jobs/handlers.py\<close>): the control check before each step, progress events,
  the link from a job to its workflow run, and the readers of job fields. The handlers
  themselves adapt application services and are the parameter \<open>handle\<close> of \<open>execute\<close>.
\<close>

section \<open>Progress of a workflow node\<close>

definition progress_order :: "string list" where
  "progress_order =
     [''initialize_workflow'', ''load_context'', ''generate_draft'', ''extract_facts'',
      ''evaluate_draft'', ''decide_after_evaluation'', ''build_revision_brief'', ''revise_draft'',
      ''extract_revision_facts'', ''evaluate_revision'', ''compare_versions'',
      ''decide_after_comparison'', ''accept_version'', ''mark_needs_human_review'']"

text \<open>\<open>list.index\<close>: the first position, \<open>ValueError\<close> when absent.\<close>

fun index_of :: "'a \<Rightarrow> 'a list \<Rightarrow> nat option" where
  "index_of x [] = None"
| "index_of x (y # ys) = (if y = x then Some 0 else map_option Suc (index_of x ys))"

text \<open>
  The quotient \<open>index / 13 * 88\<close> is never within a rounding error of a tie, so the exact
  rational gives the value that the floating-point expression gives.
\<close>

definition workflow_progress_of :: "string \<Rightarrow> int" where
  "workflow_progress_of node =
     (case index_of node progress_order of
        None \<Rightarrow> 5
      | Some index \<Rightarrow>
          min 95 (5 + round_half_even
            (rat_of_nat index / rat_of_nat (max 1 (length progress_order - 1)) * 88)))"

lemma index_of_Some: "index_of x xs = Some i \<Longrightarrow> i < length xs \<and> xs ! i = x"
  by (induction xs arbitrary: i) (auto split: if_splits)

lemma round_half_even_le: "q \<le> of_int n \<Longrightarrow> round_half_even q \<le> n"
proof -
  assume q: "q \<le> of_int n"
  show ?thesis
  proof (cases "q = of_int n")
    case True
    then show ?thesis by (simp add: round_half_even_def)
  next
    case False
    with q have "\<lfloor>q\<rfloor> < n" by (simp add: floor_less_iff)
    then show ?thesis by (simp add: round_half_even_def Let_def)
  qed
qed

lemma workflow_progress_bounds: "5 \<le> workflow_progress_of node \<and> workflow_progress_of node \<le> 93"
proof (cases "index_of node progress_order")
  case None
  then show ?thesis by (simp add: workflow_progress_of_def)
next
  case (Some i)
  then have i: "i \<le> 13" using index_of_Some [OF Some] by (simp add: progress_order_def)
  let ?q = "rat_of_nat i / rat_of_nat (max 1 (length progress_order - 1)) * 88"
  have "rat_of_nat i \<le> 13" using i by (metis of_nat_le_iff of_nat_numeral)
  then have "?q \<le> of_int 88" "of_int 0 \<le> ?q" by (simp_all add: progress_order_def)
  then show ?thesis
    using Some round_half_even_le [of ?q 88] round_half_even_ge [of 0 ?q]
    by (simp add: workflow_progress_of_def)
qed

section \<open>JobExecutionContext\<close>

definition check_control ::
  "(int \<Rightarrow> int \<Rightarrow> unit result) option \<Rightarrow> db \<Rightarrow> int \<Rightarrow> string \<Rightarrow> time \<Rightarrow>
   (db \<times> job_event result) result" where
  "check_control bus db job_id step now =
     (case get_job db job_id of
        None \<Rightarrow> Inl JobCancellationRequested
      | Some job \<Rightarrow>
          if j_status job = JobStatus_CANCEL_REQUESTED then Inl JobCancellationRequested
          else if j_status job = JobStatus_PAUSE_REQUESTED then Inl JobPauseRequested
          else record_event bus db job_id JobEventType_WORKFLOW_NODE_STARTED
                 ''workflow.node_started'' ''Workflow node started'' (Some step)
                 (Some (workflow_progress_of step)) None now)"

definition workflow_progress ::
  "(int \<Rightarrow> int \<Rightarrow> unit result) option \<Rightarrow> db \<Rightarrow> int \<Rightarrow> string \<Rightarrow> string \<Rightarrow> time \<Rightarrow>
   (db \<times> job_event result option) result" where
  "workflow_progress bus db job_id phase step now =
     (if phase \<noteq> ''completed'' then Inr (db, None)
      else
        and_then (record_event bus db job_id
            (if phase = ''completed'' then JobEventType_WORKFLOW_NODE_COMPLETED
             else JobEventType_WORKFLOW_NODE_STARTED)
            (''workflow.node_'' @ phase) (''Workflow node '' @ phase) (Some step)
            (Some (workflow_progress_of step + (if phase = ''completed'' then 2 else 0))) None now)
          (\<lambda>(db', e). Inr (db', Some e)))"

section \<open>Links and field readers\<close>

text \<open>
  \<open>_link_workflow_in_session\<close> runs inside a transaction of its caller, \<open>_link_workflow\<close> in one of its own.
\<close>

definition link_in_session :: "db \<Rightarrow> int \<Rightarrow> int \<Rightarrow> time \<Rightarrow> db" where
  "link_in_session db job_id workflow_run_id now =
     (case get_job db job_id of
        None \<Rightarrow> db
      | Some job \<Rightarrow>
          if j_workflow_run_id job = None
          then save_job db (job\<lparr>j_workflow_run_id := Some workflow_run_id, j_updated_at := now\<rparr>)
          else db)"

definition link_workflow :: "db \<Rightarrow> int \<Rightarrow> int \<Rightarrow> time \<Rightarrow> (db \<times> unit) result" where
  "link_workflow db job_id workflow_run_id now =
     commit (link_in_session db job_id workflow_run_id now) ()"

definition required_project :: "job \<Rightarrow> int result" where
  "required_project job = or_raise ValueError (j_project_id job)"

text \<open>\<open>isinstance(value, int)\<close> also holds of a Boolean, whose value is 0 or 1.\<close>

definition positive_payload_id :: "job \<Rightarrow> string \<Rightarrow> int result" where
  "positive_payload_id job field =
     (case map_of (j_payload job) field of
        Some (JInt i) \<Rightarrow> if i \<le> 0 then Inl ValueError else Inr i
      | Some (JBool b) \<Rightarrow> if b then Inr 1 else Inl ValueError
      | _ \<Rightarrow> Inl ValueError)"

definition chapter_number_of :: "job \<Rightarrow> int result" where
  "chapter_number_of job = positive_payload_id job ''chapter_number''"

end
