(* ===== verification/Job_Refinement.thy ===== *)
theory Job_Refinement
  imports Job_Handlers
begin

text \<open>
  Every transaction of the service, the worker and the dispatcher implements one action of the
  machine of \<open>Job_Lifecycle\<close> on one job and leaves the row and the events of every other job
  alone. \<open>session\<close> follows a transaction from statement to statement: the state it started
  from, its current state, the job it holds with unflushed changes and the events so far.
\<close>

section \<open>What a transaction does to one job\<close>

definition events_of :: "db \<Rightarrow> int \<Rightarrow> job_event list" where
  "events_of db i = filter (\<lambda>e. e_job_id e = i) (event_rows db)"

definition event_types_of :: "db \<Rightarrow> int \<Rightarrow> job_event_type list" where
  "event_types_of db i = map e_event_type (events_of db i)"

definition others_unchanged :: "db \<Rightarrow> db \<Rightarrow> int \<Rightarrow> bool" where
  "others_unchanged db db' i \<longleftrightarrow>
     (\<forall>k. k \<noteq> i \<longrightarrow> get_job db' k = get_job db k \<and> events_of db' k = events_of db k)"

definition implements :: "db \<Rightarrow> db \<Rightarrow> int \<Rightarrow> job_action \<Rightarrow> bool" where
  "implements db db' i a \<longleftrightarrow> others_unchanged db db' i \<and>
     (\<exists>j j' new. get_job db i = Some j \<and> get_job db' i = Some j' \<and>
        event_types_of db' i = event_types_of db i @ new \<and> life (control j) a new (control j') \<and>
        j_idempotency_key j' = j_idempotency_key j)"

section \<open>Control states of updated rows\<close>

lemma control_bumped [simp]: "control (bumped j e) = control j"
  by (simp add: control_def)

lemma control_sel [simp]:
  "c_status (control j) = j_status j" "c_attempt (control j) = j_attempt j"
  "c_max_attempts (control j) = j_max_attempts j" "c_worker (control j) = j_worker_id j"
  "c_lease (control j) = j_lease_expires_at j" "c_heartbeat (control j) = j_heartbeat_at j"
  "c_started (control j) = j_started_at j" "c_finished (control j) = j_finished_at j"
  by (simp_all add: control_def)

lemma control_update [simp]:
  "control (j\<lparr>j_status := st\<rparr>) = (control j)\<lparr>c_status := st\<rparr>"
  "control (j\<lparr>j_attempt := n\<rparr>) = (control j)\<lparr>c_attempt := n\<rparr>"
  "control (j\<lparr>j_max_attempts := n\<rparr>) = (control j)\<lparr>c_max_attempts := n\<rparr>"
  "control (j\<lparr>j_worker_id := w\<rparr>) = (control j)\<lparr>c_worker := w\<rparr>"
  "control (j\<lparr>j_lease_expires_at := t\<rparr>) = (control j)\<lparr>c_lease := t\<rparr>"
  "control (j\<lparr>j_heartbeat_at := t\<rparr>) = (control j)\<lparr>c_heartbeat := t\<rparr>"
  "control (j\<lparr>j_started_at := t\<rparr>) = (control j)\<lparr>c_started := t\<rparr>"
  "control (j\<lparr>j_finished_at := t\<rparr>) = (control j)\<lparr>c_finished := t\<rparr>"
  "control (j\<lparr>j_updated_at := u\<rparr>) = control j" "control (j\<lparr>j_result := r\<rparr>) = control j"
  "control (j\<lparr>j_progress := p\<rparr>) = control j" "control (j\<lparr>j_current_step := s\<rparr>) = control j"
  "control (j\<lparr>j_error_code := c\<rparr>) = control j" "control (j\<lparr>j_error_message := c\<rparr>) = control j"
  "control (j\<lparr>j_cancel_requested_at := t\<rparr>) = control j"
  "control (j\<lparr>j_cancelled_at := t\<rparr>) = control j" "control (j\<lparr>j_available_at := u\<rparr>) = control j"
  "control (j\<lparr>j_queued_at := t\<rparr>) = control j" "control (j\<lparr>j_workflow_run_id := v\<rparr>) = control j"
  by (simp_all add: control_def)

lemma transition_control:
  assumes "transition_job j t now = Inr j'" and "t \<noteq> j_status j"
  shows "t \<in> set (job_allowed (j_status j))"
    and "control j' = (if t \<in> set terminal_job_statuses then finish t now (control j)
                       else (control j)\<lparr>c_status := t\<rparr>)"
  using assms
  by (auto simp: transition_job_def Let_def finish_def control_def terminal_job_statuses_def
      split: if_splits)

section \<open>Transactions that leave jobs and events alone\<close>

definition quiet :: "db \<Rightarrow> db \<Rightarrow> bool" where
  "quiet db db' \<longleftrightarrow> db_jobs db' = db_jobs db \<and> db_events db' = db_events db \<and>
     (keys_ok db \<longrightarrow> keys_ok db')"

lemma quiet_refl [simp]: "quiet db db"
  by (simp add: quiet_def)

lemma quiet_trans: "quiet a b \<Longrightarrow> quiet b c \<Longrightarrow> quiet a c"
  by (simp add: quiet_def)

lemma quiet_updates [simp]:
  "quiet db (save_outbox db r)" "quiet db (save_workflow_run db w)" "quiet db (save_chapter db c)"
  "quiet db (fst (add_outbox db r))"
  by (simp_all add: quiet_def)

lemma quiet_create_outbox [simp]: "quiet db (fst (create_outbox db job reason now))"
  by (simp add: create_outbox_def Let_def split: option.split)

lemma quiet_retry_outbox [simp]: "quiet db (fst (retry_outbox db job now))"
  by (simp add: retry_outbox_def)

lemma quiet_cancel_workflow:
  assumes "cancel_linked_workflow db job now = Inr db'"
  shows "quiet db db'"
  using assms quiet_trans [OF quiet_updates(2) quiet_updates(3)]
  by (auto simp: cancel_linked_workflow_def Let_def split: option.splits if_splits)

lemma quiet_pause_workflow: "pause_workflow_of db job now = Inr db' \<Longrightarrow> quiet db db'"
  by (auto simp: pause_workflow_of_def split: option.splits if_splits)

lemma quiet_jobs: "quiet db db' \<Longrightarrow> get_job db' = get_job db"
  unfolding quiet_def by (blast intro: lookup_frame(4))

lemma quiet_events: "quiet db db' \<Longrightarrow> events_of db' = events_of db"
  by (simp add: quiet_def events_of_def fun_eq_iff)

lemma quiet_struct: "quiet db db' \<Longrightarrow> struct_ok db \<Longrightarrow> struct_ok db'"
  using struct_ok_frame [of db db'] by (auto simp: quiet_def)

section \<open>Following a transaction\<close>

lemma events_of_emitted:
  "events_of (emitted db job e) i = events_of db i @
     (if e_job_id e = i
      then [e\<lparr>e_sequence := j_event_sequence job + 1, e_id := t_next (db_events db)\<rparr>] else [])"
  by (simp add: events_of_def event_rows_emitted)

lemma events_of_save_job [simp]: "events_of (save_job db r) = events_of db"
  by (simp add: events_of_def fun_eq_iff)

definition session :: "db \<Rightarrow> int \<Rightarrow> db \<Rightarrow> job \<Rightarrow> job_event_type list \<Rightarrow> bool" where
  "session db i db1 j1 ts \<longleftrightarrow> j_id j1 = i \<and>
     (\<exists>j0. get_job db1 i = Some j0 \<and> j_event_sequence j1 = j_event_sequence j0) \<and>
     (\<forall>j. get_job db i = Some j \<longrightarrow> j_idempotency_key j1 = j_idempotency_key j) \<and>
     others_unchanged db db1 i \<and> event_types_of db1 i = event_types_of db i @ ts \<and> struct_ok db1"

lemma session_start: "struct_ok db \<Longrightarrow> get_job db i = Some j \<Longrightarrow> session db i db j []"
  by (auto simp: session_def others_unchanged_def dest: get_job_id)

lemma session_edit:
  "session db i db1 j1 ts \<Longrightarrow> j_id j2 = j_id j1 \<Longrightarrow> j_event_sequence j2 = j_event_sequence j1 \<Longrightarrow>
   j_idempotency_key j2 = j_idempotency_key j1 \<Longrightarrow> session db i db1 j2 ts"
  by (simp add: session_def)

lemma session_transition:
  "session db i db1 j1 ts \<Longrightarrow> transition_job j1 t now = Inr j2 \<Longrightarrow> session db i db1 j2 ts"
  by (erule session_edit) (simp_all add: transition_job_frame)

lemma session_quiet: "session db i db1 j1 ts \<Longrightarrow> quiet db1 db2 \<Longrightarrow> session db i db2 j1 ts"
  by (simp add: session_def others_unchanged_def event_types_of_def quiet_jobs quiet_events quiet_struct)

lemma session_emit:
  assumes "session db i db1 j1 ts" and "e_job_id e = j_id j1"
  shows "session db i (emitted db1 j1 e) (bumped j1 e) (ts @ [e_event_type e])"
    and "get_job (emitted db1 j1 e) i = Some (bumped j1 e)"
  using assms struct_ok_emitted [of db1 j1 _ e]
  by (auto simp: session_def others_unchanged_def event_types_of_def events_of_emitted)

lemma session_save:
  assumes "session db i db1 j1 ts"
  shows "session db i (save_job db1 j1) j1 ts" and "get_job (save_job db1 j1) i = Some j1"
  using assms struct_ok_save_job [of db1 j1]
  by (auto simp: session_def others_unchanged_def event_types_of_def)

lemma session_done:
  "session db i db1 j1 ts \<Longrightarrow> get_job db i = Some j \<Longrightarrow> get_job db1 i = Some j1 \<Longrightarrow>
   life (control j) a ts (control j1) \<Longrightarrow> implements db db1 i a \<and> struct_ok db1"
  unfolding session_def implements_def by blast

end
