(* ===== verification/Job_System.thy ===== *)
theory Job_System
  imports Job_Refinement
begin

text \<open>
  The refinement: each operation of \<open>JobService\<close>, \<open>JobExecutor\<close>, \<open>OutboxDispatcher\<close> and the
  handler context implements an action of the life-cycle machine, keeps the store's structure
  and, by committing, its constraints.
\<close>

section \<open>Following events\<close>

lemma session_emit_result:
  assumes "session db i db1 j1 ts" and "emit db1 j1 e = Inr (db2, j2, e')" and "e_job_id e = j_id j1"
  shows "session db i db2 j2 (ts @ [e_event_type e])" "get_job db2 i = Some j2"
    "control j2 = control j1"
  using assms session_emit [OF assms(1,3)] by (auto simp: emit_Inr)

lemma session_service_event:
  assumes "session db i db1 j1 ts" and "service_event db1 j1 t c m f now = Inr (db2, j2, e')"
  shows "session db i db2 j2 (ts @ [t])" "get_job db2 i = Some j2" "control j2 = control j1"
  using session_emit_result [OF assms(1) assms(2) [unfolded service_event_def]] by simp_all

lemma session_worker_event:
  assumes "session db i db1 j1 ts" and "worker_event db1 j1 t c m now = Inr (db2, j2, e')"
  shows "session db i db2 j2 (ts @ [t])" "get_job db2 i = Some j2" "control j2 = control j1"
  using session_emit_result [OF assms(1) assms(2) [unfolded worker_event_def]] by simp_all

lemma session_dispatcher_event:
  assumes "session db i db1 j1 ts" and "dispatcher_event db1 j1 t c m now = Inr (db2, j2, e')"
  shows "session db i db2 j2 (ts @ [t])" "get_job db2 i = Some j2" "control j2 = control j1"
  using session_emit_result [OF assms(1) assms(2) [unfolded dispatcher_event_def]] by simp_all

lemma control_status: "control j = control j' \<Longrightarrow> j_status j = j_status j'"
  "control j = control j' \<Longrightarrow> j_started_at j = j_started_at j'"
  by (simp_all add: control_def)

lemma session_end:
  assumes "session db i db1 j1 ts" and "get_job db i = Some j" and "get_job db1 i = Some j1"
    and "life (control j) a ts c" and "control j1 = c"
  shows "implements db db1 i a" "struct_ok db1"
  using session_done [OF assms(1-3), of a] assms(4,5) by simp_all

lemma implements_refl:
  "get_job db i = Some j \<Longrightarrow> life (control j) a [] (control j) \<Longrightarrow> implements db db i a"
  by (auto simp: implements_def others_unchanged_def)

section \<open>JobService\<close>

lemma request_cancel_life:
  assumes ok: "struct_ok db" and op: "request_cancel db i now = Inr (db', j')"
  shows "implements db db' i Cancelled_By_User \<and> struct_ok db' \<and> db_ok db' \<and> get_job db' i = Some j'"
proof -
  from op obtain job where job: "get_job db i = Some job"
    by (auto simp: request_cancel_def require_locked_def)
  show ?thesis
  proof (cases "j_status job = JobStatus_CANCEL_REQUESTED")
    case True
    then show ?thesis
      using op ok job implements_refl [OF job life.cancel_again]
      by (auto simp: request_cancel_def require_locked_def)
  next
    case False
    from op job False obtain job1 db3 job3 e
      where t: "transition_job job JobStatus_CANCEL_REQUESTED now = Inr job1"
        and ev: "service_event db (job1\<lparr>j_cancel_requested_at := Some now\<rparr>)
          JobEventType_CANCEL_REQUESTED ''job.cancel_requested'' ''Cancellation requested'' None now
          = Inr (db3, job3, e)"
        and rest: "(if j_started_at job3 = None \<or> j_status job = JobStatus_PAUSED then
           and_then (transition_job job3 JobStatus_CANCELLED now) (\<lambda>job4.
           and_then (cancel_linked_workflow db3 job4 now) (\<lambda>db4.
           and_then (service_event db4 job4 JobEventType_JOB_CANCELLED ''job.cancelled''
                       ''Job cancelled before execution'' None now) (\<lambda>(db5, job5, _).
           commit db5 job5)))
         else commit db3 job3) = Inr (db', j')"
      by (auto simp: request_cancel_def require_locked_def Let_def simp del: service_event_Inr
          split: if_splits)
    note c1 = transition_control [OF t False [symmetric]]
    have s2: "session db i db (job1\<lparr>j_cancel_requested_at := Some now\<rparr>) []"
      using session_transition [OF session_start [OF ok job] t] by (rule session_edit) simp_all
    note s3 = session_service_event [OF s2 ev]
    have c3: "control job3 = (control job)\<lparr>c_status := JobStatus_CANCEL_REQUESTED\<rparr>"
      using s3(3) c1(2) by (simp add: open_statuses)
    then have st3: "j_status job3 = JobStatus_CANCEL_REQUESTED" "j_started_at job3 = j_started_at job"
      by (simp_all add: control_def)
    show ?thesis
    proof (cases "j_started_at job = None \<or> j_status job = JobStatus_PAUSED")
      case True
      with rest st3 obtain job4 db4 e5
        where t4: "transition_job job3 JobStatus_CANCELLED now = Inr job4"
          and w: "cancel_linked_workflow db3 job4 now = Inr db4"
          and ev5: "service_event db4 job4 JobEventType_JOB_CANCELLED ''job.cancelled''
                       ''Job cancelled before execution'' None now = Inr (db', j', e5)"
          and fin: "db_ok db'"
        by (auto simp del: service_event_Inr)
      have "JobStatus_CANCELLED \<noteq> j_status job3" using st3 by simp
      note c4 = transition_control [OF t4 this]
      note s5 = session_service_event [OF session_quiet [OF session_transition [OF s3(1) t4]
            quiet_cancel_workflow [OF w]] ev5]
      have "control j' = finish JobStatus_CANCELLED now (control job)"
        using s5(3) c4(2) c3 by (simp add: terminal_job_statuses_def finish_def)
      moreover have "life (control job) Cancelled_By_User
          ([] @ [JobEventType_CANCEL_REQUESTED] @ [JobEventType_JOB_CANCELLED])
          (finish JobStatus_CANCELLED now (control job))"
        using c1(1) True by (auto intro: life.cancel_now)
      ultimately show ?thesis
        using session_end [OF s5(1) job s5(2)] fin s5(2) by simp
    next
      case False
      then have d: "db' = db3" "j' = job3" "db_ok db3" using rest st3 by auto
      have "life (control job) Cancelled_By_User ([] @ [JobEventType_CANCEL_REQUESTED])
          ((control job)\<lparr>c_status := JobStatus_CANCEL_REQUESTED\<rparr>)"
        using c1(1) False by (auto intro: life.cancel_later)
      then show ?thesis using session_end [OF s3(1) job s3(2) _ c3] d s3(2) by simp
    qed
  qed
qed

lemma request_pause_life:
  assumes ok: "struct_ok db" and op: "request_pause db i now = Inr (db', j')"
  shows "implements db db' i Paused_By_User \<and> struct_ok db' \<and> db_ok db' \<and> get_job db' i = Some j'"
proof -
  from op obtain job where job: "get_job db i = Some job"
    by (auto simp: request_pause_def require_locked_def)
  show ?thesis
  proof (cases "j_status job = JobStatus_PAUSED")
    case True
    then show ?thesis
      using op ok job implements_refl [OF job life.pause_again]
      by (auto simp: request_pause_def require_locked_def)
  next
    case False
    from op job False obtain job1 db3 job3 e
      where from_status: "j_status job \<in> {JobStatus_OUTBOX_PENDING, JobStatus_QUEUED,
          JobStatus_LEASED, JobStatus_RUNNING}"
        and t: "transition_job job JobStatus_PAUSE_REQUESTED now = Inr job1"
        and ev: "service_event db job1 JobEventType_PAUSE_REQUESTED ''job.pause_requested''
          ''Pause requested'' None now = Inr (db3, job3, e)"
        and rest: "(if j_started_at job3 = None then
           and_then (transition_job job3 JobStatus_PAUSED now) (\<lambda>job4.
           and_then (service_event db3 job4 JobEventType_JOB_PAUSED ''job.paused''
                       ''Job paused before execution'' None now) (\<lambda>(db5, job5, _).
           commit db5 job5))
         else commit db3 job3) = Inr (db', j')"
      by (auto simp: request_pause_def require_locked_def Let_def simp del: service_event_Inr
          split: if_splits)
    have "JobStatus_PAUSE_REQUESTED \<noteq> j_status job" using from_status by auto
    note c1 = transition_control [OF t this]
    note s3 = session_service_event [OF session_transition [OF session_start [OF ok job] t] ev]
    have c3: "control job3 = (control job)\<lparr>c_status := JobStatus_PAUSE_REQUESTED\<rparr>"
      using s3(3) c1(2) by (simp add: open_statuses)
    then have st3: "j_status job3 = JobStatus_PAUSE_REQUESTED" "j_started_at job3 = j_started_at job"
      by (simp_all add: control_def)
    show ?thesis
    proof (cases "j_started_at job = None")
      case True
      with rest st3 obtain job4 e5
        where t4: "transition_job job3 JobStatus_PAUSED now = Inr job4"
          and ev5: "service_event db3 job4 JobEventType_JOB_PAUSED ''job.paused''
                       ''Job paused before execution'' None now = Inr (db', j', e5)"
          and fin: "db_ok db'"
        by (auto simp del: service_event_Inr)
      have "JobStatus_PAUSED \<noteq> j_status job3" using st3 by simp
      note c4 = transition_control [OF t4 this]
      note s5 = session_service_event [OF session_transition [OF s3(1) t4] ev5]
      have "control j' = (control job)\<lparr>c_status := JobStatus_PAUSED\<rparr>"
        using s5(3) c4(2) c3 by (simp add: open_statuses)
      moreover have "life (control job) Paused_By_User
          ([] @ [JobEventType_PAUSE_REQUESTED] @ [JobEventType_JOB_PAUSED])
          ((control job)\<lparr>c_status := JobStatus_PAUSED\<rparr>)"
        using c1(1) True by (auto intro: life.pause_now)
      ultimately show ?thesis
        using session_end [OF s5(1) job s5(2)] fin s5(2) by simp
    next
      case False
      then have d: "db' = db3" "j' = job3" "db_ok db3" using rest st3 by auto
      have "life (control job) Paused_By_User ([] @ [JobEventType_PAUSE_REQUESTED])
          ((control job)\<lparr>c_status := JobStatus_PAUSE_REQUESTED\<rparr>)"
        using c1(1) False by (auto intro: life.pause_later)
      then show ?thesis using session_end [OF s3(1) job s3(2) _ c3] d s3(2) by simp
    qed
  qed
qed

lemma resume_life:
  assumes ok: "struct_ok db" and op: "resume db i now = Inr (db', j')"
  shows "implements db db' i Resumed_By_User \<and> struct_ok db' \<and> db_ok db' \<and> get_job db' i = Some j'"
proof -
  from op obtain job where job: "get_job db i = Some job"
    by (auto simp: resume_def require_locked_def)
  from op job obtain job1 db2 e
    where st: "j_status job = JobStatus_PAUSED"
      and t: "transition_job job JobStatus_OUTBOX_PENDING now = Inr job1"
      and ev: "service_event db (job1\<lparr>j_finished_at := None\<rparr>) JobEventType_RESUME_REQUESTED
        ''job.resume_requested'' ''Job resume requested'' None now = Inr (db2, j', e)"
      and fin: "db' = fst (create_outbox db2 j' (''resume-'' @ int_str (j_attempt j' + 1)) now)"
        "db_ok db'"
    by (auto simp: resume_def require_locked_def simp del: service_event_Inr split: if_splits)
  have "JobStatus_OUTBOX_PENDING \<noteq> j_status job" using st by simp
  note c1 = transition_control [OF t this]
  have "session db i db (job1\<lparr>j_finished_at := None\<rparr>) []"
    using session_transition [OF session_start [OF ok job] t] by (rule session_edit) simp_all
  note s2 = session_service_event [OF this ev]
  have q: "quiet db2 db'" using fin by simp
  have "control j' = (control job)\<lparr>c_status := JobStatus_OUTBOX_PENDING, c_finished := None\<rparr>"
    using s2(3) c1(2) by (simp add: open_statuses)
  moreover have "life (control job) Resumed_By_User ([] @ [JobEventType_RESUME_REQUESTED])
      ((control job)\<lparr>c_status := JobStatus_OUTBOX_PENDING, c_finished := None\<rparr>)"
    using st by (auto intro: life.resumed)
  moreover have "get_job db' i = Some j'" using s2(2) quiet_jobs [OF q] by simp
  ultimately show ?thesis using session_end [OF session_quiet [OF s2(1) q] job] fin(2) by simp
qed

lemma retry_dead_letter_life:
  assumes ok: "struct_ok db" and op: "retry_dead_letter db i now = Inr (db', j')"
  shows "implements db db' i Retried_By_User \<and> struct_ok db' \<and> db_ok db' \<and> get_job db' i = Some j'"
proof -
  from op obtain job where job: "get_job db i = Some job"
    by (auto simp: retry_dead_letter_def require_locked_def)
  from op job obtain job1 db2 e d
    where st: "j_status job = JobStatus_DEAD_LETTERED"
      and t: "transition_job job JobStatus_OUTBOX_PENDING now = Inr job1"
      and d: "registry_get (j_job_type job1) = Inr d"
      and ev: "service_event db (job1\<lparr>j_max_attempts := j_attempt job1 + jd_max_attempts d,
          j_available_at := now, j_finished_at := None, j_error_code := None,
          j_error_message := None\<rparr>) JobEventType_RESUME_REQUESTED
        ''job.dlq_retry_requested'' ''Dead-letter retry requested'' None now = Inr (db2, j', e)"
      and fin: "db' = fst (create_outbox db2 j' (''dlq-retry-'' @ int_str (j_attempt j' + 1)) now)"
        "db_ok db'"
    by (auto simp: retry_dead_letter_def require_locked_def Let_def simp del: service_event_Inr
        split: if_splits)
  have "JobStatus_OUTBOX_PENDING \<noteq> j_status job" using st by simp
  note c1 = transition_control [OF t this]
  have "d = definition_of (j_job_type job1)" using d by (simp add: definition_of_def)
  then have k: "1 \<le> jd_max_attempts d" using definition_of_attempts by simp
  have "session db i db (job1\<lparr>j_max_attempts := j_attempt job1 + jd_max_attempts d,
          j_available_at := now, j_finished_at := None, j_error_code := None,
          j_error_message := None\<rparr>) []"
    using session_transition [OF session_start [OF ok job] t] by (rule session_edit) simp_all
  note s2 = session_service_event [OF this ev]
  have q: "quiet db2 db'" using fin by simp
  have "control j' = (control job)\<lparr>c_status := JobStatus_OUTBOX_PENDING,
      c_max_attempts := c_attempt (control job) + jd_max_attempts d, c_finished := None\<rparr>"
    using s2(3) c1(2) transition_job_frame(3) [OF t] by (simp add: open_statuses)
  moreover have "life (control job) Retried_By_User ([] @ [JobEventType_RESUME_REQUESTED])
      ((control job)\<lparr>c_status := JobStatus_OUTBOX_PENDING,
         c_max_attempts := c_attempt (control job) + jd_max_attempts d, c_finished := None\<rparr>)"
    using st k life.retried [of "control job"] by simp
  moreover have "get_job db' i = Some j'" using s2(2) quiet_jobs [OF q] by simp
  ultimately show ?thesis using session_end [OF session_quiet [OF s2(1) q] job] fin(2) by simp
qed

lemma edit_life:
  assumes ok: "struct_ok db" and job: "get_job db i = Some job"
    and same: "j_id job1 = j_id job" "j_event_sequence job1 = j_event_sequence job"
      "j_idempotency_key job1 = j_idempotency_key job" "control job1 = control job"
    and ev: "service_event db job1 t c m f now = Inr (db', j', e)"
    and t: "t \<notin> {JobEventType_JOB_LEASED, JobEventType_RESUME_REQUESTED}"
  shows "implements db db' i Edited" "struct_ok db'" "get_job db' i = Some j'"
proof -
  note s = session_service_event [OF session_edit [OF session_start [OF ok job] same(1-3)] ev]
  have "life (control job) Edited ([] @ [t]) (control job)" using t by (auto intro: life.edited)
  then show "implements db db' i Edited" "struct_ok db'" "get_job db' i = Some j'"
    using session_end [OF s(1) job s(2)] s(2,3) same(4) by simp_all
qed

lemma discard_dead_letter_life:
  assumes ok: "struct_ok db" and op: "discard_dead_letter db i now = Inr (db', j')"
  shows "implements db db' i Edited \<and> struct_ok db' \<and> db_ok db' \<and> get_job db' i = Some j'"
proof -
  from op obtain job e where job: "get_job db i = Some job"
      and ev: "service_event db (job\<lparr>j_result := dict_set ''discarded'' (JBool True) (j_result job)\<rparr>)
        JobEventType_JOB_DISCARDED ''job.discarded'' ''Dead-letter job discarded'' None now
        = Inr (db', j', e)" and fin: "db_ok db'"
    by (auto simp: discard_dead_letter_def require_locked_def simp del: service_event_Inr
        split: if_splits)
  show ?thesis using edit_life [OF ok job _ _ _ _ ev] fin by simp
qed

lemma record_event_life:
  assumes ok: "struct_ok db"
    and op: "record_event bus db i t code message step progress f now = Inr (db', r)"
    and t: "t \<notin> {JobEventType_JOB_LEASED, JobEventType_RESUME_REQUESTED}"
  shows "implements db db' i Edited \<and> struct_ok db' \<and> db_ok db'"
proof -
  from op obtain job j' e where job: "get_job db i = Some job"
      and ev: "service_event db
        (let job1 = (case progress of None \<Rightarrow> job | Some p \<Rightarrow> job\<lparr>j_progress := p\<rparr>)
         in case step of None \<Rightarrow> job1 | Some st \<Rightarrow> job1\<lparr>j_current_step := Some st\<rparr>)
        t code message f now = Inr (db', j', e)" and fin: "db_ok db'"
    by (auto simp: record_event_def require_locked_def Let_def simp del: service_event_Inr)
  show ?thesis
    using edit_life [OF ok job _ _ _ _ ev t] fin
    by (simp add: Let_def split: option.splits)
qed

lemma check_control_life:
  "struct_ok db \<Longrightarrow> check_control bus db i step now = Inr (db', r) \<Longrightarrow>
   implements db db' i Edited \<and> struct_ok db' \<and> db_ok db'"
  by (auto simp: check_control_def split: option.splits if_splits dest: record_event_life)

lemma workflow_progress_life:
  assumes "struct_ok db" and "workflow_progress bus db i phase step now = Inr (db', r)"
  shows "db' = db \<or> (implements db db' i Edited \<and> struct_ok db' \<and> db_ok db')"
proof (cases "phase = ''completed''")
  case True
  then obtain e where "record_event bus db i JobEventType_WORKFLOW_NODE_COMPLETED
      (''workflow.node_'' @ phase) (''Workflow node '' @ phase) (Some step)
      (Some (workflow_progress_of step + 2)) None now = Inr (db', e)"
    using assms(2) by (auto simp: workflow_progress_def)
  then show ?thesis using record_event_life [OF assms(1)] by simp
next
  case False
  then show ?thesis using assms(2) by (simp add: workflow_progress_def)
qed

text \<open>A link inside a transaction edits the job, or leaves it alone.\<close>

lemma link_in_session_life:
  assumes "struct_ok db"
  shows "struct_ok (link_in_session db i w now) \<and>
    (link_in_session db i w now = db \<or> implements db (link_in_session db i w now) i Edited)"
proof (cases "get_job db i")
  case None
  then show ?thesis using assms by (simp add: link_in_session_def)
next
  case (Some job)
  let ?j = "job\<lparr>j_workflow_run_id := Some w, j_updated_at := now\<rparr>"
  have "session db i db ?j []"
    using session_start [OF assms Some] by (rule session_edit) simp_all
  note s = session_save [OF this]
  have "implements db (save_job db ?j) i Edited" "struct_ok (save_job db ?j)"
    using session_end [OF s(1) Some s(2) life.linked] by simp_all
  then show ?thesis using assms Some by (simp add: link_in_session_def)
qed

lemma link_workflow_life:
  assumes ok: "struct_ok db" and op: "link_workflow db i w now = Inr (db', u)"
  shows "db_ok db' \<and> struct_ok db' \<and> (db' = db \<or> implements db db' i Edited)"
  using link_in_session_life [OF ok, of i w now] op by (auto simp: link_workflow_def)

end
