(* ===== verification/Worker_System.thy ===== *)
theory Worker_System
  imports Job_System
begin

text \<open>
  The refinement of the worker's transactions (\<open>jobs/worker.py\<close>): the claim, the heartbeat, the
  outcomes, and the recovery loop over expired leases, which is a sequence of actions.
\<close>

section \<open>Worker rows\<close>

lemma quiet_worker_heartbeat: "quiet db (worker_heartbeat db w q st j v now)"
proof -
  have "keys_ok db \<Longrightarrow> keys_ok (worker_heartbeat db w q st j v now)"
    by (auto simp: worker_heartbeat_def keys_ok_def intro: workers.ok_save workers.ok_add
        split: option.split)
  then show ?thesis by (simp add: quiet_def worker_heartbeat_def split: option.split)
qed

lemma record_worker_cases:
  "record_worker db w st j now = db \<or>
   (db_ok (record_worker db w st j now) \<and>
    record_worker db w st j now = worker_heartbeat db w ''all'' st j storyforge_version now)"
  by (simp add: record_worker_def commit_def Let_def)

lemma quiet_record_worker [simp]: "quiet db (record_worker db w st j now)"
  using record_worker_cases [of db w st j now] quiet_worker_heartbeat by (metis quiet_refl)

lemma record_worker_ok: "db_ok db \<Longrightarrow> db_ok (record_worker db w st j now)"
  using record_worker_cases [of db w st j now] by metis

lemma implements_quiet: "implements db db1 i a \<Longrightarrow> quiet db1 db2 \<Longrightarrow> implements db db2 i a"
  by (simp add: implements_def others_unchanged_def event_types_of_def quiet_jobs quiet_events)

lemma owned_job_Inr [simp]:
  "owned_job db i w = Inr job \<longleftrightarrow> get_job db i = Some job \<and> j_worker_id job = Some w"
  by (auto simp: owned_job_def split: option.splits)

section \<open>Claim and heartbeat\<close>

lemma claim_Some:
  assumes "claim db i w now until = (db1, Some job1)"
  obtains job where "get_job db i = Some job" "j_status job \<in> set claimable_statuses"
    "j_available_at job \<le> now"
    "job1 = job\<lparr>j_status := JobStatus_LEASED, j_worker_id := Some w, j_heartbeat_at := Some now,
              j_lease_expires_at := Some until, j_attempt := j_attempt job + 1,
              j_updated_at := now\<rparr>"
    "db1 = save_job db job1"
  using assms by (auto simp: claim_def Let_def split: option.splits if_splits)

lemma claim_None: "claim db i w now until = (db1, None) \<Longrightarrow> db1 = db"
  by (auto simp: claim_def Let_def split: option.splits if_splits)

lemma claim_txn_life:
  assumes ok: "struct_ok db" and op: "claim_txn s db i w now = Inr (db', Some job')"
  shows "implements db db' i (Claimed w now) \<and> struct_ok db' \<and> db_ok db' \<and>
    get_job db' i = Some job' \<and> j_status job' = JobStatus_RUNNING \<and> j_worker_id job' = Some w \<and>
    j_lease_expires_at job' = Some (lease_end s now)"
proof -
  obtain db1 jo where c: "claim db i w now (lease_end s now) = (db1, jo)" by fastforce
  with op obtain job1 where jo: "jo = Some job1" by (cases jo) (auto simp: claim_txn_def)
  from claim_Some [OF c [unfolded jo]] obtain job
    where job: "get_job db i = Some job" and st: "j_status job \<in> set claimable_statuses"
      and job1: "job1 = job\<lparr>j_status := JobStatus_LEASED, j_worker_id := Some w,
          j_heartbeat_at := Some now, j_lease_expires_at := Some (lease_end s now),
          j_attempt := j_attempt job + 1, j_updated_at := now\<rparr>"
      and db1: "db1 = save_job db job1" by blast
  from op c jo obtain db2 job2 e2 job3 e5
    where ev2: "worker_event db1 job1 JobEventType_JOB_LEASED ''job.leased''
          ''Job leased by worker'' now = Inr (db2, job2, e2)"
      and t: "transition_job job2 JobStatus_RUNNING now = Inr job3"
      and ev5: "worker_event db2 (if j_started_at job3 = None
            then job3\<lparr>j_started_at := Some now\<rparr> else job3) JobEventType_JOB_STARTED ''job.started''
          ''Job execution started'' now = Inr (db', job', e5)"
      and fin: "db_ok db'"
    by (auto simp: claim_txn_def Let_def)
  have "session db i db job1 []"
    using session_start [OF ok job] by (rule session_edit) (simp_all add: job1)
  note s1 = session_save [OF this, folded db1]
  note s2 = session_worker_event [OF s1(1) ev2]
  have st2: "j_status job2 = JobStatus_LEASED" using control_status(1) [OF s2(3)] job1 by simp
  note c3 = transition_control [OF t, unfolded st2, simplified]
  have "session db i db2 (if j_started_at job3 = None
      then job3\<lparr>j_started_at := Some now\<rparr> else job3) ([] @ [JobEventType_JOB_LEASED])"
    using session_transition [OF s2(1) t] by (rule session_edit) simp_all
  note s5 = session_worker_event [OF this ev5]
  let ?c = "(control job)\<lparr>c_status := JobStatus_RUNNING, c_attempt := c_attempt (control job) + 1,
      c_worker := Some w, c_heartbeat := Some now, c_lease := Some (lease_end s now),
      c_started := Some (case c_started (control job) of None \<Rightarrow> now | Some t \<Rightarrow> t)\<rparr>"
  have c2: "control job2 = (control job)\<lparr>c_status := JobStatus_LEASED,
      c_attempt := c_attempt (control job) + 1, c_worker := Some w, c_heartbeat := Some now,
      c_lease := Some (lease_end s now)\<rparr>"
    using s2(3) job1 by simp
  have c3': "control job3 = (control job2)\<lparr>c_status := JobStatus_RUNNING\<rparr>"
    using c3 by (simp add: open_statuses)
  have "c_started (control job3) = c_started (control job)" using c3' c2 by simp
  then have start: "j_started_at job3 = j_started_at job" by simp
  have "control job' = ?c"
  proof (cases "j_started_at job")
    case None
    then show ?thesis using s5(3) start c3' c2 by simp
  next
    case (Some t)
    have "control job3 = (control job3)\<lparr>c_started := Some t\<rparr>"
      using start Some by (simp add: control_def)
    with Some show ?thesis using s5(3) start c3' c2 by simp
  qed
  moreover have "life (control job) (Claimed w now)
      (([] @ [JobEventType_JOB_LEASED]) @ [JobEventType_JOB_STARTED]) ?c"
    using st life.claim [of "control job" w now "lease_end s now"] by simp
  ultimately have "implements db db' i (Claimed w now)" "struct_ok db'"
    using session_end [OF s5(1) job s5(2)] by blast+
  moreover have "c_status (control job') = JobStatus_RUNNING \<and> c_worker (control job') = Some w \<and>
      c_lease (control job') = Some (lease_end s now)"
    unfolding \<open>control job' = ?c\<close> by simp
  ultimately show ?thesis using fin s5(2) by simp
qed

lemma claim_job_life:
  assumes ok: "struct_ok db" and op: "claim_job s db i w now = Inr (db', jo)"
  shows "struct_ok db' \<and> db_ok db' \<and>
    (case jo of None \<Rightarrow> db' = db
     | Some job' \<Rightarrow> implements db db' i (Claimed w now) \<and> get_job db' i = Some job')"
proof -
  from op obtain db1 where txn: "claim_txn s db i w now = Inr (db1, jo)"
    and db': "db' = (case jo of None \<Rightarrow> db1
       | Some _ \<Rightarrow> record_worker db1 w WorkerStatus_BUSY (Some i) now)"
    by (auto simp: claim_job_def split: option.splits)
  show ?thesis
  proof (cases jo)
    case None
    obtain d jo' where c: "claim db i w now (lease_end s now) = (d, jo')" by fastforce
    then have jo': "jo' = None" using txn None by (cases jo') (auto simp: claim_txn_def Let_def)
    show ?thesis
      using c txn None db' ok claim_None [OF c [unfolded jo']] jo' by (auto simp: claim_txn_def)
  next
    case (Some job')
    note l = claim_txn_life [OF ok txn [unfolded Some]]
    have q: "quiet db1 db'" using db' Some by simp
    show ?thesis
      using l q Some db' implements_quiet [OF _ q] quiet_struct [OF q] quiet_jobs [OF q]
        record_worker_ok by simp
  qed
qed

lemma heartbeat_life:
  assumes ok: "struct_ok db" and op: "heartbeat s db i w now = Inr (db', b)"
  shows "struct_ok db' \<and> db_ok db' \<and> (if b then implements db db' i (Beat w now) else db' = db)"
proof -
  from op obtain db1 where txn: "heartbeat_txn s db i w now = Inr (db1, b)"
    and db': "db' = (if b then record_worker db1 w WorkerStatus_BUSY (Some i) now else db1)"
    by (auto simp: heartbeat_def split: if_splits)
  show ?thesis
  proof (cases b)
    case False
    then show ?thesis using txn db' ok by (auto simp: heartbeat_txn_def split: option.splits if_splits)
  next
    case True
    from txn True obtain job where job: "get_job db i = Some job" and own: "j_worker_id job = Some w"
        and st: "j_status job \<in> {JobStatus_LEASED, JobStatus_RUNNING}" and fin: "db_ok db1"
        and db1: "db1 = save_job db (job\<lparr>j_heartbeat_at := Some now,
            j_lease_expires_at := Some (lease_end s now), j_updated_at := now\<rparr>)"
      by (auto simp: heartbeat_txn_def split: option.splits if_splits)
    have "session db i db (job\<lparr>j_heartbeat_at := Some now,
            j_lease_expires_at := Some (lease_end s now), j_updated_at := now\<rparr>) []"
      using session_start [OF ok job] by (rule session_edit) simp_all
    note s = session_save [OF this, folded db1]
    have "life (control job) (Beat w now) []
        ((control job)\<lparr>c_heartbeat := Some now, c_lease := Some (lease_end s now)\<rparr>)"
      using own st life.beat [of "control job"] by simp
    then have l: "implements db db1 i (Beat w now)" "struct_ok db1"
      using session_end [OF s(1) job s(2)] by simp_all
    have q: "quiet db1 db'" using db' True by simp
    show ?thesis
      using l fin True db' implements_quiet [OF l(1) q] quiet_struct [OF q] record_worker_ok by simp
  qed
qed

section \<open>Outcomes\<close>

lemma succeed_life:
  assumes ok: "struct_ok db" and wf: "\<And>j. get_job db i = Some j \<Longrightarrow> control_wf (control j)"
    and op: "succeed db i w result now = Inr (db', u)"
  shows "implements db db' i (Settled w) \<and> struct_ok db' \<and> db_ok db'"
proof -
  from op obtain job where job: "get_job db i = Some job" and own: "j_worker_id job = Some w"
    by (auto simp: succeed_def)
  have live: "j_status job \<notin> set terminal_job_statuses" using owned_open [OF wf [OF job]] own by simp
  have finish_with: "implements db db' i (Settled w) \<and> struct_ok db'"
    if "transition_job job t now = Inr job1" "j_id job2 = j_id job1"
      "j_event_sequence job2 = j_event_sequence job1" "control job2 = control job1"
      "worker_event db job2 et c m now = Inr (db', j', e)"
      "t \<noteq> j_status job \<Longrightarrow> life (control job) (Settled w) [et] (control job1)"
      "t \<noteq> j_status job" "j_idempotency_key job2 = j_idempotency_key job1"
    for t job1 job2 et c m j' e
  proof -
    have "session db i db job2 []"
      using session_transition [OF session_start [OF ok job] that(1)] that(2,3,8) by (rule session_edit)
    note s = session_worker_event [OF this that(5)]
    have "life (control job) (Settled w) ([] @ [et]) (control job1)" using that(6,7) by simp
    then show ?thesis using session_end [OF s(1) job s(2)] s(3) that(4) by simp
  qed
  consider (cancel) "j_status job = JobStatus_CANCEL_REQUESTED"
    | (pause) "j_status job = JobStatus_PAUSE_REQUESTED"
    | (other) "j_status job \<notin> {JobStatus_CANCEL_REQUESTED, JobStatus_PAUSE_REQUESTED}" by auto
  then show ?thesis
  proof cases
    case cancel
    with op job own obtain job1 j' e
      where t: "transition_job job JobStatus_CANCELLED now = Inr job1"
        and ev: "worker_event db job1 JobEventType_JOB_CANCELLED ''job.cancelled''
          ''Job cancelled at a safe boundary'' now = Inr (db', j', e)" and fin: "db_ok db'"
      by (auto simp: succeed_def)
    have "JobStatus_CANCELLED \<noteq> j_status job" using cancel by simp
    note c = transition_control [OF t this]
    have "life (control job) (Settled w) [JobEventType_JOB_CANCELLED] (control job1)"
      using own cancel c by (auto simp: terminal_job_statuses_def intro!: life.stopped)
    then show ?thesis using finish_with [OF t _ _ _ ev] cancel fin by simp
  next
    case pause
    with op job own obtain job1 j' e
      where t: "transition_job job JobStatus_PAUSED now = Inr job1"
        and ev: "worker_event db job1 JobEventType_JOB_PAUSED ''job.paused''
          ''Job paused at a safe boundary'' now = Inr (db', j', e)" and fin: "db_ok db'"
      by (auto simp: succeed_def)
    have "JobStatus_PAUSED \<noteq> j_status job" using pause by simp
    note c = transition_control [OF t this]
    have "life (control job) (Settled w) [JobEventType_JOB_PAUSED] (control job1)"
      using own pause c by (auto simp: open_statuses intro!: life.paused)
    then show ?thesis using finish_with [OF t _ _ _ ev] pause fin by simp
  next
    case other
    with op job own obtain job1 j' e
      where t: "transition_job job JobStatus_SUCCEEDED now = Inr job1"
        and ev: "worker_event db (job1\<lparr>j_result := result, j_progress := 100,
            j_current_step := Some ''completed''\<rparr>) JobEventType_JOB_SUCCEEDED ''job.succeeded''
          ''Job succeeded'' now = Inr (db', j', e)" and fin: "db_ok db'"
      by (auto simp: succeed_def)
    have ne: "JobStatus_SUCCEEDED \<noteq> j_status job" using live by (auto simp: terminal_job_statuses_def)
    note c = transition_control [OF t ne]
    have "j_status job = JobStatus_RUNNING" using c(1) by (cases "j_status job") auto
    then have "life (control job) (Settled w) [JobEventType_JOB_SUCCEEDED] (control job1)"
      using own c by (auto simp: terminal_job_statuses_def intro!: life.succeeded)
    then show ?thesis using finish_with [OF t _ _ _ ev] ne fin by simp
  qed
qed

lemma cancel_running_life:
  assumes ok: "struct_ok db" and op: "cancel_running db i w now = Inr (db', u)"
  shows "implements db db' i (Settled w) \<and> struct_ok db' \<and> db_ok db'"
proof -
  from op obtain job job1 job2 j' e
    where job: "get_job db i = Some job" and own: "j_worker_id job = Some w"
      and t1: "(if j_status job \<noteq> JobStatus_CANCEL_REQUESTED
               then transition_job job JobStatus_CANCEL_REQUESTED now else Inr job) = Inr job1"
      and t2: "transition_job job1 JobStatus_CANCELLED now = Inr job2"
      and ev: "worker_event db job2 JobEventType_JOB_CANCELLED ''job.cancelled''
          ''Job cancelled at a safe boundary'' now = Inr (db', j', e)" and fin: "db_ok db'"
    by (auto simp: cancel_running_def)
  have t1': "transition_job job JobStatus_CANCEL_REQUESTED now = Inr job1"
    using t1 by (auto simp: transition_job_def split: if_splits)
  have allowed: "j_status job = JobStatus_CANCEL_REQUESTED \<or>
      JobStatus_CANCEL_REQUESTED \<in> set (job_allowed (j_status job))"
    using transition_control(1) [OF t1'] by metis
  have st1: "j_status job1 = JobStatus_CANCEL_REQUESTED" using t1' by (rule transition_job_frame)
  have c1: "finish JobStatus_CANCELLED now (control job1) = finish JobStatus_CANCELLED now (control job)"
    using transition_control(2) [OF t1'] t1' by (cases "j_status job = JobStatus_CANCEL_REQUESTED")
      (auto simp: open_statuses finish_def transition_job_def)
  note s = session_worker_event [OF session_transition [OF session_transition
        [OF session_start [OF ok job] t1'] t2] ev]
  have "control job2 = finish JobStatus_CANCELLED now (control job)"
    using transition_control(2) [OF t2] st1 c1 by (simp add: terminal_job_statuses_def)
  moreover have "life (control job) (Settled w) ([] @ [JobEventType_JOB_CANCELLED])
      (finish JobStatus_CANCELLED now (control job))"
    using own allowed by (auto intro: life.stopped)
  ultimately show ?thesis using session_end [OF s(1) job s(2)] s(3) fin by simp
qed

lemma pause_running_life:
  assumes ok: "struct_ok db" and op: "pause_running db i w now = Inr (db', u)"
  shows "implements db db' i (Settled w) \<and> struct_ok db' \<and> db_ok db'"
proof -
  from op obtain job job1 job2 j' e
    where job: "get_job db i = Some job" and own: "j_worker_id job = Some w"
      and t1: "(if j_status job \<noteq> JobStatus_PAUSE_REQUESTED
               then transition_job job JobStatus_PAUSE_REQUESTED now else Inr job) = Inr job1"
      and t2: "transition_job job1 JobStatus_PAUSED now = Inr job2"
      and ev: "worker_event db (job2\<lparr>j_lease_expires_at := None, j_worker_id := None\<rparr>)
          JobEventType_JOB_PAUSED ''job.paused'' ''Job paused at a safe boundary'' now
          = Inr (db', j', e)" and fin: "db_ok db'"
    by (auto simp: pause_running_def)
  have t1': "transition_job job JobStatus_PAUSE_REQUESTED now = Inr job1"
    using t1 by (auto simp: transition_job_def split: if_splits)
  have allowed: "j_status job = JobStatus_PAUSE_REQUESTED \<or>
      JobStatus_PAUSE_REQUESTED \<in> set (job_allowed (j_status job))"
    using transition_control(1) [OF t1'] by metis
  have st1: "j_status job1 = JobStatus_PAUSE_REQUESTED" using t1' by (rule transition_job_frame)
  have c1: "(control job1)\<lparr>c_status := JobStatus_PAUSED\<rparr> = (control job)\<lparr>c_status := JobStatus_PAUSED\<rparr>"
    using transition_control(2) [OF t1'] t1' by (cases "j_status job = JobStatus_PAUSE_REQUESTED")
      (auto simp: open_statuses transition_job_def)
  have "session db i db (job2\<lparr>j_lease_expires_at := None, j_worker_id := None\<rparr>) []"
    using session_transition [OF session_transition [OF session_start [OF ok job] t1'] t2]
    by (rule session_edit) simp_all
  note s = session_worker_event [OF this ev]
  have "control job2 = (control job)\<lparr>c_status := JobStatus_PAUSED\<rparr>"
    using transition_control(2) [OF t2] st1 c1 by (simp add: open_statuses)
  moreover have "life (control job) (Settled w) ([] @ [JobEventType_JOB_PAUSED])
      ((control job)\<lparr>c_status := JobStatus_PAUSED, c_lease := None, c_worker := None\<rparr>)"
    using own allowed by (auto intro: life.yielded)
  ultimately show ?thesis using session_end [OF s(1) job s(2)] s(3) fin by simp
qed

lemma give_up_dead:
  assumes t1: "transition_job job1 JobStatus_FAILED now = Inr job2"
    and t2: "transition_job job2 JobStatus_DEAD_LETTERED now = Inr job3"
    and live: "j_status job1 \<notin> set terminal_job_statuses"
    and over: "j_max_attempts job1 \<le> j_attempt job1"
  shows "give_up (control job1) [JobEventType_JOB_DEAD_LETTERED] (control job3)"
    and "j_id job3 = j_id job1" and "j_event_sequence job3 = j_event_sequence job1"
proof -
  have ne: "JobStatus_FAILED \<noteq> j_status job1" using live by (auto simp: terminal_job_statuses_def)
  have st2: "j_status job2 = JobStatus_FAILED" using t1 by (rule transition_job_frame)
  then have ne2: "JobStatus_DEAD_LETTERED \<noteq> j_status job2" by simp
  have "control job3 = finish JobStatus_DEAD_LETTERED now (control job1)"
    using transition_control(2) [OF t1 ne] transition_control(2) [OF t2 ne2]
    by (simp add: terminal_job_statuses_def finish_def)
  then show "give_up (control job1) [JobEventType_JOB_DEAD_LETTERED] (control job3)"
    using over transition_control(1) [OF t1 ne] by (simp add: give_up.dead)
qed (simp_all add: transition_job_frame [OF t1] transition_job_frame [OF t2])

lemma give_up_again:
  assumes t: "transition_job job1 JobStatus_RETRY_SCHEDULED now = Inr job2"
    and left: "j_attempt job1 < j_max_attempts job1"
  shows "give_up (control job1) [JobEventType_RETRY_SCHEDULED] (control (release_for_retry job2 now))"
proof (cases "j_status job1 = JobStatus_RETRY_SCHEDULED")
  case True
  then have "job2 = job1" using t by (simp add: transition_job_def)
  moreover have "control (release_for_retry job1 now) = release (control job1)"
    using True by (simp add: release_for_retry_def release_def control_def)
  ultimately show ?thesis using True left give_up.again [of "control job1"] by simp
next
  case False
  then have ne: "JobStatus_RETRY_SCHEDULED \<noteq> j_status job1" by simp
  have "control (release_for_retry job2 now) = release (control job1)"
    using transition_control(2) [OF t ne] by (simp add: release_for_retry_def release_def open_statuses)
  then show ?thesis
    using transition_control(1) [OF t ne] left give_up.again [of "control job1"] by simp
qed

text \<open>The shared tail of \<open>_retry_or_dead_letter\<close> and of one recovery.\<close>

lemma give_up_session:
  assumes s: "session db i db1 job1 []" and job: "get_job db i = Some job"
    and same: "control job1 = control job" and live: "j_status job \<notin> set terminal_job_statuses"
    and tail: "(if j_attempt job1 \<ge> j_max_attempts job1 then
        and_then (transition_job job1 JobStatus_FAILED now) (\<lambda>job2.
        and_then (transition_job job2 JobStatus_DEAD_LETTERED now) (\<lambda>job3.
        and_then (worker_event db1 job3 JobEventType_JOB_DEAD_LETTERED c1 m1 now) (\<lambda>(db4, _, _).
        Inr db4)))
      else
        and_then (transition_job job1 JobStatus_RETRY_SCHEDULED now) (\<lambda>job2.
        let job3 = release_for_retry job2 now in
        and_then (worker_event (fst (retry_outbox db1 job3 now)) job3 JobEventType_RETRY_SCHEDULED c2 m2 now) (\<lambda>(db4, _, _).
        Inr db4))) = Inr db'"
  shows "\<exists>ts j'. give_up (control job) ts (control j') \<and> session db i db' j' ts \<and>
    get_job db' i = Some j'"
proof (cases "j_attempt job1 \<ge> j_max_attempts job1")
  case True
  with tail obtain job2 job3 j' e
    where t: "transition_job job1 JobStatus_FAILED now = Inr job2"
        "transition_job job2 JobStatus_DEAD_LETTERED now = Inr job3"
      and ev: "worker_event db1 job3 JobEventType_JOB_DEAD_LETTERED c1 m1 now = Inr (db', j', e)"
    by auto
  have "j_status job1 \<notin> set terminal_job_statuses" using live control_status(1) [OF same] by simp
  note g = give_up_dead [OF t this True]
  note s' = session_worker_event [OF session_transition [OF session_transition [OF s t(1)] t(2)] ev]
  show ?thesis using g(1) s' same by auto
next
  case False
  with tail obtain job2 j' e
    where t: "transition_job job1 JobStatus_RETRY_SCHEDULED now = Inr job2"
      and ev: "worker_event (fst (retry_outbox db1 (release_for_retry job2 now) now))
          (release_for_retry job2 now) JobEventType_RETRY_SCHEDULED c2 m2 now = Inr (db', j', e)"
    by (auto simp: Let_def)
  have "session db i db1 (release_for_retry job2 now) []"
    using session_transition [OF s t] by (rule session_edit) (simp_all add: release_for_retry_def)
  note s' = session_worker_event [OF session_quiet [OF this quiet_retry_outbox] ev]
  show ?thesis using give_up_again [OF t] False s' same by auto
qed

lemma retry_or_dead_letter_life:
  assumes ok: "struct_ok db" and wf: "\<And>j. get_job db i = Some j \<Longrightarrow> control_wf (control j)"
    and op: "retry_or_dead_letter db i w err rendered now = Inr (db', u)"
  shows "implements db db' i (Settled w) \<and> struct_ok db' \<and> db_ok db'"
proof -
  obtain code message where se: "safe_error err rendered = (code, message)" by fastforce
  from op se obtain job where job: "get_job db i = Some job" and own: "j_worker_id job = Some w"
    by (auto simp: retry_or_dead_letter_def)
  let ?j = "job\<lparr>j_error_code := Some code, j_error_message := Some message\<rparr>"
  have live: "j_status job \<notin> set terminal_job_statuses" using owned_open [OF wf [OF job]] own by simp
  have s: "session db i db ?j []" using session_start [OF ok job] by (rule session_edit) simp_all
  have tail: "(if j_attempt ?j \<ge> j_max_attempts ?j then
        and_then (transition_job ?j JobStatus_FAILED now) (\<lambda>job2.
        and_then (transition_job job2 JobStatus_DEAD_LETTERED now) (\<lambda>job3.
        and_then (worker_event db job3 JobEventType_JOB_DEAD_LETTERED ''job.dead_lettered''
                    ''Job exhausted infrastructure retries'' now) (\<lambda>(db4, _, _). Inr db4)))
      else
        and_then (transition_job ?j JobStatus_RETRY_SCHEDULED now) (\<lambda>job2.
        let job3 = release_for_retry job2 now in
        and_then (worker_event (fst (retry_outbox db job3 now)) job3 JobEventType_RETRY_SCHEDULED ''job.retry_scheduled''
                    ''Infrastructure retry scheduled'' now) (\<lambda>(db4, _, _). Inr db4))) = Inr db'"
    and fin: "db_ok db'"
    using op se job own
    by (auto simp: retry_or_dead_letter_def Let_def split: if_splits)
  from give_up_session [OF s job _ live tail] obtain ts j'
    where g: "give_up (control job) ts (control j')" "session db i db' j' ts" "get_job db' i = Some j'"
    by auto
  have "life (control job) (Settled w) ts (control j')" using g(1) own by (auto intro: life.gave_up)
  then show ?thesis using session_done [OF g(2) job g(3)] fin by simp
qed

lemma fail_job_life:
  assumes ok: "struct_ok db" and wf: "\<And>j. get_job db i = Some j \<Longrightarrow> control_wf (control j)"
    and op: "fail_job db i w err rendered now = Inr (db', u)"
  shows "implements db db' i (Settled w) \<and> struct_ok db' \<and> db_ok db'"
proof -
  obtain code message where se: "safe_error err rendered = (code, message)" by fastforce
  from op se obtain job job1 j' e
    where job: "get_job db i = Some job" and own: "j_worker_id job = Some w"
      and t: "transition_job job JobStatus_FAILED now = Inr job1"
      and ev: "worker_event db (job1\<lparr>j_error_code := Some code, j_error_message := Some message\<rparr>)
          JobEventType_JOB_FAILED ''job.failed'' ''Job failed without automatic retry'' now
          = Inr (db', j', e)" and fin: "db_ok db'"
    by (auto simp: fail_job_def)
  have ne: "JobStatus_FAILED \<noteq> j_status job"
    using owned_open [OF wf [OF job]] own by (auto simp: terminal_job_statuses_def)
  note c = transition_control [OF t ne]
  have "session db i db (job1\<lparr>j_error_code := Some code, j_error_message := Some message\<rparr>) []"
    using session_transition [OF session_start [OF ok job] t] by (rule session_edit) simp_all
  note s = session_worker_event [OF this ev]
  have "life (control job) (Settled w) ([] @ [JobEventType_JOB_FAILED])
      (finish JobStatus_FAILED now (control job))"
    using own c(1) by (auto intro: life.failed)
  then show ?thesis
    using session_end [OF s(1) job s(2)] s(3) c(2) fin by (simp add: terminal_job_statuses_def)
qed

section \<open>Recovery of expired leases\<close>

lemma recover_one_life:
  assumes ok: "struct_ok db" and job: "get_job db i = Some job"
    and st: "j_status job \<in> {JobStatus_LEASED, JobStatus_RUNNING}"
    and lease: "j_lease_expires_at job = Some t" "t \<le> now"
    and op: "recover_one now db job = Inr db'"
  shows "implements db db' i (Expired now) \<and> struct_ok db'"
proof -
  from op obtain db1 where w: "pause_workflow_of db job now = Inr db1"
    and tail: "(if j_attempt job \<ge> j_max_attempts job then
        and_then (transition_job job JobStatus_FAILED now) (\<lambda>job2.
        and_then (transition_job job2 JobStatus_DEAD_LETTERED now) (\<lambda>job3.
        and_then (worker_event db1 job3 JobEventType_JOB_DEAD_LETTERED ''job.lease_exhausted''
                    ''Expired lease exhausted attempts'' now) (\<lambda>(db4, _, _). Inr db4)))
      else
        and_then (transition_job job JobStatus_RETRY_SCHEDULED now) (\<lambda>job2.
        let job3 = release_for_retry job2 now in
        and_then (worker_event (fst (retry_outbox db1 job3 now)) job3 JobEventType_RETRY_SCHEDULED ''job.lease_recovered''
                    ''Expired worker lease scheduled for recovery'' now) (\<lambda>(db4, _, _). Inr db4)))
      = Inr db'"
    by (auto simp: recover_one_def)
  have live: "j_status job \<notin> set terminal_job_statuses" using st by (auto simp: open_statuses)
  have s: "session db i db1 job []"
    using session_quiet [OF session_start [OF ok job] quiet_pause_workflow [OF w]] .
  from give_up_session [OF s job refl live tail] obtain ts j'
    where g: "give_up (control job) ts (control j')" "session db i db' j' ts" "get_job db' i = Some j'"
    by auto
  have "life (control job) (Expired now) ts (control j')"
    using g(1) st lease by (auto intro: life.expired)
  then show ?thesis using session_done [OF g(2) job g(3)] by simp
qed

end
