(* ===== verification/Dispatcher_System.thy ===== *)
theory Dispatcher_System
  imports Worker_System
begin

text \<open>
  The refinement of the dispatcher's transactions (\<open>jobs/dispatcher.py\<close>) and of the two recovery
  loops. A loop is a chain of actions, one per job it recovers: \<open>chain db acts db'\<close>.
\<close>

section \<open>Chains of actions\<close>

inductive chain :: "db \<Rightarrow> (int \<times> job_action) list \<Rightarrow> db \<Rightarrow> bool" where
  chain_quiet: "quiet db db' \<Longrightarrow> chain db [] db'"
| chain_step: "implements db db1 i a \<Longrightarrow> chain db1 acts db' \<Longrightarrow> chain db ((i, a) # acts) db'"

lemma chain_refl: "chain db [] db"
  by (rule chain_quiet) simp

lemma chain_one: "implements db db' i a \<Longrightarrow> chain db [(i, a)] db'"
  by (rule chain_step) (auto intro: chain_refl)

lemma chain_after_quiet:
  assumes "chain db1 acts db'" and q: "quiet db db1"
  shows "chain db acts db'"
  using assms(1)
proof (cases rule: chain.cases)
  case chain_quiet
  then show ?thesis using q by (auto intro: chain.chain_quiet quiet_trans)
next
  case (chain_step db2 i a acts')
  have "implements db db2 i a"
    using chain_step(2) quiet_jobs [OF q] quiet_events [OF q]
    by (simp add: implements_def others_unchanged_def event_types_of_def)
  with chain_step show ?thesis by (auto intro: chain.chain_step)
qed

lemma chain_append: "chain db acts db1 \<Longrightarrow> chain db1 acts' db' \<Longrightarrow> chain db (acts @ acts') db'"
  by (induction rule: chain.induct) (auto intro: chain_step chain_after_quiet)

section \<open>Publishing\<close>

lemma quiet_save_outboxes: "quiet db (foldl save_outbox db rows)"
proof (induction rows arbitrary: db)
  case (Cons r rows)
  show ?case unfolding foldl.simps by (rule quiet_trans [OF quiet_updates(1) Cons.IH])
qed simp

lemma claim_outbox_life:
  "claim_outbox s d db now = Inr (db', ids) \<Longrightarrow> quiet db db' \<and> db_ok db'"
  by (auto simp: claim_outbox_def claim_batch_def Let_def quiet_save_outboxes)

lemma record_published_life:
  assumes ok: "struct_ok db" and op: "record_published db row_id now = Inr (db', u)"
  shows "struct_ok db' \<and> db_ok db' \<and> (quiet db db' \<or> (\<exists>i. implements db db' i Published))"
proof (cases "get_outbox db row_id")
  case None
  then show ?thesis using op ok by (simp add: record_published_def)
next
  case row: (Some row)
  let ?db1 = "save_outbox db (row\<lparr>o_status := OutboxStatus_PUBLISHED, o_published_at := Some now,
      o_last_error := None\<rparr>)"
  have q: "quiet db ?db1" by simp
  show ?thesis
  proof (cases "db' = ?db1 \<or> db' = db")
    case True
    then show ?thesis using op ok row
      by (auto simp: record_published_def Let_def split: if_splits option.splits)
  next
    case False
    with op row obtain job j' e where job: "get_job db (o_aggregate_id row) = Some job"
        and st: "j_status job \<in> {JobStatus_OUTBOX_PENDING, JobStatus_RETRY_SCHEDULED}"
        and ev: "dispatcher_event ?db1 (job\<lparr>j_status := JobStatus_QUEUED, j_queued_at := Some now,
            j_updated_at := now\<rparr>) JobEventType_JOB_QUEUED ''job.queued'' ''Job queued'' now
          = Inr (db', j', e)" and fin: "db_ok db'"
      by (auto simp: record_published_def Let_def split: if_splits option.splits)
    have "session db (o_aggregate_id row) ?db1 (job\<lparr>j_status := JobStatus_QUEUED,
        j_queued_at := Some now, j_updated_at := now\<rparr>) []"
      using session_quiet [OF session_start [OF ok job] q] by (rule session_edit) simp_all
    note s = session_dispatcher_event [OF this ev]
    have "life (control job) Published ([] @ [JobEventType_JOB_QUEUED])
        ((control job)\<lparr>c_status := JobStatus_QUEUED\<rparr>)"
      using st by (auto intro: life.published)
    from session_end [OF s(1) job s(2) this] s(3) fin show ?thesis by auto
  qed
qed

lemma record_failure_life:
  assumes ok: "struct_ok db" and op: "record_failure s db row_id err rendered now = Inr (db', u)"
  shows "struct_ok db' \<and> db_ok db' \<and> (quiet db db' \<or> (\<exists>i. implements db db' i Publish_Failed))"
proof (cases "get_outbox db row_id")
  case None
  then show ?thesis using op ok by (simp add: record_failure_def split: prod.splits)
next
  case row: (Some row)
  obtain code message where se: "safe_error err rendered = (code, message)" by fastforce
  let ?row1 = "row\<lparr>o_last_error := Some (bounded 1000 (code @ '': '' @ message)),
      o_claimed_at := None, o_claimed_by := None\<rparr>"
  let ?db1 = "save_outbox db (?row1\<lparr>o_status := OutboxStatus_FAILED\<rparr>)"
  have q: "quiet db ?db1" by simp
  show ?thesis
  proof (cases "quiet db db' \<and> struct_ok db' \<and> db_ok db'")
    case True
    then show ?thesis by simp
  next
    case False
    then have no_ret: "db' \<noteq> ?db1 \<or> \<not> db_ok db'" using ok q quiet_struct by metis
    from op row se no_ret False ok obtain job job1 job2 j' e
      where job: "get_job db (o_aggregate_id row) = Some job"
        and st: "j_status job \<in> {JobStatus_OUTBOX_PENDING, JobStatus_RETRY_SCHEDULED}"
        and t1: "(if j_status job = JobStatus_OUTBOX_PENDING
                  then transition_job job JobStatus_FAILED now else Inr job) = Inr job1"
        and t2: "transition_job job1 JobStatus_DEAD_LETTERED now = Inr job2"
        and ev: "dispatcher_event ?db1
            (job2\<lparr>j_error_code := Some ''outbox_publish_failed'',
                  j_error_message := Some ''Job could not be published to the queue''\<rparr>)
            JobEventType_JOB_DEAD_LETTERED ''job.outbox_dead_lettered''
            ''Queue publishing exhausted attempts'' now = Inr (db', j', e)"
        and fin: "db_ok db'"
      by (auto simp: record_failure_def Let_def split: if_splits option.splits)
    have s1: "session db (o_aggregate_id row) ?db1 job1 [] \<and> j_status job1 \<noteq> JobStatus_DEAD_LETTERED \<and>
        finish JobStatus_DEAD_LETTERED now (control job1) = finish JobStatus_DEAD_LETTERED now (control job)"
    proof (cases "j_status job = JobStatus_OUTBOX_PENDING")
      case True
      then have t: "transition_job job JobStatus_FAILED now = Inr job1" using t1 by simp
      show ?thesis
        using session_transition [OF session_quiet [OF session_start [OF ok job] q] t]
          transition_control(2) [OF t] True transition_job_frame(21) [OF t]
        by (simp add: terminal_job_statuses_def finish_def)
    next
      case False
      then show ?thesis using t1 st session_quiet [OF session_start [OF ok job] q] by auto
    qed
    then have ne: "JobStatus_DEAD_LETTERED \<noteq> j_status job1" by auto
    note c2 = transition_control(2) [OF t2 ne]
    have "session db (o_aggregate_id row) ?db1
        (job2\<lparr>j_error_code := Some ''outbox_publish_failed'',
              j_error_message := Some ''Job could not be published to the queue''\<rparr>) []"
      using session_transition [OF conjunct1 [OF s1] t2] by (rule session_edit) simp_all
    note s = session_dispatcher_event [OF this ev]
    have "life (control job) Publish_Failed ([] @ [JobEventType_JOB_DEAD_LETTERED])
        (finish JobStatus_DEAD_LETTERED now (control job))"
      using st by (auto intro: life.undeliverable)
    from session_end [OF s(1) job s(2) this] s(3) c2 s1 fin show ?thesis
      by (auto simp: terminal_job_statuses_def)
  qed
qed

section \<open>Recovery loops\<close>

lemma recover_stranded_one_life:
  assumes ok: "struct_ok db" and job: "get_job db i = Some job" and st: "j_status job = JobStatus_QUEUED"
    and op: "recover_stranded_one now (db, n) job = Inr (db', n')"
  shows "struct_ok db' \<and> (quiet db db' \<or> implements db db' i Requeued)"
proof (cases "db' = db")
  case True
  then show ?thesis using ok by simp
next
  case False
  with op obtain row job1 j' e
    where t: "transition_job job JobStatus_RETRY_SCHEDULED now = Inr job1"
      and ev: "dispatcher_event (save_outbox db
          (row\<lparr>o_status := OutboxStatus_PENDING, o_available_at := now,
               o_claimed_at := None, o_claimed_by := None, o_published_at := None\<rparr>))
          (job1\<lparr>j_available_at := now\<rparr>) JobEventType_RETRY_SCHEDULED
          ''job.redis_recovery_scheduled'' ''Queue delivery recovery scheduled'' now
        = Inr (db', j', e)"
    by (auto simp: recover_stranded_one_def Let_def split: option.splits if_splits)
  have ne: "JobStatus_RETRY_SCHEDULED \<noteq> j_status job" using st by simp
  note c = transition_control(2) [OF t ne]
  let ?db1 = "save_outbox db
          (row\<lparr>o_status := OutboxStatus_PENDING, o_available_at := now,
               o_claimed_at := None, o_claimed_by := None, o_published_at := None\<rparr>)"
  have q: "quiet db ?db1" by simp
  have "session db i ?db1 (job1\<lparr>j_available_at := now\<rparr>) []"
    using session_transition [OF session_quiet [OF session_start [OF ok job] q] t]
    by (rule session_edit) simp_all
  note s = session_dispatcher_event [OF this ev]
  have "life (control job) Requeued ([] @ [JobEventType_RETRY_SCHEDULED])
      ((control job)\<lparr>c_status := JobStatus_RETRY_SCHEDULED\<rparr>)"
    using st by (auto intro: life.requeued)
  from session_end [OF s(1) job s(2) this] s(3) c show ?thesis by (simp add: open_statuses)
qed

text \<open>A recovery loop over rows with distinct keys that are still as they were selected.\<close>

lemma others_unchanged_quiet: "quiet db db' \<Longrightarrow> others_unchanged db db' i"
  by (simp add: others_unchanged_def quiet_jobs quiet_events)

lemma still_selected:
  assumes "others_unchanged db db1 (j_id j)" and "distinct (map j_id (j # js))"
    and "\<forall>x \<in> set (j # js). get_job db (j_id x) = Some x \<and> P x"
  shows "\<forall>x \<in> set js. get_job db1 (j_id x) = Some x \<and> P x"
  using assms by (auto simp: others_unchanged_def image_iff)

lemma recover_expired_fold:
  assumes "struct_ok db" and "distinct (map j_id js)"
    and "\<forall>j \<in> set js. get_job db (j_id j) = Some j \<and>
      (j_status j \<in> {JobStatus_LEASED, JobStatus_RUNNING} \<and>
       (\<exists>t. j_lease_expires_at j = Some t \<and> t \<le> now))"
    and "fold_result (recover_one now) db js = Inr db'"
  shows "struct_ok db' \<and> chain db (map (\<lambda>j. (j_id j, Expired now)) js) db'"
  using assms
proof (induction js arbitrary: db)
  case Nil
  then show ?case by (simp add: chain_refl)
next
  case (Cons j js)
  from Cons.prems(4) obtain db1 where one: "recover_one now db j = Inr db1"
    and rest: "fold_result (recover_one now) db1 js = Inr db'" by auto
  from Cons.prems(3) obtain t where j: "get_job db (j_id j) = Some j"
    "j_status j \<in> {JobStatus_LEASED, JobStatus_RUNNING}" "j_lease_expires_at j = Some t" "t \<le> now"
    by auto
  note l = recover_one_life [OF Cons.prems(1) j one]
  then have "others_unchanged db db1 (j_id j)" by (simp add: implements_def)
  note still = still_selected [OF this Cons.prems(2,3)]
  have "struct_ok db' \<and> chain db1 (map (\<lambda>j. (j_id j, Expired now)) js) db'"
    using Cons.IH [OF _ _ still rest] l Cons.prems(2) by simp
  then show ?case using l by (auto intro: chain_step)
qed

lemma recover_stranded_fold:
  assumes "struct_ok db" and "distinct (map j_id js)"
    and "\<forall>j \<in> set js. get_job db (j_id j) = Some j \<and> j_status j = JobStatus_QUEUED"
    and "fold_result (recover_stranded_one now) (db, n) js = Inr (db', n')"
  shows "struct_ok db' \<and> (\<exists>acts. chain db acts db' \<and> set acts \<subseteq> {(i, a). a = Requeued})"
  using assms
proof (induction js arbitrary: db n)
  case Nil
  then show ?case by (auto intro: chain_refl)
next
  case (Cons j js)
  from Cons.prems(4) obtain db1 n1 where one: "recover_stranded_one now (db, n) j = Inr (db1, n1)"
    and rest: "fold_result (recover_stranded_one now) (db1, n1) js = Inr (db', n')" by auto
  have j: "get_job db (j_id j) = Some j" "j_status j = JobStatus_QUEUED" using Cons.prems(3) by auto
  note l = recover_stranded_one_life [OF Cons.prems(1) j one]
  then have "others_unchanged db db1 (j_id j)"
    using others_unchanged_quiet by (auto simp: implements_def)
  note still = still_selected [OF this Cons.prems(2,3)]
  obtain acts where tail: "struct_ok db'" "chain db1 acts db'" "set acts \<subseteq> {(i, a). a = Requeued}"
    using Cons.IH [OF _ _ still rest] l Cons.prems(2) by auto
  from l show ?case
  proof (elim conjE disjE)
    assume "quiet db db1"
    then show ?thesis using tail chain_after_quiet by blast
  next
    assume "implements db db1 (j_id j) Requeued"
    from chain_step [OF this tail(2)] tail show ?thesis by fastforce
  qed
qed

lemma selected_rows:
  assumes "keys_ok db" and "set js \<subseteq> set (job_rows db)" and "distinct js"
  shows "distinct (map j_id js)" "\<forall>j \<in> set js. get_job db (j_id j) = Some j"
proof -
  have "inj_on j_id (set (job_rows db))"
    using assms(1) by (auto simp: keys_ok_def table_ok_def distinct_map)
  then show "distinct (map j_id js)"
    using assms(2,3) by (auto simp: distinct_map intro: inj_on_subset)
  show "\<forall>j \<in> set js. get_job db (j_id j) = Some j"
    using assms(1,2) job_row_get by blast
qed

lemma job_rows_distinct: "keys_ok db \<Longrightarrow> distinct (job_rows db)"
  by (simp add: keys_ok_def table_ok_def distinct_map)

lemma recover_expired_life:
  assumes ok: "struct_ok db" and op: "recover_expired db now = Inr (db', n)"
  shows "struct_ok db' \<and> db_ok db' \<and>
    chain db (map (\<lambda>j. (j_id j, Expired now)) (expired_leases db now 100)) db'"
proof -
  let ?js = "expired_leases db now 100"
  have sub: "set ?js \<subseteq> set (job_rows db)" and d: "distinct ?js"
    and sel: "\<forall>j \<in> set ?js. j_status j \<in> {JobStatus_LEASED, JobStatus_RUNNING} \<and>
       (\<exists>t. j_lease_expires_at j = Some t \<and> t \<le> now)"
    using job_rows_distinct [of db] ok
    by (auto simp: expired_leases_def lease_of_def dest!: in_set_takeD split: option.splits)
  note rows = selected_rows [OF struct_ok_keys [OF ok] sub d]
  from op have f: "fold_result (recover_one now) db ?js = Inr db'" and fin: "db_ok db'"
    by (auto simp: recover_expired_def Let_def)
  show ?thesis using recover_expired_fold [OF ok rows(1) _ f] rows(2) sel fin by blast
qed

lemma recover_stranded_life:
  assumes ok: "struct_ok db" and op: "recover_stranded s db now = Inr (db', n)"
  shows "struct_ok db' \<and> db_ok db' \<and>
    (\<exists>acts. chain db acts db' \<and> set acts \<subseteq> {(i, a). a = Requeued})"
proof -
  let ?js = "stale_queued db (stale_claim_cutoff now (s_job_lease_seconds s)) (nat (s_outbox_batch_size s))"
  have sub: "set ?js \<subseteq> set (job_rows db)" and d: "distinct ?js"
    and sel: "\<forall>j \<in> set ?js. j_status j = JobStatus_QUEUED"
    using job_rows_distinct [of db] ok
    by (auto simp: stale_queued_def dest!: in_set_takeD)
  note rows = selected_rows [OF struct_ok_keys [OF ok] sub d]
  from op have f: "fold_result (recover_stranded_one now) (db, 0) ?js = Inr (db', n)" and fin: "db_ok db'"
    by (auto simp: recover_stranded_def Let_def)
  show ?thesis using recover_stranded_fold [OF ok rows(1) _ f] rows(2) sel fin by blast
qed

end
