(* ===== verification/Effects.thy ===== *)
theory Effects
  imports Prelude
begin

text \<open>
  Operations that commit several transactions: what they have committed stays when a later step raises,
  so they return the state together with a result. \<open>ran\<close> is one transaction, \<open>and_run\<close> the sequence.
\<close>

definition ran :: "'s \<Rightarrow> ('s \<times> 'a) result \<Rightarrow> 's \<times> 'a result" where
  "ran s r = (case r of Inl e \<Rightarrow> (s, Inl e) | Inr (s', a) \<Rightarrow> (s', Inr a))"

definition and_run :: "'s \<times> 'a result \<Rightarrow> ('s \<Rightarrow> 'a \<Rightarrow> 's \<times> 'b result) \<Rightarrow> 's \<times> 'b result" where
  "and_run x f = (case x of (s, Inl e) \<Rightarrow> (s, Inl e) | (s, Inr a) \<Rightarrow> f s a)"

lemma ran_simps [simp]: "ran s (Inl e) = (s, Inl e)" "ran s (Inr (s', a)) = (s', Inr a)"
  by (simp_all add: ran_def)

lemma and_run_simps [simp]: "and_run (s, Inl e) f = (s, Inl e)" "and_run (s, Inr a) f = f s a"
  by (simp_all add: and_run_def)

lemma ran_Inl: "ran s r = (s', Inl e) \<Longrightarrow> r = Inl e \<and> s' = s"
  by (auto simp: ran_def split: sum.splits)

lemma ran_Inr: "ran s r = (s', Inr a) \<Longrightarrow> r = Inr (s', a)"
  by (auto simp: ran_def split: sum.splits)

lemma and_run_InrE:
  assumes "and_run x f = (s', Inr b)"
  obtains s1 a where "x = (s1, Inr a)" "f s1 a = (s', Inr b)"
  using assms by (auto simp: and_run_def split: prod.splits sum.splits)

end
