(* ===== verification/Book_Runs.thy ===== *)
theory Book_Runs
  imports Job_Service Effects
begin

text \<open>
  \<open>BookRunService\<close> (\<open>src/src/storyforge/services/book_runs.py\<close>) and the run queries of
  \<open>repositories/books.py\<close>: the admission of a full-book run with its top-level job, first event and
  outbox message in one transaction, and its controls. Several controls run more than one
  transaction (their own and those of \<open>JobService\<close>): such an operation maps the database to the
  database it leaves, with the value or the exception, since what was committed before an
  exception stays committed.
\<close>

section \<open>Repository\<close>

definition get_book_run :: "db \<Rightarrow> int \<Rightarrow> book_run option" where
  "get_book_run db i = repo_get br_id (db_book_runs db) i"

definition save_book_run :: "db \<Rightarrow> book_run \<Rightarrow> db" where
  "save_book_run db r = db\<lparr>db_book_runs := repo_save br_id (db_book_runs db) r\<rparr>"

definition add_book_run :: "db \<Rightarrow> book_run \<Rightarrow> db \<times> book_run" where
  "add_book_run db r =
     (let (t, row) = repo_add (\<lambda>i r. r\<lparr>br_id := i\<rparr>) (db_book_runs db) r in (db\<lparr>db_book_runs := t\<rparr>, row))"

interpretation book_runs: repository br_id "\<lambda>i r. r\<lparr>br_id := i\<rparr>"
  by unfold_locales simp

definition book_run_by_key :: "db \<Rightarrow> string \<Rightarrow> book_run option" where
  "book_run_by_key db key = find (\<lambda>r. br_idempotency_key r = key) (t_rows (db_book_runs db))"

definition active_book_run :: "db \<Rightarrow> int \<Rightarrow> book_run option" where
  "active_book_run db project_id =
     (case sort_key (\<lambda>r. - br_id r)
             (filter (\<lambda>r. br_project_id r = project_id \<and> book_run_active r) (t_rows (db_book_runs db))) of
        [] \<Rightarrow> None | r # _ \<Rightarrow> Some r)"

definition book_runs_page :: "db \<Rightarrow> int \<Rightarrow> int \<Rightarrow> int \<Rightarrow> book_run page_slice result" where
  "book_runs_page db project_id page page_size =
     paginate (sort_key (\<lambda>r. - br_id r)
       (filter (\<lambda>r. br_project_id r = project_id) (t_rows (db_book_runs db)))) page page_size"

definition chapters_of_project :: "db \<Rightarrow> int \<Rightarrow> chapter_row list" where
  "chapters_of_project db project_id =
     sort_key ch_chapter_number (filter (\<lambda>c. ch_project_id c = project_id) (t_rows (db_chapters db)))"

definition chapter_by_number :: "db \<Rightarrow> int \<Rightarrow> int \<Rightarrow> chapter_row option" where
  "chapter_by_number db project_id number =
     find (\<lambda>c. ch_project_id c = project_id \<and> ch_chapter_number c = number) (t_rows (db_chapters db))"

section \<open>Requests and responses\<close>

record book_run_request =
  bq_mode :: book_run_mode
  bq_max_chapter_retries :: "int option"
  bq_max_global_revision_rounds :: "int option"
  bq_model_profile :: "model_profile option"
  bq_privacy_policy :: "privacy_policy option"
  bq_max_estimated_cost :: "rat option"
  bq_max_total_tokens :: "int option"
  bq_max_provider_calls :: "int option"

definition opt_all :: "('v \<Rightarrow> bool) \<Rightarrow> 'v option \<Rightarrow> bool" where
  "opt_all p x = (case x of None \<Rightarrow> True | Some v \<Rightarrow> p v)"

text \<open>The field constraints of \<open>BookRunCreateRequest\<close>, checked when a request is built.\<close>

definition make_book_run_request :: "book_run_request \<Rightarrow> book_run_request result" where
  "make_book_run_request q =
     (if opt_all (\<lambda>v. 0 \<le> v \<and> v \<le> 10) (bq_max_chapter_retries q) \<and>
         opt_all (\<lambda>v. 0 \<le> v \<and> v \<le> 5) (bq_max_global_revision_rounds q) \<and>
         opt_all (\<lambda>v. 0 < v) (bq_max_estimated_cost q) \<and>
         opt_all (\<lambda>v. 0 < v) (bq_max_total_tokens q) \<and> opt_all (\<lambda>v. 0 < v) (bq_max_provider_calls q)
      then Inr q else Inl ValueError)"

record book_resume_request =
  rq_max_estimated_cost :: "rat option"
  rq_max_total_tokens :: "int option"
  rq_max_provider_calls :: "int option"

record book_run_accepted =
  ba_book_run_id :: int
  ba_job_id :: int
  ba_reused :: bool
  ba_status :: book_run_status
  ba_status_url :: string
  ba_events_url :: string

definition accepted :: "book_run \<Rightarrow> bool \<Rightarrow> book_run_accepted result" where
  "accepted run reused =
     (case br_job_id run of
        None \<Rightarrow> Inl InvalidStateError
      | Some job_id \<Rightarrow>
          Inr \<lparr>ba_book_run_id = br_id run, ba_job_id = job_id, ba_reused = reused,
               ba_status = br_status run, ba_status_url = ''/api/v1/book-runs/'' @ int_str (br_id run),
               ba_events_url = ''/api/v1/book-runs/'' @ int_str (br_id run) @ ''/events/stream''\<rparr>)"

text \<open>\<open>_response\<close>: the content-free columns of the run, and what is left of its limits.\<close>

record book_run_response =
  bs_run :: book_run
  bs_remaining_cost :: rat
  bs_remaining_tokens :: int
  bs_remaining_provider_calls :: int

definition book_run_response_of :: "book_run \<Rightarrow> book_run_response" where
  "book_run_response_of run =
     \<lparr>bs_run = run, bs_remaining_cost = max 0 (br_max_estimated_cost run - br_spent_cost run),
      bs_remaining_tokens = max 0 (br_max_total_tokens run - br_used_tokens run),
      bs_remaining_provider_calls = max 0 (br_max_provider_calls run - br_provider_calls run)\<rparr>"

definition book_run_get :: "db \<Rightarrow> int \<Rightarrow> book_run_response result" where
  "book_run_get db run_id =
     and_then (or_raise EntityNotFoundError (get_book_run db run_id)) (\<lambda>run. Inr (book_run_response_of run))"

record book_run_page =
  bp_items :: "book_run_response list"
  bp_page :: int
  bp_page_size :: int
  bp_total_items :: int
  bp_total_pages :: int

definition book_run_list :: "db \<Rightarrow> int \<Rightarrow> int \<Rightarrow> int \<Rightarrow> book_run_page result" where
  "book_run_list db project_id page page_size =
     and_then (or_raise EntityNotFoundError (get_project db project_id)) (\<lambda>_.
     and_then (book_runs_page db project_id page page_size) (\<lambda>slice.
       Inr \<lparr>bp_items = map book_run_response_of (ps_items slice), bp_page = page,
            bp_page_size = page_size, bp_total_items = ps_total_items slice,
            bp_total_pages = (ps_total_items slice + page_size - 1) div page_size\<rparr>))"

section \<open>Admission: create\<close>

definition or_default :: "'v \<Rightarrow> 'v option \<Rightarrow> 'v" where
  "or_default d x = (case x of None \<Rightarrow> d | Some v \<Rightarrow> v)"

definition new_book_run ::
  "settings \<Rightarrow> project \<Rightarrow> chapter_row list \<Rightarrow> book_run_request \<Rightarrow> string \<Rightarrow> string \<Rightarrow> time \<Rightarrow> book_run" where
  "new_book_run s project chapters q key thread_id now =
     \<lparr>br_id = 0, br_project_id = pr_id project, br_status = BookRunStatus_PENDING, br_mode = bq_mode q,
      br_thread_id = thread_id, br_idempotency_key = key,
      br_total_chapters = pr_target_chapters project, br_completed_chapters = 0,
      br_accepted_chapters = 0, br_failed_chapters = 0, br_needs_review_chapters = 0,
      br_current_chapter_number = None,
      br_max_chapter_retries = or_default (s_book_max_chapter_retries s) (bq_max_chapter_retries q),
      br_max_global_revision_rounds =
        or_default (s_book_max_global_revision_rounds s) (bq_max_global_revision_rounds q),
      br_current_global_revision_round = 0,
      br_model_profile = or_default (pr_model_profile project) (bq_model_profile q),
      br_privacy_policy = or_default (pr_privacy_policy project) (bq_privacy_policy q),
      br_budget_id = None, br_job_id = None, br_workflow_run_id = None, br_book_snapshot_id = None,
      br_best_snapshot_id = None, br_current_node = ''pending'', br_node_history = [],
      br_blocking_reasons = [], br_chapter_job_map = [],
      br_chapter_status_map = map (\<lambda>c. (int_str (ch_chapter_number c), ''planned'')) chapters,
      br_impacted_chapters = [], br_periodic_checks = [], br_progress = 0,
      br_max_estimated_cost = or_default (s_book_max_cost s) (bq_max_estimated_cost q),
      br_max_total_tokens = or_default (s_book_max_tokens s) (bq_max_total_tokens q),
      br_max_provider_calls = or_default (s_book_max_provider_calls s) (bq_max_provider_calls q),
      br_spent_cost = 0, br_used_tokens = 0, br_provider_calls = 0, br_started_at = None,
      br_updated_at = now, br_finished_at = None, br_error_code = None, br_error_message = None\<rparr>"

definition new_book_job :: "settings \<Rightarrow> job_definition \<Rightarrow> int \<Rightarrow> int \<Rightarrow> string \<Rightarrow> string \<Rightarrow> time \<Rightarrow> job" where
  "new_book_job s d project_id run_id key uuid now =
     \<lparr>j_id = 0, j_project_id = Some project_id, j_chapter_id = None, j_workflow_run_id = None,
      j_book_run_id = Some run_id, j_parent_job_id = None, j_job_type = JobType_RUN_BOOK,
      j_queue_name = queue_name s (jd_queue_name d), j_status = JobStatus_OUTBOX_PENDING,
      j_priority = 5, j_idempotency_key = key, j_payload = [(''book_run_id'', JInt run_id)],
      j_payload_schema_version = 1, j_result = [], j_result_schema_version = 1, j_progress = 0,
      j_current_step = None, j_attempt = 0, j_max_attempts = min (jd_max_attempts d) (s_job_max_attempts s),
      j_event_sequence = 0, j_available_at = now, j_queued_at = None, j_started_at = None,
      j_heartbeat_at = None, j_lease_expires_at = None, j_finished_at = None,
      j_cancel_requested_at = None, j_cancelled_at = None, j_error_code = None,
      j_error_message = None, j_worker_id = None, j_correlation_id = uuid, j_created_at = now,
      j_updated_at = now\<rparr>"

text \<open>
  The writing transaction. \<open>key\<close> is the digest of the request, \<open>job_key\<close> the digest of
  \<open>book-job:key\<close>; \<open>external\<close> says that the caller gave a key of its own.
\<close>

definition create_run_txn ::
  "settings \<Rightarrow> db \<Rightarrow> int \<Rightarrow> book_run_request \<Rightarrow> bool \<Rightarrow> string \<Rightarrow> string \<Rightarrow> string \<Rightarrow> string \<Rightarrow> time \<Rightarrow>
   (db \<times> book_run_accepted) result" where
  "create_run_txn s db project_id q external key job_key thread_id uuid now =
     and_then (or_raise EntityNotFoundError (get_project db project_id)) (\<lambda>project.
     let chapters = chapters_of_project db project_id in
     and_then (require (int (length chapters) = pr_target_chapters project) InvalidStateError) (\<lambda>_.
     and_then (require (map ch_chapter_number chapters = [1..pr_target_chapters project])
                 InvalidStateError) (\<lambda>_.
     case active_book_run db project_id of
       Some active \<Rightarrow>
         if external then and_then (accepted active True) (commit db) else Inl InvalidStateError
     | None \<Rightarrow>
         let (db1, run) = add_book_run db (new_book_run s project chapters q key thread_id now) in
         and_then (registry_get JobType_RUN_BOOK) (\<lambda>d.
         let (db2, job) = add_job db1 (new_book_job s d project_id (br_id run) job_key uuid now);
             run1 = run\<lparr>br_job_id := Some (j_id job)\<rparr> in
         and_then (add_ordered (save_book_run db2 run1)
                     (event_for job JobEventType_JOB_CREATED ''book_run.created'' ''Book run job created''
                        None None now)) (\<lambda>(db3, _).
         let (db4, _) = add_outbox db3 (enqueue_message job now (outbox_key job ''create'') now) in
         and_then (accepted run1 False) (commit db4))))))"

text \<open>\<open>create\<close>: \<open>seen\<close> is the state of the first lookup, \<open>after\<close> that of the one after a conflict.\<close>

definition create_run_between ::
  "settings \<Rightarrow> (int \<Rightarrow> book_run_request \<Rightarrow> string \<Rightarrow> string) \<Rightarrow> (string \<Rightarrow> string) \<Rightarrow> db \<Rightarrow> db \<Rightarrow> db \<Rightarrow> int \<Rightarrow>
   book_run_request \<Rightarrow> string option \<Rightarrow> string \<Rightarrow> string \<Rightarrow> time \<Rightarrow> (db \<times> book_run_accepted) result" where
  "create_run_between s digest hash seen db after project_id q external_key thread_id uuid now =
     (let external = or_default [] external_key; key = digest project_id q external in
      case book_run_by_key seen key of
        Some existing \<Rightarrow> and_then (accepted existing True) (\<lambda>a. Inr (db, a))
      | None \<Rightarrow>
          (case create_run_txn s db project_id q (external \<noteq> []) key (hash (''book-job:'' @ key))
                  thread_id uuid now of
             Inl IntegrityError \<Rightarrow>
               (case book_run_by_key after key of
                  Some existing \<Rightarrow> and_then (accepted existing True) (\<lambda>a. Inr (db, a))
                | None \<Rightarrow> Inl InvalidStateError)
           | r \<Rightarrow> r))"

definition create_run ::
  "settings \<Rightarrow> (int \<Rightarrow> book_run_request \<Rightarrow> string \<Rightarrow> string) \<Rightarrow> (string \<Rightarrow> string) \<Rightarrow> db \<Rightarrow> int \<Rightarrow>
   book_run_request \<Rightarrow> string option \<Rightarrow> string \<Rightarrow> string \<Rightarrow> time \<Rightarrow> (db \<times> book_run_accepted) result" where
  "create_run s digest hash db = create_run_between s digest hash db db db"

section \<open>Marks\<close>

definition mark_paused :: "db \<Rightarrow> int \<Rightarrow> time \<Rightarrow> (db \<times> unit) result" where
  "mark_paused db run_id now =
     (case get_book_run db run_id of
        None \<Rightarrow> commit db ()
      | Some run \<Rightarrow>
          if br_status run \<in> set terminal_book_run_statuses \<or> br_status run = BookRunStatus_BUDGET_BLOCKED
          then commit db ()
          else and_then (transition_book_run run BookRunStatus_PAUSED now) (\<lambda>run'.
                 commit (save_book_run db run') ()))"

definition mark_cancelled :: "db \<Rightarrow> int \<Rightarrow> time \<Rightarrow> (db \<times> unit) result" where
  "mark_cancelled db run_id now =
     (case get_book_run db run_id of
        None \<Rightarrow> commit db ()
      | Some run \<Rightarrow>
          if br_status run \<in> set terminal_book_run_statuses then commit db ()
          else
            and_then (if br_status run \<noteq> BookRunStatus_CANCEL_REQUESTED
                      then transition_book_run run BookRunStatus_CANCEL_REQUESTED now else Inr run) (\<lambda>run1.
            and_then (transition_book_run run1 BookRunStatus_CANCELLED now) (\<lambda>run2.
            commit (save_book_run db run2) ())))"

text \<open>\<open>rendered\<close> is the redacted text of the error.\<close>

definition mark_failed :: "db \<Rightarrow> int \<Rightarrow> exn \<Rightarrow> string \<Rightarrow> time \<Rightarrow> (db \<times> unit) result" where
  "mark_failed db run_id error rendered now =
     (case get_book_run db run_id of
        None \<Rightarrow> commit db ()
      | Some run \<Rightarrow>
          if br_status run \<in> set terminal_book_run_statuses then commit db ()
          else
            and_then (transition_book_run run BookRunStatus_FAILED now) (\<lambda>run'.
            commit (save_book_run db
              (run'\<lparr>br_current_node := ''fail_book_run'',
                    br_error_code := Some (bounded 100 (exn_name error)),
                    br_error_message := Some (bounded 1000 rendered)\<rparr>)) ()))"

section \<open>Pause, resume, cancel\<close>

definition pausable_run_statuses :: "book_run_status list" where
  "pausable_run_statuses =
     [BookRunStatus_PLANNING_VALIDATION, BookRunStatus_GENERATING, BookRunStatus_GLOBAL_REVIEW,
      BookRunStatus_GLOBAL_REVISION]"

definition pause_run :: "db \<Rightarrow> int \<Rightarrow> time \<Rightarrow> db \<times> book_run_response result" where
  "pause_run db run_id now =
     (case get_book_run db run_id of
        None \<Rightarrow> (db, Inl EntityNotFoundError)
      | Some run \<Rightarrow>
          if br_status run \<notin> set pausable_run_statuses then (db, Inl InvalidStateError)
          else
            (case br_job_id run of
               None \<Rightarrow> (db, Inl InvalidStateError)
             | Some job_id \<Rightarrow>
                 and_run (ran db (request_pause db job_id now)) (\<lambda>db1 job.
                 and_run (if j_status job = JobStatus_PAUSED then ran db1 (mark_paused db1 run_id now)
                          else (db1, Inr ())) (\<lambda>db2 _.
                 (db2, book_run_get db2 run_id)))))"

text \<open>The limits of a resume request: each may only be set to at least what is used.\<close>

definition raise_limits :: "book_resume_request \<Rightarrow> book_run \<Rightarrow> book_run result" where
  "raise_limits q run =
     and_then (case rq_max_estimated_cost q of
                 None \<Rightarrow> Inr run
               | Some v \<Rightarrow> if v < br_spent_cost run then Inl InvalidStateError
                           else Inr (run\<lparr>br_max_estimated_cost := v\<rparr>)) (\<lambda>run1.
     and_then (case rq_max_total_tokens q of
                 None \<Rightarrow> Inr run1
               | Some v \<Rightarrow> if v < br_used_tokens run1 then Inl InvalidStateError
                           else Inr (run1\<lparr>br_max_total_tokens := v\<rparr>)) (\<lambda>run2.
     case rq_max_provider_calls q of
       None \<Rightarrow> Inr run2
     | Some v \<Rightarrow> if v < br_provider_calls run2 then Inl InvalidStateError
                 else Inr (run2\<lparr>br_max_provider_calls := v\<rparr>)))"

definition resume_target :: "book_run \<Rightarrow> book_run_status" where
  "resume_target run =
     (if br_current_node run = ''pending'' then BookRunStatus_PLANNING_VALIDATION
      else if br_completed_chapters run = br_total_chapters run then BookRunStatus_GLOBAL_REVIEW
      else BookRunStatus_GENERATING)"

text \<open>The first transaction; it returns the job to resume.\<close>

definition resume_run_txn ::
  "db \<Rightarrow> int \<Rightarrow> book_resume_request option \<Rightarrow> time \<Rightarrow> (db \<times> int) result" where
  "resume_run_txn db run_id request now =
     and_then (or_raise EntityNotFoundError (get_book_run db run_id)) (\<lambda>run.
     if br_status run \<notin> {BookRunStatus_PAUSED, BookRunStatus_BUDGET_BLOCKED} then Inl InvalidStateError
     else
       (case br_job_id run of
          None \<Rightarrow> Inl InvalidStateError
        | Some job_id \<Rightarrow>
            and_then (case request of None \<Rightarrow> Inr run | Some q \<Rightarrow> raise_limits q run) (\<lambda>run1.
            and_then (transition_book_run run1 (resume_target run1) now) (\<lambda>run2.
            commit (save_book_run db run2) job_id))))"

definition resume_run ::
  "db \<Rightarrow> int \<Rightarrow> book_resume_request option \<Rightarrow> time \<Rightarrow> db \<times> book_run_response result" where
  "resume_run db run_id request now =
     and_run (ran db (resume_run_txn db run_id request now)) (\<lambda>db1 job_id.
     and_run (ran db1 (resume db1 job_id now)) (\<lambda>db2 _.
     (db2, book_run_get db2 run_id)))"

definition cancel_run_txn :: "db \<Rightarrow> int \<Rightarrow> time \<Rightarrow> (db \<times> int option) result" where
  "cancel_run_txn db run_id now =
     and_then (or_raise EntityNotFoundError (get_book_run db run_id)) (\<lambda>run.
     if br_status run \<in> set terminal_book_run_statuses then Inl InvalidStateError
     else
       and_then
         (if br_status run \<in> {BookRunStatus_PAUSED, BookRunStatus_BUDGET_BLOCKED}
          then transition_book_run run BookRunStatus_CANCELLED now
          else if br_status run \<noteq> BookRunStatus_CANCEL_REQUESTED
          then transition_book_run run BookRunStatus_CANCEL_REQUESTED now
          else Inr run) (\<lambda>run'.
       commit (save_book_run db run') (br_job_id run')))"

definition cancel_requested_run :: "db \<Rightarrow> int \<Rightarrow> time \<Rightarrow> (db \<times> unit) result" where
  "cancel_requested_run db run_id now =
     (case get_book_run db run_id of
        None \<Rightarrow> commit db ()
      | Some run \<Rightarrow>
          if br_status run = BookRunStatus_CANCEL_REQUESTED
          then and_then (transition_book_run run BookRunStatus_CANCELLED now) (\<lambda>run'.
                 commit (save_book_run db run') ())
          else commit db ())"

definition cancel_run :: "db \<Rightarrow> int \<Rightarrow> time \<Rightarrow> db \<times> book_run_response result" where
  "cancel_run db run_id now =
     and_run (ran db (cancel_run_txn db run_id now)) (\<lambda>db1 job_id.
     and_run
       (case job_id of
          None \<Rightarrow> (db1, Inr ())
        | Some i \<Rightarrow>
            and_run (ran db1 (request_cancel db1 i now)) (\<lambda>db2 job.
            if j_status job = JobStatus_CANCELLED then ran db2 (cancel_requested_run db2 run_id now)
            else (db2, Inr ()))) (\<lambda>db3 _.
     (db3, book_run_get db3 run_id)))"

end
