(* ===== verification/Book_Scheduler.thy ===== *)
theory Book_Scheduler
  imports Enums "HOL-Library.AList"
begin

text \<open>
  \<open>BookChapterScheduler\<close> (\<open>src/src/storyforge/book/scheduler.py\<close>): the check of a chapter
  dependency plan by Kahn's algorithm, and the decision of the next chapter action. A Python
  dictionary is the association list of its items in insertion order. The specification of a
  plan is that its dependency relation is acyclic; the check is proved to decide exactly that,
  and the decisions are proved safe and never stuck.
\<close>

section \<open>The plan check: validate_plan\<close>

type_synonym dependency_graph = "(int \<times> int list) list"

text \<open>The constructor's check.\<close>

definition make_scheduler :: "int \<Rightarrow> int \<Rightarrow> int result" where
  "make_scheduler concurrency maximum_concurrency =
     (if 1 \<le> concurrency \<and> concurrency \<le> maximum_concurrency then Inr concurrency
      else Inl DomainValidationError)"

definition default_dependencies :: "int list \<Rightarrow> dependency_graph" where
  "default_dependencies ordered = map (\<lambda>c. (c, if c = 1 then [] else [c - 1])) ordered"

definition edges_valid :: "dependency_graph \<Rightarrow> bool" where
  "edges_valid graph \<longleftrightarrow>
     (\<forall>(c, required) \<in> set graph. c \<notin> set required \<and> set required \<subseteq> set (map fst graph))"

definition indegrees :: "int list \<Rightarrow> dependency_graph \<Rightarrow> (int \<times> int) list" where
  "indegrees ordered graph =
     foldl (\<lambda>indegree (c, required). AList.update c (int (length required)) indegree)
       (map (\<lambda>c. (c, 0)) ordered) graph"

definition outgoing_edges :: "int list \<Rightarrow> dependency_graph \<Rightarrow> (int \<times> int list) list" where
  "outgoing_edges ordered graph =
     foldl (\<lambda>outgoing (c, required).
         foldl (\<lambda>out d. AList.map_entry d (\<lambda>children. children @ [c]) out) outgoing required)
       (map (\<lambda>c. (c, [])) ordered) graph"

text \<open>The inner loop over the children of a visited chapter.\<close>

fun release :: "int list \<Rightarrow> (int \<times> int) list \<Rightarrow> int list \<Rightarrow> ((int \<times> int) list \<times> int list) result" where
  "release [] indegree queue = Inr (indegree, queue)"
| "release (child # children) indegree queue =
     (case map_of indegree child of
        None \<Rightarrow> Inl KeyError
      | Some k \<Rightarrow> release children (AList.update child (k - 1) indegree)
          (if k - 1 = 0 then queue @ [child] else queue))"

text \<open>
  A chapter enters the queue when its count drops from one to zero, so the chapters in the
  queue plus those with a positive count decrease with every visit.
\<close>

definition open_count :: "(int \<times> int) list \<Rightarrow> nat" where
  "open_count indegree = length (filter (\<lambda>(_, k). 0 < k) indegree)"

lemma open_count_update:
  "map_of indegree c = Some k \<Longrightarrow>
   open_count (AList.update c (k - 1) indegree) + (if k - 1 = 0 then 1 else 0) = open_count indegree"
  by (induction indegree) (auto simp: open_count_def split: if_splits)

lemma release_measure:
  "release children indegree queue = Inr (indegree', queue') \<Longrightarrow>
   length queue' + open_count indegree' = length queue + open_count indegree"
proof (induction children indegree queue rule: release.induct)
  case (2 child children indegree queue)
  then obtain k where k: "map_of indegree child = Some k"
    by (auto split: option.splits)
  have "length queue' + open_count indegree' =
      length (if k - 1 = 0 then queue @ [child] else queue) + open_count (AList.update child (k - 1) indegree)"
    using 2(1) [OF k] 2(2) k by simp
  then show ?case using open_count_update [OF k] by (auto split: if_splits)
qed simp

text \<open>The outer loop, which counts the visited chapters.\<close>

function kahn :: "(int \<times> int list) list \<Rightarrow> (int \<times> int) list \<Rightarrow> int list \<Rightarrow> int \<Rightarrow> int result" where
  "kahn outgoing indegree [] visited = Inr visited"
| "kahn outgoing indegree (current # queue) visited =
     (case map_of outgoing current of
        None \<Rightarrow> Inl KeyError
      | Some children \<Rightarrow>
          (case release children indegree queue of
             Inl e \<Rightarrow> Inl e
           | Inr (indegree', queue') \<Rightarrow> kahn outgoing indegree' queue' (visited + 1)))"
  by pat_completeness auto
termination
  by (relation "measure (\<lambda>(_, indegree, queue, _). length queue + open_count indegree)")
    (auto dest: release_measure)

definition validate_plan :: "int list \<Rightarrow> dependency_graph option \<Rightarrow> dependency_graph result" where
  "validate_plan chapter_numbers dependencies =
     (let ordered = sort chapter_numbers;
          graph = (case dependencies of
                     None \<Rightarrow> default_dependencies ordered
                   | Some [] \<Rightarrow> default_dependencies ordered
                   | Some g \<Rightarrow> g)
      in if ordered = [] \<or> ordered \<noteq> [1..int (length ordered)] then Inl DomainValidationError
         else if set (map fst graph) \<noteq> set ordered then Inl DomainValidationError
         else if \<not> edges_valid graph then Inl DomainValidationError
         else
           let indegree = indegrees ordered graph;
               queue = map fst (filter (\<lambda>(_, k). k = 0) indegree)
           in and_then (kahn (outgoing_edges ordered graph) indegree queue 0)
                (\<lambda>visited.
                   if visited \<noteq> int (length graph) then Inl DomainValidationError
                   else Inr (map (\<lambda>(c, required). (c, sort required)) (sort_key fst graph))))"

section \<open>The decision: decide\<close>

datatype schedule_action = Schedule | Wait | Retry | Pause | Human_Review | Complete | Cancel

record schedule_decision =
  sd_chapter_number :: "int option"
  sd_action :: schedule_action
  sd_reason :: string
  sd_dependency_status :: "(int \<times> string) list"

text \<open>The model validates \<open>chapter_number\<close> (\<open>ge=1\<close>) when it is built.\<close>

definition make_decision ::
  "int option \<Rightarrow> schedule_action \<Rightarrow> string \<Rightarrow> (int \<times> string) list \<Rightarrow> schedule_decision result" where
  "make_decision chapter_number action reason dependency_status =
     (if (case chapter_number of None \<Rightarrow> True | Some n \<Rightarrow> 1 \<le> n)
      then Inr \<lparr>sd_chapter_number = chapter_number, sd_action = action, sd_reason = reason,
                sd_dependency_status = dependency_status\<rparr>
      else Inl ValueError)"

definition done_statuses :: "string list" where
  "done_statuses = [''accepted'', ''completed'']"

definition active_chapter_statuses :: "string list" where
  "active_chapter_statuses = [''pending'', ''queued'', ''leased'', ''running'', ''retry_scheduled'']"

definition chapter_done :: "(int \<times> string) list \<Rightarrow> int \<Rightarrow> bool" where
  "chapter_done status c \<longleftrightarrow>
     (case map_of status c of None \<Rightarrow> False | Some s \<Rightarrow> s \<in> set done_statuses)"

definition required_of :: "dependency_graph \<Rightarrow> int \<Rightarrow> int list" where
  "required_of graph c = (case map_of graph c of None \<Rightarrow> [] | Some required \<Rightarrow> required)"

definition candidates :: "dependency_graph \<Rightarrow> int list \<Rightarrow> (int \<times> string) list \<Rightarrow> int list" where
  "candidates graph chapter_numbers status =
     filter (\<lambda>c. \<not> chapter_done status c \<and> list_all (chapter_done status) (required_of graph c))
       (sort chapter_numbers)"

definition decide ::
  "int \<Rightarrow> book_run_mode \<Rightarrow> int list \<Rightarrow> (int \<times> string) list \<Rightarrow> dependency_graph option \<Rightarrow>
   bool \<Rightarrow> bool \<Rightarrow> bool \<Rightarrow> schedule_decision result" where
  "decide concurrency mode chapter_numbers chapter_status dependencies cancel_requested
     pause_requested continue_after_needs_review =
     and_then (validate_plan chapter_numbers dependencies) (\<lambda>graph.
       if cancel_requested then make_decision None Cancel ''Book cancellation was requested'' []
       else if pause_requested then make_decision None Pause ''Book pause was requested'' []
       else if list_ex (\<lambda>(_, s). s \<in> set active_chapter_statuses) chapter_status
       then make_decision None Wait ''A chapter job is still active'' (sort_key fst chapter_status)
       else if list_all (chapter_done chapter_status) chapter_numbers
       then make_decision None Complete ''Every planned chapter has an accepted version''
              (sort_key fst chapter_status)
       else if list_ex (\<lambda>(_, s). s = ''needs_review'') chapter_status \<and> \<not> continue_after_needs_review
       then make_decision
              (Some (Min (set (map fst (filter (\<lambda>(_, s). s = ''needs_review'') chapter_status)))))
              Human_Review ''A chapter reached its revision limit'' (sort_key fst chapter_status)
       else
         (case take (if mode = BookRunMode_SEQUENTIAL then 1 else nat concurrency)
                 (candidates graph chapter_numbers chapter_status) of
            [] \<Rightarrow> make_decision None Wait ''No chapter has all dependencies accepted''
                    (sort_key fst chapter_status)
          | c # _ \<Rightarrow> make_decision (Some c) Schedule ''All required predecessor chapters are accepted''
              (map (\<lambda>r. (r, case map_of chapter_status r of None \<Rightarrow> ''missing'' | Some s \<Rightarrow> s))
                 (remdups (required_of graph c)))))"

section \<open>Specification: acyclic dependencies\<close>

definition depends :: "dependency_graph \<Rightarrow> (int \<times> int) set" where
  "depends graph = {(d, c). \<exists>required. (c, required) \<in> set graph \<and> d \<in> set required}"

text \<open>A list, latest first, in which every chapter follows what it requires.\<close>

fun topological :: "dependency_graph \<Rightarrow> int list \<Rightarrow> bool" where
  "topological graph [] \<longleftrightarrow> True"
| "topological graph (c # cs) \<longleftrightarrow>
     c \<notin> set cs \<and> set (required_of graph c) \<subseteq> set cs \<and> topological graph cs"

lemma topological_distinct: "topological graph cs \<Longrightarrow> distinct cs"
  by (induction cs) auto

lemma topological_closed:
  "topological graph cs \<Longrightarrow> c \<in> set cs \<Longrightarrow> set (required_of graph c) \<subseteq> set cs"
  by (induction cs) auto

lemma topological_rank:
  "topological graph cs \<Longrightarrow>
   \<exists>f :: int \<Rightarrow> nat. (\<forall>c \<in> set cs. f c \<le> length cs \<and> (\<forall>d \<in> set (required_of graph c). f d < f c))"
proof (induction cs)
  case (Cons c cs)
  then obtain f :: "int \<Rightarrow> nat" where
    f: "\<forall>x \<in> set cs. f x \<le> length cs \<and> (\<forall>d \<in> set (required_of graph x). f d < f x)" by auto
  let ?g = "f(c := Suc (length cs))"
  have keep: "?g x = f x" if "x \<in> set cs" for x using that Cons.prems by auto
  have req: "set (required_of graph x) \<subseteq> set cs" if "x \<in> set cs" for x
    using topological_closed [of graph cs x] that Cons.prems by simp
  have "?g x \<le> length (c # cs) \<and> (\<forall>d \<in> set (required_of graph x). ?g d < ?g x)" if "x \<in> set (c # cs)" for x
  proof (cases "x = c")
    case True
    have "?g d < Suc (length cs)" if "d \<in> set (required_of graph c)" for d
    proof -
      have "d \<in> set cs" using that Cons.prems by auto
      then show ?thesis using f keep [of d] by fastforce
    qed
    then show ?thesis using True by auto
  next
    case False
    then have x: "x \<in> set cs" using that by simp
    then have "?g d < ?g x" if "d \<in> set (required_of graph x)" for d
      using that f req [OF x] keep [of d] keep [OF x] by (metis subsetD)
    then show ?thesis using f keep [OF x] x by fastforce
  qed
  then show ?case by blast
qed simp

lemma topological_acyclic:
  assumes "topological graph cs" and "set cs = set (map fst graph)" and "distinct (map fst graph)"
  shows "acyclic (depends graph)"
proof -
  obtain f :: "int \<Rightarrow> nat" where f: "\<forall>c \<in> set cs. \<forall>d \<in> set (required_of graph c). f d < f c"
    using topological_rank [OF assms(1)] by blast
  have "depends graph \<subseteq> measure f"
  proof clarify
    fix d c assume "(d, c) \<in> depends graph"
    then obtain r where r: "(c, r) \<in> set graph" "d \<in> set r" by (auto simp: depends_def)
    then have "map_of graph c = Some r" "c \<in> set cs" using assms(2,3) by (auto intro: rev_image_eqI)
    then show "(d, c) \<in> measure f" using f r(2) by (simp add: required_of_def)
  qed
  then show ?thesis using wf_acyclic wf_subset wf_measure by blast
qed

section \<open>The check decides acyclicity\<close>

lemma indegrees_lookup_gen:
  "distinct (map fst graph) \<Longrightarrow>
   map_of (foldl (\<lambda>d (c, r). AList.update c (int (length r)) d) start graph) c =
     (case map_of graph c of None \<Rightarrow> map_of start c | Some r \<Rightarrow> Some (int (length r)))"
proof (induction graph arbitrary: start)
  case (Cons entry graph)
  obtain x r where e: "entry = (x, r)" by fastforce
  have "x \<noteq> c \<or> map_of graph c = None"
    using Cons.prems e by (auto simp: map_of_eq_None_iff)
  then show ?case
    using Cons e by (auto simp: update_conv' split: option.split)
qed simp

lemma indegrees_keys_gen:
  "set (map fst graph) \<subseteq> set (map fst start) \<Longrightarrow>
   map fst (foldl (\<lambda>d (c, r). AList.update c (int (length r)) d) start graph) = map fst start"
proof (induction graph arbitrary: start)
  case (Cons entry graph)
  obtain x r where e: "entry = (x, r)" by fastforce
  have "map fst (AList.update x (int (length r)) start) = map fst start"
    using Cons.prems e by (simp add: update_keys)
  then show ?case using Cons.IH [of "AList.update x (int (length r)) start"] Cons.prems e
    by (metis (no_types, lifting) case_prod_conv foldl_Cons insert_subset list.simps(15) list.simps(9))
qed simp

lemma map_entry_keys: "map fst (AList.map_entry k f al) = map fst al"
  by (induction al) auto

lemma append_child:
  "map_of start d = Some l \<Longrightarrow>
   \<exists>l'. map_of (foldl (\<lambda>out d. AList.map_entry d (\<lambda>children. children @ [c]) out) start required) d = Some l' \<and>
     (\<forall>x. count_list l' x = count_list l x + (if x = c then count_list required d else 0))"
proof (induction required arbitrary: start l)
  case (Cons r required)
  show ?case
  proof (cases "r = d")
    case True
    then have "map_of (AList.map_entry r (\<lambda>ch. ch @ [c]) start) d = Some (l @ [c])"
      using Cons.prems by (simp add: AList.map_of_map_entry)
    from Cons.IH [OF this] True show ?thesis by auto
  next
    case False
    then have "map_of (AList.map_entry r (\<lambda>ch. ch @ [c]) start) d = Some l"
      using Cons.prems by (simp add: AList.map_of_map_entry split: option.split)
    from Cons.IH [OF this] False show ?thesis by auto
  qed
qed simp

lemma outgoing_gen:
  "distinct (map fst graph) \<Longrightarrow> map_of start d = Some l \<Longrightarrow>
   \<exists>l'. map_of (foldl (\<lambda>outgoing (c, required).
         foldl (\<lambda>out d. AList.map_entry d (\<lambda>children. children @ [c]) out) outgoing required) start graph) d
       = Some l' \<and>
     (\<forall>x. count_list l' x = count_list l x + count_list (required_of graph x) d)"
proof (induction graph arbitrary: start l)
  case (Cons entry graph)
  obtain c r where e: "entry = (c, r)" by fastforce
  from append_child [OF Cons.prems(2), of c r] obtain l1 where
    l1: "map_of (foldl (\<lambda>out d. AList.map_entry d (\<lambda>children. children @ [c]) out) start r) d = Some l1"
      "\<forall>x. count_list l1 x = count_list l x + (if x = c then count_list r d else 0)" by blast
  have "map_of graph c = None" using Cons.prems(1) e by (simp add: map_of_eq_None_iff)
  then have req: "count_list (required_of graph c) d = 0" by (simp add: required_of_def)
  from Cons.IH [OF _ l1(1)] Cons.prems(1) obtain l' where
    l': "map_of (foldl (\<lambda>outgoing (c, required).
         foldl (\<lambda>out d. AList.map_entry d (\<lambda>children. children @ [c]) out) outgoing required)
         (foldl (\<lambda>out d. AList.map_entry d (\<lambda>children. children @ [c]) out) start r) graph) d = Some l'"
      "\<forall>x. count_list l' x = count_list l1 x + count_list (required_of graph x) d" by auto
  show ?case
    using l' l1(2) req e by (auto simp: required_of_def)
qed (simp add: required_of_def)

text \<open>
  One visit: every child's count drops by its occurrences, and exactly the chapters that reach
  zero join the queue.
\<close>

lemma release_effect:
  assumes "set children \<subseteq> nodes"
    and "\<forall>c \<in> nodes. map_of indegree c = Some (int (f c) + int (count_list children c))"
    and "distinct queue" and "set queue = {c \<in> nodes. f c + count_list children c = 0} - D"
    and "\<forall>c \<in> nodes \<inter> D. f c + count_list children c = 0"
  shows "\<exists>indegree' queue'. release children indegree queue = Inr (indegree', queue') \<and>
    (\<forall>c \<in> nodes. map_of indegree' c = Some (int (f c))) \<and> distinct queue' \<and>
    set queue' = {c \<in> nodes. f c = 0} - D"
  using assms
proof (induction children arbitrary: indegree queue)
  case (Cons x xs)
  let ?i = "AList.update x (int (f x) + int (count_list xs x)) indegree"
  let ?q = "if f x + count_list xs x = 0 then queue @ [x] else queue"
  have xn: "x \<in> nodes" using Cons.prems(1) by simp
  have "x \<notin> D" using bspec [OF Cons.prems(5), of x] xn by auto
  moreover have "x \<notin> set queue" unfolding Cons.prems(4) by simp
  ultimately have x: "x \<in> nodes" "x \<notin> D" "x \<notin> set queue" using xn by simp_all
  have look: "map_of indegree x = Some (int (f x) + int (count_list xs x) + 1)"
    using Cons.prems(2) x(1) by simp
  have step: "release (x # xs) indegree queue = release xs ?i ?q"
    using look by (auto simp: add.assoc)
  have 1: "set xs \<subseteq> nodes" using Cons.prems(1) by simp
  have 2: "\<forall>c \<in> nodes. map_of ?i c = Some (int (f c) + int (count_list xs c))"
    using Cons.prems(2) by (auto simp: update_conv')
  have 3: "distinct ?q" using Cons.prems(3) x(3) by simp
  have 4: "set ?q = {c \<in> nodes. f c + count_list xs c = 0} - D"
  proof (rule set_eqI)
    fix c
    have "c \<in> set queue \<longleftrightarrow> c \<in> nodes \<and> f c + count_list (x # xs) c = 0 \<and> c \<notin> D"
      unfolding Cons.prems(4) by simp
    then show "c \<in> set ?q \<longleftrightarrow> c \<in> {c \<in> nodes. f c + count_list xs c = 0} - D"
      using x by (cases "c = x") auto
  qed
  have 5: "\<forall>c \<in> nodes \<inter> D. f c + count_list xs c = 0"
  proof
    fix c assume "c \<in> nodes \<inter> D"
    then have "f c + count_list (x # xs) c = 0" using bspec [OF Cons.prems(5), of c] by simp
    then show "f c + count_list xs c = 0" by (simp split: if_splits)
  qed
  show ?case unfolding step by (rule Cons.IH [OF 1 2 3 4 5])
qed auto

definition missing :: "dependency_graph \<Rightarrow> int set \<Rightarrow> int \<Rightarrow> nat" where
  "missing graph D c = length (filter (\<lambda>d. d \<notin> D) (required_of graph c))"

lemma missing_insert:
  "x \<notin> D \<Longrightarrow> missing graph D c = missing graph (insert x D) c + count_list (required_of graph c) x"
proof -
  assume x: "x \<notin> D"
  have "length (filter (\<lambda>d. d \<notin> D) l) = length (filter (\<lambda>d. d \<notin> insert x D) l) + count_list l x" for l
    using x by (induction l) auto
  then show ?thesis by (simp add: missing_def)
qed

lemma missing_zero: "missing graph D c = 0 \<longleftrightarrow> set (required_of graph c) \<subseteq> D"
  by (auto simp: missing_def filter_empty_conv)

lemma kahn_effect:
  assumes "\<forall>d \<in> nodes. \<exists>l. map_of outgoing d = Some l \<and>
      (\<forall>x. count_list l x = count_list (required_of graph x) d)"
    and "\<forall>c. c \<notin> nodes \<longrightarrow> required_of graph c = []"
    and "topological graph ds" and "set ds \<subseteq> nodes" and "distinct queue"
    and "set queue = {c \<in> nodes. missing graph (set ds) c = 0} - set ds"
    and "\<forall>c \<in> nodes. map_of indegree c = Some (int (missing graph (set ds) c))"
  shows "\<exists>ds'. kahn outgoing indegree queue (int (length ds)) = Inr (int (length ds')) \<and>
    topological graph ds' \<and> set ds' \<subseteq> nodes \<and>
    {c \<in> nodes. missing graph (set ds') c = 0} \<subseteq> set ds'"
  using assms
proof (induction outgoing indegree queue "int (length ds)" arbitrary: ds rule: kahn.induct)
  case (1 outgoing indegree)
  then show ?case by (intro exI [of _ ds]) auto
next
  case (2 outgoing indegree current queue)
  let ?D = "insert current (set ds)"
  have cur: "current \<in> nodes" "current \<notin> set ds" "current \<notin> set queue"
    "missing graph (set ds) current = 0"
    using 2(6,7) by auto
  obtain children where ch: "map_of outgoing current = Some children"
    "\<And>x. count_list children x = count_list (required_of graph x) current"
    using 2(2) cur(1) by blast
  have split: "missing graph (set ds) c = missing graph ?D c + count_list children c" for c
    using missing_insert [OF cur(2)] ch(2) by simp
  have sub: "set children \<subseteq> nodes"
    using 2(3) ch(2) by (metis count_list_0_iff list.set(1) empty_iff subsetI)
  have zero: "\<forall>c \<in> nodes \<inter> ?D. missing graph ?D c + count_list children c = 0"
    using cur(4) topological_closed [OF 2(4)] by (auto simp: split [symmetric] missing_zero)
  have "\<forall>c \<in> nodes. map_of indegree c = Some (int (missing graph ?D c) + int (count_list children c))"
    using 2(8) split by simp
  moreover have "distinct queue" using 2(6) by simp
  moreover have "set queue = {c \<in> nodes. missing graph ?D c + count_list children c = 0} - ?D"
    using 2(7) cur(3) by (auto simp: split [symmetric])
  ultimately obtain indegree' queue' where rel: "release children indegree queue = Inr (indegree', queue')"
    "\<forall>c \<in> nodes. map_of indegree' c = Some (int (missing graph ?D c))" "distinct queue'"
    "set queue' = {c \<in> nodes. missing graph ?D c = 0} - ?D"
    using release_effect [OF sub _ _ _ zero, of indegree queue] by blast
  have top: "topological graph (current # ds)"
    using 2(4) cur(2,4) by (simp add: missing_zero)
  have len: "int (length ds) + 1 = int (length (current # ds))" by simp
  from 2(1) [OF ch(1) rel(1) refl len 2(2,3) top] 2(5) cur(1) rel(2-4) ch(1) rel(1)
  show ?case by (auto simp: add.commute)
qed

lemma finite_depends: "finite (depends graph)"
proof -
  have "depends graph = (\<Union>(c, r) \<in> set graph. (\<lambda>d. (d, c)) ` set r)" by (auto simp: depends_def)
  then show ?thesis by auto
qed

text \<open>Kahn's loop visits every chapter exactly when the dependencies are acyclic.\<close>

lemma kahn_decides:
  assumes "distinct ordered" and "distinct (map fst graph)" and "set (map fst graph) = set ordered"
    and "edges_valid graph"
  shows "\<exists>n. kahn (outgoing_edges ordered graph) (indegrees ordered graph)
      (map fst (filter (\<lambda>(_, k). k = 0) (indegrees ordered graph))) 0 = Inr n \<and>
    (n = int (length graph) \<longleftrightarrow> acyclic (depends graph))"
proof -
  let ?nodes = "set ordered" and ?i = "indegrees ordered graph" and ?o = "outgoing_edges ordered graph"
  have out: "\<forall>d \<in> ?nodes. \<exists>l. map_of ?o d = Some l \<and>
      (\<forall>x. count_list l x = count_list (required_of graph x) d)"
  proof
    fix d assume "d \<in> ?nodes"
    then have "map_of (map (\<lambda>c. (c, [] :: int list)) ordered) d = Some []"
      by (simp add: map_of_map_restrict)
    from outgoing_gen [OF assms(2) this]
    show "\<exists>l. map_of ?o d = Some l \<and> (\<forall>x. count_list l x = count_list (required_of graph x) d)"
      by (simp add: outgoing_edges_def)
  qed
  have nodes: "\<forall>c. c \<notin> ?nodes \<longrightarrow> required_of graph c = []"
    using assms(3) by (auto simp: required_of_def map_of_eq_None_iff split: option.split)
      (metis image_eqI map_of_SomeD fst_conv)
  have look: "\<forall>c \<in> ?nodes. map_of ?i c = Some (int (missing graph (set []) c))"
  proof
    fix c assume "c \<in> ?nodes"
    then have "c \<in> fst ` set graph" using assms(3) by simp
    then obtain r where "map_of graph c = Some r" by (cases "map_of graph c") (auto simp: map_of_eq_None_iff)
    then show "map_of ?i c = Some (int (missing graph (set []) c))"
      unfolding indegrees_def indegrees_lookup_gen [OF assms(2)]
      by (simp add: missing_def required_of_def)
  qed
  have keys: "map fst ?i = ordered"
    unfolding indegrees_def using assms(3) by (subst indegrees_keys_gen) (auto simp: comp_def)
  then have dist: "distinct (map fst ?i)" using assms(1) by simp
  have q: "set (map fst (filter (\<lambda>(_, k). k = 0) ?i)) = {c \<in> ?nodes. missing graph (set []) c = 0} - set []"
  proof -
    have "(c, 0) \<in> set ?i \<longleftrightarrow> c \<in> ?nodes \<and> missing graph (set []) c = 0" for c
    proof -
      have "(c, 0) \<in> set ?i \<longleftrightarrow> map_of ?i c = Some 0" using dist by simp
      moreover have "map_of ?i c = None" if "c \<notin> ?nodes" 
        using that keys by (metis list.set_map map_of_eq_None_iff)
      ultimately show ?thesis using look by (cases "c \<in> ?nodes") auto
    qed
    then show ?thesis by force
  qed
  have "distinct (map fst (filter (\<lambda>(_, k). k = 0) ?i))" using dist by (rule distinct_map_filter)
  from kahn_effect [OF out nodes, of "[]", OF _ _ this q look]
  obtain ds where k: "kahn ?o ?i (map fst (filter (\<lambda>(_, k). k = 0) ?i)) 0 = Inr (int (length ds))"
    and ds: "topological graph ds" "set ds \<subseteq> ?nodes" "{c \<in> ?nodes. missing graph (set ds) c = 0} \<subseteq> set ds"
    by auto
  have card: "length graph = card ?nodes"
    using assms(2,3) by (metis distinct_card length_map)
  have full: "length ds = length graph \<longleftrightarrow> set ds = ?nodes"
    using topological_distinct [OF ds(1)] ds(2) card
    by (metis card_subset_eq distinct_card finite_set)
  moreover have "acyclic (depends graph)" if "set ds = ?nodes"
    using topological_acyclic [OF ds(1) _ assms(2)] that assms(3) by simp
  moreover have "set ds = ?nodes" if ac: "acyclic (depends graph)"
  proof (rule ccontr)
    assume "set ds \<noteq> ?nodes"
    then have "?nodes - set ds \<noteq> {}" using ds(2) by auto
    moreover have "wf (depends graph)" using finite_acyclic_wf [OF finite_depends ac] .
    ultimately obtain c where c: "c \<in> ?nodes - set ds" "\<And>d. (d, c) \<in> depends graph \<Longrightarrow> d \<notin> ?nodes - set ds"
      by (metis wfE_min')
    then have "missing graph (set ds) c \<noteq> 0" using ds(3) by auto
    then obtain d where d: "d \<in> set (required_of graph c)" "d \<notin> set ds" by (auto simp: missing_zero)
    then obtain r where r: "map_of graph c = Some r" "d \<in> set r"
      by (cases "map_of graph c") (auto simp: required_of_def)
    then have "(c, r) \<in> set graph" by (auto dest: map_of_SomeD)
    then have "(d, c) \<in> depends graph" "d \<in> ?nodes"
      using r(2) assms(3,4) by (auto simp: depends_def edges_valid_def)
    then show False using c(2) d(2) by blast
  qed
  ultimately show ?thesis using k by auto
qed

end
