(* ===== verification/Book_Execution.thy ===== *)
theory Book_Execution
  imports Book_Runs Book_Scheduler
begin

text \<open>
  \<open>BookWorkflowApplicationService\<close> (\<open>src/src/storyforge/application/books.py\<close>): the steps that advance a
  book run and the loop \<open>execute\<close> over them. The chapter workflow, the periodic checks and the
  final global review are services of their own and appear as functions of the environment; the
  rows of the provider calls come from the provider tables. Each step is one transaction.
\<close>

section \<open>Chapter status maps\<close>

text \<open>\<open>int(key)\<close> on the keys of the status map, which are written by \<open>str\<close> of a number.\<close>

definition decimal :: "string \<Rightarrow> bool" where
  "decimal s \<longleftrightarrow> s \<noteq> [] \<and> list_all (\<lambda>c. c \<in> set ''0123456789'') s"

definition parse_int :: "string \<Rightarrow> int result" where
  "parse_int s =
     (case s of
        [] \<Rightarrow> Inl ValueError
      | c # cs \<Rightarrow>
          if c = CHR ''-'' then (if decimal cs then Inr (- int (undigits cs)) else Inl ValueError)
          else if decimal s then Inr (int (undigits s)) else Inl ValueError)"

lemma decimal_nat_str: "decimal (nat_str n)"
  unfolding decimal_def list_all_iff using nat_str_chars [of n] nat_str_nonempty [of n] by blast

lemma parse_int_str: "parse_int (int_str i) = Inr i"
proof (cases "i < 0")
  case True
  then show ?thesis by (simp add: parse_int_def int_str_def decimal_nat_str undigits_nat_str)
next
  case False
  obtain c cs where s: "nat_str (nat i) = c # cs" "c \<noteq> CHR ''-''"
    using nat_str_nonempty [of "nat i"] nat_str_no_minus [of "nat i"] by (cases "nat_str (nat i)") auto
  have "decimal (c # cs)" "undigits (c # cs) = nat i"
    using decimal_nat_str [of "nat i"] undigits_nat_str [of "nat i"] s(1) by simp_all
  then show ?thesis using False s by (simp add: parse_int_def int_str_def)
qed

fun parse_statuses :: "(string \<times> string) list \<Rightarrow> (int \<times> string) list result" where
  "parse_statuses [] = Inr []"
| "parse_statuses ((k, v) # rest) =
     and_then (parse_int k) (\<lambda>i. and_then (parse_statuses rest) (\<lambda>r. Inr ((i, v) # r)))"

definition count_statuses :: "string set \<Rightarrow> (string \<times> string) list \<Rightarrow> int" where
  "count_statuses vs statuses = int (length (filter (\<lambda>(_, v). v \<in> vs) statuses))"

text \<open>\<open>round(completed / total * 75)\<close>.\<close>

definition chapter_progress :: "int \<Rightarrow> int \<Rightarrow> int" where
  "chapter_progress completed of_total = round_half_even (rat_of_int completed / rat_of_int of_total * 75)"

definition add_node :: "string \<Rightarrow> book_run \<Rightarrow> book_run" where
  "add_node node run = run\<lparr>br_node_history := br_node_history run @ [node], br_current_node := node\<rparr>"

section \<open>Steps\<close>

definition run_for_update :: "db \<Rightarrow> int \<Rightarrow> book_run result" where
  "run_for_update db run_id = or_raise InvalidStateError (get_book_run db run_id)"

definition plan_validated :: "db \<Rightarrow> book_run \<Rightarrow> time \<Rightarrow> book_run result" where
  "plan_validated db run now =
     and_then (validate_plan (map ch_chapter_number (chapters_of_project db (br_project_id run))) None) (\<lambda>_.
     and_then (transition_book_run run BookRunStatus_GENERATING now) (\<lambda>run'.
     Inr (add_node ''validate_plan'' run')))"

definition initialize :: "db \<Rightarrow> int \<Rightarrow> time \<Rightarrow> (db \<times> unit) result" where
  "initialize db run_id now =
     and_then (run_for_update db run_id) (\<lambda>run.
     and_then
       (if br_status run = BookRunStatus_PENDING then
          and_then (transition_book_run run BookRunStatus_PLANNING_VALIDATION now) (\<lambda>run1.
          plan_validated db (add_node ''initialize_book_run'' run1) now)
        else if br_status run = BookRunStatus_PLANNING_VALIDATION then plan_validated db run now
        else if br_status run \<in> {BookRunStatus_PAUSED, BookRunStatus_BUDGET_BLOCKED} then
          transition_book_run run
            (if br_completed_chapters run = br_total_chapters run then BookRunStatus_GLOBAL_REVIEW
             else BookRunStatus_GENERATING) now
        else if br_status run \<notin> {BookRunStatus_GENERATING, BookRunStatus_GLOBAL_REVIEW}
        then Inl InvalidStateError
        else Inr run) (\<lambda>run'.
     commit (save_book_run db run') ()))"

definition run_state :: "db \<Rightarrow> int \<Rightarrow> (book_run \<times> int list) result" where
  "run_state db run_id =
     and_then (run_for_update db run_id) (\<lambda>run.
     Inr (run, map ch_chapter_number (chapters_of_project db (br_project_id run))))"

text \<open>A chapter with an accepted version is accepted, whatever the map said.\<close>

definition accepted_statuses :: "chapter_row list \<Rightarrow> (string \<times> string) list \<Rightarrow> (string \<times> string) list" where
  "accepted_statuses chapters statuses =
     foldl (\<lambda>m c. if ch_accepted_version_id c \<noteq> None
                  then dict_set (int_str (ch_chapter_number c)) ''accepted'' m else m) statuses chapters"

definition sync_already_accepted :: "db \<Rightarrow> int \<Rightarrow> (db \<times> unit) result" where
  "sync_already_accepted db run_id =
     (case get_book_run db run_id of
        None \<Rightarrow> commit db ()
      | Some run \<Rightarrow>
          let statuses = accepted_statuses (chapters_of_project db (br_project_id run))
                           (br_chapter_status_map run);
              n = count_statuses {''accepted''} statuses;
              completed = n + count_statuses {''failed'', ''needs_review''} statuses
          in commit (save_book_run db
               (run\<lparr>br_chapter_status_map := statuses, br_accepted_chapters := n,
                    br_completed_chapters := completed,
                    br_progress := chapter_progress completed (br_total_chapters run)\<rparr>)) ())"

definition mark_chapter_running :: "db \<Rightarrow> int \<Rightarrow> int \<Rightarrow> (db \<times> unit) result" where
  "mark_chapter_running db run_id chapter_number =
     and_then (run_for_update db run_id) (\<lambda>run.
     commit (save_book_run db (add_node (''schedule_chapter_'' @ int_str chapter_number)
       (run\<lparr>br_chapter_status_map :=
              dict_set (int_str chapter_number) ''running'' (br_chapter_status_map run),
            br_current_chapter_number := Some chapter_number\<rparr>))) ())"

definition current_workflow :: "db \<Rightarrow> int \<Rightarrow> int \<Rightarrow> int option" where
  "current_workflow db run_id chapter_number =
     (case get_book_run db run_id of
        None \<Rightarrow> None
      | Some run \<Rightarrow>
          if br_current_chapter_number run \<noteq> Some chapter_number then None else br_workflow_run_id run)"

text \<open>\<open>_link_workflow\<close> runs inside the transaction that creates the chapter workflow.\<close>

definition link_book_workflow :: "db \<Rightarrow> int \<Rightarrow> int \<Rightarrow> db result" where
  "link_book_workflow db run_id workflow_id =
     and_then (run_for_update db run_id) (\<lambda>run.
     let db1 = save_book_run db (run\<lparr>br_workflow_run_id := Some workflow_id\<rparr>)
     in Inr (case Option.bind (br_job_id run) (get_job db1) of
               None \<Rightarrow> db1
             | Some job \<Rightarrow> save_job db1 (job\<lparr>j_workflow_run_id := Some workflow_id\<rparr>)))"

definition child_key :: "(string \<Rightarrow> string) \<Rightarrow> int \<Rightarrow> int \<Rightarrow> int \<Rightarrow> string" where
  "child_key hash run_id chapter_number workflow_run_id =
     hash (''book:'' @ int_str run_id @ '':chapter:'' @ int_str chapter_number @ '':workflow:'' @
       int_str workflow_run_id)"

definition child_job ::
  "settings \<Rightarrow> job_definition \<Rightarrow> book_run \<Rightarrow> int \<Rightarrow> int \<Rightarrow> int \<Rightarrow> workflow_run_status \<Rightarrow> string \<Rightarrow> string \<Rightarrow>
   time \<Rightarrow> job" where
  "child_job s d run chapter_id chapter_number workflow_run_id status key uuid now =
     (new_book_job s d (br_project_id run) (br_id run) key uuid now)
       \<lparr>j_chapter_id := Some chapter_id, j_workflow_run_id := Some workflow_run_id,
        j_parent_job_id := br_job_id run, j_job_type := JobType_RUN_CHAPTER_WORKFLOW,
        j_status := JobStatus_SUCCEEDED,
        j_payload := [(''book_run_id'', JInt (br_id run)), (''chapter_number'', JInt chapter_number),
          (''operation'', JStr ''generate'')],
        j_result := [(''workflow_run_id'', JInt workflow_run_id),
          (''status'', JStr (workflow_run_status_value status))],
        j_progress := 100, j_current_step := Some ''completed'', j_max_attempts := jd_max_attempts d\<rparr>"

text \<open>The child job of a finished chapter, found by its key or created with its event.\<close>

definition completed_child ::
  "settings \<Rightarrow> (string \<Rightarrow> string) \<Rightarrow> db \<Rightarrow> book_run \<Rightarrow> int \<Rightarrow> int \<Rightarrow> workflow_run_status \<Rightarrow> string \<Rightarrow> time \<Rightarrow>
   (db \<times> job) result" where
  "completed_child s hash db run chapter_number workflow_run_id status uuid now =
     (let key = child_key hash (br_id run) chapter_number workflow_run_id
      in case get_by_idempotency_key db key of
           Some child \<Rightarrow> Inr (db, child)
         | None \<Rightarrow>
             and_then (registry_get JobType_RUN_CHAPTER_WORKFLOW) (\<lambda>d.
             and_then (or_raise InvalidStateError (chapter_by_number db (br_project_id run) chapter_number)) (\<lambda>c.
             let (db1, child) = add_job db
                   (child_job s d run (ch_id c) chapter_number workflow_run_id status key uuid now) in
             and_then (add_ordered db1
                 ((event_for child JobEventType_JOB_SUCCEEDED ''book.chapter_completed''
                     ''Book chapter workflow completed'' None None now)\<lparr>e_attempt := 1\<rparr>)) (\<lambda>(db2, _).
             Inr (db2, child)))))"

definition chapter_recorded :: "book_run \<Rightarrow> int \<Rightarrow> workflow_run_status \<Rightarrow> int \<Rightarrow> book_run" where
  "chapter_recorded run chapter_number status child_id =
     (let statuses = dict_set (int_str chapter_number)
            (if status = WorkflowRunStatus_COMPLETED then ''accepted'' else ''needs_review'')
            (br_chapter_status_map run);
          completed = count_statuses {''accepted'', ''failed'', ''needs_review''} statuses
      in run\<lparr>br_chapter_status_map := statuses,
             br_chapter_job_map := dict_set (int_str chapter_number) child_id (br_chapter_job_map run),
             br_workflow_run_id := None, br_completed_chapters := completed,
             br_accepted_chapters := count_statuses {''accepted''} statuses,
             br_needs_review_chapters := count_statuses {''needs_review''} statuses,
             br_progress := chapter_progress completed (br_total_chapters run)\<rparr>)"

definition record_chapter_completion ::
  "settings \<Rightarrow> (string \<Rightarrow> string) \<Rightarrow> db \<Rightarrow> int \<Rightarrow> int \<Rightarrow> int \<Rightarrow> workflow_run_status \<Rightarrow> string \<Rightarrow> time \<Rightarrow>
   (db \<times> unit) result" where
  "record_chapter_completion s hash db run_id chapter_number workflow_run_id status uuid now =
     and_then (run_for_update db run_id) (\<lambda>run.
     let db1 = (case Option.bind (br_job_id run) (get_job db) of
                  None \<Rightarrow> db
                | Some top_job \<Rightarrow> save_job db (top_job\<lparr>j_workflow_run_id := None\<rparr>)) in
     and_then (completed_child s hash db1 run chapter_number workflow_run_id status uuid now) (\<lambda>(db2, child).
     commit (save_book_run db2 (chapter_recorded run chapter_number status (j_id child))) ()))"

text \<open>\<open>_budget_gate\<close>: the first component is the committed state, then whether the run is blocked.\<close>

definition budget_gate_txn :: "db \<Rightarrow> int \<Rightarrow> int \<Rightarrow> int \<Rightarrow> time \<Rightarrow> (db \<times> bool) result" where
  "budget_gate_txn db run_id estimated_calls estimated_tokens now =
     and_then (run_for_update db run_id) (\<lambda>run.
     if br_max_provider_calls run < br_provider_calls run + estimated_calls \<or>
        br_max_total_tokens run < br_used_tokens run + estimated_tokens \<or>
        br_max_estimated_cost run < br_spent_cost run
     then
       and_then (transition_book_run run BookRunStatus_BUDGET_BLOCKED now) (\<lambda>run'.
       commit (save_book_run db
         (run'\<lparr>br_blocking_reasons := [''Book budget must be increased before continuing''],
               br_current_node := ''budget_blocked''\<rparr>)) True)
     else commit db False)"

definition budget_gate :: "db \<Rightarrow> int \<Rightarrow> int \<Rightarrow> int \<Rightarrow> time \<Rightarrow> db \<times> unit result" where
  "budget_gate db run_id estimated_calls estimated_tokens now =
     and_run (ran db (budget_gate_txn db run_id estimated_calls estimated_tokens now)) (\<lambda>db1 blocked.
     (db1, if blocked then Inl JobPauseRequested else Inr ()))"

text \<open>\<open>_update_usage\<close>: \<open>calls\<close> are the provider call rows (their workflow run, tokens and cost) that SUCCEEDED.\<close>

record successful_call =
  sc_workflow_run_id :: int
  sc_total_tokens :: int
  sc_estimated_cost :: "rat option"

definition or_zero_rat :: "rat option \<Rightarrow> rat" where
  "or_zero_rat x = (case x of None \<Rightarrow> 0 | Some v \<Rightarrow> v)"

definition book_workflow_ids :: "db \<Rightarrow> book_run \<Rightarrow> int \<Rightarrow> int set" where
  "book_workflow_ids db run workflow_run_id =
     insert workflow_run_id
       (set (List.map_filter j_workflow_run_id
          (filter (\<lambda>j. j_book_run_id j = Some (br_id run) \<and> j_parent_job_id j = br_job_id run) (job_rows db))))"

definition update_usage :: "db \<Rightarrow> successful_call list \<Rightarrow> int \<Rightarrow> int \<Rightarrow> (db \<times> unit) result" where
  "update_usage db calls run_id workflow_run_id =
     (case get_book_run db run_id of
        None \<Rightarrow> commit db ()
      | Some run \<Rightarrow>
          let own = filter (\<lambda>c. sc_workflow_run_id c = workflow_run_id) calls;
              linked = filter (\<lambda>c. sc_workflow_run_id c \<in> book_workflow_ids db run workflow_run_id) calls
          in commit (save_book_run db
               (run\<lparr>br_provider_calls := (if linked = [] then int (length own) else int (length linked)),
                    br_used_tokens := (let t = sum_list (map sc_total_tokens linked)
                       in if t = 0 then sum_list (map sc_total_tokens own) else t),
                    br_spent_cost := (let c = sum_list (map (or_zero_rat \<circ> sc_estimated_cost) linked)
                       in if c = 0 then sum_list (map (or_zero_rat \<circ> sc_estimated_cost) own) else c)\<rparr>)) ())"

definition set_global_review :: "db \<Rightarrow> int \<Rightarrow> time \<Rightarrow> (db \<times> unit) result" where
  "set_global_review db run_id now =
     and_then (run_for_update db run_id) (\<lambda>run.
     and_then (if br_status run = BookRunStatus_GENERATING
               then transition_book_run run BookRunStatus_GLOBAL_REVIEW now else Inr run) (\<lambda>run1.
     commit (save_book_run db (add_node ''build_book_snapshot'' (run1\<lparr>br_progress := 80\<rparr>))) ()))"

definition finish_completed :: "db \<Rightarrow> int \<Rightarrow> int \<Rightarrow> time \<Rightarrow> (db \<times> unit) result" where
  "finish_completed db run_id snapshot_id now =
     (case get_book_run db run_id of
        None \<Rightarrow> commit db ()
      | Some run \<Rightarrow>
          and_then (transition_book_run run BookRunStatus_COMPLETED now) (\<lambda>run1.
          commit (save_book_run db (add_node ''accept_book_snapshot''
            (run1\<lparr>br_book_snapshot_id := Some snapshot_id, br_best_snapshot_id := Some snapshot_id,
                  br_progress := 100, br_blocking_reasons := []\<rparr>))) ()))"

definition finish_needs_review :: "db \<Rightarrow> int \<Rightarrow> string list \<Rightarrow> time \<Rightarrow> (db \<times> unit) result" where
  "finish_needs_review db run_id blockers now =
     (case get_book_run db run_id of
        None \<Rightarrow> commit db ()
      | Some run \<Rightarrow>
          and_then
            (if br_status run \<notin> {BookRunStatus_COMPLETED_NEEDS_REVIEW, BookRunStatus_COMPLETED}
             then transition_book_run run BookRunStatus_COMPLETED_NEEDS_REVIEW now else Inr run) (\<lambda>run1.
          commit (save_book_run db (add_node ''mark_book_needs_review''
            (run1\<lparr>br_progress := 100, br_blocking_reasons := blockers\<rparr>))) ()))"

text \<open>
  \<open>_record_periodic_check\<close>: \<open>critical_conflicts\<close> of the summary, zero when absent; the checker writes
  a count.
\<close>

definition record_periodic_txn :: "db \<Rightarrow> int \<Rightarrow> (string \<times> json) list \<Rightarrow> time \<Rightarrow> (db \<times> bool) result" where
  "record_periodic_txn db run_id summary now =
     (let blocked = (case map_of summary ''critical_conflicts'' of Some (JInt n) \<Rightarrow> 0 < n | Some (JBool b) \<Rightarrow> b
                     | _ \<Rightarrow> False)
      in and_then (run_for_update db run_id) (\<lambda>run.
         let run1 = add_node ''periodic_global_check''
               (run\<lparr>br_periodic_checks := br_periodic_checks run @ [JDict summary]\<rparr>)
         in and_then
              (if blocked
               then and_then (transition_book_run run1 BookRunStatus_PAUSED now) (\<lambda>run2.
                 Inr (run2\<lparr>br_blocking_reasons := [''A critical periodic timeline conflict requires review'']\<rparr>))
               else Inr run1) (\<lambda>run'.
            commit (save_book_run db run') blocked)))"

definition record_periodic_check :: "db \<Rightarrow> int \<Rightarrow> (string \<times> json) list \<Rightarrow> time \<Rightarrow> db \<times> unit result" where
  "record_periodic_check db run_id summary now =
     and_run (ran db (record_periodic_txn db run_id summary now)) (\<lambda>db1 blocked.
     (db1, if blocked then Inl JobPauseRequested else Inr ()))"

section \<open>The loop: execute\<close>

text \<open>
  What the steps call: the control and progress callbacks of the job, the chapter workflow service,
  the periodic checker and the global analysis. \<open>k\<close> numbers the rounds, so that a service may answer
  differently each time. \<open>be_plan_completed\<close> marks the latest revision plan of a snapshot.
\<close>

record book_verdict =
  vd_evaluation_id :: int
  vd_passed :: bool
  vd_recommended_action :: string
  vd_blocking_reasons :: "string list"

text \<open>What is left of the limits of the run when a revision plan is made, and a task of the plan.\<close>

record revision_limits =
  rl_maximum_chapters :: int
  rl_remaining_calls :: int
  rl_remaining_tokens :: int
  rl_remaining_cost :: rat

record revision_task =
  rt_chapter_number :: int
  rt_affected_future_chapters :: "int list"

record book_env =
  be_settings :: settings
  be_hash :: "string \<Rightarrow> string"
  be_uuid :: "nat \<Rightarrow> string"
  be_now :: "nat \<Rightarrow> time"
  be_calls :: "nat \<Rightarrow> successful_call list"
  be_control :: "string \<Rightarrow> db \<Rightarrow> time \<Rightarrow> (db \<times> unit) result"
  be_progress :: "string \<Rightarrow> string \<Rightarrow> db \<Rightarrow> time \<Rightarrow> (db \<times> unit) result"
  be_run_chapter :: "nat \<Rightarrow> db \<Rightarrow> int \<Rightarrow> int \<Rightarrow> int \<Rightarrow> db \<times> (int \<times> workflow_run_status) result"
  be_resume_chapter :: "nat \<Rightarrow> db \<Rightarrow> int \<Rightarrow> db \<times> (int \<times> workflow_run_status) result"
  be_periodic :: "db \<Rightarrow> int \<Rightarrow> (string \<times> json) list result"
  be_build_snapshot :: "db \<Rightarrow> int \<Rightarrow> db \<times> int result"
  be_analyze :: "db \<Rightarrow> int \<Rightarrow> db \<times> book_verdict result"
  be_accept_snapshot :: "db \<Rightarrow> int \<Rightarrow> bool \<Rightarrow> db \<times> unit result"
  be_revision_plan :: "db \<Rightarrow> int \<Rightarrow> int \<Rightarrow> book_verdict \<Rightarrow> revision_limits \<Rightarrow> db \<times> revision_task list result"
  be_revise_chapter :: "db \<Rightarrow> int \<Rightarrow> int \<Rightarrow> int \<Rightarrow> db \<times> (int \<times> workflow_run_status) result"
  be_plan_completed :: "db \<Rightarrow> int \<Rightarrow> db"

definition chapter_workflow ::
  "book_env \<Rightarrow> nat \<Rightarrow> db \<Rightarrow> book_run \<Rightarrow> int \<Rightarrow> db \<times> (int \<times> workflow_run_status) result" where
  "chapter_workflow env k db run chapter_number =
     (case current_workflow db (br_id run) chapter_number of
        None \<Rightarrow> be_run_chapter env k db (br_project_id run) chapter_number (br_max_chapter_retries run)
      | Some workflow_id \<Rightarrow>
          (case get_workflow_run db workflow_id of
             None \<Rightarrow> (db, Inl EntityNotFoundError)
           | Some w \<Rightarrow>
               if wr_status w = WorkflowRunStatus_PAUSED then be_resume_chapter env k db workflow_id
               else if wr_status w \<in> {WorkflowRunStatus_COMPLETED, WorkflowRunStatus_COMPLETED_NEEDS_REVIEW}
               then (db, Inr (workflow_id, wr_status w))
               else (db, Inl InvalidStateError)))"

definition execute_chapter ::
  "book_env \<Rightarrow> nat \<Rightarrow> db \<Rightarrow> int \<Rightarrow> int \<Rightarrow> db \<times> workflow_run_status result" where
  "execute_chapter env k db run_id chapter_number =
     and_run (db, run_state db run_id) (\<lambda>db0 (run, _).
     and_run (ran db0 (mark_chapter_running db0 run_id chapter_number)) (\<lambda>db1 _.
     and_run (chapter_workflow env k db1 run chapter_number) (\<lambda>db2 (workflow_id, status).
     if status = WorkflowRunStatus_PAUSED then (db2, Inr status)
     else
       and_run (ran db2 (record_chapter_completion (be_settings env) (be_hash env) db2 run_id
                  chapter_number workflow_id status (be_uuid env k) (be_now env k))) (\<lambda>db3 _.
       and_run (ran db3 (update_usage db3 (be_calls env k) run_id workflow_id)) (\<lambda>db4 _.
       (db4, Inr status))))))"

datatype next_step = Resume_Chapter int | Start_Chapter int | All_Accepted | Review_Needed string

definition scheduled_chapter :: "book_env \<Rightarrow> book_run \<Rightarrow> int list \<Rightarrow> next_step result" where
  "scheduled_chapter env run chapter_numbers =
     and_then (parse_statuses (br_chapter_status_map run)) (\<lambda>statuses.
     and_then (decide (s_book_chapter_concurrency (be_settings env)) (br_mode run) chapter_numbers statuses
                 None (br_status run = BookRunStatus_CANCEL_REQUESTED) False False) (\<lambda>decision.
     if sd_action decision = Cancel then Inl JobCancellationRequested
     else if sd_action decision = Human_Review then Inr (Review_Needed (sd_reason decision))
     else if sd_action decision = Wait then Inl InvalidStateError
     else if sd_action decision = Complete then Inr All_Accepted
     else
       (case sd_chapter_number decision of
          None \<Rightarrow> Inl InvalidStateError
        | Some n \<Rightarrow> Inr (Start_Chapter n))))"

definition next_chapter :: "book_env \<Rightarrow> book_run \<Rightarrow> int list \<Rightarrow> next_step result" where
  "next_chapter env run chapter_numbers =
     (case br_current_chapter_number run of
        Some n \<Rightarrow>
          if br_workflow_run_id run \<noteq> None \<and> map_of (br_chapter_status_map run) (int_str n) = Some ''running''
          then Inr (Resume_Chapter n)
          else scheduled_chapter env run chapter_numbers
      | None \<Rightarrow> scheduled_chapter env run chapter_numbers)"

datatype round_end = Next_Round | Chapters_Done | Left_For_Review

definition chapter_round :: "book_env \<Rightarrow> nat \<Rightarrow> db \<Rightarrow> int \<Rightarrow> int \<Rightarrow> db \<times> round_end result" where
  "chapter_round env k db run_id chapter_number =
     (let step = ''schedule_chapter_'' @ int_str chapter_number; now = be_now env k in
      and_run (ran db (be_control env step db now)) (\<lambda>db1 _.
      and_run (ran db1 (be_progress env ''started'' step db1 now)) (\<lambda>db2 _.
      and_run (execute_chapter env k db2 run_id chapter_number) (\<lambda>db3 status.
      and_run (ran db3 (be_progress env ''completed'' step db3 now)) (\<lambda>db4 _.
      if status = WorkflowRunStatus_COMPLETED_NEEDS_REVIEW then
        and_run (ran db4 (finish_needs_review db4 run_id
                   [''Chapter '' @ int_str chapter_number @ '' requires human review''] now)) (\<lambda>db5 _.
        (db5, Inr Left_For_Review))
      else if status = WorkflowRunStatus_PAUSED then (db4, Inl JobPauseRequested)
      else if status \<noteq> WorkflowRunStatus_COMPLETED then (db4, Inl InvalidStateError)
      else if chapter_number mod s_book_global_check_interval (be_settings env) = 0 then
        and_run (ran db4 (be_control env ''periodic_global_check'' db4 now)) (\<lambda>db5 _.
        and_run (db5, be_periodic env db5 run_id) (\<lambda>db6 summary.
        and_run (record_periodic_check db6 run_id summary now) (\<lambda>db7 _.
        (db7, Inr Next_Round))))
      else (db4, Inr Next_Round))))))"

definition book_round :: "book_env \<Rightarrow> nat \<Rightarrow> db \<Rightarrow> int \<Rightarrow> db \<times> round_end result" where
  "book_round env k db run_id =
     and_run (db, run_state db run_id) (\<lambda>db0 _.
     and_run (ran db0 (sync_already_accepted db0 run_id)) (\<lambda>db1 _.
     and_run (db1, run_state db1 run_id) (\<lambda>db1 (run, chapter_numbers).
     and_run (db1, next_chapter env run chapter_numbers) (\<lambda>db1 next_step.
     case next_step of
       Resume_Chapter n \<Rightarrow> chapter_round env k db1 run_id n
     | Start_Chapter n \<Rightarrow>
         and_run (budget_gate db1 run_id 5 30000 (be_now env k)) (\<lambda>db2 _. chapter_round env k db2 run_id n)
     | All_Accepted \<Rightarrow> (db1, Inr Chapters_Done)
     | Review_Needed reason \<Rightarrow>
         and_run (ran db1 (finish_needs_review db1 run_id [reason] (be_now env k))) (\<lambda>db2 _.
         (db2, Inr Left_For_Review))))))"

text \<open>The \<open>while True\<close> loop with \<open>fuel\<close> rounds; \<open>None\<close> says that they did not suffice.\<close>

fun book_loop :: "book_env \<Rightarrow> nat \<Rightarrow> nat \<Rightarrow> db \<Rightarrow> int \<Rightarrow> db \<times> round_end option result" where
  "book_loop env 0 k db run_id = (db, Inr None)"
| "book_loop env (Suc fuel) k db run_id =
     and_run (book_round env k db run_id) (\<lambda>db1 outcome.
     if outcome = Next_Round then book_loop env fuel (k + 1) db1 run_id else (db1, Inr (Some outcome)))"

section \<open>The global review\<close>

text \<open>\<open>_handle_revision_or_review\<close>, first transaction: \<open>Some\<close> the run when a revision starts.\<close>

definition start_revision_txn :: "db \<Rightarrow> int \<Rightarrow> book_verdict \<Rightarrow> time \<Rightarrow> (db \<times> book_run option) result" where
  "start_revision_txn db run_id verdict now =
     and_then (run_for_update db run_id) (\<lambda>run.
     if vd_recommended_action verdict \<noteq> ''targeted_revision'' \<or>
        br_max_global_revision_rounds run \<le> br_current_global_revision_round run
     then
       and_then (transition_book_run run BookRunStatus_COMPLETED_NEEDS_REVIEW now) (\<lambda>run1.
       commit (save_book_run db
         (run1\<lparr>br_blocking_reasons := vd_blocking_reasons verdict, br_progress := 100\<rparr>)) None)
     else
       and_then (transition_book_run run BookRunStatus_GLOBAL_REVISION now) (\<lambda>run1.
       let run2 = add_node ''build_revision_plan''
             (run1\<lparr>br_current_global_revision_round := br_current_global_revision_round run1 + 1\<rparr>)
       in commit (save_book_run db run2) (Some run2)))"

definition remaining_limits :: "settings \<Rightarrow> book_run \<Rightarrow> revision_limits" where
  "remaining_limits s run =
     \<lparr>rl_maximum_chapters = s_book_max_revision_chapters_per_round s,
      rl_remaining_calls = br_max_provider_calls run - br_provider_calls run,
      rl_remaining_tokens = br_max_total_tokens run - br_used_tokens run,
      rl_remaining_cost = br_max_estimated_cost run - br_spent_cost run\<rparr>"

definition targeted_revision :: "book_env \<Rightarrow> db \<Rightarrow> int \<Rightarrow> int \<Rightarrow> db \<times> unit result" where
  "targeted_revision env db run_id chapter_number =
     and_run (db, run_state db run_id) (\<lambda>db0 (run, _).
     and_run (be_revise_chapter env db0 (br_project_id run) chapter_number (br_max_chapter_retries run))
       (\<lambda>db1 (workflow_id, status).
     if status \<noteq> WorkflowRunStatus_COMPLETED then (db1, Inl InvalidStateError)
     else
       and_run (ran db1 (record_chapter_completion (be_settings env) (be_hash env) db1 run_id
                  chapter_number workflow_id status (be_uuid env 0) (be_now env 0))) (\<lambda>db2 _.
       ran db2 (update_usage db2 (be_calls env 0) run_id workflow_id))))"

fun targeted_revisions :: "book_env \<Rightarrow> db \<Rightarrow> int \<Rightarrow> revision_task list \<Rightarrow> db \<times> unit result" where
  "targeted_revisions env db run_id [] = (db, Inr ())"
| "targeted_revisions env db run_id (t # ts) =
     and_run (targeted_revision env db run_id (rt_chapter_number t)) (\<lambda>db1 _.
     targeted_revisions env db1 run_id ts)"

text \<open>The transaction after the revisions.\<close>

definition impacted :: "revision_task list \<Rightarrow> (string \<times> string) list" where
  "impacted tasks =
     foldl (\<lambda>m n. dict_set (int_str n) ''recheck_required'' m) [] (concat (map rt_affected_future_chapters tasks))"

definition end_revision_txn ::
  "book_env \<Rightarrow> db \<Rightarrow> int \<Rightarrow> int \<Rightarrow> revision_task list \<Rightarrow> (db \<times> unit) result" where
  "end_revision_txn env db run_id snapshot_id tasks =
     (let db1 = be_plan_completed env db snapshot_id
      in case get_book_run db1 run_id of
           None \<Rightarrow> commit db1 ()
         | Some run \<Rightarrow>
             and_then (transition_book_run run BookRunStatus_GLOBAL_REVIEW (be_now env 0)) (\<lambda>run1.
             commit (save_book_run db1 (run1\<lparr>br_impacted_chapters := impacted tasks\<rparr>)) ()))"

definition revision_or_review ::
  "book_env \<Rightarrow> db \<Rightarrow> int \<Rightarrow> int \<Rightarrow> book_verdict \<Rightarrow> db \<times> unit result" where
  "revision_or_review env db run_id snapshot_id verdict =
     (let now = be_now env 0 in
      and_run (ran db (start_revision_txn db run_id verdict now)) (\<lambda>db1 started.
      case started of
        None \<Rightarrow> be_accept_snapshot env db1 snapshot_id True
      | Some run \<Rightarrow>
          and_run (be_revision_plan env db1 snapshot_id (br_current_global_revision_round run) verdict
                     (remaining_limits (be_settings env) run)) (\<lambda>db2 tasks.
          and_run (targeted_revisions env db2 run_id tasks) (\<lambda>db3 _.
          and_run (ran db3 (end_revision_txn env db3 run_id snapshot_id tasks)) (\<lambda>db4 _.
          and_run (be_build_snapshot env db4 run_id) (\<lambda>db5 revised_id.
          and_run (be_analyze env db5 revised_id) (\<lambda>db6 revised.
          if vd_passed revised then
            and_run (be_accept_snapshot env db6 revised_id False) (\<lambda>db7 _.
            ran db7 (finish_completed db7 run_id revised_id now))
          else
            and_run (be_accept_snapshot env db6 revised_id True) (\<lambda>db7 _.
            ran db7 (finish_needs_review db7 run_id (vd_blocking_reasons revised) now)))))))))"

definition global_review :: "book_env \<Rightarrow> db \<Rightarrow> int \<Rightarrow> db \<times> unit result" where
  "global_review env db run_id =
     (let now = be_now env 0 in
      and_run (ran db (be_control env ''build_book_snapshot'' db now)) (\<lambda>db1 _.
      and_run (ran db1 (set_global_review db1 run_id now)) (\<lambda>db2 _.
      and_run (be_build_snapshot env db2 run_id) (\<lambda>db3 snapshot_id.
      and_run (ran db3 (be_control env ''run_global_analysis'' db3 now)) (\<lambda>db4 _.
      and_run (be_analyze env db4 snapshot_id) (\<lambda>db5 verdict.
      if vd_passed verdict then
        and_run (be_accept_snapshot env db5 snapshot_id False) (\<lambda>db6 _.
        ran db6 (finish_completed db6 run_id snapshot_id now))
      else revision_or_review env db5 run_id snapshot_id verdict))))))"

section \<open>The whole run: execute\<close>

record book_result =
  bx_book_run_id :: int
  bx_status :: book_run_status
  bx_completed_chapters :: int
  bx_accepted_chapters :: int
  bx_chapter_revisions :: int
  bx_global_revision_rounds :: int
  bx_snapshot_id :: "int option"

definition revision_count :: "db \<Rightarrow> int \<Rightarrow> int" where
  "revision_count db project_id =
     int (length (filter (\<lambda>c. ch_project_id c = project_id \<and> 1 < ch_version c) (t_rows (db_chapters db))))"

definition book_result_of :: "db \<Rightarrow> int \<Rightarrow> book_result result" where
  "book_result_of db run_id =
     and_then (run_for_update db run_id) (\<lambda>run.
     Inr \<lparr>bx_book_run_id = br_id run, bx_status = br_status run,
          bx_completed_chapters = br_completed_chapters run, bx_accepted_chapters = br_accepted_chapters run,
          bx_chapter_revisions = revision_count db (br_project_id run),
          bx_global_revision_rounds = br_current_global_revision_round run,
          bx_snapshot_id = br_book_snapshot_id run\<rparr>)"

definition execute_book :: "book_env \<Rightarrow> nat \<Rightarrow> db \<Rightarrow> int \<Rightarrow> db \<times> book_result option result" where
  "execute_book env fuel db run_id =
     and_run (ran db (initialize db run_id (be_now env 0))) (\<lambda>db1 _.
     and_run (book_loop env fuel 1 db1 run_id) (\<lambda>db2 outcome.
     if outcome = None then (db2, Inr None)
     else
       and_run (if outcome = Some Chapters_Done then global_review env db2 run_id else (db2, Inr ())) (\<lambda>db3 _.
       and_run (db3, book_result_of db3 run_id) (\<lambda>db4 r. (db4, Inr (Some r))))))"

text \<open>
  \<open>_run_book\<close>, the job handler (\<open>jobs/handlers.py\<close>): what the run is marked with when \<open>execute\<close>
  raises; an exception of the mark replaces the original one.
\<close>

definition run_book_handler :: "book_env \<Rightarrow> nat \<Rightarrow> db \<Rightarrow> int \<Rightarrow> string \<Rightarrow> db \<times> book_result option result" where
  "run_book_handler env fuel db run_id rendered =
     and_run (ran db (be_control env ''initialize_book_run'' db (be_now env 0))) (\<lambda>db0 _.
     case execute_book env fuel db0 run_id of
       (db1, Inr r) \<Rightarrow> (db1, Inr r)
     | (db1, Inl error) \<Rightarrow>
         and_run (ran db1
           (if error = JobPauseRequested then mark_paused db1 run_id (be_now env 0)
            else if error = JobCancellationRequested then mark_cancelled db1 run_id (be_now env 0)
            else mark_failed db1 run_id error rendered (be_now env 0))) (\<lambda>db2 _. (db2, Inl error)))"

end
