(* ===== verification/Book_Steps.thy ===== *)
theory Book_Steps
  imports Dispatcher_System Book_Execution
begin

text \<open>
  The transactions of full-book runs as the job subsystem sees them: the creation of a run admits its
  job, the start of a chapter workflow links the job, a finished chapter inserts a child job that is
  already succeeded, and every other transaction leaves jobs and events alone.
  First what the insertion of a job row means: \<open>create\<close> admits one job in its first state with its first
  event, or returns a stored one.
\<close>

section \<open>Admission\<close>

lemma no_events_for_fresh:
  assumes "db_ok db" and "get_job db i = None"
  shows "events_of db i = []" "event_numbers db i = []"
  using assms by (auto simp: db_ok_def events_ok_def events_of_def event_numbers_def filter_empty_conv)

lemma struct_ok_add_job:
  assumes ok: "struct_ok db" "db_ok db" and seq: "j_event_sequence j = 0"
  shows "struct_ok (fst (add_job db j))"
proof -
  have keys: "keys_ok db" using ok(1) by (rule struct_ok_keys)
  have fresh: "event_numbers db (t_next (db_jobs db)) = []"
    using no_events_for_fresh(2) [OF ok(2) get_job_fresh [OF keys]] .
  have same: "event_numbers (fst (add_job db j)) = event_numbers db"
    by (simp add: event_numbers_def fun_eq_iff)
  show ?thesis
    using ok(1) keys seq fresh
    by (auto simp: struct_ok_def events_numbered_def add_job_rows same)
qed

definition admitted_control :: "settings \<Rightarrow> job_definition \<Rightarrow> job_control" where
  "admitted_control s d = \<lparr>c_status = JobStatus_OUTBOX_PENDING, c_attempt = 0,
     c_max_attempts = min (jd_max_attempts d) (s_job_max_attempts s), c_worker = None,
     c_lease = None, c_heartbeat = None, c_started = None, c_finished = None\<rparr>"

definition admits :: "settings \<Rightarrow> db \<Rightarrow> db \<Rightarrow> int \<Rightarrow> bool" where
  "admits s db db' i \<longleftrightarrow> get_job db i = None \<and> others_unchanged db db' i \<and>
     event_types_of db' i = [JobEventType_JOB_CREATED] \<and>
     (\<exists>j d. get_job db' i = Some j \<and> d \<in> set job_definitions \<and> control j = admitted_control s d)"

lemma create_txn_admits:
  assumes ok: "struct_ok db" "db_ok db" and d: "d \<in> set job_definitions"
    and op: "create_txn s db q d payload key uuid now = Inr (db', r)"
  shows "admits s db db' (cr_job_id r) \<and> struct_ok db' \<and> db_ok db' \<and> \<not> cr_reused r \<and>
    (\<exists>j. get_job db' (cr_job_id r) = Some j \<and> j_idempotency_key j = key)"
proof -
  let ?new = "new_job s q d payload key uuid now"
  let ?i = "t_next (db_jobs db)"
  obtain db1 job1 where add: "add_job db ?new = (db1, job1)" by fastforce
  from op add obtain db2 job2 e
    where ok1: "db_ok db1"
      and ev: "service_event db1 job1 JobEventType_JOB_CREATED ''job.created'' ''Job created''
                 None now = Inr (db2, job2, e)"
      and fin: "db' = fst (create_outbox db2 job2 ''create'' now)" "db_ok db'"
      and r: "r = \<lparr>cr_job_id = j_id job2, cr_reused = False\<rparr>"
    by (auto simp: create_txn_def simp del: service_event_Inr)
  have db1: "db1 = fst (add_job db ?new)" and job1: "job1 = ?new\<lparr>j_id := ?i\<rparr>"
    using add add_job_row [of db ?new] by (metis fst_conv, metis snd_conv)
  have keys: "keys_ok db" using ok(1) by (rule struct_ok_keys)
  have get1: "get_job db1 k = (if k = ?i then Some job1 else get_job db k)" for k
    unfolding db1 job1 using get_job_add [OF keys] by simp
  have evs: "events_of db1 = events_of db" unfolding db1 by (simp add: events_of_def fun_eq_iff)
  have "struct_ok db1" unfolding db1 by (rule struct_ok_add_job [OF ok]) (simp add: new_job_def)
  then have "session db ?i db1 job1 []"
    using get1 evs get_job_fresh [OF keys]
    by (simp add: session_def others_unchanged_def event_types_of_def job1)
  note s2 = session_service_event [OF this ev]
  have q: "quiet db2 db'" using fin by simp
  note s = session_quiet [OF s2(1) q]
  have id: "j_id job2 = ?i" using s by (simp add: session_def)
  have none: "get_job db ?i = None" using get_job_fresh [OF keys] .
  have "event_types_of db ?i = []" using no_events_for_fresh(1) [OF ok(2) none] by (simp add: event_types_of_def)
  moreover have "get_job db' ?i = Some job2" using s2(2) quiet_jobs [OF q] by simp
  moreover have "control job2 = admitted_control s d"
    using s2(3) by (simp add: job1 new_job_def admitted_control_def control_def)
  moreover have "j_idempotency_key job2 = key"
    using ev by (simp add: job1 new_job_def Let_def)
  ultimately show ?thesis
    using s d none r id fin(2) by (auto simp: admits_def session_def)
qed

lemma definition_of_member: "definition_of t \<in> set job_definitions"
  using definition_of_ok(1) [of t] by (auto simp: registry_get_def dest: find_SomeD)

lemma create_cases:
  assumes ok: "struct_ok db" "db_ok db"
    and op: "create_between hexdigest s seen db after q uuid now = Inr (db', r)"
  shows "(db' = db \<and> cr_reused r) \<or>
    (admits s db db' (cr_job_id r) \<and> \<not> cr_reused r \<and> struct_ok db' \<and> db_ok db' \<and>
     (\<exists>j. get_job db' (cr_job_id r) = Some j \<and>
        j_idempotency_key j = idempotency_key hexdigest q (normalized_payload (q_payload q))))"
proof -
  let ?d = "definition_of (q_job_type q)"
  let ?p = "normalized_payload (q_payload q)"
  let ?key = "idempotency_key hexdigest q ?p"
  show ?thesis
  proof (cases "get_by_idempotency_key seen ?key")
    case (Some j)
    then show ?thesis using op by (auto simp: create_between_def definition_of_ok Let_def)
  next
    case None
    show ?thesis
    proof (cases "create_txn s db q ?d ?p ?key uuid now")
      case (Inl e)
      then show ?thesis using op None
        by (cases e) (auto simp: create_between_def definition_of_ok Let_def split: option.splits)
    next
      case (Inr x)
      then have "create_txn s db q ?d ?p ?key uuid now = Inr (db', r)"
        using op None by (auto simp: create_between_def definition_of_ok Let_def)
      from create_txn_admits [OF ok definition_of_member this] show ?thesis by simp
    qed
  qed
qed


section \<open>Laws of the run rows\<close>

lemma book_run_frame [simp]:
  "db_jobs (save_book_run db r) = db_jobs db" "db_events (save_book_run db r) = db_events db"
  "db_outbox (save_book_run db r) = db_outbox db" "db_projects (save_book_run db r) = db_projects db"
  "db_chapters (save_book_run db r) = db_chapters db"
  "db_workflow_runs (save_book_run db r) = db_workflow_runs db"
  "db_workers (save_book_run db r) = db_workers db"
  by (simp_all add: save_book_run_def)

lemma add_book_run_frame [simp]:
  "db_jobs (fst (add_book_run db r)) = db_jobs db" "db_events (fst (add_book_run db r)) = db_events db"
  "db_outbox (fst (add_book_run db r)) = db_outbox db"
  "db_projects (fst (add_book_run db r)) = db_projects db"
  by (simp_all add: add_book_run_def repo_add_def Let_def)

lemma get_job_book_run [simp]:
  "get_job (save_book_run db r) = get_job db" "get_job (fst (add_book_run db r)) = get_job db"
  "get_project (save_book_run db r) = get_project db"
  "get_workflow_run (save_book_run db r) = get_workflow_run db"
  "get_chapter (save_book_run db r) = get_chapter db"
  by (rule lookup_frame, simp)+

lemma get_book_run_save [simp]:
  "get_book_run (save_book_run db r) i =
     (if i = br_id r then map_option (\<lambda>_. r) (get_book_run db i) else get_book_run db i)"
  unfolding get_book_run_def save_book_run_def by (simp add: book_runs.get_save)

lemma get_book_run_id: "get_book_run db i = Some r \<Longrightarrow> br_id r = i"
  unfolding get_book_run_def using book_runs.get_Some by metis

lemma get_book_run_frame: "db_book_runs db' = db_book_runs db \<Longrightarrow> get_book_run db' = get_book_run db"
  by (rule ext) (simp add: get_book_run_def)

lemma get_book_run_add:
  "keys_ok db \<Longrightarrow> get_book_run (fst (add_book_run db r)) i =
     (if i = t_next (db_book_runs db) then Some (r\<lparr>br_id := i\<rparr>) else get_book_run db i)"
  unfolding get_book_run_def keys_ok_def
  using book_runs.get_add [of "db_book_runs db" r i] by (simp add: add_book_run_def repo_add_def Let_def)

lemma add_book_run_row: "snd (add_book_run db r) = r\<lparr>br_id := t_next (db_book_runs db)\<rparr>"
  by (simp add: add_book_run_def repo_add_def Let_def)

lemma get_book_run_fresh: "keys_ok db \<Longrightarrow> get_book_run db (t_next (db_book_runs db)) = None"
  unfolding get_book_run_def keys_ok_def using book_runs.get_fresh by metis

lemma quiet_save_book_run [simp]: "quiet db (save_book_run db r)"
  by (auto simp: quiet_def keys_ok_def save_book_run_def book_runs.ok_save)

lemma quiet_add_book_run [simp]: "quiet db (fst (add_book_run db r))"
  using book_runs.ok_add [of "db_book_runs db" r]
  by (auto simp: quiet_def keys_ok_def add_book_run_def split_def Let_def)

lemma keys_ok_book_run [simp]:
  "keys_ok db \<Longrightarrow> keys_ok (save_book_run db r)" "keys_ok db \<Longrightarrow> keys_ok (fst (add_book_run db r))"
  using quiet_save_book_run [of db r] quiet_add_book_run [of db r] by (simp_all add: quiet_def)

text \<open>A change of a run that keeps its identity and does not make it active again breaks no constraint.\<close>

lemma db_ok_save_book_run:
  assumes ok: "db_ok db" "keys_ok db" and r: "get_book_run db (br_id r') = Some r"
    and same: "br_project_id r' = br_project_id r" "br_thread_id r' = br_thread_id r"
      "br_idempotency_key r' = br_idempotency_key r" "br_job_id r' = br_job_id r"
      "br_workflow_run_id r' = br_workflow_run_id r"
    and act: "book_run_active r' \<Longrightarrow> book_run_active r" and row: "book_run_row_ok r'"
  shows "db_ok (save_book_run db r')"
proof -
  let ?db = "save_book_run db r'"
  let ?rows = "t_rows (db_book_runs db)"
  have only: "x = r" if "x \<in> set ?rows" "br_id x = br_id r'" for x
    using that r book_runs.get_row [of "db_book_runs db" x] ok(2)
    by (auto simp: get_book_run_def keys_ok_def)
  have mem: "r \<in> set ?rows" using r book_runs.get_Some unfolding get_book_run_def by metis
  have rows: "t_rows (db_book_runs ?db) = map (\<lambda>x. if br_id x = br_id r' then r' else x) ?rows"
    by (simp add: save_book_run_def repo_save_def)
  note b = ok(1) [unfolded db_ok_def book_runs_ok_def]
  have uniq: "unique_where p col (t_rows (db_book_runs ?db))"
    if "unique_where p col ?rows" "col r' = col r" "p r' \<Longrightarrow> p r" for p and col :: "book_run \<Rightarrow> 'v"
    unfolding rows by (rule unique_where_save [OF that(1)]) (use only that(2,3) in auto)
  have all: "book_run_row_ok x \<and> get_project db (br_project_id x) \<noteq> None \<and>
      references (get_job db) (br_job_id x) \<and> references (get_workflow_run db) (br_workflow_run_id x)"
    if "x \<in> set (t_rows (db_book_runs ?db))" for x
  proof (cases "x = r'")
    case True
    then show ?thesis using b mem row same by simp
  next
    case False
    then have "x \<in> set ?rows" using that unfolding rows by auto
    then show ?thesis using b by simp
  qed
  have "book_runs_ok ?db"
    unfolding book_runs_ok_def
  proof (intro conjI ballI)
    show "unique_where book_run_active br_project_id (t_rows (db_book_runs ?db))"
      by (rule uniq) (use b same(1) act in simp_all)
    show "unique_where (\<lambda>_. True) br_thread_id (t_rows (db_book_runs ?db))"
      by (rule uniq) (use b same(2) in simp_all)
    show "unique_where (\<lambda>_. True) br_idempotency_key (t_rows (db_book_runs ?db))"
      by (rule uniq) (use b same(3) in simp_all)
    show "unique_where (\<lambda>r. br_job_id r \<noteq> None) br_job_id (t_rows (db_book_runs ?db))"
      by (rule uniq) (use b same(4) in simp_all)
  qed (use all in simp_all)
  moreover have "repo_get br_id (db_book_runs ?db) i \<noteq> None" if "repo_get br_id (db_book_runs db) i \<noteq> None" for i
    using that get_book_run_save [of db r' i] by (auto simp: get_book_run_def split: if_splits)
  then have "references (repo_get br_id (db_book_runs ?db)) x"
    if "references (repo_get br_id (db_book_runs db)) x" for x
    using that by (rule references_cong)
  then have "job_refs_ok ?db j" if "job_refs_ok db j" for j
    using that by (simp add: job_refs_ok_def)
  ultimately show ?thesis
    using b by (auto simp: db_ok_def chapters_ok_def workflow_runs_ok_def jobs_ok_def events_ok_def
        outbox_ok_def workers_ok_def)
qed

lemma db_book_runs_emitted [simp]: "db_book_runs (emitted db j e) = db_book_runs db"
  by (simp add: emitted_def)

lemma add_ordered_emitted:
  "get_job db (e_job_id event) = Some job \<Longrightarrow>
   add_ordered db event = Inr (emitted db job event,
     event\<lparr>e_sequence := j_event_sequence job + 1, e_id := t_next (db_events db)\<rparr>)"
  by (simp add: add_ordered_def emitted_def bumped_def Let_def add_event_row_def repo_add_def save_job_def)

section \<open>The writing transaction\<close>

text \<open>The committed state of a new run, built from its four insertions.\<close>

definition admitted_run :: "settings \<Rightarrow> db \<Rightarrow> project \<Rightarrow> chapter_row list \<Rightarrow> book_run_request \<Rightarrow> string \<Rightarrow> string \<Rightarrow> time \<Rightarrow> book_run" where
  "admitted_run s db project chapters q key thread_id now =
     (new_book_run s project chapters q key thread_id now)
       \<lparr>br_id := t_next (db_book_runs db), br_job_id := Some (t_next (db_jobs db))\<rparr>"

definition admitted_job :: "settings \<Rightarrow> db \<Rightarrow> job_definition \<Rightarrow> int \<Rightarrow> string \<Rightarrow> string \<Rightarrow> time \<Rightarrow> job" where
  "admitted_job s db d project_id job_key uuid now =
     (new_book_job s d project_id (t_next (db_book_runs db)) job_key uuid now)\<lparr>j_id := t_next (db_jobs db)\<rparr>"

lemma create_run_txn_parts:
  assumes keys: "keys_ok db"
    and op: "create_run_txn s db p q external key job_key thread_id uuid now = Inr (db', a)"
    and new: "\<not> ba_reused a"
  obtains project d run job db3 event where
    "get_project db p = Some project" "registry_get JobType_RUN_BOOK = Inr d"
    "active_book_run db p = None"
    "run = admitted_run s db project (chapters_of_project db p) q key thread_id now"
    "job = admitted_job s db d p job_key uuid now"
    "event = event_for job JobEventType_JOB_CREATED ''book_run.created'' ''Book run job created'' None None now"
    "db3 = save_book_run (fst (add_job (fst (add_book_run db (new_book_run s project (chapters_of_project db p) q key thread_id now)))
             (new_book_job s d p (t_next (db_book_runs db)) job_key uuid now))) run"
    "get_job db3 (j_id job) = Some job"
    "db' = fst (add_outbox (emitted db3 job event) (enqueue_message job now (outbox_key job ''create'') now))"
    "db_ok db'" "ba_book_run_id a = br_id run" "ba_job_id a = j_id job"
proof -
  obtain project where project: "get_project db p = Some project"
    using op by (auto simp: create_run_txn_def split: option.splits)
  let ?cs = "chapters_of_project db p"
  have none: "active_book_run db p = None"
    using op project new
    by (auto simp: create_run_txn_def accepted_def Let_def split: option.splits if_splits)
  let ?new = "new_book_run s project ?cs q key thread_id now"
  obtain db1 run0 where add: "add_book_run db ?new = (db1, run0)" by fastforce
  have db1: "db1 = fst (add_book_run db ?new)" "run0 = ?new\<lparr>br_id := t_next (db_book_runs db)\<rparr>"
    using arg_cong [OF add, of snd] arg_cong [OF add, of fst] by (simp_all add: add_book_run_row)
  obtain d where d: "registry_get JobType_RUN_BOOK = Inr d"
    using definition_of_ok(1) [of JobType_RUN_BOOK] by blast
  let ?job0 = "new_book_job s d p (t_next (db_book_runs db)) job_key uuid now"
  obtain db2 job where addj: "add_job db1 ?job0 = (db2, job)" by fastforce
  have jobs1: "db_jobs db1 = db_jobs db" "keys_ok db1" using db1 keys by simp_all
  have job: "job = admitted_job s db d p job_key uuid now" "db2 = fst (add_job db1 ?job0)"
    using arg_cong [OF addj, of snd] arg_cong [OF addj, of fst] jobs1(1)
    by (simp_all add: admitted_job_def add_job_row)
  let ?run = "admitted_run s db project ?cs q key thread_id now"
  have jid: "j_id job = t_next (db_jobs db)" by (simp add: job(1) admitted_job_def)
  have run: "run0\<lparr>br_job_id := Some (j_id job)\<rparr> = ?run" "br_id run0 = t_next (db_book_runs db)"
    by (simp_all add: db1(2) jid admitted_run_def)
  let ?db3 = "save_book_run db2 ?run"
  have get3: "get_job ?db3 (j_id job) = Some job"
    using get_job_add [OF jobs1(2), of ?job0 "j_id job"] jobs1(1) jid
    by (simp add: job admitted_job_def)
  let ?e = "event_for job JobEventType_JOB_CREATED ''book_run.created'' ''Book run job created'' None None now"
  have e: "e_job_id ?e = j_id job" by (simp add: event_for_def)
  have "add_ordered ?db3 ?e = Inr (emitted ?db3 job ?e,
      ?e\<lparr>e_sequence := j_event_sequence job + 1, e_id := t_next (db_events ?db3)\<rparr>)"
    by (rule add_ordered_emitted) (unfold e, rule get3)
  note ordered = this
  let ?db4 = "fst (add_outbox (emitted ?db3 job ?e) (enqueue_message job now (outbox_key job ''create'') now))"
  have req: "require (int (length ?cs) = pr_target_chapters project) InvalidStateError = Inr ()"
    "require (map ch_chapter_number ?cs = [1..pr_target_chapters project]) InvalidStateError = Inr ()"
    using op project by (auto simp: create_run_txn_def Let_def)
  have "create_run_txn s db p q external key job_key thread_id uuid now =
      and_then (accepted ?run False) (commit ?db4)"
    unfolding create_run_txn_def project or_raise.simps and_then.simps Let_def req none option.case add
      prod.case d run addj ordered by (simp only: split_def)
  then have "and_then (accepted ?run False) (commit ?db4) = Inr (db', a)" using op by simp
  then have fin: "db' = ?db4" "db_ok db'" "ba_book_run_id a = br_id ?run" "ba_job_id a = j_id job"
    using jid by (auto simp: accepted_def admitted_run_def)
  show thesis
    by (rule that [OF project d none refl job(1) refl _ get3 fin(1,2)])
      (use job(2) db1(1) fin(3,4) in simp_all)
qed

text \<open>The new run's transaction is an admission for the job subsystem.\<close>

lemma create_run_txn_admits:
  assumes ok: "struct_ok db" "db_ok db"
    and op: "create_run_txn s db p q external key job_key thread_id uuid now = Inr (db', a)"
    and new: "\<not> ba_reused a"
  shows "admits s db db' (ba_job_id a) \<and> struct_ok db' \<and> db_ok db'"
proof -
  have keys: "keys_ok db" using ok(1) by (rule struct_ok_keys)
  show ?thesis
  proof (rule create_run_txn_parts [OF keys op new])
    fix project d run job db3 event
    assume d: "registry_get JobType_RUN_BOOK = Inr d"
      and job: "job = admitted_job s db d p job_key uuid now"
      and event: "event = event_for job JobEventType_JOB_CREATED ''book_run.created''
        ''Book run job created'' None None now"
      and db3: "db3 = save_book_run (fst (add_job (fst (add_book_run db (new_book_run s project
          (chapters_of_project db p) q key thread_id now)))
             (new_book_job s d p (t_next (db_book_runs db)) job_key uuid now))) run"
      and get3: "get_job db3 (j_id job) = Some job"
      and db': "db' = fst (add_outbox (emitted db3 job event) (enqueue_message job now (outbox_key job ''create'') now))"
      and fin: "db_ok db'" "ba_job_id a = j_id job"
    let ?i = "t_next (db_jobs db)"
    let ?db1 = "fst (add_book_run db (new_book_run s project (chapters_of_project db p) q key thread_id now))"
    let ?job0 = "new_book_job s d p (t_next (db_book_runs db)) job_key uuid now"
    have id: "j_id job = ?i" by (simp add: job admitted_job_def)
    have none: "get_job db ?i = None" by (rule get_job_fresh [OF keys])
    have jobs1: "db_jobs ?db1 = db_jobs db" "db_events ?db1 = db_events db" "keys_ok ?db1"
      using keys by simp_all
    have s1: "struct_ok ?db1" by (rule struct_ok_frame [OF ok(1) jobs1(3,1,2)])
    have "events_of ?db1 ?i = []" "event_numbers ?db1 ?i = []"
      using no_events_for_fresh [OF ok(2) none] by (simp_all add: events_of_def event_numbers_def)
    then have "struct_ok (fst (add_job ?db1 ?job0))"
      using s1 jobs1 by (auto simp: struct_ok_def events_numbered_def add_job_rows event_numbers_def new_book_job_def)
    then have s3: "struct_ok db3"
      unfolding db3 by (rule struct_ok_frame) (use keys in simp_all)
    have others: "get_job db3 k = get_job db k" if "k \<noteq> ?i" for k
      using that get_job_add [OF jobs1(3), of ?job0 k] by (simp add: db3)
    have evs: "events_of db3 = events_of db" by (simp add: db3 events_of_def fun_eq_iff)
    have "session db ?i db3 job []"
      using s3 get3 id others evs none
      by (simp add: session_def others_unchanged_def event_types_of_def)
    note em = session_emit [OF this, of event]
    have e: "e_job_id event = j_id job" "e_event_type event = JobEventType_JOB_CREATED"
      by (simp_all add: event event_for_def)
    have q: "quiet (emitted db3 job event) db'" unfolding db' by (simp add: quiet_def)
    note s = session_quiet [OF em(1) [OF e(1)] q]
    have "event_types_of db ?i = []" using no_events_for_fresh(1) [OF ok(2) none] by (simp add: event_types_of_def)
    moreover have "get_job db' ?i = Some (bumped job event)"
      using em(2) [OF e(1)] quiet_jobs [OF q] by simp
    moreover have "control (bumped job event) = admitted_control s d"
      by (simp add: control_def admitted_control_def job admitted_job_def new_book_job_def bumped_def)
    moreover have "d \<in> set job_definitions" using d by (auto simp: registry_get_def dest: find_SomeD)
    ultimately show ?thesis
      using s none id fin e(2) by (auto simp: admits_def session_def)
  qed
qed

lemma create_run_fresh:
  assumes "create_run s digest hash db p q external_key thread_id uuid now = Inr (db', a)" and "\<not> ba_reused a"
  obtains external key job_key where
    "create_run_txn s db p q external key job_key thread_id uuid now = Inr (db', a)"
proof -
  let ?x = "or_default [] external_key"
  let ?txn = "create_run_txn s db p q (?x \<noteq> []) (digest p q ?x) (hash (''book-job:'' @ digest p q ?x)) thread_id uuid now"
  have "?txn = Inr (db', a)"
  proof (cases ?txn)
    case (Inl e)
    then show ?thesis using assms
      by (cases e) (auto simp: create_run_def create_run_between_def Let_def accepted_def split: option.splits)
  next
    case (Inr x)
    then show ?thesis using assms
      by (auto simp: create_run_def create_run_between_def Let_def accepted_def split: option.splits)
  qed
  then show thesis by (rule that)
qed


lemma accepted_Inr: "accepted run reused = Inr a \<Longrightarrow> ba_reused a = reused"
  by (auto simp: accepted_def split: option.splits)

lemma create_run_txn_reuse:
  assumes "create_run_txn s db p q external key job_key thread_id uuid now = Inr (db', a)" and "ba_reused a"
  shows "db' = db"
proof (cases "active_book_run db p")
  case None
  with assms show ?thesis
    by (auto simp: create_run_txn_def Let_def split_def dest!: accepted_Inr)
next
  case (Some run)
  with assms show ?thesis by (auto simp: create_run_txn_def Let_def split: if_splits)
qed

lemma create_run_cases:
  assumes ok: "struct_ok db" "db_ok db"
    and op: "create_run_between s digest hash seen db after p q external_key thread_id uuid now = Inr (db', a)"
  shows "db' = db \<or> (admits s db db' (ba_job_id a) \<and> struct_ok db' \<and> db_ok db')"
proof -
  let ?x = "or_default [] external_key"
  let ?txn = "create_run_txn s db p q (?x \<noteq> []) (digest p q ?x) (hash (''book-job:'' @ digest p q ?x)) thread_id uuid now"
  have "db' = db \<or> ?txn = Inr (db', a)"
  proof (cases ?txn)
    case (Inl e)
    then show ?thesis using op
      by (cases e) (auto simp: create_run_between_def Let_def accepted_def split: option.splits)
  next
    case (Inr x)
    then show ?thesis using op
      by (auto simp: create_run_between_def Let_def accepted_def split: option.splits)
  qed
  then show ?thesis
    using create_run_txn_admits [OF ok, of s p q _ _ _ thread_id uuid now db' a]
      create_run_txn_reuse [of s db p q _ _ _ thread_id uuid now db' a] by metis
qed

section \<open>Finished chapters\<close>

definition recorded_control :: "job_definition \<Rightarrow> job_control" where
  "recorded_control d = \<lparr>c_status = JobStatus_SUCCEEDED, c_attempt = 0,
     c_max_attempts = jd_max_attempts d, c_worker = None, c_lease = None, c_heartbeat = None,
     c_started = None, c_finished = None\<rparr>"

definition records_child :: "db \<Rightarrow> db \<Rightarrow> int \<Rightarrow> bool" where
  "records_child db db' i \<longleftrightarrow> get_job db i = None \<and> others_unchanged db db' i \<and>
     event_types_of db' i = [JobEventType_JOB_SUCCEEDED] \<and>
     (\<exists>j d. get_job db' i = Some j \<and> d \<in> set job_definitions \<and> control j = recorded_control d)"

lemma records_child_quiet: "records_child db db1 i \<Longrightarrow> quiet db1 db2 \<Longrightarrow> records_child db db2 i"
  by (simp add: records_child_def others_unchanged_def event_types_of_def quiet_jobs quiet_events)

lemma completed_child_records:
  assumes ok: "struct_ok db" and none: "events_of db (t_next (db_jobs db)) = []"
    and op: "completed_child s hash db run n w status uuid now = Inr (db', child)"
  shows "struct_ok db' \<and> (db' = db \<or> records_child db db' (j_id child))"
proof (cases "get_by_idempotency_key db (child_key hash (br_id run) n w)")
  case (Some j)
  then show ?thesis using op ok by (simp add: completed_child_def Let_def)
next
  case None
  obtain d where d: "registry_get JobType_RUN_CHAPTER_WORKFLOW = Inr d"
    using definition_of_ok(1) [of JobType_RUN_CHAPTER_WORKFLOW] by blast
  from op None d obtain c where c: "chapter_by_number db (br_project_id run) n = Some c"
    by (auto simp: completed_child_def Let_def)
  let ?job = "child_job s d run (ch_id c) n w status (child_key hash (br_id run) n w) uuid now"
  obtain db1 job where add: "add_job db ?job = (db1, job)" by fastforce
  let ?i = "t_next (db_jobs db)"
  have db1: "db1 = fst (add_job db ?job)" and job: "job = ?job\<lparr>j_id := ?i\<rparr>"
    using add add_job_row [of db ?job] by (metis fst_conv, metis snd_conv)
  have keys: "keys_ok db" using ok by (rule struct_ok_keys)
  have fresh: "get_job db ?i = None" by (rule get_job_fresh [OF keys])
  have get1: "get_job db1 k = (if k = ?i then Some job else get_job db k)" for k
    unfolding db1 job using get_job_add [OF keys] by simp
  have evs: "events_of db1 = events_of db" unfolding db1 by (simp add: events_of_def fun_eq_iff)
  have "event_numbers db ?i = []" using none by (simp add: events_of_def event_numbers_def)
  then have "struct_ok db1"
    using ok keys unfolding db1
    by (auto simp: struct_ok_def events_numbered_def add_job_rows event_numbers_def child_job_def new_book_job_def)
  then have "session db ?i db1 job []"
    using get1 evs fresh by (simp add: session_def others_unchanged_def event_types_of_def job)
  note s1 = this
  let ?e = "(event_for job JobEventType_JOB_SUCCEEDED ''book.chapter_completed''
      ''Book chapter workflow completed'' None None now)\<lparr>e_attempt := 1\<rparr>"
  have e: "e_job_id ?e = j_id job" "e_event_type ?e = JobEventType_JOB_SUCCEEDED" by simp_all
  have id: "j_id job = ?i" by (simp add: job)
  have get: "get_job db1 (e_job_id ?e) = Some job" using get1 id by simp
  from op None d c add have r: "db' = emitted db1 job ?e" "child = job"
    by (auto simp: completed_child_def Let_def add_ordered_emitted [OF get])
  note s2 = session_emit [OF s1 e(1)]
  have "d \<in> set job_definitions" using d by (auto simp: registry_get_def dest: find_SomeD)
  moreover have "control (bumped job ?e) = recorded_control d"
    by (simp add: job child_job_def new_book_job_def recorded_control_def control_def)
  moreover have "event_types_of db ?i = []" using none by (simp add: event_types_of_def)
  ultimately have "records_child db db' ?i"
    using s2 fresh e(2) unfolding r records_child_def session_def by auto
  then show ?thesis using s2(1) r id by (simp add: session_def)
qed

text \<open>A link edits the job of the run, if there is one.\<close>

lemma edit_job_chain:
  assumes ok: "struct_ok db" and job: "get_job db i = Some j"
    and same: "j_id j' = j_id j" "j_event_sequence j' = j_event_sequence j"
      "j_idempotency_key j' = j_idempotency_key j" "control j' = control j"
  shows "struct_ok (save_job db j') \<and> implements db (save_job db j') i Edited"
proof -
  have "session db i db j' []"
    using session_start [OF ok job] by (rule session_edit) (use same in simp_all)
  note s = session_save [OF this]
  show ?thesis
    using session_end [OF s(1) job s(2) life.linked] same(4) by simp
qed

definition edits :: "(int \<times> job_action) list \<Rightarrow> bool" where
  "edits acts \<longleftrightarrow> set acts \<subseteq> {(k, a). a = Edited}"

lemma edits_simps [simp]: "edits []" "edits [(i, Edited)]" "edits (xs @ ys) = (edits xs \<and> edits ys)"
  by (auto simp: edits_def)

lemma link_book_life:
  assumes ok: "struct_ok db" and op: "link_book_workflow db run_id w = Inr db'"
  shows "struct_ok db' \<and> (\<exists>acts. chain db acts db' \<and> edits acts)"
proof -
  from op obtain run where run: "get_book_run db run_id = Some run"
    by (auto simp: link_book_workflow_def run_for_update_def split: option.splits)
  let ?run = "run\<lparr>br_workflow_run_id := Some w\<rparr>"
  have q: "quiet db (save_book_run db ?run)" by simp
  have ok1: "struct_ok (save_book_run db ?run)" by (rule quiet_struct [OF q ok])
  show ?thesis
  proof (cases "Option.bind (br_job_id run) (get_job (save_book_run db ?run))")
    case None
    then have "db' = save_book_run db ?run"
      using op run by (simp add: link_book_workflow_def run_for_update_def)
    then show ?thesis using ok1 q by (intro conjI exI [of _ "[]"]) (simp_all add: chain_quiet)
  next
    case (Some job)
    then obtain i where i: "br_job_id run = Some i" "get_job (save_book_run db ?run) i = Some job"
      by (auto simp: bind_eq_Some_conv)
    let ?job = "job\<lparr>j_workflow_run_id := Some w\<rparr>"
    have d: "db' = save_job (save_book_run db ?run) ?job"
      using op run Some by (simp add: link_book_workflow_def run_for_update_def)
    have e: "struct_ok db' \<and> implements (save_book_run db ?run) db' i Edited"
      unfolding d by (rule edit_job_chain [OF ok1 i(2)]) simp_all
    then show ?thesis
      using chain_after_quiet [OF chain_one q] by (intro conjI exI [of _ "[(i, Edited)]"]) auto
  qed
qed

lemma record_completion_life:
  assumes ok: "struct_ok db" "db_ok db"
    and op: "record_chapter_completion s hash db run_id n w status uuid now = Inr (db', u)"
  shows "struct_ok db' \<and> db_ok db' \<and>
    (\<exists>acts db1. chain db acts db1 \<and> edits acts \<and> (quiet db1 db' \<or> (\<exists>i. records_child db1 db' i)))"
proof -
  from op obtain run where run: "get_book_run db run_id = Some run"
    by (auto simp: record_chapter_completion_def run_for_update_def split: option.splits)
  define db1 where "db1 = (case Option.bind (br_job_id run) (get_job db) of
                  None \<Rightarrow> db | Some top_job \<Rightarrow> save_job db (top_job\<lparr>j_workflow_run_id := None\<rparr>))"
  from op run obtain db2 child where child: "completed_child s hash db1 run n w status uuid now = Inr (db2, child)"
    and fin: "db' = save_book_run db2 (chapter_recorded run n status (j_id child))" "db_ok db'"
    by (auto simp: record_chapter_completion_def run_for_update_def db1_def)
  have e1: "struct_ok db1 \<and> (\<exists>acts. chain db acts db1 \<and> edits acts)"
  proof (cases "Option.bind (br_job_id run) (get_job db)")
    case None
    then show ?thesis using ok(1) chain_refl by (auto simp: db1_def intro!: exI [of _ "[]"])
  next
    case (Some job)
    then obtain i where i: "get_job db i = Some job" by (auto simp: bind_eq_Some_conv)
    have "struct_ok db1 \<and> implements db db1 i Edited"
      unfolding db1_def Some option.case by (rule edit_job_chain [OF ok(1) i]) simp_all
    then show ?thesis using chain_one by (metis edits_simps(2))
  qed
  have rows: "event_rows db1 = event_rows db" "t_next (db_jobs db1) = t_next (db_jobs db)"
    by (simp_all add: db1_def save_job_def repo_save_def split: option.split)
  have "events_of db (t_next (db_jobs db)) = []"
    using no_events_for_fresh(1) [OF ok(2) get_job_fresh [OF struct_ok_keys [OF ok(1)]]] .
  then have "events_of db1 (t_next (db_jobs db1)) = []" by (simp add: events_of_def rows)
  note c = completed_child_records [OF conjunct1 [OF e1] this child]
  have q: "quiet db2 db'" unfolding fin by simp
  have "struct_ok db'" using c quiet_struct [OF q] by blast
  moreover have "quiet db1 db' \<or> (\<exists>i. records_child db1 db' i)" using c q records_child_quiet by blast
  ultimately show ?thesis using e1 fin(2) by blast
qed

section \<open>Transactions of a run that leave the jobs alone\<close>

definition quiet_txn :: "db \<Rightarrow> (db \<times> 'a) result \<Rightarrow> bool" where
  "quiet_txn db r \<longleftrightarrow> (\<forall>db' a. r = Inr (db', a) \<longrightarrow> quiet db db' \<and> db_ok db')"

lemma quiet_txnI: "(\<And>db' a. r = Inr (db', a) \<Longrightarrow> quiet db db' \<and> db_ok db') \<Longrightarrow> quiet_txn db r"
  by (auto simp: quiet_txn_def)

lemma quiet_txn_simps [simp]:
  "quiet_txn db (Inl e)" "quiet_txn db (commit db a)" "quiet_txn db (commit (save_book_run db r) a)"
  by (auto simp: quiet_txn_def)

lemma quiet_txn_and_then [simp]:
  "quiet_txn db (and_then r f) \<longleftrightarrow> (\<forall>x. r = Inr x \<longrightarrow> quiet_txn db (f x))"
  by (cases r) auto

lemma quiet_book_txns [simp]:
  "quiet_txn db (initialize db i now)" "quiet_txn db (sync_already_accepted db i)"
  "quiet_txn db (mark_chapter_running db i n)" "quiet_txn db (budget_gate_txn db i c t now)"
  "quiet_txn db (update_usage db calls i w)" "quiet_txn db (set_global_review db i now)"
  "quiet_txn db (finish_completed db i snap now)" "quiet_txn db (finish_needs_review db i bs now)"
  "quiet_txn db (record_periodic_txn db i summary now)" "quiet_txn db (start_revision_txn db i v now)"
  "quiet_txn db (mark_paused db i now)" "quiet_txn db (mark_cancelled db i now)"
  "quiet_txn db (mark_failed db i err rendered now)" "quiet_txn db (resume_run_txn db i request now)"
  "quiet_txn db (cancel_run_txn db i now)" "quiet_txn db (cancel_requested_run db i now)"
  by (auto simp: initialize_def sync_already_accepted_def mark_chapter_running_def budget_gate_txn_def
      update_usage_def set_global_review_def finish_completed_def finish_needs_review_def
      record_periodic_txn_def start_revision_txn_def mark_paused_def mark_cancelled_def mark_failed_def
      resume_run_txn_def cancel_run_txn_def cancel_requested_run_def Let_def split: option.split if_splits)

end
