(* ===== verification/Job_Invariants.thy ===== *)
theory Job_Invariants
  imports Book_Steps
begin

text \<open>
  The job subsystem as a labelled transition system over the database: any user, worker and
  dispatcher may run any of its transactions at any time. The invariant \<open>sys_inv\<close> holds in every
  reachable state, and a history of steps carries the actions it performed on each job.
\<close>

section \<open>The invariant\<close>

definition jobs_inv :: "db \<Rightarrow> bool" where
  "jobs_inv db \<longleftrightarrow> (\<forall>i j. get_job db i = Some j \<longrightarrow>
     control_wf (control j) \<and> accounted (control j) (event_types_of db i))"

definition sys_inv :: "db \<Rightarrow> bool" where
  "sys_inv db \<longleftrightarrow> store_inv db \<and> jobs_inv db"

lemma jobs_inv_implements: "implements db db' i a \<Longrightarrow> jobs_inv db \<Longrightarrow> jobs_inv db'"
  unfolding implements_def jobs_inv_def others_unchanged_def event_types_of_def
  by (metis life_wf life_accounted option.inject)

lemma jobs_inv_quiet: "quiet db db' \<Longrightarrow> jobs_inv db \<Longrightarrow> jobs_inv db'"
  by (simp add: jobs_inv_def quiet_jobs quiet_events event_types_of_def)

lemma jobs_inv_chain: "chain db acts db' \<Longrightarrow> jobs_inv db \<Longrightarrow> jobs_inv db'"
  by (induction rule: chain.induct) (auto intro: jobs_inv_implements jobs_inv_quiet)

lemma admitted_ok:
  assumes "settings_ok s" and "d \<in> set job_definitions"
  shows "control_wf (admitted_control s d)"
    "accounted (admitted_control s d) [JobEventType_JOB_CREATED]"
proof -
  have "1 \<le> jd_max_attempts d" using assms(2) by (auto simp: job_definitions_def)
  then show "accounted (admitted_control s d) [JobEventType_JOB_CREATED]"
    using settings_ok_bounds(1) [OF assms(1)] by (simp add: admitted_control_def accounted_def)
qed (simp add: admitted_control_def control_wf_def terminal_job_statuses_def)

lemma recorded_ok:
  assumes "d \<in> set job_definitions"
  shows "control_wf (recorded_control d)" "accounted (recorded_control d) [JobEventType_JOB_SUCCEEDED]"
  using assms
  by (auto simp: recorded_control_def control_wf_def accounted_def terminal_job_statuses_def
      claimable_statuses_def job_definitions_def)

text \<open>The two kinds of new job rows.\<close>

definition inserts :: "settings \<Rightarrow> db \<Rightarrow> db \<Rightarrow> int \<Rightarrow> bool" where
  "inserts s db db' i \<longleftrightarrow> admits s db db' i \<or> records_child db db' i"

lemma inserts_fresh: "inserts s db db' i \<Longrightarrow> get_job db i = None \<and> others_unchanged db db' i"
  by (auto simp: inserts_def admits_def records_child_def)

lemma jobs_inv_admits: "settings_ok s \<Longrightarrow> admits s db db' i \<Longrightarrow> jobs_inv db \<Longrightarrow> jobs_inv db'"
  unfolding admits_def jobs_inv_def others_unchanged_def event_types_of_def
  by (metis admitted_ok option.inject)

lemma jobs_inv_records: "records_child db db' i \<Longrightarrow> jobs_inv db \<Longrightarrow> jobs_inv db'"
  unfolding records_child_def jobs_inv_def others_unchanged_def event_types_of_def
  by (metis recorded_ok option.inject)

lemma jobs_inv_inserts: "settings_ok s \<Longrightarrow> inserts s db db' i \<Longrightarrow> jobs_inv db \<Longrightarrow> jobs_inv db'"
  unfolding inserts_def using jobs_inv_admits jobs_inv_records by blast

section \<open>The transition system\<close>

text \<open>
  The label of a step lists the actions it performs, job by job; where an operation finds its
  job itself, the label is any chain of its kind of action that leads to its result (the
  lemmas \<open>published_is_step\<close> and following show that there is always one). The transactions of book
  runs that touch jobs are steps of their own: the creation of a run, the link of a chapter workflow
  (made inside the transaction that starts the workflow) and the record of a finished chapter.
  \<open>other\<close> is any committed transaction that touches neither job rows nor job events: planning,
  chapters, memory, usage, worker rows, and the remaining transactions of a book run
  (\<open>quiet_book_txns\<close>).
\<close>

inductive job_step ::
  "(json \<Rightarrow> string) \<Rightarrow> settings \<Rightarrow> db \<Rightarrow> (int \<times> job_action) list \<Rightarrow> db \<Rightarrow> bool"
  for hexdigest s where
  step_create: "create_between hexdigest s seen db after q uuid now = Inr (db', r) \<Longrightarrow>
    job_step hexdigest s db [] db'"
| step_cancel: "request_cancel db i now = Inr (db', j) \<Longrightarrow>
    job_step hexdigest s db [(i, Cancelled_By_User)] db'"
| step_pause: "request_pause db i now = Inr (db', j) \<Longrightarrow>
    job_step hexdigest s db [(i, Paused_By_User)] db'"
| step_resume: "resume db i now = Inr (db', j) \<Longrightarrow> job_step hexdigest s db [(i, Resumed_By_User)] db'"
| step_retry: "retry_dead_letter db i now = Inr (db', j) \<Longrightarrow>
    job_step hexdigest s db [(i, Retried_By_User)] db'"
| step_discard: "discard_dead_letter db i now = Inr (db', j) \<Longrightarrow> job_step hexdigest s db [(i, Edited)] db'"
| step_control: "check_control bus db i step now = Inr (db', e) \<Longrightarrow> job_step hexdigest s db [(i, Edited)] db'"
| step_progress: "record_event bus db i t code message step progress f now = Inr (db', e) \<Longrightarrow>
    t \<notin> {JobEventType_JOB_LEASED, JobEventType_RESUME_REQUESTED} \<Longrightarrow>
    job_step hexdigest s db [(i, Edited)] db'"
| step_link: "quiet db db1 \<Longrightarrow> quiet (link_in_session db1 i w now) db' \<Longrightarrow> db_ok db' \<Longrightarrow>
    chain db acts db' \<Longrightarrow> edits acts \<Longrightarrow> job_step hexdigest s db acts db'"
| step_create_run: "create_run_between s digest hash seen db after p q key thread_id uuid now = Inr (db', a) \<Longrightarrow>
    job_step hexdigest s db [] db'"
| step_link_run: "quiet db db1 \<Longrightarrow> link_book_workflow db1 run_id w = Inr db2 \<Longrightarrow> quiet db2 db' \<Longrightarrow>
    db_ok db' \<Longrightarrow> chain db acts db' \<Longrightarrow> edits acts \<Longrightarrow> job_step hexdigest s db acts db'"
| step_chapter: "record_chapter_completion s hash db run_id n w status uuid now = Inr (db', u) \<Longrightarrow>
    chain db acts db1 \<Longrightarrow> edits acts \<Longrightarrow> quiet db1 db' \<or> (\<exists>i. records_child db1 db' i) \<Longrightarrow>
    job_step hexdigest s db acts db'"
| step_claim: "claim_job s db i w now = Inr (db', Some j) \<Longrightarrow> job_step hexdigest s db [(i, Claimed w now)] db'"
| step_beat: "heartbeat s db i w now = Inr (db', True) \<Longrightarrow> job_step hexdigest s db [(i, Beat w now)] db'"
| step_succeed: "succeed db i w result now = Inr (db', u) \<Longrightarrow> job_step hexdigest s db [(i, Settled w)] db'"
| step_cancelled: "cancel_running db i w now = Inr (db', u) \<Longrightarrow> job_step hexdigest s db [(i, Settled w)] db'"
| step_paused: "pause_running db i w now = Inr (db', u) \<Longrightarrow> job_step hexdigest s db [(i, Settled w)] db'"
| step_backoff: "retry_or_dead_letter db i w err rendered now = Inr (db', u) \<Longrightarrow>
    job_step hexdigest s db [(i, Settled w)] db'"
| step_fail: "fail_job db i w err rendered now = Inr (db', u) \<Longrightarrow> job_step hexdigest s db [(i, Settled w)] db'"
| step_recover: "recover_expired db now = Inr (db', n) \<Longrightarrow>
    job_step hexdigest s db (map (\<lambda>j. (j_id j, Expired now)) (expired_leases db now 100)) db'"
| step_claim_outbox: "claim_outbox s dispatcher db now = Inr (db', ids) \<Longrightarrow> job_step hexdigest s db [] db'"
| step_published: "record_published db row now = Inr (db', u) \<Longrightarrow> chain db acts db' \<Longrightarrow>
    set acts \<subseteq> {(k, a). a = Published} \<Longrightarrow> job_step hexdigest s db acts db'"
| step_failure: "record_failure s db row err rendered now = Inr (db', u) \<Longrightarrow> chain db acts db' \<Longrightarrow>
    set acts \<subseteq> {(k, a). a = Publish_Failed} \<Longrightarrow> job_step hexdigest s db acts db'"
| step_stranded: "recover_stranded s db now = Inr (db', n) \<Longrightarrow> chain db acts db' \<Longrightarrow>
    set acts \<subseteq> {(i, a). a = Requeued} \<Longrightarrow> job_step hexdigest s db acts db'"
| other: "quiet db db' \<Longrightarrow> db_ok db' \<Longrightarrow> job_step hexdigest s db [] db'"

lemma chain_some:
  "quiet db db' \<or> (\<exists>i. implements db db' i a) \<Longrightarrow>
   \<exists>acts. chain db acts db' \<and> set acts \<subseteq> {(k, b). b = a}"
proof (elim disjE exE)
  assume "quiet db db'"
  then show ?thesis by (intro exI [of _ "[]"]) (simp add: chain_quiet)
next
  fix i assume "implements db db' i a"
  then show ?thesis by (intro exI [of _ "[(i, a)]"]) (simp add: chain_one)
qed

lemma published_is_step:
  "struct_ok db \<Longrightarrow> record_published db row now = Inr (db', u) \<Longrightarrow>
   \<exists>acts. job_step hexdigest s db acts db'"
  using chain_some [of db db' Published] record_published_life [of db row now db' u]
    job_step.step_published by blast

lemma failure_is_step:
  "struct_ok db \<Longrightarrow> record_failure s db row err rendered now = Inr (db', u) \<Longrightarrow>
   \<exists>acts. job_step hexdigest s db acts db'"
  using chain_some [of db db' Publish_Failed] record_failure_life [of db s row err rendered now db' u]
    job_step.step_failure by blast

lemma stranded_is_step:
  "struct_ok db \<Longrightarrow> recover_stranded s db now = Inr (db', n) \<Longrightarrow> \<exists>acts. job_step hexdigest s db acts db'"
  using recover_stranded_life job_step.step_stranded by blast

lemma chain_end_quiet: "chain db acts db1 \<Longrightarrow> quiet db1 db' \<Longrightarrow> chain db acts db'"
  using chain_append [of db acts db1 "[]" db'] by (simp add: chain_quiet)

lemma link_is_step:
  assumes "struct_ok db" and "quiet db db1" and "quiet (link_in_session db1 i w now) db'" and "db_ok db'"
  shows "\<exists>acts. job_step hexdigest s db acts db'"
proof -
  have "link_in_session db1 i w now = db1 \<or> implements db1 (link_in_session db1 i w now) i Edited"
    using link_in_session_life [OF quiet_struct [OF assms(2,1)]] by blast
  then have "\<exists>acts. chain db1 acts (link_in_session db1 i w now) \<and> edits acts"
    by (metis chain_refl chain_one edits_simps(1,2))
  then show ?thesis
    using assms chain_end_quiet chain_after_quiet job_step.step_link by metis
qed

lemma link_run_is_step:
  assumes "struct_ok db" and "quiet db db1" and "link_book_workflow db1 run_id w = Inr db2"
    and "quiet db2 db'" and "db_ok db'"
  shows "\<exists>acts. job_step hexdigest s db acts db'"
proof -
  obtain acts where "chain db1 acts db2" "edits acts"
    using link_book_life [OF quiet_struct [OF assms(2,1)] assms(3)] by blast
  then have "chain db acts db'" using chain_after_quiet chain_end_quiet assms(2,4) by blast
  with \<open>edits acts\<close> show ?thesis using assms job_step.step_link_run by metis
qed

lemma chapter_is_step:
  "struct_ok db \<Longrightarrow> db_ok db \<Longrightarrow>
   record_chapter_completion s hash db run_id n w status uuid now = Inr (db', u) \<Longrightarrow>
   \<exists>acts. job_step hexdigest s db acts db'"
  using record_completion_life [of db s hash run_id n w status uuid now db' u] job_step.step_chapter
  by blast

lemma quiet_txn_is_step:
  "quiet_txn db r \<Longrightarrow> r = Inr (db', a) \<Longrightarrow> job_step hexdigest s db [] db'"
  by (auto simp: quiet_txn_def intro: job_step.other)

section \<open>Steps keep the invariant\<close>

lemma sys_invD: "sys_inv db \<Longrightarrow> struct_ok db" "sys_inv db \<Longrightarrow> db_ok db" "sys_inv db \<Longrightarrow> jobs_inv db"
  by (simp_all add: sys_inv_def store_inv_struct)

lemma sys_inv_wf: "sys_inv db \<Longrightarrow> get_job db i = Some j \<Longrightarrow> control_wf (control j)"
  by (simp add: sys_inv_def jobs_inv_def)

lemma sys_invI: "struct_ok db \<Longrightarrow> db_ok db \<Longrightarrow> jobs_inv db \<Longrightarrow> sys_inv db"
  by (simp add: sys_inv_def store_inv_struct)

text \<open>
  What a step does: it performs the chain of actions of its label, and inserts at most one job.
\<close>

definition step_effect :: "settings \<Rightarrow> db \<Rightarrow> (int \<times> job_action) list \<Rightarrow> db \<Rightarrow> bool" where
  "step_effect s db acts db' \<longleftrightarrow>
     chain db acts db' \<or> (\<exists>db1 i. chain db acts db1 \<and> inserts s db1 db' i)"

lemma step_effect_chain: "chain db acts db' \<Longrightarrow> step_effect s db acts db'"
  by (simp add: step_effect_def)

lemma step_effect_one: "implements db db' i a \<Longrightarrow> step_effect s db [(i, a)] db'"
  by (rule step_effect_chain) (rule chain_one)

lemma step_effect_admits: "admits s db db' i \<Longrightarrow> step_effect s db [] db'"
  using chain_refl by (auto simp: step_effect_def inserts_def)

lemma job_step_effect:
  assumes step: "job_step hexdigest s db acts db'" and inv: "sys_inv db"
  shows "struct_ok db' \<and> db_ok db' \<and> step_effect s db acts db'"
  using step
proof (cases rule: job_step.cases)
  case (step_create seen after q uuid now r)
  from create_cases [OF sys_invD(1,2) [OF inv] step_create(2)] show ?thesis
    using step_create(1) sys_invD [OF inv] by (auto intro: step_effect_admits step_effect_chain chain_refl)
next
  case (step_cancel i now j)
  then show ?thesis using request_cancel_life [OF sys_invD(1) [OF inv]] by (auto intro: step_effect_one)
next
  case (step_pause i now j)
  then show ?thesis using request_pause_life [OF sys_invD(1) [OF inv]] by (auto intro: step_effect_one)
next
  case (step_resume i now j)
  then show ?thesis using resume_life [OF sys_invD(1) [OF inv]] by (auto intro: step_effect_one)
next
  case (step_retry i now j)
  then show ?thesis using retry_dead_letter_life [OF sys_invD(1) [OF inv]] by (auto intro: step_effect_one)
next
  case (step_discard i now j)
  then show ?thesis using discard_dead_letter_life [OF sys_invD(1) [OF inv]] by (auto intro: step_effect_one)
next
  case (step_control bus i step now e)
  then show ?thesis using check_control_life [OF sys_invD(1) [OF inv]] by (auto intro: step_effect_one)
next
  case (step_progress bus i t code message step progress f now e)
  then show ?thesis using record_event_life [OF sys_invD(1) [OF inv]] by (blast intro: step_effect_one)
next
  case (step_link db1 i w now)
  have ok1: "struct_ok db1" using quiet_struct [OF step_link(1) sys_invD(1) [OF inv]] .
  have "struct_ok db'"
    using quiet_struct [OF step_link(2)] link_in_session_life [OF ok1, of i w now] by blast
  then show ?thesis using step_link by (simp add: step_effect_chain)
next
  case (step_create_run digest hash seen after p q key thread_id uuid now a)
  from create_run_cases [OF sys_invD(1,2) [OF inv] step_create_run(2)] show ?thesis
    using step_create_run(1) sys_invD [OF inv]
    by (auto intro: step_effect_admits step_effect_chain chain_refl)
next
  case (step_link_run db1 run_id w db2)
  have ok1: "struct_ok db1" using quiet_struct [OF step_link_run(1) sys_invD(1) [OF inv]] .
  have "struct_ok db'"
    using quiet_struct [OF step_link_run(3)] link_book_life [OF ok1 step_link_run(2)] by blast
  then show ?thesis using step_link_run by (simp add: step_effect_chain)
next
  case (step_chapter hash run_id n w status uuid now u db1)
  have "step_effect s db acts db'"
    using step_chapter(2,4) chain_end_quiet by (auto simp: step_effect_def inserts_def)
  then show ?thesis
    using record_completion_life [OF sys_invD(1,2) [OF inv] step_chapter(1)] by blast
next
  case (step_claim i w now j)
  then show ?thesis using claim_job_life [OF sys_invD(1) [OF inv] step_claim(2)] by (auto intro: step_effect_one)
next
  case (step_beat i w now)
  then show ?thesis using heartbeat_life [OF sys_invD(1) [OF inv] step_beat(2)] by (auto intro: step_effect_one)
next
  case (step_succeed i w result now u)
  from succeed_life [OF sys_invD(1) [OF inv] sys_inv_wf [OF inv] step_succeed(2)]
  show ?thesis using step_succeed(1) by (auto intro: step_effect_one)
next
  case (step_cancelled i w now u)
  then show ?thesis using cancel_running_life [OF sys_invD(1) [OF inv]] by (auto intro: step_effect_one)
next
  case (step_paused i w now u)
  then show ?thesis using pause_running_life [OF sys_invD(1) [OF inv]] by (auto intro: step_effect_one)
next
  case (step_backoff i w err rendered now u)
  from retry_or_dead_letter_life [OF sys_invD(1) [OF inv] sys_inv_wf [OF inv] step_backoff(2)]
  show ?thesis using step_backoff(1) by (auto intro: step_effect_one)
next
  case (step_fail i w err rendered now u)
  from fail_job_life [OF sys_invD(1) [OF inv] sys_inv_wf [OF inv] step_fail(2)]
  show ?thesis using step_fail(1) by (auto intro: step_effect_one)
next
  case (step_recover now n)
  then show ?thesis using recover_expired_life [OF sys_invD(1) [OF inv]] step_effect_chain by blast
next
  case (step_claim_outbox dispatcher now ids)
  then show ?thesis
    using claim_outbox_life quiet_struct sys_invD(1) [OF inv] by (blast intro: step_effect_chain chain_quiet)
next
  case (step_published row now u)
  then show ?thesis using record_published_life [OF sys_invD(1) [OF inv]] step_effect_chain by blast
next
  case (step_failure row err rendered now u)
  then show ?thesis using record_failure_life [OF sys_invD(1) [OF inv]] step_effect_chain by blast
next
  case (step_stranded now n)
  then show ?thesis using recover_stranded_life [OF sys_invD(1) [OF inv]] step_effect_chain by blast
next
  case other
  then show ?thesis using quiet_struct sys_invD(1) [OF inv] by (blast intro: step_effect_chain chain_quiet)
qed

lemma jobs_inv_effect: "settings_ok s \<Longrightarrow> step_effect s db acts db' \<Longrightarrow> jobs_inv db \<Longrightarrow> jobs_inv db'"
  using jobs_inv_chain jobs_inv_inserts unfolding step_effect_def by blast

lemma job_step_inv:
  assumes "settings_ok s" and "job_step hexdigest s db acts db'" and "sys_inv db"
  shows "sys_inv db'"
  using job_step_effect [OF assms(2,3)] jobs_inv_effect [OF assms(1)] sys_invD(3) [OF assms(3)]
  by (auto intro: sys_invI)

section \<open>Histories\<close>

inductive job_history ::
  "(json \<Rightarrow> string) \<Rightarrow> settings \<Rightarrow> db \<Rightarrow> (int \<times> job_action) list \<Rightarrow> db \<Rightarrow> bool"
  for hexdigest s where
  history_nil: "job_history hexdigest s db [] db"
| history_step: "job_history hexdigest s db acts db1 \<Longrightarrow> job_step hexdigest s db1 new db2 \<Longrightarrow>
    job_history hexdigest s db (acts @ new) db2"

lemma job_history_inv:
  "job_history hexdigest s db acts db' \<Longrightarrow> settings_ok s \<Longrightarrow> sys_inv db \<Longrightarrow> sys_inv db'"
  by (induction rule: job_history.induct) (auto intro: job_step_inv)

lemma sys_inv_empty: "sys_inv empty_db"
proof -
  have "get_job empty_db i = None" for i
    by (simp add: get_job_def repo_get_def empty_db_def empty_table_def)
  then show ?thesis by (simp add: sys_inv_def store_inv_empty jobs_inv_def)
qed

end
