(* ===== verification/Job_Histories.thy ===== *)
theory Job_Histories
  imports Job_Invariants
begin

text \<open>
  What histories of the job subsystem guarantee: the composite operations (\<open>execute\<close>,
  \<open>dispatch_once\<close>) are histories of committed steps; a job that a worker holds stays with it;
  final statuses stay; attempts are accounted for by events.
\<close>

section \<open>Composite operations are histories\<close>

lemma history_one: "job_step hexdigest s db acts db' \<Longrightarrow> job_history hexdigest s db acts db'"
  using job_history.history_step [OF job_history.history_nil] by simp

lemma history_append:
  "job_history hexdigest s db1 acts' db2 \<Longrightarrow> job_history hexdigest s db acts db1 \<Longrightarrow>
   job_history hexdigest s db (acts @ acts') db2"
proof (induction rule: job_history.induct)
  case (history_step dbx acts' db2 new db3)
  then show ?case using job_history.history_step [of hexdigest s db "acts @ acts'" db2 new db3] by simp
qed simp

definition reachable_from :: "(json \<Rightarrow> string) \<Rightarrow> settings \<Rightarrow> db \<Rightarrow> db \<Rightarrow> bool" where
  "reachable_from hexdigest s db db' \<longleftrightarrow> (\<exists>acts. job_history hexdigest s db acts db')"

lemma reachable_refl [simp]: "reachable_from hexdigest s db db"
  by (auto simp: reachable_from_def intro: job_history.history_nil)

lemma reachable_trans:
  "reachable_from hexdigest s a b \<Longrightarrow> reachable_from hexdigest s b c \<Longrightarrow> reachable_from hexdigest s a c"
  by (auto simp: reachable_from_def intro: history_append)

lemma reachable_step: "job_step hexdigest s db acts db' \<Longrightarrow> reachable_from hexdigest s db db'"
  by (auto simp: reachable_from_def intro: history_one)

lemma reachable_inv:
  "reachable_from hexdigest s db db' \<Longrightarrow> settings_ok s \<Longrightarrow> sys_inv db \<Longrightarrow> sys_inv db'"
  by (auto simp: reachable_from_def intro: job_history_inv)

lemma reachable_record_worker:
  "db_ok db \<Longrightarrow> reachable_from hexdigest s db (record_worker db w st j now)"
  by (rule reachable_step [OF job_step.other]) (simp_all add: record_worker_ok)

lemma reachable_settle: "reachable_from hexdigest s db (fst (settle_error db i w rendered e now))"
proof -
  have txn: "reachable_from hexdigest s db (fst (run_txn db r))"
    if "\<And>db' u. r = Inr (db', u) \<Longrightarrow> job_step hexdigest s db [(i, Settled w)] db'" for r
    using that by (cases r) (auto simp: run_txn_def intro: reachable_step)
  show ?thesis
    unfolding settle_error_def
    by (rule txn) (auto split: if_splits intro: step_cancelled step_paused step_backoff step_fail)
qed

lemma execute_history:
  assumes s: "settings_ok s" and inv: "sys_inv db"
    and handler: "\<And>db job. sys_inv db \<Longrightarrow> reachable_from hexdigest s db (fst (handle db job))"
  shows "reachable_from hexdigest s db (fst (execute s handle rendered db i w now later))"
proof (cases "claim_job s db i w now")
  case (Inl e)
  then show ?thesis by (simp add: execute_def)
next
  case (Inr r)
  obtain db1 jo where r: "r = (db1, jo)" by fastforce
  show ?thesis
  proof (cases jo)
    case None
    have "db1 = db" using claim_job_life [OF sys_invD(1) [OF inv]] Inr r None by fastforce
    then show ?thesis using Inr r None by (simp add: execute_def)
  next
    case (Some job)
    have r1: "reachable_from hexdigest s db db1"
      using Inr r Some by (auto intro: reachable_step step_claim)
    note inv1 = reachable_inv [OF r1 s inv]
    obtain db2 outcome where h: "handle db1 job = (db2, outcome)" by fastforce
    have r2: "reachable_from hexdigest s db1 db2" using handler [OF inv1, of job] h by simp
    define st where "st = (case outcome of
         Inl e \<Rightarrow> settle_error db2 i w rendered e later
       | Inr result \<Rightarrow> (case succeed db2 i w result later of
            Inl e \<Rightarrow> settle_error db2 i w rendered e later | Inr (db', _) \<Rightarrow> (db', Inr ())))"
    have r3: "reachable_from hexdigest s db2 (fst st)"
      using reachable_settle [of hexdigest s db2]
      by (auto simp: st_def split: sum.split intro: reachable_step step_succeed)
    have ok3: "db_ok (fst st)"
      using sys_invD(2) [OF reachable_inv [OF reachable_trans [OF r2 r3] s inv1]] .
    have "fst (execute s handle rendered db i w now later) =
        record_worker (fst st) w WorkerStatus_IDLE None later"
      using Inr r Some h by (simp add: execute_def Let_def st_def split: prod.split sum.split)
    then show ?thesis
      using reachable_trans [OF r1 reachable_trans [OF r2 reachable_trans [OF r3
            reachable_record_worker [OF ok3]]]] by simp
  qed
qed

lemma publish_one_history:
  assumes "sys_inv (fst st)"
  shows "reachable_from hexdigest s (fst st) (fst (fst (publish_one s enqueue rendered now st i)))"
proof -
  obtain db b n where st: "st = (db, b, n)" by (cases st) auto
  have ok: "struct_ok db" using sys_invD(1) [OF assms] st by simp
  have txn: "reachable_from hexdigest s db (fst (run_txn db r))"
    if "\<And>db' u. r = Inr (db', u) \<Longrightarrow> \<exists>acts. job_step hexdigest s db acts db'" for r
    using that by (cases r) (auto simp: run_txn_def intro: reachable_step)
  have pub: "reachable_from hexdigest s db (fst (run_txn db (record_published db i now)))"
    by (rule txn) (rule published_is_step [OF ok])
  have fail: "reachable_from hexdigest s db (fst (run_txn db (record_failure s db i e (rendered e) now)))" for e
    by (rule txn) (rule failure_is_step [OF ok])
  show ?thesis
    using pub fail
    by (auto simp: st publish_one_def split: option.split sum.split prod.split) (metis fst_conv)
qed

lemma publish_rows_history:
  assumes "settings_ok s"
  shows "sys_inv (fst st) \<Longrightarrow>
    reachable_from hexdigest s (fst st) (fst (fst (publish_rows s enqueue rendered now st is)))"
proof (induction "is" arbitrary: st)
  case (Cons i "is")
  note one = publish_one_history [OF Cons.prems, of hexdigest s enqueue rendered now i]
  obtain st' r where p: "publish_one s enqueue rendered now st i = (st', r)" by fastforce
  show ?case
  proof (cases r)
    case (Inl e)
    then show ?thesis using one p by simp
  next
    case (Inr u)
    have "sys_inv (fst st')" using reachable_inv [OF one assms Cons.prems] p by simp
    from reachable_trans [OF _ Cons.IH [OF this]] one p Inr show ?thesis by simp
  qed
qed simp

lemma dispatch_once_history:
  assumes s: "settings_ok s" and inv: "sys_inv db"
  shows "reachable_from hexdigest s db (fst (dispatch_once s enqueue rendered d db b now))"
proof (cases "claim_outbox s d db now")
  case (Inl e)
  then show ?thesis by (simp add: dispatch_once_def)
next
  case (Inr r)
  obtain db1 ids where r: "r = (db1, ids)" by fastforce
  have r1: "reachable_from hexdigest s db db1"
    using Inr r by (auto intro: reachable_step step_claim_outbox)
  have "sys_inv (fst (db1, b, 0 :: nat))" using reachable_inv [OF r1 s inv] by simp
  from reachable_trans [OF r1] publish_rows_history [OF s this] Inr r show ?thesis
    by (simp add: dispatch_once_def split: prod.split) (metis fst_conv)
qed

section \<open>Exclusive execution\<close>

definition held_statuses :: "job_status list" where
  "held_statuses = [JobStatus_RUNNING, JobStatus_PAUSE_REQUESTED, JobStatus_CANCEL_REQUESTED]"

definition held_by :: "db \<Rightarrow> int \<Rightarrow> string \<Rightarrow> bool" where
  "held_by db i w \<longleftrightarrow> (\<exists>j. get_job db i = Some j \<and> j_worker_id j = Some w \<and>
     j_status j \<in> set held_statuses)"

lemma life_held:
  assumes "life c a ts c'" and wf: "control_wf c" and st: "c_status c \<in> set held_statuses"
    and w: "c_worker c = Some w" and a: "a \<noteq> Settled w" "\<nexists>t. a = Expired t"
  shows "c_worker c' = Some w \<and> c_status c' \<in> set held_statuses \<and> (\<nexists>w' t. a = Claimed w' t)"
proof -
  have started: "c_started c \<noteq> None" using wf st by (auto simp: control_wf_def held_statuses_def)
  have no: "c_status c \<notin> set claimable_statuses" "c_status c \<noteq> JobStatus_PAUSED"
    "c_status c \<notin> {JobStatus_OUTBOX_PENDING, JobStatus_RETRY_SCHEDULED, JobStatus_QUEUED,
       JobStatus_DEAD_LETTERED}"
    using st by (auto simp: held_statuses_def claimable_statuses_def)
  show ?thesis
    using assms(1)
    by (cases rule: life.cases) (use w a no started st in \<open>auto simp: held_statuses_def\<close>)
qed

lemma chain_held:
  "chain db acts db' \<Longrightarrow> jobs_inv db \<Longrightarrow> held_by db i w \<Longrightarrow> (i, Settled w) \<notin> set acts \<Longrightarrow>
   (\<nexists>t. (i, Expired t) \<in> set acts) \<Longrightarrow>
   held_by db' i w \<and> (\<nexists>w' t. (i, Claimed w' t) \<in> set acts)"
proof (induction rule: chain.induct)
  case (chain_quiet db db')
  then show ?case by (simp add: held_by_def quiet_jobs)
next
  case (chain_step db db1 k a acts db')
  have inv1: "jobs_inv db1" using chain_step by (auto intro: jobs_inv_implements)
  have "held_by db1 i w \<and> (k = i \<longrightarrow> (\<nexists>w' t. a = Claimed w' t))"
  proof (cases "k = i")
    case True
    from chain_step(5) obtain j where j: "get_job db i = Some j" "j_worker_id j = Some w"
      "j_status j \<in> set held_statuses" by (auto simp: held_by_def)
    from chain_step(1) True j(1) obtain j' new where j': "get_job db1 i = Some j'"
      and l: "life (control j) a new (control j')" by (auto simp: implements_def)
    have "control_wf (control j)" using chain_step(4) j(1) by (simp add: jobs_inv_def)
    from life_held [OF l this] j chain_step True show ?thesis by (auto simp: held_by_def j')
  next
    case False
    then show ?thesis using chain_step(1,5) by (simp add: held_by_def implements_def others_unchanged_def)
  qed
  with chain_step inv1 show ?case by auto
qed

lemma effect_held:
  assumes eff: "step_effect s db acts db'" and inv: "jobs_inv db" and held: "held_by db i w"
    and settled: "(i, Settled w) \<notin> set acts" and expired: "\<nexists>t. (i, Expired t) \<in> set acts"
  shows "held_by db' i w \<and> (\<nexists>w' t. (i, Claimed w' t) \<in> set acts)"
proof -
  consider "chain db acts db'" | db1 k where "chain db acts db1" "inserts s db1 db' k"
    using eff by (auto simp: step_effect_def)
  then show ?thesis
  proof cases
    case 1
    then show ?thesis by (rule chain_held [OF _ inv held settled expired])
  next
    case (2 db1 k)
    note h = chain_held [OF 2(1) inv held settled expired]
    have "k \<noteq> i" using h inserts_fresh [OF 2(2)] by (auto simp: held_by_def)
    then show ?thesis
      using h inserts_fresh [OF 2(2)] by (auto simp: held_by_def others_unchanged_def)
  qed
qed

text \<open>A step that takes a job for an expired lease is a sweep that found its lease over.\<close>

definition lease_over :: "db \<Rightarrow> int \<Rightarrow> time \<Rightarrow> bool" where
  "lease_over db i now \<longleftrightarrow>
     (\<exists>j t. get_job db i = Some j \<and> j_lease_expires_at j = Some t \<and> t \<le> now)"

lemma expired_lease_over:
  assumes "keys_ok db" and "j \<in> set (expired_leases db now n)"
  shows "lease_over db (j_id j) now"
proof -
  have "j \<in> set (job_rows db)" "j_lease_expires_at j \<noteq> None" "lease_of j \<le> now"
    using assms(2) by (auto simp: expired_leases_def dest!: in_set_takeD)
  then show ?thesis using job_row_get [OF assms(1)] by (auto simp: lease_over_def lease_of_def)
qed

lemma expired_is_sweep:
  assumes "job_step hexdigest s db acts db'" and "(i, Expired now) \<in> set acts" and "keys_ok db"
  shows "\<exists>n. recover_expired db now = Inr (db', n) \<and> lease_over db i now"
  using assms(1)
proof (cases rule: job_step.cases)
  case (step_recover t n)
  then show ?thesis using assms(2) expired_lease_over [OF assms(3)] by auto
qed (use assms(2) in \<open>auto simp: edits_def\<close>)

text \<open>
  The history \<open>acts\<close> contains a sweep, at a moment when the worker still holds the job and the lease
  of the job is over.
\<close>

definition lease_lost_in ::
  "(json \<Rightarrow> string) \<Rightarrow> settings \<Rightarrow> db \<Rightarrow> (int \<times> job_action) list \<Rightarrow> db \<Rightarrow> int \<Rightarrow> string \<Rightarrow> bool" where
  "lease_lost_in hexdigest s db acts db' i w \<longleftrightarrow>
     (\<exists>before db1 now swept db2 n after. acts = before @ swept @ after \<and>
        job_history hexdigest s db before db1 \<and> held_by db1 i w \<and> lease_over db1 i now \<and>
        (i, Expired now) \<in> set swept \<and> recover_expired db1 now = Inr (db2, n) \<and>
        job_history hexdigest s db2 after db')"

lemma lease_lost_extend:
  assumes "lease_lost_in hexdigest s db acts db1 i w" and "job_step hexdigest s db1 new db2"
  shows "lease_lost_in hexdigest s db (acts @ new) db2 i w"
proof -
  from assms(1) obtain bef dbx now swept dby n aft where
    h: "acts = bef @ swept @ aft" "job_history hexdigest s db bef dbx" "held_by dbx i w"
      "lease_over dbx i now" "(i, Expired now) \<in> set swept" "recover_expired dbx now = Inr (dby, n)"
      "job_history hexdigest s dby aft db1"
    unfolding lease_lost_in_def by blast
  have "acts @ new = bef @ swept @ (aft @ new)" by (simp add: h(1))
  moreover have "job_history hexdigest s dby (aft @ new) db2"
    by (rule job_history.history_step [OF h(7) assms(2)])
  ultimately show ?thesis using h(2-6) unfolding lease_lost_in_def by blast
qed

lemma history_held:
  "job_history hexdigest s db acts db' \<Longrightarrow> settings_ok s \<Longrightarrow> sys_inv db \<Longrightarrow> held_by db i w \<Longrightarrow>
   (i, Settled w) \<notin> set acts \<Longrightarrow>
   (held_by db' i w \<and> (\<forall>w' t. (i, Claimed w' t) \<notin> set acts)) \<or>
   lease_lost_in hexdigest s db acts db' i w"
proof (induction rule: job_history.induct)
  case (history_nil db)
  then show ?case by simp
next
  case (history_step db acts db1 new db2)
  have inv1: "sys_inv db1" using history_step job_history_inv by blast
  have "(i, Settled w) \<notin> set acts" "(i, Settled w) \<notin> set new" using history_step.prems(4) by auto
  note IH = history_step.IH [OF history_step.prems(1-3) this(1)] and settled = this(2)
  show ?case
  proof (cases "lease_lost_in hexdigest s db acts db1 i w")
    case True
    then show ?thesis using lease_lost_extend [OF _ history_step.hyps(2)] by blast
  next
    case False
    with IH have held: "held_by db1 i w" "\<forall>w' t. (i, Claimed w' t) \<notin> set acts" by auto
    show ?thesis
    proof (cases "\<exists>t. (i, Expired t) \<in> set new")
      case True
      then obtain t where t: "(i, Expired t) \<in> set new" by blast
      from expired_is_sweep [OF history_step.hyps(2) t] sys_invD(1) [OF inv1]
      obtain n where "recover_expired db1 t = Inr (db2, n)" "lease_over db1 i t" by blast
      then have "lease_lost_in hexdigest s db (acts @ new @ []) db2 i w"
        using history_step.hyps(1) held(1) t job_history.history_nil unfolding lease_lost_in_def by blast
      then show ?thesis by simp
    next
      case False
      have "step_effect s db1 new db2" using job_step_effect [OF history_step.hyps(2) inv1] by simp
      from effect_held [OF this sys_invD(3) [OF inv1] held(1) settled False] held(2)
      show ?thesis by auto
    qed
  qed
qed

section \<open>Final statuses\<close>

lemma chain_final:
  "chain db acts db' \<Longrightarrow> jobs_inv db \<Longrightarrow> get_job db i = Some j \<Longrightarrow> j_status j \<in> set final_statuses \<Longrightarrow>
   \<exists>j'. get_job db' i = Some j' \<and> control j' = control j"
proof (induction arbitrary: j rule: chain.induct)
  case (chain_quiet db db')
  then show ?case by (simp add: quiet_jobs)
next
  case (chain_step db db1 k a acts db')
  have inv1: "jobs_inv db1" using chain_step by (auto intro: jobs_inv_implements)
  have "\<exists>j1. get_job db1 i = Some j1 \<and> control j1 = control j"
  proof (cases "k = i")
    case True
    from chain_step(1,5) True obtain j' new where j': "get_job db1 i = Some j'"
      and l: "life (control j) a new (control j')" by (auto simp: implements_def)
    have "control_wf (control j)" using chain_step(4,5) by (simp add: jobs_inv_def)
    from life_final [OF l this] chain_step(6) j' show ?thesis by simp
  next
    case False
    then show ?thesis using chain_step(1,5) by (auto simp: implements_def others_unchanged_def)
  qed
  then obtain j1 where j1: "get_job db1 i = Some j1" "control j1 = control j" by auto
  have "j_status j1 \<in> set final_statuses" using chain_step(6) control_status(1) [OF j1(2)] by simp
  from chain_step(3) [OF inv1 j1(1) this] j1(2) show ?case by simp
qed

lemma history_final:
  "job_history hexdigest s db acts db' \<Longrightarrow> settings_ok s \<Longrightarrow> sys_inv db \<Longrightarrow> get_job db i = Some j \<Longrightarrow>
   j_status j \<in> set final_statuses \<Longrightarrow> \<exists>j'. get_job db' i = Some j' \<and> control j' = control j"
proof (induction rule: job_history.induct)
  case (history_nil db)
  then show ?case by simp
next
  case (history_step db acts db1 new db2)
  then obtain j1 where j1: "get_job db1 i = Some j1" "control j1 = control j" by blast
  have inv1: "sys_inv db1" using history_step job_history_inv by blast
  have st1: "j_status j1 \<in> set final_statuses"
    using history_step.prems(4) control_status(1) [OF j1(2)] by simp
  have "step_effect s db1 new db2" using job_step_effect [OF history_step(2) inv1] by simp
  then consider "chain db1 new db2" | dbx k where "chain db1 new dbx" "inserts s dbx db2 k"
    by (auto simp: step_effect_def)
  then show ?case
  proof cases
    case 1
    from chain_final [OF this sys_invD(3) [OF inv1] j1(1) st1] j1(2) show ?thesis by simp
  next
    case (2 dbx k)
    from chain_final [OF 2(1) sys_invD(3) [OF inv1] j1(1) st1] j1(2)
    obtain jx where jx: "get_job dbx i = Some jx" "control jx = control j" by auto
    have "k \<noteq> i" using jx(1) inserts_fresh [OF 2(2)] by auto
    then show ?thesis using jx inserts_fresh [OF 2(2)] by (auto simp: others_unchanged_def)
  qed
qed

section \<open>Identity of jobs\<close>

text \<open>No history removes a job or changes its idempotency key.\<close>

definition keeps_job :: "db \<Rightarrow> db \<Rightarrow> int \<Rightarrow> string \<Rightarrow> bool" where
  "keeps_job db db' i key \<longleftrightarrow>
     (\<exists>j. get_job db i = Some j \<and> j_idempotency_key j = key) \<longrightarrow>
     (\<exists>j. get_job db' i = Some j \<and> j_idempotency_key j = key)"

lemma keeps_refl [simp]: "keeps_job db db i key"
  by (simp add: keeps_job_def)

lemma keeps_trans: "keeps_job a b i key \<Longrightarrow> keeps_job b c i key \<Longrightarrow> keeps_job a c i key"
  by (auto simp: keeps_job_def)

lemma keeps_implements: "implements db db' k a \<Longrightarrow> keeps_job db db' i key"
  by (cases "k = i") (auto simp: keeps_job_def implements_def others_unchanged_def)

lemma keeps_chain: "chain db acts db' \<Longrightarrow> keeps_job db db' i key"
proof (induction rule: chain.induct)
  case (chain_quiet db db')
  then show ?case by (simp add: keeps_job_def quiet_jobs)
next
  case (chain_step db db1 k a acts db')
  show ?case by (rule keeps_trans [OF keeps_implements [OF chain_step.hyps(1)] chain_step.IH])
qed

lemma keeps_effect: "step_effect s db acts db' \<Longrightarrow> keeps_job db db' i key"
proof -
  have ins: "keeps_job db db' i key" if "inserts s db db' k" for db db' k
    using inserts_fresh [OF that] by (cases "k = i") (auto simp: keeps_job_def others_unchanged_def)
  assume "step_effect s db acts db'"
  then show ?thesis using keeps_chain keeps_trans ins unfolding step_effect_def by blast
qed

lemma history_keeps:
  "job_history hexdigest s db acts db' \<Longrightarrow> settings_ok s \<Longrightarrow> sys_inv db \<Longrightarrow> keeps_job db db' i key"
proof (induction rule: job_history.induct)
  case (history_step db acts db1 new db2)
  have inv1: "sys_inv db1" using history_step job_history_inv by blast
  have "step_effect s db1 new db2" using job_step_effect [OF history_step.hyps(2) inv1] by simp
  then show ?case using keeps_trans [OF history_step.IH [OF history_step.prems] keeps_effect] by blast
qed simp

end
