(* ===== verification/Job_Demo.thy ===== *)
theory Job_Demo
  imports Job_Histories
begin

text \<open>
  Concrete states of the job subsystem, each computed from the previous one by the modelled
  operations under the default settings. The applied instances of the theorems use them.
\<close>

definition demo_project :: project where
  "demo_project = \<lparr>pr_id = 1, pr_title = ''Novel'', pr_genre = ''SF'', pr_premise = ''p'',
     pr_target_chapters = 3, pr_target_words_per_chapter = 1000, pr_language = ''en'',
     pr_tone = None, pr_audience = None, pr_additional_requirements = [], pr_logline = None,
     pr_themes = [], pr_world_summary = None, pr_central_conflict = None,
     pr_ending_direction = None, pr_style_guide = None, pr_status = ProjectStatus_CREATED,
     pr_model_profile = ModelProfile_OFFLINE, pr_privacy_policy = PrivacyPolicy_OFFLINE\<rparr>"

definition demo_chapter :: chapter_row where
  "demo_chapter = \<lparr>ch_id = 1, ch_project_id = 1, ch_chapter_number = 1, ch_title = ''One'',
     ch_outline = ''o'', ch_objective = [], ch_outline_metadata = [], ch_content = [],
     ch_summary = None, ch_status = ChapterStatus_PLANNED, ch_version = 1, ch_score = None,
     ch_generation_metadata = [], ch_current_version_id = None, ch_accepted_version_id = None\<rparr>"

definition demo_db :: db where
  "demo_db = empty_db\<lparr>db_projects := \<lparr>t_rows = [demo_project], t_next = 2\<rparr>,
                     db_chapters := \<lparr>t_rows = [demo_chapter], t_next = 2\<rparr>\<rparr>"

text \<open>A digest for the demonstrations: the text of the operation.\<close>

fun demo_digest :: "json \<Rightarrow> string" where
  "demo_digest (JDict items) =
     (case map_of items ''operation'' of Some (JStr s) \<Rightarrow> s | _ \<Rightarrow> ''?'')"
| "demo_digest _ = ''?''"

definition demo_request :: job_request where
  "demo_request = \<lparr>q_job_type = JobType_GENERATE_CHAPTER, q_project_id = Some 1,
     q_chapter_id = Some 1, q_workflow_run_id = None,
     q_payload = [(''regenerate'', JBool False), (''chapter_number'', JInt 1)],
     q_operation = ''generate'', q_external_key = None, q_priority = 5, q_correlation_id = None\<rparr>"

definition committed :: "(db \<times> 'a) result \<Rightarrow> db" where
  "committed r = (case r of Inl _ \<Rightarrow> empty_db | Inr (db, _) \<Rightarrow> db)"

definition demo_create :: "(db \<times> creation_result) result" where
  "demo_create = create demo_digest default_settings demo_db demo_request ''uuid'' 0"

definition demo_created :: db where
  "demo_created = committed demo_create"

definition demo_claim :: "(db \<times> job option) result" where
  "demo_claim = claim_job default_settings demo_created 1 ''w1'' 10"

definition demo_claimed :: db where
  "demo_claimed = committed demo_claim"

lemma demo_create_ok: "demo_create = Inr (demo_created, \<lparr>cr_job_id = 1, cr_reused = False\<rparr>)"
  by code_simp

lemma demo_claim_ok: "map_sum (\<lambda>e. e) (\<lambda>(db, j). map_option j_worker_id j) demo_claim = Inr (Some (Some ''w1''))"
  by code_simp

lemma default_settings_ok: "settings_ok default_settings"
  by code_simp

section \<open>The states as histories\<close>

lemma demo_db_step: "job_step demo_digest default_settings empty_db [] demo_db"
proof (rule job_step.other)
  show "db_ok demo_db" by code_simp
  have "keys_ok demo_db" by code_simp
  then show "quiet empty_db demo_db" by (simp add: quiet_def demo_db_def)
qed

lemma demo_created_step: "job_step demo_digest default_settings demo_db [] demo_created"
  using demo_create_ok unfolding demo_create_def create_def by (rule job_step.step_create)

definition demo_claimed_job :: job where
  "demo_claimed_job = (case demo_claim of Inr (_, Some j) \<Rightarrow> j | _ \<Rightarrow> undefined)"

lemma demo_claim_eq: "demo_claim = Inr (demo_claimed, Some demo_claimed_job)"
proof -
  have "\<exists>db j. r = Inr (db, Some j)"
    if "map_sum (\<lambda>e. e) (\<lambda>(db, j). map_option j_worker_id j) r = Inr (Some w)"
    for r :: "(db \<times> job option) result" and w
    using that by (cases r) auto
  from this [OF demo_claim_ok] obtain db j where eq: "demo_claim = Inr (db, Some j)" by blast
  show ?thesis unfolding demo_claimed_def demo_claimed_job_def committed_def eq by simp
qed

lemma demo_claimed_step:
  "job_step demo_digest default_settings demo_created [(1, Claimed ''w1'' 10)] demo_claimed"
  using demo_claim_eq unfolding demo_claim_def by (rule job_step.step_claim)

lemma demo_created_history: "job_history demo_digest default_settings empty_db [] demo_created"
  using job_history.history_step [OF job_history.history_step
      [OF job_history.history_nil demo_db_step] demo_created_step] by simp

lemma demo_claimed_history:
  "job_history demo_digest default_settings empty_db [(1, Claimed ''w1'' 10)] demo_claimed"
  using job_history.history_step [OF demo_created_history demo_claimed_step] by simp

lemma demo_created_inv: "sys_inv demo_created"
  using job_history_inv [OF demo_created_history default_settings_ok sys_inv_empty] .

lemma demo_claimed_inv: "sys_inv demo_claimed"
  using job_history_inv [OF demo_claimed_history default_settings_ok sys_inv_empty] .

text \<open>What the witnesses need of the claimed state, evaluated together.\<close>

definition claimed_facts :: "db \<Rightarrow> bool" where
  "claimed_facts db \<longleftrightarrow>
     \<not> isl (request_cancel db 1 20) \<and> \<not> isl (recover_expired db 1000) \<and>
     \<not> isl (succeed db 1 ''w1'' [] 20) \<and>
     (case get_job db 1 of
        None \<Rightarrow> False
      | Some j \<Rightarrow> j_worker_id j = Some ''w1'' \<and> j_status j = JobStatus_RUNNING \<and>
          j_lease_expires_at j = Some 30000010 \<and> j_attempt j = 1 \<and> j_event_sequence j = 3 \<and>
          j_chapter_id j = Some 1 \<and> job_active j)"

lemma demo_claimed_facts: "claimed_facts demo_claimed"
  by code_simp

lemma demo_claimed_ops:
  "\<not> isl (request_cancel demo_claimed 1 20)" "\<not> isl (recover_expired demo_claimed 1000)"
  "\<not> isl (succeed demo_claimed 1 ''w1'' [] 20)"
  using demo_claimed_facts by (simp_all add: claimed_facts_def)

lemma demo_claimed_row:
  obtains j where "get_job demo_claimed 1 = Some j" "j_worker_id j = Some ''w1''"
    "j_status j = JobStatus_RUNNING" "j_lease_expires_at j = Some 30000010" "j_attempt j = 1"
    "j_event_sequence j = 3" "j_chapter_id j = Some 1" "job_active j"
  using demo_claimed_facts by (auto simp: claimed_facts_def split: option.splits)

lemma demo_claimed_held: "held_by demo_claimed 1 ''w1''"
  by (rule demo_claimed_row) (auto simp: held_by_def held_statuses_def)

end
