(* ===== verification/Job_Safety.thy ===== *)
theory Job_Safety
  imports Job_Demo
begin

text \<open>
  Safety of the job subsystem over all histories of its operations: the reachable invariant,
  exclusive execution, final statuses, bounded attempts, event numbering, and the rejection of a worker
  that lost its job.
\<close>

text \<open>
  C1. Well-formed jobs: in every database reachable from the empty one by any interleaving of the
  committed transactions of users, workers, sweepers, dispatchers and book runs, a running job names
  its worker, lease and heartbeat; a job that runs or is asked to stop has started; a finished job has
  none of worker, lease and heartbeat, and a finishing time, except the record of a chapter that a
  book run inserted as succeeded, which never ran; no other job has a finishing time; its attempts are
  accounted for by its events, and its events are numbered from 1 up to its counter.
\<close>

theorem reachable_states_invariant:
  assumes "settings_ok s" and "job_history hexdigest s empty_db acts db" and "get_job db i = Some j"
  shows "j_status j \<notin> {JobStatus_PENDING, JobStatus_LEASED} \<and>
    (j_status j = JobStatus_RUNNING \<longrightarrow>
       j_worker_id j \<noteq> None \<and> j_lease_expires_at j \<noteq> None \<and> j_heartbeat_at j \<noteq> None) \<and>
    (j_status j \<in> {JobStatus_RUNNING, JobStatus_PAUSE_REQUESTED, JobStatus_CANCEL_REQUESTED} \<longrightarrow>
       j_started_at j \<noteq> None) \<and>
    (j_status j \<in> set terminal_job_statuses \<longrightarrow>
       j_worker_id j = None \<and> j_lease_expires_at j = None \<and> j_heartbeat_at j = None \<and>
       (j_finished_at j \<noteq> None \<or>
        j_status j = JobStatus_SUCCEEDED \<and> j_attempt j = 0 \<and> j_started_at j = None)) \<and>
    (j_finished_at j \<noteq> None \<longrightarrow> j_status j \<in> set terminal_job_statuses) \<and>
    accounted (control j) (event_types_of db i) \<and>
    map e_sequence (events_of db i) = [1..j_event_sequence j]"
proof -
  have inv: "sys_inv db" using job_history_inv [OF assms(2,1) sys_inv_empty] .
  then have "control_wf (control j)" "accounted (control j) (event_types_of db i)"
    using assms(3) by (auto simp: sys_inv_def jobs_inv_def)
  moreover have "map e_sequence (events_of db i) = [1..j_event_sequence j]"
    using store_inv_numbers [OF _ assms(3)] inv by (simp add: sys_inv_def event_numbers_def events_of_def)
  ultimately show ?thesis by (auto simp: control_wf_def)
qed

theorem reachable_states_invariant_applied:
  "\<exists>j. get_job demo_claimed 1 = Some j \<and> j_status j = JobStatus_RUNNING \<and> j_heartbeat_at j \<noteq> None"
proof -
  obtain j where j: "get_job demo_claimed 1 = Some j" "j_status j = JobStatus_RUNNING"
    by (rule demo_claimed_row)
  from reachable_states_invariant [OF default_settings_ok demo_claimed_history j(1)] j show ?thesis by simp
qed

text \<open>
  C2. Exclusive execution: while a worker holds a job (it is running, or asked to pause or to
  cancel), any history in which that worker does not settle the job leaves the job with it and lets no
  worker claim it, whatever sweeps the history contains, unless one of those sweeps came when the
  worker still held the job and its stored lease had ended by the sweep's clock.
\<close>

theorem exclusive_execution:
  assumes "settings_ok s" and "sys_inv db" and "job_history hexdigest s db acts db'"
    and "held_by db i w" and "(i, Settled w) \<notin> set acts"
  shows "(held_by db' i w \<and> (\<forall>w' t. (i, Claimed w' t) \<notin> set acts)) \<or>
    (\<exists>before db1 now swept db2 n after. acts = before @ swept @ after \<and>
       job_history hexdigest s db before db1 \<and> held_by db1 i w \<and> lease_over db1 i now \<and>
       (i, Expired now) \<in> set swept \<and> recover_expired db1 now = Inr (db2, n) \<and>
       job_history hexdigest s db2 after db')"
  using history_held [OF assms(3,1,2,4,5)] unfolding lease_lost_in_def .

definition demo_cancelling :: db where
  "demo_cancelling = committed (request_cancel demo_claimed 1 20)"

theorem exclusive_execution_applied: "held_by demo_cancelling 1 ''w1''"
proof -
  note demo_claimed_ops(1)
  then obtain j where "request_cancel demo_claimed 1 20 = Inr (demo_cancelling, j)"
    by (cases "request_cancel demo_claimed 1 20") (auto simp: demo_cancelling_def committed_def)
  then have "job_history demo_digest default_settings demo_claimed [(1, Cancelled_By_User)] demo_cancelling"
    by (intro history_one job_step.step_cancel)
  from exclusive_execution [OF default_settings_ok demo_claimed_inv this demo_claimed_held]
  show ?thesis by (auto simp: Cons_eq_append_conv)
qed

text \<open>
  The sweeper never takes a live lease: \<open>recover_expired\<close> leaves every job alone whose lease
  ends after the sweep's clock reading.
\<close>

theorem live_leases_are_kept:
  assumes "sys_inv db" and "recover_expired db now = Inr (db', n)"
    and "get_job db i = Some j" and "j_lease_expires_at j = Some t" and "now < t"
  shows "get_job db' i = Some j \<and> events_of db' i = events_of db i"
proof -
  have ch: "chain db (map (\<lambda>j. (j_id j, Expired now)) (expired_leases db now 100)) db'"
    using recover_expired_life [OF sys_invD(1) [OF assms(1)] assms(2)] by blast
  have keys: "keys_ok db" using sys_invD(1) [OF assms(1)] by (rule struct_ok_keys)
  have other: "j_id x \<noteq> i" if "x \<in> set (expired_leases db now 100)" for x
  proof
    assume "j_id x = i"
    moreover have "x \<in> set (job_rows db)" using that by (auto simp: expired_leases_def dest: in_set_takeD)
    ultimately have "x = j" using job_row_get [OF keys, of x] assms(3) by simp
    then show False using that assms(4,5) by (auto simp: expired_leases_def lease_of_def dest: in_set_takeD)
  qed
  have out: "i \<notin> fst ` set (map (\<lambda>j. (j_id j, Expired now)) (expired_leases db now 100))"
    by (simp add: image_image) (use other in blast)
  have "get_job db2 i = get_job db1 i \<and> events_of db2 i = events_of db1 i"
    if "chain db1 acts db2" "i \<notin> fst ` set acts" for db1 acts db2
    using that
    by (induction rule: chain.induct)
      (auto simp: quiet_jobs quiet_events implements_def others_unchanged_def)
  from this [OF ch out] assms(3) show ?thesis by simp
qed

definition demo_swept :: db where
  "demo_swept = committed (recover_expired demo_claimed 1000)"

theorem live_leases_are_kept_applied: "get_job demo_swept 1 = get_job demo_claimed 1"
proof -
  note demo_claimed_ops(2)
  then obtain n where r: "recover_expired demo_claimed 1000 = Inr (demo_swept, n)"
    by (cases "recover_expired demo_claimed 1000") (auto simp: demo_swept_def committed_def)
  obtain j where j: "get_job demo_claimed 1 = Some j" "j_lease_expires_at j = Some 30000010"
    by (rule demo_claimed_row)
  show ?thesis
    using live_leases_are_kept [OF demo_claimed_inv r j(1) j(2)] j(1) by simp
qed

text \<open>
  Final statuses: once a job has succeeded, failed or been cancelled, no later operation
  changes its status, attempts, lease or finishing time, however the history goes on.
\<close>

theorem final_statuses_stay:
  assumes "settings_ok s" and "sys_inv db" and "job_history hexdigest s db acts db'"
    and "get_job db i = Some j"
    and "j_status j \<in> {JobStatus_SUCCEEDED, JobStatus_FAILED, JobStatus_CANCELLED}"
  shows "\<exists>j'. get_job db' i = Some j' \<and> control j' = control j"
  using history_final [OF assms(3,1,2,4)] assms(5) by (simp add: final_statuses_def)

text \<open>
  C6. Bounded execution: the attempt counter of a job is the number of its lease events, and it
  exceeds \<open>max_attempts\<close> by at most one for each explicit resume or dead-letter retry; a job that
  can be claimed has an attempt left in that sense.
\<close>

theorem attempts_are_bounded:
  assumes "settings_ok s" and "job_history hexdigest s empty_db acts db"
    and "get_job db i = Some j"
  shows "j_attempt j = count (event_types_of db i) JobEventType_JOB_LEASED \<and>
    j_attempt j \<le> j_max_attempts j + count (event_types_of db i) JobEventType_RESUME_REQUESTED \<and>
    (j_status j \<in> set claimable_statuses \<longrightarrow>
      j_attempt j < j_max_attempts j + count (event_types_of db i) JobEventType_RESUME_REQUESTED)"
proof -
  have "sys_inv db" using job_history_inv [OF assms(2,1) sys_inv_empty] .
  then have "accounted (control j) (event_types_of db i)"
    using assms(3) by (simp add: sys_inv_def jobs_inv_def)
  then show ?thesis unfolding accounted_def control_sel .
qed

theorem attempts_are_bounded_applied:
  "\<exists>j. get_job demo_claimed 1 = Some j \<and> j_attempt j = 1 \<and>
     j_attempt j = count (event_types_of demo_claimed 1) JobEventType_JOB_LEASED"
proof -
  obtain j where j: "get_job demo_claimed 1 = Some j" "j_attempt j = 1" by (rule demo_claimed_row)
  from attempts_are_bounded [OF default_settings_ok demo_claimed_history j(1)] j show ?thesis by simp
qed

text \<open>
  C7. Job events are numbered 1, 2, 3, ... without gap or repetition, in the order in which they
  were recorded, up to the job's \<open>event_sequence\<close>: a reader that has seen number n has seen
  every event before it.
\<close>

theorem events_have_no_gaps:
  assumes "settings_ok s" and "job_history hexdigest s empty_db acts db"
    and "get_job db i = Some j"
  shows "map e_sequence (events_of db i) = [1..j_event_sequence j]"
proof -
  have "store_inv db" using job_history_inv [OF assms(2,1) sys_inv_empty] by (simp add: sys_inv_def)
  from store_inv_numbers [OF this assms(3)] show ?thesis by (simp add: event_numbers_def events_of_def)
qed

theorem events_have_no_gaps_applied: "map e_sequence (events_of demo_claimed 1) = [1, 2, 3]"
proof -
  obtain j where j: "get_job demo_claimed 1 = Some j" "j_event_sequence j = 3" by (rule demo_claimed_row)
  have "[1..3 :: int] = [1, 2, 3]" by code_simp
  with events_have_no_gaps [OF default_settings_ok demo_claimed_history j(1)] j(2) show ?thesis by simp
qed

text \<open>
  C3. A worker that no longer owns a job cannot settle it: every outcome transaction raises
  \<open>RuntimeError\<close> before it changes anything, and its heartbeat is refused.
\<close>

theorem lost_job_cannot_be_settled:
  assumes "db_ok db" and "\<And>j. get_job db i = Some j \<Longrightarrow> j_worker_id j \<noteq> Some w"
  shows "succeed db i w result now = Inl RuntimeError \<and>
    cancel_running db i w now = Inl RuntimeError \<and>
    pause_running db i w now = Inl RuntimeError \<and>
    retry_or_dead_letter db i w err rendered now = Inl RuntimeError \<and>
    fail_job db i w err rendered now = Inl RuntimeError \<and>
    heartbeat s db i w now = Inr (db, False)"
proof -
  have lost: "owned_job db i w = Inl RuntimeError"
    using assms(2) by (simp add: owned_job_def split: option.split)
  obtain c m where se: "safe_error err rendered = (c, m)" by fastforce
  have "heartbeat_txn s db i w now = commit db False"
    using assms(2) by (simp add: heartbeat_txn_def split: option.split)
  then have "heartbeat s db i w now = Inr (db, False)"
    using assms(1) by (simp add: heartbeat_def commit_ok)
  then show ?thesis
    by (simp add: succeed_def cancel_running_def pause_running_def retry_or_dead_letter_def
        fail_job_def lost se)
qed

theorem lost_job_cannot_be_settled_applied:
  "succeed demo_claimed 1 ''w2'' [] 20 = Inl RuntimeError"
proof -
  have "j_worker_id j \<noteq> Some ''w2''" if "get_job demo_claimed 1 = Some j" for j
  proof -
    show ?thesis using that by (auto intro: demo_claimed_row)
  qed
  from lost_job_cannot_be_settled [OF sys_invD(2) [OF demo_claimed_inv] this] show ?thesis by blast
qed

end
