(* ===== verification/Job_Admission.thy ===== *)
theory Job_Admission
  imports Job_Demo "HOL-Library.Multiset"
begin

text \<open>
  Properties of job admission (\<open>JobService.create\<close>): the payload check, the idempotency key, the
  rejections, the effect of a successful admission, and its behaviour when two requests race.
\<close>

section \<open>Payloads and keys\<close>

text \<open>
  C9. The payload check accepts exactly the payloads in which, at every depth of dictionaries and
  lists, no key is sensitive and no value is outside JSON; it fails with
  \<open>DomainValidationError\<close> otherwise.
\<close>

theorem payload_check_is_exact:
  "validate_payload p = (if clean (JDict p) then Inr () else Inl DomainValidationError)"
proof (cases "validate_payload p")
  case (Inl e)
  then have "e = DomainValidationError" using inspect_error(2) by (auto simp: validate_payload_def)
  moreover have "\<not> clean (JDict p)"
    using Inl inspect_iff(1) [of "JDict p"] by (auto simp: validate_payload_def)
  ultimately show ?thesis using Inl by simp
next
  case (Inr u)
  then show ?thesis using inspect_iff(1) [of "JDict p"] by (simp add: validate_payload_def)
qed

lemma normalized_payload_perm:
  assumes "mset p = mset p'" and "distinct (map fst p)"
  shows "normalized_payload p = normalized_payload p'"
proof -
  have "inj_on fst (set p)" using assms(2) by (simp add: distinct_map)
  moreover have "mset p = mset (sort_key fst p')" using assms(1) by simp
  ultimately show ?thesis
    unfolding normalized_payload_def by (intro sort_key_inj_key_eq) simp_all
qed

text \<open>
  Two requests whose payloads hold the same entries in a different order have the same
  idempotency key, and so are the same job.
\<close>

theorem idempotency_key_ignores_order:
  assumes "mset p = mset p'" and "distinct (map fst p)"
  shows "idempotency_key hexdigest q (normalized_payload p) =
    idempotency_key hexdigest q (normalized_payload p')"
  using normalized_payload_perm [OF assms] by simp

text \<open>
  The retry schedule is never more than five minutes nor less than a second ahead, doubles
  with each attempt until it reaches the bound, and never runs backwards.
\<close>

theorem retry_schedule_bounds:
  "now + seconds 1 \<le> retry_available_at attempt now \<and>
   retry_available_at attempt now \<le> now + seconds 300 \<and>
   (attempt \<le> attempt' \<longrightarrow> retry_available_at attempt now \<le> retry_available_at attempt' now) \<and>
   (1 \<le> attempt \<and> attempt \<le> 9 \<longrightarrow> retry_available_at attempt now = now + seconds (2 ^ nat (attempt - 1)))"
proof -
  have one: "(1 :: int) \<le> 2 ^ n" for n :: nat by simp
  have mono: "(2 :: int) ^ nat (max 0 (attempt - 1)) \<le> 2 ^ nat (max 0 (attempt' - 1))"
    if "attempt \<le> attempt'" using that by (intro power_increasing) auto
  have "(2 :: int) ^ nat (attempt - 1) \<le> 2 ^ 8" if "attempt \<le> 9"
    using that by (intro power_increasing) auto
  then have small: "(2 :: int) ^ nat (attempt - 1) \<le> 300" if "attempt \<le> 9" using that by fastforce
  have "retry_available_at attempt now = now + seconds (2 ^ nat (attempt - 1))"
    if "1 \<le> attempt" "attempt \<le> 9"
  proof -
    have "max 0 (attempt - 1) = attempt - 1" using that(1) by simp
    then show ?thesis using small [OF that(2)] by (simp add: retry_available_at_def)
  qed
  moreover have "retry_available_at attempt now \<le> retry_available_at attempt' now"
    if "attempt \<le> attempt'"
    by (simp only: retry_available_at_def add_le_cancel_left seconds_mono)
      (rule min.mono [OF order_refl mono [OF that]])
  ultimately show ?thesis using one by (simp add: retry_available_at_def)
qed

section \<open>Admission and the constraints\<close>

lemma evs_refs: "events_ok db \<Longrightarrow> get_job db i = None \<Longrightarrow> e \<in> set (event_rows db) \<Longrightarrow> e_job_id e \<noteq> i"
  by (auto simp: events_ok_def)

lemma db_ok_add_job:
  assumes ok: "db_ok db" "keys_ok db" and row: "job_row_ok j" "job_refs_ok db j"
    and key: "get_by_idempotency_key db (j_idempotency_key j) = None"
    and run: "j_workflow_run_id j = None \<or> (\<forall>x \<in> set (job_rows db). j_workflow_run_id x \<noteq> j_workflow_run_id j)"
    and chap: "\<And>c. j_chapter_id j = Some c \<Longrightarrow> active_for_chapter db c = None"
  shows "db_ok (fst (add_job db j))"
proof -
  let ?db = "fst (add_job db j)"
  let ?j = "j\<lparr>j_id := t_next (db_jobs db)\<rparr>"
  have mono: "get_job ?db i \<noteq> None" if "get_job db i \<noteq> None" for i
    using that get_job_add [OF ok(2), of j i] by auto
  have refs: "references (get_job ?db) r" if "references (get_job db) r" for r
    using mono that by (rule references_cong)
  have jrefs: "job_refs_ok ?db x" if "job_refs_ok db x" for x
    by (rule job_refs_mono [OF _ _ _ _ mono that]) simp_all
  have jo: "jobs_ok db" using ok(1) by (simp add: db_ok_def)
  have "unique_where (\<lambda>_. True) j_idempotency_key (job_rows ?db)"
    unfolding add_job_rows using jo key
    by (intro unique_where_add) (auto simp: jobs_ok_def get_by_idempotency_key_def find_None_iff)
  moreover have "unique_where (\<lambda>j. j_workflow_run_id j \<noteq> None) j_workflow_run_id (job_rows ?db)"
    unfolding add_job_rows using jo run by (intro unique_where_add) (auto simp: jobs_ok_def)
  moreover have "unique_where (\<lambda>j. j_chapter_id j \<noteq> None \<and> job_active j) j_chapter_id (job_rows ?db)"
    unfolding add_job_rows
  proof (rule unique_where_add)
    show "unique_where (\<lambda>j. j_chapter_id j \<noteq> None \<and> job_active j) j_chapter_id (job_rows db)"
      using jo by (simp add: jobs_ok_def)
    assume "j_chapter_id ?j \<noteq> None \<and> job_active ?j"
    then obtain c where c: "j_chapter_id j = Some c" by auto
    have "sort_key (\<lambda>j. - j_id j) (filter (\<lambda>j. j_chapter_id j = Some c \<and> job_active j) (job_rows db)) = []"
      using chap [OF c] by (simp add: active_for_chapter_def split: list.splits)
    then have "set (filter (\<lambda>j. j_chapter_id j = Some c \<and> job_active j) (job_rows db)) = {}"
      by (metis list.set(1) set_sort)
    then show "\<forall>x \<in> set (job_rows db). j_chapter_id x \<noteq> None \<and> job_active x \<longrightarrow> j_chapter_id x \<noteq> j_chapter_id ?j"
      using c by auto
  qed
  moreover have "job_row_ok ?j" "job_refs_ok ?db ?j"
    using row(1) jrefs [OF row(2)] by (simp_all add: job_row_ok_def job_refs_ok_def)
  ultimately have "jobs_ok ?db"
    using jo jrefs by (auto simp: jobs_ok_def add_job_rows)
  moreover have "\<forall>e \<in> set (event_rows ?db). get_job ?db (e_job_id e) \<noteq> None"
    using ok(1) mono by (auto simp: db_ok_def events_ok_def simp del: not_None_eq)
  ultimately show ?thesis
    using ok(1) refs
    by (simp add: db_ok_def chapters_ok_def workflow_runs_ok_def events_ok_def outbox_ok_def
        workers_ok_def book_runs_ok_def)
qed

section \<open>What create does\<close>

definition request_key :: "(json \<Rightarrow> string) \<Rightarrow> job_request \<Rightarrow> string" where
  "request_key hexdigest q = idempotency_key hexdigest q (normalized_payload (q_payload q))"

lemma validate_normalized:
  "validate_payload (normalized_payload p) = validate_payload p"
proof -
  have "clean (JDict (normalized_payload p)) = clean (JDict p)"
    by (simp add: clean_JDict normalized_payload_def)
  moreover have "validate_payload p = (if clean (JDict p) then Inr () else Inl DomainValidationError)" for p
    using inspect_iff(1) [of "JDict p"] inspect_error(1) [of "JDict p"]
    by (cases "validate_payload p") (auto simp: validate_payload_def simp del: inspect.simps)
  ultimately show ?thesis by simp
qed

lemma create_between_unfold:
  "create_between hexdigest s seen db after q uuid now =
     and_then (validate_payload (q_payload q)) (\<lambda>_.
       case get_by_idempotency_key seen (request_key hexdigest q) of
         Some existing \<Rightarrow> Inr (db, \<lparr>cr_job_id = j_id existing, cr_reused = True\<rparr>)
       | None \<Rightarrow>
           (case create_txn s db q (definition_of (q_job_type q)) (normalized_payload (q_payload q))
                   (request_key hexdigest q) uuid now of
              Inl IntegrityError \<Rightarrow>
                (case get_by_idempotency_key after (request_key hexdigest q) of
                   Some existing \<Rightarrow> Inr (db, \<lparr>cr_job_id = j_id existing, cr_reused = True\<rparr>)
                 | None \<Rightarrow> Inl InvalidStateError)
            | r \<Rightarrow> r))"
  by (simp only: create_between_def definition_of_ok(1) request_key_def validate_normalized Let_def
      and_then.simps)

lemma key_lookup:
  assumes "db_ok db" and "get_job db i = Some j"
  shows "get_by_idempotency_key db (j_idempotency_key j) = Some j"
proof -
  have "distinct (map j_idempotency_key (job_rows db))"
    using assms(1) by (simp add: db_ok_def jobs_ok_def unique_where_def)
  then show ?thesis
    unfolding get_by_idempotency_key_def by (rule find_unique) (rule get_job_row [OF assms(2)])
qed

lemma key_lookup_Some: "get_by_idempotency_key db key = Some j \<Longrightarrow> j \<in> set (job_rows db) \<and> j_idempotency_key j = key"
  by (auto simp: get_by_idempotency_key_def dest: find_SomeD)

lemma admitted_key:
  assumes "sys_inv db" and op: "create hexdigest s db q uuid now = Inr (db1, r)"
  shows "\<exists>j. get_job db1 (cr_job_id r) = Some j \<and> j_idempotency_key j = request_key hexdigest q"
proof -
  note op = op [unfolded create_def]
  note ok = sys_invD(1,2) [OF assms(1)]
  from create_cases [OF ok op] show ?thesis
  proof (elim disjE conjE)
    assume same: "db1 = db" "cr_reused r"
    have valid: "validate_payload (q_payload q) = Inr ()"
      using op unfolding create_between_unfold by (cases "validate_payload (q_payload q)") auto
    show ?thesis
    proof (cases "get_by_idempotency_key db (request_key hexdigest q)")
      case (Some j)
      then have "cr_job_id r = j_id j" using op unfolding create_between_unfold valid by auto
      then show ?thesis
        using key_lookup_Some [OF Some] job_row_get [OF struct_ok_keys [OF ok(1)]] same(1) by auto
    next
      case None
      with op have "create_txn s db q (definition_of (q_job_type q))
          (normalized_payload (q_payload q)) (request_key hexdigest q) uuid now = Inr (db1, r)"
        unfolding create_between_unfold valid by (auto split: sum.splits exn.splits)
      from create_txn_admits [OF ok definition_of_member this] same show ?thesis by simp
    qed
  qed (auto simp: request_key_def)
qed

text \<open>
  C4. Admission is idempotent: once a request has been admitted, repeating it after any history of
  the job subsystem - the job may have run, succeeded, failed, been cancelled or retried, other jobs
  may have come - at any time, with any fresh identifiers and under any current settings, returns the
  same job, marked as reused, and changes nothing.
\<close>

theorem admission_is_idempotent:
  assumes "settings_ok s" and "sys_inv db" and "create hexdigest s db q uuid now = Inr (db1, r)"
    and "job_history hexdigest s db1 acts db2"
  shows "create hexdigest s' db2 q uuid' now' = Inr (db2, \<lparr>cr_job_id = cr_job_id r, cr_reused = True\<rparr>)"
proof -
  have inv1: "sys_inv db1"
    using job_step_inv [OF assms(1) job_step.step_create assms(2)] assms(3) unfolding create_def by blast
  have inv2: "sys_inv db2" using job_history_inv [OF assms(4,1) inv1] .
  have valid: "validate_payload (q_payload q) = Inr ()"
    using assms(3) unfolding create_def create_between_unfold
    by (cases "validate_payload (q_payload q)") auto
  obtain j where j: "get_job db2 (cr_job_id r) = Some j" "j_idempotency_key j = request_key hexdigest q"
    using history_keeps [OF assms(4,1) inv1] admitted_key [OF assms(2,3)] unfolding keeps_job_def by blast
  have "get_by_idempotency_key db2 (request_key hexdigest q) = Some j"
    using key_lookup [OF sys_invD(2) [OF inv2] j(1)] j(2) by simp
  then show ?thesis unfolding create_def create_between_unfold valid using get_job_id [OF j(1)] by simp
qed

theorem admission_is_idempotent_applied:
  "create demo_digest default_settings demo_claimed demo_request ''other'' 77 =
     Inr (demo_claimed, \<lparr>cr_job_id = 1, cr_reused = True\<rparr>)"
proof -
  have "sys_inv demo_db"
    using job_step_inv [OF default_settings_ok demo_db_step sys_inv_empty] .
  from admission_is_idempotent [OF default_settings_ok this demo_create_ok [unfolded demo_create_def]
      history_one [OF demo_claimed_step]] show ?thesis by simp
qed

text \<open>
  Racing requests never duplicate a job: if another transaction has committed a job with the
  same key by the time this one writes, whatever its own lookups saw, the database does not
  change; the call returns an existing job or raises.
\<close>

theorem racing_admissions_do_not_duplicate:
  assumes "sys_inv db" and "get_by_idempotency_key db (request_key hexdigest q) = Some winner"
    and "create_between hexdigest s seen db after q uuid now = Inr (db', r)"
  shows "db' = db \<and> cr_reused r"
proof (rule ccontr)
  assume "\<not> (db' = db \<and> cr_reused r)"
  with create_cases [OF sys_invD(1,2) [OF assms(1)] assms(3)]
  obtain j where adm: "admits s db db' (cr_job_id r)" and ok: "db_ok db'" "struct_ok db'"
    and j: "get_job db' (cr_job_id r) = Some j" "j_idempotency_key j = request_key hexdigest q"
    by (auto simp: request_key_def)
  have win: "winner \<in> set (job_rows db)" "j_idempotency_key winner = request_key hexdigest q"
    using key_lookup_Some [OF assms(2)] by auto
  have old: "get_job db (j_id winner) = Some winner"
    using job_row_get [OF struct_ok_keys [OF sys_invD(1) [OF assms(1)]] win(1)] .
  then have "j_id winner \<noteq> cr_job_id r" using adm by (auto simp: admits_def)
  then have "get_job db' (j_id winner) = Some winner"
    using old adm by (simp add: admits_def others_unchanged_def)
  then have "get_by_idempotency_key db' (request_key hexdigest q) = Some winner"
    using key_lookup [OF ok(1)] win(2) by metis
  then have "winner = j" using key_lookup [OF ok(1) j(1)] j(2) by simp
  then have "j_id winner = cr_job_id r" using get_job_id [OF j(1)] by simp
  then show False using old adm by (simp add: admits_def)
qed

section \<open>The effect of an admission\<close>

lemma create_outbox_lookup:
  assumes "create_outbox db job reason now = (db', row)"
  shows "get_by_deduplication_key db' (outbox_key job reason) = Some row \<and>
    (get_by_deduplication_key db (outbox_key job reason) = None \<longrightarrow>
       o_status row = OutboxStatus_PENDING \<and> o_aggregate_id row = j_id job \<and> o_available_at row = now)"
proof (cases "get_by_deduplication_key db (outbox_key job reason)")
  case (Some r)
  then show ?thesis using assms by (simp add: create_outbox_def)
next
  case None
  let ?m = "enqueue_message job now (outbox_key job reason) now"
  have d: "db' = fst (add_outbox db ?m)" "row = snd (add_outbox db ?m)"
    using assms None by (simp_all add: create_outbox_def)
  have "get_by_deduplication_key db' (outbox_key job reason) = Some row"
    using None unfolding d get_by_deduplication_key_def outbox_rows_add
    by (simp add: find_append enqueue_message_def)
  then show ?thesis using None d by (simp add: outbox_rows_add enqueue_message_def)
qed

text \<open>
  An admission that creates a job happened below every limit (global queue, project queue, no
  other active job on the chapter, an existing project, a clean payload) and leaves exactly: the
  new row waiting for publication with its attempts capped by the registry and the settings, one
  creation event numbered 1, and a message under the job's own key, pending when the key is new.
\<close>

theorem admission_effect:
  assumes "sys_inv db" and "create hexdigest s db q uuid now = Inr (db', r)" and "\<not> cr_reused r"
  shows "clean (JDict (q_payload q)) \<and> active_count db None < s_queue_pending_hard_limit s \<and>
    (\<forall>p. q_project_id q = Some p \<longrightarrow>
       get_project db p \<noteq> None \<and> active_count db (Some p) < s_project_pending_limit s) \<and>
    (\<forall>c. q_chapter_id q = Some c \<longrightarrow> active_for_chapter db c = None) \<and>
    others_unchanged db db' (cr_job_id r) \<and>
    (\<exists>j row. get_job db' (cr_job_id r) = Some j \<and> j_status j = JobStatus_OUTBOX_PENDING \<and>
       j_attempt j = 0 \<and> j_worker_id j = None \<and> j_event_sequence j = 1 \<and>
       j_max_attempts j =
         min (jd_max_attempts (definition_of (q_job_type q))) (s_job_max_attempts s) \<and>
       event_types_of db' (cr_job_id r) = [JobEventType_JOB_CREATED] \<and>
       get_by_deduplication_key db' (outbox_key j ''create'') = Some row \<and>
       (get_by_deduplication_key db (outbox_key j ''create'') = None \<longrightarrow>
          o_status row = OutboxStatus_PENDING \<and> o_aggregate_id row = cr_job_id r \<and>
          o_available_at row = now))"
proof -
  note op = assms(2) [unfolded create_def create_between_unfold]
  let ?d = "definition_of (q_job_type q)"
  let ?key = "request_key hexdigest q"
  let ?new = "new_job s q ?d (normalized_payload (q_payload q)) ?key uuid now"
  have valid: "validate_payload (q_payload q) = Inr ()"
    using op by (cases "validate_payload (q_payload q)") auto
  have cl: "clean (JDict (q_payload q))"
    using valid inspect_iff(1) [of "JDict (q_payload q)"] by (simp add: validate_payload_def del: inspect.simps)
  have txn: "create_txn s db q ?d (normalized_payload (q_payload q)) ?key uuid now = Inr (db', r)"
    using op assms(3) unfolding valid by (auto split: option.splits sum.splits exn.splits)
  note adm = create_txn_admits [OF sys_invD(1,2) [OF assms(1)] definition_of_member txn]
  obtain db1 job1 where add: "add_job db ?new = (db1, job1)" by fastforce
  from txn add obtain db2 job2 e where
      lim: "check_backpressure s db (q_project_id q) = Inr ()"
      "(case q_project_id q of None \<Rightarrow> Inr () | Some p \<Rightarrow> require (get_project db p \<noteq> None) EntityNotFoundError) = Inr ()"
      "(case q_chapter_id q of None \<Rightarrow> Inr () | Some c \<Rightarrow> require (active_for_chapter db c = None) InvalidStateError) = Inr ()"
    and ev: "service_event db1 job1 JobEventType_JOB_CREATED ''job.created'' ''Job created''
                 None now = Inr (db2, job2, e)"
    and fin: "db' = fst (create_outbox db2 job2 ''create'' now)"
    and r: "r = \<lparr>cr_job_id = j_id job2, cr_reused = False\<rparr>"
    by (auto simp: create_txn_def simp del: service_event_Inr)
  have job1: "job1 = ?new\<lparr>j_id := t_next (db_jobs db)\<rparr>" and db1: "db1 = fst (add_job db ?new)"
    using add add_job_row [of db ?new] by (metis snd_conv, metis fst_conv)
  have job2: "j_status job2 = JobStatus_OUTBOX_PENDING" "j_attempt job2 = 0" "j_worker_id job2 = None"
      "j_event_sequence job2 = 1" "j_max_attempts job2 = min (jd_max_attempts ?d) (s_job_max_attempts s)"
    using ev by (simp_all add: job1 new_job_def Let_def)
  have ob: "get_by_deduplication_key db2 = get_by_deduplication_key db"
    using ev by (simp add: Let_def db1 get_by_deduplication_key_def fun_eq_iff)
  obtain row where co: "create_outbox db2 job2 ''create'' now = (db', row)"
    using fin by (metis prod.collapse)
  have "get_job db2 (j_id job2) = Some job2" using ev by (auto simp: Let_def)
  then have g: "get_job db' (cr_job_id r) = Some job2"
    using quiet_jobs [OF quiet_create_outbox, of db2 job2 "''create''" now] fin r by simp
  have "active_count db None < s_queue_pending_hard_limit s"
    using lim(1) by (auto simp: check_backpressure_def Let_def split: if_splits option.splits)
  moreover have "get_project db p \<noteq> None \<and> active_count db (Some p) < s_project_pending_limit s"
    if "q_project_id q = Some p" for p
    using lim(1,2) that by (auto simp: check_backpressure_def Let_def split: if_splits)
  moreover have "active_for_chapter db c = None" if "q_chapter_id q = Some c" for c
    using lim(3) that by simp
  ultimately show ?thesis
    using cl adm g job2 create_outbox_lookup [OF co] r unfolding ob
    by (auto simp: admits_def)
qed

theorem admission_effect_applied:
  "\<exists>j row. get_job demo_created 1 = Some j \<and> j_event_sequence j = 1 \<and>
     get_by_deduplication_key demo_created (outbox_key j ''create'') = Some row"
proof -
  have "sys_inv demo_db" using job_step_inv [OF default_settings_ok demo_db_step sys_inv_empty] .
  from admission_effect [OF this demo_create_ok [unfolded demo_create_def]] show ?thesis by auto
qed

text \<open>
  C5. Admission succeeds: a request with a clean payload and a new key is admitted when the queue
  limits leave room, the project, chapter and workflow run it names exist, the chapter has no active
  job, no job is linked to the workflow run, and the priority is between 0 and 9. These are all the
  conditions: no other constraint of the database can refuse the new job.
\<close>

theorem admission_succeeds:
  assumes "sys_inv db" and "settings_ok s" and "clean (JDict (q_payload q))"
    and "get_by_idempotency_key db (request_key hexdigest q) = None"
    and "active_count db None < s_queue_pending_hard_limit s"
    and "\<And>p. q_project_id q = Some p \<Longrightarrow>
      get_project db p \<noteq> None \<and> active_count db (Some p) < s_project_pending_limit s"
    and "\<And>c. q_chapter_id q = Some c \<Longrightarrow> get_chapter db c \<noteq> None \<and> active_for_chapter db c = None"
    and "\<And>w. q_workflow_run_id q = Some w \<Longrightarrow>
      get_workflow_run db w \<noteq> None \<and> (\<forall>x \<in> set (job_rows db). j_workflow_run_id x \<noteq> Some w)"
    and "0 \<le> q_priority q" and "q_priority q \<le> 9"
  shows "\<exists>db' i. create hexdigest s db q uuid now = Inr (db', \<lparr>cr_job_id = i, cr_reused = False\<rparr>)"
proof -
  let ?d = "definition_of (q_job_type q)"
  let ?key = "request_key hexdigest q"
  let ?new = "new_job s q ?d (normalized_payload (q_payload q)) ?key uuid now"
  note ok = sys_invD(1,2) [OF assms(1)]
  have keys: "keys_ok db" using ok(1) by (rule struct_ok_keys)
  have valid: "validate_payload (q_payload q) = Inr ()"
    using assms(3) inspect_iff(1) [of "JDict (q_payload q)"]
    by (simp add: validate_payload_def del: inspect.simps)
  have row: "job_row_ok ?new"
    using assms(9,10) definition_of_attempts(1) [of "q_job_type q"] settings_ok_bounds(1) [OF assms(2)]
    by (simp add: job_row_ok_def new_job_def)
  have refs: "job_refs_ok db ?new"
    using assms(6,7,8)
    by (cases "q_project_id q"; cases "q_chapter_id q"; cases "q_workflow_run_id q")
      (auto simp: job_refs_ok_def new_job_def)
  define db1 where "db1 = fst (add_job db ?new)"
  define job1 where "job1 = ?new\<lparr>j_id := t_next (db_jobs db)\<rparr>"
  have add: "add_job db ?new = (db1, job1)"
    unfolding db1_def job1_def using add_job_row [of db ?new] by (metis prod.collapse)
  have ok1: "db_ok db1"
    unfolding db1_def
    by (rule db_ok_add_job [OF ok(2) keys row refs])
      (use assms(4,7) assms(8) in \<open>auto simp: new_job_def\<close>)
  have struct1: "struct_ok db1"
    unfolding db1_def by (rule struct_ok_add_job [OF ok]) (simp add: new_job_def)
  let ?e = "event_for job1 JobEventType_JOB_CREATED ''job.created'' (bounded 500 ''Job created'')
              (j_worker_id job1) None now"
  have get1: "get_job db1 (j_id job1) = Some job1"
    unfolding db1_def job1_def using get_job_add [OF keys] by simp
  have "job_row_ok job1" using row by (simp add: job1_def job_row_ok_def)
  then have ok2: "db_ok (emitted db1 job1 ?e)"
    by (intro db_ok_emitted [OF struct1 ok1 get1]) (auto simp: evolves_def job_row_ok_def)
  define db2 where "db2 = emitted db1 job1 ?e"
  define job2 where "job2 = bumped job1 ?e"
  have ev: "\<exists>e. service_event db1 job1 JobEventType_JOB_CREATED ''job.created'' ''Job created'' None now
      = Inr (db2, job2, e)"
    using get1 by (simp add: Let_def db2_def job2_def)
  then obtain e where ev: "service_event db1 job1 JobEventType_JOB_CREATED ''job.created''
      ''Job created'' None now = Inr (db2, job2, e)" by blast
  have fin: "db_ok (fst (create_outbox db2 job2 ''create'' now))"
  proof (cases "get_by_deduplication_key db2 (outbox_key job2 ''create'')")
    case (Some r)
    then show ?thesis using ok2 by (simp add: create_outbox_def db2_def)
  next
    case None
    then show ?thesis using ok2
      by (auto simp: create_outbox_def db2_def enqueue_message_def outbox_row_ok_def
          intro!: db_ok_add_outbox)
  qed
  have "check_backpressure s db (q_project_id q) = Inr ()"
    using assms(5,6) by (auto simp: check_backpressure_def Let_def split: option.split)
  moreover have "(case q_project_id q of None \<Rightarrow> Inr ()
      | Some p \<Rightarrow> require (get_project db p \<noteq> None) EntityNotFoundError) = Inr ()"
    using assms(6) by (auto split: option.split)
  moreover have "(case q_chapter_id q of None \<Rightarrow> Inr ()
      | Some c \<Rightarrow> require (active_for_chapter db c = None) InvalidStateError) = Inr ()"
    using assms(7) by (auto split: option.split)
  ultimately have "create_txn s db q ?d (normalized_payload (q_payload q)) ?key uuid now =
      Inr (fst (create_outbox db2 job2 ''create'' now), \<lparr>cr_job_id = j_id job2, cr_reused = False\<rparr>)"
    using fin ev ok1 by (simp add: create_txn_def add commit_ok del: service_event_Inr)
  then show ?thesis unfolding create_def create_between_unfold valid using assms(4) by simp
qed

theorem admission_succeeds_applied:
  "\<exists>db' i. create demo_digest default_settings demo_created
     (demo_request\<lparr>q_chapter_id := None, q_operation := ''plan''\<rparr>) ''u'' 5 =
     Inr (db', \<lparr>cr_job_id = i, cr_reused = False\<rparr>)"
proof (rule admission_succeeds [OF demo_created_inv default_settings_ok])
  have "validate_payload (q_payload demo_request) = Inr ()" by code_simp
  then show "clean (JDict (q_payload (demo_request\<lparr>q_chapter_id := None, q_operation := ''plan''\<rparr>)))"
    using inspect_iff(1) [of "JDict (q_payload demo_request)"]
    by (simp add: validate_payload_def del: inspect.simps)
  show "get_by_idempotency_key demo_created (request_key demo_digest
      (demo_request\<lparr>q_chapter_id := None, q_operation := ''plan''\<rparr>)) = None" by code_simp
  show "active_count demo_created None < s_queue_pending_hard_limit default_settings" by code_simp
  have "get_project demo_created 1 \<noteq> None \<and>
      active_count demo_created (Some 1) < s_project_pending_limit default_settings" by code_simp
  then show "q_project_id (demo_request\<lparr>q_chapter_id := None, q_operation := ''plan''\<rparr>) = Some p \<Longrightarrow>
      get_project demo_created p \<noteq> None \<and>
      active_count demo_created (Some p) < s_project_pending_limit default_settings" for p
    by (simp add: demo_request_def)
qed (simp_all add: demo_request_def)

end
