(* ===== verification/Job_Controls.thy ===== *)
theory Job_Controls
  imports Job_Demo
begin

text \<open>
  What the control operations of \<open>JobService\<close> do on each branch, and the outcomes of an
  execution: exact results, including that they cannot fail on a constraint.
\<close>

section \<open>Recording an event cannot fail\<close>

lemma service_event_ok:
  assumes "struct_ok db" and "db_ok db" and j0: "get_job db (j_id j) = Some j0"
    and ev: "evolves j0 j" and seq: "j_event_sequence j = j_event_sequence j0"
  obtains db' j' e where "service_event db j t c m None now = Inr (db', j', e)" "struct_ok db'"
    "db_ok db'" "get_job db' (j_id j) = Some j'" "control j' = control j" "j_id j' = j_id j"
    "job_row_ok j'" "j_workflow_run_id j' = j_workflow_run_id j"
proof -
  let ?e = "event_for j t c (bounded 500 m) (j_worker_id j) None now"
  have row: "job_row_ok j" using ev by (simp add: evolves_def)
  then have e: "event_row_ok ?e" by (simp add: job_row_ok_def)
  have "struct_ok (emitted db j ?e)" by (rule struct_ok_emitted [OF assms(1) j0 seq]) simp
  moreover have "db_ok (emitted db j ?e)" by (rule db_ok_emitted [OF assms(1,2) j0 ev seq _ e]) simp
  ultimately show ?thesis
    using j0 row by (intro that [of "emitted db j ?e" "bumped j ?e"]) (simp_all add: Let_def)
qed

lemma evolves_transition:
  "transition_job j t now = Inr j' \<Longrightarrow> job_row_ok j \<Longrightarrow> job_active j \<Longrightarrow> evolves j j'"
  using transition_job_frame [of j t now j'] by (simp add: evolves_def job_row_ok_def)

lemma evolves_update [simp]:
  "evolves j (j'\<lparr>j_cancel_requested_at := t\<rparr>) = evolves j j'"
  by (simp add: evolves_def job_row_ok_def job_active_def)

lemma transition_allowed:
  "t \<in> set (job_allowed (j_status j)) \<Longrightarrow> \<exists>j'. transition_job j t now = Inr j'"
  by (auto simp: transition_job_def Let_def)

lemma active_open: "job_active j \<longleftrightarrow> j_status j \<notin> set terminal_job_statuses"
  by (cases "j_status j") (auto simp: job_active_def active_job_statuses_def terminal_job_statuses_def)

section \<open>Cancellation\<close>

text \<open>
  The result of a cancellation request, in full, for a job without a linked workflow run: an
  unknown job and a finished job are refused; a job already asked to cancel is returned as it
  is; a job that never started, or is paused, is cancelled at once; any other job is asked to
  cancel, and its worker keeps it until a safe boundary.
\<close>

theorem cancel_outcome:
  assumes "sys_inv db" and "\<And>j. get_job db i = Some j \<Longrightarrow> j_workflow_run_id j = None"
  shows "case get_job db i of
      None \<Rightarrow> request_cancel db i now = Inl EntityNotFoundError
    | Some j \<Rightarrow>
        if j_status j \<in> set terminal_job_statuses
        then request_cancel db i now = Inl InvalidStateError
        else if j_status j = JobStatus_CANCEL_REQUESTED
        then request_cancel db i now = Inr (db, j)
        else \<exists>db' j'. request_cancel db i now = Inr (db', j') \<and> get_job db' i = Some j' \<and>
          control j' =
            (if j_started_at j = None \<or> j_status j = JobStatus_PAUSED
             then finish JobStatus_CANCELLED now (control j)
             else (control j)\<lparr>c_status := JobStatus_CANCEL_REQUESTED\<rparr>)"
proof (cases "get_job db i")
  case None
  then show ?thesis by (simp add: request_cancel_def require_locked_def)
next
  case (Some j)
  note ok = sys_invD(1,2) [OF assms(1)]
  consider (over) "j_status j \<in> set terminal_job_statuses"
    | (again) "j_status j = JobStatus_CANCEL_REQUESTED"
    | (live) "j_status j \<notin> set terminal_job_statuses" "j_status j \<noteq> JobStatus_CANCEL_REQUESTED" by blast
  then show ?thesis
  proof cases
    case over
    then show ?thesis
      using Some by (auto simp: request_cancel_def require_locked_def terminal_job_statuses_def
          transition_job_def Let_def)
  next
    case again
    then show ?thesis
      using Some ok by (simp add: request_cancel_def require_locked_def commit_ok open_statuses)
  next
    case live
    have id: "j_id j = i" using get_job_id [OF Some] .
    have row: "job_row_ok j" using store_inv_job [OF _ Some] assms(1) by (simp add: sys_inv_def)
    have active: "job_active j" using live(1) by (simp add: active_open)
    have "JobStatus_CANCEL_REQUESTED \<in> set (job_allowed (j_status j))"
      using live sys_inv_wf [OF assms(1) Some]
      by (cases "j_status j") (auto simp: terminal_job_statuses_def control_wf_def)
    then obtain j1 where t1: "transition_job j JobStatus_CANCEL_REQUESTED now = Inr j1"
      using transition_allowed by blast
    note c1 = transition_control(2) [OF t1 live(2) [symmetric]]
    let ?j1 = "j1\<lparr>j_cancel_requested_at := Some now\<rparr>"
    have f1: "j_id ?j1 = i" "j_event_sequence ?j1 = j_event_sequence j"
      using transition_job_frame [OF t1] id by simp_all
    have e1: "evolves j ?j1" using evolves_transition [OF t1 row active] by simp
    have g1: "get_job db (j_id ?j1) = Some j" using f1 Some by simp
    obtain db2 j2 e2 where ev2: "service_event db ?j1 JobEventType_CANCEL_REQUESTED
        ''job.cancel_requested'' ''Cancellation requested'' None now = Inr (db2, j2, e2)"
      and ok2: "struct_ok db2" "db_ok db2" and get2: "get_job db2 (j_id ?j1) = Some j2"
      and j2: "control j2 = control ?j1" "j_id j2 = j_id ?j1" "job_row_ok j2"
        "j_workflow_run_id j2 = j_workflow_run_id ?j1"
      by (rule service_event_ok [OF ok g1 e1 f1(2)])
    note ok2 = ok2 get2 [unfolded f1(1)]
    have c2: "control j2 = (control j)\<lparr>c_status := JobStatus_CANCEL_REQUESTED\<rparr>"
      using j2(1) c1 by (simp add: open_statuses)
    then have st2: "j_status j2 = JobStatus_CANCEL_REQUESTED" "j_started_at j2 = j_started_at j"
      by (simp_all add: control_def)
    show ?thesis
    proof (cases "j_started_at j = None \<or> j_status j = JobStatus_PAUSED")
      case False
      then show ?thesis
        using Some live ev2 ok2 st2 c2
        by (auto simp: request_cancel_def require_locked_def Let_def t1 terminal_job_statuses_def
            commit_ok simp del: service_event_Inr)
    next
      case True
      have active2: "job_active j2" using st2(1) by (simp add: active_open open_statuses)
      note row2 = j2(3)
      have "JobStatus_CANCELLED \<in> set (job_allowed (j_status j2))" using st2(1) by simp
      then obtain j3 where t3: "transition_job j2 JobStatus_CANCELLED now = Inr j3"
        using transition_allowed by blast
      have ne: "JobStatus_CANCELLED \<noteq> j_status j2" using st2(1) by simp
      note c3 = transition_control(2) [OF t3 ne]
      have f3: "j_id j3 = i" "j_event_sequence j3 = j_event_sequence j2" "j_workflow_run_id j3 = None"
        using transition_job_frame [OF t3] transition_job_frame [OF t1] j2(2,4) f1(1) assms(2) [OF Some]
        by simp_all
      have g3: "get_job db2 (j_id j3) = Some j2" using f3 ok2(3) by simp
      obtain db4 j4 e4 where ev4: "service_event db2 j3 JobEventType_JOB_CANCELLED ''job.cancelled''
          ''Job cancelled before execution'' None now = Inr (db4, j4, e4)"
        and st4: "struct_ok db4" and ok4: "db_ok db4" "get_job db4 (j_id j3) = Some j4"
          "control j4 = control j3" and j4: "j_id j4 = j_id j3" "job_row_ok j4"
          "j_workflow_run_id j4 = j_workflow_run_id j3"
        by (rule service_event_ok [OF ok2(1,2) g3 evolves_transition [OF t3 row2 active2] f3(2)])
      note ok4 = ok4 [unfolded f3(1)]
      have "control j4 = finish JobStatus_CANCELLED now (control j)"
        using ok4(3) c3 c2 by (simp add: terminal_job_statuses_def finish_def)
      moreover have "cancel_linked_workflow db2 j3 now = Inr db2"
        using f3(3) by (simp add: cancel_linked_workflow_def)
      ultimately show ?thesis
        using Some live ev2 ok2 st2 True t3 ev4 ok4
        by (auto simp: request_cancel_def require_locked_def Let_def t1 terminal_job_statuses_def
            commit_ok simp del: service_event_Inr)
    qed
  qed
qed

section \<open>Resuming\<close>

text \<open>The messages of a job that a dispatcher could still publish.\<close>

definition publishable :: "db \<Rightarrow> int \<Rightarrow> outbox_message list" where
  "publishable db i = filter (\<lambda>r. o_aggregate_id r = i \<and>
     o_status r \<in> {OutboxStatus_PENDING, OutboxStatus_CLAIMED}) (outbox_rows db)"

lemma life_resumed: "life c Resumed_By_User ts c' \<Longrightarrow> c_status c' = JobStatus_OUTBOX_PENDING"
  by (erule life_cases) simp_all

text \<open>
  Resuming a paused job puts it back to waiting for publication under the key
  \<open>resume-<attempt + 1>\<close>; when the outbox already holds a message with that key, whatever the
  state of that message, no new message is written.
\<close>

theorem resume_reuses_message:
  assumes "sys_inv db" and "resume db i now = Inr (db', j')"
    and "get_by_deduplication_key db (outbox_key j' (''resume-'' @ int_str (j_attempt j' + 1))) = Some row"
  shows "j_status j' = JobStatus_OUTBOX_PENDING \<and> get_job db' i = Some j' \<and>
    outbox_rows db' = outbox_rows db"
proof -
  note l = resume_life [OF sys_invD(1) [OF assms(1)] assms(2)]
  from l obtain j new where "life (control j) Resumed_By_User new (control j')"
    by (auto simp: implements_def)
  then have "j_status j' = JobStatus_OUTBOX_PENDING" using life_resumed by fastforce
  moreover from assms(2) obtain job1 db2 e
    where ev: "service_event db (job1\<lparr>j_finished_at := None\<rparr>) JobEventType_RESUME_REQUESTED
        ''job.resume_requested'' ''Job resume requested'' None now = Inr (db2, j', e)"
      and db': "db' = fst (create_outbox db2 j' (''resume-'' @ int_str (j_attempt j' + 1)) now)"
    by (auto simp: resume_def require_locked_def simp del: service_event_Inr split: if_splits)
  moreover from ev have ob: "db_outbox db2 = db_outbox db" by (simp add: Let_def)
  moreover from ob have "get_by_deduplication_key db2 = get_by_deduplication_key db"
    by (rule lookup_frame)
  ultimately show ?thesis using assms(3) l by (simp add: create_outbox_def)
qed

text \<open>
  A job that is paused and resumed twice before a worker takes it: create, publish, pause,
  resume, publish, pause, resume.
\<close>

definition published_all :: "db \<Rightarrow> time \<Rightarrow> db" where
  "published_all db now =
     fst (dispatch_once default_settings memory_enqueue (\<lambda>_. []) ''d1'' db empty_memory_broker now)"

definition demo_paused_once :: db where
  "demo_paused_once = committed (request_pause (published_all demo_created 1) 1 2)"

definition demo_resumed_once :: db where
  "demo_resumed_once = committed (resume demo_paused_once 1 3)"

definition demo_paused_twice :: db where
  "demo_paused_twice = committed (request_pause (published_all demo_resumed_once 4) 1 5)"

definition demo_resumed_twice :: db where
  "demo_resumed_twice = committed (resume demo_paused_twice 1 6)"

text \<open>The sweeps of the worker and of the dispatcher leave a job alone that waits for publication.\<close>

lemma chain_untouched:
  "chain db acts db' \<Longrightarrow> get_job db i = Some j \<Longrightarrow>
   set acts \<subseteq> {(k, a). a = Requeued \<or> (\<exists>t. a = Expired t)} \<Longrightarrow>
   j_status j = JobStatus_OUTBOX_PENDING \<Longrightarrow> get_job db' i = Some j"
proof (induction rule: chain.induct)
  case (chain_quiet db db')
  then show ?case by (simp add: quiet_jobs)
next
  case (chain_step db db1 k a acts db')
  have "get_job db1 i = Some j"
  proof (cases "k = i")
    case True
    with chain_step.hyps(1) chain_step.prems(1) obtain new j' where "life (control j) a new (control j')"
      by (auto simp: implements_def)
    moreover have "a = Requeued \<or> (\<exists>t. a = Expired t)" using chain_step.prems(2) by auto
    ultimately show ?thesis using chain_step.prems(3) by (auto elim: life_cases)
  next
    case False
    then show ?thesis
      using chain_step.hyps(1) chain_step.prems(1) by (simp add: implements_def others_unchanged_def)
  qed
  then show ?case using chain_step by auto
qed

lemma claim_outbox_publishable:
  assumes "claim_outbox s d db now = Inr (db', ids)"
    and "r \<in> set (outbox_rows db)" and "o_aggregate_id r = i" and "publishable db i = []"
    and "unique_where (\<lambda>_. True) o_id (outbox_rows db)"
  shows "o_id r \<notin> set ids"
proof
  assume "o_id r \<in> set ids"
  then obtain x where x: "x \<in> set (outbox_rows db)" "claimable_row db now (Some (stale_claim_cutoff now (s_job_lease_seconds s))) x"
    "o_id x = o_id r"
    using assms(1) by (auto simp: claim_outbox_def claim_batch_def claim_row_def Let_def dest!: in_set_takeD)
  have "x = r" using x(1,3) assms(2,5) by (auto simp: unique_where_def distinct_map inj_on_def)
  then have "x \<in> set (publishable db i)"
    using x(1,2) assms(3) by (auto simp: publishable_def claimable_row_def split: option.splits)
  then show False using assms(4) by simp
qed

lemma outbox_ids_distinct: "keys_ok db \<Longrightarrow> unique_where (\<lambda>_. True) o_id (outbox_rows db)"
  by (simp add: keys_ok_def unique_where_def table_ok_def)

text \<open>
  C8. A paused job whose outbox already holds a message under the key of the next resume, which is what
  an earlier resume at the same attempt leaves, and no message still to publish, is stranded by
  \<open>resume\<close>: it waits for publication, no claim of a dispatcher returns a message of it, and neither the
  sweep of expired leases nor the sweep of stranded deliveries touches its row.
\<close>

theorem second_resume_strands_job:
  assumes inv: "sys_inv db" and job: "get_job db i = Some j"
    and key: "get_by_deduplication_key db (outbox_key j (''resume-'' @ int_str (j_attempt j + 1))) = Some row"
    and none: "publishable db i = []" and op: "resume db i now = Inr (db', j')"
  shows "j_status j' = JobStatus_OUTBOX_PENDING \<and> get_job db' i = Some j' \<and> publishable db' i = [] \<and>
    (\<forall>s d t db2 ids r. claim_outbox s d db' t = Inr (db2, ids) \<longrightarrow> r \<in> set (outbox_rows db') \<longrightarrow>
       o_aggregate_id r = i \<longrightarrow> o_id r \<notin> set ids) \<and>
    (\<forall>s t db2 n. recover_stranded s db' t = Inr (db2, n) \<longrightarrow> get_job db2 i = Some j') \<and>
    (\<forall>t db2 n. recover_expired db' t = Inr (db2, n) \<longrightarrow> get_job db2 i = Some j')"
proof -
  note l = resume_life [OF sys_invD(1) [OF inv] op]
  from l job obtain new where life: "life (control j) Resumed_By_User new (control j')"
    by (auto simp: implements_def)
  have same: "j_attempt j' = j_attempt j" "j_id j' = j_id j"
    using life get_job_id [OF job] l get_job_id [of db' i j'] by (auto elim!: life_cases simp: control_def)
  then have "outbox_key j' r = outbox_key j r" for r by (simp add: outbox_key_def)
  then have "get_by_deduplication_key db (outbox_key j' (''resume-'' @ int_str (j_attempt j' + 1))) = Some row"
    using key same(1) by simp
  note r = resume_reuses_message [OF inv op this]
  have pub: "publishable db' i = []" using none r by (simp add: publishable_def)
  have ok: "struct_ok db'" using l by blast
  have claims: "o_id x \<notin> set ids"
    if "claim_outbox s d db' t = Inr (db2, ids)" "x \<in> set (outbox_rows db')" "o_aggregate_id x = i" for s d t db2 ids x
    using claim_outbox_publishable [OF that pub outbox_ids_distinct [OF struct_ok_keys [OF ok]]] .
  have stranded: "get_job db2 i = Some j'" if op2: "recover_stranded s db' t = Inr (db2, n)" for s t db2 n
  proof -
    obtain acts where "chain db' acts db2" "set acts \<subseteq> {(i, a). a = Requeued}"
      using recover_stranded_life [OF ok op2] by blast
    then show ?thesis using chain_untouched [of db' acts db2 i j'] r by blast
  qed
  have expired: "get_job db2 i = Some j'" if op2: "recover_expired db' t = Inr (db2, n)" for t db2 n
    by (rule chain_untouched [OF conjunct2 [OF conjunct2 [OF recover_expired_life [OF ok op2]]]])
      (use r in auto)
  show ?thesis using r pub claims stranded expired by blast
qed

definition strandable :: "db \<Rightarrow> bool" where
  "strandable db \<longleftrightarrow> publishable db 1 = [] \<and> \<not> isl (resume db 1 6) \<and>
     (case get_job db 1 of None \<Rightarrow> False
      | Some j \<Rightarrow> get_by_deduplication_key db (outbox_key j (''resume-'' @ int_str (j_attempt j + 1))) \<noteq> None)"

lemma demo_paused_twice_strandable: "strandable demo_paused_twice"
  by code_simp


lemma committed_inv:
  assumes "sys_inv db" and "\<not> isl r"
    and "\<And>db' x. r = Inr (db', x) \<Longrightarrow> reachable_from demo_digest default_settings db db'"
  shows "sys_inv (committed r)"
  using assms reachable_inv [OF _ default_settings_ok assms(1)]
  by (cases r) (auto simp: committed_def)

lemma published_inv: "sys_inv db \<Longrightarrow> sys_inv (published_all db now)"
  unfolding published_all_def
  by (rule reachable_inv [OF dispatch_once_history [OF default_settings_ok] default_settings_ok])

lemma demo_paused_twice_inv: "sys_inv demo_paused_twice"
proof -
  have ok: "\<not> isl (request_pause (published_all demo_created 1) 1 2)" "\<not> isl (resume demo_paused_once 1 3)"
    "\<not> isl (request_pause (published_all demo_resumed_once 4) 1 5)"
    by code_simp+
  have once: "sys_inv demo_paused_once"
    unfolding demo_paused_once_def
    by (rule committed_inv [OF published_inv [OF demo_created_inv] ok(1)])
      (auto intro: reachable_step job_step.step_pause)
  have resumed: "sys_inv demo_resumed_once"
    unfolding demo_resumed_once_def
    by (rule committed_inv [OF once ok(2)]) (auto intro: reachable_step job_step.step_resume)
  show ?thesis
    unfolding demo_paused_twice_def
    by (rule committed_inv [OF published_inv [OF resumed] ok(3)])
      (auto intro: reachable_step job_step.step_pause)
qed

theorem second_resume_strands_job_applied:
  "publishable demo_resumed_twice 1 = [] \<and>
   map_option j_status (get_job demo_resumed_twice 1) = Some JobStatus_OUTBOX_PENDING"
proof -
  note s = demo_paused_twice_strandable [unfolded strandable_def]
  from s obtain j row where j: "get_job demo_paused_twice 1 = Some j"
    "get_by_deduplication_key demo_paused_twice (outbox_key j (''resume-'' @ int_str (j_attempt j + 1))) = Some row"
    by (auto split: option.splits)
  from s obtain j' where op: "resume demo_paused_twice 1 6 = Inr (demo_resumed_twice, j')"
    by (cases "resume demo_paused_twice 1 6") (auto simp: demo_resumed_twice_def committed_def)
  from second_resume_strands_job [OF demo_paused_twice_inv j _ op] s show ?thesis by auto
qed

end
