(* ===== verification/Dispatch_Properties.thy ===== *)
theory Dispatch_Properties
  imports Job_Demo
begin

text \<open>
  Properties of the dispatcher: the broker interface and its instances, the order and bound of a
  batch, the agreement between the published count and the broker, and the bounded retries of a
  publication.
\<close>

section \<open>The broker interface\<close>

text \<open>
  What the dispatcher relies on: an accepted message is appended to what the broker will
  deliver, a refused one leaves it alone.
\<close>

locale job_broker =
  fixes enqueue :: "'b \<Rightarrow> int \<Rightarrow> string \<Rightarrow> int option \<Rightarrow> 'b \<times> string result"
    and delivered :: "'b \<Rightarrow> int list"
  assumes accepted: "enqueue b i q t = (b', Inr m) \<Longrightarrow> delivered b' = delivered b @ [i]"
    and refused: "enqueue b i q t = (b', Inl e) \<Longrightarrow> delivered b' = delivered b"
begin

lemma publish_one_delivers:
  assumes "publish_one s enqueue rendered now (db, b, n) r = ((db', b', n'), Inr u)"
  shows "\<exists>new. delivered b' = delivered b @ new \<and> n' = n + length new \<and>
    (\<forall>i \<in> set new. get_job db i \<noteq> None)"
proof (cases "get_outbox db r")
  case None
  then show ?thesis using assms by (simp add: publish_one_def)
next
  case (Some row)
  show ?thesis
  proof (cases "get_job db (o_aggregate_id row)")
    case None
    then show ?thesis using assms Some by (simp add: publish_one_def)
  next
    case job: (Some j)
    obtain b1 a where e: "enqueue b (o_aggregate_id row) (queue_of_payload (o_payload row))
        (Some (jd_timeout_seconds (definition_of (j_job_type j)))) = (b1, a)" by fastforce
    show ?thesis
    proof (cases a)
      case (Inl x)
      then have "b' = b1" "n' = n"
        using assms Some job e by (auto simp: publish_one_def definition_of_ok Let_def split: prod.splits)
      then show ?thesis using refused e Inl by simp
    next
      case (Inr m)
      then have "b' = b1" "n' = n + 1"
        using assms Some job e
        by (auto simp: publish_one_def definition_of_ok Let_def split: prod.splits sum.splits)
      then show ?thesis using accepted e Inr job by (intro exI [of _ "[o_aggregate_id row]"]) simp
    qed
  qed
qed

lemma publish_rows_delivers:
  "publish_rows s enqueue rendered now (db, b, n) ids = ((db', b', n'), Inr u) \<Longrightarrow>
   \<exists>new. delivered b' = delivered b @ new \<and> n' = n + length new"
proof (induction ids arbitrary: db b n)
  case Nil
  then show ?case by simp
next
  case (Cons r ids)
  obtain db1 b1 n1 x where one: "publish_one s enqueue rendered now (db, b, n) r = ((db1, b1, n1), x)"
    by (metis prod.collapse)
  then obtain v where x: "x = Inr v" using Cons.prems by (cases x) auto
  from publish_one_delivers [OF one [unfolded x]]
  obtain new1 where n1: "delivered b1 = delivered b @ new1" "n1 = n + length new1" by auto
  have "publish_rows s enqueue rendered now (db1, b1, n1) ids = ((db', b', n'), Inr u)"
    using Cons.prems one x by simp
  from Cons.IH [OF this] n1 show ?case by auto
qed

lemma dispatch_counts:
  "dispatch_once s enqueue rendered d db b now = (db', b', Inr n) \<Longrightarrow>
   \<exists>new. delivered b' = delivered b @ new \<and> n = length new"
  using publish_rows_delivers
  by (fastforce simp: dispatch_once_def split: sum.splits prod.splits)

end

interpretation memory: job_broker memory_enqueue "\<lambda>b. map fst (mb_messages b)"
  by unfold_locales (auto simp: memory_enqueue_def Let_def)

text \<open>The Dramatiq broker over a transport that is a queue, which is up or down.\<close>

definition queue_transport ::
  "bool \<times> dramatiq_message list \<Rightarrow> dramatiq_message \<Rightarrow> (bool \<times> dramatiq_message list) option" where
  "queue_transport t m = (if fst t then Some (fst t, snd t @ [m]) else None)"

interpretation dramatiq: job_broker "dramatiq_enqueue queue_transport new_id"
    "\<lambda>t. concat (map dm_args (snd t))"
  by unfold_locales (auto simp: dramatiq_enqueue_def queue_transport_def Let_def split: if_splits)

text \<open>
  The count \<open>dispatch_once\<close> returns is the number of messages the in-memory broker received
  from it: the broker's messages grow by exactly that many job identifiers.
\<close>

theorem dispatch_count_is_delivered:
  assumes "dispatch_once s memory_enqueue rendered d db b now = (db', b', Inr n)"
  shows "\<exists>new. map fst (mb_messages b') = map fst (mb_messages b) @ new \<and> length new = n"
  using memory.dispatch_counts [OF assms] by auto

section \<open>Batches\<close>

text \<open>
  A batch holds at most the configured number of rows, all of them claimable, ordered by
  falling job priority and then by age; and no claimable row that is left out comes before one
  that is taken.
\<close>

theorem batch_takes_the_first:
  assumes "claim_batch db d now limit stale = (db', rows)"
  defines "before \<equiv> (\<lambda>a b. (- outbox_priority db a, o_id a) \<le> (- outbox_priority db b, o_id b))"
  shows "length rows \<le> limit \<and>
    (\<exists>taken. rows = map (claim_row d now) taken \<and> sorted_wrt before taken \<and>
       set taken \<subseteq> {r \<in> set (outbox_rows db). claimable_row db now stale r} \<and>
       (\<forall>r \<in> set (outbox_rows db). claimable_row db now stale r \<longrightarrow> r \<notin> set taken \<longrightarrow>
          length taken = limit \<and> (\<forall>t \<in> set taken. before t r)))"
proof -
  let ?k = "\<lambda>r. (- outbox_priority db r, o_id r)"
  let ?all = "sort_key ?k (filter (claimable_row db now stale) (outbox_rows db))"
  let ?taken = "take limit ?all"
  have rows: "rows = map (claim_row d now) ?taken"
    using assms(1) by (auto simp: claim_batch_def Let_def)
  have sorted: "sorted_wrt before ?all"
    using sorted_sort_key [of ?k "filter (claimable_row db now stale) (outbox_rows db)"]
    unfolding before_def by (simp add: sorted_wrt_map)
  have rest: "length ?taken = limit \<and> (\<forall>t \<in> set ?taken. before t r)"
    if "r \<in> set (outbox_rows db)" "claimable_row db now stale r" "r \<notin> set ?taken" for r
  proof -
    have "r \<in> set ?all" using that by simp
    then have r: "r \<in> set (drop limit ?all)" using that(3) by (metis Un_iff append_take_drop_id set_append)
    then have "limit < length ?all" by (metis drop_all empty_iff linorder_not_le list.set(1))
    moreover have "sorted_wrt before (?taken @ drop limit ?all)" using sorted by simp
    ultimately show ?thesis using r unfolding sorted_wrt_append by simp
  qed
  have "set ?taken \<subseteq> {r \<in> set (outbox_rows db). claimable_row db now stale r}"
    by (auto dest!: in_set_takeD)
  moreover have "sorted_wrt before ?taken" using sorted by (rule sorted_wrt_take)
  ultimately show ?thesis using rows rest by auto
qed

section \<open>Failed publications\<close>

text \<open>
  Publication is retried a bounded number of times: a refused row goes back to pending, due
  between one second and five minutes later, until its claims reach \<open>job_max_attempts\<close>; then it
  is failed for good, and a job still waiting for it is dead-lettered with it.
\<close>

theorem publication_retries_are_bounded:
  assumes "sys_inv db" and "record_failure s db row_id err rendered now = Inr (db', u)"
    and "get_outbox db row_id = Some row"
  shows "\<exists>row'. get_outbox db' row_id = Some row' \<and> o_claimed_by row' = None \<and>
    o_attempt row' = o_attempt row \<and>
    (if o_attempt row < s_job_max_attempts s
     then o_status row' = OutboxStatus_PENDING \<and> now + seconds 1 \<le> o_available_at row' \<and>
       o_available_at row' \<le> now + seconds 300 \<and> db_jobs db' = db_jobs db
     else o_status row' = OutboxStatus_FAILED \<and>
       (\<forall>j. get_job db (o_aggregate_id row) = Some j \<longrightarrow>
          j_status j \<in> {JobStatus_OUTBOX_PENDING, JobStatus_RETRY_SCHEDULED} \<longrightarrow>
          (\<exists>j'. get_job db' (o_aggregate_id row) = Some j' \<and> j_status j' = JobStatus_DEAD_LETTERED)))"
proof -
  obtain code message where se: "safe_error err rendered = (code, message)" by fastforce
  have id: "o_id row = row_id" using get_outbox_row [OF assms(3)] by simp
  let ?row1 = "row\<lparr>o_last_error := Some (bounded 1000 (code @ '': '' @ message)),
      o_claimed_at := None, o_claimed_by := None\<rparr>"
  have pow: "(1 :: int) \<le> 2 ^ n" for n :: nat by simp
  show ?thesis
  proof (cases "o_attempt row < s_job_max_attempts s")
    case True
    then have "db' = save_outbox db (?row1\<lparr>o_status := OutboxStatus_PENDING,
        o_available_at := retry_available_at (o_attempt row) now\<rparr>)"
      using assms(2,3) se by (simp add: record_failure_def Let_def)
    then show ?thesis using True assms(3) id pow by (simp add: retry_available_at_def)
  next
    case False
    let ?db1 = "save_outbox db (?row1\<lparr>o_status := OutboxStatus_FAILED\<rparr>)"
    have get1: "get_outbox ?db1 row_id = Some (?row1\<lparr>o_status := OutboxStatus_FAILED\<rparr>)"
      using assms(3) id by simp
    show ?thesis
    proof (cases "\<exists>j. get_job db (o_aggregate_id row) = Some j \<and>
        j_status j \<in> {JobStatus_OUTBOX_PENDING, JobStatus_RETRY_SCHEDULED}")
      case True
      then obtain j where j: "get_job db (o_aggregate_id row) = Some j"
        "j_status j \<in> {JobStatus_OUTBOX_PENDING, JobStatus_RETRY_SCHEDULED}" by blast
      from assms(2,3) se False j obtain job1 job2 j' e
        where t2: "transition_job job1 JobStatus_DEAD_LETTERED now = Inr job2"
          and id1: "j_id job1 = j_id j"
          and ev: "dispatcher_event ?db1
            (job2\<lparr>j_error_code := Some ''outbox_publish_failed'',
                  j_error_message := Some ''Job could not be published to the queue''\<rparr>)
            JobEventType_JOB_DEAD_LETTERED ''job.outbox_dead_lettered''
            ''Queue publishing exhausted attempts'' now = Inr (db', j', e)"
        by (auto simp: record_failure_def Let_def transition_job_frame split: if_splits
            dest: transition_job_frame(1))
      have "db_outbox db' = db_outbox ?db1"
        using ev by (simp add: dispatcher_event_def emit_Inr)
      then have "get_outbox db' = get_outbox ?db1" by (rule lookup_frame)
      moreover have "get_job db' (o_aggregate_id row) = Some j' \<and> j_status j' = JobStatus_DEAD_LETTERED"
        using ev transition_job_frame [OF t2] id1 get_job_id [OF j(1)] j(1)
        by (simp add: dispatcher_event_def emit_Inr)
      ultimately show ?thesis using False get1 by simp
    next
      case none: False
      then have "db' = ?db1"
        using assms(2,3) se False
        by (auto simp: record_failure_def Let_def split: if_splits option.splits)
      then show ?thesis using False none get1 by auto
    qed
  qed
qed

definition demo_refused :: "(db \<times> unit) result" where
  "demo_refused = record_failure default_settings demo_created 1 QueueUnavailableError ''down'' 5"

theorem publication_retries_are_bounded_applied:
  "\<exists>row. get_outbox (committed demo_refused) 1 = Some row \<and> o_status row = OutboxStatus_PENDING"
proof -
  have "\<not> isl demo_refused" by code_simp
  then obtain db' u where r: "demo_refused = Inr (db', u)" by (metis sum.collapse(2) prod.collapse)
  have row: "map_option o_attempt (get_outbox demo_created 1) = Some 0" by code_simp
  then obtain row where g: "get_outbox demo_created 1 = Some row" "o_attempt row = 0" by auto
  have "0 < s_job_max_attempts default_settings" by code_simp
  with publication_retries_are_bounded [OF demo_created_inv r [unfolded demo_refused_def] g(1)] g(2)
  have "\<exists>row. get_outbox db' 1 = Some row \<and> o_status row = OutboxStatus_PENDING" by auto
  then show ?thesis unfolding committed_def r by simp
qed

end
