(* ===== verification/Book_Histories.thy ===== *)
theory Book_Histories
  imports Job_Histories
begin

text \<open>
  The worker's execution of a full-book run is a history of the job subsystem: every transaction of
  \<open>BookWorkflowApplicationService.execute\<close> and of the handler around it is a step, provided the services
  it calls only perform steps themselves. So every property of histories also holds while books are
  written.
\<close>

definition runs_from :: "(json \<Rightarrow> string) \<Rightarrow> settings \<Rightarrow> db \<Rightarrow> db \<times> 'a result \<Rightarrow> bool" where
  "runs_from hexdigest s db x \<longleftrightarrow> (sys_inv db \<longrightarrow> reachable_from hexdigest s db (fst x))"

lemma runs_same [intro, simp]: "runs_from hexdigest s db (db, r)"
  by (simp add: runs_from_def)

lemma runs_and_run:
  assumes "settings_ok s" and "runs_from hexdigest s db x"
    and "\<And>db1 a. x = (db1, Inr a) \<Longrightarrow> runs_from hexdigest s db1 (f db1 a)"
  shows "runs_from hexdigest s db (and_run x f)"
proof (cases x)
  case (Pair db1 r)
  then show ?thesis
    using assms reachable_inv [OF _ assms(1)] reachable_trans
    by (cases r) (auto simp: runs_from_def)
qed

lemma runs_ran:
  "(\<And>db' a. r = Inr (db', a) \<Longrightarrow> sys_inv db \<Longrightarrow> reachable_from hexdigest s db db') \<Longrightarrow>
   runs_from hexdigest s db (ran db r)"
  by (cases r) (auto simp: runs_from_def)

lemma runs_quiet: "quiet_txn db r \<Longrightarrow> runs_from hexdigest s db (ran db r)"
  by (rule runs_ran) (auto intro: reachable_step quiet_txn_is_step)

lemma runs_chapter:
  "runs_from hexdigest s db
     (ran db (record_chapter_completion s hash db run_id n w status uuid now))"
  by (rule runs_ran) (metis chapter_is_step sys_invD(1,2) reachable_step)

text \<open>What the services of a run may do: histories of their own, and an edit of a revision plan.\<close>

definition env_steps :: "(json \<Rightarrow> string) \<Rightarrow> book_env \<Rightarrow> bool" where
  "env_steps hexdigest env \<longleftrightarrow>
     (let s = be_settings env in
      (\<forall>x db t. runs_from hexdigest s db (ran db (be_control env x db t))) \<and>
      (\<forall>x y db t. runs_from hexdigest s db (ran db (be_progress env x y db t))) \<and>
      (\<forall>k db p n r. runs_from hexdigest s db (be_run_chapter env k db p n r)) \<and>
      (\<forall>k db w. runs_from hexdigest s db (be_resume_chapter env k db w)) \<and>
      (\<forall>db i. runs_from hexdigest s db (be_build_snapshot env db i)) \<and>
      (\<forall>db i. runs_from hexdigest s db (be_analyze env db i)) \<and>
      (\<forall>db i b. runs_from hexdigest s db (be_accept_snapshot env db i b)) \<and>
      (\<forall>db i n v l. runs_from hexdigest s db (be_revision_plan env db i n v l)) \<and>
      (\<forall>db p n r. runs_from hexdigest s db (be_revise_chapter env db p n r)) \<and>
      (\<forall>db i. quiet db (be_plan_completed env db i)))"

lemma env_stepsD:
  assumes "env_steps hexdigest env"
  shows "runs_from hexdigest (be_settings env) db (ran db (be_control env x db t))"
    "runs_from hexdigest (be_settings env) db (ran db (be_progress env x y db t))"
    "runs_from hexdigest (be_settings env) db (be_run_chapter env k db p n r)"
    "runs_from hexdigest (be_settings env) db (be_resume_chapter env k db w)"
    "runs_from hexdigest (be_settings env) db (be_build_snapshot env db i)"
    "runs_from hexdigest (be_settings env) db (be_analyze env db i)"
    "runs_from hexdigest (be_settings env) db (be_accept_snapshot env db i b)"
    "runs_from hexdigest (be_settings env) db (be_revision_plan env db i m v l)"
    "runs_from hexdigest (be_settings env) db (be_revise_chapter env db p n r)"
    "quiet db (be_plan_completed env db i)"
  using assms by (simp_all add: env_steps_def Let_def)

section \<open>The rounds\<close>

lemma runs_chapter_workflow:
  "env_steps hexdigest env \<Longrightarrow> runs_from hexdigest (be_settings env) db (chapter_workflow env k db run n)"
  by (auto simp: chapter_workflow_def env_stepsD split: option.split)

lemma runs_execute_chapter:
  assumes "settings_ok (be_settings env)" and "env_steps hexdigest env"
  shows "runs_from hexdigest (be_settings env) db (execute_chapter env k db run_id n)"
  unfolding execute_chapter_def
  by (intro runs_and_run [OF assms(1)] runs_same)
    (auto intro!: runs_and_run [OF assms(1)] runs_quiet runs_chapter runs_chapter_workflow assms(2)
      split: prod.split)

lemma runs_budget_gate:
  "settings_ok s \<Longrightarrow> runs_from hexdigest s db (budget_gate db run_id c t now)"
  unfolding budget_gate_def by (intro runs_and_run runs_quiet) auto

lemma runs_periodic_check:
  "settings_ok s \<Longrightarrow> runs_from hexdigest s db (record_periodic_check db run_id summary now)"
  unfolding record_periodic_check_def by (intro runs_and_run runs_quiet) auto

lemma runs_chapter_round:
  assumes "settings_ok (be_settings env)" and "env_steps hexdigest env"
  shows "runs_from hexdigest (be_settings env) db (chapter_round env k db run_id n)"
  unfolding chapter_round_def Let_def
  by (auto intro!: runs_and_run [OF assms(1)] runs_quiet runs_execute_chapter [OF assms]
      runs_periodic_check [OF assms(1)] env_stepsD [OF assms(2)])

lemma runs_book_round:
  assumes "settings_ok (be_settings env)" and "env_steps hexdigest env"
  shows "runs_from hexdigest (be_settings env) db (book_round env k db run_id)"
  unfolding book_round_def
  by (auto intro!: runs_and_run [OF assms(1)] runs_quiet runs_chapter_round [OF assms]
      runs_budget_gate [OF assms(1)] split: next_step.split)

lemma runs_book_loop:
  assumes "settings_ok (be_settings env)" and "env_steps hexdigest env"
  shows "runs_from hexdigest (be_settings env) db (book_loop env fuel k db run_id)"
proof (induction fuel arbitrary: k db)
  case (Suc fuel)
  then show ?case by (auto intro!: runs_and_run [OF assms(1)] runs_book_round [OF assms])
qed simp

section \<open>The review and the whole run\<close>

lemma runs_targeted_revision:
  assumes "settings_ok (be_settings env)" and "env_steps hexdigest env"
  shows "runs_from hexdigest (be_settings env) db (targeted_revision env db run_id n)"
  unfolding targeted_revision_def
  by (auto intro!: runs_and_run [OF assms(1)] runs_quiet runs_chapter env_stepsD [OF assms(2)]
      split: prod.split)

lemma runs_targeted_revisions:
  assumes "settings_ok (be_settings env)" and "env_steps hexdigest env"
  shows "runs_from hexdigest (be_settings env) db (targeted_revisions env db run_id ts)"
proof (induction ts arbitrary: db)
  case (Cons t ts)
  then show ?case by (auto intro!: runs_and_run [OF assms(1)] runs_targeted_revision [OF assms])
qed simp

lemma quiet_end_revision:
  assumes "env_steps hexdigest env"
  shows "quiet_txn db (end_revision_txn env db run_id snapshot_id tasks)"
proof (rule quiet_txnI)
  fix db' a assume op: "end_revision_txn env db run_id snapshot_id tasks = Inr (db', a)"
  let ?db1 = "be_plan_completed env db snapshot_id"
  have "quiet ?db1 db' \<and> db_ok db'"
    using op by (auto simp: end_revision_txn_def Let_def split: option.splits)
  then show "quiet db db' \<and> db_ok db'"
    using quiet_trans [OF env_stepsD(10) [OF assms]] by blast
qed

lemma runs_revision_or_review:
  assumes "settings_ok (be_settings env)" and "env_steps hexdigest env"
  shows "runs_from hexdigest (be_settings env) db (revision_or_review env db run_id snapshot_id verdict)"
  unfolding revision_or_review_def Let_def
  by (auto intro!: runs_and_run [OF assms(1)] runs_quiet runs_targeted_revisions [OF assms]
      quiet_end_revision [OF assms(2)] env_stepsD [OF assms(2)] split: option.split)

lemma runs_global_review:
  assumes "settings_ok (be_settings env)" and "env_steps hexdigest env"
  shows "runs_from hexdigest (be_settings env) db (global_review env db run_id)"
  unfolding global_review_def Let_def
  by (auto intro!: runs_and_run [OF assms(1)] runs_quiet runs_revision_or_review [OF assms]
      env_stepsD [OF assms(2)])

lemma runs_execute_book:
  assumes "settings_ok (be_settings env)" and "env_steps hexdigest env"
  shows "runs_from hexdigest (be_settings env) db (execute_book env fuel db run_id)"
  unfolding execute_book_def
  by (auto intro!: runs_and_run [OF assms(1)] runs_quiet runs_book_loop [OF assms]
      runs_global_review [OF assms])

lemma book_run_history:
  assumes "settings_ok (be_settings env)" and "env_steps hexdigest env" and "sys_inv db"
  shows "reachable_from hexdigest (be_settings env) db (fst (run_book_handler env fuel db run_id rendered))"
proof -
  have "runs_from hexdigest (be_settings env) db
      (case execute_book env fuel db run_id of (db1, Inr r) \<Rightarrow> (db1, Inr r)
       | (db1, Inl error) \<Rightarrow>
         and_run (ran db1
           (if error = JobPauseRequested then mark_paused db1 run_id (be_now env 0)
            else if error = JobCancellationRequested then mark_cancelled db1 run_id (be_now env 0)
            else mark_failed db1 run_id error rendered (be_now env 0))) (\<lambda>db2 _. (db2, Inl error)))" for db
  proof -
    obtain db1 r where x: "execute_book env fuel db run_id = (db1, r)" by fastforce
    have r1: "runs_from hexdigest (be_settings env) db (db1, r)"
      using runs_execute_book [OF assms(1,2), of db fuel run_id] x by simp
    show ?thesis
    proof (cases r)
      case (Inl error)
      have "runs_from hexdigest (be_settings env) db1
         (and_run (ran db1
           (if error = JobPauseRequested then mark_paused db1 run_id (be_now env 0)
            else if error = JobCancellationRequested then mark_cancelled db1 run_id (be_now env 0)
            else mark_failed db1 run_id error rendered (be_now env 0))) (\<lambda>db2 _. (db2, Inl error)))"
        (is "runs_from _ _ _ ?y")
        by (auto intro!: runs_and_run [OF assms(1)] runs_quiet)
      then have "sys_inv db \<longrightarrow> reachable_from hexdigest (be_settings env) db (fst ?y)"
        using r1 reachable_inv [OF _ assms(1)] reachable_trans by (auto simp: runs_from_def)
      then show ?thesis using x Inl by (simp add: runs_from_def)
    next
      case (Inr v)
      then show ?thesis using x r1 by (simp add: runs_from_def)
    qed
  qed
  then have "runs_from hexdigest (be_settings env) db (run_book_handler env fuel db run_id rendered)"
    unfolding run_book_handler_def
    by (auto intro!: runs_and_run [OF assms(1)] env_stepsD [OF assms(2)])
  then show ?thesis using assms(3) by (simp add: runs_from_def)
qed

section \<open>The controls of a run\<close>

lemma runs_job_controls:
  "runs_from hexdigest s db (ran db (request_pause db i now))"
  "runs_from hexdigest s db (ran db (resume db i now))"
  "runs_from hexdigest s db (ran db (request_cancel db i now))"
  by (rule runs_ran, metis reachable_step step_pause step_resume step_cancel)+

lemma runs_run_controls:
  assumes "settings_ok s"
  shows "runs_from hexdigest s db (pause_run db i now)"
    and "runs_from hexdigest s db (resume_run db i q now)"
    and "runs_from hexdigest s db (cancel_run db i now)"
  unfolding pause_run_def resume_run_def cancel_run_def
  by (auto intro!: runs_and_run [OF assms] runs_quiet runs_job_controls split: option.split)

end
