(* ===== verification/Book_Admission.thy ===== *)
theory Book_Admission
  imports Job_Demo
begin

text \<open>
  Admission of full-book runs: what a successful \<open>create\<close> commits, that it keeps the invariant of the
  job subsystem, and the controls of a run that no worker has started.
\<close>

section \<open>Creation\<close>

text \<open>
  Admission of a full-book run. A successful \<open>create\<close> that is not a reuse commits, in one
  transaction and on a project without an active run, exactly one PENDING run and its RUN_BOOK
  job (each naming the other), the job's event number one and one pending outbox message; every
  other run and job stays as it was, and the invariant of the job subsystem holds afterwards.
\<close>

theorem book_run_admission_effect:
  assumes inv: "sys_inv db" and s: "settings_ok s"
    and op: "create_run s digest hash db p q external_key thread_id uuid now = Inr (db', a)"
    and new: "\<not> ba_reused a"
  shows "sys_inv db' \<and> active_book_run db p = None \<and>
    get_book_run db (ba_book_run_id a) = None \<and> get_job db (ba_job_id a) = None \<and>
    (\<exists>run job. get_book_run db' (ba_book_run_id a) = Some run \<and> br_status run = BookRunStatus_PENDING \<and>
       br_project_id run = p \<and> br_job_id run = Some (ba_job_id a) \<and>
       get_job db' (ba_job_id a) = Some job \<and> j_job_type job = JobType_RUN_BOOK \<and>
       j_status job = JobStatus_OUTBOX_PENDING \<and> j_book_run_id job = Some (ba_book_run_id a)) \<and>
    (\<exists>event. event_rows db' = event_rows db @ [event] \<and> e_job_id event = ba_job_id a \<and>
       e_event_type event = JobEventType_JOB_CREATED \<and> e_sequence event = 1) \<and>
    (\<exists>m. outbox_rows db' = outbox_rows db @ [m] \<and> o_aggregate_id m = ba_job_id a \<and>
       o_status m = OutboxStatus_PENDING) \<and>
    (\<forall>i. i \<noteq> ba_book_run_id a \<longrightarrow> get_book_run db' i = get_book_run db i) \<and>
    (\<forall>i. i \<noteq> ba_job_id a \<longrightarrow> get_job db' i = get_job db i)"
proof -
  have ok: "struct_ok db" "db_ok db" "jobs_inv db"
    using inv by (auto simp: sys_inv_def store_inv_struct)
  have keys: "keys_ok db" using ok(1) by (rule struct_ok_keys)
  obtain external key job_key where txn:
    "create_run_txn s db p q external key job_key thread_id uuid now = Inr (db', a)"
    using create_run_fresh [OF op new] .
  note ad = create_run_txn_admits [OF ok(1,2) txn new]
  then have "sys_inv db'"
    using jobs_inv_admits [OF s _ ok(3)] by (auto simp: sys_inv_def store_inv_struct)
  moreover have none: "get_job db (ba_job_id a) = None" and others: "\<forall>i. i \<noteq> ba_job_id a \<longrightarrow> get_job db' i = get_job db i"
    using ad by (auto simp: admits_def others_unchanged_def)
  show ?thesis
  proof (rule create_run_txn_parts [OF keys txn new])
    fix project d run job db3 event
    assume pr: "get_project db p = Some project" and act: "active_book_run db p = None"
      and run: "run = admitted_run s db project (chapters_of_project db p) q key thread_id now"
      and job: "job = admitted_job s db d p job_key uuid now"
      and event: "event = event_for job JobEventType_JOB_CREATED ''book_run.created''
        ''Book run job created'' None None now"
      and db3: "db3 = save_book_run (fst (add_job (fst (add_book_run db (new_book_run s project
          (chapters_of_project db p) q key thread_id now)))
             (new_book_job s d p (t_next (db_book_runs db)) job_key uuid now))) run"
      and get3: "get_job db3 (j_id job) = Some job"
      and db': "db' = fst (add_outbox (emitted db3 job event) (enqueue_message job now (outbox_key job ''create'') now))"
      and ids: "ba_book_run_id a = br_id run" "ba_job_id a = j_id job"
    have rid: "br_id run = t_next (db_book_runs db)" by (simp add: run admitted_run_def)
    have "get_project db p = Some project \<Longrightarrow> pr_id project = p"
      by (auto simp: get_project_def repo_get_def dest: find_SomeD)
    then have prid: "br_project_id run = p" "br_status run = BookRunStatus_PENDING" "br_job_id run = Some (j_id job)"
      using pr by (simp_all add: run admitted_run_def new_book_run_def job admitted_job_def)
    have jobf: "j_job_type (bumped job event) = JobType_RUN_BOOK" "j_status (bumped job event) = JobStatus_OUTBOX_PENDING"
      "j_book_run_id (bumped job event) = Some (br_id run)" "j_event_sequence job = 0"
      by (simp_all add: job admitted_job_def new_book_job_def bumped_def rid)
    have getj: "get_job db' (j_id job) = Some (bumped job event)"
      unfolding db' using get3 by (simp add: emitted_def event event_for_def)
    let ?new = "new_book_run s project (chapters_of_project db p) q key thread_id now"
    let ?job = "new_book_job s d p (t_next (db_book_runs db)) job_key uuid now"
    have "db_book_runs db' = db_book_runs db3"
      by (simp add: db' add_outbox_def repo_add_def Let_def)
    then have "get_book_run db' = get_book_run db3" by (rule get_book_run_frame)
    moreover have "get_book_run (fst (add_job (fst (add_book_run db ?new)) ?job)) =
        get_book_run (fst (add_book_run db ?new))"
      by (rule get_book_run_frame) (simp add: add_job_def repo_add_def Let_def)
    ultimately have runs: "get_book_run db' i = (if i = br_id run then Some run else get_book_run db i)" for i
      using get_book_run_add [OF keys, of ?new] by (simp add: db3 rid)
    have evs: "event_rows db' = event_rows db @ [event\<lparr>e_sequence := 1, e_id := t_next (db_events db)\<rparr>]"
      by (simp add: db' emitted_def event_rows_add jobf(4) db3)
    have out: "outbox_rows db' = outbox_rows db @ [(enqueue_message job now (outbox_key job ''create'') now)
        \<lparr>o_id := t_next (db_outbox db)\<rparr>]"
      by (simp add: db' outbox_rows_add emitted_def db3)
    show ?thesis
      using \<open>sys_inv db'\<close> act none others ids prid jobf getj runs evs out get_book_run_fresh [OF keys] rid
      by (auto simp: event event_for_def enqueue_message_def)
  qed
qed

end
