(* ===== verification/Book_Properties.thy ===== *)
theory Book_Properties
  imports Book_Admission Book_Execution
begin

text \<open>
  Properties of full-book runs: the effect of an admission at a concrete state, the controls of a run
  that no worker has started, and what a failed attempt of the job leaves behind.
\<close>

section \<open>A concrete book\<close>

definition book_chapter :: "int \<Rightarrow> chapter_row" where
  "book_chapter n = demo_chapter\<lparr>ch_id := n, ch_chapter_number := n\<rparr>"

definition book_db :: db where
  "book_db = empty_db\<lparr>db_projects := \<lparr>t_rows = [demo_project], t_next = 2\<rparr>,
     db_chapters := \<lparr>t_rows = map book_chapter [1, 2, 3], t_next = 4\<rparr>\<rparr>"

definition book_request :: book_run_request where
  "book_request = \<lparr>bq_mode = BookRunMode_SEQUENTIAL, bq_max_chapter_retries = None,
     bq_max_global_revision_rounds = None, bq_model_profile = None, bq_privacy_policy = None,
     bq_max_estimated_cost = None, bq_max_total_tokens = None, bq_max_provider_calls = None\<rparr>"

definition book_create :: "(db \<times> book_run_accepted) result" where
  "book_create = create_run default_settings (\<lambda>_ _ x. ''k'' @ x) (\<lambda>x. x) book_db 1 book_request None
     ''thread'' ''uuid'' 0"

lemma book_create_ok:
  "map_sum id (\<lambda>(_, a). (ba_book_run_id a, ba_job_id a, ba_reused a)) book_create = Inr (1, 1, False)"
  by code_simp

lemma map_sum_InrD: "map_sum f g x = Inr y \<Longrightarrow> \<exists>z. x = Inr z \<and> g z = y"
  by (cases x) auto

lemma book_db_inv: "sys_inv book_db"
proof -
  have "db_ok book_db" by code_simp
  moreover have "keys_ok book_db" by code_simp
  then have "quiet empty_db book_db" by (simp add: quiet_def book_db_def)
  ultimately have "job_step demo_digest default_settings empty_db [] book_db"
    by (intro job_step.other)
  from job_history_inv [OF job_history.history_step [OF job_history.history_nil this]
      default_settings_ok sys_inv_empty] show ?thesis .
qed

theorem book_run_admission_effect_applied:
  "\<exists>db'. sys_inv db' \<and> get_book_run book_db 1 = None \<and>
     map_option br_job_id (get_book_run db' 1) = Some (Some 1) \<and>
     map_option j_book_run_id (get_job db' 1) = Some (Some 1)"
proof -
  obtain db' a where op: "book_create = Inr (db', a)" and a: "ba_book_run_id a = 1" "ba_job_id a = 1"
      "\<not> ba_reused a"
    using map_sum_InrD [OF book_create_ok] by auto
  from book_run_admission_effect [OF book_db_inv default_settings_ok op [unfolded book_create_def] a(3)]
  show ?thesis by (intro exI [of _ db']) (auto simp: a)
qed

section \<open>Runs that no worker has started\<close>

text \<open>
  A queued book run cannot be stopped. While a run is PENDING, \<open>request_pause\<close> and
  \<open>request_cancel\<close> both raise InvalidStateError and change nothing, whatever the state of its job:
  the table of transitions has no edge from PENDING to CANCEL_REQUESTED.
\<close>

theorem queued_run_cannot_be_stopped:
  assumes "get_book_run db i = Some run" and "br_status run = BookRunStatus_PENDING"
  shows "pause_run db i now = (db, Inl InvalidStateError) \<and> cancel_run db i now = (db, Inl InvalidStateError)"
  using assms
  by (simp_all add: pause_run_def cancel_run_def cancel_run_txn_def pausable_run_statuses_def
      terminal_book_run_statuses_def transition_book_run_def)

section \<open>After a failed attempt\<close>








definition book_env_demo :: "exn \<Rightarrow> book_env" where
  "book_env_demo e =
     \<lparr>be_settings = default_settings, be_hash = (\<lambda>x. x), be_uuid = (\<lambda>_. ''uuid''), be_now = (\<lambda>_. 20),
      be_calls = (\<lambda>_. []), be_control = (\<lambda>_ db _. Inr (db, ())), be_progress = (\<lambda>_ _ db _. Inr (db, ())),
      be_run_chapter = (\<lambda>_ db _ _ _. (db, Inl e)), be_resume_chapter = (\<lambda>_ db _. (db, Inl e)),
      be_periodic = (\<lambda>_ _. Inr []), be_build_snapshot = (\<lambda>db _. (db, Inr 1)),
      be_analyze = (\<lambda>db _. (db, Inr \<lparr>vd_evaluation_id = 1, vd_passed = True, vd_recommended_action = ''accept'',
        vd_blocking_reasons = []\<rparr>)),
      be_accept_snapshot = (\<lambda>db _ _. (db, Inr ())), be_revision_plan = (\<lambda>db _ _ _ _. (db, Inr [])),
      be_revise_chapter = (\<lambda>db _ n _. (db, Inr (n, WorkflowRunStatus_COMPLETED))),
      be_plan_completed = (\<lambda>db _. db)\<rparr>"

definition failed_attempt :: "db \<times> book_result option result" where
  "failed_attempt = run_book_handler (book_env_demo OperationalError) 5 (committed book_create) 1 ''busy''"

lemma failed_attempt_ok:
  "snd failed_attempt = Inl OperationalError \<and>
   map_option br_status (get_book_run (fst failed_attempt) 1) = Some BookRunStatus_FAILED \<and>
   db_ok (fst failed_attempt)"
  by code_simp




end
