(* ===== verification/Scheduler_Properties.thy ===== *)
theory Scheduler_Properties
  imports Book_Scheduler
begin

text \<open>
  Properties of the book scheduler: the plan check accepts exactly the well-formed acyclic plans,
  a scheduled chapter has all its predecessors accepted, and a book whose scheduled chapters are
  accepted one after the other is completed.
\<close>

section \<open>Plans\<close>

definition plan_graph :: "int list \<Rightarrow> dependency_graph option \<Rightarrow> dependency_graph" where
  "plan_graph chapter_numbers dependencies =
     (case dependencies of
        None \<Rightarrow> default_dependencies (sort chapter_numbers)
      | Some [] \<Rightarrow> default_dependencies (sort chapter_numbers)
      | Some g \<Rightarrow> g)"

text \<open>The chapters are 1 to n in some order, every chapter and only those have an entry, and the
  dependencies are acyclic and among the chapters.\<close>

definition plan_ok :: "int list \<Rightarrow> dependency_graph \<Rightarrow> bool" where
  "plan_ok chapter_numbers graph \<longleftrightarrow> chapter_numbers \<noteq> [] \<and>
     sort chapter_numbers = [1..int (length chapter_numbers)] \<and>
     set (map fst graph) = set chapter_numbers \<and>
     (\<forall>(d, c) \<in> depends graph. d \<in> set (map fst graph)) \<and> acyclic (depends graph)"

lemma plan_graph_distinct:
  assumes "sort chapter_numbers = [1..n]" and "\<And>g. dependencies = Some g \<Longrightarrow> distinct (map fst g)"
  shows "distinct (map fst (plan_graph chapter_numbers dependencies))"
proof -
  have "distinct (map fst (default_dependencies (sort chapter_numbers)))"
    unfolding assms(1) by (simp add: default_dependencies_def comp_def)
  moreover have "plan_graph chapter_numbers dependencies = default_dependencies (sort chapter_numbers) \<or>
      dependencies = Some (plan_graph chapter_numbers dependencies)"
    by (simp add: plan_graph_def split: option.split list.split)
  ultimately show ?thesis using assms(2) by metis
qed

lemma acyclic_no_self: "acyclic (depends graph) \<Longrightarrow> (c, required) \<in> set graph \<Longrightarrow> c \<notin> set required"
  by (auto simp: acyclic_def depends_def)

lemma edges_validI:
  assumes "acyclic (depends graph)" and "\<forall>(d, c) \<in> depends graph. d \<in> set (map fst graph)"
  shows "edges_valid graph"
  using assms acyclic_no_self [OF assms(1)] by (fastforce simp: edges_valid_def depends_def)

lemma edges_validD:
  "edges_valid graph \<Longrightarrow> \<forall>(d, c) \<in> depends graph. d \<in> set (map fst graph)"
  by (fastforce simp: edges_valid_def depends_def)

text \<open>
  C15. The plan check is exact: it accepts a plan if and only if the chapters are numbered
  1 to n without gap, every chapter has an entry, and the dependencies are acyclic and refer to
  planned chapters; then it returns the plan sorted, and every other plan is refused with
  \<open>DomainValidationError\<close>. Its loops end on every input.
\<close>

theorem plan_check_is_exact:
  assumes "\<And>g. dependencies = Some g \<Longrightarrow> distinct (map fst g)"
  shows "validate_plan chapter_numbers dependencies =
    (if plan_ok chapter_numbers (plan_graph chapter_numbers dependencies)
     then Inr (map (\<lambda>(c, required). (c, sort required))
       (sort_key fst (plan_graph chapter_numbers dependencies)))
     else Inl DomainValidationError)"
proof -
  let ?g = "plan_graph chapter_numbers dependencies" and ?o = "sort chapter_numbers"
  have unfold: "validate_plan chapter_numbers dependencies =
      (if ?o = [] \<or> ?o \<noteq> [1..int (length ?o)] then Inl DomainValidationError
       else if set (map fst ?g) \<noteq> set ?o then Inl DomainValidationError
       else if \<not> edges_valid ?g then Inl DomainValidationError
       else and_then (kahn (outgoing_edges ?o ?g) (indegrees ?o ?g)
           (map fst (filter (\<lambda>(_, k). k = 0) (indegrees ?o ?g))) 0)
         (\<lambda>visited. if visited \<noteq> int (length ?g) then Inl DomainValidationError
           else Inr (map (\<lambda>(c, required). (c, sort required)) (sort_key fst ?g))))"
    unfolding validate_plan_def plan_graph_def Let_def by (rule refl)
  show ?thesis
  proof (cases "?o \<noteq> [] \<and> ?o = [1..int (length ?o)] \<and> set (map fst ?g) = set ?o \<and> edges_valid ?g")
    case True
    then have range: "?o = [1..int (length chapter_numbers)]" by simp
    have dist: "distinct ?o" by (subst range) simp
    from kahn_decides [OF dist plan_graph_distinct [OF range assms]] True
    obtain n where n: "kahn (outgoing_edges ?o ?g) (indegrees ?o ?g)
        (map fst (filter (\<lambda>(_, k). k = 0) (indegrees ?o ?g))) 0 = Inr n"
      "n = int (length ?g) \<longleftrightarrow> acyclic (depends ?g)" by blast
    have "chapter_numbers \<noteq> []" "set (map fst ?g) = set chapter_numbers" using True by auto
    then have "plan_ok chapter_numbers ?g \<longleftrightarrow> acyclic (depends ?g)"
      unfolding plan_ok_def using range edges_validD [of ?g] True by blast
    moreover have "\<not> (?o = [] \<or> ?o \<noteq> [1..int (length ?o)])" "\<not> set (map fst ?g) \<noteq> set ?o"
      "\<not> \<not> edges_valid ?g" using True unfolding length_sort by blast+
    ultimately show ?thesis
      unfolding unfold n(1) by (cases "acyclic (depends ?g)") (simp_all only: if_False if_True and_then.simps n(2) not_not simp_thms)
  next
    case False
    then have "\<not> plan_ok chapter_numbers ?g"
      unfolding plan_ok_def using edges_validI [of ?g] by (metis length_sort set_sort set_empty)
    moreover have "?o = [] \<or> ?o \<noteq> [1..int (length ?o)] \<or> set (map fst ?g) \<noteq> set ?o \<or> \<not> edges_valid ?g"
      using False by blast
    ultimately show ?thesis unfolding unfold by argo
  qed
qed

definition demo_plan :: dependency_graph where
  "demo_plan = [(3, [2, 1]), (1, []), (2, [1])]"

definition demo_cycle :: dependency_graph where
  "demo_cycle = [(1, []), (2, [3]), (3, [2])]"

theorem plan_check_is_exact_applied:
  "plan_ok [2, 1, 3] (plan_graph [2, 1, 3] (Some demo_plan)) \<and>
   \<not> plan_ok [2, 1, 3] (plan_graph [2, 1, 3] (Some demo_cycle))"
proof -
  have 1: "distinct (map fst g)" if "Some demo_plan = Some g \<or> Some demo_cycle = Some g" for g
    using that by (auto simp: demo_plan_def demo_cycle_def)
  have "\<not> isl (validate_plan [2, 1, 3] (Some demo_plan))" "isl (validate_plan [2, 1, 3] (Some demo_cycle))"
    by code_simp+
  then show ?thesis
    using plan_check_is_exact [of "Some demo_plan" "[2, 1, 3]"]
      plan_check_is_exact [of "Some demo_cycle" "[2, 1, 3]"] 1
    by (auto split: if_splits)
qed


section \<open>Decisions\<close>

lemma sorted_plan_required:
  assumes "distinct (map fst graph)"
  shows "set (required_of (map (\<lambda>(c, required). (c, sort required)) (sort_key fst graph)) c) =
    set (required_of graph c)"
proof -
  have "map_of (sort_key fst graph) = map_of graph"
    using assms by (intro map_of_inject_set [THEN iffD2]) (simp_all add: distinct_map)
  then show ?thesis
    by (simp add: required_of_def map_of_map comp_def split: option.split)
qed

lemma plan_accepted:
  assumes "\<And>g. dependencies = Some g \<Longrightarrow> distinct (map fst g)"
    and "validate_plan chapter_numbers dependencies = Inr g"
  shows "plan_ok chapter_numbers (plan_graph chapter_numbers dependencies)"
    and "set (required_of g c) = set (required_of (plan_graph chapter_numbers dependencies) c)"
proof -
  let ?g = "plan_graph chapter_numbers dependencies"
  have g: "plan_ok chapter_numbers ?g" "g = map (\<lambda>(c, required). (c, sort required)) (sort_key fst ?g)"
    using plan_check_is_exact [OF assms(1)] assms(2) by (auto split: if_splits)
  show "plan_ok chapter_numbers ?g" by (rule g(1))
  have "sort chapter_numbers = [1..int (length chapter_numbers)]" using g(1) by (simp add: plan_ok_def)
  from plan_graph_distinct [OF this assms(1)]
  show "set (required_of g c) = set (required_of ?g c)"
    unfolding g(2) by (rule sorted_plan_required)
qed

text \<open>Nothing runs, and nothing waits for a human unless the book goes on regardless.\<close>

definition quiescent :: "(int \<times> string) list \<Rightarrow> bool \<Rightarrow> bool" where
  "quiescent status continue_after_needs_review \<longleftrightarrow>
     (\<forall>(_, s) \<in> set status. s \<notin> set active_chapter_statuses \<and>
        (s = ''needs_review'' \<longrightarrow> continue_after_needs_review))"

definition ready :: "int list \<Rightarrow> dependency_graph \<Rightarrow> (int \<times> string) list \<Rightarrow> int \<Rightarrow> bool" where
  "ready chapter_numbers graph status c \<longleftrightarrow> c \<in> set chapter_numbers \<and> \<not> chapter_done status c \<and>
     (\<forall>r \<in> set (required_of graph c). chapter_done status r)"

lemma candidates_ready:
  assumes "\<And>c. set (required_of g c) = set (required_of graph c)"
  shows "set (candidates g chapter_numbers status) = {c. ready chapter_numbers graph status c}"
    and "sorted (candidates g chapter_numbers status)"
  using assms by (auto simp: candidates_def ready_def list_all_iff sorted_filter [of "\<lambda>x. x", simplified])

text \<open>An unfinished plan has a chapter that is ready.\<close>

lemma some_ready:
  assumes "plan_ok chapter_numbers graph" and "c \<in> set chapter_numbers" and "\<not> chapter_done status c"
  shows "\<exists>c. ready chapter_numbers graph status c"
proof -
  have "wf (depends graph)"
    using finite_acyclic_wf [OF finite_depends] assms(1) by (simp add: plan_ok_def)
  moreover have "c \<in> {c \<in> set chapter_numbers. \<not> chapter_done status c}" using assms(2,3) by simp
  ultimately obtain z where z: "z \<in> set chapter_numbers" "\<not> chapter_done status z"
    "\<And>d. (d, z) \<in> depends graph \<Longrightarrow> d \<in> set chapter_numbers \<Longrightarrow> chapter_done status d"
    by (metis (mono_tags, lifting) mem_Collect_eq wfE_min)
  have "chapter_done status r" if r: "r \<in> set (required_of graph z)" for r
  proof -
    obtain l where "map_of graph z = Some l" "r \<in> set l"
      using r by (cases "map_of graph z") (auto simp: required_of_def)
    then have "(r, z) \<in> depends graph" by (auto simp: depends_def dest: map_of_SomeD)
    moreover from this have "r \<in> set chapter_numbers"
      using assms(1) unfolding plan_ok_def by blast
    ultimately show ?thesis by (rule z(3))
  qed
  then show ?thesis using z(1,2) by (auto simp: ready_def)
qed

lemma decide_quiescent:
  assumes "\<And>g. dependencies = Some g \<Longrightarrow> distinct (map fst g)"
    and "plan_ok chapter_numbers (plan_graph chapter_numbers dependencies)"
    and "1 \<le> concurrency" and "quiescent status continue"
  shows "\<exists>d. decide concurrency mode chapter_numbers status dependencies False False continue = Inr d \<and>
    (if list_all (chapter_done status) chapter_numbers then sd_action d = Complete
     else \<exists>c. sd_action d = Schedule \<and> sd_chapter_number d = Some c \<and>
       ready chapter_numbers (plan_graph chapter_numbers dependencies) status c)"
proof -
  let ?p = "plan_graph chapter_numbers dependencies"
  obtain g where g: "validate_plan chapter_numbers dependencies = Inr g"
    using plan_check_is_exact [OF assms(1)] assms(2) by simp
  note req = plan_accepted(2) [OF assms(1) g]
  have no: "\<not> list_ex (\<lambda>(_, s). s \<in> set active_chapter_statuses) status"
    "\<not> (list_ex (\<lambda>(_, s). s = ''needs_review'') status \<and> \<not> continue)"
    using assms(4) by (auto simp: quiescent_def list_ex_iff)
  show ?thesis
  proof (cases "list_all (chapter_done status) chapter_numbers")
    case True
    then show ?thesis using g no by (simp add: decide_def make_decision_def)
  next
    case False
    then obtain c where "c \<in> set chapter_numbers" "\<not> chapter_done status c" by (auto simp: list_all_iff)
    then have "{c. ready chapter_numbers ?p status c} \<noteq> {}" using some_ready [OF assms(2)] by blast
    then obtain x xs where cand: "candidates g chapter_numbers status = x # xs"
      using candidates_ready(1) [OF req, of chapter_numbers status]
      by (cases "candidates g chapter_numbers status") auto
    then have x: "ready chapter_numbers ?p status x"
      using candidates_ready(1) [OF req, of chapter_numbers status] by auto
    then have "x \<in> set (sort chapter_numbers)" by (simp add: ready_def)
    then have "x \<in> set [1..int (length chapter_numbers)]" using assms(2) unfolding plan_ok_def by metis
    then have "1 \<le> x" by simp
    moreover have "take (if mode = BookRunMode_SEQUENTIAL then 1 else nat concurrency) (x # xs) =
        x # take ((if mode = BookRunMode_SEQUENTIAL then 1 else nat concurrency) - 1) xs"
      using assms(3) by (simp add: take_Cons')
    ultimately show ?thesis using g no False x cand by (simp add: decide_def make_decision_def)
  qed
qed

text \<open>
  A chapter is scheduled only when no chapter is running, no cancellation or pause is
  requested, the chapter itself is not done and everything it depends on is; and it is the
  lowest-numbered such chapter.
\<close>

theorem schedule_respects_dependencies:
  assumes "\<And>g. dependencies = Some g \<Longrightarrow> distinct (map fst g)"
    and "decide concurrency mode chapter_numbers status dependencies cancel pause continue = Inr d"
    and "sd_action d = Schedule"
  shows "\<exists>c. sd_chapter_number d = Some c \<and>
    ready chapter_numbers (plan_graph chapter_numbers dependencies) status c \<and>
    (\<forall>c'. ready chapter_numbers (plan_graph chapter_numbers dependencies) status c' \<longrightarrow> c \<le> c') \<and>
    (\<forall>(_, s) \<in> set status. s \<notin> set active_chapter_statuses) \<and> \<not> cancel \<and> \<not> pause"
proof -
  obtain g where g: "validate_plan chapter_numbers dependencies = Inr g"
    using assms(2) by (auto simp: decide_def)
  note req = plan_accepted(2) [OF assms(1) g]
  let ?k = "if mode = BookRunMode_SEQUENTIAL then 1 else nat concurrency"
  have no: "\<not> cancel" "\<not> pause" "\<not> list_ex (\<lambda>(_, s). s \<in> set active_chapter_statuses) status"
    using assms(2,3) g by (auto simp: decide_def make_decision_def split: if_splits)
  obtain x xs where take: "take ?k (candidates g chapter_numbers status) = x # xs"
      and d: "sd_chapter_number d = Some x"
    using assms(2,3) g no by (auto simp: decide_def make_decision_def split: if_splits list.splits)
  then obtain ys where cand: "candidates g chapter_numbers status = x # ys"
    by (cases "candidates g chapter_numbers status") (auto simp: take_Cons' split: if_splits)
  have "ready chapter_numbers (plan_graph chapter_numbers dependencies) status x"
    "\<And>c'. ready chapter_numbers (plan_graph chapter_numbers dependencies) status c' \<Longrightarrow> x \<le> c'"
    using candidates_ready [OF req, of chapter_numbers status] cand by auto
  then show ?thesis using d no by (auto simp: list_ex_iff)
qed

section \<open>Whole books\<close>

text \<open>
  Running a book: ask for a decision, and as long as a chapter is scheduled, accept it. The
  result is the chapters in the order they were scheduled and the action the run ends with.
\<close>

fun run_book ::
  "nat \<Rightarrow> int \<Rightarrow> book_run_mode \<Rightarrow> int list \<Rightarrow> (int \<times> string) list \<Rightarrow> dependency_graph option \<Rightarrow>
   bool \<Rightarrow> (int list \<times> schedule_action) option" where
  "run_book 0 concurrency mode chs status deps continue = None"
| "run_book (Suc n) concurrency mode chs status deps continue =
     (case decide concurrency mode chs status deps False False continue of
        Inl e \<Rightarrow> None
      | Inr d \<Rightarrow>
          (case (sd_action d, sd_chapter_number d) of
             (Schedule, Some c) \<Rightarrow>
               map_option (\<lambda>(cs, a). (c # cs, a))
                 (run_book n concurrency mode chs (AList.update c ''accepted'' status) deps continue)
           | _ \<Rightarrow> Some ([], sd_action d)))"

lemma chapter_done_accept:
  "chapter_done (AList.update c ''accepted'' status) x \<longleftrightarrow> x = c \<or> chapter_done status x"
  by (auto simp: chapter_done_def update_conv' done_statuses_def split: option.split)

lemma set_update_subset: "set (AList.update k v al) \<subseteq> insert (k, v) (set al)"
  by (induction al) auto

lemma quiescent_accept:
  "quiescent status continue \<Longrightarrow> quiescent (AList.update c ''accepted'' status) continue"
  using set_update_subset [of c "''accepted''" status]
  by (fastforce simp: quiescent_def active_chapter_statuses_def)

text \<open>
  C14. Every book is completed: from any state in which no chapter runs and none waits for review
  (or the book continues regardless), accepting each scheduled chapter completes the book after
  exactly the open chapters were scheduled, each once and each after everything it depends on.
\<close>

theorem book_is_completed:
  assumes "\<And>g. dependencies = Some g \<Longrightarrow> distinct (map fst g)"
    and "plan_ok chapter_numbers (plan_graph chapter_numbers dependencies)"
    and "1 \<le> concurrency" and "quiescent status continue"
    and "card {c \<in> set chapter_numbers. \<not> chapter_done status c} < fuel"
  shows "\<exists>cs. run_book fuel concurrency mode chapter_numbers status dependencies continue =
      Some (cs, Complete) \<and> distinct cs \<and>
    set cs = {c \<in> set chapter_numbers. \<not> chapter_done status c} \<and>
    (\<forall>xs c ys. cs = xs @ c # ys \<longrightarrow>
      (\<forall>r \<in> set (required_of (plan_graph chapter_numbers dependencies) c).
         chapter_done status r \<or> r \<in> set xs))"
  using assms(4,5)
proof (induction fuel arbitrary: status)
  case (Suc n)
  let ?open = "\<lambda>st. {c \<in> set chapter_numbers. \<not> chapter_done st c}"
  let ?p = "plan_graph chapter_numbers dependencies"
  from decide_quiescent [OF assms(1-3) Suc.prems(1)] obtain d where
    d: "decide concurrency mode chapter_numbers status dependencies False False continue = Inr d"
      "if list_all (chapter_done status) chapter_numbers then sd_action d = Complete
       else \<exists>c. sd_action d = Schedule \<and> sd_chapter_number d = Some c \<and>
         ready chapter_numbers ?p status c" by blast
  show ?case
  proof (cases "list_all (chapter_done status) chapter_numbers")
    case True
    then show ?thesis using d by (auto simp: list_all_iff)
  next
    case False
    then obtain c where c: "sd_action d = Schedule" "sd_chapter_number d = Some c"
      "ready chapter_numbers ?p status c" using d(2) by auto
    let ?st = "AList.update c ''accepted'' status"
    have op: "?open status = insert c (?open ?st)" "c \<notin> ?open ?st"
      using c(3) by (auto simp: chapter_done_accept ready_def)
    then have "card (?open ?st) < n" using Suc.prems(2) by simp
    from Suc.IH [OF quiescent_accept [OF Suc.prems(1)] this] obtain cs where
      cs: "run_book n concurrency mode chapter_numbers ?st dependencies continue = Some (cs, Complete)"
        "distinct cs" "set cs = ?open ?st"
        "\<forall>xs x ys. cs = xs @ x # ys \<longrightarrow> (\<forall>r \<in> set (required_of ?p x). chapter_done ?st r \<or> r \<in> set xs)"
      by blast
    have order: "\<forall>r \<in> set (required_of ?p x). chapter_done status r \<or> r \<in> set xs"
      if "c # cs = xs @ x # ys" for xs x ys
    proof (cases xs)
      case Nil
      then show ?thesis using that c(3) by (simp add: ready_def)
    next
      case (Cons z zs)
      then have "cs = zs @ x # ys" "z = c" using that by simp_all
      then show ?thesis using cs(4) Cons by (auto simp: chapter_done_accept)
    qed
    then show ?thesis using d(1) c cs op by (intro exI [of _ "c # cs"]) simp
  qed
qed simp

theorem book_is_completed_applied:
  "\<exists>cs. run_book 4 1 BookRunMode_SEQUENTIAL [2, 1, 3] [] (Some demo_plan) False = Some (cs, Complete) \<and>
     set cs = {1, 2, 3}"
proof -
  have deps: "\<And>g. Some demo_plan = Some g \<Longrightarrow> distinct (map fst g)" by (auto simp: demo_plan_def)
  have ok: "plan_ok [2, 1, 3] (plan_graph [2, 1, 3] (Some demo_plan))"
  proof -
    have "\<not> isl (validate_plan [2, 1, 3] (Some demo_plan))" by code_simp
    then obtain g where "validate_plan [2, 1, 3] (Some demo_plan) = Inr g"
      by (cases "validate_plan [2, 1, 3] (Some demo_plan)") auto
    from plan_accepted(1) [OF deps this] show ?thesis .
  qed
  have set: "{c \<in> set [2, 1, 3 :: int]. \<not> chapter_done [] c} = {1, 2, 3}"
    by (auto simp: chapter_done_def)
  then have "card {c \<in> set [2, 1, 3 :: int]. \<not> chapter_done [] c} < 4" by simp
  from book_is_completed [OF deps ok _ _ this, of 1 False BookRunMode_SEQUENTIAL] set
  show ?thesis by (simp add: quiescent_def) metis
qed

end
