(* ===== verification/Book_Loop.thy ===== *)
theory Book_Loop
  imports Book_Properties Scheduler_Properties
begin

text \<open>
  The loop of a book run: it ends, with as many rounds as there are chapters without an accepted
  version, whatever the chapter workflow answers; and a chapter that was interrupted before its
  workflow was linked stops the book with an exception.
\<close>

section \<open>Status maps\<close>

lemma map_of_dict_set [simp]: "map_of (dict_set k v m) = (map_of m)(k \<mapsto> v)"
  by (induction k v m rule: dict_set.induct) auto

lemma dict_set_keys [simp]: "fst ` set (dict_set k v m) = insert k (fst ` set m)"
  by (induction k v m rule: dict_set.induct) auto

lemma accepted_statuses_lookup:
  "map_of (accepted_statuses cs m) (int_str n) =
     (if \<exists>c \<in> set cs. ch_chapter_number c = n \<and> ch_accepted_version_id c \<noteq> None
      then Some ''accepted'' else map_of m (int_str n))"
  unfolding accepted_statuses_def
  by (induction cs arbitrary: m) auto

lemma accepted_statuses_grow:
  "map_of m k = Some ''accepted'' \<Longrightarrow> map_of (accepted_statuses cs m) k = Some ''accepted''"
  unfolding accepted_statuses_def by (induction cs arbitrary: m) auto

lemma accepted_statuses_keys:
  "fst ` set (accepted_statuses cs m) \<subseteq> fst ` set m \<union> int_str ` ch_chapter_number ` set cs"
  unfolding accepted_statuses_def
proof (induction cs arbitrary: m)
  case (Cons c cs)
  show ?case using Cons.IH [of m] Cons.IH [of "dict_set (int_str (ch_chapter_number c)) ''accepted'' m"] by auto
qed simp

text \<open>The keys of a status map are written by \<open>str\<close>, and parsing gives the numbers back.\<close>

definition canonical :: "(string \<times> string) list \<Rightarrow> bool" where
  "canonical m \<longleftrightarrow> fst ` set m \<subseteq> range int_str"

lemma canonical_dict_set: "canonical m \<Longrightarrow> canonical (dict_set (int_str n) v m)"
  by (simp add: canonical_def)

lemma canonical_accepted: "canonical m \<Longrightarrow> canonical (accepted_statuses cs m)"
  unfolding canonical_def by (rule order_trans [OF accepted_statuses_keys]) blast

lemma parse_statuses_lookup:
  "parse_statuses m = Inr st \<Longrightarrow> canonical m \<Longrightarrow> map_of st n = map_of m (int_str n)"
proof (induction m arbitrary: st rule: parse_statuses.induct)
  case (2 k v rest)
  then obtain j r where "k = int_str j" "st = (j, v) # r" "parse_statuses rest = Inr r"
    by (auto simp: canonical_def parse_int_str)
  then show ?case using 2 by (auto simp: canonical_def parse_int_str)
qed simp

section \<open>What the rounds read\<close>

definition run_view :: "db \<Rightarrow> int \<Rightarrow> ((string \<times> string) list \<times> int list) option" where
  "run_view db i =
     map_option (\<lambda>run. (br_chapter_status_map run,
       map ch_chapter_number (chapters_of_project db (br_project_id run)))) (get_book_run db i)"

lemma run_view_SomeE:
  assumes "run_view db i = Some (m, cs)"
  obtains run where "get_book_run db i = Some run" "br_chapter_status_map run = m" "br_id run = i"
    "map ch_chapter_number (chapters_of_project db (br_project_id run)) = cs"
  using assms get_book_run_id by (auto simp: run_view_def)

lemma chapters_frame: "db_chapters db' = db_chapters db \<Longrightarrow> chapters_of_project db' p = chapters_of_project db p"
  by (simp add: chapters_of_project_def)

lemma run_view_frame:
  "db_book_runs db' = db_book_runs db \<Longrightarrow> db_chapters db' = db_chapters db \<Longrightarrow> run_view db' i = run_view db i"
  by (simp add: run_view_def get_book_run_frame [of db' db] chapters_frame [of db' db])

lemma run_view_save:
  assumes "get_book_run db i = Some run" and "br_id run' = i" and "br_project_id run' = br_project_id run"
  shows "run_view (save_book_run db run') i =
    Some (br_chapter_status_map run', map ch_chapter_number (chapters_of_project db (br_project_id run)))"
  using assms by (simp add: run_view_def chapters_frame [of "save_book_run db run'" db])

text \<open>Chapters and keys without an accepted version: the bound of the loop.\<close>

definition open_keys :: "(string \<times> string) list \<Rightarrow> int list \<Rightarrow> string set" where
  "open_keys m cs = {k \<in> fst ` set m \<union> int_str ` set cs. map_of m k \<noteq> Some ''accepted''}"

lemma open_keys_finite [simp]: "finite (open_keys m cs)"
  by (simp add: open_keys_def)

lemma open_keys_accept:
  "int_str n \<in> open_keys m cs \<Longrightarrow>
   card (open_keys (dict_set (int_str n) ''accepted'' (dict_set (int_str n) v m)) cs) < card (open_keys m cs)"
  by (rule psubset_card_mono) (auto simp: open_keys_def)

lemma open_keys_sync:
  "set cs = ch_chapter_number ` set rows \<Longrightarrow> card (open_keys (accepted_statuses rows m) cs) \<le> card (open_keys m cs)"
proof (rule card_mono)
  assume cs: "set cs = ch_chapter_number ` set rows"
  then have "fst ` set (accepted_statuses rows m) \<subseteq> fst ` set m \<union> int_str ` set cs"
    using accepted_statuses_keys [of rows m] by simp
  then show "open_keys (accepted_statuses rows m) cs \<subseteq> open_keys m cs"
    unfolding open_keys_def using accepted_statuses_grow [of m _ rows] by blast
qed simp

section \<open>One round\<close>

lemma mark_chapter_running_view:
  "mark_chapter_running db i n = Inr (db', ()) \<Longrightarrow> run_view db i = Some (m, cs) \<Longrightarrow>
   run_view db' i = Some (dict_set (int_str n) ''running'' m, cs)"
  by (erule run_view_SomeE)
    (auto simp: mark_chapter_running_def run_for_update_def add_node_def run_view_save)

lemma update_usage_view:
  "update_usage db calls i w = Inr (db', ()) \<Longrightarrow> run_view db i = Some v \<Longrightarrow> run_view db' i = Some v"
  by (cases v, simp, erule run_view_SomeE) (auto simp: update_usage_def Let_def run_view_save)

lemma budget_gate_view:
  "budget_gate db i x y now = (db', Inr u) \<Longrightarrow> db' = db"
  by (auto simp: budget_gate_def budget_gate_txn_def ran_def and_run_def Let_def
      split: sum.splits prod.splits if_splits)

lemma sync_view:
  assumes "sync_already_accepted db i = Inr (db', ())" and "run_view db i = Some (m, cs)"
  shows "\<exists>rows. set cs = ch_chapter_number ` set rows \<and> run_view db' i = Some (accepted_statuses rows m, cs)"
  using assms(2)
proof (rule run_view_SomeE)
  fix run assume run: "get_book_run db i = Some run" "br_chapter_status_map run = m" "br_id run = i"
    and cs: "map ch_chapter_number (chapters_of_project db (br_project_id run)) = cs"
  then have "run_view db' i = Some (accepted_statuses (chapters_of_project db (br_project_id run)) m, cs)"
    using assms(1) by (auto simp: sync_already_accepted_def Let_def run_view_save)
  then show ?thesis using cs by (metis set_map)
qed

lemma completed_child_frame:
  assumes "completed_child s hash db run n w status uuid now = Inr (db', child)"
  shows "db_book_runs db' = db_book_runs db \<and> db_chapters db' = db_chapters db"
  using assms
  by (auto simp: completed_child_def add_ordered_def add_job_def add_event_row_def repo_add_def save_job_def Let_def
      split: option.splits)

lemma record_chapter_completion_view:
  assumes "record_chapter_completion s hash db i n w WorkflowRunStatus_COMPLETED uuid now = Inr (db', ())"
    and "run_view db i = Some (m, cs)"
  shows "run_view db' i = Some (dict_set (int_str n) ''accepted'' m, cs)"
  using assms(2)
proof (rule run_view_SomeE)
  fix run assume run: "get_book_run db i = Some run" "br_chapter_status_map run = m" "br_id run = i"
    and cs: "map ch_chapter_number (chapters_of_project db (br_project_id run)) = cs"
  let ?db1 = "case Option.bind (br_job_id run) (get_job db) of None \<Rightarrow> db
    | Some top_job \<Rightarrow> save_job db (top_job\<lparr>j_workflow_run_id := None\<rparr>)"
  obtain db2 child where ch: "completed_child s hash ?db1 run n w WorkflowRunStatus_COMPLETED uuid now = Inr (db2, child)"
      and db': "db' = save_book_run db2 (chapter_recorded run n WorkflowRunStatus_COMPLETED (j_id child))"
    using assms(1) run by (auto simp: record_chapter_completion_def run_for_update_def Let_def)
  have "db_book_runs ?db1 = db_book_runs db" "db_chapters ?db1 = db_chapters db"
    by (auto simp: save_job_def split: option.split)
  then have fr: "db_book_runs db2 = db_book_runs db" "db_chapters db2 = db_chapters db"
    using completed_child_frame [OF ch] by auto
  then have "get_book_run db2 i = Some run" using run(1) get_book_run_frame by metis
  then show ?thesis
    using run cs by (simp add: db' run_view_save chapters_frame [OF fr(2)] chapter_recorded_def Let_def)
qed

text \<open>The services of the environment leave the status map and the chapter numbers alone.\<close>

definition env_keeps :: "book_env \<Rightarrow> int \<Rightarrow> bool" where
  "env_keeps env i \<longleftrightarrow>
     (\<forall>s db t db'. be_control env s db t = Inr (db', ()) \<longrightarrow> run_view db' i = run_view db i) \<and>
     (\<forall>x s db t db'. be_progress env x s db t = Inr (db', ()) \<longrightarrow> run_view db' i = run_view db i) \<and>
     (\<forall>k db p n r db' y. be_run_chapter env k db p n r = (db', Inr y) \<longrightarrow> run_view db' i = run_view db i) \<and>
     (\<forall>k db w db' y. be_resume_chapter env k db w = (db', Inr y) \<longrightarrow> run_view db' i = run_view db i)"

lemma env_keepsD:
  assumes "env_keeps env i"
  shows "be_control env s db t = Inr (db', ()) \<Longrightarrow> run_view db' i = run_view db i"
    and "be_progress env x s db t = Inr (db', ()) \<Longrightarrow> run_view db' i = run_view db i"
    and "be_run_chapter env k db p n r = (db', Inr y) \<Longrightarrow> run_view db' i = run_view db i"
    and "be_resume_chapter env k db w = (db', Inr y) \<Longrightarrow> run_view db' i = run_view db i"
  using assms unfolding env_keeps_def by - metis+

lemma chapter_workflow_view:
  assumes "env_keeps env i" and "chapter_workflow env k db run n = (db', Inr y)"
  shows "run_view db' i = run_view db i"
  using assms(2) env_keepsD [OF assms(1)]
  by (auto simp: chapter_workflow_def split: option.splits if_splits)

lemma execute_chapter_view:
  assumes env: "env_keeps env i" and op: "execute_chapter env k db i n = (db', Inr WorkflowRunStatus_COMPLETED)"
    and v: "run_view db i = Some (m, cs)"
  shows "run_view db' i =
    Some (dict_set (int_str n) ''accepted'' (dict_set (int_str n) ''running'' m), cs)"
proof -
  obtain run x where run: "run_state db i = Inr (run, x)"
    using op by (cases "run_state db i") (auto simp: execute_chapter_def)
  note op = op [unfolded execute_chapter_def run and_run_simps prod.case]
  from op obtain db1 db2 w status where
    mark: "mark_chapter_running db i n = Inr (db1, ())"
    and wf: "chapter_workflow env k db1 run n = (db2, Inr (w, status))"
    and rest: "(if status = WorkflowRunStatus_PAUSED then (db2, Inr status)
      else and_run (ran db2 (record_chapter_completion (be_settings env) (be_hash env) db2 i n w status
              (be_uuid env k) (be_now env k)))
            (\<lambda>db3 _. and_run (ran db3 (update_usage db3 (be_calls env k) i w)) (\<lambda>db4 _. (db4, Inr status)))) =
      (db', Inr WorkflowRunStatus_COMPLETED)"
    by (elim and_run_InrE) (auto dest!: ran_Inr)
  have status: "status = WorkflowRunStatus_COMPLETED"
    using rest by (auto elim!: and_run_InrE split: if_splits)
  then obtain db3 where
    rec: "record_chapter_completion (be_settings env) (be_hash env) db2 i n w WorkflowRunStatus_COMPLETED
      (be_uuid env k) (be_now env k) = Inr (db3, ())"
    and usage: "update_usage db3 (be_calls env k) i w = Inr (db', ())"
    using rest by (auto elim!: and_run_InrE dest!: ran_Inr)
  have "run_view db2 i = Some (dict_set (int_str n) ''running'' m, cs)"
    using mark_chapter_running_view [OF mark v] chapter_workflow_view [OF env wf] by simp
  from update_usage_view [OF usage record_chapter_completion_view [OF rec this]] show ?thesis .
qed

lemma record_periodic_check_view:
  assumes "record_periodic_check db i summary now = (db', Inr u)" and "run_view db i = Some v"
  shows "run_view db' i = Some v"
proof -
  obtain m cs where v: "run_view db i = Some (m, cs)" "v = (m, cs)" using assms(2) by (cases v) auto
  obtain db1 where txn: "record_periodic_txn db i summary now = Inr (db1, False)" and db1: "db1 = db'"
    using assms(1) unfolding record_periodic_check_def
    by (elim and_run_InrE) (auto dest!: ran_Inr split: if_splits)
  show ?thesis using v(1)
    by (rule run_view_SomeE)
      (use txn in \<open>auto simp: db1 v(2) record_periodic_txn_def run_for_update_def add_node_def Let_def run_view_save
        split: if_splits\<close>)
qed

lemma chapter_round_view:
  assumes env: "env_keeps env i" and op: "chapter_round env k db i n = (db', Inr Next_Round)"
    and v: "run_view db i = Some (m, cs)"
  shows "run_view db' i =
    Some (dict_set (int_str n) ''accepted'' (dict_set (int_str n) ''running'' m), cs)"
proof -
  let ?v = "Some (dict_set (int_str n) ''accepted'' (dict_set (int_str n) ''running'' m), cs)"
  from op obtain db1 db2 db3 status db4 where
    steps: "be_control env (''schedule_chapter_'' @ int_str n) db (be_now env k) = Inr (db1, ())"
      "be_progress env ''started'' (''schedule_chapter_'' @ int_str n) db1 (be_now env k) = Inr (db2, ())"
    and exec: "execute_chapter env k db2 i n = (db3, Inr status)"
    and prog: "be_progress env ''completed'' (''schedule_chapter_'' @ int_str n) db3 (be_now env k) = Inr (db4, ())"
    and rest: "(if status = WorkflowRunStatus_COMPLETED_NEEDS_REVIEW then
        and_run (ran db4 (finish_needs_review db4 i
                   [''Chapter '' @ int_str n @ '' requires human review''] (be_now env k))) (\<lambda>db5 _.
        (db5, Inr Left_For_Review))
      else if status = WorkflowRunStatus_PAUSED then (db4, Inl JobPauseRequested)
      else if status \<noteq> WorkflowRunStatus_COMPLETED then (db4, Inl InvalidStateError)
      else if n mod s_book_global_check_interval (be_settings env) = 0 then
        and_run (ran db4 (be_control env ''periodic_global_check'' db4 (be_now env k))) (\<lambda>db5 _.
        and_run (db5, be_periodic env db5 i) (\<lambda>db6 summary.
        and_run (record_periodic_check db6 i summary (be_now env k)) (\<lambda>db7 _.
        (db7, Inr Next_Round))))
      else (db4, Inr Next_Round)) = (db', Inr Next_Round)"
    unfolding chapter_round_def Let_def by (elim and_run_InrE) (auto dest!: ran_Inr)
  have status: "status = WorkflowRunStatus_COMPLETED"
    using rest by (auto elim!: and_run_InrE split: if_splits)
  have "run_view db2 i = Some (m, cs)" using env_keepsD(1,2) [OF env] steps v by simp
  from execute_chapter_view [OF env exec [unfolded status] this] have v4: "run_view db4 i = ?v"
    using env_keepsD(2) [OF env] prog by simp
  show ?thesis
  proof (cases "n mod s_book_global_check_interval (be_settings env) = 0")
    case True
    then obtain db5 summary u where
      "be_control env ''periodic_global_check'' db4 (be_now env k) = Inr (db5, ())"
      "record_periodic_check db5 i summary (be_now env k) = (db', Inr u)"
      using rest status by (auto elim!: and_run_InrE dest!: ran_Inr)
    then show ?thesis using record_periodic_check_view env_keepsD(1) [OF env] v4 by metis
  next
    case False
    then show ?thesis using rest status v4 by simp
  qed
qed

lemma decide_schedules:
  assumes "decide c mode cs st None cancel False False = Inr d"
    and "sd_action d \<notin> {Cancel, Human_Review, Wait, Complete}" and "sd_chapter_number d = Some n"
  shows "n \<in> set cs \<and> \<not> chapter_done st n"
proof -
  obtain g where g: "validate_plan cs None = Inr g" using assms(1) by (auto simp: decide_def)
  let ?take = "take (if mode = BookRunMode_SEQUENTIAL then 1 else nat c) (candidates g cs st)"
  obtain xs where "?take = n # xs"
    using assms g by (auto simp: decide_def make_decision_def split: if_splits list.splits)
  then have "n \<in> set (candidates g cs st)" by (metis in_set_takeD list.set_intros(1))
  then show ?thesis by (simp add: candidates_def)
qed

lemma next_chapter_open:
  assumes "next_chapter env run cs = Inr step" and "step \<in> {Resume_Chapter n, Start_Chapter n}"
    and "canonical (br_chapter_status_map run)"
  shows "int_str n \<in> open_keys (br_chapter_status_map run) cs"
proof (cases "step = Resume_Chapter n")
  case True
  then have "map_of (br_chapter_status_map run) (int_str n) = Some ''running''"
    using assms(1) by (auto simp: next_chapter_def scheduled_chapter_def split: option.splits if_splits)
  then show ?thesis by (auto simp: open_keys_def dest: map_of_SomeD intro: rev_image_eqI)
next
  case False
  then have "scheduled_chapter env run cs = Inr (Start_Chapter n)"
    using assms(1,2) by (auto simp: next_chapter_def split: option.splits if_splits)
  then obtain st d where st: "parse_statuses (br_chapter_status_map run) = Inr st"
    and d: "decide (s_book_chapter_concurrency (be_settings env)) (br_mode run) cs st None
        (br_status run = BookRunStatus_CANCEL_REQUESTED) False False = Inr d"
      "sd_action d \<notin> {Cancel, Human_Review, Wait, Complete}" "sd_chapter_number d = Some n"
    by (auto simp: scheduled_chapter_def split: option.splits if_splits)
  from decide_schedules [OF d] parse_statuses_lookup [OF st assms(3), of n] show ?thesis
    by (auto simp: open_keys_def chapter_done_def done_statuses_def)
qed

lemma book_round_progress:
  assumes env: "env_keeps env i" and op: "book_round env k db i = (db', Inr Next_Round)"
    and v: "run_view db i = Some (m, cs)" and can: "canonical m"
  shows "\<exists>m'. run_view db' i = Some (m', cs) \<and> canonical m' \<and>
    card (open_keys m' cs) < card (open_keys m cs)"
proof -
  from op obtain db1 where sync: "sync_already_accepted db i = Inr (db1, ())"
    unfolding book_round_def by (elim and_run_InrE) (auto dest!: ran_Inr)
  from sync_view [OF sync v] obtain rows where rows: "set cs = ch_chapter_number ` set rows"
    and v1: "run_view db1 i = Some (accepted_statuses rows m, cs)" by blast
  let ?m = "accepted_statuses rows m"
  obtain run where run: "get_book_run db1 i = Some run" "br_chapter_status_map run = ?m"
    "map ch_chapter_number (chapters_of_project db1 (br_project_id run)) = cs"
    using v1 by (rule run_view_SomeE)
  have "run_state db1 i = Inr (run, cs)" using run by (simp add: run_state_def run_for_update_def)
  then obtain step where step: "next_chapter env run cs = Inr step"
    and cont: "(case step of
       Resume_Chapter n \<Rightarrow> chapter_round env k db1 i n
     | Start_Chapter n \<Rightarrow>
         and_run (budget_gate db1 i 5 30000 (be_now env k)) (\<lambda>db2 _. chapter_round env k db2 i n)
     | All_Accepted \<Rightarrow> (db1, Inr Chapters_Done)
     | Review_Needed reason \<Rightarrow>
         and_run (ran db1 (finish_needs_review db1 i [reason] (be_now env k))) (\<lambda>db2 _.
         (db2, Inr Left_For_Review))) = (db', Inr Next_Round)"
    using op sync unfolding book_round_def
    by (elim and_run_InrE) (auto dest!: ran_Inr elim!: and_run_InrE [of "(db1, next_chapter env run cs)"])
  obtain n where n: "step \<in> {Resume_Chapter n, Start_Chapter n}"
    and round: "chapter_round env k db1 i n = (db', Inr Next_Round)"
    using cont by (auto split: next_step.splits elim!: and_run_InrE dest: budget_gate_view)
  have can1: "canonical ?m" using can by (rule canonical_accepted)
  let ?m' = "dict_set (int_str n) ''accepted'' (dict_set (int_str n) ''running'' ?m)"
  have "run_view db' i = Some (?m', cs)" by (rule chapter_round_view [OF env round v1])
  moreover have "canonical ?m'" using can1 by (intro canonical_dict_set)
  moreover have "int_str n \<in> open_keys ?m cs"
    using next_chapter_open [OF step n] can1 run(2) by simp
  then have "card (open_keys ?m' cs) < card (open_keys m cs)"
    using open_keys_accept [of n ?m cs "''running''"] open_keys_sync [OF rows, of m] by simp
  ultimately show ?thesis by blast
qed

section \<open>The loop ends\<close>

text \<open>
  C21. The loop of \<open>execute\<close> ends: with as many rounds as there are chapters without an accepted
  version, and one more to notice that none is left. Two conditions: the callbacks and the chapter
  workflow leave the status map of the run and the chapter numbers alone (\<open>env_keeps\<close>; they are written by
  the book service only), and the keys of the stored map are written by \<open>str\<close> (\<open>canonical\<close>). What the
  chapter workflow, the checks and the callbacks answer does not matter.
\<close>

theorem book_loop_ends:
  assumes "env_keeps env i"
    and "get_book_run db i = Some run" and "canonical (br_chapter_status_map run)"
    and "card (open_keys (br_chapter_status_map run)
           (map ch_chapter_number (chapters_of_project db (br_project_id run)))) < fuel"
  shows "snd (book_loop env fuel k db i) \<noteq> Inr None"
proof -
  have "snd (book_loop env fuel k db i) \<noteq> Inr None"
    if "run_view db i = Some (m, cs)" "canonical m" "card (open_keys m cs) < fuel" for m cs
    using that
  proof (induction fuel arbitrary: k db m)
    case (Suc fuel)
    show ?case
    proof (cases "book_round env k db i")
      case (Pair db1 r)
      show ?thesis
      proof (cases "r = Inr Next_Round")
        case True
        from book_round_progress [OF assms(1) Pair [unfolded True] Suc.prems(1,2)] obtain m' where
          "run_view db1 i = Some (m', cs)" "canonical m'" "card (open_keys m' cs) < card (open_keys m cs)"
          by blast
        then show ?thesis using Suc.IH Suc.prems(3) Pair True by simp
      next
        case False
        then show ?thesis using Pair by (cases r) auto
      qed
    qed
  qed simp
  then show ?thesis using assms(2-4) by (simp add: run_view_def)
qed

definition started_db :: db where
  "started_db = committed (initialize (committed book_create) 1 10)"

text \<open>The chapter service of \<open>book_env_demo\<close> raises; this one completes every chapter.\<close>

definition book_workflow :: "int \<Rightarrow> int \<Rightarrow> workflow_run" where
  "book_workflow project_id n =
     \<lparr>wr_id = 0, wr_project_id = project_id, wr_chapter_id = n, wr_current_node = ''finish'',
      wr_status = WorkflowRunStatus_COMPLETED, wr_retry_count = 0, wr_workflow_type = ''chapter_revision'',
      wr_operation = ''generate'', wr_thread_id = int_str n, wr_original_version_id = None,
      wr_current_version_id = None, wr_best_version_id = None, wr_accepted_version_id = None,
      wr_revision_attempt = 0, wr_max_revision_attempts = 2, wr_node_history = [],
      wr_blocking_reasons = [], wr_error_code = None, wr_prompt_versions = [], wr_error_message = None,
      wr_started_at = 0, wr_finished_at = None, wr_updated_at = 0, wr_provider_call_count = 0,
      wr_provider_input_tokens = 0, wr_provider_output_tokens = 0, wr_provider_estimated_cost = 0,
      wr_provider_fallback_count = 0, wr_provider_rate_limit_count = 0\<rparr>"

definition completing_env :: book_env where
  "completing_env = (book_env_demo ValueError)
     \<lparr>be_run_chapter := \<lambda>_ db p n _.
        let (t, w) = repo_add (\<lambda>i w. w\<lparr>wr_id := i\<rparr>) (db_workflow_runs db) (book_workflow p n)
        in (db\<lparr>db_workflow_runs := t\<rparr>, Inr (wr_id w, WorkflowRunStatus_COMPLETED))\<rparr>"

theorem book_loop_ends_applied:
  "snd (book_loop completing_env 4 1 started_db 1) \<noteq> Inr None"
proof -
  have facts: "map_option (\<lambda>r. (map fst (br_chapter_status_map r), br_project_id r)) (get_book_run started_db 1) =
      Some (map int_str [1, 2, 3], 1)"
    "map ch_chapter_number (chapters_of_project started_db 1) = [1, 2, 3]"
    by code_simp+
  then obtain run where run: "get_book_run started_db 1 = Some run" "br_project_id run = 1"
    "map fst (br_chapter_status_map run) = map int_str [1, 2, 3]" by auto
  then have keys: "fst ` set (br_chapter_status_map run) = int_str ` {1, 2, 3}"
    by (metis list.set_map list.set(1,2))
  have "open_keys (br_chapter_status_map run)
      (map ch_chapter_number (chapters_of_project started_db (br_project_id run))) \<subseteq> int_str ` {1, 2, 3}"
    using keys facts(2) run(2) by (auto simp: open_keys_def)
  then have "card (open_keys (br_chapter_status_map run)
      (map ch_chapter_number (chapters_of_project started_db (br_project_id run)))) \<le> card (int_str ` {1, 2, 3})"
    by (rule card_mono [rotated]) simp
  also have "\<dots> < 4" by (simp add: card_image inj_on_def)
  finally have "card (open_keys (br_chapter_status_map run)
      (map ch_chapter_number (chapters_of_project started_db (br_project_id run)))) < 4" .
  moreover have "env_keeps completing_env 1"
    by (auto simp: env_keeps_def completing_env_def book_env_demo_def repo_add_def Let_def intro: run_view_frame)
  moreover have "canonical (br_chapter_status_map run)" using keys by (auto simp: canonical_def)
  ultimately show ?thesis using book_loop_ends run(1) by blast
qed

section \<open>Interrupted chapters\<close>

lemma parse_canonical: "canonical m \<Longrightarrow> \<exists>st. parse_statuses m = Inr st"
  by (induction m rule: parse_statuses.induct) (auto simp: canonical_def parse_int_str)

lemma release_error: "Book_Scheduler.release ch indegree queue = Inl e \<Longrightarrow> e = KeyError"
  by (induction ch indegree queue rule: Book_Scheduler.release.induct) (auto split: option.splits)

lemma kahn_error: "kahn out indegree queue visited = Inl e \<Longrightarrow> e = KeyError"
  by (induction out indegree queue visited rule: kahn.induct)
    (auto split: option.splits sum.splits dest: release_error)

lemma validate_plan_errors: "validate_plan cs deps = Inl e \<Longrightarrow> e \<in> {DomainValidationError, KeyError}"
  by (auto simp: validate_plan_def Let_def and_then_Inl_iff dest: kahn_error split: if_splits)

text \<open>
  A run whose worker stopped between \<open>_mark_chapter_running\<close> and \<open>_link_workflow\<close>: it is GENERATING, the
  chapter is \<open>running\<close> and has no accepted version, and no workflow is linked.
\<close>

definition interrupted :: "db \<Rightarrow> int \<Rightarrow> int \<Rightarrow> bool" where
  "interrupted db i n \<longleftrightarrow> db_ok db \<and> keys_ok db \<and>
     (\<exists>run. get_book_run db i = Some run \<and> br_status run = BookRunStatus_GENERATING \<and>
        canonical (br_chapter_status_map run) \<and>
        map_of (br_chapter_status_map run) (int_str n) = Some ''running'' \<and>
        br_workflow_run_id run = None \<and>
        filter (\<lambda>c. ch_chapter_number c = n \<and> ch_accepted_version_id c \<noteq> None)
          (chapters_of_project db (br_project_id run)) = [])"

lemma save_same_book_run:
  assumes "keys_ok db" and "get_book_run db (br_id run) = Some run"
  shows "save_book_run db run = db"
proof -
  have "x = run" if "x \<in> set (t_rows (db_book_runs db))" "br_id x = br_id run" for x
    using that assms book_runs.get_row [of "db_book_runs db" x]
    by (auto simp: get_book_run_def keys_ok_def)
  then have "map (\<lambda>x. if br_id x = br_id run then run else x) (t_rows (db_book_runs db)) = t_rows (db_book_runs db)"
    by (intro map_idI) auto
  then show ?thesis by (simp add: save_book_run_def repo_save_def)
qed

definition synced :: "db \<Rightarrow> book_run \<Rightarrow> book_run" where
  "synced db run =
     (let statuses = accepted_statuses (chapters_of_project db (br_project_id run)) (br_chapter_status_map run);
          n = count_statuses {''accepted''} statuses;
          completed = n + count_statuses {''failed'', ''needs_review''} statuses
      in run\<lparr>br_chapter_status_map := statuses, br_accepted_chapters := n,
             br_completed_chapters := completed,
             br_progress := chapter_progress completed (br_total_chapters run)\<rparr>)"

lemma sync_synced:
  "get_book_run db i = Some run \<Longrightarrow>
   sync_already_accepted db i = commit (save_book_run db (synced db run)) ()"
  by (simp add: sync_already_accepted_def synced_def Let_def)

lemma synced_frame:
  "br_id (synced db run) = br_id run" "br_status (synced db run) = br_status run"
  "br_workflow_run_id (synced db run) = br_workflow_run_id run"
  "br_project_id (synced db run) = br_project_id run"
  "br_chapter_status_map (synced db run) =
     accepted_statuses (chapters_of_project db (br_project_id run)) (br_chapter_status_map run)"
  by (simp_all add: synced_def Let_def)

lemma interrupted_decision:
  assumes st: "parse_statuses (br_chapter_status_map run) = Inr st" "map_of st n = Some ''running''"
    and flags: "br_workflow_run_id run = None" "br_status run = BookRunStatus_GENERATING"
  shows "next_chapter env run cs =
    Inl (case validate_plan cs None of Inl e \<Rightarrow> e | Inr _ \<Rightarrow> InvalidStateError)"
proof -
  have active: "list_ex (\<lambda>(_, s). s \<in> set active_chapter_statuses) st"
    using st(2) by (force simp: list_ex_iff active_chapter_statuses_def dest: map_of_SomeD)
  have "scheduled_chapter env run cs =
      Inl (case validate_plan cs None of Inl e \<Rightarrow> e | Inr _ \<Rightarrow> InvalidStateError)"
    using st(1) active flags(2)
    by (cases "validate_plan cs None") (simp_all add: scheduled_chapter_def decide_def make_decision_def)
  then show ?thesis using flags(1) by (simp add: next_chapter_def split: option.split)
qed

text \<open>
  C23. A chapter that was interrupted before its workflow was linked is never taken up again. Every later
  execution, with whatever services, chapter workflow, clock and settings, gives the same result: it
  raises an exception, so none of the services has been called, and leaves at most the counters of the
  run synchronised; the chapter is as interrupted as before, and so the next execution raises again.
\<close>

theorem interrupted_chapter_stops_book:
  assumes "interrupted db i n"
  shows "\<exists>db' e. (\<forall>env fuel. execute_book env (Suc fuel) db i = (db', Inl e)) \<and>
    e \<in> {InvalidStateError, DomainValidationError, KeyError, IntegrityError} \<and>
    (\<exists>run. get_book_run db i = Some run \<and> (db' = db \<or> db' = save_book_run db (synced db run))) \<and>
    interrupted db' i n"
proof -
  from assms obtain run where ok: "db_ok db" "keys_ok db" and run: "get_book_run db i = Some run"
    and st: "br_status run = BookRunStatus_GENERATING" and can: "canonical (br_chapter_status_map run)"
    and running: "map_of (br_chapter_status_map run) (int_str n) = Some ''running''"
    and wf: "br_workflow_run_id run = None"
    and none: "filter (\<lambda>c. ch_chapter_number c = n \<and> ch_accepted_version_id c \<noteq> None)
        (chapters_of_project db (br_project_id run)) = []"
    by (auto simp: interrupted_def)
  have id: "br_id run = i" using run by (rule get_book_run_id)
  have init: "initialize db i t = Inr (db, ())" for t
    using run st ok save_same_book_run [OF ok(2)] id
    by (simp add: initialize_def run_for_update_def commit_ok)
  let ?run2 = "synced db run" and ?db2 = "save_book_run db (synced db run)"
  let ?cs = "map ch_chapter_number (chapters_of_project ?db2 (br_project_id run))"
  have cs2: "chapters_of_project ?db2 p = chapters_of_project db p" for p
    by (rule chapters_frame) simp
  have get2: "get_book_run ?db2 i = Some ?run2" using run id by (simp add: synced_frame)
  have "\<not> (\<exists>c \<in> set (chapters_of_project db (br_project_id run)).
      ch_chapter_number c = n \<and> ch_accepted_version_id c \<noteq> None)"
    using none by (auto simp: filter_empty_conv)
  then have look: "map_of (br_chapter_status_map ?run2) (int_str n) = Some ''running''"
    using running by (simp add: synced_frame accepted_statuses_lookup)
  have can2: "canonical (br_chapter_status_map ?run2)"
    using canonical_accepted [OF can] by (simp add: synced_frame)
  obtain s where s: "parse_statuses (br_chapter_status_map ?run2) = Inr s"
    using parse_canonical [OF can2] by blast
  have "map_of s n = Some ''running''" using parse_statuses_lookup [OF s can2] look by simp
  note decision = interrupted_decision [OF s this]
  show ?thesis
  proof (cases "db_ok ?db2")
    case False
    then have "sync_already_accepted db i = Inl IntegrityError"
      using sync_synced [OF run] by (simp add: commit_Inl)
    then have "execute_book env (Suc fuel) db i = (db, Inl IntegrityError)" for env fuel
      using init run by (simp add: execute_book_def book_round_def run_state_def run_for_update_def)
    then show ?thesis using assms run by blast
  next
    case True
    let ?e = "case validate_plan ?cs None of Inl e \<Rightarrow> e | Inr _ \<Rightarrow> InvalidStateError"
    have "sync_already_accepted db i = Inr (?db2, ())"
      using sync_synced [OF run] True by (simp add: commit_ok)
    then have ex: "execute_book env (Suc fuel) db i = (?db2, Inl ?e)" for env fuel
      using init run get2 decision wf st
      by (simp add: execute_book_def book_round_def run_state_def run_for_update_def synced_frame)
    have e: "?e \<in> {InvalidStateError, DomainValidationError, KeyError, IntegrityError}"
      using validate_plan_errors [of ?cs None] by (cases "validate_plan ?cs None") auto
    have "interrupted ?db2 i n"
      unfolding interrupted_def
      using True ok(2) get2 st wf can2 look none cs2 by (auto simp: synced_frame)
    then show ?thesis using ex e run by blast
  qed
qed

definition interrupted_db :: db where
  "interrupted_db = committed (mark_chapter_running started_db 1 1)"

lemma interrupted_demo: "interrupted interrupted_db 1 1"
proof -
  have facts: "map_option (\<lambda>r. (br_status r, br_workflow_run_id r, map fst (br_chapter_status_map r),
        map_of (br_chapter_status_map r) (int_str 1), br_project_id r)) (get_book_run interrupted_db 1) =
      Some (BookRunStatus_GENERATING, None, map int_str [1, 2, 3], Some ''running'', 1)"
    "filter (\<lambda>c. ch_chapter_number c = 1 \<and> ch_accepted_version_id c \<noteq> None)
       (chapters_of_project interrupted_db 1) = []"
    "db_ok interrupted_db" "keys_ok interrupted_db"
    by code_simp+
  then obtain run where run: "get_book_run interrupted_db 1 = Some run" "br_status run = BookRunStatus_GENERATING"
    "br_workflow_run_id run = None" "map fst (br_chapter_status_map run) = map int_str [1, 2, 3]"
    "map_of (br_chapter_status_map run) (int_str 1) = Some ''running''" "br_project_id run = 1" by auto
  have "fst ` set (br_chapter_status_map run) = int_str ` {1, 2, 3}"
    using run(4) by (metis list.set_map list.set(1,2))
  then have "canonical (br_chapter_status_map run)" by (auto simp: canonical_def)
  then show ?thesis using run facts(2-4) by (simp add: interrupted_def)
qed

theorem interrupted_chapter_stops_book_applied:
  "\<exists>db' e. execute_book completing_env 9 interrupted_db 1 = (db', Inl e) \<and> interrupted db' 1 1"
proof -
  obtain db' e where all: "\<forall>env fuel. execute_book env (Suc fuel) interrupted_db 1 = (db', Inl e)"
    and still: "interrupted db' 1 1"
    using interrupted_chapter_stops_book [OF interrupted_demo] by blast
  have "execute_book completing_env (Suc 8) interrupted_db 1 = (db', Inl e)" using all by blast
  then show ?thesis using still by (simp add: eval_nat_numeral)
qed

end
