(* ===== verification/Book_Outcome.thy ===== *)
theory Book_Outcome
  imports Book_Loop
begin

text \<open>
  What a normal end of \<open>execute\<close> means: the run is finished, its progress is complete, and the result
  of the job reports the committed row.
\<close>

definition run_ended :: "db \<Rightarrow> int \<Rightarrow> bool" where
  "run_ended db i \<longleftrightarrow>
     (case get_book_run db i of
        None \<Rightarrow> True
      | Some run \<Rightarrow> br_status run \<in> {BookRunStatus_COMPLETED, BookRunStatus_COMPLETED_NEEDS_REVIEW} \<and>
          br_progress run = 100)"

lemma transition_keeps_id: "transition_book_run run st now = Inr run' \<Longrightarrow> br_id run' = br_id run"
  by (auto simp: transition_book_run_def Let_def split: if_splits)

lemma run_ended_save:
  "get_book_run db (br_id run) \<noteq> None \<Longrightarrow>
   br_status run \<in> {BookRunStatus_COMPLETED, BookRunStatus_COMPLETED_NEEDS_REVIEW} \<Longrightarrow> br_progress run = 100 \<Longrightarrow>
   run_ended (save_book_run db run) (br_id run)"
  by (auto simp: run_ended_def)

lemma finish_completed_ends:
  assumes "finish_completed db i s now = Inr (db', ())"
  shows "run_ended db' i"
proof (cases "get_book_run db i")
  case None
  then show ?thesis using assms by (simp add: finish_completed_def run_ended_def)
next
  case (Some run)
  then obtain run' where t: "transition_book_run run BookRunStatus_COMPLETED now = Inr run'"
    and db': "db' = save_book_run db (add_node ''accept_book_snapshot''
      (run'\<lparr>br_book_snapshot_id := Some s, br_best_snapshot_id := Some s, br_progress := 100,
            br_blocking_reasons := []\<rparr>))"
    using assms by (auto simp: finish_completed_def)
  have "br_id run' = i" using transition_keeps_id [OF t] get_book_run_id [OF Some] by simp
  then show ?thesis using db' book_run_machine.result_status [OF t] Some
    by (auto simp: run_ended_def add_node_def)
qed

lemma finish_needs_review_ends:
  assumes "finish_needs_review db i bs now = Inr (db', ())"
  shows "run_ended db' i"
proof (cases "get_book_run db i")
  case None
  then show ?thesis using assms by (simp add: finish_needs_review_def run_ended_def)
next
  case (Some run)
  then obtain run' where t: "(if br_status run \<notin> {BookRunStatus_COMPLETED_NEEDS_REVIEW, BookRunStatus_COMPLETED}
        then transition_book_run run BookRunStatus_COMPLETED_NEEDS_REVIEW now else Inr run) = Inr run'"
    and db': "db' = save_book_run db (add_node ''mark_book_needs_review''
      (run'\<lparr>br_progress := 100, br_blocking_reasons := bs\<rparr>))"
    using assms by (auto simp: finish_needs_review_def)
  have "br_id run' = i" "br_status run' \<in> {BookRunStatus_COMPLETED, BookRunStatus_COMPLETED_NEEDS_REVIEW}"
    using t transition_keeps_id [of run _ now run'] book_run_machine.result_status [of run _ now run']
      get_book_run_id [OF Some] by (auto split: if_splits)
  then show ?thesis using db' Some by (auto simp: run_ended_def add_node_def)
qed

lemma start_revision_ends:
  assumes "start_revision_txn db i v now = Inr (db', None)"
  shows "run_ended db' i"
proof -
  obtain run run' where run: "get_book_run db i = Some run"
    and t: "transition_book_run run BookRunStatus_COMPLETED_NEEDS_REVIEW now = Inr run'"
    and db': "db' = save_book_run db (run'\<lparr>br_blocking_reasons := vd_blocking_reasons v, br_progress := 100\<rparr>)"
    using assms by (auto simp: start_revision_txn_def run_for_update_def Let_def split: if_splits)
  have "br_id run' = i" using transition_keeps_id [OF t] get_book_run_id [OF run] by simp
  then show ?thesis using db' book_run_machine.result_status [OF t] run by (auto simp: run_ended_def)
qed

lemma run_ended_cong: "get_book_run db' i = get_book_run db i \<Longrightarrow> run_ended db' i = run_ended db i"
  by (simp add: run_ended_def)

lemma ran_unitE:
  assumes "ran db r = (db', Inr ())" obtains "r = Inr (db', ())"
  using ran_Inr [OF assms] by blast

lemma revision_or_review_ends:
  assumes keeps: "\<And>db s b db'. be_accept_snapshot env db s b = (db', Inr ()) \<Longrightarrow> get_book_run db' i = get_book_run db i"
    and op: "revision_or_review env db i s v = (db', Inr ())"
  shows "run_ended db' i"
proof -
  from op obtain db1 started where start: "start_revision_txn db i v (be_now env 0) = Inr (db1, started)"
    and rest: "(case started of
        None \<Rightarrow> be_accept_snapshot env db1 s True
      | Some run \<Rightarrow>
          and_run (be_revision_plan env db1 s (br_current_global_revision_round run) v
                     (remaining_limits (be_settings env) run)) (\<lambda>db2 tasks.
          and_run (targeted_revisions env db2 i tasks) (\<lambda>db3 _.
          and_run (ran db3 (end_revision_txn env db3 i s tasks)) (\<lambda>db4 _.
          and_run (be_build_snapshot env db4 i) (\<lambda>db5 revised_id.
          and_run (be_analyze env db5 revised_id) (\<lambda>db6 revised.
          if vd_passed revised then
            and_run (be_accept_snapshot env db6 revised_id False) (\<lambda>db7 _.
            ran db7 (finish_completed db7 i revised_id (be_now env 0)))
          else
            and_run (be_accept_snapshot env db6 revised_id True) (\<lambda>db7 _.
            ran db7 (finish_needs_review db7 i (vd_blocking_reasons revised) (be_now env 0)))))))))
      = (db', Inr ())"
    unfolding revision_or_review_def Let_def by (elim and_run_InrE) (auto dest!: ran_Inr)
  show ?thesis
  proof (cases started)
    case None
    then have "get_book_run db' i = get_book_run db1 i" using rest keeps by simp
    then show ?thesis using start_revision_ends start None run_ended_cong by metis
  next
    case (Some run)
    then show ?thesis using rest
      by (auto elim!: and_run_InrE ran_unitE split: if_splits
          intro: finish_completed_ends finish_needs_review_ends)
  qed
qed

lemma global_review_ends:
  assumes keeps: "\<And>db s b db'. be_accept_snapshot env db s b = (db', Inr ()) \<Longrightarrow> get_book_run db' i = get_book_run db i"
    and op: "global_review env db i = (db', Inr ())"
  shows "run_ended db' i"
  using op unfolding global_review_def Let_def
  by (elim and_run_InrE)
    (auto elim!: and_run_InrE ran_unitE split: if_splits
      intro: finish_completed_ends revision_or_review_ends [OF keeps])

lemma book_round_left:
  assumes "book_round env k db i = (db', Inr Left_For_Review)"
  shows "run_ended db' i"
proof -
  have round: "run_ended db' i" if "chapter_round env k db0 i n = (db', Inr Left_For_Review)" for db0 n
    using that unfolding chapter_round_def Let_def
    by (elim and_run_InrE)
      (auto elim!: and_run_InrE ran_unitE split: if_splits intro: finish_needs_review_ends)
  show ?thesis using assms unfolding book_round_def
    by (elim and_run_InrE)
      (auto elim!: and_run_InrE ran_unitE split: next_step.splits;
      (rule round, assumption | rule finish_needs_review_ends, assumption))
qed

lemma book_loop_left:
  "book_loop env fuel k db i = (db', Inr (Some Left_For_Review)) \<Longrightarrow> run_ended db' i"
proof (induction fuel arbitrary: k db)
  case (Suc fuel)
  from Suc.prems obtain db1 outcome where r: "book_round env k db i = (db1, Inr outcome)"
    "(if outcome = Next_Round then book_loop env fuel (k + 1) db1 i else (db1, Inr (Some outcome))) =
      (db', Inr (Some Left_For_Review))"
    by (auto elim!: and_run_InrE)
  then show ?case using Suc.IH book_round_left by (auto split: if_splits)
qed simp

lemma book_loop_not_next: "book_loop env fuel k db i = (db', Inr (Some out)) \<Longrightarrow> out \<noteq> Next_Round"
proof (induction fuel arbitrary: k db)
  case (Suc fuel)
  from Suc.prems obtain db1 outcome where r: "book_round env k db i = (db1, Inr outcome)"
    "(if outcome = Next_Round then book_loop env fuel (k + 1) db1 i else (db1, Inr (Some outcome))) =
      (db', Inr (Some out))"
    by (auto elim!: and_run_InrE)
  then show ?case using Suc.IH by (auto split: if_splits)
qed simp

text \<open>
  C20. A job that succeeds has finished its book. When \<open>execute\<close> returns, whatever the chapter
  workflow and the global analysis answered, the run is COMPLETED or COMPLETED_NEEDS_REVIEW with
  progress 100, and the result reports the committed status, counts and snapshot.
\<close>

theorem returned_book_is_finished:
  assumes "\<And>db s b db'. be_accept_snapshot env db s b = (db', Inr ()) \<Longrightarrow> get_book_run db' i = get_book_run db i"
    and "execute_book env fuel db i = (db', Inr (Some r))"
  shows "\<exists>run. get_book_run db' i = Some run \<and>
    br_status run \<in> {BookRunStatus_COMPLETED, BookRunStatus_COMPLETED_NEEDS_REVIEW} \<and>
    br_progress run = 100 \<and> bx_status r = br_status run \<and>
    bx_accepted_chapters r = br_accepted_chapters run \<and> bx_snapshot_id r = br_book_snapshot_id run"
proof -
  from assms(2) obtain db1 db2 outcome db3 where
    loop: "book_loop env fuel 1 db1 i = (db2, Inr outcome)" and some: "outcome \<noteq> None"
    and review: "(if outcome = Some Chapters_Done then global_review env db2 i else (db2, Inr ())) = (db3, Inr ())"
    and result: "book_result_of db3 i = Inr r" and db': "db' = db3"
    unfolding execute_book_def by (elim and_run_InrE) (auto elim!: and_run_InrE split: if_splits)
  obtain out where out: "outcome = Some out" using some by blast
  have "run_ended db3 i"
  proof (cases out)
    case Next_Round
    then show ?thesis using book_loop_not_next [OF loop [unfolded out]] by simp
  next
    case Chapters_Done
    then show ?thesis using review out global_review_ends [OF assms(1)] by simp
  next
    case Left_For_Review
    then show ?thesis using review out book_loop_left loop by auto
  qed
  then show ?thesis using result
    by (auto simp: db' run_ended_def book_result_of_def run_for_update_def split: option.splits)
qed

text \<open>A book whose chapters all have an accepted version already.\<close>

definition accepted_book :: db where
  "accepted_book = (committed book_create)\<lparr>db_chapters :=
     (db_chapters (committed book_create))\<lparr>t_rows :=
       map (\<lambda>c. c\<lparr>ch_accepted_version_id := Some 1\<rparr>) (t_rows (db_chapters (committed book_create)))\<rparr>\<rparr>"

definition finished_book :: "db \<times> book_result option result" where
  "finished_book = execute_book (completing_env\<lparr>be_settings := default_settings\<lparr>s_book_global_check_interval := 20\<rparr>\<rparr>)
     4 accepted_book 1"

lemma finished_book_ok:
  "map_sum id (map_option (\<lambda>r. (bx_status r, bx_accepted_chapters r))) (snd finished_book) =
     Inr (Some (BookRunStatus_COMPLETED, 3))"
  by code_simp

theorem returned_book_is_finished_applied:
  "\<exists>run. get_book_run (fst finished_book) 1 = Some run \<and> br_status run = BookRunStatus_COMPLETED \<and>
     br_progress run = 100"
proof -
  let ?env = "completing_env\<lparr>be_settings := default_settings\<lparr>s_book_global_check_interval := 20\<rparr>\<rparr>"
  obtain r where r: "snd finished_book = Inr (Some r)" "bx_status r = BookRunStatus_COMPLETED"
    using map_sum_InrD [OF finished_book_ok] by auto
  then have op: "execute_book ?env 4 accepted_book 1 = (fst finished_book, Inr (Some r))"
    unfolding finished_book_def by (metis prod.collapse)
  have "be_accept_snapshot ?env db s b = (db', Inr ()) \<Longrightarrow> get_book_run db' 1 = get_book_run db 1" for db s b db'
    by (simp add: completing_env_def book_env_demo_def)
  then have "\<exists>run. get_book_run (fst finished_book) 1 = Some run \<and>
      br_status run \<in> {BookRunStatus_COMPLETED, BookRunStatus_COMPLETED_NEEDS_REVIEW} \<and>
      br_progress run = 100 \<and> bx_status r = br_status run \<and>
      bx_accepted_chapters r = br_accepted_chapters run \<and> bx_snapshot_id r = br_book_snapshot_id run"
    using op by (rule returned_book_is_finished)
  then show ?thesis using r(2) by auto
qed

end
