(* ===== verification/Revision_Policy.thy ===== *)
theory Revision_Policy
  imports Job_Requests "HOL-Library.Char_ord" "HOL-Library.List_Lexorder" "HOL-Library.Product_Lexorder"
begin

text \<open>
  The revision rules: the bounded brief (\<open>src/src/storyforge/revision/brief.py\<close>), the pairwise
  comparison of two versions (\<open>revision/acceptance.py\<close>) and their data (\<open>revision/models.py\<close>). The
  functions are pure. Scores are rational numbers.
\<close>

section \<open>Data\<close>

datatype issue_source = From_Consistency | From_Critic | From_Mechanical | From_Blocking

record revision_issue =
  ri_code :: string
  ri_category :: string
  ri_severity :: conflict_severity
  ri_problem :: string
  ri_evidence :: "string option"
  ri_suggestion :: string
  ri_source :: issue_source

record revision_instruction =
  rn_priority :: int
  rn_code :: string
  rn_category :: string
  rn_severity :: conflict_severity
  rn_problem :: string
  rn_evidence :: "string option"
  rn_required_change :: string
  rn_preserve :: "string list"
  rn_avoid :: "string list"
  rn_acceptance_criteria :: "string list"

record revision_brief =
  rb_chapter_id :: int
  rb_source_version_id :: int
  rb_revision_attempt :: int
  rb_objective :: string
  rb_instructions :: "revision_instruction list"
  rb_global_constraints :: "string list"
  rb_must_preserve_facts :: "string list"
  rb_forbidden_changes :: "string list"
  rb_target_word_range :: "int \<times> int"
  rb_strategy :: string

datatype recommended_action = Recommend_Accept | Recommend_Revise | Recommend_Human_Review | Recommend_Reject

record evaluation_snapshot =
  es_evaluation_id :: int
  es_version_id :: int
  es_final_score :: rat
  es_consistency_score :: rat
  es_outline_adherence_score :: rat
  es_critical_conflicts :: int
  es_high_conflicts :: int
  es_blocking_reasons :: "string list"
  es_issue_codes :: "string list"
  es_passed :: bool
  es_recommended_action :: recommended_action

datatype winner = Old_Wins | New_Wins | Tie

text \<open>The rendered rationale of a dimension is not represented.\<close>

record comparison_dimension =
  cd_name :: string
  cd_old_score :: rat
  cd_new_score :: rat
  cd_delta :: rat
  cd_winner :: winner

datatype comparison_decision = Accept_New | Keep_Old_Retry | Keep_Old_Stop | Human_Review_Needed

record version_comparison_result =
  vr_old_version_id :: int
  vr_new_version_id :: int
  vr_dimensions :: "comparison_dimension list"
  vr_overall_delta :: rat
  vr_resolved_issue_codes :: "string list"
  vr_unresolved_issue_codes :: "string list"
  vr_newly_introduced_issue_codes :: "string list"
  vr_decision :: comparison_decision
  vr_confidence :: rat
  vr_rationale :: string

text \<open>\<open>sorted(set(...))\<close> and \<open>round(x, 3)\<close>.\<close>

definition sorted_set :: "'a::linorder list \<Rightarrow> 'a list" where
  "sorted_set xs = sort (remdups xs)"

definition round3 :: "rat \<Rightarrow> rat" where
  "round3 x = of_int (round_half_even (x * 1000)) / 1000"

section \<open>The brief: RevisionBriefBuilder.build\<close>

fun severity_order :: "conflict_severity \<Rightarrow> int" where
  "severity_order ConflictSeverity_CRITICAL = 0"
| "severity_order ConflictSeverity_HIGH = 1"
| "severity_order ConflictSeverity_MEDIUM = 2"
| "severity_order ConflictSeverity_LOW = 3"

definition category_order :: "(string \<times> int) list" where
  "category_order =
     [(''consistency'', 0), (''forbidden_reveal'', 1), (''outline'', 2), (''character'', 3),
      (''plot'', 4), (''pacing'', 5), (''prose'', 6), (''mechanical'', 7)]"

definition category_rank :: "string \<Rightarrow> int" where
  "category_rank category =
     (case map_of category_order (casefold category) of None \<Rightarrow> 8 | Some n \<Rightarrow> n)"

record brief_config =
  bc_max_instructions :: int
  bc_target_word_tolerance :: rat

definition make_brief_config :: "int \<Rightarrow> rat \<Rightarrow> brief_config result" where
  "make_brief_config max_instructions tolerance =
     (if \<not> (3 \<le> max_instructions \<and> max_instructions \<le> 5) then Inl ValueError
      else if \<not> (0 < tolerance \<and> tolerance < 1) then Inl ValueError
      else Inr \<lparr>bc_max_instructions = max_instructions, bc_target_word_tolerance = tolerance\<rparr>)"

text \<open>\<open>{item.code: item for item in issues}\<close>: the last issue of a code, at its first position.\<close>

fun put_issue :: "revision_issue \<Rightarrow> revision_issue list \<Rightarrow> revision_issue list" where
  "put_issue item [] = [item]"
| "put_issue item (x # xs) = (if ri_code x = ri_code item then item # xs else x # put_issue item xs)"

definition unique_issues :: "revision_issue list \<Rightarrow> revision_issue list" where
  "unique_issues issues = foldl (\<lambda>acc item. put_issue item acc) [] issues"

definition issue_key :: "revision_issue \<Rightarrow> int \<times> int \<times> string" where
  "issue_key item = (severity_order (ri_severity item), category_rank (ri_category item), ri_code item)"

definition ordered_issues :: "brief_config \<Rightarrow> revision_issue list \<Rightarrow> revision_issue list" where
  "ordered_issues config issues = take (nat (bc_max_instructions config)) (sort_key issue_key (unique_issues issues))"

definition instruction_for :: "string list \<Rightarrow> string list \<Rightarrow> int \<Rightarrow> revision_issue \<Rightarrow> revision_instruction" where
  "instruction_for must_preserve forbidden index item =
     \<lparr>rn_priority = index, rn_code = ri_code item, rn_category = ri_category item,
      rn_severity = ri_severity item, rn_problem = ri_problem item, rn_evidence = ri_evidence item,
      rn_required_change = ri_suggestion item, rn_preserve = take 3 must_preserve, rn_avoid = forbidden,
      rn_acceptance_criteria = [''Resolve issue '' @ ri_code item,
        ''Do not introduce a new high or critical consistency conflict'']\<rparr>"

definition brief_strategy :: "bool option \<Rightarrow> int \<Rightarrow> string" where
  "brief_strategy previous_improved revision_attempt =
     (if previous_improved = Some False then ''structural_rewrite''
      else if 1 < revision_attempt then ''alternative_approach'' else ''targeted_repair'')"

definition word_range :: "brief_config \<Rightarrow> int \<Rightarrow> int \<times> int" where
  "word_range config target_words =
     (let tolerance = bc_target_word_tolerance config;
          lower = max 1 (round_half_even (of_int target_words * (1 - tolerance)))
      in (lower, max lower (round_half_even (of_int target_words * (1 + tolerance)))))"

text \<open>
  Building the boundary models: every text is stripped (\<open>str_strip_whitespace\<close> of \<open>RequestModel\<close>), then
  the declared ranges are checked.
\<close>

fun map_result :: "('a \<Rightarrow> 'b result) \<Rightarrow> 'a list \<Rightarrow> 'b list result" where
  "map_result f [] = Inr []"
| "map_result f (x # xs) = and_then (f x) (\<lambda>y. and_then (map_result f xs) (\<lambda>ys. Inr (y # ys)))"

lemma map_result_InrD: "map_result f xs = Inr ys \<Longrightarrow> list_all2 (\<lambda>x y. f x = Inr y) xs ys"
  by (induction xs arbitrary: ys) auto

definition text_upto :: "nat \<Rightarrow> string \<Rightarrow> bool" where
  "text_upto n s \<longleftrightarrow> s \<noteq> [] \<and> length s \<le> n"

definition optional_upto :: "nat \<Rightarrow> string option \<Rightarrow> bool" where
  "optional_upto n s \<longleftrightarrow> (case s of None \<Rightarrow> True | Some t \<Rightarrow> length t \<le> n)"

definition make_issue :: "revision_issue \<Rightarrow> revision_issue result" where
  "make_issue raw =
     (let i = raw\<lparr>ri_code := strip (ri_code raw), ri_category := strip (ri_category raw),
                  ri_problem := strip (ri_problem raw), ri_evidence := map_option strip (ri_evidence raw),
                  ri_suggestion := strip (ri_suggestion raw)\<rparr>
      in if text_upto 100 (ri_code i) \<and> text_upto 100 (ri_category i) \<and> ri_problem i \<noteq> [] \<and>
            optional_upto 500 (ri_evidence i) \<and> ri_suggestion i \<noteq> []
         then Inr i else Inl ValueError)"

definition make_instruction :: "revision_instruction \<Rightarrow> revision_instruction result" where
  "make_instruction raw =
     (let n = raw\<lparr>rn_code := strip (rn_code raw), rn_category := strip (rn_category raw),
                  rn_problem := strip (rn_problem raw), rn_evidence := map_option strip (rn_evidence raw),
                  rn_required_change := strip (rn_required_change raw), rn_preserve := map strip (rn_preserve raw),
                  rn_avoid := map strip (rn_avoid raw),
                  rn_acceptance_criteria := map strip (rn_acceptance_criteria raw)\<rparr>
      in if 0 < rn_priority n \<and> text_upto 100 (rn_code n) \<and> text_upto 100 (rn_category n) \<and> rn_problem n \<noteq> [] \<and>
            optional_upto 500 (rn_evidence n) \<and> rn_required_change n \<noteq> []
         then Inr n else Inl ValueError)"

definition make_brief :: "revision_brief \<Rightarrow> revision_brief result" where
  "make_brief raw =
     (let b = raw\<lparr>rb_objective := strip (rb_objective raw),
                  rb_global_constraints := map strip (rb_global_constraints raw),
                  rb_must_preserve_facts := map strip (rb_must_preserve_facts raw),
                  rb_forbidden_changes := map strip (rb_forbidden_changes raw),
                  rb_strategy := strip (rb_strategy raw)\<rparr>
      in if 0 < rb_chapter_id b \<and> 0 < rb_source_version_id b \<and> 0 < rb_revision_attempt b \<and>
            rb_objective b \<noteq> [] \<and> 0 < fst (rb_target_word_range b) \<and> 0 < snd (rb_target_word_range b) \<and>
            text_upto 100 (rb_strategy b)
         then Inr b else Inl ValueError)"

definition make_snapshot :: "evaluation_snapshot \<Rightarrow> evaluation_snapshot result" where
  "make_snapshot raw =
     (let s = raw\<lparr>es_blocking_reasons := map strip (es_blocking_reasons raw),
                  es_issue_codes := map strip (es_issue_codes raw)\<rparr>
      in if 0 < es_evaluation_id s \<and> 0 < es_version_id s \<and>
            list_all (\<lambda>x. 0 \<le> x \<and> x \<le> 10)
              [es_final_score s, es_consistency_score s, es_outline_adherence_score s] \<and>
            0 \<le> es_critical_conflicts s \<and> 0 \<le> es_high_conflicts s
         then Inr s else Inl ValueError)"

definition build_brief ::
  "brief_config \<Rightarrow> int \<Rightarrow> int \<Rightarrow> int \<Rightarrow> string \<Rightarrow> revision_issue list \<Rightarrow> string list \<Rightarrow> string list \<Rightarrow> int \<Rightarrow>
   bool option \<Rightarrow> revision_brief result" where
  "build_brief config chapter_id source_version_id revision_attempt objective issues must_preserve
     forbidden target_words previous_improved =
     and_then (map_result (\<lambda>(index, item). make_instruction (instruction_for must_preserve forbidden index item))
        (zip [1..int (length (ordered_issues config issues))] (ordered_issues config issues))) (\<lambda>instructions.
     make_brief
       \<lparr>rb_chapter_id = chapter_id, rb_source_version_id = source_version_id,
        rb_revision_attempt = revision_attempt,
        rb_objective = (if objective = [] then ''Resolve blocking evaluation issues while preserving continuity.''
                        else objective),
        rb_instructions = instructions,
        rb_global_constraints =
          [''Follow the current chapter outline and do not reveal future information.'',
           ''Preserve accepted facts unless an instruction explicitly corrects a conflict.'',
           ''Return a complete chapter, not notes or an outline.''],
        rb_must_preserve_facts = sorted_set must_preserve, rb_forbidden_changes = sorted_set forbidden,
        rb_target_word_range = word_range config target_words,
        rb_strategy = brief_strategy previous_improved revision_attempt\<rparr>)"

section \<open>The comparison: AcceptanceEvaluator.compare\<close>

definition make_acceptance_policy :: "rat \<Rightarrow> rat result" where
  "make_acceptance_policy minimum_improvement =
     (if 0 \<le> minimum_improvement \<and> minimum_improvement \<le> 10 then Inr minimum_improvement else Inl ValueError)"

definition dimension_of :: "string \<Rightarrow> rat \<Rightarrow> rat \<Rightarrow> comparison_dimension" where
  "dimension_of name old new =
     (let delta = round3 (new - old)
      in \<lparr>cd_name = name, cd_old_score = old, cd_new_score = new, cd_delta = delta,
          cd_winner = (if 0 < delta then New_Wins else if delta < 0 then Old_Wins else Tie)\<rparr>)"

text \<open>The decision with its confidence and rationale, before the check of the requested tasks.\<close>

definition first_decision ::
  "rat \<Rightarrow> evaluation_snapshot \<Rightarrow> evaluation_snapshot \<Rightarrow> bool \<Rightarrow> comparison_decision \<times> rat \<times> string" where
  "first_decision minimum_improvement old new at_limit =
     (let delta = round3 (es_final_score new - es_final_score old) in
      if es_critical_conflicts old < es_critical_conflicts new
      then (if at_limit then Human_Review_Needed else Keep_Old_Stop, 1,
            ''The revision introduced a new critical consistency conflict.'')
      else if es_passed new \<and> es_blocking_reasons new = [] \<and> es_critical_conflicts new = 0
      then (Accept_New, 95 / 100, ''The revision satisfies every configured pass and blocking condition.'')
      else if at_limit
      then (Human_Review_Needed, 9 / 10, ''The maximum revision attempts were reached without a passing version.'')
      else if minimum_improvement \<le> delta \<or> es_critical_conflicts new < es_critical_conflicts old \<or>
              length (es_blocking_reasons new) < length (es_blocking_reasons old)
      then (Keep_Old_Retry, 8 / 10, ''The revision improved but still has blocking conditions.'')
      else if delta < - minimum_improvement
      then (Keep_Old_Retry, 9 / 10, ''The revision is worse; retain the old best version and retry differently.'')
      else (Keep_Old_Retry, 75 / 100, ''The change is below the minimum meaningful improvement threshold.''))"

definition requested_codes :: "revision_brief \<Rightarrow> string list" where
  "requested_codes brief =
     map rn_code (filter (\<lambda>n. rn_severity n \<in> {ConflictSeverity_CRITICAL, ConflictSeverity_HIGH})
       (rb_instructions brief))"

definition compare ::
  "rat \<Rightarrow> evaluation_snapshot \<Rightarrow> evaluation_snapshot \<Rightarrow> revision_brief \<Rightarrow> int \<Rightarrow> int \<Rightarrow>
   version_comparison_result" where
  "compare minimum_improvement old new brief revision_attempt max_revision_attempts =
     (let old_codes = es_issue_codes old; new_codes = es_issue_codes new;
          at_limit = max_revision_attempts \<le> revision_attempt;
          (decision, confidence, rationale) = first_decision minimum_improvement old new at_limit;
          unresolved_requested = list_ex (\<lambda>c. c \<in> set new_codes) (requested_codes brief);
          (decision, confidence, rationale) =
            (if decision = Accept_New \<and> unresolved_requested
             then (if \<not> at_limit then Keep_Old_Retry else Human_Review_Needed, 85 / 100,
                   ''The revision passes scores but leaves requested revision tasks unresolved.'')
             else (decision, confidence, rationale))
      in \<lparr>vr_old_version_id = es_version_id old, vr_new_version_id = es_version_id new,
          vr_dimensions =
            [dimension_of ''final_score'' (es_final_score old) (es_final_score new),
             dimension_of ''consistency'' (es_consistency_score old) (es_consistency_score new),
             dimension_of ''outline_adherence'' (es_outline_adherence_score old) (es_outline_adherence_score new)],
          vr_overall_delta = round3 (es_final_score new - es_final_score old),
          vr_resolved_issue_codes = sorted_set (filter (\<lambda>c. c \<notin> set new_codes) old_codes),
          vr_unresolved_issue_codes = sorted_set (filter (\<lambda>c. c \<in> set new_codes) old_codes),
          vr_newly_introduced_issue_codes = sorted_set (filter (\<lambda>c. c \<notin> set old_codes) new_codes),
          vr_decision = decision, vr_confidence = confidence, vr_rationale = rationale\<rparr>)"

end
