(* ===== verification/Narrative_Store.thy ===== *)
theory Narrative_Store
  imports Repository Entities Constraints Revision_Policy
begin

text \<open>
  The narrative tables of \<open>src/src/storyforge/models/entities.py\<close> (characters, foreshadowing, facts,
  chapter versions, evaluations with their issues and conflicts, revisions and comparisons, memory
  and graph rows), their constraints, and the queries of \<open>repositories/domain.py\<close> and
  \<open>memory/repositories.py\<close> that the version services use.
\<close>

section \<open>Rows\<close>

record character =
  hc_id :: int
  hc_project_id :: int
  hc_name :: string
  hc_role :: string
  hc_description :: string
  hc_goals :: "string list"
  hc_personality :: string
  hc_personality_traits :: "string list"
  hc_speech_style :: string
  hc_current_state :: string
  hc_secrets :: "string list"
  hc_knowledge :: "string list"

record foreshadowing =
  fs_id :: int
  fs_project_id :: int
  fs_setup_chapter :: int
  fs_expected_payoff_chapter :: int
  fs_description :: string
  fs_status :: foreshadowing_status
  fs_payoff_chapter :: "int option"
  fs_importance :: string

record fact =
  fa_id :: int
  fa_project_id :: int
  fa_chapter_id :: int
  fa_subject :: string
  fa_predicate :: string
  fa_object :: string
  fa_valid_from_chapter :: int
  fa_valid_to_chapter :: "int option"
  fa_confidence :: rat
  fa_source_quote :: string
  fa_fact_type :: string
  fa_chapter_version_id :: int
  fa_workflow_run_id :: "int option"
  fa_status :: fact_status
  fa_normalized_hash :: string

record chapter_version =
  cv_id :: int
  cv_chapter_id :: int
  cv_version :: int
  cv_title :: string
  cv_content :: string
  cv_summary :: string
  cv_generation_metadata :: "(string \<times> json) list"
  cv_status :: chapter_version_status
  cv_source :: string
  cv_parent_version_id :: "int option"
  cv_workflow_run_id :: "int option"
  cv_word_count :: int
  cv_provider :: string
  cv_model :: string
  cv_prompt_versions :: "(string \<times> string) list"
  cv_candidate_character_updates :: "(string \<times> json) list list"
  cv_candidate_foreshadowing_updates :: "(string \<times> json) list list"
  cv_idempotency_key :: "string option"
  cv_accepted_at :: "time option"
  cv_created_at :: time

record evaluation =
  ev_id :: int
  ev_project_id :: int
  ev_chapter_id :: int
  ev_chapter_version_id :: int
  ev_workflow_run_id :: "int option"
  ev_idempotency_key :: "string option"
  ev_evaluator :: string
  ev_evaluation_version :: int
  ev_status :: evaluation_status
  ev_overall_score :: rat
  ev_mechanical_score :: rat
  ev_critic_score :: rat
  ev_consistency_score :: rat
  ev_prose_score :: rat
  ev_character_score :: rat
  ev_plot_score :: rat
  ev_pacing_score :: rat
  ev_dialogue_score :: rat
  ev_emotional_impact_score :: rat
  ev_outline_adherence_score :: rat
  ev_raw_scores :: "(string \<times> rat) list"
  ev_weighted_scores :: "(string \<times> rat) list"
  ev_mechanical_metrics :: "(string \<times> json) list"
  ev_critic_dimensions :: "(string \<times> json) list"
  ev_evaluator_versions :: "(string \<times> string) list"
  ev_prompt_versions :: "(string \<times> string) list"
  ev_blocking_reasons :: "string list"
  ev_recommended_action :: recommended_action
  ev_passed :: bool
  ev_provider :: string
  ev_model :: string
  ev_config_version :: string
  ev_issues :: "(string \<times> json) list list"
  ev_suggestions :: "string list"
  ev_created_at :: time

record evaluation_issue =
  ei_id :: int
  ei_evaluation_id :: int
  ei_source :: string
  ei_code :: string
  ei_category :: string
  ei_severity :: conflict_severity
  ei_description :: string
  ei_evidence :: "string option"
  ei_suggestion :: "string option"
  ei_score_penalty :: rat
  ei_details :: "(string \<times> json) list"

record conflict =
  co_id :: int
  co_evaluation_id :: int
  co_project_id :: int
  co_chapter_id :: int
  co_chapter_version_id :: int
  co_conflict_type :: conflict_type
  co_severity :: conflict_severity
  co_subject :: string
  co_description :: string
  co_new_evidence :: string
  co_existing_evidence :: "string option"
  co_existing_fact_id :: "int option"
  co_suggested_resolution :: string
  co_confidence :: rat
  co_rule_code :: string
  co_status :: conflict_status
  co_resolution_note :: "string option"
  co_created_at :: time
  co_resolved_at :: "time option"

record revision =
  rv_id :: int
  rv_chapter_id :: int
  rv_previous_version :: int
  rv_new_version :: int
  rv_reason :: string
  rv_score_before :: rat
  rv_score_after :: rat
  rv_accepted :: bool
  rv_source_version_id :: "int option"
  rv_new_version_id :: "int option"
  rv_workflow_run_id :: "int option"
  rv_status :: string
  rv_brief :: revision_brief
  rv_prompt_versions :: "(string \<times> string) list"
  rv_created_at :: time

record version_comparison =
  vc_id :: int
  vc_workflow_run_id :: int
  vc_result :: version_comparison_result

record memory_chunk =
  mk_id :: int
  mk_project_id :: int
  mk_chapter_id :: "int option"
  mk_chapter_version_id :: "int option"
  mk_source_type :: string
  mk_source_id :: string
  mk_chunk_index :: int
  mk_content :: string
  mk_content_hash :: string
  mk_token_estimate :: int
  mk_character_count :: int
  mk_embedding :: "rat list"
  mk_embedding_provider :: string
  mk_embedding_model :: string
  mk_embedding_dimensions :: int
  mk_status :: memory_status
  mk_valid_from_chapter :: int
  mk_valid_to_chapter :: "int option"
  mk_details :: "(string \<times> json) list"

record memory_index_record =
  mi_id :: int
  mi_project_id :: int
  mi_chapter_version_id :: int
  mi_status :: memory_index_status
  mi_embedding_provider :: string
  mi_embedding_model :: string
  mi_embedding_dimensions :: int
  mi_attempt_count :: int
  mi_chunk_count :: int
  mi_graph_entity_count :: int
  mi_graph_relation_count :: int
  mi_error_code :: "string option"
  mi_error_message :: "string option"
  mi_updated_at :: time
  mi_completed_at :: "time option"

record graph_entity =
  gn_id :: int
  gn_project_id :: int
  gn_entity_type :: graph_entity_type
  gn_canonical_name :: string
  gn_normalized_name :: string
  gn_disambiguation_key :: string
  gn_description :: "string option"
  gn_source_chapter_id :: "int option"
  gn_source_version_id :: "int option"
  gn_status :: memory_status
  gn_confidence :: rat
  gn_aliases :: "string list"

record graph_relation =
  gr_id :: int
  gr_project_id :: int
  gr_subject_entity_id :: int
  gr_predicate :: graph_predicate
  gr_object_entity_id :: int
  gr_source_chapter_id :: "int option"
  gr_source_version_id :: "int option"
  gr_confidence :: rat
  gr_valid_from_chapter :: int
  gr_valid_to_chapter :: "int option"
  gr_status :: memory_status
  gr_evidence :: string
  gr_evidence_hash :: string
  gr_details :: "(string \<times> json) list"

record workflow_event =
  we_id :: int
  we_workflow_run_id :: int
  we_node :: string
  we_event_type :: workflow_event_type
  we_attempt :: int
  we_status :: string
  we_duration_ms :: int
  we_version_id :: "int option"
  we_evaluation_id :: "int option"
  we_error_code :: "string option"
  we_created_at :: time

record story_rule =
  sr_id :: int
  sr_project_id :: int
  sr_category :: string
  sr_statement :: string
  sr_source :: string
  sr_active :: bool
  sr_structured_metadata :: "(string \<times> json) list"

section \<open>The database\<close>

record ndb =
  nd_projects :: "project table"
  nd_chapters :: "chapter_row table"
  nd_workflow_runs :: "workflow_run table"
  nd_characters :: "character table"
  nd_foreshadowings :: "foreshadowing table"
  nd_facts :: "fact table"
  nd_versions :: "chapter_version table"
  nd_evaluations :: "evaluation table"
  nd_issues :: "evaluation_issue table"
  nd_conflicts :: "conflict table"
  nd_revisions :: "revision table"
  nd_comparisons :: "version_comparison table"
  nd_chunks :: "memory_chunk table"
  nd_index_records :: "memory_index_record table"
  nd_graph_entities :: "graph_entity table"
  nd_graph_relations :: "graph_relation table"
  nd_events :: "workflow_event table"
  nd_story_rules :: "story_rule table"

definition empty_ndb :: ndb where
  "empty_ndb = \<lparr>nd_projects = empty_table, nd_chapters = empty_table, nd_workflow_runs = empty_table,
     nd_characters = empty_table, nd_foreshadowings = empty_table, nd_facts = empty_table,
     nd_versions = empty_table, nd_evaluations = empty_table, nd_issues = empty_table,
     nd_conflicts = empty_table, nd_revisions = empty_table, nd_comparisons = empty_table,
     nd_chunks = empty_table, nd_index_records = empty_table, nd_graph_entities = empty_table,
     nd_graph_relations = empty_table, nd_events = empty_table,
     nd_story_rules = empty_table\<rparr>"

interpretation versions: repository cv_id "\<lambda>i r. r\<lparr>cv_id := i\<rparr>"
  by unfold_locales simp

interpretation facts: repository fa_id "\<lambda>i r. r\<lparr>fa_id := i\<rparr>"
  by unfold_locales simp

interpretation foreshadowings: repository fs_id "\<lambda>i r. r\<lparr>fs_id := i\<rparr>"
  by unfold_locales simp

interpretation index_records: repository mi_id "\<lambda>i r. r\<lparr>mi_id := i\<rparr>"
  by unfold_locales simp

definition nd_project :: "ndb \<Rightarrow> int \<Rightarrow> project option" where
  "nd_project db i = repo_get pr_id (nd_projects db) i"

definition nd_chapter :: "ndb \<Rightarrow> int \<Rightarrow> chapter_row option" where
  "nd_chapter db i = repo_get ch_id (nd_chapters db) i"

definition nd_workflow :: "ndb \<Rightarrow> int \<Rightarrow> workflow_run option" where
  "nd_workflow db i = repo_get wr_id (nd_workflow_runs db) i"

definition get_version :: "ndb \<Rightarrow> int \<Rightarrow> chapter_version option" where
  "get_version db i = repo_get cv_id (nd_versions db) i"

definition get_fact :: "ndb \<Rightarrow> int \<Rightarrow> fact option" where
  "get_fact db i = repo_get fa_id (nd_facts db) i"

definition get_conflict :: "ndb \<Rightarrow> int \<Rightarrow> conflict option" where
  "get_conflict db i = repo_get co_id (nd_conflicts db) i"

definition get_evaluation :: "ndb \<Rightarrow> int \<Rightarrow> evaluation option" where
  "get_evaluation db i = repo_get ev_id (nd_evaluations db) i"

definition get_foreshadowing :: "ndb \<Rightarrow> int \<Rightarrow> foreshadowing option" where
  "get_foreshadowing db i = repo_get fs_id (nd_foreshadowings db) i"

definition get_index_record :: "ndb \<Rightarrow> int \<Rightarrow> memory_index_record option" where
  "get_index_record db i = repo_get mi_id (nd_index_records db) i"

text \<open>\<open>for row in session.scalars(select(T).where(p)): ...\<close>\<close>

definition update_where :: "('r \<Rightarrow> bool) \<Rightarrow> ('r \<Rightarrow> 'r) \<Rightarrow> 'r table \<Rightarrow> 'r table" where
  "update_where p f t = t\<lparr>t_rows := map (\<lambda>r. if p r then f r else r) (t_rows t)\<rparr>"

section \<open>Constraints\<close>

definition in_range :: "rat \<Rightarrow> rat \<Rightarrow> bool" where
  "in_range upper x \<longleftrightarrow> 0 \<le> x \<and> x \<le> upper"

definition from_to_ok :: "int \<Rightarrow> int option \<Rightarrow> bool" where
  "from_to_ok a b \<longleftrightarrow> 0 < a \<and> (case b of None \<Rightarrow> True | Some t \<Rightarrow> a \<le> t)"

definition foreshadowing_row_ok :: "foreshadowing \<Rightarrow> bool" where
  "foreshadowing_row_ok f \<longleftrightarrow> 0 < fs_setup_chapter f \<and> fs_setup_chapter f \<le> fs_expected_payoff_chapter f \<and>
     (case fs_payoff_chapter f of None \<Rightarrow> True | Some c \<Rightarrow> fs_setup_chapter f \<le> c)"

definition fact_row_ok :: "fact \<Rightarrow> bool" where
  "fact_row_ok f \<longleftrightarrow> from_to_ok (fa_valid_from_chapter f) (fa_valid_to_chapter f) \<and> in_range 1 (fa_confidence f)"

definition evaluation_row_ok :: "evaluation \<Rightarrow> bool" where
  "evaluation_row_ok e \<longleftrightarrow>
     list_all (in_range 100) [ev_overall_score e, ev_consistency_score e, ev_prose_score e,
       ev_character_score e, ev_plot_score e] \<and>
     0 < ev_evaluation_version e \<and>
     list_all (in_range 10) [ev_mechanical_score e, ev_critic_score e, ev_pacing_score e,
       ev_dialogue_score e, ev_emotional_impact_score e, ev_outline_adherence_score e]"

definition revision_row_ok :: "revision \<Rightarrow> bool" where
  "revision_row_ok r \<longleftrightarrow> 0 < rv_previous_version r \<and> rv_previous_version r < rv_new_version r \<and>
     in_range 100 (rv_score_before r) \<and> in_range 100 (rv_score_after r)"

definition chunk_row_ok :: "memory_chunk \<Rightarrow> bool" where
  "chunk_row_ok c \<longleftrightarrow> 0 \<le> mk_chunk_index c \<and> 0 \<le> mk_token_estimate c \<and> 0 \<le> mk_character_count c \<and>
     0 < mk_embedding_dimensions c \<and> from_to_ok (mk_valid_from_chapter c) (mk_valid_to_chapter c)"

definition relation_row_ok :: "graph_relation \<Rightarrow> bool" where
  "relation_row_ok r \<longleftrightarrow> in_range 1 (gr_confidence r) \<and>
     from_to_ok (gr_valid_from_chapter r) (gr_valid_to_chapter r) \<and> gr_subject_entity_id r \<noteq> gr_object_entity_id r"

definition versions_ok :: "ndb \<Rightarrow> bool" where
  "versions_ok db \<longleftrightarrow>
     unique_where (\<lambda>_. True) (\<lambda>v. (cv_chapter_id v, cv_version v)) (t_rows (nd_versions db)) \<and>
     unique_where (\<lambda>v. cv_idempotency_key v \<noteq> None) cv_idempotency_key (t_rows (nd_versions db)) \<and>
     (\<forall>v \<in> set (t_rows (nd_versions db)). 0 < cv_version v \<and> nd_chapter db (cv_chapter_id v) \<noteq> None \<and>
        references (get_version db) (cv_parent_version_id v) \<and>
        references (nd_workflow db) (cv_workflow_run_id v))"

definition facts_ok :: "ndb \<Rightarrow> bool" where
  "facts_ok db \<longleftrightarrow>
     unique_where (\<lambda>_. True) (\<lambda>f. (fa_chapter_version_id f, fa_normalized_hash f)) (t_rows (nd_facts db)) \<and>
     (\<forall>f \<in> set (t_rows (nd_facts db)). fact_row_ok f \<and> nd_project db (fa_project_id f) \<noteq> None \<and>
        nd_chapter db (fa_chapter_id f) \<noteq> None \<and> get_version db (fa_chapter_version_id f) \<noteq> None \<and>
        references (nd_workflow db) (fa_workflow_run_id f))"

definition evaluations_ok :: "ndb \<Rightarrow> bool" where
  "evaluations_ok db \<longleftrightarrow>
     unique_where (\<lambda>_. True) (\<lambda>e. (ev_chapter_id e, ev_evaluation_version e)) (t_rows (nd_evaluations db)) \<and>
     unique_where (\<lambda>e. ev_idempotency_key e \<noteq> None) ev_idempotency_key (t_rows (nd_evaluations db)) \<and>
     (\<forall>e \<in> set (t_rows (nd_evaluations db)). evaluation_row_ok e \<and> nd_project db (ev_project_id e) \<noteq> None \<and>
        nd_chapter db (ev_chapter_id e) \<noteq> None \<and> get_version db (ev_chapter_version_id e) \<noteq> None \<and>
        references (nd_workflow db) (ev_workflow_run_id e)) \<and>
     (\<forall>i \<in> set (t_rows (nd_issues db)). in_range 10 (ei_score_penalty i) \<and>
        get_evaluation db (ei_evaluation_id i) \<noteq> None) \<and>
     (\<forall>c \<in> set (t_rows (nd_conflicts db)). in_range 1 (co_confidence c) \<and>
        get_evaluation db (co_evaluation_id c) \<noteq> None \<and> nd_project db (co_project_id c) \<noteq> None \<and>
        nd_chapter db (co_chapter_id c) \<noteq> None \<and> get_version db (co_chapter_version_id c) \<noteq> None \<and>
        references (get_fact db) (co_existing_fact_id c))"

definition revisions_ok :: "ndb \<Rightarrow> bool" where
  "revisions_ok db \<longleftrightarrow>
     unique_where (\<lambda>_. True) (\<lambda>r. (rv_chapter_id r, rv_new_version r)) (t_rows (nd_revisions db)) \<and>
     (\<forall>r \<in> set (t_rows (nd_revisions db)). revision_row_ok r \<and> nd_chapter db (rv_chapter_id r) \<noteq> None \<and>
        references (get_version db) (rv_source_version_id r) \<and>
        references (get_version db) (rv_new_version_id r) \<and>
        references (nd_workflow db) (rv_workflow_run_id r)) \<and>
     unique_where (\<lambda>_. True) (\<lambda>c. (vc_workflow_run_id c, vr_new_version_id (vc_result c)))
       (t_rows (nd_comparisons db)) \<and>
     (\<forall>c \<in> set (t_rows (nd_comparisons db)). in_range 1 (vr_confidence (vc_result c)) \<and>
        nd_workflow db (vc_workflow_run_id c) \<noteq> None \<and>
        get_version db (vr_old_version_id (vc_result c)) \<noteq> None \<and>
        get_version db (vr_new_version_id (vc_result c)) \<noteq> None)"

definition memory_ok :: "ndb \<Rightarrow> bool" where
  "memory_ok db \<longleftrightarrow>
     unique_where (\<lambda>_. True)
       (\<lambda>c. (mk_project_id c, mk_source_type c, mk_source_id c, mk_chunk_index c, mk_content_hash c))
       (t_rows (nd_chunks db)) \<and>
     (\<forall>c \<in> set (t_rows (nd_chunks db)). chunk_row_ok c \<and> references (get_version db) (mk_chapter_version_id c)) \<and>
     unique_where (\<lambda>_. True)
       (\<lambda>r. (mi_chapter_version_id r, mi_embedding_provider r, mi_embedding_model r))
       (t_rows (nd_index_records db)) \<and>
     (\<forall>r \<in> set (t_rows (nd_index_records db)). 0 \<le> mi_attempt_count r \<and> 0 \<le> mi_chunk_count r \<and>
        nd_project db (mi_project_id r) \<noteq> None \<and> get_version db (mi_chapter_version_id r) \<noteq> None) \<and>
     unique_where (\<lambda>_. True)
       (\<lambda>g. (gn_project_id g, gn_entity_type g, gn_normalized_name g, gn_disambiguation_key g))
       (t_rows (nd_graph_entities db)) \<and>
     (\<forall>g \<in> set (t_rows (nd_graph_entities db)). in_range 1 (gn_confidence g) \<and>
        references (get_version db) (gn_source_version_id g)) \<and>
     unique_where (\<lambda>r. gr_source_version_id r \<noteq> None)
       (\<lambda>r. (gr_project_id r, gr_subject_entity_id r, gr_predicate r, gr_object_entity_id r,
          gr_source_version_id r, gr_evidence_hash r)) (t_rows (nd_graph_relations db)) \<and>
     (\<forall>r \<in> set (t_rows (nd_graph_relations db)). relation_row_ok r \<and>
        references (get_version db) (gr_source_version_id r))"

definition narrative_chapters_ok :: "ndb \<Rightarrow> bool" where
  "narrative_chapters_ok db \<longleftrightarrow>
     unique_where (\<lambda>_. True) (\<lambda>c. (ch_project_id c, ch_chapter_number c)) (t_rows (nd_chapters db)) \<and>
     (\<forall>c \<in> set (t_rows (nd_chapters db)). chapter_row_ok c \<and> nd_project db (ch_project_id c) \<noteq> None \<and>
        references (get_version db) (ch_current_version_id c) \<and>
        references (get_version db) (ch_accepted_version_id c)) \<and>
     unique_where workflow_active wr_chapter_id (t_rows (nd_workflow_runs db)) \<and>
     unique_where (\<lambda>_. True) wr_thread_id (t_rows (nd_workflow_runs db)) \<and>
     (\<forall>r \<in> set (t_rows (nd_workflow_runs db)). workflow_row_ok r \<and>
        nd_project db (wr_project_id r) \<noteq> None \<and> nd_chapter db (wr_chapter_id r) \<noteq> None \<and>
        references (get_version db) (wr_original_version_id r) \<and>
        references (get_version db) (wr_current_version_id r) \<and>
        references (get_version db) (wr_best_version_id r) \<and>
        references (get_version db) (wr_accepted_version_id r)) \<and>
     unique_where (\<lambda>_. True) (\<lambda>c. (hc_project_id c, hc_name c)) (t_rows (nd_characters db)) \<and>
     (\<forall>f \<in> set (t_rows (nd_foreshadowings db)). foreshadowing_row_ok f \<and> nd_project db (fs_project_id f) \<noteq> None) \<and>
     (\<forall>r \<in> set (t_rows (nd_story_rules db)). nd_project db (sr_project_id r) \<noteq> None)"

definition workflow_events_ok :: "ndb \<Rightarrow> bool" where
  "workflow_events_ok db \<longleftrightarrow>
     unique_where (\<lambda>_. True) (\<lambda>e. (we_workflow_run_id e, we_node e, we_event_type e, we_attempt e))
       (t_rows (nd_events db)) \<and>
     (\<forall>e \<in> set (t_rows (nd_events db)). 0 \<le> we_attempt e \<and> 0 \<le> we_duration_ms e \<and>
        nd_workflow db (we_workflow_run_id e) \<noteq> None \<and> references (get_version db) (we_version_id e) \<and>
        references (get_evaluation db) (we_evaluation_id e))"

definition ndb_ok :: "ndb \<Rightarrow> bool" where
  "ndb_ok db \<longleftrightarrow> versions_ok db \<and> facts_ok db \<and> evaluations_ok db \<and> revisions_ok db \<and> memory_ok db \<and>
     narrative_chapters_ok db \<and> workflow_events_ok db"

definition ncommit :: "ndb \<Rightarrow> 'a \<Rightarrow> (ndb \<times> 'a) result" where
  "ncommit db a = (if ndb_ok db then Inr (db, a) else Inl IntegrityError)"

lemma ncommit_Inr_iff [simp]: "ncommit db a = Inr (db', a') \<longleftrightarrow> db' = db \<and> a' = a \<and> ndb_ok db"
  by (auto simp: ncommit_def)

section \<open>Queries\<close>

definition latest :: "('r \<Rightarrow> int) \<Rightarrow> 'r list \<Rightarrow> 'r option" where
  "latest key rows = (case sort_key (\<lambda>r. - key r) rows of [] \<Rightarrow> None | r # _ \<Rightarrow> Some r)"

definition narrative_chapter_by_number :: "ndb \<Rightarrow> int \<Rightarrow> int \<Rightarrow> chapter_row option" where
  "narrative_chapter_by_number db project_id number =
     find (\<lambda>c. ch_project_id c = project_id \<and> ch_chapter_number c = number) (t_rows (nd_chapters db))"

definition characters_of_project :: "ndb \<Rightarrow> int \<Rightarrow> character list" where
  "characters_of_project db project_id =
     sort_key hc_id (filter (\<lambda>c. hc_project_id c = project_id) (t_rows (nd_characters db)))"

definition facts_of_version :: "ndb \<Rightarrow> int \<Rightarrow> fact list" where
  "facts_of_version db version_id =
     sort_key fa_id (filter (\<lambda>f. fa_chapter_version_id f = version_id) (t_rows (nd_facts db)))"

definition known_before :: "ndb \<Rightarrow> int \<Rightarrow> int \<Rightarrow> fact list" where
  "known_before db project_id chapter_number =
     sort_key (\<lambda>f. (- fa_confidence f, fa_id f))
       (filter (\<lambda>f. fa_project_id f = project_id \<and> fa_status f = FactStatus_ACCEPTED \<and>
          (case nd_chapter db (fa_chapter_id f) of None \<Rightarrow> False | Some c \<Rightarrow> ch_chapter_number c < chapter_number) \<and>
          fa_valid_from_chapter f \<le> chapter_number \<and>
          (case fa_valid_to_chapter f of None \<Rightarrow> True | Some t \<Rightarrow> chapter_number \<le> t)) (t_rows (nd_facts db)))"

definition active_rules :: "ndb \<Rightarrow> int \<Rightarrow> story_rule list" where
  "active_rules db project_id =
     sort_key sr_id (filter (\<lambda>r. sr_project_id r = project_id \<and> sr_active r) (t_rows (nd_story_rules db)))"

definition next_evaluation_version :: "ndb \<Rightarrow> int \<Rightarrow> int" where
  "next_evaluation_version db chapter_id =
     foldl max 0 (map ev_evaluation_version (filter (\<lambda>e. ev_chapter_id e = chapter_id) (t_rows (nd_evaluations db)))) + 1"

definition evaluations_of_chapter :: "ndb \<Rightarrow> int \<Rightarrow> evaluation list" where
  "evaluations_of_chapter db chapter_id =
     sort_key ev_evaluation_version (filter (\<lambda>e. ev_chapter_id e = chapter_id) (t_rows (nd_evaluations db)))"

definition evaluation_by_key :: "ndb \<Rightarrow> string \<Rightarrow> evaluation option" where
  "evaluation_by_key db key = find (\<lambda>e. ev_idempotency_key e = Some key) (t_rows (nd_evaluations db))"

definition conflicts_of_project ::
  "ndb \<Rightarrow> int \<Rightarrow> int option \<Rightarrow> conflict_severity option \<Rightarrow> conflict_type option \<Rightarrow> conflict_status option \<Rightarrow>
   conflict list" where
  "conflicts_of_project db project_id chapter_id severity kind status =
     sort_key co_id
       (filter (\<lambda>c. co_project_id c = project_id \<and> (case chapter_id of None \<Rightarrow> True | Some i \<Rightarrow> co_chapter_id c = i) \<and>
          (case severity of None \<Rightarrow> True | Some s \<Rightarrow> co_severity c = s) \<and>
          (case kind of None \<Rightarrow> True | Some k \<Rightarrow> co_conflict_type c = k) \<and>
          (case status of None \<Rightarrow> True | Some s \<Rightarrow> co_status c = s)) (t_rows (nd_conflicts db)))"

definition next_version :: "ndb \<Rightarrow> int \<Rightarrow> int" where
  "next_version db chapter_id =
     foldl max 0 (map cv_version (filter (\<lambda>v. cv_chapter_id v = chapter_id) (t_rows (nd_versions db)))) + 1"

definition version_by_key :: "ndb \<Rightarrow> string \<Rightarrow> chapter_version option" where
  "version_by_key db key = find (\<lambda>v. cv_idempotency_key v = Some key) (t_rows (nd_versions db))"

definition latest_evaluation :: "ndb \<Rightarrow> int \<Rightarrow> evaluation option" where
  "latest_evaluation db version_id =
     latest ev_evaluation_version (filter (\<lambda>e. ev_chapter_version_id e = version_id) (t_rows (nd_evaluations db)))"

definition issues_of_evaluation :: "ndb \<Rightarrow> int \<Rightarrow> evaluation_issue list" where
  "issues_of_evaluation db evaluation_id =
     sort_key ei_id (filter (\<lambda>i. ei_evaluation_id i = evaluation_id) (t_rows (nd_issues db)))"

definition conflicts_of_evaluation :: "ndb \<Rightarrow> int \<Rightarrow> conflict list" where
  "conflicts_of_evaluation db evaluation_id =
     sort_key co_id (filter (\<lambda>c. co_evaluation_id c = evaluation_id) (t_rows (nd_conflicts db)))"

definition comparison_for_new_version :: "ndb \<Rightarrow> int \<Rightarrow> int \<Rightarrow> version_comparison option" where
  "comparison_for_new_version db run_id new_version_id =
     find (\<lambda>c. vc_workflow_run_id c = run_id \<and> vr_new_version_id (vc_result c) = new_version_id)
       (t_rows (nd_comparisons db))"

definition run_by_thread :: "ndb \<Rightarrow> string \<Rightarrow> workflow_run option" where
  "run_by_thread db thread_id = find (\<lambda>r. wr_thread_id r = thread_id) (t_rows (nd_workflow_runs db))"

definition latest_run_of_chapter :: "ndb \<Rightarrow> int \<Rightarrow> workflow_run option" where
  "latest_run_of_chapter db chapter_id =
     latest wr_id (filter (\<lambda>r. wr_chapter_id r = chapter_id) (t_rows (nd_workflow_runs db)))"

definition active_run_of_project :: "ndb \<Rightarrow> int \<Rightarrow> workflow_run option" where
  "active_run_of_project db project_id =
     latest wr_id (filter (\<lambda>r. wr_project_id r = project_id \<and> workflow_active r) (t_rows (nd_workflow_runs db)))"

definition runs_page :: "ndb \<Rightarrow> int \<Rightarrow> int \<Rightarrow> int \<Rightarrow> workflow_run page_slice result" where
  "runs_page db project_id page page_size =
     paginate (sort_key (\<lambda>r. - wr_id r) (filter (\<lambda>r. wr_project_id r = project_id) (t_rows (nd_workflow_runs db))))
       page page_size"

definition events_of_run :: "ndb \<Rightarrow> int \<Rightarrow> workflow_event list" where
  "events_of_run db run_id =
     sort_key we_id (filter (\<lambda>e. we_workflow_run_id e = run_id) (t_rows (nd_events db)))"

definition events_page :: "ndb \<Rightarrow> int \<Rightarrow> int \<Rightarrow> int \<Rightarrow> workflow_event page_slice result" where
  "events_page db run_id page page_size = paginate (events_of_run db run_id) page page_size"

definition revision_of_version :: "ndb \<Rightarrow> int \<Rightarrow> revision option" where
  "revision_of_version db version_id = find (\<lambda>r. rv_new_version_id r = Some version_id) (t_rows (nd_revisions db))"

definition index_record_for :: "ndb \<Rightarrow> int \<Rightarrow> string \<Rightarrow> string \<Rightarrow> memory_index_record option" where
  "index_record_for db version_id provider model =
     find (\<lambda>r. mi_chapter_version_id r = version_id \<and> mi_embedding_provider r = provider \<and>
        mi_embedding_model r = model) (t_rows (nd_index_records db))"

section \<open>Row updates\<close>

definition save_version :: "ndb \<Rightarrow> chapter_version \<Rightarrow> ndb" where
  "save_version db v = db\<lparr>nd_versions := repo_save cv_id (nd_versions db) v\<rparr>"

definition add_version :: "ndb \<Rightarrow> chapter_version \<Rightarrow> ndb \<times> chapter_version" where
  "add_version db v = (let (t, row) = repo_add (\<lambda>i r. r\<lparr>cv_id := i\<rparr>) (nd_versions db) v
                       in (db\<lparr>nd_versions := t\<rparr>, row))"

definition save_narrative_chapter :: "ndb \<Rightarrow> chapter_row \<Rightarrow> ndb" where
  "save_narrative_chapter db c = db\<lparr>nd_chapters := repo_save ch_id (nd_chapters db) c\<rparr>"

definition save_workflow :: "ndb \<Rightarrow> workflow_run \<Rightarrow> ndb" where
  "save_workflow db w = db\<lparr>nd_workflow_runs := repo_save wr_id (nd_workflow_runs db) w\<rparr>"

definition save_revision :: "ndb \<Rightarrow> revision \<Rightarrow> ndb" where
  "save_revision db r = db\<lparr>nd_revisions := repo_save rv_id (nd_revisions db) r\<rparr>"

end
