(* ===== verification/Versioning.thy ===== *)
theory Versioning
  imports Narrative_Store "HOL-Library.AList"
begin

text \<open>
  \<open>ChapterVersionService\<close> (\<open>src/src/storyforge/services/versioning.py\<close>): drafts, extracted facts, revision
  briefs, revisions, comparisons, acceptance and the hand-over to a human, one definition per
  transaction. The agents are functions: what they return is an argument of the operation that
  calls them between its reading and its writing session. \<open>seen\<close> is the state of the first session.
\<close>

section \<open>What the agents return\<close>

record draft =
  dr_title :: string
  dr_content :: string
  dr_summary :: string
  dr_provider :: string
  dr_model :: string
  dr_prompt_versions :: "(string \<times> string) list"
  dr_metadata :: "(string \<times> json) list"

record extracted_fact =
  xf_subject :: string
  xf_predicate :: string
  xf_object :: string
  xf_fact_type :: string
  xf_confidence :: rat
  xf_source_quote :: string
  xf_valid_from_chapter :: int
  xf_valid_to_chapter :: "int option"

record extraction =
  xt_facts :: "extracted_fact list"
  xt_character_updates :: "(string \<times> json) list list"
  xt_foreshadowing_updates :: "(string \<times> json) list list"
  xt_metadata :: json
  xt_prompt_versions :: "(string \<times> string) list"

record version_artifact =
  va_version_id :: int
  va_version_number :: int
  va_created :: bool

record extraction_artifact =
  xa_version_id :: int
  xa_fact_count :: int
  xa_created :: bool

definition artifact :: "chapter_version \<Rightarrow> bool \<Rightarrow> version_artifact" where
  "artifact v created = \<lparr>va_version_id = cv_id v, va_version_number = cv_version v, va_created = created\<rparr>"

text \<open>\<open>{**a, **b}\<close>\<close>

definition dict_merge :: "(string \<times> 'v) list \<Rightarrow> (string \<times> 'v) list \<Rightarrow> (string \<times> 'v) list" where
  "dict_merge a b = foldl (\<lambda>m (k, v). AList.update k v m) a b"

section \<open>Word counts\<close>

text \<open>\<open>[A-Za-z0-9]\<close>, and the CJK ranges (a HOL character is one of the first 256 code points).\<close>

definition word_char :: "char \<Rightarrow> bool" where
  "word_char c \<longleftrightarrow> (let n = of_char c :: int in (48 \<le> n \<and> n \<le> 57) \<or> (65 \<le> n \<and> n \<le> 90) \<or> (97 \<le> n \<and> n \<le> 122))"

definition cjk_char :: "char \<Rightarrow> bool" where
  "cjk_char c \<longleftrightarrow> (let n = of_char c :: int in (13312 \<le> n \<and> n \<le> 19903) \<or> (19968 \<le> n \<and> n \<le> 40959))"

text \<open>The text after a match of \<open>[A-Za-z0-9]+(?:['-][A-Za-z0-9]+)*\<close> that has begun.\<close>

fun after_word :: "string \<Rightarrow> string" where
  "after_word [] = []"
| "after_word [c] = (if word_char c then [] else [c])"
| "after_word (c # d # cs) =
     (if word_char c \<or> ((c = CHR 0x27 \<or> c = CHR ''-'') \<and> word_char d) then after_word (d # cs) else c # d # cs)"

lemma after_word_length: "length (after_word cs) \<le> length cs"
  by (induction cs rule: after_word.induct) auto

function count_words :: "string \<Rightarrow> int" where
  "count_words [] = 0"
| "count_words (c # cs) = (if word_char c then 1 + count_words (after_word cs) else count_words cs)"
  by pat_completeness auto

termination
  by (relation "measure length") (auto simp: le_imp_less_Suc after_word_length)

definition word_count :: "string \<Rightarrow> int" where
  "word_count content = int (length (filter cjk_char content)) + count_words content"

section \<open>Initial drafts: ensure_initial_version\<close>

definition draft_key :: "int \<Rightarrow> string" where
  "draft_key run_id = ''workflow:'' @ int_str run_id @ '':generate_draft:0''"

definition existing_draft :: "ndb \<Rightarrow> int \<Rightarrow> int \<Rightarrow> int \<Rightarrow> version_artifact option result" where
  "existing_draft db project_id chapter_number run_id =
     and_then (or_raise EntityNotFoundError (narrative_chapter_by_number db project_id chapter_number)) (\<lambda>c.
     Inr (case version_by_key db (draft_key run_id) of
            Some v \<Rightarrow> Some (artifact v False)
          | None \<Rightarrow> map_option (\<lambda>v. artifact v False) (Option.bind (ch_current_version_id c) (get_version db))))"

definition new_version_row ::
  "chapter_row \<Rightarrow> int \<Rightarrow> draft \<Rightarrow> chapter_version_status \<Rightarrow> string \<Rightarrow> int option \<Rightarrow> int \<Rightarrow> 
   string \<Rightarrow> time \<Rightarrow> chapter_version" where
  "new_version_row c number d status source parent run_id key now =
     \<lparr>cv_id = 0, cv_chapter_id = ch_id c, cv_version = number, cv_title = dr_title d,
      cv_content = dr_content d, cv_summary = dr_summary d, cv_generation_metadata = dr_metadata d,
      cv_status = status, cv_source = source, cv_parent_version_id = parent,
      cv_workflow_run_id = Some run_id, cv_word_count = word_count (dr_content d),
      cv_provider = dr_provider d, cv_model = dr_model d, cv_prompt_versions = dr_prompt_versions d,
      cv_candidate_character_updates = [], cv_candidate_foreshadowing_updates = [],
      cv_idempotency_key = Some key, cv_accepted_at = None, cv_created_at = now\<rparr>"

definition or_id :: "int option \<Rightarrow> int \<Rightarrow> int option" where
  "or_id x i = (case x of None \<Rightarrow> Some i | Some k \<Rightarrow> Some k)"

definition draft_txn ::
  "ndb \<Rightarrow> int \<Rightarrow> int \<Rightarrow> int \<Rightarrow> draft \<Rightarrow> time \<Rightarrow> (ndb \<times> version_artifact) result" where
  "draft_txn db project_id chapter_number run_id d now =
     and_then (or_raise EntityNotFoundError (narrative_chapter_by_number db project_id chapter_number)) (\<lambda>c.
     case version_by_key db (draft_key run_id) of
       Some v \<Rightarrow> ncommit db (artifact v False)
     | None \<Rightarrow>
         let (db1, v) = add_version db (new_version_row c (next_version db (ch_id c)) d
               ChapterVersionStatus_DRAFT ''generated'' None run_id (draft_key run_id) now);
             db2 = save_narrative_chapter db1 (c\<lparr>ch_current_version_id := Some (cv_id v),
               ch_version := cv_version v, ch_status := ChapterStatus_DRAFTING\<rparr>);
             db3 = (case nd_workflow db2 run_id of
                      None \<Rightarrow> db2
                    | Some r \<Rightarrow> save_workflow db2
                        (r\<lparr>wr_current_version_id := Some (cv_id v),
                           wr_original_version_id := or_id (wr_original_version_id r) (cv_id v),
                           wr_best_version_id := or_id (wr_best_version_id r) (cv_id v),
                           wr_prompt_versions := dict_merge (wr_prompt_versions r) (dr_prompt_versions d)\<rparr>))
         in ncommit db3 (artifact v True))"

definition ensure_initial_version ::
  "ndb \<Rightarrow> ndb \<Rightarrow> int \<Rightarrow> int \<Rightarrow> int \<Rightarrow> draft result \<Rightarrow> time \<Rightarrow>
   (ndb \<times> version_artifact) result" where
  "ensure_initial_version seen db project_id chapter_number run_id written now =
     and_then (existing_draft seen project_id chapter_number run_id) (\<lambda>existing.
     case existing of
       Some a \<Rightarrow> Inr (db, a)
     | None \<Rightarrow> and_then written (\<lambda>d. draft_txn db project_id chapter_number run_id d now))"

section \<open>Candidate facts: extract_candidate_facts\<close>

definition already_extracted :: "ndb \<Rightarrow> chapter_version \<Rightarrow> bool" where
  "already_extracted db v \<longleftrightarrow> facts_of_version db (cv_id v) \<noteq> [] \<or>
     cv_candidate_character_updates v \<noteq> [] \<or> cv_candidate_foreshadowing_updates v \<noteq> [] \<or>
     ''fact_extraction'' \<in> fst ` set (cv_generation_metadata v)"

definition existing_extraction :: "ndb \<Rightarrow> chapter_version \<Rightarrow> extraction_artifact option" where
  "existing_extraction db v =
     (if already_extracted db v
      then Some \<lparr>xa_version_id = cv_id v, xa_fact_count = int (length (facts_of_version db (cv_id v))),
                 xa_created = False\<rparr>
      else None)"

definition candidate_fact :: "int \<Rightarrow> chapter_version \<Rightarrow> int \<Rightarrow> string \<Rightarrow> extracted_fact \<Rightarrow> fact" where
  "candidate_fact project_id v run_id hash x =
     \<lparr>fa_id = 0, fa_project_id = project_id, fa_chapter_id = cv_chapter_id v, fa_subject = xf_subject x,
      fa_predicate = xf_predicate x, fa_object = xf_object x, fa_valid_from_chapter = xf_valid_from_chapter x,
      fa_valid_to_chapter = xf_valid_to_chapter x, fa_confidence = xf_confidence x,
      fa_source_quote = xf_source_quote x, fa_fact_type = xf_fact_type x,
      fa_chapter_version_id = cv_id v, fa_workflow_run_id = Some run_id,
      fa_status = FactStatus_CANDIDATE, fa_normalized_hash = hash\<rparr>"

text \<open>Facts with the hash of an earlier one are skipped; the hashes are counted.\<close>

fun add_candidates ::
  "(extracted_fact \<Rightarrow> string) \<Rightarrow> int \<Rightarrow> chapter_version \<Rightarrow> int \<Rightarrow> extracted_fact list \<Rightarrow> string list \<Rightarrow>
   fact table \<Rightarrow> fact table \<times> string list" where
  "add_candidates identity_hash project_id v run_id [] hashes t = (t, hashes)"
| "add_candidates identity_hash project_id v run_id (x # xs) hashes t =
     (let h = identity_hash x
      in if h \<in> set hashes then add_candidates identity_hash project_id v run_id xs hashes t
         else add_candidates identity_hash project_id v run_id xs (h # hashes)
                (fst (repo_add (\<lambda>i r. r\<lparr>fa_id := i\<rparr>) t (candidate_fact project_id v run_id h x))))"

definition extraction_txn ::
  "(extracted_fact \<Rightarrow> string) \<Rightarrow> ndb \<Rightarrow> int \<Rightarrow> int \<Rightarrow> int \<Rightarrow> extraction \<Rightarrow> (ndb \<times> extraction_artifact) result" where
  "extraction_txn identity_hash db project_id version_id run_id x =
     and_then (or_raise EntityNotFoundError (get_version db version_id)) (\<lambda>v.
     case existing_extraction db v of
       Some a \<Rightarrow> ncommit db a
     | None \<Rightarrow>
         let (facts, hashes) = add_candidates identity_hash project_id v run_id (xt_facts x) [] (nd_facts db);
             db1 = db\<lparr>nd_facts := facts\<rparr>;
             db2 = save_version db1
               (v\<lparr>cv_candidate_character_updates := xt_character_updates x,
                  cv_candidate_foreshadowing_updates := xt_foreshadowing_updates x,
                  cv_generation_metadata :=
                    AList.update ''fact_extraction'' (xt_metadata x) (cv_generation_metadata v)\<rparr>);
             db3 = (case nd_workflow db2 run_id of
                      None \<Rightarrow> db2
                    | Some r \<Rightarrow> save_workflow db2
                        (r\<lparr>wr_prompt_versions := dict_merge (wr_prompt_versions r) (xt_prompt_versions x)\<rparr>))
         in ncommit db3 \<lparr>xa_version_id = version_id, xa_fact_count = int (length hashes), xa_created = True\<rparr>)"

definition extract_candidate_facts ::
  "(extracted_fact \<Rightarrow> string) \<Rightarrow> ndb \<Rightarrow> ndb \<Rightarrow> int \<Rightarrow> int \<Rightarrow> int \<Rightarrow> extraction result \<Rightarrow>
   (ndb \<times> extraction_artifact) result" where
  "extract_candidate_facts identity_hash seen db project_id version_id run_id extracted =
     and_then (or_raise EntityNotFoundError (get_version seen version_id)) (\<lambda>v.
     case existing_extraction seen v of
       Some a \<Rightarrow> Inr (db, a)
     | None \<Rightarrow> and_then extracted (\<lambda>x. extraction_txn identity_hash db project_id version_id run_id x))"

section \<open>Revision briefs: build_revision_brief\<close>

definition issue_of_row :: "evaluation_issue \<Rightarrow> revision_issue" where
  "issue_of_row i =
     \<lparr>ri_code = ei_code i, ri_category = ei_category i, ri_severity = ei_severity i,
      ri_problem = ei_description i, ri_evidence = ei_evidence i,
      ri_suggestion = (case ei_suggestion i of
                         None \<Rightarrow> ''Resolve '' @ ei_code i @ ''.''
                       | Some s \<Rightarrow> if s = [] then ''Resolve '' @ ei_code i @ ''.'' else s),
      ri_source = (if ei_source i = ''critic'' then From_Critic else From_Mechanical)\<rparr>"

definition issue_of_conflict :: "conflict \<Rightarrow> revision_issue" where
  "issue_of_conflict c =
     \<lparr>ri_code = co_rule_code c, ri_category = ''consistency'', ri_severity = co_severity c,
      ri_problem = co_description c, ri_evidence = Some (co_new_evidence c),
      ri_suggestion = co_suggested_resolution c, ri_source = From_Consistency\<rparr>"

definition issue_of_blocking :: "string \<Rightarrow> revision_issue" where
  "issue_of_blocking code =
     \<lparr>ri_code = code, ri_category = ''blocking'', ri_severity = ConflictSeverity_HIGH,
      ri_problem = map (\<lambda>ch. if ch = CHR ''_'' then CHR '' '' else ch) code, ri_evidence = None,
      ri_suggestion = ''Remove the blocking condition '' @ code @ ''.'', ri_source = From_Blocking\<rparr>"

fun add_blocking :: "string list \<Rightarrow> revision_issue list \<Rightarrow> revision_issue list result" where
  "add_blocking [] issues = Inr issues"
| "add_blocking (code # codes) issues =
     (if code \<in> set (map ri_code issues) then add_blocking codes issues
      else and_then (make_issue (issue_of_blocking code)) (\<lambda>i. add_blocking codes (issues @ [i])))"

definition issues_for :: "ndb \<Rightarrow> evaluation \<Rightarrow> revision_issue list result" where
  "issues_for db e =
     and_then (map_result (\<lambda>i. make_issue (issue_of_row i)) (issues_of_evaluation db (ev_id e))) (\<lambda>found.
     and_then (map_result (\<lambda>c. make_issue (issue_of_conflict c)) (conflicts_of_evaluation db (ev_id e))) (\<lambda>conflicts.
     add_blocking (ev_blocking_reasons e) (found @ conflicts)))"

definition accepted_fact_texts :: "ndb \<Rightarrow> int \<Rightarrow> int \<Rightarrow> int option \<Rightarrow> string list" where
  "accepted_fact_texts db project_id chapter_number excluded =
     map (\<lambda>f. fa_subject f @ '' | '' @ fa_predicate f @ '' | '' @ fa_object f)
       (filter (\<lambda>f. fa_project_id f = project_id \<and> fa_status f = FactStatus_ACCEPTED \<and>
          fa_valid_from_chapter f \<le> chapter_number \<and> excluded \<noteq> Some (fa_chapter_version_id f))
        (t_rows (nd_facts db)))"

text \<open>\<open>str(item) for item in outline_metadata.get("forbidden_reveals", [])\<close>: texts.\<close>

definition forbidden_reveals :: "chapter_row \<Rightarrow> string list" where
  "forbidden_reveals c =
     (case map_of (ch_outline_metadata c) ''forbidden_reveals'' of
        Some (JList xs) \<Rightarrow> List.map_filter (\<lambda>x. case x of JStr s \<Rightarrow> Some s | _ \<Rightarrow> None) xs
      | _ \<Rightarrow> [])"

definition build_revision_brief ::
  "brief_config \<Rightarrow> ndb \<Rightarrow> int \<Rightarrow> int \<Rightarrow> int \<Rightarrow> int \<Rightarrow> bool option \<Rightarrow> bool \<Rightarrow> revision_brief result" where
  "build_revision_brief config db run_id source_version_id evaluation_id revision_attempt
     previous_improved include_source_version_facts =
     and_then (or_raise EntityNotFoundError (get_version db source_version_id)) (\<lambda>v.
     and_then (or_raise EntityNotFoundError (get_evaluation db evaluation_id)) (\<lambda>e.
     and_then (or_raise EntityNotFoundError (nd_workflow db run_id)) (\<lambda>r.
     and_then (or_raise EntityNotFoundError (nd_chapter db (cv_chapter_id v))) (\<lambda>c.
     and_then (or_raise EntityNotFoundError (nd_project db (wr_project_id r))) (\<lambda>p.
     and_then (issues_for db e) (\<lambda>issues.
     build_brief config (ch_id c) (cv_id v) revision_attempt (ch_objective c) issues
       (accepted_fact_texts db (pr_id p) (ch_chapter_number c)
          (if include_source_version_facts then None else Some source_version_id))
       (forbidden_reveals c) (pr_target_words_per_chapter p) previous_improved))))))"

section \<open>Revisions: revise\<close>

definition revise_key :: "int \<Rightarrow> int \<Rightarrow> string" where
  "revise_key run_id attempt = ''workflow:'' @ int_str run_id @ '':revise_draft:'' @ int_str attempt"

definition revision_inputs :: "ndb \<Rightarrow> int \<Rightarrow> int \<Rightarrow> (chapter_version \<times> workflow_run \<times> chapter_row \<times> project) result" where
  "revision_inputs db run_id source_version_id =
     and_then (or_raise EntityNotFoundError (get_version db source_version_id)) (\<lambda>v.
     and_then (or_raise EntityNotFoundError (nd_workflow db run_id)) (\<lambda>r.
     and_then (or_raise EntityNotFoundError (nd_chapter db (cv_chapter_id v))) (\<lambda>c.
     and_then (or_raise EntityNotFoundError (nd_project db (wr_project_id r))) (\<lambda>p.
     Inr (v, r, c, p)))))"

definition revision_row :: "chapter_row \<Rightarrow> chapter_version \<Rightarrow> chapter_version \<Rightarrow> int \<Rightarrow> revision_brief \<Rightarrow> rat \<Rightarrow>
   (string \<times> string) list \<Rightarrow> time \<Rightarrow> revision" where
  "revision_row c source v run_id brief score_before prompts now =
     \<lparr>rv_id = 0, rv_chapter_id = ch_id c, rv_previous_version = cv_version source,
      rv_new_version = cv_version v, rv_reason = rb_objective brief, rv_score_before = score_before,
      rv_score_after = 0, rv_accepted = False, rv_source_version_id = Some (cv_id source),
      rv_new_version_id = Some (cv_id v), rv_workflow_run_id = Some run_id, rv_status = ''created'',
      rv_brief = brief, rv_prompt_versions = prompts, rv_created_at = now\<rparr>"

definition revise_txn ::
  "ndb \<Rightarrow> int \<Rightarrow> int \<Rightarrow> revision_brief \<Rightarrow> draft \<Rightarrow> time \<Rightarrow> (ndb \<times> version_artifact) result" where
  "revise_txn db run_id source_version_id brief d now =
     (let key = revise_key run_id (rb_revision_attempt brief) in
      case version_by_key db key of
        Some v \<Rightarrow> ncommit db (artifact v False)
      | None \<Rightarrow>
          and_then (or_raise EntityNotFoundError (get_version db source_version_id)) (\<lambda>source.
          and_then (or_raise EntityNotFoundError (nd_workflow db run_id)) (\<lambda>r.
          and_then (or_raise EntityNotFoundError (nd_chapter db (cv_chapter_id source))) (\<lambda>c.
          let (db1, v) = add_version db (new_version_row c (next_version db (ch_id c)) d
                ChapterVersionStatus_REVISION ''revision'' (Some (cv_id source)) run_id key now);
              score = (case latest_evaluation db1 (cv_id source) of None \<Rightarrow> 0 | Some e \<Rightarrow> ev_overall_score e);
              db2 = db1\<lparr>nd_revisions := fst (repo_add (\<lambda>i r. r\<lparr>rv_id := i\<rparr>) (nd_revisions db1)
                      (revision_row c source v run_id brief score (dr_prompt_versions d) now))\<rparr>;
              db3 = save_narrative_chapter db2 (c\<lparr>ch_current_version_id := Some (cv_id v),
                      ch_version := cv_version v, ch_status := ChapterStatus_REVISING\<rparr>);
              db4 = save_workflow db3 (r\<lparr>wr_current_version_id := Some (cv_id v),
                      wr_revision_attempt := rb_revision_attempt brief,
                      wr_retry_count := rb_revision_attempt brief,
                      wr_prompt_versions := dict_merge (wr_prompt_versions r) (dr_prompt_versions d)\<rparr>)
          in ncommit db4 (artifact v True)))))"

definition revise ::
  "ndb \<Rightarrow> ndb \<Rightarrow> int \<Rightarrow> int \<Rightarrow> revision_brief \<Rightarrow> draft result \<Rightarrow> time \<Rightarrow>
   (ndb \<times> version_artifact) result" where
  "revise seen db run_id source_version_id brief revised now =
     (case version_by_key seen (revise_key run_id (rb_revision_attempt brief)) of
        Some v \<Rightarrow> Inr (db, artifact v False)
      | None \<Rightarrow>
          and_then (revision_inputs seen run_id source_version_id) (\<lambda>_.
          and_then revised (\<lambda>d. revise_txn db run_id source_version_id brief d now)))"

section \<open>Comparisons: compare_versions\<close>

definition conflicts_of_severity :: "ndb \<Rightarrow> evaluation \<Rightarrow> conflict_severity \<Rightarrow> int" where
  "conflicts_of_severity db e severity =
     int (length (filter (\<lambda>c. co_severity c = severity) (conflicts_of_evaluation db (ev_id e))))"

definition evaluation_snapshot_of :: "ndb \<Rightarrow> evaluation \<Rightarrow> evaluation_snapshot result" where
  "evaluation_snapshot_of db e =
     make_snapshot
       \<lparr>es_evaluation_id = ev_id e, es_version_id = ev_chapter_version_id e,
        es_final_score = ev_overall_score e, es_consistency_score = ev_consistency_score e,
        es_outline_adherence_score = ev_outline_adherence_score e,
        es_critical_conflicts = conflicts_of_severity db e ConflictSeverity_CRITICAL,
        es_high_conflicts = conflicts_of_severity db e ConflictSeverity_HIGH,
        es_blocking_reasons = ev_blocking_reasons e,
        es_issue_codes = sorted_set (map ei_code (issues_of_evaluation db (ev_id e)) @
          map co_rule_code (conflicts_of_evaluation db (ev_id e))),
        es_passed = ev_passed e, es_recommended_action = ev_recommended_action e\<rparr>"

definition evaluation_rank :: "ndb \<Rightarrow> evaluation \<Rightarrow> int \<times> int \<times> rat \<times> rat \<times> rat \<times> int" where
  "evaluation_rank db e =
     (- conflicts_of_severity db e ConflictSeverity_CRITICAL, - int (length (ev_blocking_reasons e)),
      ev_overall_score e, ev_consistency_score e, ev_outline_adherence_score e,
      - conflicts_of_severity db e ConflictSeverity_HIGH)"

definition better_version_id :: "ndb \<Rightarrow> int option \<Rightarrow> int \<Rightarrow> int" where
  "better_version_id db current_best candidate_id =
     (case latest_evaluation db candidate_id of
        None \<Rightarrow> (case current_best of None \<Rightarrow> candidate_id | Some b \<Rightarrow> b)
      | Some candidate \<Rightarrow>
          (case current_best of
             None \<Rightarrow> candidate_id
           | Some b \<Rightarrow>
               (case latest_evaluation db b of
                  None \<Rightarrow> candidate_id
                | Some current \<Rightarrow>
                    if evaluation_rank db current < evaluation_rank db candidate then candidate_id else b)))"

definition compare_versions ::
  "rat \<Rightarrow> ndb \<Rightarrow> int \<Rightarrow> int \<Rightarrow> int \<Rightarrow> int \<Rightarrow> int \<Rightarrow> (ndb \<times> version_comparison_result) result" where
  "compare_versions minimum_improvement db run_id old_id new_id revision_attempt max_revision_attempts =
     (case comparison_for_new_version db run_id new_id of
        Some c \<Rightarrow> ncommit db (vc_result c)
      | None \<Rightarrow>
          and_then (or_raise InvalidStateError (latest_evaluation db old_id)) (\<lambda>old_eval.
          and_then (or_raise InvalidStateError (latest_evaluation db new_id)) (\<lambda>new_eval.
          and_then (or_raise InvalidStateError (find (\<lambda>r. rv_workflow_run_id r = Some run_id \<and>
                      rv_new_version_id r = Some new_id) (t_rows (nd_revisions db)))) (\<lambda>rev.
          and_then (evaluation_snapshot_of db old_eval) (\<lambda>old.
          and_then (evaluation_snapshot_of db new_eval) (\<lambda>new.
          let result = compare minimum_improvement old new (rv_brief rev) revision_attempt max_revision_attempts;
              row = \<lparr>vc_id = 0, vc_workflow_run_id = run_id,
                     vc_result = result\<lparr>vr_old_version_id := old_id, vr_new_version_id := new_id\<rparr>\<rparr>;
              db1 = db\<lparr>nd_comparisons := fst (repo_add (\<lambda>i r. r\<lparr>vc_id := i\<rparr>) (nd_comparisons db) row)\<rparr>;
              db2 = save_revision db1 (rev\<lparr>rv_score_after := ev_overall_score new_eval, rv_status := ''compared''\<rparr>);
              db3 = (case nd_workflow db2 run_id of
                       None \<Rightarrow> db2
                     | Some r \<Rightarrow> save_workflow db2
                         (r\<lparr>wr_best_version_id := Some (better_version_id db2 (wr_best_version_id r) new_id)\<rparr>))
          in ncommit db3 result))))))"

end
