(* ===== verification/Version_Acceptance.thy ===== *)
theory Version_Acceptance
  imports Versioning
begin

text \<open>
  How a chapter version becomes canonical (\<open>services/versioning.py\<close>): \<open>accept_version\<close> promotes the text
  and its candidate facts in one transaction, \<open>reject_revision\<close> drops one revision,
  \<open>mark_needs_review\<close> hands the best version to a human. With the memory index, an acceptance also
  hides the memory of the version it replaces (\<open>memory/indexer.py\<close>).
\<close>

section \<open>The memory index inside a session\<close>

record memory_service =
  ms_provider_name :: string
  ms_model_name :: string
  ms_dimensions :: int

definition supersede_memory :: "int \<Rightarrow> ndb \<Rightarrow> ndb" where
  "supersede_memory version_id db =
     db\<lparr>nd_chunks := update_where
          (\<lambda>c. mk_chapter_version_id c = Some version_id \<and> mk_status c = MemoryStatus_ACCEPTED)
          (\<lambda>c. c\<lparr>mk_status := MemoryStatus_SUPERSEDED\<rparr>) (nd_chunks db),
        nd_graph_relations := update_where
          (\<lambda>r. gr_source_version_id r = Some version_id \<and> gr_status r = MemoryStatus_ACCEPTED)
          (\<lambda>r. r\<lparr>gr_status := MemoryStatus_SUPERSEDED\<rparr>) (nd_graph_relations db),
        nd_graph_entities := update_where
          (\<lambda>g. gn_source_version_id g = Some version_id \<and> gn_status g = MemoryStatus_ACCEPTED)
          (\<lambda>g. g\<lparr>gn_status := MemoryStatus_SUPERSEDED\<rparr>) (nd_graph_entities db)\<rparr>"

definition new_index_record :: "memory_service \<Rightarrow> int \<Rightarrow> int \<Rightarrow> time \<Rightarrow> memory_index_record" where
  "new_index_record m project_id version_id now =
     \<lparr>mi_id = 0, mi_project_id = project_id, mi_chapter_version_id = version_id,
      mi_status = MemoryIndexStatus_PENDING, mi_embedding_provider = ms_provider_name m,
      mi_embedding_model = ms_model_name m, mi_embedding_dimensions = ms_dimensions m,
      mi_attempt_count = 0, mi_chunk_count = 0, mi_graph_entity_count = 0, mi_graph_relation_count = 0,
      mi_error_code = None, mi_error_message = None, mi_updated_at = now, mi_completed_at = None\<rparr>"

definition ensure_pending :: "memory_service \<Rightarrow> int \<Rightarrow> int \<Rightarrow> time \<Rightarrow> ndb \<Rightarrow> ndb" where
  "ensure_pending m project_id version_id now db =
     (case index_record_for db version_id (ms_provider_name m) (ms_model_name m) of
        Some r \<Rightarrow> db
      | None \<Rightarrow> db\<lparr>nd_index_records := fst (repo_add (\<lambda>i r. r\<lparr>mi_id := i\<rparr>) (nd_index_records db)
                     (new_index_record m project_id version_id now))\<rparr>)"

section \<open>Candidate state of the story\<close>

text \<open>\<open>str(update.get(key, default))\<close>: the values are the texts of the extraction's schema.\<close>

definition text_of :: "(string \<times> json) list \<Rightarrow> string \<Rightarrow> string \<Rightarrow> string" where
  "text_of update key otherwise =
     (case map_of update key of Some (JStr s) \<Rightarrow> s | _ \<Rightarrow> otherwise)"

definition is_current_state :: "(string \<times> json) list \<Rightarrow> bool" where
  "is_current_state update \<longleftrightarrow> map_of update ''field'' = Some (JStr ''current_state'')"

text \<open>The last character of a name in a project, as in the dictionary by name; names are unique.\<close>

definition character_named :: "ndb \<Rightarrow> int \<Rightarrow> string \<Rightarrow> character option" where
  "character_named db project_id name =
     find (\<lambda>c. hc_name c = name) (rev (characters_of_project db project_id))"

definition apply_character_update :: "int \<Rightarrow> ndb \<Rightarrow> (string \<times> json) list \<Rightarrow> ndb" where
  "apply_character_update project_id db update =
     (case character_named db project_id (text_of update ''character_name'' []) of
        None \<Rightarrow> db
      | Some c \<Rightarrow>
          if is_current_state update
          then db\<lparr>nd_characters := repo_save hc_id (nd_characters db)
                   (c\<lparr>hc_current_state := text_of update ''value'' (hc_current_state c)\<rparr>)\<rparr>
          else db)"

definition apply_character_updates :: "int \<Rightarrow> (string \<times> json) list list \<Rightarrow> ndb \<Rightarrow> ndb" where
  "apply_character_updates project_id updates db = foldl (apply_character_update project_id) db updates"

definition new_foreshadowing :: "int \<Rightarrow> int \<Rightarrow> string \<Rightarrow> foreshadowing" where
  "new_foreshadowing project_id chapter_number description =
     \<lparr>fs_id = 0, fs_project_id = project_id, fs_setup_chapter = chapter_number,
      fs_expected_payoff_chapter = chapter_number, fs_description = description,
      fs_status = ForeshadowingStatus_OPEN, fs_payoff_chapter = None, fs_importance = ''medium''\<rparr>"

definition apply_foreshadowing_update :: "int \<Rightarrow> int \<Rightarrow> ndb \<Rightarrow> (string \<times> json) list \<Rightarrow> ndb" where
  "apply_foreshadowing_update project_id chapter_number db update =
     (let record_found = (case map_of update ''foreshadowing_id'' of
                            Some (JInt i) \<Rightarrow> get_foreshadowing db i
                          | Some (JBool b) \<Rightarrow> get_foreshadowing db (of_bool b) | _ \<Rightarrow> None);
          action = text_of update ''action'' []
      in case record_found of
           None \<Rightarrow>
             if action = ''setup''
             then db\<lparr>nd_foreshadowings := fst (repo_add (\<lambda>i r. r\<lparr>fs_id := i\<rparr>) (nd_foreshadowings db)
                      (new_foreshadowing project_id chapter_number (text_of update ''description'' [])))\<rparr>
             else db
         | Some f \<Rightarrow>
             if fs_project_id f \<noteq> project_id then db
             else if action = ''resolve''
             then db\<lparr>nd_foreshadowings := repo_save fs_id (nd_foreshadowings db)
                      (f\<lparr>fs_status := ForeshadowingStatus_RESOLVED, fs_payoff_chapter := Some chapter_number\<rparr>)\<rparr>
             else if action = ''advance''
             then db\<lparr>nd_foreshadowings := repo_save fs_id (nd_foreshadowings db)
                      (f\<lparr>fs_status := ForeshadowingStatus_OPEN\<rparr>)\<rparr>
             else db)"

definition apply_foreshadowing_updates :: "int \<Rightarrow> int \<Rightarrow> (string \<times> json) list list \<Rightarrow> ndb \<Rightarrow> ndb" where
  "apply_foreshadowing_updates project_id chapter_number updates db =
     foldl (apply_foreshadowing_update project_id chapter_number) db updates"

section \<open>accept_version\<close>

text \<open>The steps of the transaction, in the order of the code.\<close>

definition supersede_previous :: "memory_service option \<Rightarrow> chapter_row \<Rightarrow> int \<Rightarrow> ndb \<Rightarrow> ndb" where
  "supersede_previous memory c version_id db =
     (case ch_accepted_version_id c of
        None \<Rightarrow> db
      | Some old_id \<Rightarrow>
          if old_id = version_id then db
          else
            let db1 = (case get_version db old_id of
                         None \<Rightarrow> db
                       | Some old \<Rightarrow> save_version db (old\<lparr>cv_status := ChapterVersionStatus_SUPERSEDED\<rparr>));
                db2 = db1\<lparr>nd_facts := update_where
                        (\<lambda>f. fa_chapter_version_id f = old_id \<and> fa_status f = FactStatus_ACCEPTED)
                        (\<lambda>f. f\<lparr>fa_status := FactStatus_SUPERSEDED\<rparr>) (nd_facts db1)\<rparr>
            in (if memory = None then db2 else supersede_memory old_id db2))"

definition promote_facts :: "int \<Rightarrow> ndb \<Rightarrow> ndb" where
  "promote_facts version_id db =
     db\<lparr>nd_facts := update_where (\<lambda>f. fa_chapter_version_id f = version_id)
          (\<lambda>f. f\<lparr>fa_status := FactStatus_ACCEPTED\<rparr>) (nd_facts db)\<rparr>"

definition reject_other_candidates :: "int \<Rightarrow> int \<Rightarrow> ndb \<Rightarrow> ndb" where
  "reject_other_candidates run_id version_id db =
     db\<lparr>nd_facts := update_where
          (\<lambda>f. fa_workflow_run_id f = Some run_id \<and> fa_chapter_version_id f \<noteq> version_id \<and>
             fa_status f = FactStatus_CANDIDATE)
          (\<lambda>f. f\<lparr>fa_status := FactStatus_REJECTED\<rparr>) (nd_facts db)\<rparr>"

definition final_version_statuses :: "chapter_version_status list" where
  "final_version_statuses =
     [ChapterVersionStatus_ACCEPTED, ChapterVersionStatus_SUPERSEDED, ChapterVersionStatus_REJECTED]"

definition reject_other_versions :: "int \<Rightarrow> int \<Rightarrow> ndb \<Rightarrow> ndb" where
  "reject_other_versions run_id version_id db =
     db\<lparr>nd_versions := update_where
          (\<lambda>v. cv_workflow_run_id v = Some run_id \<and> cv_id v \<noteq> version_id \<and>
             cv_status v \<notin> set final_version_statuses)
          (\<lambda>v. v\<lparr>cv_status := ChapterVersionStatus_REJECTED\<rparr>) (nd_versions db)\<rparr>"

definition resolve_other_conflicts :: "int \<Rightarrow> int \<Rightarrow> time \<Rightarrow> ndb \<Rightarrow> ndb" where
  "resolve_other_conflicts run_id version_id now db =
     db\<lparr>nd_conflicts := update_where
          (\<lambda>c. (case get_evaluation db (co_evaluation_id c) of
                  None \<Rightarrow> False | Some e \<Rightarrow> ev_workflow_run_id e = Some run_id) \<and>
             co_chapter_version_id c \<noteq> version_id \<and> co_status c = ConflictStatus_OPEN)
          (\<lambda>c. c\<lparr>co_status := ConflictStatus_RESOLVED, co_resolved_at := Some now\<rparr>) (nd_conflicts db)\<rparr>"

definition accepted_version_row :: "chapter_version \<Rightarrow> time \<Rightarrow> chapter_version" where
  "accepted_version_row v now = v\<lparr>cv_status := ChapterVersionStatus_ACCEPTED, cv_accepted_at := Some now\<rparr>"

definition accepted_chapter_row :: "chapter_row \<Rightarrow> chapter_version \<Rightarrow> evaluation \<Rightarrow> chapter_row" where
  "accepted_chapter_row c v e =
     c\<lparr>ch_accepted_version_id := Some (cv_id v), ch_current_version_id := Some (cv_id v),
       ch_version := cv_version v, ch_title := cv_title v, ch_content := cv_content v,
       ch_summary := Some (cv_summary v), ch_score := Some (ev_overall_score e),
       ch_status := ChapterStatus_ACCEPTED\<rparr>"

definition accepted_run_row :: "workflow_run \<Rightarrow> int \<Rightarrow> time \<Rightarrow> workflow_run" where
  "accepted_run_row r version_id now =
     r\<lparr>wr_current_version_id := Some version_id, wr_best_version_id := Some version_id,
       wr_accepted_version_id := Some version_id, wr_status := WorkflowRunStatus_COMPLETED,
       wr_current_node := ''accept_version'', wr_finished_at := Some now, wr_updated_at := now\<rparr>"

definition accept_revision :: "int \<Rightarrow> ndb \<Rightarrow> ndb" where
  "accept_revision version_id db =
     (case revision_of_version db version_id of
        None \<Rightarrow> db
      | Some r \<Rightarrow> save_revision db (r\<lparr>rv_accepted := True, rv_status := ''accepted''\<rparr>))"

definition promote ::
  "memory_service option \<Rightarrow> ndb \<Rightarrow> workflow_run \<Rightarrow> chapter_version \<Rightarrow> chapter_row \<Rightarrow> project \<Rightarrow> evaluation \<Rightarrow>
   time \<Rightarrow> ndb" where
  "promote memory db r v c p e now =
     foldl (\<lambda>s step. step s) db
       [supersede_previous memory c (cv_id v),
        promote_facts (cv_id v),
        reject_other_candidates (wr_id r) (cv_id v),
        reject_other_versions (wr_id r) (cv_id v),
        resolve_other_conflicts (wr_id r) (cv_id v) now,
        apply_character_updates (pr_id p) (cv_candidate_character_updates v),
        apply_foreshadowing_updates (pr_id p) (ch_chapter_number c) (cv_candidate_foreshadowing_updates v),
        \<lambda>s. save_version s (accepted_version_row v now),
        \<lambda>s. save_narrative_chapter s (accepted_chapter_row c v e),
        \<lambda>s. save_workflow s (accepted_run_row r (cv_id v) now),
        accept_revision (cv_id v),
        \<lambda>s. case memory of None \<Rightarrow> s | Some m \<Rightarrow> ensure_pending m (pr_id p) (cv_id v) now s]"

text \<open>The transaction; \<open>False\<close> says that the acceptance is a replay and nothing was to be done.\<close>

definition accept_txn ::
  "memory_service option \<Rightarrow> ndb \<Rightarrow> int \<Rightarrow> int \<Rightarrow> time \<Rightarrow> (ndb \<times> bool) result" where
  "accept_txn memory db run_id version_id now =
     and_then (or_raise EntityNotFoundError (nd_workflow db run_id)) (\<lambda>r.
     and_then (or_raise EntityNotFoundError (get_version db version_id)) (\<lambda>v.
     if wr_status r = WorkflowRunStatus_COMPLETED \<and> wr_accepted_version_id r = Some (cv_id v)
     then ncommit db False
     else
       and_then (or_raise InvalidStateError (nd_chapter db (cv_chapter_id v))) (\<lambda>c.
       and_then (or_raise InvalidStateError (nd_project db (wr_project_id r))) (\<lambda>p.
       and_then (or_raise InvalidStateError (latest_evaluation db (cv_id v))) (\<lambda>e.
       and_then (require (ev_passed e) InvalidStateError) (\<lambda>_.
       ncommit (promote memory db r v c p e now) True))))))"

text \<open>
  After the commit the version is indexed; a failure of the indexing is recorded, not raised.
  \<open>index\<close> is \<open>index_accepted_chapter_version\<close>: the database it leaves and whether it raised.
\<close>

definition mark_index_failed :: "memory_service \<Rightarrow> ndb \<Rightarrow> int \<Rightarrow> string \<Rightarrow> time \<Rightarrow> ndb" where
  "mark_index_failed m db version_id error_code now =
     (case index_record_for db version_id (ms_provider_name m) (ms_model_name m) of
        None \<Rightarrow> db
      | Some r \<Rightarrow> db\<lparr>nd_index_records := repo_save mi_id (nd_index_records db)
          (r\<lparr>mi_status := MemoryIndexStatus_FAILED, mi_error_code := Some (take 100 error_code),
             mi_error_message := Some ''Embedding or indexing failed; retry is available'', mi_updated_at := now\<rparr>)\<rparr>)"

definition accept_version ::
  "memory_service option \<Rightarrow> (ndb \<Rightarrow> int \<Rightarrow> ndb \<times> bool) \<Rightarrow> ndb \<Rightarrow> int \<Rightarrow> int \<Rightarrow> time \<Rightarrow> (ndb \<times> unit) result" where
  "accept_version memory index db run_id version_id now =
     and_then (accept_txn memory db run_id version_id now) (\<lambda>(db1, promoted).
     Inr (case memory of
            None \<Rightarrow> (db1, ())
          | Some m \<Rightarrow>
              if \<not> promoted then (db1, ())
              else
                let (db2, indexed) = index db1 version_id
                in (if indexed then db2
                    else mark_index_failed m db2 version_id ''index_persistence_error'' now, ())))"

section \<open>reject_revision and mark_needs_review\<close>

definition reject_facts_of :: "int \<Rightarrow> ndb \<Rightarrow> ndb" where
  "reject_facts_of version_id db =
     db\<lparr>nd_facts := update_where (\<lambda>f. fa_chapter_version_id f = version_id \<and> fa_status f = FactStatus_CANDIDATE)
          (\<lambda>f. f\<lparr>fa_status := FactStatus_REJECTED\<rparr>) (nd_facts db)\<rparr>"

definition first_id :: "int option \<Rightarrow> int option \<Rightarrow> int \<Rightarrow> int" where
  "first_id a b i = (case a of Some k \<Rightarrow> k | None \<Rightarrow> (case b of Some k \<Rightarrow> k | None \<Rightarrow> i))"

definition reject_revision :: "ndb \<Rightarrow> int \<Rightarrow> int \<Rightarrow> (ndb \<times> int) result" where
  "reject_revision db run_id version_id =
     and_then (or_raise EntityNotFoundError (nd_workflow db run_id)) (\<lambda>r.
     and_then (or_raise EntityNotFoundError (get_version db version_id)) (\<lambda>v.
     let db1 = save_version db (v\<lparr>cv_status := ChapterVersionStatus_REJECTED\<rparr>);
         db2 = reject_facts_of (cv_id v) db1;
         db3 = (case revision_of_version db2 (cv_id v) of
                  None \<Rightarrow> db2 | Some revised \<Rightarrow> save_revision db2 (revised\<lparr>rv_status := ''rejected''\<rparr>));
         best = first_id (wr_best_version_id r) (cv_parent_version_id v) (cv_id v);
         db4 = save_workflow db3 (r\<lparr>wr_current_version_id := Some best\<rparr>);
         db5 = (case nd_chapter db4 (cv_chapter_id v) of
                  None \<Rightarrow> db4
                | Some c \<Rightarrow> save_narrative_chapter db4
                    (c\<lparr>ch_current_version_id := Some best, ch_status := ChapterStatus_WORKFLOW_RUNNING\<rparr>))
     in ncommit db5 best))"

definition review_chapter_row :: "chapter_row \<Rightarrow> chapter_version \<Rightarrow> chapter_row" where
  "review_chapter_row c v =
     c\<lparr>ch_current_version_id := Some (cv_id v), ch_version := cv_version v, ch_title := cv_title v,
       ch_content := cv_content v, ch_summary := Some (cv_summary v),
       ch_status := ChapterStatus_NEEDS_HUMAN_REVIEW\<rparr>"

definition review_run_row :: "workflow_run \<Rightarrow> int \<Rightarrow> time \<Rightarrow> workflow_run" where
  "review_run_row r version_id now =
     r\<lparr>wr_current_version_id := Some version_id, wr_status := WorkflowRunStatus_COMPLETED_NEEDS_REVIEW,
       wr_current_node := ''mark_needs_human_review'', wr_finished_at := Some now, wr_updated_at := now\<rparr>"

definition reject_run_candidates :: "int \<Rightarrow> ndb \<Rightarrow> ndb" where
  "reject_run_candidates run_id db =
     db\<lparr>nd_facts := update_where (\<lambda>f. fa_workflow_run_id f = Some run_id \<and> fa_status f = FactStatus_CANDIDATE)
          (\<lambda>f. f\<lparr>fa_status := FactStatus_REJECTED\<rparr>) (nd_facts db)\<rparr>"

definition mark_needs_review :: "ndb \<Rightarrow> int \<Rightarrow> time \<Rightarrow> (ndb \<times> int) result" where
  "mark_needs_review db run_id now =
     and_then (or_raise InvalidStateError (nd_workflow db run_id)) (\<lambda>r.
     and_then (or_raise InvalidStateError (wr_best_version_id r)) (\<lambda>best.
     and_then (or_raise EntityNotFoundError (get_version db best)) (\<lambda>v.
     and_then (or_raise EntityNotFoundError (nd_chapter db (cv_chapter_id v))) (\<lambda>c.
     let db1 = save_version db (v\<lparr>cv_status := ChapterVersionStatus_NEEDS_REVIEW\<rparr>);
         db2 = save_narrative_chapter db1 (review_chapter_row c v);
         db3 = save_workflow db2 (review_run_row r (cv_id v) now);
         db4 = reject_run_candidates run_id db3;
         db5 = reject_other_versions run_id (cv_id v) db4
     in ncommit db5 (cv_id v)))))"

end
