(* ===== verification/Version_Canon.thy ===== *)
theory Version_Canon
  imports Version_Acceptance
begin

text \<open>
  The canon of a project: what is accepted. Each chapter names its accepted version, that version
  and no other version of the chapter has the status accepted, and an accepted fact belongs to an
  accepted version. The lemmas say which columns each transaction of the version service changes,
  and that the transactions keep the canon.
\<close>

section \<open>The canon\<close>

definition is_accepted :: "chapter_version \<Rightarrow> bool" where
  "is_accepted v \<longleftrightarrow> cv_status v = ChapterVersionStatus_ACCEPTED"

definition version_accepted :: "ndb \<Rightarrow> int \<Rightarrow> bool" where
  "version_accepted db i \<longleftrightarrow> (case get_version db i of None \<Rightarrow> False | Some v \<Rightarrow> is_accepted v)"

definition belongs_to :: "ndb \<Rightarrow> int \<Rightarrow> int \<Rightarrow> bool" where
  "belongs_to db i chapter_id \<longleftrightarrow>
     (case get_version db i of None \<Rightarrow> False | Some v \<Rightarrow> cv_chapter_id v = chapter_id)"

definition canonical :: "ndb \<Rightarrow> bool" where
  "canonical db \<longleftrightarrow> table_ok cv_id (nd_versions db) \<and> table_ok ch_id (nd_chapters db) \<and>
     (\<forall>c \<in> set (t_rows (nd_chapters db)).
        (case ch_accepted_version_id c of None \<Rightarrow> True | Some a \<Rightarrow> belongs_to db a (ch_id c)) \<and>
        (\<forall>v \<in> set (t_rows (nd_versions db)). cv_chapter_id v = ch_id c \<longrightarrow>
           (is_accepted v \<longleftrightarrow> ch_accepted_version_id c = Some (cv_id v)))) \<and>
     (\<forall>f \<in> set (t_rows (nd_facts db)). fa_status f = FactStatus_ACCEPTED \<longrightarrow>
        version_accepted db (fa_chapter_version_id f))"

lemma canonicalI:
  assumes "table_ok cv_id (nd_versions db)" and "table_ok ch_id (nd_chapters db)"
    and "\<And>k c a. nd_chapter db k = Some c \<Longrightarrow> ch_accepted_version_id c = Some a \<Longrightarrow>
           \<exists>v. get_version db a = Some v \<and> cv_chapter_id v = k"
    and "\<And>i v c. get_version db i = Some v \<Longrightarrow> nd_chapter db (cv_chapter_id v) = Some c \<Longrightarrow>
           is_accepted v \<longleftrightarrow> ch_accepted_version_id c = Some i"
    and "\<And>f. f \<in> set (t_rows (nd_facts db)) \<Longrightarrow> fa_status f = FactStatus_ACCEPTED \<Longrightarrow>
           \<exists>v. get_version db (fa_chapter_version_id f) = Some v \<and> is_accepted v"
  shows "canonical db"
proof -
  have row_c: "nd_chapter db (ch_id c) = Some c" if "c \<in> set (t_rows (nd_chapters db))" for c
    using chapters.get_row [OF assms(2) that] by (simp add: nd_chapter_def)
  have row_v: "get_version db (cv_id v) = Some v" if "v \<in> set (t_rows (nd_versions db))" for v
    using versions.get_row [OF assms(1) that] by (simp add: get_version_def)
  have "belongs_to db a (ch_id c)"
    if "c \<in> set (t_rows (nd_chapters db))" and "ch_accepted_version_id c = Some a" for c a
    using assms(3) [OF row_c [OF that(1)] that(2)] by (auto simp: belongs_to_def)
  moreover have "is_accepted v \<longleftrightarrow> ch_accepted_version_id c = Some (cv_id v)"
    if "c \<in> set (t_rows (nd_chapters db))" and "v \<in> set (t_rows (nd_versions db))" and "cv_chapter_id v = ch_id c" for c v
    using assms(4) [OF row_v [OF that(2)]] row_c [OF that(1)] that(3) by simp
  moreover have "version_accepted db (fa_chapter_version_id f)"
    if "f \<in> set (t_rows (nd_facts db))" and "fa_status f = FactStatus_ACCEPTED" for f
    using assms(5) [OF that] by (auto simp: version_accepted_def)
  ultimately show ?thesis
    using assms(1,2) by (auto simp: canonical_def split: option.split)
qed

lemma get_version_row: "get_version db i = Some v \<Longrightarrow> v \<in> set (t_rows (nd_versions db)) \<and> cv_id v = i"
  unfolding get_version_def by (rule versions.get_Some)

lemma nd_chapter_row: "nd_chapter db i = Some c \<Longrightarrow> c \<in> set (t_rows (nd_chapters db)) \<and> ch_id c = i"
  unfolding nd_chapter_def by (rule chapters.get_Some)

lemma nd_workflow_row: "nd_workflow db i = Some w \<Longrightarrow> w \<in> set (t_rows (nd_workflow_runs db)) \<and> wr_id w = i"
  unfolding nd_workflow_def by (rule workflow_runs.get_Some)

lemma canonicalD:
  assumes "canonical db"
  shows "table_ok cv_id (nd_versions db)" and "table_ok ch_id (nd_chapters db)"
    and "nd_chapter db k = Some c \<Longrightarrow> ch_accepted_version_id c = Some a \<Longrightarrow>
           \<exists>v. get_version db a = Some v \<and> cv_chapter_id v = k \<and> is_accepted v"
    and "get_version db i = Some v \<Longrightarrow> nd_chapter db (cv_chapter_id v) = Some c \<Longrightarrow>
           is_accepted v \<longleftrightarrow> ch_accepted_version_id c = Some i"
    and "f \<in> set (t_rows (nd_facts db)) \<Longrightarrow> fa_status f = FactStatus_ACCEPTED \<Longrightarrow>
           \<exists>v. get_version db (fa_chapter_version_id f) = Some v \<and> is_accepted v"
proof -
  show "table_ok cv_id (nd_versions db)" "table_ok ch_id (nd_chapters db)"
    using assms by (simp_all add: canonical_def)
  show acc: "is_accepted v \<longleftrightarrow> ch_accepted_version_id c = Some i"
    if "get_version db i = Some v" and "nd_chapter db (cv_chapter_id v) = Some c" for i v c
    using assms get_version_row [OF that(1)] nd_chapter_row [OF that(2)] unfolding canonical_def by metis
  show "\<exists>v. get_version db a = Some v \<and> cv_chapter_id v = k \<and> is_accepted v"
    if "nd_chapter db k = Some c" and "ch_accepted_version_id c = Some a"
  proof -
    have "belongs_to db a k"
      using assms nd_chapter_row [OF that(1)] that(2) by (force simp: canonical_def)
    then obtain v where v: "get_version db a = Some v" "cv_chapter_id v = k"
      by (auto simp: belongs_to_def split: option.splits)
    with acc [OF v(1)] that show ?thesis by simp
  qed
  show "\<exists>v. get_version db (fa_chapter_version_id f) = Some v \<and> is_accepted v"
    if "f \<in> set (t_rows (nd_facts db))" and "fa_status f = FactStatus_ACCEPTED"
    using assms that by (fastforce simp: canonical_def version_accepted_def split: option.splits)
qed

text \<open>A state with the same canon columns is as canonical.\<close>

lemma canonical_cong:
  assumes "nd_versions db' = nd_versions db" and "nd_chapters db' = nd_chapters db"
    and "nd_facts db' = nd_facts db"
  shows "canonical db' = canonical db"
proof -
  have "get_version db' = get_version db"
    by (simp add: get_version_def assms fun_eq_iff)
  then have "belongs_to db' = belongs_to db" and "version_accepted db' = version_accepted db"
    by (simp_all add: belongs_to_def version_accepted_def fun_eq_iff)
  then show ?thesis
    unfolding canonical_def assms by (simp only:)
qed

section \<open>Updates of the tables\<close>

lemma get_update_where:
  assumes "\<And>r. key (f r) = key r"
  shows "repo_get key (update_where p f t) i = map_option (\<lambda>r. if p r then f r else r) (repo_get key t i)"
  by (simp add: repo_get_def update_where_def find_map_replace assms)

lemma ok_update_where:
  assumes "\<And>r. key (f r) = key r"
  shows "table_ok key (update_where p f t) = table_ok key t"
proof -
  have keys: "map key (t_rows (update_where p f t)) = map key (t_rows t)"
    by (simp add: update_where_def assms)
  have "(\<forall>r \<in> set rows. key r < n) \<longleftrightarrow> (\<forall>k \<in> set (map key rows). k < n)" for rows :: "'a list" and n
    by simp
  then show ?thesis
    unfolding table_ok_def keys by (simp add: keys del: set_map) (simp add: update_where_def)
qed

lemma rows_update_where:
  "set (t_rows (update_where p f t)) = (\<lambda>r. if p r then f r else r) ` set (t_rows t)"
  by (simp add: update_where_def)

section \<open>Changes that keep the canon\<close>

definition same_canon :: "chapter_version \<Rightarrow> chapter_version \<Rightarrow> bool" where
  "same_canon v w \<longleftrightarrow> cv_chapter_id v = cv_chapter_id w \<and> is_accepted v = is_accepted w"

lemma canonical_view:
  assumes "canonical db" and "table_ok cv_id (nd_versions db')" and "table_ok ch_id (nd_chapters db')"
    and ch: "\<And>k a. nd_chapter db' k = Some a \<Longrightarrow>
          \<exists>b. nd_chapter db k = Some b \<and> ch_accepted_version_id b = ch_accepted_version_id a"
    and old: "\<And>i u. get_version db' i = Some u \<Longrightarrow> \<exists>w. get_version db i = Some w \<and> same_canon w u"
    and kept: "\<And>i w. get_version db i = Some w \<Longrightarrow> \<exists>u. get_version db' i = Some u \<and> same_canon w u"
    and fact: "\<And>f. f \<in> set (t_rows (nd_facts db')) \<Longrightarrow> fa_status f = FactStatus_ACCEPTED \<Longrightarrow>
          f \<in> set (t_rows (nd_facts db))"
  shows "canonical db'"
proof (rule canonicalI [OF assms(2,3)])
  note inv = canonicalD [OF assms(1)]
  show "\<exists>v. get_version db' a = Some v \<and> cv_chapter_id v = k"
    if c: "nd_chapter db' k = Some c" and a: "ch_accepted_version_id c = Some a" for k c a
  proof -
    obtain v where "get_version db a = Some v" "cv_chapter_id v = k"
      using ch [OF c] a inv(3) by fastforce
    then show ?thesis using kept by (fastforce simp: same_canon_def)
  qed
  show "is_accepted v \<longleftrightarrow> ch_accepted_version_id c = Some i"
    if v: "get_version db' i = Some v" and c: "nd_chapter db' (cv_chapter_id v) = Some c" for i v c
  proof -
    obtain w b where w: "get_version db i = Some w" "same_canon w v"
      and b: "nd_chapter db (cv_chapter_id v) = Some b" "ch_accepted_version_id b = ch_accepted_version_id c"
      using old [OF v] ch [OF c] by blast
    from inv(4) [OF w(1)] w(2) b show ?thesis by (simp add: same_canon_def)
  qed
  show "\<exists>v. get_version db' (fa_chapter_version_id f) = Some v \<and> is_accepted v"
    if "f \<in> set (t_rows (nd_facts db'))" and "fa_status f = FactStatus_ACCEPTED" for f
  proof -
    have "\<exists>v. get_version db (fa_chapter_version_id f) = Some v \<and> is_accepted v"
      using inv(5) fact that by blast
    then show ?thesis using kept by (fastforce simp: same_canon_def)
  qed
qed

lemma get_version_add:
  assumes "table_ok cv_id (nd_versions db)"
  shows "get_version (fst (add_version db v)) i =
     (if i = t_next (nd_versions db) then Some (v\<lparr>cv_id := i\<rparr>) else get_version db i)"
  using versions.get_add [OF assms, of v i]
  by (simp add: get_version_def add_version_def repo_add_def Let_def split: if_splits)

lemma canonical_add_version:
  assumes "canonical db" and "\<not> is_accepted v"
  shows "canonical (fst (add_version db v))"
proof (rule canonicalI)
  note inv = canonicalD [OF assms(1)] and ok = canonicalD(1) [OF assms(1)]
  have fresh: "get_version db (t_next (nd_versions db)) = None"
    unfolding get_version_def by (rule versions.get_fresh [OF ok])
  have same: "nd_chapter (fst (add_version db v)) = nd_chapter db"
    "nd_chapters (fst (add_version db v)) = nd_chapters db" "nd_facts (fst (add_version db v)) = nd_facts db"
    by (simp_all add: add_version_def repo_add_def Let_def nd_chapter_def fun_eq_iff)
  have kept: "get_version (fst (add_version db v)) i = Some w" if "get_version db i = Some w" for i w
    using that fresh by (auto simp: get_version_add [OF ok])
  show "table_ok cv_id (nd_versions (fst (add_version db v)))"
    using versions.ok_add [OF ok, of v] by (simp add: add_version_def repo_add_def Let_def)
  show "table_ok ch_id (nd_chapters (fst (add_version db v)))"
    using inv(2) by (simp add: same)
  show "\<exists>w. get_version (fst (add_version db v)) a = Some w \<and> cv_chapter_id w = k"
    if "nd_chapter (fst (add_version db v)) k = Some c" and "ch_accepted_version_id c = Some a" for k c a
    using that inv(3) kept by (fastforce simp: same)
  show "is_accepted w \<longleftrightarrow> ch_accepted_version_id c = Some i"
    if "get_version (fst (add_version db v)) i = Some w"
      and "nd_chapter (fst (add_version db v)) (cv_chapter_id w) = Some c" for i w c
  proof (cases "i = t_next (nd_versions db)")
    case True
    then have "w = v\<lparr>cv_id := i\<rparr>" using that by (simp add: get_version_add [OF ok])
    then have "\<not> is_accepted w" using assms(2) by (simp add: is_accepted_def)
    moreover have "ch_accepted_version_id c \<noteq> Some i"
      using inv(3) that(2) fresh True unfolding same by fastforce
    ultimately show ?thesis by simp
  next
    case False
    then show ?thesis using that inv(4) by (simp add: get_version_add [OF ok] same)
  qed
  show "\<exists>w. get_version (fst (add_version db v)) (fa_chapter_version_id f) = Some w \<and> is_accepted w"
    if "f \<in> set (t_rows (nd_facts (fst (add_version db v))))" and "fa_status f = FactStatus_ACCEPTED" for f
    using that inv(5) kept by (fastforce simp: same)
qed

lemma nd_chapter_save:
  "nd_chapter (save_narrative_chapter db c) i = (if i = ch_id c then map_option (\<lambda>_. c) (nd_chapter db i) else nd_chapter db i)"
  using chapters.get_save [of "nd_chapters db" c i] by (simp add: nd_chapter_def save_narrative_chapter_def)

lemma canonical_save_chapter:
  assumes "canonical db" and "nd_chapter db (ch_id c') = Some c"
    and "ch_accepted_version_id c' = ch_accepted_version_id c"
  shows "canonical (save_narrative_chapter db c')"
proof (rule canonical_view [OF assms(1)])
  show "table_ok cv_id (nd_versions (save_narrative_chapter db c'))"
    using canonicalD(1) [OF assms(1)] by (simp add: save_narrative_chapter_def)
  show "table_ok ch_id (nd_chapters (save_narrative_chapter db c'))"
    using chapters.ok_save [OF canonicalD(2) [OF assms(1)], of c'] by (simp add: save_narrative_chapter_def)
qed (use assms(2,3) in \<open>auto simp: nd_chapter_save same_canon_def split: if_splits\<close>,
     auto simp: save_narrative_chapter_def get_version_def)

lemma get_version_save:
  "get_version (save_version db v) i = (if i = cv_id v then map_option (\<lambda>_. v) (get_version db i) else get_version db i)"
  using versions.get_save [of "nd_versions db" v i] by (simp add: get_version_def save_version_def)

lemma canonical_save_version:
  assumes "canonical db" and "get_version db (cv_id v') = Some v" and "same_canon v v'"
  shows "canonical (save_version db v')"
proof (rule canonical_view [OF assms(1)])
  show "table_ok cv_id (nd_versions (save_version db v'))"
    using versions.ok_save [OF canonicalD(1) [OF assms(1)], of v'] by (simp add: save_version_def)
  show "table_ok ch_id (nd_chapters (save_version db v'))"
    using canonicalD(2) [OF assms(1)] by (simp add: save_version_def)
qed (use assms(2,3) in \<open>auto simp: get_version_save same_canon_def split: if_splits\<close>,
     auto simp: save_version_def nd_chapter_def)

lemma canonical_set_facts:
  assumes "canonical db"
    and "\<And>f. f \<in> set (t_rows t) \<Longrightarrow> fa_status f = FactStatus_ACCEPTED \<Longrightarrow> f \<in> set (t_rows (nd_facts db))"
  shows "canonical (db\<lparr>nd_facts := t\<rparr>)"
  by (rule canonical_view [OF assms(1)])
     (use canonicalD(1,2) [OF assms(1)] assms(2) in
       \<open>auto simp: get_version_def nd_chapter_def same_canon_def\<close>)

lemma canonical_update_versions:
  assumes "canonical db" and "\<And>r. p r \<Longrightarrow> same_canon r (f r)" and "\<And>r. cv_id (f r) = cv_id r"
  shows "canonical (db\<lparr>nd_versions := update_where p f (nd_versions db)\<rparr>)"
proof (rule canonical_view [OF assms(1)])
  let ?db = "db\<lparr>nd_versions := update_where p f (nd_versions db)\<rparr>"
  have get: "get_version ?db i = map_option (\<lambda>r. if p r then f r else r) (get_version db i)" for i
    by (simp add: get_version_def get_update_where assms(3))
  show "table_ok cv_id (nd_versions ?db)" "table_ok ch_id (nd_chapters ?db)"
    using canonicalD(1,2) [OF assms(1)] by (simp_all add: ok_update_where assms(3))
  show "\<exists>w. get_version db i = Some w \<and> same_canon w u" if "get_version ?db i = Some u" for i u
    using that assms(2) by (auto simp: get same_canon_def)
  show "\<exists>u. get_version ?db i = Some u \<and> same_canon w u" if "get_version db i = Some w" for i w
    using that assms(2) by (auto simp: get same_canon_def)
qed (auto simp: nd_chapter_def)

end
