(* ===== verification/Version_Steps.thy ===== *)
theory Version_Steps
  imports Version_Canon
begin

text \<open>
  Every transaction of \<open>ChapterVersionService\<close> keeps the canon: drafts, extracted facts, revisions and
  comparisons do not touch it, an acceptance moves it to the new version, and rejecting or handing over
  a version that is not accepted leaves it.
\<close>

section \<open>Tables outside the canon\<close>

lemma canonical_frame [simp]:
  "canonical (save_workflow db w) = canonical db"
  "canonical (save_revision db r) = canonical db"
  "canonical (db\<lparr>nd_revisions := t\<rparr>) = canonical db"
  "canonical (db\<lparr>nd_comparisons := u\<rparr>) = canonical db"
  "canonical (db\<lparr>nd_conflicts := x\<rparr>) = canonical db"
  by (rule canonical_cong; simp add: save_workflow_def save_revision_def)+

lemma canonical_accept_revision [simp]: "canonical (accept_revision i db) = canonical db"
  by (simp add: accept_revision_def split: option.split)

lemma canonical_ensure_pending [simp]: "canonical (ensure_pending m p v now db) = canonical db"
  by (rule canonical_cong) (simp_all add: ensure_pending_def split: option.split)

lemma get_version_frame [simp]:
  "get_version (save_workflow db w) = get_version db"
  "get_version (db\<lparr>nd_facts := f\<rparr>) = get_version db"
  "get_version (db\<lparr>nd_revisions := r\<rparr>) = get_version db"
  "get_version (db\<lparr>nd_conflicts := c\<rparr>) = get_version db"
  "get_version (save_narrative_chapter db ch) = get_version db"
  "get_version (save_revision db rw) = get_version db"
  by (simp_all add: fun_eq_iff get_version_def save_workflow_def save_narrative_chapter_def save_revision_def)

lemma nd_chapter_frame [simp]:
  "nd_chapter (save_workflow db w) = nd_chapter db"
  "nd_chapter (db\<lparr>nd_facts := f\<rparr>) = nd_chapter db"
  "nd_chapter (db\<lparr>nd_revisions := r\<rparr>) = nd_chapter db"
  "nd_chapter (db\<lparr>nd_conflicts := c\<rparr>) = nd_chapter db"
  "nd_chapter (db\<lparr>nd_versions := v\<rparr>) = nd_chapter db"
  "nd_chapter (save_version db ver) = nd_chapter db"
  "nd_chapter (save_revision db rw) = nd_chapter db"
  "nd_chapter (fst (add_version db w')) = nd_chapter db"
  by (simp_all add: fun_eq_iff nd_chapter_def save_workflow_def save_version_def save_revision_def
      add_version_def repo_add_def Let_def)

section \<open>Drafts, extraction, revision, comparison\<close>

lemma by_number_row:
  "canonical db \<Longrightarrow> narrative_chapter_by_number db p n = Some c \<Longrightarrow> nd_chapter db (ch_id c) = Some c"
  by (auto simp: narrative_chapter_by_number_def nd_chapter_def chapters.get_row canonicalD(2) dest!: find_SomeD)

lemma new_row_not_accepted:
  "status \<noteq> ChapterVersionStatus_ACCEPTED \<Longrightarrow>
   \<not> is_accepted (new_version_row c n d status source parent run key now)"
  by (simp add: is_accepted_def new_version_row_def)

lemma draft_keeps_canon:
  assumes "canonical db" and "draft_txn db p n run d now = Inr (db', a)"
  shows "canonical db'"
proof -
  obtain c where c: "narrative_chapter_by_number db p n = Some c"
    using assms(2) by (auto simp: draft_txn_def)
  note row = by_number_row [OF assms(1) c]
  show ?thesis
  proof (cases "version_by_key db (draft_key run)")
    case (Some v)
    then show ?thesis using assms c by (simp add: draft_txn_def)
  next
    case None
    let ?row = "new_version_row c (next_version db (ch_id c)) d ChapterVersionStatus_DRAFT ''generated'' None run
        (draft_key run) now"
    obtain db1 v where add: "add_version db ?row = (db1, v)" by fastforce
    have "canonical db1"
      using canonical_add_version [OF assms(1), of ?row] add new_row_not_accepted by simp
    moreover have "nd_chapter db1 = nd_chapter db"
      using add nd_chapter_frame(8) [of db ?row] by simp
    ultimately have "canonical (save_narrative_chapter db1 (c\<lparr>ch_current_version_id := Some (cv_id v),
        ch_version := cv_version v, ch_status := ChapterStatus_DRAFTING\<rparr>))"
      by (intro canonical_save_chapter) (auto simp: row)
    then show ?thesis
      using assms(2) c None add by (auto simp: draft_txn_def Let_def split: option.splits)
  qed
qed

lemma add_candidates_accepted:
  "f \<in> set (t_rows (fst (add_candidates h p v run xs hs t))) \<Longrightarrow> fa_status f = FactStatus_ACCEPTED \<Longrightarrow>
   f \<in> set (t_rows t)"
  by (induction h p v run xs hs t rule: add_candidates.induct)
     (auto simp: Let_def repo_add_def candidate_fact_def split: if_splits)

lemma extraction_keeps_canon:
  assumes "canonical db" and "extraction_txn h db p version run x = Inr (db', a)"
  shows "canonical db'"
proof -
  obtain v where v: "get_version db version = Some v"
    using assms(2) by (auto simp: extraction_txn_def)
  show ?thesis
  proof (cases "existing_extraction db v")
    case (Some b)
    then show ?thesis using assms v by (simp add: extraction_txn_def)
  next
    case None
    obtain t hs where add: "add_candidates h p v run (xt_facts x) [] (nd_facts db) = (t, hs)" by fastforce
    let ?row = "v\<lparr>cv_candidate_character_updates := xt_character_updates x,
        cv_candidate_foreshadowing_updates := xt_foreshadowing_updates x,
        cv_generation_metadata := AList.update ''fact_extraction'' (xt_metadata x) (cv_generation_metadata v)\<rparr>"
    have "canonical (db\<lparr>nd_facts := t\<rparr>)"
      using assms(1) add_candidates_accepted [of _ h p v run "xt_facts x" "[]" "nd_facts db"] add
      by (intro canonical_set_facts) auto
    then have "canonical (save_version (db\<lparr>nd_facts := t\<rparr>) ?row)"
      using get_version_row [OF v] v
      by (intro canonical_save_version) (auto simp: same_canon_def is_accepted_def)
    then show ?thesis
      using assms(2) v None add by (auto simp: extraction_txn_def Let_def split: option.splits)
  qed
qed

lemma revise_keeps_canon:
  assumes "canonical db" and "revise_txn db run source brief d now = Inr (db', a)"
  shows "canonical db'"
proof (cases "version_by_key db (revise_key run (rb_revision_attempt brief))")
  case (Some v)
  then show ?thesis using assms by (simp add: revise_txn_def Let_def)
next
  case None
  obtain s r c where s: "get_version db source = Some s" and r: "nd_workflow db run = Some r"
    and c: "nd_chapter db (cv_chapter_id s) = Some c"
    using assms(2) None by (auto simp: revise_txn_def Let_def)
  let ?row = "new_version_row c (next_version db (ch_id c)) d ChapterVersionStatus_REVISION ''revision''
      (Some (cv_id s)) run (revise_key run (rb_revision_attempt brief)) now"
  obtain db1 v where add: "add_version db ?row = (db1, v)" by fastforce
  have "canonical db1"
    using canonical_add_version [OF assms(1), of ?row] add new_row_not_accepted by simp
  moreover have "nd_chapter db1 = nd_chapter db"
    using add nd_chapter_frame(8) [of db ?row] by simp
  ultimately have "canonical (save_narrative_chapter (db1\<lparr>nd_revisions := t\<rparr>) (c\<lparr>ch_current_version_id := Some (cv_id v),
      ch_version := cv_version v, ch_status := ChapterStatus_REVISING\<rparr>))" for t
    using nd_chapter_row [OF c] c by (intro canonical_save_chapter) auto
  then show ?thesis
    using assms(2) None s r c add by (auto simp: revise_txn_def Let_def)
qed

lemma compare_keeps_canon:
  assumes "canonical db" and "compare_versions m db run old new attempt limit = Inr (db', r)"
  shows "canonical db'"
  using assms by (auto simp: compare_versions_def Let_def split: option.splits)

section \<open>Acceptance\<close>

lemma apply_character_updates_frame [simp]:
  "nd_versions (apply_character_updates p us db) = nd_versions db"
  "nd_chapters (apply_character_updates p us db) = nd_chapters db"
  "nd_facts (apply_character_updates p us db) = nd_facts db"
proof -
  have "nd_versions (apply_character_updates p us db) = nd_versions db \<and>
      nd_chapters (apply_character_updates p us db) = nd_chapters db \<and>
      nd_facts (apply_character_updates p us db) = nd_facts db"
    by (induction us arbitrary: db)
       (auto simp: apply_character_updates_def apply_character_update_def split: option.split)
  then show "nd_versions (apply_character_updates p us db) = nd_versions db"
    "nd_chapters (apply_character_updates p us db) = nd_chapters db"
    "nd_facts (apply_character_updates p us db) = nd_facts db" by blast+
qed

lemma apply_foreshadowing_update_frame:
  "nd_versions (apply_foreshadowing_update p n db u) = nd_versions db \<and>
   nd_chapters (apply_foreshadowing_update p n db u) = nd_chapters db \<and>
   nd_facts (apply_foreshadowing_update p n db u) = nd_facts db"
  unfolding apply_foreshadowing_update_def Let_def by (simp split: option.split)

lemma apply_foreshadowing_updates_frame [simp]:
  "nd_versions (apply_foreshadowing_updates p n us db) = nd_versions db"
  "nd_chapters (apply_foreshadowing_updates p n us db) = nd_chapters db"
  "nd_facts (apply_foreshadowing_updates p n us db) = nd_facts db"
proof -
  have "nd_versions (apply_foreshadowing_updates p n us db) = nd_versions db \<and>
      nd_chapters (apply_foreshadowing_updates p n us db) = nd_chapters db \<and>
      nd_facts (apply_foreshadowing_updates p n us db) = nd_facts db"
    by (induction us arbitrary: db)
       (simp_all add: apply_foreshadowing_updates_def apply_foreshadowing_update_frame)
  then show "nd_versions (apply_foreshadowing_updates p n us db) = nd_versions db"
    "nd_chapters (apply_foreshadowing_updates p n us db) = nd_chapters db"
    "nd_facts (apply_foreshadowing_updates p n us db) = nd_facts db" by blast+
qed

lemma accept_revision_frame [simp]:
  "nd_versions (accept_revision i db) = nd_versions db" "nd_chapters (accept_revision i db) = nd_chapters db"
  "nd_facts (accept_revision i db) = nd_facts db"
  by (simp_all add: accept_revision_def save_revision_def split: option.split)

lemma ensure_pending_frame [simp]:
  "nd_versions (ensure_pending m p v now db) = nd_versions db"
  "nd_chapters (ensure_pending m p v now db) = nd_chapters db"
  "nd_facts (ensure_pending m p v now db) = nd_facts db"
  by (simp_all add: ensure_pending_def split: option.split)

lemma supersede_memory_frame [simp]:
  "nd_versions (supersede_memory i db) = nd_versions db" "nd_chapters (supersede_memory i db) = nd_chapters db"
  "nd_facts (supersede_memory i db) = nd_facts db"
  by (simp_all add: supersede_memory_def)

text \<open>The old accepted version, when the acceptance replaces one.\<close>

definition replaced :: "chapter_row \<Rightarrow> int \<Rightarrow> int \<Rightarrow> bool" where
  "replaced c version_id i \<longleftrightarrow> ch_accepted_version_id c = Some i \<and> i \<noteq> version_id"

definition supersede_row :: "chapter_version \<Rightarrow> chapter_version" where
  "supersede_row v = v\<lparr>cv_status := ChapterVersionStatus_SUPERSEDED\<rparr>"

lemma supersede_previous_chapters [simp]: "nd_chapters (supersede_previous memory c i db) = nd_chapters db"
  by (simp add: supersede_previous_def save_version_def Let_def split: option.split)

lemma supersede_previous_version:
  "get_version (supersede_previous memory c i db) k =
     map_option (\<lambda>v. if replaced c i k then supersede_row v else v) (get_version db k)"
proof -
  have "get_version (supersede_memory j x) = get_version x" for j x
    by (simp add: get_version_def fun_eq_iff)
  then show ?thesis
    by (cases "get_version db k"; cases "ch_accepted_version_id c")
       (auto simp: supersede_previous_def replaced_def supersede_row_def get_version_save Let_def
          dest: get_version_row split: option.splits)
qed

lemma supersede_previous_ok:
  "table_ok cv_id (nd_versions db) \<Longrightarrow> table_ok cv_id (nd_versions (supersede_previous memory c i db))"
  by (auto simp: supersede_previous_def save_version_def Let_def versions.ok_save split: option.split)

lemma update_where_False: "(\<And>r. \<not> p r) \<Longrightarrow> update_where p f t = t"
  by (simp add: update_where_def)

lemma supersede_previous_facts:
  "nd_facts (supersede_previous memory c i db) =
     update_where (\<lambda>f. replaced c i (fa_chapter_version_id f) \<and> fa_status f = FactStatus_ACCEPTED)
       (\<lambda>f. f\<lparr>fa_status := FactStatus_SUPERSEDED\<rparr>) (nd_facts db)"
proof (cases "\<exists>old. replaced c i old")
  case True
  then obtain old where old: "ch_accepted_version_id c = Some old" "old \<noteq> i"
    by (auto simp: replaced_def)
  then have "replaced c i = (\<lambda>k. k = old)"
    by (auto simp: replaced_def fun_eq_iff)
  then show ?thesis
    by (simp add: supersede_previous_def save_version_def Let_def old split: option.split)
next
  case False
  then have "\<not> replaced c i k" for k by blast
  then show ?thesis
    by (cases "ch_accepted_version_id c") (auto simp: supersede_previous_def replaced_def update_where_False)
qed

lemma superseded_fact:
  assumes "f \<in> set (t_rows (nd_facts (supersede_previous memory c i db)))" and "fa_status f = FactStatus_ACCEPTED"
  shows "f \<in> set (t_rows (nd_facts db)) \<and> \<not> replaced c i (fa_chapter_version_id f)"
  using assms unfolding supersede_previous_facts rows_update_where by (auto split: if_splits)

text \<open>What the promotion leaves of the three tables.\<close>

definition promoted_version :: "int \<Rightarrow> chapter_row \<Rightarrow> chapter_version \<Rightarrow> time \<Rightarrow> chapter_version \<Rightarrow> chapter_version" where
  "promoted_version run_id c v now w =
     (let x = if replaced c (cv_id v) (cv_id w) then supersede_row w else w
      in if cv_id w = cv_id v then accepted_version_row v now
         else if cv_workflow_run_id x = Some run_id \<and> cv_status x \<notin> set final_version_statuses
         then x\<lparr>cv_status := ChapterVersionStatus_REJECTED\<rparr> else x)"

lemma promote_version:
  "get_version (promote memory db r v c p e now) i =
     map_option (promoted_version (wr_id r) c v now) (get_version db i)"
proof -
  have get: "get_version (promote memory db r v c p e now) i =
      get_version (save_version (reject_other_versions (wr_id r) (cv_id v)
        (supersede_previous memory c (cv_id v) db)) (accepted_version_row v now)) i" for i
    by (simp add: get_version_def promote_def Let_def save_version_def reject_other_versions_def
        resolve_other_conflicts_def reject_other_candidates_def promote_facts_def save_narrative_chapter_def
        save_workflow_def split: option.split)
  have reject: "get_version (reject_other_versions run_id k x) i =
      map_option (\<lambda>w. if cv_workflow_run_id w = Some run_id \<and> cv_id w \<noteq> k \<and> cv_status w \<notin> set final_version_statuses
        then w\<lparr>cv_status := ChapterVersionStatus_REJECTED\<rparr> else w) (get_version x i)" for run_id k x i
    by (simp add: get_version_def reject_other_versions_def get_update_where)
  show ?thesis
    by (cases "get_version db i"; cases "i = cv_id v")
       (auto simp: get get_version_save reject supersede_previous_version promoted_version_def Let_def
          accepted_version_row_def supersede_row_def dest: get_version_row split del: if_split split: if_splits)
qed

lemma promote_chapter:
  "nd_chapter (promote memory db r v c p e now) k =
     (if k = ch_id c then map_option (\<lambda>_. accepted_chapter_row c v e) (nd_chapter db k) else nd_chapter db k)"
proof -
  have "nd_chapters (promote memory db r v c p e now) =
      repo_save ch_id (nd_chapters db) (accepted_chapter_row c v e)"
    by (simp add: promote_def Let_def save_version_def reject_other_versions_def
        resolve_other_conflicts_def reject_other_candidates_def promote_facts_def save_narrative_chapter_def
        save_workflow_def split: option.split)
  then show ?thesis
    by (simp add: nd_chapter_def chapters.get_save accepted_chapter_row_def)
qed

lemma promote_fact:
  assumes "f \<in> set (t_rows (nd_facts (promote memory db r v c p e now)))" and "fa_status f = FactStatus_ACCEPTED"
  shows "fa_chapter_version_id f = cv_id v \<or>
    f \<in> set (t_rows (nd_facts db)) \<and> \<not> replaced c (cv_id v) (fa_chapter_version_id f)"
proof -
  have "nd_facts (promote memory db r v c p e now) =
      nd_facts (reject_other_candidates (wr_id r) (cv_id v)
        (promote_facts (cv_id v) (supersede_previous memory c (cv_id v) db)))"
    by (simp add: promote_def Let_def save_version_def reject_other_versions_def
        resolve_other_conflicts_def save_narrative_chapter_def save_workflow_def split: option.split)
  then show ?thesis
    using assms superseded_fact [of f memory c "cv_id v" db]
    by (auto simp: reject_other_candidates_def promote_facts_def rows_update_where split: if_splits)
qed

lemma promote_ok:
  assumes "table_ok cv_id (nd_versions db)" and "table_ok ch_id (nd_chapters db)"
  shows "table_ok cv_id (nd_versions (promote memory db r v c p e now)) \<and>
    table_ok ch_id (nd_chapters (promote memory db r v c p e now))"
proof -
  have "nd_versions (promote memory db r v c p e now) =
      repo_save cv_id (nd_versions (reject_other_versions (wr_id r) (cv_id v)
        (supersede_previous memory c (cv_id v) db))) (accepted_version_row v now)"
    by (simp add: promote_def Let_def save_version_def reject_other_versions_def
        resolve_other_conflicts_def reject_other_candidates_def promote_facts_def save_narrative_chapter_def
        save_workflow_def split: option.split)
  moreover have "nd_chapters (promote memory db r v c p e now) =
      repo_save ch_id (nd_chapters db) (accepted_chapter_row c v e)"
    by (simp add: promote_def Let_def save_version_def reject_other_versions_def
        resolve_other_conflicts_def reject_other_candidates_def promote_facts_def save_narrative_chapter_def
        save_workflow_def split: option.split)
  moreover have "table_ok cv_id (nd_versions (reject_other_versions (wr_id r) (cv_id v)
        (supersede_previous memory c (cv_id v) db)))"
    using supersede_previous_ok [OF assms(1)] by (simp add: reject_other_versions_def ok_update_where)
  ultimately show ?thesis
    using assms(2) by (simp add: versions.ok_save chapters.ok_save)
qed

lemma promoted_version_columns:
  "cv_chapter_id (promoted_version run_id c v now w) = (if cv_id w = cv_id v then cv_chapter_id v else cv_chapter_id w)"
  "is_accepted (promoted_version run_id c v now w) \<longleftrightarrow>
     cv_id w = cv_id v \<or> is_accepted w \<and> \<not> replaced c (cv_id v) (cv_id w)"
  by (auto simp: promoted_version_def Let_def accepted_version_row_def supersede_row_def is_accepted_def
      final_version_statuses_def)

lemma promote_keeps_canon:
  assumes canon: "canonical db" and v: "get_version db (cv_id v) = Some v"
    and c: "nd_chapter db (cv_chapter_id v) = Some c"
  shows "canonical (promote memory db r v c p e now)"
proof (rule canonicalI)
  note inv = canonicalD [OF canon]
  let ?db = "promote memory db r v c p e now" and ?f = "promoted_version (wr_id r) c v now"
  have id_c: "ch_id c = cv_chapter_id v" using nd_chapter_row [OF c] by simp
  show "table_ok cv_id (nd_versions ?db)" "table_ok ch_id (nd_chapters ?db)"
    using promote_ok [OF inv(1,2)] by blast+
  show "\<exists>w. get_version ?db a = Some w \<and> cv_chapter_id w = k"
    if k: "nd_chapter ?db k = Some d" and a: "ch_accepted_version_id d = Some a" for k d a
  proof (cases "k = ch_id c")
    case True
    with k a have "a = cv_id v" by (auto simp: promote_chapter accepted_chapter_row_def)
    with True v id_c show ?thesis by (simp add: promote_version promoted_version_columns)
  next
    case False
    then have "nd_chapter db k = Some d" using k by (simp add: promote_chapter)
    from inv(3) [OF this a] obtain w where "get_version db a = Some w" "cv_chapter_id w = k" "is_accepted w"
      by blast
    then have w: "get_version db a = Some w" "cv_chapter_id w = k" "cv_id w = a"
      using get_version_row by blast+
    then have "cv_id w = cv_id v \<Longrightarrow> w = v" using v by simp
    then show ?thesis using w by (auto simp: promote_version promoted_version_columns)
  qed
  show "is_accepted u \<longleftrightarrow> ch_accepted_version_id d = Some i"
    if u: "get_version ?db i = Some u" and d: "nd_chapter ?db (cv_chapter_id u) = Some d" for i u d
  proof -
    obtain w where w: "get_version db i = Some w" and uw: "u = ?f w"
      using u by (auto simp: promote_version)
    then have i: "cv_id w = i" using get_version_row by blast
    have same: "cv_id w = cv_id v \<Longrightarrow> w = v" using v w i by simp
    then have chap: "cv_chapter_id u = cv_chapter_id w"
      unfolding uw promoted_version_columns by auto
    show ?thesis
    proof (cases "cv_chapter_id w = ch_id c")
      case True
      then have "ch_accepted_version_id d = Some (cv_id v)"
        using d chap by (auto simp: promote_chapter accepted_chapter_row_def)
      moreover have "is_accepted w \<longleftrightarrow> ch_accepted_version_id c = Some i"
        using inv(4) [OF w] True c id_c by simp
      ultimately show ?thesis using i by (auto simp: uw promoted_version_columns replaced_def)
    next
      case False
      then have "is_accepted w \<longleftrightarrow> ch_accepted_version_id d = Some i"
        using inv(4) [OF w] d chap by (simp add: promote_chapter)
      moreover have "cv_id w \<noteq> cv_id v" using False same id_c by metis
      moreover have "\<not> replaced c (cv_id v) (cv_id w)"
        using inv(3) [OF c, of i] False w i id_c unfolding replaced_def by (metis option.inject)
      ultimately show ?thesis by (simp add: uw promoted_version_columns)
    qed
  qed
  show "\<exists>w. get_version ?db (fa_chapter_version_id f) = Some w \<and> is_accepted w"
    if f: "f \<in> set (t_rows (nd_facts ?db))" and acc: "fa_status f = FactStatus_ACCEPTED" for f
  proof (cases "fa_chapter_version_id f = cv_id v")
    case True
    then show ?thesis using v by (simp add: promote_version promoted_version_columns)
  next
    case False
    then have f: "f \<in> set (t_rows (nd_facts db))" "\<not> replaced c (cv_id v) (fa_chapter_version_id f)"
      using promote_fact [OF f acc] by blast+
    obtain w where w: "get_version db (fa_chapter_version_id f) = Some w" "is_accepted w"
      using inv(5) [OF f(1) acc] by blast
    then show ?thesis
      using f(2) get_version_row [OF w(1)] by (auto simp: promote_version promoted_version_columns)
  qed
qed

lemma accept_keeps_canon:
  assumes "canonical db" and "accept_txn memory db run version now = Inr (db', b)"
  shows "canonical db'"
proof -
  obtain r v where r: "nd_workflow db run = Some r" and v: "get_version db version = Some v"
    using assms(2) by (auto simp: accept_txn_def)
  then have vid: "get_version db (cv_id v) = Some v" using get_version_row [OF v] by simp
  show ?thesis
    using assms r v promote_keeps_canon [OF assms(1) vid] by (auto simp: accept_txn_def split: if_splits)
qed

section \<open>Rejection and hand-over\<close>

lemma reject_facts_keeps:
  "canonical db \<Longrightarrow> canonical (reject_facts_of i db)"
  unfolding reject_facts_of_def by (rule canonical_set_facts) (auto simp: rows_update_where split: if_splits)

lemma reject_candidates_keeps:
  "canonical db \<Longrightarrow> canonical (reject_run_candidates run db)"
  unfolding reject_run_candidates_def by (rule canonical_set_facts) (auto simp: rows_update_where split: if_splits)

lemma not_accepted_status: "cv_status v \<noteq> ChapterVersionStatus_ACCEPTED \<longleftrightarrow> \<not> is_accepted v"
  by (simp add: is_accepted_def)

lemma reject_keeps_canon:
  assumes "canonical db" and "get_version db version = Some v" and "\<not> is_accepted v"
    and "reject_revision db run version = Inr (db', b)"
  shows "canonical db'"
proof -
  let ?v = "v\<lparr>cv_status := ChapterVersionStatus_REJECTED\<rparr>"
  let ?db1 = "save_version db ?v"
  have "canonical ?db1"
    using assms(1-3) get_version_row [OF assms(2)]
    by (intro canonical_save_version) (auto simp: same_canon_def is_accepted_def)
  then have db2: "canonical (reject_facts_of (cv_id v) ?db1)" by (rule reject_facts_keeps)
  have same: "nd_chapter (reject_facts_of (cv_id v) ?db1) = nd_chapter db"
    by (simp add: reject_facts_of_def)
  have step: "canonical (save_narrative_chapter x (c\<lparr>ch_current_version_id := Some k, ch_status := s\<rparr>))"
    if "canonical x" and "nd_chapter x j = Some c" for x c k s j
    using that nd_chapter_row [OF that(2)] by (intro canonical_save_chapter) auto
  show ?thesis
    using assms(2,4) db2 step by (auto simp: reject_revision_def Let_def same split: option.splits)
qed

lemma reject_others_keeps:
  assumes "canonical db"
  shows "canonical (reject_other_versions run i db)"
  unfolding reject_other_versions_def
  by (rule canonical_update_versions [OF assms])
     (auto simp: same_canon_def is_accepted_def final_version_statuses_def)

lemma review_keeps_canon:
  assumes "canonical db" and "mark_needs_review db run now = Inr (db', best)"
    and "get_version db best = Some v" and "\<not> is_accepted v"
  shows "canonical db'"
proof -
  obtain r c where r: "nd_workflow db run = Some r" "wr_best_version_id r = Some best"
    and c: "nd_chapter db (cv_chapter_id v) = Some c"
    using assms(2,3) get_version_row by (fastforce simp: mark_needs_review_def Let_def)
  have id: "cv_id v = best" using get_version_row [OF assms(3)] by simp
  let ?db1 = "save_version db (v\<lparr>cv_status := ChapterVersionStatus_NEEDS_REVIEW\<rparr>)"
  have "canonical ?db1"
    using assms(1,3,4) id by (intro canonical_save_version) (auto simp: same_canon_def is_accepted_def)
  then have "canonical (save_narrative_chapter ?db1 (review_chapter_row c v))"
    using nd_chapter_row [OF c] c by (intro canonical_save_chapter) (auto simp: review_chapter_row_def)
  then have "canonical (reject_run_candidates run (save_workflow
      (save_narrative_chapter ?db1 (review_chapter_row c v)) (review_run_row r (cv_id v) now)))"
    by (intro reject_candidates_keeps) simp
  then show ?thesis
    using assms(2,3) r c reject_others_keeps by (auto simp: mark_needs_review_def Let_def)
qed

end
