(* ===== verification/Version_Properties.thy ===== *)
theory Version_Properties
  imports Version_Steps
begin

text \<open>
  The properties of chapter versions: the canon under every history of transactions, what an acceptance
  commits and that it is safe to replay, when a comparison accepts, that the best version of a run
  never gets worse, the bounds of a revision brief, and what handing an accepted version to a human
  does to the canon.
\<close>

section \<open>Taking the status accepted from a version\<close>

lemma reviewed_frame:
  "nd_chapter (reject_other_versions run_id i (reject_run_candidates k (save_workflow db w))) = nd_chapter db"
  "get_version (reject_other_versions run_id i (reject_run_candidates k (save_workflow db w))) i =
     get_version db i"
proof -
  show "nd_chapter (reject_other_versions run_id i (reject_run_candidates k (save_workflow db w))) = nd_chapter db"
    by (simp add: reject_other_versions_def reject_run_candidates_def)
  have "get_version (reject_other_versions run_id i x) i = get_version x i" for x
    by (cases "get_version x i")
       (auto simp: get_version_def reject_other_versions_def get_update_where dest: versions.get_Some)
  then show "get_version (reject_other_versions run_id i (reject_run_candidates k (save_workflow db w))) i =
      get_version db i"
    by (simp add: reject_run_candidates_def)
qed

text \<open>
  A run whose best version is the accepted version of its chapter (a run over an existing chapter
  starts with that as best version) and that ends in human review takes the status accepted from
  the version, while the chapter goes on naming it as its accepted version: the canon is broken.
\<close>

theorem review_breaks_canon:
  assumes "mark_needs_review db run_id now = Inr (db', best)" and "canonical db" and "version_accepted db best"
  shows "\<exists>v c. get_version db' best = Some v \<and> cv_status v = ChapterVersionStatus_NEEDS_REVIEW \<and>
    nd_chapter db' (cv_chapter_id v) = Some c \<and> ch_accepted_version_id c = Some best \<and> \<not> canonical db'"
proof -
  obtain r v c where v: "get_version db best = Some v" and c: "nd_chapter db (cv_chapter_id v) = Some c"
    and db': "db' = reject_other_versions run_id (cv_id v) (reject_run_candidates run_id (save_workflow
      (save_narrative_chapter (save_version db (v\<lparr>cv_status := ChapterVersionStatus_NEEDS_REVIEW\<rparr>))
        (review_chapter_row c v)) (review_run_row r (cv_id v) now)))"
    using assms(1) get_version_row by (fastforce simp: mark_needs_review_def Let_def)
  have id: "cv_id v = best" "ch_id c = cv_chapter_id v"
    using get_version_row [OF v] nd_chapter_row [OF c] by blast+
  let ?v = "v\<lparr>cv_status := ChapterVersionStatus_NEEDS_REVIEW\<rparr>"
  have accepted: "ch_accepted_version_id c = Some best"
    using canonicalD(4) [OF assms(2) v c] assms(3) v by (simp add: version_accepted_def)
  have v': "get_version db' best = Some ?v"
    unfolding db' id(1) reviewed_frame by (simp add: get_version_save v id)
  have c': "nd_chapter db' (cv_chapter_id ?v) = Some (review_chapter_row c v)"
    unfolding db' reviewed_frame by (simp add: nd_chapter_save c id review_chapter_row_def)
  have "\<not> canonical db'"
    using canonicalD(4) [OF _ v' c'] accepted by (auto simp: is_accepted_def review_chapter_row_def)
  then show ?thesis
    using v' c' accepted by (intro exI [of _ ?v] exI [of _ "review_chapter_row c v"]) (simp add: review_chapter_row_def)
qed

text \<open>
  A rejection of an accepted version (the code does not look at the status) leaves the chapter naming
  a rejected version: the canon is broken.
\<close>

lemma rejected_frame:
  "nd_chapter (reject_facts_of i x) = nd_chapter x"
  "get_version (reject_facts_of i x) = get_version x"
  "nd_chapter (case k of None \<Rightarrow> x | Some revised \<Rightarrow> save_revision x (f revised)) = nd_chapter x"
  "get_version (case k of None \<Rightarrow> x | Some revised \<Rightarrow> save_revision x (f revised)) = get_version x"
  by (auto simp: reject_facts_of_def save_revision_def split: option.split)

theorem reject_breaks_canon:
  assumes rejected: "reject_revision db run_id i = Inr (db', best)" and "canonical db" and "version_accepted db i"
  shows "\<not> canonical db'"
proof
  assume canon: "canonical db'"
  obtain r v where v: "get_version db i = Some v" and ok: "ndb_ok db'"
    using rejected by (auto simp: reject_revision_def Let_def)
  have id: "cv_id v = i" using get_version_row [OF v] by simp
  let ?v = "v\<lparr>cv_status := ChapterVersionStatus_REJECTED\<rparr>"
  have v': "get_version db' i = Some ?v"
    using rejected v id
    by (auto simp: reject_revision_def Let_def rejected_frame get_version_save split: option.splits)
  then have "nd_chapter db' (cv_chapter_id v) \<noteq> None"
    using ok get_version_row [OF v'] by (auto simp: ndb_ok_def versions_ok_def)
  then obtain c' where c': "nd_chapter db' (cv_chapter_id v) = Some c'" by blast
  then obtain c where c: "nd_chapter db (cv_chapter_id v) = Some c" "ch_accepted_version_id c' = ch_accepted_version_id c"
    using rejected v nd_chapter_row
    by (auto simp: reject_revision_def Let_def rejected_frame nd_chapter_save split: option.splits if_splits)
  have "ch_accepted_version_id c = Some i"
    using canonicalD(4) [OF assms(2) v c(1)] assms(3) v by (simp add: version_accepted_def)
  then show False
    using canonicalD(4) [OF canon v'] c c' by (auto simp: is_accepted_def)
qed

section \<open>Histories\<close>

text \<open>
  A transaction of the service; the label says whether it took the status accepted from a version: a
  rejection of an accepted version, or a hand-over of a run whose best version is accepted. The code
  guards neither.
\<close>

inductive version_step :: "ndb \<Rightarrow> bool \<Rightarrow> ndb \<Rightarrow> bool" where
  drafted: "draft_txn db project_id number run_id d now = Inr (db', a) \<Longrightarrow> version_step db False db'"
| extracted: "extraction_txn hash db project_id version_id run_id x = Inr (db', a') \<Longrightarrow> version_step db False db'"
| revised: "revise_txn db run_id source_id brief d now = Inr (db', a) \<Longrightarrow> version_step db False db'"
| compared: "compare_versions m db run_id old_id new_id attempt limit = Inr (db', r) \<Longrightarrow> version_step db False db'"
| accepted: "accept_txn memory db run_id version_id now = Inr (db', b) \<Longrightarrow> version_step db False db'"
| rejected: "reject_revision db run_id version_id = Inr (db', best) \<Longrightarrow>
    version_step db (version_accepted db version_id) db'"
| reviewed: "mark_needs_review db run_id now = Inr (db', best) \<Longrightarrow>
    version_step db (version_accepted db best) db'"

inductive version_history :: "ndb \<Rightarrow> bool list \<Rightarrow> ndb \<Rightarrow> bool" where
  no_step: "version_history db [] db"
| one_more: "version_history db ls db1 \<Longrightarrow> version_step db1 l db2 \<Longrightarrow> version_history db (ls @ [l]) db2"

lemma not_version_accepted: "\<not> version_accepted db i \<Longrightarrow> get_version db i = Some v \<Longrightarrow> \<not> is_accepted v"
  by (simp add: version_accepted_def)

lemma reviewed_version: "mark_needs_review db run_id now = Inr (db', best) \<Longrightarrow> \<exists>v. get_version db best = Some v"
  using get_version_row by (fastforce simp: mark_needs_review_def Let_def)

lemma rejected_version: "reject_revision db run_id i = Inr (db', best) \<Longrightarrow> \<exists>v. get_version db i = Some v"
  by (auto simp: reject_revision_def)

lemma step_keeps_canon:
  assumes "version_step db l db'" and "canonical db" and "\<not> l"
  shows "canonical db'"
  using assms(1)
proof cases
  case drafted
  then show ?thesis using draft_keeps_canon [OF assms(2)] by blast
next
  case extracted
  then show ?thesis using extraction_keeps_canon [OF assms(2)] by blast
next
  case revised
  then show ?thesis using revise_keeps_canon [OF assms(2)] by blast
next
  case compared
  then show ?thesis using compare_keeps_canon [OF assms(2)] by blast
next
  case accepted
  then show ?thesis using accept_keeps_canon [OF assms(2)] by blast
next
  case (rejected run i best)
  then show ?thesis
    using reject_keeps_canon [OF assms(2)] rejected_version not_version_accepted assms(3) by metis
next
  case (reviewed run now best)
  then show ?thesis
    using review_keeps_canon [OF assms(2)] reviewed_version not_version_accepted assms(3) by metis
qed

lemma step_breaks_canon:
  assumes "version_step db l db'" and "canonical db" and "l"
  shows "\<not> canonical db'"
  using assms(1)
proof cases
  case (rejected run i best)
  then show ?thesis using reject_breaks_canon [OF _ assms(2)] assms(3) by blast
next
  case (reviewed run now best)
  then show ?thesis using review_breaks_canon [OF _ assms(2)] assms(3) by blast
qed (use assms(3) in simp_all)

lemma history_keeps_canon:
  "version_history db ls db' \<Longrightarrow> canonical db \<Longrightarrow> True \<notin> set ls \<Longrightarrow> canonical db'"
  by (induction rule: version_history.induct) (auto intro: step_keeps_canon)

text \<open>
  C24. Whatever sequence of drafts, extractions, revisions, comparisons, acceptances, rejections and
  hand-overs the service commits, none of which rejects or hands over an accepted version, each
  chapter has at most one accepted version, the one it names, and every accepted fact belongs to an
  accepted version; and the next transaction keeps this if and only if it does not reject or hand
  over an accepted version.
\<close>

theorem canon_is_preserved:
  assumes "canonical db" and "version_history db ls db1" and "True \<notin> set ls"
  shows "canonical db1 \<and> (\<forall>l db2. version_step db1 l db2 \<longrightarrow> (canonical db2 \<longleftrightarrow> \<not> l))"
  using history_keeps_canon [OF assms(2,1,3)] step_keeps_canon step_breaks_canon by blast

section \<open>What an acceptance commits\<close>

definition shows_version :: "chapter_row \<Rightarrow> chapter_version \<Rightarrow> rat \<Rightarrow> bool" where
  "shows_version c v score \<longleftrightarrow> ch_accepted_version_id c = Some (cv_id v) \<and>
     ch_current_version_id c = Some (cv_id v) \<and> ch_version c = cv_version v \<and> ch_title c = cv_title v \<and>
     ch_content c = cv_content v \<and> ch_summary c = Some (cv_summary v) \<and> ch_score c = Some score \<and>
     ch_status c = ChapterStatus_ACCEPTED"

lemma promote_workflow:
  "nd_workflow (promote memory db r v c p e now) i =
     (if i = wr_id r then map_option (\<lambda>_. accepted_run_row r (cv_id v) now) (nd_workflow db i) else nd_workflow db i)"
proof -
  have chars: "nd_workflow_runs (apply_character_updates k us x) = nd_workflow_runs x" for k us x
    by (induction us arbitrary: x)
       (simp_all add: apply_character_updates_def apply_character_update_def split: option.split)
  have one: "nd_workflow_runs (apply_foreshadowing_update k n x u) = nd_workflow_runs x" for k n x u
    unfolding apply_foreshadowing_update_def Let_def by (simp split: option.split)
  have fores: "nd_workflow_runs (apply_foreshadowing_updates k n us x) = nd_workflow_runs x" for k n us x
    by (induction us arbitrary: x) (simp_all add: apply_foreshadowing_updates_def one)
  have sup: "nd_workflow_runs (supersede_previous m d i x) = nd_workflow_runs x" for m d i x
    by (simp add: supersede_previous_def save_version_def supersede_memory_def Let_def split: option.split)
  have rev_frame: "nd_workflow_runs (accept_revision i x) = nd_workflow_runs x" for i x
    by (simp add: accept_revision_def save_revision_def split: option.split)
  have pend: "nd_workflow_runs (ensure_pending m k i t x) = nd_workflow_runs x" for m k i t x
    by (simp add: ensure_pending_def split: option.split)
  have "nd_workflow_runs (promote memory db r v c p e now) =
      repo_save wr_id (nd_workflow_runs db) (accepted_run_row r (cv_id v) now)"
    by (simp add: promote_def Let_def save_version_def reject_other_versions_def chars fores sup rev_frame pend
        resolve_other_conflicts_def reject_other_candidates_def promote_facts_def save_narrative_chapter_def
        save_workflow_def split: option.split)
  then show ?thesis
    by (simp add: nd_workflow_def workflow_runs.get_save accepted_run_row_def)
qed

lemma promoted_facts:
  assumes "f \<in> set (t_rows (nd_facts (promote memory db r v c p e now)))" and "fa_chapter_version_id f = cv_id v"
  shows "fa_status f = FactStatus_ACCEPTED"
proof -
  have "nd_facts (promote memory db r v c p e now) =
      nd_facts (reject_other_candidates (wr_id r) (cv_id v)
        (promote_facts (cv_id v) (supersede_previous memory c (cv_id v) db)))"
    by (simp add: promote_def Let_def save_version_def reject_other_versions_def
        resolve_other_conflicts_def save_narrative_chapter_def save_workflow_def split: option.split)
  then show ?thesis
    using assms by (auto simp: reject_other_candidates_def promote_facts_def rows_update_where split: if_splits)
qed

lemma accept_txn_promotes:
  assumes "accept_txn memory db run_id version_id now = Inr (db', True)"
  obtains r v c p e where "nd_workflow db run_id = Some r" "get_version db version_id = Some v"
    "nd_chapter db (cv_chapter_id v) = Some c" "latest_evaluation db (cv_id v) = Some e" "ev_passed e"
    "db' = promote memory db r v c p e now" "ndb_ok db'"
  using assms by (auto simp: accept_txn_def split: if_splits)

text \<open>
  C25. When \<open>accept_version\<close> promotes, the latest evaluation of the version has passed; afterwards the chapter shows
  exactly the text, title, summary and score of that version, the version and all its facts are
  accepted, and the run is completed with it.
\<close>

theorem acceptance_promotes:
  assumes "accept_txn memory db run_id version_id now = Inr (db', True)"
  shows "\<exists>v e c r. get_version db version_id = Some v \<and> latest_evaluation db version_id = Some e \<and> ev_passed e \<and>
    nd_chapter db' (cv_chapter_id v) = Some c \<and> shows_version c v (ev_overall_score e) \<and>
    version_accepted db' version_id \<and>
    list_all (\<lambda>f. fa_status f = FactStatus_ACCEPTED)
      (filter (\<lambda>f. fa_chapter_version_id f = version_id) (t_rows (nd_facts db'))) \<and>
    nd_workflow db' run_id = Some r \<and> wr_status r = WorkflowRunStatus_COMPLETED \<and>
    wr_accepted_version_id r = Some version_id"
proof -
  obtain r v c p e where r: "nd_workflow db run_id = Some r" and v: "get_version db version_id = Some v"
    and c: "nd_chapter db (cv_chapter_id v) = Some c" and e: "latest_evaluation db (cv_id v) = Some e" "ev_passed e"
    and db': "db' = promote memory db r v c p e now"
    by (rule accept_txn_promotes [OF assms])
  have ids: "cv_id v = version_id" "ch_id c = cv_chapter_id v" "wr_id r = run_id"
    using get_version_row [OF v] nd_chapter_row [OF c] nd_workflow_row [OF r] by blast+
  have "nd_chapter db' (cv_chapter_id v) = Some (accepted_chapter_row c v e)"
    using c ids by (simp add: db' promote_chapter)
  moreover have "shows_version (accepted_chapter_row c v e) v (ev_overall_score e)"
    by (simp add: shows_version_def accepted_chapter_row_def)
  moreover have "version_accepted db' version_id"
    using v ids by (simp add: db' version_accepted_def promote_version promoted_version_columns)
  moreover have "list_all (\<lambda>f. fa_status f = FactStatus_ACCEPTED)
      (filter (\<lambda>f. fa_chapter_version_id f = version_id) (t_rows (nd_facts db')))"
    using promoted_facts [of _ memory db r v c p e now] ids by (auto simp: list_all_iff db')
  moreover have "nd_workflow db' run_id = Some (accepted_run_row r version_id now)"
    using r ids by (simp add: db' promote_workflow)
  ultimately show ?thesis
    using v e ids by (auto simp: accepted_run_row_def)
qed

lemma acceptance_run:
  assumes "accept_txn memory db run_id version_id now = Inr (db', True)"
  shows "\<exists>r. nd_workflow db' run_id = Some r \<and> wr_status r = WorkflowRunStatus_COMPLETED \<and>
    wr_accepted_version_id r = Some version_id"
proof -
  obtain r v c p e where r: "nd_workflow db run_id = Some r" and v: "get_version db version_id = Some v"
    and db': "db' = promote memory db r v c p e now"
    by (rule accept_txn_promotes [OF assms])
  then show ?thesis
    using get_version_row [OF v] nd_workflow_row [OF r] by (simp add: promote_workflow accepted_run_row_def)
qed

text \<open>Replaying an acceptance changes nothing, whatever the clock and the memory service.\<close>

lemma acceptance_replay:
  assumes "accept_txn memory db run_id version_id now = Inr (db', b)"
  shows "accept_txn memory' db' run_id version_id later = Inr (db', False)"
proof (cases b)
  case True
  then obtain r v c p e where r: "nd_workflow db run_id = Some r" and v: "get_version db version_id = Some v"
    and db': "db' = promote memory db r v c p e now" and ok: "ndb_ok db'"
    using accept_txn_promotes assms by metis
  have ids: "cv_id v = version_id" "wr_id r = run_id"
    using get_version_row [OF v] nd_workflow_row [OF r] by blast+
  have "nd_workflow db' run_id = Some (accepted_run_row r version_id now)"
    using r ids by (simp add: db' promote_workflow)
  moreover have "get_version db' version_id = Some (accepted_version_row v now)"
    using v ids by (simp add: db' promote_version promoted_version_def)
  ultimately show ?thesis
    using ok ids by (simp add: accept_txn_def accepted_run_row_def accepted_version_row_def)
next
  case False
  with assms have "db' = db" and "accept_txn memory db run_id version_id now = Inr (db, False)"
    by (auto simp: accept_txn_def split: if_splits)
  then show ?thesis by (auto simp: accept_txn_def split: if_splits)
qed

section \<open>Comparisons\<close>

lemma first_decision_accept:
  "fst (first_decision m old new at_limit) = Accept_New \<Longrightarrow>
   es_passed new \<and> es_blocking_reasons new = [] \<and> es_critical_conflicts new = 0 \<and>
   es_critical_conflicts new \<le> es_critical_conflicts old"
  by (auto simp: first_decision_def Let_def split: if_splits)

lemma first_decision_limit: "fst (first_decision m old new True) \<noteq> Keep_Old_Retry"
  by (simp add: first_decision_def Let_def)

lemma compare_decision:
  "vr_decision (compare m old new brief attempt limit) =
     (let first = fst (first_decision m old new (limit \<le> attempt)) in
      if first = Accept_New \<and> list_ex (\<lambda>c. c \<in> set (es_issue_codes new)) (requested_codes brief)
      then (if limit \<le> attempt then Human_Review_Needed else Keep_Old_Retry) else first)"
  by (cases "first_decision m old new (limit \<le> attempt)") (simp add: compare_def Let_def)

text \<open>
  C26. The decision of a comparison: it accepts exactly a passing version without blocking reasons and
  critical conflicts that leaves none of the requested critical or high issues, keeps the old version
  for good only when the new one has more critical conflicts, and asks for another attempt only
  below the limit of attempts.
\<close>

theorem comparison_decides:
  "(vr_decision (compare m old new brief attempt limit) = Accept_New \<longleftrightarrow>
      es_passed new \<and> es_blocking_reasons new = [] \<and> es_critical_conflicts new = 0 \<and>
      es_critical_conflicts new \<le> es_critical_conflicts old \<and>
      \<not> list_ex (\<lambda>c. c \<in> set (es_issue_codes new)) (requested_codes brief)) \<and>
   (vr_decision (compare m old new brief attempt limit) = Keep_Old_Stop \<longleftrightarrow>
      es_critical_conflicts old < es_critical_conflicts new \<and> attempt < limit) \<and>
   \<not> (vr_decision (compare m old new brief attempt limit) = Keep_Old_Retry \<and> limit \<le> attempt) \<and>
   \<not> (vr_decision (compare m old new brief attempt limit) = Human_Review_Needed \<and> attempt < limit)"
  by (auto simp: compare_decision first_decision_def Let_def)

section \<open>The best version of a run\<close>

lemma evaluation_frame:
  assumes "nd_evaluations db' = nd_evaluations db" and "nd_conflicts db' = nd_conflicts db"
  shows "latest_evaluation db' = latest_evaluation db" and "evaluation_rank db' = evaluation_rank db"
  by (simp_all add: fun_eq_iff latest_evaluation_def evaluation_rank_def conflicts_of_severity_def
      conflicts_of_evaluation_def assms)

lemma better_version:
  assumes "latest_evaluation db b = Some e" and "latest_evaluation db k = Some f"
  shows "\<exists>g. latest_evaluation db (better_version_id db (Some b) k) = Some g \<and>
    evaluation_rank db g = max (evaluation_rank db e) (evaluation_rank db f)"
  using assms by (auto simp: better_version_id_def max_def)

text \<open>
  C27. A comparison leaves as the run's best version the old best version or the new one, and its
  evaluation ranks as the better of the two: fewer critical conflicts first, then fewer blocking
  reasons, then the scores. The best version never gets worse.
\<close>

theorem best_version_never_worse:
  assumes "compare_versions m db run_id old_id new_id attempt limit = Inr (db', result)"
    and "comparison_for_new_version db run_id new_id = None"
    and "nd_workflow db run_id = Some r" and "wr_best_version_id r = Some b" and "latest_evaluation db b = Some e"
  shows "\<exists>r' b' e' f. nd_workflow db' run_id = Some r' \<and> wr_best_version_id r' = Some b' \<and> b' \<in> {b, new_id} \<and>
    latest_evaluation db' b' = Some e' \<and> latest_evaluation db new_id = Some f \<and>
    evaluation_rank db' e' = max (evaluation_rank db e) (evaluation_rank db f)"
proof -
  obtain old_eval f rv old new where f: "latest_evaluation db new_id = Some f"
    and db': "db' = (let db2 = save_revision (db\<lparr>nd_comparisons := fst (repo_add (\<lambda>i r. r\<lparr>vc_id := i\<rparr>) (nd_comparisons db)
        \<lparr>vc_id = 0, vc_workflow_run_id = run_id,
         vc_result = (compare m old new (rv_brief rv) attempt limit)\<lparr>vr_old_version_id := old_id, vr_new_version_id := new_id\<rparr>\<rparr>)\<rparr>)
          (rv\<lparr>rv_score_after := ev_overall_score f, rv_status := ''compared''\<rparr>)
      in (case nd_workflow db2 run_id of None \<Rightarrow> db2
          | Some r \<Rightarrow> save_workflow db2
              (r\<lparr>wr_best_version_id := Some (better_version_id db2 (wr_best_version_id r) new_id)\<rparr>)))"
    using assms(1,2) by (auto simp: compare_versions_def Let_def)
  define db2 where "db2 = save_revision (db\<lparr>nd_comparisons := fst (repo_add (\<lambda>i r. r\<lparr>vc_id := i\<rparr>) (nd_comparisons db)
        \<lparr>vc_id = 0, vc_workflow_run_id = run_id,
         vc_result = (compare m old new (rv_brief rv) attempt limit)\<lparr>vr_old_version_id := old_id, vr_new_version_id := new_id\<rparr>\<rparr>)\<rparr>)
          (rv\<lparr>rv_score_after := ev_overall_score f, rv_status := ''compared''\<rparr>)"
  have run: "nd_workflow db2 run_id = Some r"
    using assms(3) by (simp add: db2_def save_revision_def nd_workflow_def)
  have "nd_evaluations db2 = nd_evaluations db" "nd_conflicts db2 = nd_conflicts db"
    by (simp_all add: db2_def save_revision_def)
  note frame2 = evaluation_frame [OF this]
  let ?b = "better_version_id db2 (Some b) new_id"
  let ?r = "r\<lparr>wr_best_version_id := Some ?b\<rparr>"
  have final: "db' = save_workflow db2 ?r"
    by (simp add: db' db2_def [symmetric] run Let_def assms(4))
  have "nd_evaluations db' = nd_evaluations db2" "nd_conflicts db' = nd_conflicts db2"
    by (simp_all add: final save_workflow_def)
  note frame = evaluation_frame [OF this]
  obtain g where g: "latest_evaluation db2 ?b = Some g"
    "evaluation_rank db2 g = max (evaluation_rank db2 e) (evaluation_rank db2 f)"
    using better_version [of db2 b e new_id f] assms(5) f by (auto simp: frame2)
  have "nd_workflow db' run_id = Some ?r"
    using run nd_workflow_row [OF run] workflow_runs.get_save [of "nd_workflow_runs db2" ?r run_id]
    by (simp add: final nd_workflow_def save_workflow_def)
  moreover have "?b \<in> {b, new_id}"
    by (auto simp: better_version_id_def split: option.split)
  ultimately show ?thesis
    using g f by (auto simp: frame frame2)
qed

section \<open>Briefs\<close>

lemma put_issue_codes:
  "distinct (map ri_code xs) \<Longrightarrow> distinct (map ri_code (put_issue i xs)) \<and>
   set (map ri_code (put_issue i xs)) = insert (ri_code i) (set (map ri_code xs))"
  by (induction xs) auto

lemma unique_issues_codes:
  "distinct (map ri_code (unique_issues xs)) \<and> set (map ri_code (unique_issues xs)) = ri_code ` set xs"
proof (induction xs rule: rev_induct)
  case Nil
  then show ?case by (simp add: unique_issues_def)
next
  case (snoc x xs)
  then show ?case
    using put_issue_codes [of "unique_issues xs" x] by (simp add: unique_issues_def)
qed

lemma ordered_issues_bounds:
  "distinct (map ri_code (ordered_issues config xs)) \<and> sorted (map issue_key (ordered_issues config xs)) \<and>
   length (ordered_issues config xs) \<le> nat (bc_max_instructions config)"
proof -
  have "distinct (map ri_code (sort_key issue_key (unique_issues xs)))"
    using unique_issues_codes [of xs] by (simp add: distinct_map inj_on_def)
  then show ?thesis
    by (simp add: ordered_issues_def take_map [symmetric] sorted_wrt_take)
qed

lemma strip_idem: "strip (strip s) = strip s"
proof -
  define u where "u = dropWhile is_space s"
  define v where "v = rev (dropWhile is_space (rev u))"
  have prefix: "u = v @ rev (takeWhile is_space (rev u))"
    unfolding v_def by (metis rev_append rev_rev_ident takeWhile_dropWhile_id)
  have first: "u = [] \<or> \<not> is_space (hd u)"
    unfolding u_def by (metis hd_dropWhile)
  have "dropWhile is_space v = v"
  proof (cases v)
    case (Cons a w)
    then have "hd u = a" using prefix by (metis append_Cons list.sel(1))
    then show ?thesis using first Cons prefix by auto
  qed simp
  then have "strip v = v"
    unfolding strip_def by (simp add: v_def)
  then show ?thesis by (simp add: strip_def u_def v_def)
qed

lemma made_issue: "make_issue raw = Inr i \<Longrightarrow> strip (ri_code i) = ri_code i"
  by (auto simp: make_issue_def Let_def strip_idem split: if_splits)

definition instruction_of :: "int \<times> revision_issue \<Rightarrow> revision_instruction \<Rightarrow> bool" where
  "instruction_of ki n \<longleftrightarrow> rn_priority n = fst ki \<and> rn_code n = strip (ri_code (snd ki)) \<and>
     rn_severity n = ri_severity (snd ki)"

lemma made_instruction: "make_instruction (instruction_for keep avoid k i) = Inr n \<Longrightarrow> instruction_of (k, i) n"
  by (auto simp: make_instruction_def instruction_for_def instruction_of_def Let_def split: if_splits)

lemma build_brief_instructions:
  assumes "build_brief config ch v attempt obj issues keep avoid words improved = Inr b"
    and "\<And>i. i \<in> set issues \<Longrightarrow> strip (ri_code i) = ri_code i"
  defines "os \<equiv> ordered_issues config issues"
  shows "map rn_code (rb_instructions b) = map ri_code os \<and> map rn_severity (rb_instructions b) = map ri_severity os \<and>
    map rn_priority (rb_instructions b) = [1..int (length os)] \<and> length (rb_instructions b) = length os"
proof -
  obtain ns where ns: "map_result (\<lambda>(k, i). make_instruction (instruction_for keep avoid k i))
      (zip [1..int (length os)] os) = Inr ns" and b: "rb_instructions b = ns"
    using assms(1) by (auto simp: build_brief_def make_brief_def Let_def os_def split: if_splits)
  have rel: "list_all2 instruction_of (zip [1..int (length os)] os) ns"
    using map_result_InrD [OF ns] by (rule list_all2_mono) (auto dest: made_instruction)
  have len: "length ns = length os" using list_all2_lengthD [OF rel] by simp
  have sub: "set os \<subseteq> set issues"
  proof -
    have "set (put_issue x xs) \<subseteq> insert x (set xs)" for x xs
      by (induction xs) auto
    then have "set (unique_issues xs) \<subseteq> set xs" for xs
      by (induction xs rule: rev_induct) (auto simp: unique_issues_def)
    then have "set (unique_issues issues) \<subseteq> set issues" .
    then show ?thesis by (auto simp: os_def ordered_issues_def dest!: in_set_takeD)
  qed
  have each: "instruction_of (int k + 1, os ! k) (ns ! k)" if "k < length os" for k
    using list_all2_nthD [OF rel, of k] that by (simp add: nth_upto add.commute)
  have "rn_code (ns ! k) = ri_code (os ! k)" if "k < length os" for k
    using each [OF that] that sub assms(2) nth_mem [OF that] by (fastforce simp: instruction_of_def)
  moreover have "rn_severity (ns ! k) = ri_severity (os ! k)" if "k < length os" for k
    using each [OF that] by (simp add: instruction_of_def)
  moreover have "rn_priority (ns ! k) = [1..int (length os)] ! k" if "k < length os" for k
    using each [OF that] that by (simp add: instruction_of_def nth_upto)
  ultimately show ?thesis by (auto simp: b len intro!: nth_equalityI)
qed

lemma left_out_issues:
  assumes "i \<in> set (unique_issues issues)" and "ri_code i \<notin> set (map ri_code (ordered_issues config issues))"
    and "0 \<le> bc_max_instructions config"
  shows "int (length (ordered_issues config issues)) = bc_max_instructions config \<and>
    (\<forall>j \<in> set (ordered_issues config issues). severity_order (ri_severity j) \<le> severity_order (ri_severity i))"
proof -
  let ?s = "sort_key issue_key (unique_issues issues)" and ?k = "nat (bc_max_instructions config)"
  have "i \<in> set (take ?k ?s) \<or> i \<in> set (drop ?k ?s)"
    using assms(1) by (metis Un_iff append_take_drop_id set_append set_sort)
  then have i: "i \<in> set (drop ?k ?s)"
    using assms(2) by (auto simp: ordered_issues_def)
  have "sorted (map issue_key (take ?k ?s) @ map issue_key (drop ?k ?s))"
    by (metis append_take_drop_id map_append sorted_sort_key)
  then have "issue_key j \<le> issue_key i" if "j \<in> set (take ?k ?s)" for j
    using that i by (auto simp: sorted_append)
  then have "severity_order (ri_severity j) \<le> severity_order (ri_severity i)" if "j \<in> set (take ?k ?s)" for j
    using that by (fastforce simp: issue_key_def less_eq_prod_def)
  moreover have "?k \<le> length ?s" using i by (metis drop_all empty_iff list.set(1) nle_le)
  ultimately show ?thesis using assms(3) by (simp add: ordered_issues_def)
qed

text \<open>
  A revision brief asks for at most \<open>max_instructions\<close> (three to five) changes, numbered from one, with
  distinct codes and in order of severity; an issue is left out only when that many issues at
  least as severe are asked for; the word range is not empty and positive.
\<close>

theorem brief_is_bounded:
  assumes "make_brief_config k tolerance = Inr config" and "map_result make_issue raws = Inr issues"
    and "build_brief config ch v attempt obj issues keep avoid words improved = Inr b"
  shows "int (length (rb_instructions b)) \<le> k \<and> k \<le> 5 \<and>
    map rn_priority (rb_instructions b) = [1..int (length (rb_instructions b))] \<and>
    distinct (map rn_code (rb_instructions b)) \<and>
    sorted (map (\<lambda>n. severity_order (rn_severity n)) (rb_instructions b)) \<and>
    (\<forall>i \<in> set (unique_issues issues). ri_code i \<in> set (map rn_code (rb_instructions b)) \<or>
       int (length (rb_instructions b)) = k \<and>
       (\<forall>n \<in> set (rb_instructions b). severity_order (rn_severity n) \<le> severity_order (ri_severity i))) \<and>
    0 < fst (rb_target_word_range b) \<and> fst (rb_target_word_range b) \<le> snd (rb_target_word_range b)"
proof -
  let ?os = "ordered_issues config issues"
  have k: "3 \<le> k" "k \<le> 5" "bc_max_instructions config = k"
    using assms(1) by (auto simp: make_brief_config_def split: if_splits)
  have stripped: "strip (ri_code i) = ri_code i" if i: "i \<in> set issues" for i
  proof -
    obtain j where j: "j < length issues" "i = issues ! j" using i by (auto simp: in_set_conv_nth)
    then show ?thesis
      using list_all2_nthD2 [OF map_result_InrD [OF assms(2)] j(1)] made_issue by simp
  qed
  have ns: "map rn_code (rb_instructions b) = map ri_code ?os" "map rn_severity (rb_instructions b) = map ri_severity ?os"
    "map rn_priority (rb_instructions b) = [1..int (length ?os)]" "length (rb_instructions b) = length ?os"
    using build_brief_instructions [OF assms(3) stripped] by simp_all
  have sev: "map (\<lambda>n. severity_order (rn_severity n)) (rb_instructions b) = map (\<lambda>i. severity_order (ri_severity i)) ?os"
    using arg_cong [OF ns(2), of "map severity_order"] by (simp add: comp_def)
  have quant: "(\<forall>n \<in> set (rb_instructions b). P (severity_order (rn_severity n))) \<longleftrightarrow>
      (\<forall>i \<in> set ?os. P (severity_order (ri_severity i)))" for P
    using arg_cong [OF sev, of "\<lambda>xs. list_all P xs"] by (simp add: list_all_iff)
  have range: "rb_target_word_range b = word_range config words"
    using assms(3) by (auto simp: build_brief_def make_brief_def Let_def split: if_splits)
  note bounds = ordered_issues_bounds [of config issues]
  show ?thesis
  proof (intro conjI ballI)
    show "int (length (rb_instructions b)) \<le> k"
      using bounds k(1,3) ns(4) by linarith
    show "map rn_priority (rb_instructions b) = [1..int (length (rb_instructions b))]"
      by (simp only: ns(3,4))
    show "distinct (map rn_code (rb_instructions b))"
      using bounds by (simp only: ns(1))
    show "sorted (map (\<lambda>n. severity_order (rn_severity n)) (rb_instructions b))"
      unfolding sev using bounds
      by (auto simp: sorted_map issue_key_def less_eq_prod_def elim!: sorted_wrt_mono_rel [rotated])
    show "ri_code i \<in> set (map rn_code (rb_instructions b)) \<or>
       int (length (rb_instructions b)) = k \<and>
       (\<forall>n \<in> set (rb_instructions b). severity_order (rn_severity n) \<le> severity_order (ri_severity i))"
      if "i \<in> set (unique_issues issues)" for i
      using left_out_issues [OF that, of config] k order_trans [OF _ k(1), of 0]
        quant [of "\<lambda>s. s \<le> severity_order (ri_severity i)"]
      by (simp only: ns(1,4)) blast
  qed (use k(2) in \<open>simp_all add: range word_range_def Let_def\<close>)
qed

section \<open>A payoff before its setup\<close>

text \<open>
  An extraction may resolve any foreshadowing of the project. If its setup chapter lies behind the
  accepted chapter (chapters are written out of order), the payoff violates a check constraint
  and the acceptance fails.
\<close>

lemma early_payoff_blocks_acceptance:
  assumes "nd_workflow db run_id = Some r" and "wr_status r \<noteq> WorkflowRunStatus_COMPLETED"
    and "get_version db version_id = Some v" and "nd_chapter db (cv_chapter_id v) = Some c"
    and "nd_project db (wr_project_id r) = Some p" and "latest_evaluation db version_id = Some e" and "ev_passed e"
    and "cv_candidate_foreshadowing_updates v = [u]" and "map_of u ''foreshadowing_id'' = Some (JInt i)"
    and "map_of u ''action'' = Some (JStr ''resolve'')" and "get_foreshadowing db i = Some f"
    and "fs_project_id f = pr_id p" and "ch_chapter_number c < fs_setup_chapter f"
  shows "accept_txn memory db run_id version_id now = Inl IntegrityError"
proof -
  have chars: "nd_foreshadowings (apply_character_updates k us x) = nd_foreshadowings x" for k us x
    by (induction us arbitrary: x)
       (simp_all add: apply_character_updates_def apply_character_update_def split: option.split)
  have frames: "nd_foreshadowings (supersede_previous m d i x) = nd_foreshadowings x"
    "nd_foreshadowings (accept_revision i x) = nd_foreshadowings x"
    "nd_foreshadowings (ensure_pending m' k i t x) = nd_foreshadowings x" for m d i x m' k t
    by (simp_all add: supersede_previous_def save_version_def supersede_memory_def Let_def
        accept_revision_def save_revision_def ensure_pending_def split: option.split)
  let ?f = "f\<lparr>fs_status := ForeshadowingStatus_RESOLVED, fs_payoff_chapter := Some (ch_chapter_number c)\<rparr>"
  have f: "f \<in> set (t_rows (nd_foreshadowings db)) \<and> fs_id f = i"
    using foreshadowings.get_Some assms(11) by (simp add: get_foreshadowing_def)
  have "nd_foreshadowings (apply_foreshadowing_updates (pr_id p) (ch_chapter_number c) [u] x) =
      repo_save fs_id (nd_foreshadowings x) ?f" if "nd_foreshadowings x = nd_foreshadowings db" for x
    using assms(8-12) that
    by (simp add: apply_foreshadowing_updates_def apply_foreshadowing_update_def text_of_def get_foreshadowing_def)
  then have "nd_foreshadowings (promote memory db r v c p e now) = repo_save fs_id (nd_foreshadowings db) ?f"
    by (simp add: promote_def Let_def save_version_def reject_other_versions_def chars frames assms(8)
        resolve_other_conflicts_def reject_other_candidates_def promote_facts_def save_narrative_chapter_def
        save_workflow_def split: option.split)
  then have "?f \<in> set (t_rows (nd_foreshadowings (promote memory db r v c p e now)))"
    using f by (force simp: repo_save_def)
  moreover have "\<not> foreshadowing_row_ok ?f"
    using assms(13) by (simp add: foreshadowing_row_ok_def)
  ultimately have "\<not> ndb_ok (promote memory db r v c p e now)"
    by (auto simp: ndb_ok_def narrative_chapters_ok_def)
  then show ?thesis
    using assms(1-7) get_version_row [OF assms(3)] by (simp add: accept_txn_def require_def ncommit_def)
qed

end
