(* ===== verification/Version_Demo.thy ===== *)
theory Version_Demo
  imports Version_Properties
begin

text \<open>
  A chapter with a draft and its revision, both evaluated, and a run that is about to compare and accept:
  the properties of the versions applied to it.
\<close>

section \<open>The story\<close>

definition story_project :: project where
  "story_project = \<lparr>pr_id = 1, pr_title = ''Novel'', pr_genre = ''SF'', pr_premise = ''p'',
     pr_target_chapters = 3, pr_target_words_per_chapter = 1000, pr_language = ''en'',
     pr_tone = None, pr_audience = None, pr_additional_requirements = [], pr_logline = None,
     pr_themes = [], pr_world_summary = None, pr_central_conflict = None,
     pr_ending_direction = None, pr_style_guide = None, pr_status = ProjectStatus_CREATED,
     pr_model_profile = ModelProfile_OFFLINE, pr_privacy_policy = PrivacyPolicy_OFFLINE\<rparr>"

definition story_chapter :: chapter_row where
  "story_chapter = \<lparr>ch_id = 1, ch_project_id = 1, ch_chapter_number = 1, ch_title = ''One'',
     ch_outline = ''o'', ch_objective = [], ch_outline_metadata = [], ch_content = [],
     ch_summary = None, ch_status = ChapterStatus_REVISING, ch_version = 2, ch_score = None,
     ch_generation_metadata = [], ch_current_version_id = Some 2, ch_accepted_version_id = None\<rparr>"

definition story_run :: "int \<Rightarrow> workflow_run_status \<Rightarrow> int \<Rightarrow> workflow_run" where
  "story_run i status best =
     \<lparr>wr_id = i, wr_project_id = 1, wr_chapter_id = 1, wr_current_node = ''compare_versions'',
      wr_status = status, wr_retry_count = 1, wr_workflow_type = ''chapter_revision'',
      wr_operation = ''generate'', wr_thread_id = int_str i, wr_original_version_id = Some 1,
      wr_current_version_id = Some 2, wr_best_version_id = Some best, wr_accepted_version_id = None,
      wr_revision_attempt = 1, wr_max_revision_attempts = 2, wr_node_history = [],
      wr_blocking_reasons = [], wr_error_code = None, wr_prompt_versions = [], wr_error_message = None,
      wr_started_at = 0, wr_finished_at = None, wr_updated_at = 0, wr_provider_call_count = 0,
      wr_provider_input_tokens = 0, wr_provider_output_tokens = 0, wr_provider_estimated_cost = 0,
      wr_provider_fallback_count = 0, wr_provider_rate_limit_count = 0\<rparr>"

definition story_version :: "int \<Rightarrow> chapter_version_status \<Rightarrow> int option \<Rightarrow> chapter_version" where
  "story_version i status parent =
     \<lparr>cv_id = i, cv_chapter_id = 1, cv_version = i, cv_title = ''One'', cv_content = ''It rained.'',
      cv_summary = ''Rain'', cv_generation_metadata = [], cv_status = status, cv_source = ''revision'',
      cv_parent_version_id = parent, cv_workflow_run_id = Some 1, cv_word_count = 2, cv_provider = ''mock'',
      cv_model = ''m'', cv_prompt_versions = [], cv_candidate_character_updates = [],
      cv_candidate_foreshadowing_updates = [], cv_idempotency_key = Some (int_str i), cv_accepted_at = None,
      cv_created_at = 0\<rparr>"

definition story_fact :: "int \<Rightarrow> fact" where
  "story_fact i =
     \<lparr>fa_id = i, fa_project_id = 1, fa_chapter_id = 1, fa_subject = ''Mara'', fa_predicate = ''is'',
      fa_object = ''wet'', fa_valid_from_chapter = 1, fa_valid_to_chapter = None, fa_confidence = 1,
      fa_source_quote = ''It rained.'', fa_fact_type = ''state'', fa_chapter_version_id = i,
      fa_workflow_run_id = Some 1, fa_status = FactStatus_CANDIDATE, fa_normalized_hash = ''h''\<rparr>"

definition story_evaluation :: "int \<Rightarrow> rat \<Rightarrow> bool \<Rightarrow> string list \<Rightarrow> evaluation" where
  "story_evaluation i score passed reasons =
     \<lparr>ev_id = i, ev_project_id = 1, ev_chapter_id = 1, ev_chapter_version_id = i, ev_workflow_run_id = Some 1,
      ev_idempotency_key = Some (int_str i), ev_evaluator = ''hybrid'', ev_evaluation_version = i,
      ev_status = EvaluationStatus_COMPLETED, ev_overall_score = score, ev_mechanical_score = score,
      ev_critic_score = score, ev_consistency_score = score, ev_prose_score = score, ev_character_score = score,
      ev_plot_score = score, ev_pacing_score = score, ev_dialogue_score = score,
      ev_emotional_impact_score = score, ev_outline_adherence_score = score, ev_raw_scores = [],
      ev_weighted_scores = [], ev_mechanical_metrics = [], ev_critic_dimensions = [],
      ev_evaluator_versions = [], ev_prompt_versions = [], ev_blocking_reasons = reasons,
      ev_recommended_action = (if passed then Recommend_Accept else Recommend_Revise), ev_passed = passed,
      ev_provider = ''mock'', ev_model = ''m'', ev_config_version = ''1'', ev_issues = [],
      ev_suggestions = [], ev_created_at = 0\<rparr>"

definition story_brief :: revision_brief where
  "story_brief = \<lparr>rb_chapter_id = 1, rb_source_version_id = 1, rb_revision_attempt = 1, rb_objective = ''o'',
     rb_instructions = [], rb_global_constraints = [], rb_must_preserve_facts = [], rb_forbidden_changes = [],
     rb_target_word_range = (800, 1200), rb_strategy = ''targeted_repair''\<rparr>"

definition story_revision :: revision where
  "story_revision = \<lparr>rv_id = 1, rv_chapter_id = 1, rv_previous_version = 1, rv_new_version = 2,
     rv_reason = ''o'', rv_score_before = 5, rv_score_after = 0, rv_accepted = False,
     rv_source_version_id = Some 1, rv_new_version_id = Some 2, rv_workflow_run_id = Some 1,
     rv_status = ''created'', rv_brief = story_brief, rv_prompt_versions = [], rv_created_at = 0\<rparr>"

definition story :: ndb where
  "story = empty_ndb
     \<lparr>nd_projects := \<lparr>t_rows = [story_project], t_next = 2\<rparr>,
      nd_chapters := \<lparr>t_rows = [story_chapter], t_next = 2\<rparr>,
      nd_workflow_runs := \<lparr>t_rows = [story_run 1 WorkflowRunStatus_RUNNING 1], t_next = 2\<rparr>,
      nd_versions := \<lparr>t_rows = [story_version 1 ChapterVersionStatus_DRAFT None,
        story_version 2 ChapterVersionStatus_REVISION (Some 1)], t_next = 3\<rparr>,
      nd_facts := \<lparr>t_rows = [story_fact 1, story_fact 2], t_next = 3\<rparr>,
      nd_evaluations := \<lparr>t_rows = [story_evaluation 1 5 False [''short''], story_evaluation 2 8 True []], t_next = 3\<rparr>,
      nd_revisions := \<lparr>t_rows = [story_revision], t_next = 2\<rparr>\<rparr>"

definition story_memory :: memory_service where
  "story_memory = \<lparr>ms_provider_name = ''mock'', ms_model_name = ''m'', ms_dimensions = 8\<rparr>"

definition story_compared :: "(ndb \<times> version_comparison_result) result" where
  "story_compared = compare_versions (1 / 4) story 1 1 2 1 2"

text \<open>The transactions once their reads are known; the writes are evaluated as one state.\<close>

lemma accept_txn_ok:
  assumes "nd_workflow db run_id = Some r" and "wr_status r \<noteq> WorkflowRunStatus_COMPLETED"
    and "get_version db i = Some v" and "nd_chapter db (cv_chapter_id v) = Some c"
    and "nd_project db (wr_project_id r) = Some p" and "latest_evaluation db i = Some e" and "ev_passed e"
    and "ndb_ok (promote memory db r v c p e now)"
  shows "accept_txn memory db run_id i now = Inr (promote memory db r v c p e now, True)"
  using assms get_version_row [OF assms(3)] by (simp add: accept_txn_def)

definition reviewed_state :: "ndb \<Rightarrow> workflow_run \<Rightarrow> chapter_version \<Rightarrow> chapter_row \<Rightarrow> time \<Rightarrow> ndb" where
  "reviewed_state db r v c now =
     reject_other_versions (wr_id r) (cv_id v) (reject_run_candidates (wr_id r) (save_workflow
       (save_narrative_chapter (save_version db (v\<lparr>cv_status := ChapterVersionStatus_NEEDS_REVIEW\<rparr>))
         (review_chapter_row c v)) (review_run_row r (cv_id v) now)))"

lemma mark_needs_review_ok:
  assumes "nd_workflow db run_id = Some r" and "wr_best_version_id r = Some best"
    and "get_version db best = Some v" and "nd_chapter db (cv_chapter_id v) = Some c"
    and "ndb_ok (reviewed_state db r v c now)"
  shows "mark_needs_review db run_id now = Inr (reviewed_state db r v c now, best)"
  using assms get_version_row [OF assms(3)] nd_workflow_row [OF assms(1)]
  by (simp add: mark_needs_review_def reviewed_state_def Let_def)

definition story_accepted :: ndb where
  "story_accepted = promote (Some story_memory) story (story_run 1 WorkflowRunStatus_RUNNING 1)
     (story_version 2 ChapterVersionStatus_REVISION (Some 1)) story_chapter story_project
     (story_evaluation 2 8 True []) 10"

text \<open>A second run over the chapter, with the accepted version as its best.\<close>

definition second_run :: ndb where
  "second_run = story_accepted\<lparr>nd_workflow_runs :=
     \<lparr>t_rows = t_rows (nd_workflow_runs story_accepted) @ [story_run 2 WorkflowRunStatus_RUNNING 2], t_next = 3\<rparr>\<rparr>"

definition second_version :: chapter_version where
  "second_version = (story_version 2 ChapterVersionStatus_ACCEPTED (Some 1))\<lparr>cv_accepted_at := Some 10\<rparr>"

definition second_chapter :: chapter_row where
  "second_chapter = accepted_chapter_row story_chapter second_version (story_evaluation 2 8 True [])"

section \<open>What the witnesses need, evaluated\<close>

lemma story_canonical: "canonical story" by code_simp

lemma story_reads:
  "nd_workflow story 1 = Some (story_run 1 WorkflowRunStatus_RUNNING 1)"
  "get_version story 2 = Some (story_version 2 ChapterVersionStatus_REVISION (Some 1))"
  "nd_chapter story 1 = Some story_chapter" "nd_project story 1 = Some story_project"
  "latest_evaluation story 2 = Some (story_evaluation 2 8 True [])"
  "latest_evaluation story 1 = Some (story_evaluation 1 5 False [''short''])"
  by code_simp+

definition accepted_facts :: "ndb \<Rightarrow> bool" where
  "accepted_facts db \<longleftrightarrow> ndb_ok db \<and> version_accepted db 2"

lemma story_accepted_facts: "accepted_facts story_accepted" by code_simp

definition second_facts :: "ndb \<Rightarrow> bool" where
  "second_facts db \<longleftrightarrow> canonical db \<and> version_accepted db 2 \<and> get_version db 2 = Some second_version \<and>
     nd_chapter db 1 = Some second_chapter \<and> nd_workflow db 2 = Some (story_run 2 WorkflowRunStatus_RUNNING 2)"

lemma second_run_facts: "second_facts second_run" by code_simp

lemma second_reviewed_ok:
  "ndb_ok (reviewed_state second_run (story_run 2 WorkflowRunStatus_RUNNING 2) second_version second_chapter 20)"
  by code_simp

definition compared_facts :: "(ndb \<times> version_comparison_result) result \<Rightarrow> bool" where
  "compared_facts r = (case r of Inl _ \<Rightarrow> False | Inr (db, res) \<Rightarrow> vr_decision res = Accept_New)"

lemma story_compared_facts: "compared_facts story_compared" by code_simp

section \<open>The properties applied\<close>

lemma story_acceptance: "accept_txn (Some story_memory) story 1 2 10 = Inr (story_accepted, True)"
  unfolding story_accepted_def
  by (rule accept_txn_ok)
     (use story_reads story_accepted_facts in
       \<open>simp_all add: story_run_def story_version_def story_evaluation_def accepted_facts_def story_accepted_def\<close>)

theorem canon_is_preserved_applied:
  "\<exists>db. version_history story [False] db \<and> canonical db \<and> version_accepted db 2 \<and> \<not> version_accepted story 2"
proof -
  have history: "version_history story [False] story_accepted"
    using version_history.one_more [OF no_step accepted [OF story_acceptance]] by simp
  moreover have "\<not> version_accepted story 2" by code_simp
  ultimately show ?thesis
    using canon_is_preserved [OF story_canonical history] story_accepted_facts by (auto simp: accepted_facts_def)
qed

theorem acceptance_promotes_applied:
  "\<exists>c. nd_chapter story_accepted 1 = Some c \<and>
     shows_version c (story_version 2 ChapterVersionStatus_REVISION (Some 1)) 8"
  using acceptance_promotes [OF story_acceptance] story_reads by (auto simp: story_version_def story_evaluation_def)

theorem best_version_never_worse_applied:
  "\<exists>db r e. (\<exists>result. story_compared = Inr (db, result)) \<and> nd_workflow db 1 = Some r \<and>
     (\<exists>b. wr_best_version_id r = Some b \<and> latest_evaluation db b = Some e) \<and>
     evaluation_rank story (story_evaluation 1 5 False [''short'']) \<le> evaluation_rank db e"
proof -
  obtain db result where compared: "story_compared = Inr (db, result)"
    using story_compared_facts by (auto simp: compared_facts_def split: sum.splits)
  have none: "comparison_for_new_version story 1 2 = None" by code_simp
  have best: "wr_best_version_id (story_run 1 WorkflowRunStatus_RUNNING 1) = Some 1"
    by (simp add: story_run_def)
  from best_version_never_worse [OF compared [unfolded story_compared_def] none story_reads(1) best story_reads(6)]
  show ?thesis using compared by fastforce
qed

theorem review_breaks_canon_applied:
  "\<exists>db v. mark_needs_review second_run 2 20 = Inr (db, 2) \<and> get_version db 2 = Some v \<and>
     cv_status v = ChapterVersionStatus_NEEDS_REVIEW \<and> canonical second_run \<and> \<not> canonical db"
proof -
  have reviewed: "mark_needs_review second_run 2 20 =
      Inr (reviewed_state second_run (story_run 2 WorkflowRunStatus_RUNNING 2) second_version second_chapter 20, 2)"
    by (rule mark_needs_review_ok)
       (use second_run_facts second_reviewed_ok in
         \<open>simp_all add: second_facts_def story_run_def second_version_def story_version_def\<close>)
  show ?thesis
    using review_breaks_canon [OF reviewed] second_run_facts reviewed by (auto simp: second_facts_def)
qed

section \<open>A brief\<close>

definition raw_issue :: "string \<Rightarrow> conflict_severity \<Rightarrow> revision_issue" where
  "raw_issue code severity =
     \<lparr>ri_code = code, ri_category = ''plot'', ri_severity = severity, ri_problem = ''p'', ri_evidence = None,
      ri_suggestion = ''s'', ri_source = From_Critic\<rparr>"

definition raw_issues :: "revision_issue list" where
  "raw_issues = [raw_issue ''slow'' ConflictSeverity_LOW, raw_issue '' dead '' ConflictSeverity_CRITICAL,
     raw_issue ''lost'' ConflictSeverity_HIGH, raw_issue ''dull'' ConflictSeverity_MEDIUM]"

definition small_config :: brief_config where
  "small_config = \<lparr>bc_max_instructions = 3, bc_target_word_tolerance = 1 / 5\<rparr>"

definition demo_brief :: "revision_brief result" where
  "demo_brief = and_then (map_result make_issue raw_issues) (\<lambda>issues.
     build_brief small_config 1 1 1 [] issues [] [] 1000 None)"

definition brief_facts :: "revision_brief result \<Rightarrow> bool" where
  "brief_facts r = (case r of Inl _ \<Rightarrow> False
     | Inr b \<Rightarrow> map rn_code (rb_instructions b) = [''dead'', ''lost'', ''dull''] \<and>
         rb_target_word_range b = (800, 1200))"

lemma demo_brief_facts: "brief_facts demo_brief" by code_simp

theorem brief_is_bounded_applied:
  "\<exists>b. demo_brief = Inr b \<and> int (length (rb_instructions b)) \<le> 3 \<and> distinct (map rn_code (rb_instructions b)) \<and>
     map rn_code (rb_instructions b) = [''dead'', ''lost'', ''dull'']"
proof -
  have config: "make_brief_config 3 (1 / 5) = Inr small_config"
    by (simp add: make_brief_config_def small_config_def)
  obtain b where b: "demo_brief = Inr b" "map rn_code (rb_instructions b) = [''dead'', ''lost'', ''dull'']"
    using demo_brief_facts by (auto simp: brief_facts_def split: sum.splits)
  obtain issues where issues: "map_result make_issue raw_issues = Inr issues"
    and built: "build_brief small_config 1 1 1 [] issues [] [] 1000 None = Inr b"
    using b(1) by (auto simp: demo_brief_def)
  show ?thesis
    using brief_is_bounded [OF config issues built] b by (intro exI [of _ b]) auto
qed

end
