(* ===== verification/Chapter_Workflow.thy ===== *)
theory Chapter_Workflow
  imports Version_Acceptance Transitions Effects
begin

text \<open>
  The durable chapter workflow (\<open>src/src/storyforge/services/workflow.py\<close>, \<open>workflows/\<close>): the nodes of the graph with
  the transactions around them, the routing, and running, pausing, resuming and cancelling a run.
  The executor is LangGraph's \<open>StateGraph\<close>: it calls a node, merges the returned changes into the
  checkpointed state, follows the edge, stops after an interrupted node, and raises when the
  recursion limit is reached. Context builder, agents and evaluation service are functions of the
  environment; other processes may change the database between two nodes (\<open>wn_between\<close>).
\<close>

section \<open>The checkpointed state\<close>

record evaluation_payload =
  ep_evaluation_id :: int
  ep_version_id :: int
  ep_final_score :: rat
  ep_consistency_score :: rat
  ep_outline_adherence_score :: rat
  ep_critical_conflicts :: int
  ep_high_conflicts :: int
  ep_passed :: bool
  ep_recommended_action :: recommended_action
  ep_blocking_reasons :: "string list"

text \<open>
  \<open>ChapterWorkflowState\<close>; an option is a key that may be missing or \<open>None\<close>. The time texts of the state are
  never read and are not represented.
\<close>

record wstate =
  ws_thread_id :: string
  ws_run_id :: "int option"
  ws_project_id :: int
  ws_chapter_id :: "int option"
  ws_chapter_number :: int
  ws_operation :: string
  ws_current_node :: "string option"
  ws_status :: workflow_run_status
  ws_original :: "int option"
  ws_current :: "int option"
  ws_best :: "int option"
  ws_accepted :: "int option"
  ws_base :: "int option"
  ws_evaluation_id :: "int option"
  ws_evaluation :: "evaluation_payload option"
  ws_brief :: "revision_brief option"
  ws_comparison :: "version_comparison_result option"
  ws_attempt :: int
  ws_max_attempts :: int
  ws_history :: "string list"
  ws_errors :: "string list"
  ws_blocking :: "string list"
  ws_route :: string

datatype wnode =
    Initialize_Workflow | Load_Context | Generate_Draft | Extract_Facts | Evaluate_Draft
  | Decide_After_Evaluation | Build_Revision_Brief | Revise_Draft | Extract_Revision_Facts
  | Evaluate_Revision | Compare_Versions | Decide_After_Comparison | Reject_Revision
  | Accept_Version | Mark_Needs_Human_Review | Fail_Workflow

fun node_name :: "wnode \<Rightarrow> string" where
  "node_name Initialize_Workflow = ''initialize_workflow''"
| "node_name Load_Context = ''load_context''"
| "node_name Generate_Draft = ''generate_draft''"
| "node_name Extract_Facts = ''extract_facts''"
| "node_name Evaluate_Draft = ''evaluate_draft''"
| "node_name Decide_After_Evaluation = ''decide_after_evaluation''"
| "node_name Build_Revision_Brief = ''build_revision_brief''"
| "node_name Revise_Draft = ''revise_draft''"
| "node_name Extract_Revision_Facts = ''extract_revision_facts''"
| "node_name Evaluate_Revision = ''evaluate_revision''"
| "node_name Compare_Versions = ''compare_versions''"
| "node_name Decide_After_Comparison = ''decide_after_comparison''"
| "node_name Reject_Revision = ''reject_revision''"
| "node_name Accept_Version = ''accept_version''"
| "node_name Mark_Needs_Human_Review = ''mark_needs_human_review''"
| "node_name Fail_Workflow = ''fail_workflow''"

definition pausable_nodes :: "wnode list" where
  "pausable_nodes =
     [Initialize_Workflow, Load_Context, Generate_Draft, Extract_Facts, Evaluate_Draft,
      Decide_After_Evaluation, Build_Revision_Brief, Revise_Draft, Extract_Revision_Facts,
      Evaluate_Revision, Compare_Versions, Decide_After_Comparison, Reject_Revision]"

definition terminal_run_statuses :: "workflow_run_status list" where
  "terminal_run_statuses =
     [WorkflowRunStatus_COMPLETED, WorkflowRunStatus_COMPLETED_NEEDS_REVIEW, WorkflowRunStatus_CANCELLED,
      WorkflowRunStatus_FAILED, WorkflowRunStatus_SUCCEEDED, WorkflowRunStatus_NEEDS_HUMAN_REVIEW]"

text \<open>\<open>_build_graph\<close>: the edges; \<open>None\<close> is \<open>END\<close>. A route outside the map of a conditional edge raises.\<close>

fun next_node :: "wnode \<Rightarrow> wstate \<Rightarrow> wnode option result" where
  "next_node Initialize_Workflow s = Inr (Some Load_Context)"
| "next_node Load_Context s = Inr (Some Generate_Draft)"
| "next_node Generate_Draft s = Inr (Some Extract_Facts)"
| "next_node Extract_Facts s = Inr (Some Evaluate_Draft)"
| "next_node Evaluate_Draft s = Inr (Some Decide_After_Evaluation)"
| "next_node Decide_After_Evaluation s =
     (if ws_route s = ''accept'' then Inr (Some Accept_Version)
      else if ws_route s = ''revise'' then Inr (Some Build_Revision_Brief)
      else if ws_route s = ''human_review'' then Inr (Some Mark_Needs_Human_Review)
      else if ws_route s = ''fail'' then Inr (Some Fail_Workflow) else Inl KeyError)"
| "next_node Build_Revision_Brief s = Inr (Some Revise_Draft)"
| "next_node Revise_Draft s = Inr (Some Extract_Revision_Facts)"
| "next_node Extract_Revision_Facts s = Inr (Some Evaluate_Revision)"
| "next_node Evaluate_Revision s = Inr (Some Compare_Versions)"
| "next_node Compare_Versions s = Inr (Some Decide_After_Comparison)"
| "next_node Decide_After_Comparison s =
     (if ws_route s = ''accept'' then Inr (Some Accept_Version)
      else if ws_route s = ''retry'' then Inr (Some Reject_Revision)
      else if ws_route s = ''human_review'' then Inr (Some Mark_Needs_Human_Review)
      else if ws_route s = ''fail'' then Inr (Some Fail_Workflow) else Inl KeyError)"
| "next_node Reject_Revision s = Inr (Some Build_Revision_Brief)"
| "next_node Accept_Version s = Inr None"
| "next_node Mark_Needs_Human_Review s = Inr None"
| "next_node Fail_Workflow s = Inr None"

section \<open>The environment\<close>

record workflow_env =
  wn_context :: "ndb \<Rightarrow> int \<Rightarrow> int \<Rightarrow> unit result"
  wn_write :: "ndb \<Rightarrow> int \<Rightarrow> int \<Rightarrow> draft result"
  wn_extract :: "ndb \<Rightarrow> int \<Rightarrow> extraction result"
  wn_hash :: "extracted_fact \<Rightarrow> string"
  wn_evaluate :: "ndb \<Rightarrow> int \<Rightarrow> int \<Rightarrow> int \<Rightarrow> int \<Rightarrow> string \<Rightarrow> ndb \<times> (int \<times> string list) result"
  wn_revise :: "ndb \<Rightarrow> int \<Rightarrow> revision_brief \<Rightarrow> draft result"
  wn_brief_config :: brief_config
  wn_minimum_improvement :: rat
  wn_memory :: "memory_service option"
  wn_index :: "ndb \<Rightarrow> int \<Rightarrow> ndb \<times> bool"
  wn_control :: "ndb \<Rightarrow> string \<Rightarrow> unit result"
  wn_progress :: "string \<Rightarrow> string \<Rightarrow> unit result"
  wn_initialized :: "ndb \<Rightarrow> int \<Rightarrow> ndb result"
  wn_between :: "wnode \<Rightarrow> ndb \<Rightarrow> ndb"
  wn_duration :: "string \<Rightarrow> int"
  wn_redact :: "exn \<Rightarrow> string"
  wn_now :: time

section \<open>Audit events\<close>

definition event_for :: "ndb \<Rightarrow> int \<Rightarrow> string \<Rightarrow> workflow_event_type \<Rightarrow> int \<Rightarrow> workflow_event option" where
  "event_for db run_id node event_type attempt =
     find (\<lambda>e. we_workflow_run_id e = run_id \<and> we_node e = node \<and> we_event_type e = event_type \<and>
        we_attempt e = attempt) (t_rows (nd_events db))"

text \<open>\<open>_event\<close>: an event of the same run, node, type and attempt is kept, not repeated.\<close>

definition put_event ::
  "ndb \<Rightarrow> int \<Rightarrow> string \<Rightarrow> workflow_event_type \<Rightarrow> int \<Rightarrow> string \<Rightarrow> int \<Rightarrow> int option \<Rightarrow> int option \<Rightarrow>
   string option \<Rightarrow> time \<Rightarrow> ndb" where
  "put_event db run_id node event_type attempt status duration version_id evaluation_id error_code now =
     (case event_for db run_id node event_type attempt of
        Some e \<Rightarrow> db
      | None \<Rightarrow> db\<lparr>nd_events := fst (repo_add (\<lambda>i r. r\<lparr>we_id := i\<rparr>) (nd_events db)
          \<lparr>we_id = 0, we_workflow_run_id = run_id, we_node = node, we_event_type = event_type,
           we_attempt = attempt, we_status = status, we_duration_ms = duration, we_version_id = version_id,
           we_evaluation_id = evaluation_id, we_error_code = error_code, we_created_at = now\<rparr>)\<rparr>)"

definition record_aux_event ::
  "ndb \<Rightarrow> int \<Rightarrow> string \<Rightarrow> workflow_event_type \<Rightarrow> int \<Rightarrow> string \<Rightarrow> int option \<Rightarrow> int option \<Rightarrow> time \<Rightarrow>
   (ndb \<times> unit) result" where
  "record_aux_event db run_id node event_type attempt status version_id evaluation_id now =
     ncommit (put_event db run_id node event_type attempt status 0 version_id evaluation_id None now) ()"

section \<open>Around a node: \<open>_node\<close>\<close>

definition push_node :: "string \<Rightarrow> string list \<Rightarrow> string list" where
  "push_node node history = (if history \<noteq> [] \<and> last history = node then history else history @ [node])"

definition start_txn :: "ndb \<Rightarrow> int \<Rightarrow> string \<Rightarrow> int \<Rightarrow> time \<Rightarrow> (ndb \<times> unit) result" where
  "start_txn db run_id node attempt now =
     and_then (or_raise EntityNotFoundError (nd_workflow db run_id)) (\<lambda>r.
     and_then (require (wr_status r \<noteq> WorkflowRunStatus_CANCELLED) InvalidStateError) (\<lambda>_.
     ncommit (put_event (save_workflow db (r\<lparr>wr_current_node := node, wr_updated_at := now,
         wr_node_history := push_node node (wr_node_history r)\<rparr>))
       run_id node WorkflowEventType_NODE_STARTED attempt ''running'' 0 None None None now) ()))"

definition node_started :: "workflow_env \<Rightarrow> wstate \<Rightarrow> string \<Rightarrow> ndb \<Rightarrow> ndb \<times> unit result" where
  "node_started env s node db =
     (case wn_control env db node of
        Inl e \<Rightarrow> (db, Inl e)
      | Inr _ \<Rightarrow>
          and_run (ran db (and_then (or_raise KeyError (ws_run_id s)) (\<lambda>run_id.
              start_txn db run_id node (ws_attempt s) (wn_now env)))) (\<lambda>db1 _.
          (db1, wn_progress env ''started'' node)))"

definition complete_txn ::
  "ndb \<Rightarrow> wstate \<Rightarrow> string \<Rightarrow> int \<Rightarrow> bool \<Rightarrow> time \<Rightarrow> (ndb \<times> unit) result" where
  "complete_txn db s node duration terminal now =
     and_then (or_raise KeyError (ws_run_id s)) (\<lambda>run_id.
     and_then (or_raise EntityNotFoundError (nd_workflow db run_id)) (\<lambda>r.
     let db1 = put_event db run_id node WorkflowEventType_NODE_COMPLETED (ws_attempt s) ''completed''
           (max 0 duration) (ws_current s) (ws_evaluation_id s) None now
     in ncommit (if terminal then db1 else save_workflow db1 (r\<lparr>wr_updated_at := now\<rparr>)) ()))"

definition node_completed :: "workflow_env \<Rightarrow> wstate \<Rightarrow> string \<Rightarrow> bool \<Rightarrow> ndb \<Rightarrow> ndb \<times> unit result" where
  "node_completed env s node terminal db =
     and_run (ran db (complete_txn db s node (wn_duration env node) terminal (wn_now env))) (\<lambda>db1 _.
     (db1, wn_progress env ''completed'' node))"

definition node_failed :: "workflow_env \<Rightarrow> wstate \<Rightarrow> string \<Rightarrow> exn \<Rightarrow> ndb \<Rightarrow> (ndb \<times> unit) result" where
  "node_failed env s node error db =
     and_then (or_raise KeyError (ws_run_id s)) (\<lambda>run_id.
     case nd_workflow db run_id of
       None \<Rightarrow> ncommit db ()
     | Some r \<Rightarrow>
         ncommit (put_event db run_id node WorkflowEventType_NODE_FAILED (ws_attempt s) ''failed''
           (max 0 (wn_duration env node)) None None (Some (exn_name error)) (wn_now env)) ())"

definition state_update :: "string \<Rightarrow> wstate \<Rightarrow> wstate" where
  "state_update node s = s\<lparr>ws_current_node := Some node, ws_history := push_node node (ws_history s)\<rparr>"

text \<open>An action gives the state with its changes merged in.\<close>

definition run_action ::
  "workflow_env \<Rightarrow> bool \<Rightarrow> string \<Rightarrow> (ndb \<Rightarrow> ndb \<times> wstate result) \<Rightarrow> wstate \<Rightarrow> ndb \<Rightarrow> ndb \<times> wstate result" where
  "run_action env terminal node action s db =
     and_run (node_started env s node db) (\<lambda>db1 _.
     case action db1 of
       (db2, Inl e) \<Rightarrow> and_run (ran db2 (node_failed env s node e db2)) (\<lambda>db3 _. (db3, Inl e))
     | (db2, Inr s1) \<Rightarrow>
         and_run (node_completed env s1 node terminal db2) (\<lambda>db3 _. (db3, Inr (state_update node s1))))"

end
