(* ===== verification/Chapter_Nodes.thy ===== *)
theory Chapter_Nodes
  imports Chapter_Workflow
begin

text \<open>
  The node functions of the chapter workflow (\<open>_initialize_workflow\<close> to \<open>_fail_workflow\<close> of
  \<open>services/workflow.py\<close>), each with every transaction it commits, and \<open>execute_node\<close>, which calls them.
\<close>

section \<open>Starting a run\<close>

text \<open>\<open>_run_state\<close>: what the durable run contributes to the state.\<close>

definition run_state_update :: "workflow_run \<Rightarrow> int \<Rightarrow> wstate \<Rightarrow> wstate" where
  "run_state_update r number s =
     s\<lparr>ws_run_id := Some (wr_id r), ws_chapter_id := Some (wr_chapter_id r), ws_chapter_number := number,
       ws_current_node := Some (wr_current_node r), ws_status := wr_status r,
       ws_original := wr_original_version_id r, ws_current := wr_current_version_id r,
       ws_best := wr_best_version_id r, ws_accepted := wr_accepted_version_id r,
       ws_attempt := wr_revision_attempt r, ws_max_attempts := wr_max_revision_attempts r,
       ws_history := wr_node_history r, ws_blocking := wr_blocking_reasons r\<rparr>"

definition new_run :: "project \<Rightarrow> chapter_row \<Rightarrow> wstate \<Rightarrow> time \<Rightarrow> workflow_run" where
  "new_run p c s now =
     \<lparr>wr_id = 0, wr_project_id = pr_id p, wr_chapter_id = ch_id c, wr_current_node = ''initialize_workflow'',
      wr_status = WorkflowRunStatus_PENDING, wr_retry_count = 0, wr_workflow_type = ''chapter_revision'',
      wr_operation = ws_operation s, wr_thread_id = ws_thread_id s,
      wr_original_version_id = ch_current_version_id c, wr_current_version_id = ch_current_version_id c,
      wr_best_version_id = ch_current_version_id c, wr_accepted_version_id = ch_accepted_version_id c,
      wr_revision_attempt = 0, wr_max_revision_attempts = ws_max_attempts s,
      wr_node_history = [''initialize_workflow''], wr_blocking_reasons = [], wr_error_code = None,
      wr_prompt_versions = [], wr_error_message = None, wr_started_at = now, wr_finished_at = None,
      wr_updated_at = now, wr_provider_call_count = 0, wr_provider_input_tokens = 0,
      wr_provider_output_tokens = 0, wr_provider_estimated_cost = 0, wr_provider_fallback_count = 0,
      wr_provider_rate_limit_count = 0\<rparr>"

definition active_run_of_chapter :: "ndb \<Rightarrow> int \<Rightarrow> workflow_run option" where
  "active_run_of_chapter db chapter_id =
     find (\<lambda>r. wr_chapter_id r = chapter_id \<and> workflow_active r) (t_rows (nd_workflow_runs db))"

definition start_run :: "workflow_env \<Rightarrow> ndb \<Rightarrow> wstate \<Rightarrow> project \<Rightarrow> chapter_row \<Rightarrow> (ndb \<times> wstate) result" where
  "start_run env db s p c =
     (let (t, r0) = repo_add (\<lambda>i r. r\<lparr>wr_id := i\<rparr>) (nd_workflow_runs db) (new_run p c s (wn_now env)) in
      and_then (transition_workflow r0 WorkflowRunStatus_RUNNING) (\<lambda>r.
      and_then (wn_initialized env (save_workflow (db\<lparr>nd_workflow_runs := t\<rparr>) r) (wr_id r)) (\<lambda>db1.
      let event = (\<lambda>d event_type status. put_event d (wr_id r) ''initialize_workflow'' event_type 0 status 0
                     None None None (wn_now env));
          db2 = save_narrative_chapter db1 (c\<lparr>ch_status := ChapterStatus_WORKFLOW_RUNNING\<rparr>);
          db3 = event db2 WorkflowEventType_NODE_STARTED ''running'';
          db4 = event db3 WorkflowEventType_NODE_COMPLETED ''completed''
      in ncommit db4 (run_state_update r (ch_chapter_number c) s))))"

definition initialize_txn :: "workflow_env \<Rightarrow> ndb \<Rightarrow> wstate \<Rightarrow> (ndb \<times> wstate) result" where
  "initialize_txn env db s =
     (case run_by_thread db (ws_thread_id s) of
        Some r \<Rightarrow>
          and_then (wn_initialized env db (wr_id r)) (\<lambda>db1.
          and_then (or_raise EntityNotFoundError (nd_chapter db1 (wr_chapter_id r))) (\<lambda>c.
          ncommit db1 (run_state_update r (ch_chapter_number c) s)))
      | None \<Rightarrow>
          and_then (or_raise EntityNotFoundError (nd_project db (ws_project_id s))) (\<lambda>p.
          and_then (or_raise EntityNotFoundError
              (narrative_chapter_by_number db (ws_project_id s) (ws_chapter_number s))) (\<lambda>c.
          if active_run_of_chapter db (ch_id c) \<noteq> None then Inl WorkflowAlreadyRunningError
          else start_run env db s p c)))"

section \<open>Drafting and extraction\<close>

definition required_id :: "int option \<Rightarrow> int result" where
  "required_id x = or_raise InvalidStateError x"

definition run_of :: "wstate \<Rightarrow> int result" where
  "run_of s = or_raise KeyError (ws_run_id s)"

text \<open>Reading from the state raises before anything is written.\<close>

definition with_value :: "ndb \<Rightarrow> 'a result \<Rightarrow> ('a \<Rightarrow> ndb \<times> 'b result) \<Rightarrow> ndb \<times> 'b result" where
  "with_value db r f = (case r of Inl e \<Rightarrow> (db, Inl e) | Inr a \<Rightarrow> f a)"

definition load_context :: "workflow_env \<Rightarrow> wstate \<Rightarrow> ndb \<Rightarrow> ndb \<times> wstate result" where
  "load_context env s db =
     with_value db (wn_context env db (ws_project_id s) (ws_chapter_number s)) (\<lambda>_. (db, Inr s))"

definition version_created ::
  "ndb \<Rightarrow> int \<Rightarrow> string \<Rightarrow> int \<Rightarrow> version_artifact \<Rightarrow> time \<Rightarrow> ndb \<times> unit result" where
  "version_created db run_id node attempt created now =
     (if va_created created
      then ran db (record_aux_event db run_id node WorkflowEventType_VERSION_CREATED attempt ''completed''
             (Some (va_version_id created)) None now)
      else (db, Inr ()))"

definition generate_draft :: "workflow_env \<Rightarrow> wstate \<Rightarrow> ndb \<Rightarrow> ndb \<times> wstate result" where
  "generate_draft env s db =
     with_value db (wn_context env db (ws_project_id s) (ws_chapter_number s)) (\<lambda>_.
     with_value db (run_of s) (\<lambda>run_id.
     and_run (ran db (ensure_initial_version db db (ws_project_id s) (ws_chapter_number s) run_id
       (wn_write env db (ws_project_id s) (ws_chapter_number s)) (wn_now env))) (\<lambda>db1 a.
     and_run (version_created db1 run_id ''generate_draft'' (ws_attempt s) a (wn_now env)) (\<lambda>db2 _.
     (db2, Inr (s\<lparr>ws_original := or_id (ws_original s) (va_version_id a), ws_current := Some (va_version_id a),
                  ws_best := or_id (ws_best s) (va_version_id a)\<rparr>))))))"

definition extract_facts :: "workflow_env \<Rightarrow> wstate \<Rightarrow> ndb \<Rightarrow> ndb \<times> wstate result" where
  "extract_facts env s db =
     with_value db (required_id (ws_current s)) (\<lambda>version_id.
     with_value db (run_of s) (\<lambda>run_id.
     and_run (ran db (extract_candidate_facts (wn_hash env) db db (ws_project_id s) version_id run_id
       (wn_extract env db version_id))) (\<lambda>db1 _. (db1, Inr s))))"

section \<open>Evaluation and routing\<close>

definition payload_of :: "ndb \<Rightarrow> evaluation \<Rightarrow> evaluation_payload" where
  "payload_of db e =
     \<lparr>ep_evaluation_id = ev_id e, ep_version_id = ev_chapter_version_id e, ep_final_score = ev_overall_score e,
      ep_consistency_score = ev_consistency_score e, ep_outline_adherence_score = ev_outline_adherence_score e,
      ep_critical_conflicts = conflicts_of_severity db e ConflictSeverity_CRITICAL,
      ep_high_conflicts = conflicts_of_severity db e ConflictSeverity_HIGH,
      ep_passed = ev_passed e, ep_recommended_action = ev_recommended_action e,
      ep_blocking_reasons = ev_blocking_reasons e\<rparr>"

definition evaluation_payload_of :: "ndb \<Rightarrow> int \<Rightarrow> evaluation_payload result" where
  "evaluation_payload_of db evaluation_id =
     and_then (or_raise EntityNotFoundError (get_evaluation db evaluation_id)) (\<lambda>e. Inr (payload_of db e))"

definition evaluated_txn :: "ndb \<Rightarrow> int \<Rightarrow> int \<Rightarrow> string list \<Rightarrow> (ndb \<times> unit) result" where
  "evaluated_txn db run_id version_id reasons =
     ncommit (case nd_workflow db run_id of
                None \<Rightarrow> db
              | Some r \<Rightarrow> save_workflow db (r\<lparr>wr_current_version_id := Some version_id,
                  wr_blocking_reasons := reasons, wr_best_version_id := or_id (wr_best_version_id r) version_id\<rparr>)) ()"

definition evaluation_key :: "int \<Rightarrow> string \<Rightarrow> int \<Rightarrow> string" where
  "evaluation_key run_id node attempt =
     ''workflow:'' @ int_str run_id @ '':'' @ node @ '':'' @ int_str attempt"

definition evaluate_version :: "workflow_env \<Rightarrow> string \<Rightarrow> wstate \<Rightarrow> ndb \<Rightarrow> ndb \<times> wstate result" where
  "evaluate_version env node s db =
     with_value db (required_id (ws_current s)) (\<lambda>version_id.
     with_value db (run_of s) (\<lambda>run_id.
     and_run (wn_evaluate env db (ws_project_id s) (ws_chapter_number s) version_id run_id
         (evaluation_key run_id node (ws_attempt s))) (\<lambda>db1 (evaluation_id, reasons).
     with_value db1 (evaluation_payload_of db1 evaluation_id) (\<lambda>payload.
     and_run (ran db1 (evaluated_txn db1 run_id version_id reasons)) (\<lambda>db2 _.
     and_run (ran db2 (record_aux_event db2 run_id node WorkflowEventType_EVALUATION_CREATED (ws_attempt s)
       ''completed'' (Some version_id) (Some evaluation_id) (wn_now env))) (\<lambda>db3 _.
     (db3, Inr (s\<lparr>ws_evaluation_id := Some evaluation_id, ws_evaluation := Some payload,
                  ws_blocking := reasons\<rparr>))))))))"

definition evaluation_route :: "wstate \<Rightarrow> evaluation_payload \<Rightarrow> string" where
  "evaluation_route s p =
     (if ws_errors s \<noteq> [] then ''fail''
      else if ws_operation s = ''targeted_revision'' \<and> ws_attempt s = 0 then ''revise''
      else if ep_passed p \<and> ws_blocking s = [] then ''accept''
      else if ep_recommended_action p = Recommend_Reject then ''human_review''
      else if ep_recommended_action p = Recommend_Human_Review \<and> ep_critical_conflicts p = 0 then ''human_review''
      else if ws_attempt s < ws_max_attempts s then ''revise'' else ''human_review'')"

definition take_route :: "workflow_env \<Rightarrow> string \<Rightarrow> string \<Rightarrow> wstate \<Rightarrow> ndb \<Rightarrow> ndb \<times> wstate result" where
  "take_route env node route s db =
     with_value db (run_of s) (\<lambda>run_id.
     and_run (ran db (record_aux_event db run_id node WorkflowEventType_ROUTE_SELECTED (ws_attempt s) route
       None None (wn_now env))) (\<lambda>db1 _. (db1, Inr (s\<lparr>ws_route := route\<rparr>))))"

definition decide_after_evaluation :: "workflow_env \<Rightarrow> wstate \<Rightarrow> ndb \<Rightarrow> ndb \<times> wstate result" where
  "decide_after_evaluation env s db =
     with_value db (or_raise KeyError (ws_evaluation s)) (\<lambda>p.
     take_route env ''decide_after_evaluation'' (evaluation_route s p) s db)"

definition comparison_route :: "wstate \<Rightarrow> version_comparison_result \<Rightarrow> string" where
  "comparison_route s result =
     (if ws_errors s \<noteq> [] then ''fail''
      else if vr_decision result = Accept_New then ''accept''
      else if vr_decision result \<in> {Human_Review_Needed, Keep_Old_Stop} then ''human_review''
      else if ws_max_attempts s \<le> ws_attempt s then ''human_review'' else ''retry'')"

definition decide_after_comparison :: "workflow_env \<Rightarrow> wstate \<Rightarrow> ndb \<Rightarrow> ndb \<times> wstate result" where
  "decide_after_comparison env s db =
     with_value db (or_raise KeyError (ws_comparison s)) (\<lambda>result.
     take_route env ''decide_after_comparison'' (comparison_route s result) s db)"

section \<open>Revision\<close>

definition latest_evaluation_id :: "ndb \<Rightarrow> int \<Rightarrow> int result" where
  "latest_evaluation_id db version_id =
     and_then (or_raise InvalidStateError (latest_evaluation db version_id)) (\<lambda>e. Inr (ev_id e))"

definition best_or_current :: "wstate \<Rightarrow> int option" where
  "best_or_current s = (case ws_best s of None \<Rightarrow> ws_current s | Some i \<Rightarrow> Some i)"

definition revision_brief_node :: "workflow_env \<Rightarrow> wstate \<Rightarrow> ndb \<Rightarrow> ndb \<times> wstate result" where
  "revision_brief_node env s db =
     with_value db (and_then (required_id (best_or_current s)) (\<lambda>source.
       and_then (latest_evaluation_id db source) (\<lambda>evaluation_id.
       and_then (run_of s) (\<lambda>run_id.
       and_then (build_revision_brief (wn_brief_config env) db run_id source evaluation_id (ws_attempt s + 1)
         (map_option (\<lambda>c. 0 < vr_overall_delta c) (ws_comparison s))
         (ws_operation s \<noteq> ''targeted_revision'')) (\<lambda>brief.
       Inr (s\<lparr>ws_current := Some source, ws_evaluation_id := Some evaluation_id, ws_brief := Some brief\<rparr>))))))
       (\<lambda>s1. (db, Inr s1))"

definition revise_draft :: "workflow_env \<Rightarrow> wstate \<Rightarrow> ndb \<Rightarrow> ndb \<times> wstate result" where
  "revise_draft env s db =
     with_value db (or_raise KeyError (ws_brief s)) (\<lambda>brief.
     with_value db (required_id (ws_current s)) (\<lambda>source.
     with_value db (wn_context env db (ws_project_id s) (ws_chapter_number s)) (\<lambda>_.
     with_value db (run_of s) (\<lambda>run_id.
     and_run (ran db (revise db db run_id source brief (wn_revise env db source brief) (wn_now env))) (\<lambda>db1 a.
     and_run (version_created db1 run_id ''revise_draft'' (rb_revision_attempt brief) a (wn_now env)) (\<lambda>db2 _.
     (db2, Inr (s\<lparr>ws_base := Some source, ws_current := Some (va_version_id a),
                  ws_attempt := rb_revision_attempt brief\<rparr>))))))))"

definition compare_node :: "workflow_env \<Rightarrow> wstate \<Rightarrow> ndb \<Rightarrow> ndb \<times> wstate result" where
  "compare_node env s db =
     with_value db (run_of s) (\<lambda>run_id.
     with_value db (required_id (ws_base s)) (\<lambda>old.
     with_value db (required_id (ws_current s)) (\<lambda>new.
     and_run (ran db (compare_versions (wn_minimum_improvement env) db run_id old new (ws_attempt s)
         (ws_max_attempts s))) (\<lambda>db1 result.
     (db1, Inr (s\<lparr>ws_comparison := Some result,
        ws_best := (case nd_workflow db1 run_id of None \<Rightarrow> ws_best s | Some r \<Rightarrow> wr_best_version_id r)\<rparr>))))))"

definition reject_node :: "workflow_env \<Rightarrow> wstate \<Rightarrow> ndb \<Rightarrow> ndb \<times> wstate result" where
  "reject_node env s db =
     with_value db (required_id (ws_current s)) (\<lambda>current.
     with_value db (required_id (ws_best s)) (\<lambda>best.
     with_value db (run_of s) (\<lambda>run_id.
     and_run
       (if current = best then (db, Inr best)
        else
          and_run (ran db (reject_revision db run_id current)) (\<lambda>db1 kept.
          and_run (ran db1 (record_aux_event db1 run_id ''reject_revision'' WorkflowEventType_REVISION_REJECTED
            (ws_attempt s) ''completed'' (Some current) None (wn_now env))) (\<lambda>db2 _. (db2, Inr kept))))
       (\<lambda>db3 kept.
        with_value db3 (latest_evaluation_id db3 kept) (\<lambda>evaluation_id.
        (db3, Inr (s\<lparr>ws_current := Some kept, ws_evaluation_id := Some evaluation_id\<rparr>)))))))"

section \<open>Ending a run\<close>

definition accept_node :: "workflow_env \<Rightarrow> wstate \<Rightarrow> ndb \<Rightarrow> ndb \<times> wstate result" where
  "accept_node env s db =
     with_value db (required_id (ws_current s)) (\<lambda>version_id.
     with_value db (run_of s) (\<lambda>run_id.
     and_run (ran db (accept_version (wn_memory env) (wn_index env) db run_id version_id (wn_now env))) (\<lambda>db1 _.
     and_run (ran db1 (record_aux_event db1 run_id ''accept_version'' WorkflowEventType_VERSION_ACCEPTED
       (ws_attempt s) ''completed'' (Some version_id) (ws_evaluation_id s) (wn_now env))) (\<lambda>db2 _.
     and_run (ran db2 (record_aux_event db2 run_id ''accept_version'' WorkflowEventType_WORKFLOW_COMPLETED
       (ws_attempt s) ''completed'' (Some version_id) (ws_evaluation_id s) (wn_now env))) (\<lambda>db3 _.
     (db3, Inr (s\<lparr>ws_accepted := Some version_id, ws_best := Some version_id,
                  ws_status := WorkflowRunStatus_COMPLETED\<rparr>)))))))"

definition review_node :: "workflow_env \<Rightarrow> wstate \<Rightarrow> ndb \<Rightarrow> ndb \<times> wstate result" where
  "review_node env s db =
     with_value db (run_of s) (\<lambda>run_id.
     and_run (ran db (mark_needs_review db run_id (wn_now env))) (\<lambda>db1 best.
     and_run (ran db1 (record_aux_event db1 run_id ''mark_needs_human_review'' WorkflowEventType_WORKFLOW_COMPLETED
       (ws_attempt s) ''completed'' (Some best) None (wn_now env))) (\<lambda>db2 _.
     (db2, Inr (s\<lparr>ws_current := Some best, ws_best := Some best,
                  ws_status := WorkflowRunStatus_COMPLETED_NEEDS_REVIEW\<rparr>)))))"

text \<open>\<open>ChapterStatus.ACCEPTED if chapter.accepted_version_id is not None else ChapterStatus.WORKFLOW_FAILED\<close>\<close>

definition stopped_chapter :: "ndb \<Rightarrow> int \<Rightarrow> ndb" where
  "stopped_chapter db chapter_id =
     (case nd_chapter db chapter_id of
        None \<Rightarrow> db
      | Some c \<Rightarrow> save_narrative_chapter db (c\<lparr>ch_status :=
          if ch_accepted_version_id c \<noteq> None then ChapterStatus_ACCEPTED else ChapterStatus_WORKFLOW_FAILED\<rparr>))"

definition mark_failed_by_thread :: "workflow_env \<Rightarrow> ndb \<Rightarrow> string \<Rightarrow> exn \<Rightarrow> (ndb \<times> unit) result" where
  "mark_failed_by_thread env db thread_id error =
     (case run_by_thread db thread_id of
        None \<Rightarrow> ncommit db ()
      | Some r \<Rightarrow>
          if wr_status r \<in> set terminal_run_statuses then ncommit db ()
          else
            and_then (transition_workflow r WorkflowRunStatus_FAILED) (\<lambda>r1.
            ncommit (stopped_chapter (save_workflow db
              (r1\<lparr>wr_error_code := Some (exn_name error), wr_error_message := Some (wn_redact env error),
                  wr_finished_at := Some (wn_now env), wr_updated_at := wn_now env\<rparr>)) (wr_chapter_id r1)) ()))"

definition fail_node :: "workflow_env \<Rightarrow> wstate \<Rightarrow> ndb \<Rightarrow> ndb \<times> wstate result" where
  "fail_node env s db =
     and_run (ran db (mark_failed_by_thread env db (ws_thread_id s) WorkflowExecutionError)) (\<lambda>db1 _.
     (db1, Inr (state_update ''fail_workflow'' (s\<lparr>ws_status := WorkflowRunStatus_FAILED\<rparr>))))"

section \<open>The nodes\<close>

fun node_action :: "workflow_env \<Rightarrow> wnode \<Rightarrow> wstate \<Rightarrow> ndb \<Rightarrow> ndb \<times> wstate result" where
  "node_action env Load_Context s db = load_context env s db"
| "node_action env Generate_Draft s db = generate_draft env s db"
| "node_action env Extract_Facts s db = extract_facts env s db"
| "node_action env Evaluate_Draft s db = evaluate_version env ''evaluate_draft'' s db"
| "node_action env Decide_After_Evaluation s db = decide_after_evaluation env s db"
| "node_action env Build_Revision_Brief s db = revision_brief_node env s db"
| "node_action env Revise_Draft s db = revise_draft env s db"
| "node_action env Extract_Revision_Facts s db = extract_facts env s db"
| "node_action env Evaluate_Revision s db = evaluate_version env ''evaluate_revision'' s db"
| "node_action env Compare_Versions s db = compare_node env s db"
| "node_action env Decide_After_Comparison s db = decide_after_comparison env s db"
| "node_action env Reject_Revision s db = reject_node env s db"
| "node_action env Accept_Version s db = accept_node env s db"
| "node_action env Mark_Needs_Human_Review s db = review_node env s db"
| "node_action env _ s db = (db, Inr s)"

definition execute_node :: "workflow_env \<Rightarrow> wnode \<Rightarrow> wstate \<Rightarrow> ndb \<Rightarrow> ndb \<times> wstate result" where
  "execute_node env node s db =
     (if node = Initialize_Workflow then ran db (initialize_txn env db s)
      else if node = Fail_Workflow then fail_node env s db
      else run_action env (node \<in> {Accept_Version, Mark_Needs_Human_Review}) (node_name node)
             (node_action env node s) s db)"

end
