(* ===== verification/Chapter_Runs.thy ===== *)
theory Chapter_Runs
  imports Chapter_Nodes
begin

text \<open>
  Running the graph: \<open>ChapterWorkflowService.run\<close>, \<open>resume\<close>, \<open>cancel\<close>, \<open>get_status\<close> and \<open>history\<close> with the marks
  they leave when the graph raises. The checkpoints are a map from thread ids; the recursion limit is
  the executor's (\<open>graph.invoke\<close> is called without one, so it is LangGraph's default).
\<close>

section \<open>The executor\<close>

record checkpoint =
  ck_state :: wstate
  ck_next :: "wnode option"

type_synonym checkpoints = "string \<rightharpoonup> checkpoint"

datatype graph_outcome = Graph_Finished | Graph_Interrupted | Graph_Raised exn | Recursion_Limit

text \<open>
  A node that raises leaves the checkpoint before it; so does a route without an edge. With an
  interrupt after a node the graph stops once that node's changes are saved.
\<close>

fun graph_run ::
  "workflow_env \<Rightarrow> wnode option \<Rightarrow> nat \<Rightarrow> wnode \<Rightarrow> wstate \<Rightarrow> ndb \<Rightarrow> ndb \<times> checkpoint \<times> graph_outcome" where
  "graph_run env pause 0 node s db = (db, \<lparr>ck_state = s, ck_next = Some node\<rparr>, Recursion_Limit)"
| "graph_run env pause (Suc k) node s db =
     (case execute_node env node s db of
        (db1, Inl e) \<Rightarrow> (db1, \<lparr>ck_state = s, ck_next = Some node\<rparr>, Graph_Raised e)
      | (db1, Inr s1) \<Rightarrow>
          (case next_node node s1 of
             Inl e \<Rightarrow> (db1, \<lparr>ck_state = s, ck_next = Some node\<rparr>, Graph_Raised e)
           | Inr None \<Rightarrow> (db1, \<lparr>ck_state = s1, ck_next = None\<rparr>, Graph_Finished)
           | Inr (Some n) \<Rightarrow>
               if pause = Some node then (db1, \<lparr>ck_state = s1, ck_next = Some n\<rparr>, Graph_Interrupted)
               else graph_run env pause k n s1 (wn_between env n db1)))"

definition mark_run_paused :: "ndb \<Rightarrow> int \<Rightarrow> string \<Rightarrow> time \<Rightarrow> (ndb \<times> unit) result" where
  "mark_run_paused db run_id node now =
     and_then (or_raise EntityNotFoundError (nd_workflow db run_id)) (\<lambda>r.
     if wr_status r \<in> set terminal_run_statuses then ncommit db ()
     else and_then (transition_workflow r WorkflowRunStatus_PAUSED) (\<lambda>r1.
          ncommit (save_workflow db (r1\<lparr>wr_current_node := node, wr_updated_at := now\<rparr>)) ()))"

text \<open>\<open>_invoke\<close>; without an input the thread goes on from its checkpoint.\<close>

definition invoke_graph ::
  "workflow_env \<Rightarrow> nat \<Rightarrow> wnode option \<Rightarrow> string \<Rightarrow> checkpoints \<Rightarrow> ndb \<Rightarrow> wnode \<Rightarrow> wstate \<Rightarrow>
   checkpoints \<times> ndb \<times> unit result" where
  "invoke_graph env limit pause thread_id cks db node s =
     (case graph_run env pause limit node s db of
        (db1, ck, Graph_Raised e) \<Rightarrow> (cks(thread_id \<mapsto> ck), db1, Inl e)
      | (db1, ck, Recursion_Limit) \<Rightarrow> (cks(thread_id \<mapsto> ck), db1, Inl (OtherException ''GraphRecursionError''))
      | (db1, ck, Graph_Finished) \<Rightarrow> (cks(thread_id \<mapsto> ck), db1, Inr ())
      | (db1, ck, Graph_Interrupted) \<Rightarrow>
          (cks(thread_id \<mapsto> ck),
           with_value db1 (run_of (ck_state ck)) (\<lambda>run_id.
             ran db1 (mark_run_paused db1 run_id
               (case ws_current_node (ck_state ck) of None \<Rightarrow> ''unknown'' | Some n \<Rightarrow> n) (wn_now env)))))"

definition start_graph ::
  "workflow_env \<Rightarrow> nat \<Rightarrow> wnode option \<Rightarrow> string \<Rightarrow> checkpoints \<Rightarrow> ndb \<Rightarrow> wstate \<Rightarrow>
   checkpoints \<times> ndb \<times> unit result" where
  "start_graph env limit pause thread_id cks db s =
     invoke_graph env limit pause thread_id cks db Initialize_Workflow s"

definition continue_graph ::
  "workflow_env \<Rightarrow> nat \<Rightarrow> string \<Rightarrow> checkpoints \<Rightarrow> ndb \<Rightarrow> checkpoints \<times> ndb \<times> unit result" where
  "continue_graph env limit thread_id cks db =
     (case cks thread_id of
        None \<Rightarrow> (cks, db, Inl (OtherException ''EmptyInputError''))
      | Some ck \<Rightarrow>
          (case ck_next ck of
             None \<Rightarrow> (cks, db, Inr ())
           | Some node \<Rightarrow> invoke_graph env limit None thread_id cks db node (ck_state ck)))"

section \<open>Status\<close>

record workflow_status =
  wt_run :: workflow_run
  wt_chapter_number :: int
  wt_original_version :: "int option"
  wt_current_version :: "int option"
  wt_best_version :: "int option"
  wt_accepted_version :: "int option"
  wt_latest_score :: "rat option"

definition version_number :: "ndb \<Rightarrow> int option \<Rightarrow> int option" where
  "version_number db version_id = map_option cv_version (Option.bind version_id (get_version db))"

definition latest_score_of_run :: "ndb \<Rightarrow> int \<Rightarrow> rat option" where
  "latest_score_of_run db run_id =
     map_option ev_overall_score
       (latest ev_id (filter (\<lambda>e. ev_workflow_run_id e = Some run_id) (t_rows (nd_evaluations db))))"

text \<open>The projection copies the columns of the run; the score of the status model is between 0 and 10.\<close>

definition to_status :: "ndb \<Rightarrow> workflow_run \<Rightarrow> workflow_status result" where
  "to_status db r =
     and_then (or_raise EntityNotFoundError (nd_chapter db (wr_chapter_id r))) (\<lambda>c.
     and_then (require (case latest_score_of_run db (wr_id r) of None \<Rightarrow> True | Some x \<Rightarrow> 0 \<le> x \<and> x \<le> 10) ValueError)
       (\<lambda>_.
     Inr \<lparr>wt_run = r, wt_chapter_number = ch_chapter_number c,
          wt_original_version = version_number db (wr_original_version_id r),
          wt_current_version = version_number db (wr_current_version_id r),
          wt_best_version = version_number db (wr_best_version_id r),
          wt_accepted_version = version_number db (wr_accepted_version_id r),
          wt_latest_score = latest_score_of_run db (wr_id r)\<rparr>))"

definition get_status :: "ndb \<Rightarrow> int \<Rightarrow> workflow_status result" where
  "get_status db run_id = and_then (or_raise EntityNotFoundError (nd_workflow db run_id)) (to_status db)"

definition status_by_thread :: "ndb \<Rightarrow> string \<Rightarrow> workflow_status result" where
  "status_by_thread db thread_id = and_then (or_raise EntityNotFoundError (run_by_thread db thread_id)) (to_status db)"

definition workflow_history :: "ndb \<Rightarrow> int \<Rightarrow> workflow_event list result" where
  "workflow_history db run_id =
     and_then (or_raise EntityNotFoundError (nd_workflow db run_id)) (\<lambda>_. Inr (events_of_run db run_id))"

section \<open>Pause, cancellation, budget\<close>

definition cancel_txn :: "ndb \<Rightarrow> int \<Rightarrow> time \<Rightarrow> (ndb \<times> unit) result" where
  "cancel_txn db run_id now =
     and_then (or_raise EntityNotFoundError (nd_workflow db run_id)) (\<lambda>r.
     and_then (transition_workflow r WorkflowRunStatus_CANCELLED) (\<lambda>r1.
     ncommit (stopped_chapter (save_workflow db (r1\<lparr>wr_current_node := ''cancelled'',
       wr_finished_at := Some now, wr_updated_at := now\<rparr>)) (wr_chapter_id r1)) ()))"

definition cancel_workflow :: "ndb \<Rightarrow> int \<Rightarrow> time \<Rightarrow> ndb \<times> workflow_status result" where
  "cancel_workflow db run_id now = and_run (ran db (cancel_txn db run_id now)) (\<lambda>db1 _. (db1, get_status db1 run_id))"

definition mark_control_pause :: "ndb \<Rightarrow> string \<Rightarrow> time \<Rightarrow> ndb \<times> unit result" where
  "mark_control_pause db thread_id now =
     with_value db (or_raise WorkflowExecutionError (run_by_thread db thread_id)) (\<lambda>r.
     ran db (mark_run_paused db (wr_id r) (wr_current_node r) now))"

definition mark_control_cancel :: "ndb \<Rightarrow> string \<Rightarrow> time \<Rightarrow> ndb \<times> unit result" where
  "mark_control_cancel db thread_id now =
     with_value db (or_raise WorkflowExecutionError (run_by_thread db thread_id)) (\<lambda>r.
     and_run (cancel_workflow db (wr_id r) now) (\<lambda>db1 _. (db1, Inr ())))"

definition budget_reason_txn :: "workflow_env \<Rightarrow> ndb \<Rightarrow> int \<Rightarrow> (ndb \<times> unit) result" where
  "budget_reason_txn env db run_id =
     and_then (or_raise EntityNotFoundError (nd_workflow db run_id)) (\<lambda>r.
     ncommit (save_workflow db
       (r\<lparr>wr_blocking_reasons := (if ''budget_blocked'' \<in> set (wr_blocking_reasons r) then wr_blocking_reasons r
                                  else wr_blocking_reasons r @ [''budget_blocked'']),
          wr_error_code := Some (exn_name BudgetBlockedError),
          wr_error_message := Some (wn_redact env BudgetBlockedError)\<rparr>)) ())"

definition mark_budget_blocked :: "workflow_env \<Rightarrow> ndb \<Rightarrow> string \<Rightarrow> ndb \<times> bool result" where
  "mark_budget_blocked env db thread_id =
     (case run_by_thread db thread_id of
        None \<Rightarrow> (db, Inr False)
      | Some r \<Rightarrow>
          if wr_status r \<in> set terminal_run_statuses \<or> wr_best_version_id r = None then (db, Inr False)
          else
            and_run (ran db (mark_needs_review db (wr_id r) (wn_now env))) (\<lambda>db1 _.
            and_run (ran db1 (budget_reason_txn env db1 (wr_id r))) (\<lambda>db2 _.
            and_run (ran db2 (record_aux_event db2 (wr_id r) ''mark_needs_human_review''
              WorkflowEventType_WORKFLOW_COMPLETED (wr_revision_attempt r) ''completed'' (wr_best_version_id r) None
              (wn_now env))) (\<lambda>db3 _. (db3, Inr True)))))"

definition fail_thread :: "workflow_env \<Rightarrow> ndb \<Rightarrow> string \<Rightarrow> exn \<Rightarrow> ndb \<times> unit result" where
  "fail_thread env db thread_id error =
     and_run (ran db (mark_failed_by_thread env db thread_id error)) (\<lambda>db1 _. (db1, Inl WorkflowExecutionError))"

text \<open>The \<open>except\<close> clauses shared by \<open>run\<close> and \<open>resume\<close>; \<open>passes\<close> are the exceptions raised again unmarked.\<close>

definition settle_invocation ::
  "workflow_env \<Rightarrow> (exn \<Rightarrow> bool) \<Rightarrow> string \<Rightarrow> ndb \<Rightarrow> unit result \<Rightarrow> ndb \<times> unit result" where
  "settle_invocation env passes thread_id db r =
     (case r of
        Inr _ \<Rightarrow> (db, Inr ())
      | Inl e \<Rightarrow>
          if e = JobPauseRequested then mark_control_pause db thread_id (wn_now env)
          else if e = JobCancellationRequested then mark_control_cancel db thread_id (wn_now env)
          else if passes e then (db, Inl e)
          else if e = BudgetBlockedError
          then and_run (mark_budget_blocked env db thread_id) (\<lambda>db1 blocked.
               if blocked then (db1, Inr ()) else fail_thread env db1 thread_id e)
          else fail_thread env db thread_id e)"

section \<open>run and resume\<close>

record chapter_workflow_request =
  cq_project_id :: int
  cq_chapter_number :: int
  cq_operation :: string
  cq_max_revision_attempts :: int
  cq_pause_after :: "string option"

definition workflow_operations :: "string list" where
  "workflow_operations = [''generate'', ''evaluate_existing'', ''targeted_revision'']"

definition make_workflow_request :: "chapter_workflow_request \<Rightarrow> chapter_workflow_request result" where
  "make_workflow_request raw =
     (let q = raw\<lparr>cq_pause_after := map_option strip (cq_pause_after raw)\<rparr>
      in if 0 < cq_project_id q \<and> 0 < cq_chapter_number q \<and> cq_operation q \<in> set workflow_operations \<and>
            0 \<le> cq_max_revision_attempts q \<and> cq_max_revision_attempts q \<le> 10 \<and> optional_upto 100 (cq_pause_after q)
         then Inr q else Inl ValueError)"

definition initial_state :: "chapter_workflow_request \<Rightarrow> string \<Rightarrow> wstate" where
  "initial_state q thread_id =
     \<lparr>ws_thread_id = thread_id, ws_run_id = None, ws_project_id = cq_project_id q, ws_chapter_id = None,
      ws_chapter_number = cq_chapter_number q, ws_operation = cq_operation q, ws_current_node = None,
      ws_status = WorkflowRunStatus_PENDING, ws_original = None, ws_current = None, ws_best = None,
      ws_accepted = None, ws_base = None, ws_evaluation_id = None, ws_evaluation = None, ws_brief = None,
      ws_comparison = None, ws_attempt = 0, ws_max_attempts = cq_max_revision_attempts q, ws_history = [],
      ws_errors = [], ws_blocking = [], ws_route = []\<rparr>"

text \<open>\<open>except (EntityNotFoundError, InvalidStateError, ValueError): raise\<close>, with the subclasses of \<open>exceptions.py\<close>.\<close>

definition reraised :: "exn \<Rightarrow> bool" where
  "reraised e \<longleftrightarrow> e \<in> {EntityNotFoundError, InvalidStateError, WorkflowAlreadyRunningError,
     WorkflowNotResumableError, OtherException ''AlreadyExistsError'', OtherException ''DatabaseConflictError'',
     OtherException ''WorkflowCancelledError'', ValueError}"

definition pause_node :: "string option \<Rightarrow> wnode option result" where
  "pause_node pause_after =
     (case pause_after of
        None \<Rightarrow> Inr None
      | Some name \<Rightarrow> and_then (or_raise ValueError (find (\<lambda>n. node_name n = name) pausable_nodes)) (\<lambda>n. Inr (Some n)))"

definition run_workflow ::
  "workflow_env \<Rightarrow> nat \<Rightarrow> chapter_workflow_request \<Rightarrow> string \<Rightarrow> checkpoints \<Rightarrow> ndb \<Rightarrow>
   checkpoints \<times> ndb \<times> workflow_status result" where
  "run_workflow env limit q thread_id cks db =
     (case pause_node (cq_pause_after q) of
        Inl e \<Rightarrow> (cks, db, Inl e)
      | Inr pause \<Rightarrow>
          (case start_graph env limit pause thread_id cks db (initial_state q thread_id) of (cks1, db1, r) \<Rightarrow>
            (cks1, and_run (settle_invocation env reraised thread_id db1 r) (\<lambda>db2 _.
               (db2, status_by_thread db2 thread_id)))))"

definition resume_txn :: "ndb \<Rightarrow> int \<Rightarrow> time \<Rightarrow> (ndb \<times> string) result" where
  "resume_txn db run_id now =
     and_then (or_raise EntityNotFoundError (nd_workflow db run_id)) (\<lambda>r.
     and_then (require (wr_status r = WorkflowRunStatus_PAUSED) WorkflowNotResumableError) (\<lambda>_.
     and_then (transition_workflow r WorkflowRunStatus_RUNNING) (\<lambda>r1.
     ncommit (save_workflow db (r1\<lparr>wr_updated_at := now\<rparr>)) (wr_thread_id r1))))"

definition resume_workflow ::
  "workflow_env \<Rightarrow> nat \<Rightarrow> int \<Rightarrow> checkpoints \<Rightarrow> ndb \<Rightarrow> checkpoints \<times> ndb \<times> workflow_status result" where
  "resume_workflow env limit run_id cks db =
     (case resume_txn db run_id (wn_now env) of
        Inl e \<Rightarrow> (cks, db, Inl e)
      | Inr (db1, thread_id) \<Rightarrow>
          (case continue_graph env limit thread_id cks db1 of (cks1, db2, r) \<Rightarrow>
            (cks1, and_run (settle_invocation env (\<lambda>_. False) thread_id db2 r) (\<lambda>db3 _.
               (db3, get_status db3 run_id)))))"

end
