(* ===== verification/Chapter_Termination.thy ===== *)
theory Chapter_Termination
  imports Chapter_Runs Version_Properties
begin

text \<open>
  How many nodes a run of the graph executes, whatever the agents, the evaluation and the other
  processes do between the nodes, and the invariant of the checkpointed state behind the bound.
\<close>

section \<open>What a node changes of the state\<close>

lemma with_value_Inr [simp]: "with_value db r f = (db', Inr b) \<longleftrightarrow> (\<exists>a. r = Inr a \<and> f a = (db', Inr b))"
  by (auto simp: with_value_def split: sum.splits)

lemma and_run_Inr: "and_run x f = (db', Inr b) \<longleftrightarrow> (\<exists>db1 a. x = (db1, Inr a) \<and> f db1 a = (db', Inr b))"
  by (cases x; cases "snd x") (auto simp: and_run_def)

lemma ran_Inr_iff: "ran db r = (db', Inr a) \<longleftrightarrow> r = Inr (db', a)"
  by (auto simp: ran_def split: sum.splits)

text \<open>The part of the state that decides how the graph goes on.\<close>

definition same_course :: "wstate \<Rightarrow> wstate \<Rightarrow> bool" where
  "same_course s t \<longleftrightarrow> ws_attempt t = ws_attempt s \<and> ws_max_attempts t = ws_max_attempts s \<and>
     ws_errors t = ws_errors s"

lemma state_update_columns [simp]:
  "ws_attempt (state_update n s) = ws_attempt s" "ws_max_attempts (state_update n s) = ws_max_attempts s"
  "ws_errors (state_update n s) = ws_errors s" "ws_brief (state_update n s) = ws_brief s"
  "ws_route (state_update n s) = ws_route s" "ws_status (state_update n s) = ws_status s"
  "ws_run_id (state_update n s) = ws_run_id s" "ws_accepted (state_update n s) = ws_accepted s"
  by (simp_all add: state_update_def)

lemma run_action_Inr:
  assumes "run_action env terminal node action s db = (db', Inr s')"
  obtains db1 db2 s1 where "action db1 = (db2, Inr s1)" "s' = state_update node s1"
    "node_completed env s1 node terminal db2 = (db', Inr ())"
proof -
  obtain db1 where rest: "(case action db1 of
      (db2, Inl e) \<Rightarrow> and_run (ran db2 (node_failed env s node e db2)) (\<lambda>db3 _. (db3, Inl e))
    | (db2, Inr s1) \<Rightarrow>
        and_run (node_completed env s1 node terminal db2) (\<lambda>db3 _. (db3, Inr (state_update node s1)))) = (db', Inr s')"
    using assms unfolding run_action_def and_run_Inr by blast
  obtain db2 r where act: "action db1 = (db2, r)" by fastforce
  show ?thesis
    using rest act that by (cases r) (auto simp: and_run_Inr)
qed

lemma plain_actions:
  "load_context env s db = (db', Inr s') \<Longrightarrow> same_course s s'"
  "generate_draft env s db = (db', Inr s') \<Longrightarrow> same_course s s'"
  "extract_facts env s db = (db', Inr s') \<Longrightarrow> same_course s s'"
  "evaluate_version env node s db = (db', Inr s') \<Longrightarrow> same_course s s'"
  "compare_node env s db = (db', Inr s') \<Longrightarrow> same_course s s'"
  "reject_node env s db = (db', Inr s') \<Longrightarrow> same_course s s'"
  by (auto simp: load_context_def generate_draft_def extract_facts_def evaluate_version_def compare_node_def
      reject_node_def and_run_Inr same_course_def)

lemma brief_action:
  assumes "revision_brief_node env s db = (db', Inr s')"
  shows "same_course s s' \<and> (\<exists>b. ws_brief s' = Some b \<and> rb_revision_attempt b = ws_attempt s + 1)"
proof -
  have "rb_revision_attempt b = k" if "build_brief c ch v k obj is keep avoid words p = Inr b"
    for c ch v k obj and is' :: "revision_issue list" and keep avoid words p b "is"
    using that by (auto simp: build_brief_def make_brief_def Let_def split: if_splits)
  then show ?thesis
    using assms by (auto simp: revision_brief_node_def build_revision_brief_def same_course_def)
qed

lemma revise_action:
  assumes "revise_draft env s db = (db', Inr s')"
  shows "ws_max_attempts s' = ws_max_attempts s \<and> ws_errors s' = ws_errors s \<and>
    (\<exists>b. ws_brief s = Some b \<and> ws_attempt s' = rb_revision_attempt b)"
  using assms by (auto simp: revise_draft_def and_run_Inr)

lemma route_action:
  "take_route env node route s db = (db', Inr s') \<Longrightarrow> same_course s s' \<and> ws_route s' = route"
  by (auto simp: take_route_def and_run_Inr same_course_def)

section \<open>The invariant\<close>

text \<open>
  What the checkpointed state satisfies when a node is about to run: attempts stay within the limit
  (with one attempt for a targeted revision), the brief asks for the next attempt, and a rejected
  revision leaves attempts.
\<close>

definition attempts_ok :: "wstate \<Rightarrow> bool" where
  "attempts_ok s \<longleftrightarrow> 0 \<le> ws_attempt s \<and> ws_attempt s \<le> max 1 (ws_max_attempts s) \<and> ws_errors s = []"

definition may_revise :: "wstate \<Rightarrow> bool" where
  "may_revise s \<longleftrightarrow> ws_attempt s < ws_max_attempts s \<or> ws_attempt s = 0"

fun node_ready :: "wnode \<Rightarrow> wstate \<Rightarrow> bool" where
  "node_ready Build_Revision_Brief s \<longleftrightarrow> attempts_ok s \<and> may_revise s"
| "node_ready Revise_Draft s \<longleftrightarrow> attempts_ok s \<and> may_revise s \<and>
     (\<exists>b. ws_brief s = Some b \<and> rb_revision_attempt b = ws_attempt s + 1)"
| "node_ready Reject_Revision s \<longleftrightarrow> attempts_ok s \<and> ws_attempt s < ws_max_attempts s"
| "node_ready Fail_Workflow s \<longleftrightarrow> False"
| "node_ready _ s \<longleftrightarrow> attempts_ok s"

text \<open>The number of nodes that can still run.\<close>

definition attempts_left :: "wstate \<Rightarrow> nat" where
  "attempts_left s = nat (ws_max_attempts s - ws_attempt s)"

fun nodes_left :: "wnode \<Rightarrow> wstate \<Rightarrow> nat" where
  "nodes_left Initialize_Workflow s = 6 + 7 * max 1 (attempts_left s)"
| "nodes_left Load_Context s = 5 + 7 * max 1 (attempts_left s)"
| "nodes_left Generate_Draft s = 4 + 7 * max 1 (attempts_left s)"
| "nodes_left Extract_Facts s = 3 + 7 * max 1 (attempts_left s)"
| "nodes_left Evaluate_Draft s = 2 + 7 * max 1 (attempts_left s)"
| "nodes_left Decide_After_Evaluation s = 1 + 7 * max 1 (attempts_left s)"
| "nodes_left Build_Revision_Brief s = 7 * max 1 (attempts_left s)"
| "nodes_left Revise_Draft s = 7 * max 1 (attempts_left s) - 1"
| "nodes_left Extract_Revision_Facts s = 5 + 7 * attempts_left s"
| "nodes_left Evaluate_Revision s = 4 + 7 * attempts_left s"
| "nodes_left Compare_Versions s = 3 + 7 * attempts_left s"
| "nodes_left Decide_After_Comparison s = 2 + 7 * attempts_left s"
| "nodes_left Reject_Revision s = 1 + 7 * attempts_left s"
| "nodes_left Accept_Version s = 1"
| "nodes_left Mark_Needs_Human_Review s = 1"
| "nodes_left Fail_Workflow s = 1"

lemma same_course_left: "same_course s t \<Longrightarrow> attempts_left t = attempts_left s \<and> attempts_ok t = attempts_ok s"
  by (simp add: same_course_def attempts_left_def attempts_ok_def)

lemma nodes_left_pos: "0 < nodes_left n s"
  by (cases n) simp_all

lemma evaluation_route_cases:
  assumes "attempts_ok s"
  shows "evaluation_route s p = ''accept'' \<or> evaluation_route s p = ''human_review'' \<or>
    evaluation_route s p = ''revise'' \<and> may_revise s"
  using assms by (auto simp: evaluation_route_def attempts_ok_def may_revise_def)

lemma comparison_route_cases:
  assumes "attempts_ok s"
  shows "comparison_route s r = ''accept'' \<or> comparison_route s r = ''human_review'' \<or>
    comparison_route s r = ''retry'' \<and> ws_attempt s < ws_max_attempts s"
  using assms by (auto simp: comparison_route_def attempts_ok_def)

lemma action_course:
  assumes "node_action env n s db = (db', Inr s')" and "n \<notin> {Initialize_Workflow, Fail_Workflow, Revise_Draft}"
    and "n \<notin> {Accept_Version, Mark_Needs_Human_Review}"
  shows "same_course s s'"
  using assms(2,3)
  by (cases n) (use assms(1) in \<open>auto simp: decide_after_evaluation_def decide_after_comparison_def
      dest: plain_actions brief_action route_action\<close>)

text \<open>One node: the invariant holds at the next, and fewer nodes are left.\<close>

lemma action_progress:
  assumes act: "node_action env n s db = (db', Inr s')" and ready: "node_ready n s"
    and n: "n \<noteq> Initialize_Workflow" "n \<noteq> Fail_Workflow" and nxt: "next_node n s' = Inr (Some m)"
  shows "node_ready m s' \<and> nodes_left m s' < nodes_left n s"
proof -
  have "n \<noteq> Accept_Version" "n \<noteq> Mark_Needs_Human_Review" using nxt by auto
  with n consider (revise) "n = Revise_Draft" | (brief) "n = Build_Revision_Brief" | (evaluated) "n = Decide_After_Evaluation"
    | (compared) "n = Decide_After_Comparison" | (rejected) "n = Reject_Revision"
    | (plain) "n \<in> {Load_Context, Generate_Draft, Extract_Facts, Evaluate_Draft, Extract_Revision_Facts,
        Evaluate_Revision, Compare_Versions}"
    by (cases n) simp_all
  then show ?thesis
  proof cases
    case revise
    with act ready have "ws_attempt s' = ws_attempt s + 1" "ws_max_attempts s' = ws_max_attempts s"
        "ws_errors s' = ws_errors s"
      using revise_action by fastforce+
    with revise ready nxt show ?thesis
      by (auto simp: attempts_ok_def may_revise_def attempts_left_def)
  next
    case brief
    with act have "same_course s s'" "\<exists>b. ws_brief s' = Some b \<and> rb_revision_attempt b = ws_attempt s + 1"
      using brief_action by auto
    with brief ready nxt show ?thesis
      by (auto simp: same_course_def attempts_ok_def may_revise_def attempts_left_def)
  next
    case evaluated
    with act obtain p where "take_route env ''decide_after_evaluation'' (evaluation_route s p) s db = (db', Inr s')"
      by (auto simp: decide_after_evaluation_def)
    then have course: "same_course s s'" and route: "ws_route s' = evaluation_route s p"
      using route_action by blast+
    have ok: "attempts_ok s" using evaluated ready by simp
    note left = same_course_left [OF course]
    have revise: "may_revise s' = may_revise s" using course by (simp add: may_revise_def same_course_def)
    from evaluation_route_cases [OF ok, of p] show ?thesis
      using nxt evaluated ok by (elim disjE) (auto simp: route left revise)
  next
    case compared
    with act obtain r where "take_route env ''decide_after_comparison'' (comparison_route s r) s db = (db', Inr s')"
      by (auto simp: decide_after_comparison_def)
    then have course: "same_course s s'" and route: "ws_route s' = comparison_route s r"
      using route_action by blast+
    have ok: "attempts_ok s" using compared ready by simp
    note left = same_course_left [OF course]
    have more: "ws_attempt s' < ws_max_attempts s' \<longleftrightarrow> ws_attempt s < ws_max_attempts s"
      using course by (simp add: same_course_def)
    from comparison_route_cases [OF ok, of r] show ?thesis
      using nxt compared ok by (elim disjE) (auto simp: route left more)
  next
    case rejected
    with act have "same_course s s'" using plain_actions by auto
    with rejected ready nxt show ?thesis
      by (auto simp: same_course_def attempts_ok_def may_revise_def attempts_left_def)
  next
    case plain
    then have "same_course s s'" using act action_course by blast
    from same_course_left [OF this] plain ready nxt show ?thesis
      by auto
  qed
qed

lemma execute_progress:
  assumes "execute_node env n s db = (db', Inr s')" and "node_ready n s" and "n \<noteq> Initialize_Workflow"
    and "next_node n s' = Inr (Some m)"
  shows "node_ready m s' \<and> nodes_left m s' < nodes_left n s"
proof -
  have fail: "n \<noteq> Fail_Workflow" using assms(2) by auto
  obtain db1 db2 s1 where act: "node_action env n s db1 = (db2, Inr s1)" and s': "s' = state_update (node_name n) s1"
    using assms(1,3) fail by (auto simp: execute_node_def elim!: run_action_Inr)
  have "next_node n s1 = Inr (Some m)"
    using assms(4) by (cases n) (simp_all add: s' split: if_splits)
  from action_progress [OF act assms(2,3) fail this]
  have "node_ready m s1 \<and> nodes_left m s1 < nodes_left n s" .
  then show ?thesis
    by (cases m) (auto simp: s' attempts_ok_def may_revise_def attempts_left_def)
qed

section \<open>Runs of the graph\<close>

lemma graph_run_bounded:
  assumes "node_ready n s" and "n \<noteq> Initialize_Workflow" and "nodes_left n s \<le> k"
    and "graph_run env pause k n s db = (db', ck, out)"
  shows "out \<noteq> Recursion_Limit \<and>
    (case ck_next ck of None \<Rightarrow> True | Some m \<Rightarrow> node_ready m (ck_state ck) \<and> m \<noteq> Initialize_Workflow)"
  using assms
proof (induction k arbitrary: n s db)
  case 0
  then show ?case using nodes_left_pos [of n s] by simp
next
  case (Suc k)
  obtain db1 r where ex: "execute_node env n s db = (db1, r)" by fastforce
  show ?case
  proof (cases r)
    case (Inl e)
    then show ?thesis using Suc.prems ex by auto
  next
    case (Inr s1)
    note ok = ex [unfolded Inr]
    show ?thesis
    proof (cases "next_node n s1")
      case (Inl e)
      then show ?thesis using Suc.prems ok by auto
    next
      case nxt: (Inr next')
      show ?thesis
      proof (cases next')
        case None
        then show ?thesis using Suc.prems ok nxt by auto
      next
        case (Some m)
        note nxt' = nxt [unfolded Some]
        have step: "node_ready m s1" "nodes_left m s1 < nodes_left n s"
          using execute_progress [OF ok Suc.prems(1,2) nxt'] by blast+
        have m: "m \<noteq> Initialize_Workflow" using nxt' by (cases n) (auto split: if_splits)
        show ?thesis
        proof (cases "pause = Some n")
          case True
          then show ?thesis using Suc.prems(4) ok nxt' step m by auto
        next
          case False
          then have "graph_run env pause k m s1 (wn_between env m db1) = (db', ck, out)"
            using Suc.prems(4) ok nxt' by simp
          from Suc.IH [OF step(1) m _ this] step(2) Suc.prems(3) show ?thesis by simp
        qed
      qed
    qed
  qed
qed

lemma execute_attempts:
  assumes "execute_node env n s db = (db', Inr s')" and "node_ready n s" and "n \<noteq> Initialize_Workflow"
  shows "ws_max_attempts s' = ws_max_attempts s \<and> ws_attempt s' \<le> max 1 (ws_max_attempts s)"
proof -
  have fail: "n \<noteq> Fail_Workflow" using assms(2) by auto
  obtain db1 db2 s1 where act: "node_action env n s db1 = (db2, Inr s1)" and s': "s' = state_update (node_name n) s1"
    using assms(1,3) fail by (auto simp: execute_node_def elim!: run_action_Inr)
  have ok: "ws_attempt s \<le> max 1 (ws_max_attempts s)"
    using assms(2) by (cases n) (auto simp: attempts_ok_def)
  show ?thesis
  proof (cases "n = Revise_Draft")
    case True
    with act assms(2) have "ws_max_attempts s1 = ws_max_attempts s" "ws_attempt s1 = ws_attempt s + 1"
      using revise_action by fastforce+
    with True assms(2) show ?thesis by (auto simp: s' attempts_ok_def may_revise_def)
  next
    case False
    have "same_course s s1"
    proof (cases "n \<in> {Accept_Version, Mark_Needs_Human_Review}")
      case True
      with act show ?thesis by (auto simp: accept_node_def review_node_def and_run_Inr same_course_def)
    next
      case other: False
      show ?thesis by (rule action_course [OF act]) (use assms(3) fail False other in auto)
    qed
    with ok show ?thesis by (simp add: s' same_course_def)
  qed
qed

lemma graph_run_attempts:
  assumes "node_ready n s" and "n \<noteq> Initialize_Workflow"
    and "graph_run env pause k n s db = (db', ck, out)"
  shows "ws_attempt (ck_state ck) \<le> max 1 (ws_max_attempts s)"
  using assms
proof (induction k arbitrary: n s db)
  case 0
  then show ?case by (cases n) (auto simp: attempts_ok_def)
next
  case (Suc k)
  have here: "ws_attempt s \<le> max 1 (ws_max_attempts s)"
    using Suc.prems(1) by (cases n) (auto simp: attempts_ok_def)
  obtain db1 r where ex: "execute_node env n s db = (db1, r)" by fastforce
  show ?case
  proof (cases r)
    case (Inl e)
    then show ?thesis using Suc.prems ex here by auto
  next
    case (Inr s1)
    note ok = ex [unfolded Inr]
    note after = execute_attempts [OF ok Suc.prems(1,2)]
    show ?thesis
    proof (cases "next_node n s1 = Inr None \<or> isl (next_node n s1) \<or> pause = Some n")
      case True
      then show ?thesis using Suc.prems(3) ok here after by (auto split: sum.splits option.splits)
    next
      case False
      then obtain m where nxt: "next_node n s1 = Inr (Some m)" by (cases "next_node n s1") auto
      have m: "m \<noteq> Initialize_Workflow" using nxt by (cases n) (auto split: if_splits)
      have "graph_run env pause k m s1 (wn_between env m db1) = (db', ck, out)"
        using Suc.prems(3) ok nxt False by simp
      from Suc.IH [OF conjunct1 [OF execute_progress [OF ok Suc.prems(1,2) nxt]] m this] after
      show ?thesis by simp
    qed
  qed
qed

lemma initialize_new_thread:
  assumes "run_by_thread db (ws_thread_id s) = None" and "initialize_txn env db s = Inr (db', s')"
  shows "ws_attempt s' = 0 \<and> ws_max_attempts s' = ws_max_attempts s \<and> ws_errors s' = ws_errors s"
  using assms
  by (auto simp: initialize_txn_def start_run_def Let_def run_state_update_def new_run_def repo_add_def
      transition_workflow_def split: if_splits prod.splits)

text \<open>
  C28. A new run of the chapter workflow executes at most \<open>6 + 7 * max 1 n\<close> nodes for a limit of \<open>n\<close> revision attempts:
  with that recursion limit the executor never stops it, whatever the agents, the evaluations and
  the other processes do between the nodes; and no checkpoint counts more than \<open>max 1 n\<close> attempts.
\<close>

theorem chapter_workflow_ends:
  assumes "run_by_thread db (ws_thread_id s) = None"
    and "ws_attempt s = 0" and "ws_errors s = []"
    and "6 + 7 * nat (max 1 (ws_max_attempts s)) \<le> limit"
    and "graph_run env pause limit Initialize_Workflow s db = (db', ck, out)"
  shows "out \<noteq> Recursion_Limit \<and> ws_attempt (ck_state ck) \<le> max 1 (ws_max_attempts s)"
proof -
  obtain k where limit: "limit = Suc k" using assms(4) by (cases limit) auto
  obtain db1 r where ex: "execute_node env Initialize_Workflow s db = (db1, r)" by fastforce
  show ?thesis
  proof (cases r)
    case (Inl e)
    then show ?thesis using assms(2,5) ex limit by auto
  next
    case (Inr s1)
    then have "initialize_txn env db s = Inr (db1, s1)"
      using ex by (simp add: execute_node_def ran_Inr_iff)
    from initialize_new_thread [OF assms(1) this]
    have s1: "ws_attempt s1 = 0" "ws_max_attempts s1 = ws_max_attempts s" "ws_errors s1 = []"
      using assms(3) by simp_all
    then have ready: "node_ready Load_Context s1" by (simp add: attempts_ok_def)
    show ?thesis
    proof (cases "pause = Some Initialize_Workflow")
      case True
      then show ?thesis using assms(5) ex Inr limit s1 by auto
    next
      case False
      then have run: "graph_run env pause k Load_Context s1 (wn_between env Load_Context db1) = (db', ck, out)"
        using assms(5) ex Inr limit by simp
      have "nodes_left Load_Context s1 \<le> k"
      proof -
        have "max 1 (attempts_left s1) = nat (max 1 (ws_max_attempts s))"
          unfolding attempts_left_def s1 by arith
        then show ?thesis using assms(4) limit by simp
      qed
      from graph_run_bounded [OF ready _ this run] graph_run_attempts [OF ready _ run] show ?thesis
        using s1 by simp
    qed
  qed
qed

end
