(* ===== verification/Chapter_Outcomes.thy ===== *)
theory Chapter_Outcomes
  imports Chapter_Termination
begin

text \<open>
  How runs of the chapter workflow end: the durable status of a finished run, the equality of a paused
  and continued run with an uninterrupted one, and what an exception that \<open>run\<close> raises again leaves
  behind: no node but the last one of a run changes the status of its row, so the row is still
  RUNNING and occupies the chapter.
\<close>

section \<open>Finished runs\<close>

lemma graph_run_last:
  assumes "node_ready n s" and "n \<noteq> Initialize_Workflow"
    and "graph_run env pause k n s db = (db', ck, Graph_Finished)"
  shows "\<exists>m t db1. execute_node env m t db1 = (db', Inr (ck_state ck)) \<and> next_node m (ck_state ck) = Inr None \<and>
    node_ready m t \<and> m \<noteq> Initialize_Workflow"
  using assms
proof (induction k arbitrary: n s db)
  case 0
  then show ?case by simp
next
  case (Suc k)
  obtain db1 r where ex: "execute_node env n s db = (db1, r)" by fastforce
  obtain s1 where r: "r = Inr s1" using Suc.prems(3) ex by (cases r) auto
  note ok = ex [unfolded r]
  obtain next' where nxt: "next_node n s1 = Inr next'" using Suc.prems(3) ok by (cases "next_node n s1") auto
  show ?case
  proof (cases next')
    case None
    with Suc.prems ok nxt have "db' = db1" "ck_state ck = s1" by auto
    then show ?thesis using Suc.prems(1,2) ok nxt None by blast
  next
    case (Some m)
    note nxt' = nxt [unfolded Some]
    have m: "m \<noteq> Initialize_Workflow" using nxt' by (cases n) (auto split: if_splits)
    have "graph_run env pause k m s1 (wn_between env m db1) = (db', ck, Graph_Finished)"
      using Suc.prems(3) ok nxt' by (auto split: if_splits)
    with Suc.IH [OF conjunct1 [OF execute_progress [OF ok Suc.prems(1,2) nxt']] m] show ?thesis by blast
  qed
qed

lemma nd_workflow_events [simp]:
  "nd_workflow (put_event db run_id node event_type attempt status d v e c now) = nd_workflow db"
  by (simp add: put_event_def nd_workflow_def fun_eq_iff split: option.split)

lemma record_aux_workflow:
  "record_aux_event db run_id node event_type attempt status v e now = Inr (db', u) \<Longrightarrow>
   nd_workflow db' = nd_workflow db"
  by (auto simp: record_aux_event_def)

lemma terminal_completion_workflow:
  "node_completed env s node True db = (db', Inr u) \<Longrightarrow> nd_workflow db' = nd_workflow db"
  by (auto simp: node_completed_def complete_txn_def Let_def and_run_Inr ran_Inr_iff)

definition index_keeps_runs :: "workflow_env \<Rightarrow> bool" where
  "index_keeps_runs env \<longleftrightarrow> (\<forall>db i. nd_workflow_runs (fst (wn_index env db i)) = nd_workflow_runs db)"

lemma accept_txn_run:
  assumes "accept_txn memory db run_id version_id now = Inr (db', b)"
  shows "\<exists>r. nd_workflow db' run_id = Some r \<and> wr_status r = WorkflowRunStatus_COMPLETED \<and>
    wr_accepted_version_id r = Some version_id"
proof (cases b)
  case True
  then show ?thesis using acceptance_run [of memory db run_id version_id now db'] assms by simp
next
  case False
  with assms show ?thesis
    using get_version_row by (fastforce simp: accept_txn_def split: if_splits)
qed

lemma accept_version_run:
  assumes "accept_version memory index db run_id version_id now = Inr (db', u)"
    and "\<And>db i. nd_workflow_runs (fst (index db i)) = nd_workflow_runs db"
  shows "\<exists>r. nd_workflow db' run_id = Some r \<and> wr_status r = WorkflowRunStatus_COMPLETED \<and>
    wr_accepted_version_id r = Some version_id"
proof -
  obtain db1 b where txn: "accept_txn memory db run_id version_id now = Inr (db1, b)"
    using assms(1) by (auto simp: accept_version_def)
  obtain db2 ok where index: "index db1 version_id = (db2, ok)" by fastforce
  have rest: "db' = db1 \<or> db' = db2 \<or>
      (\<exists>m. db' = mark_index_failed m db2 version_id ''index_persistence_error'' now)"
    using assms(1) txn index by (cases memory; cases b; cases ok) (auto simp: accept_version_def)
  have "nd_workflow_runs (mark_index_failed m x i c t) = nd_workflow_runs x" for m x i c t
    by (simp add: mark_index_failed_def split: option.split)
  then have "nd_workflow_runs db' = nd_workflow_runs db1"
    using rest assms(2) [of db1 version_id] index by auto
  then have "nd_workflow db' = nd_workflow db1" by (simp add: nd_workflow_def fun_eq_iff)
  then show ?thesis using accept_txn_run [OF txn] by simp
qed

lemma reviewed_run:
  assumes "mark_needs_review db run_id now = Inr (db', best)"
  shows "\<exists>r. nd_workflow db' run_id = Some r \<and> wr_status r = WorkflowRunStatus_COMPLETED_NEEDS_REVIEW"
proof -
  obtain r v c where r: "nd_workflow db run_id = Some r"
    and db': "db' = reject_other_versions run_id (cv_id v) (reject_run_candidates run_id (save_workflow
      (save_narrative_chapter (save_version db (v\<lparr>cv_status := ChapterVersionStatus_NEEDS_REVIEW\<rparr>))
        (review_chapter_row c v)) (review_run_row r (cv_id v) now)))"
    using assms by (auto simp: mark_needs_review_def Let_def)
  have "nd_workflow_runs db' = repo_save wr_id (nd_workflow_runs db) (review_run_row r (cv_id v) now)"
    by (simp add: db' reject_other_versions_def reject_run_candidates_def save_workflow_def
        save_narrative_chapter_def save_version_def)
  then show ?thesis
    using r nd_workflow_row [OF r] by (simp add: nd_workflow_def workflow_runs.get_save review_run_row_def)
qed

lemma accept_node_run:
  assumes "accept_node env s db = (db', Inr s')" and "index_keeps_runs env"
  shows "\<exists>run_id r. ws_run_id s' = Some run_id \<and> nd_workflow db' run_id = Some r \<and>
    wr_status r = WorkflowRunStatus_COMPLETED \<and> ws_status s' = WorkflowRunStatus_COMPLETED \<and>
    wr_accepted_version_id r = ws_accepted s'"
proof -
  obtain v run_id db1 db2 db3 where run_id: "ws_run_id s = Some run_id"
    and acc: "accept_version (wn_memory env) (wn_index env) db run_id v (wn_now env) = Inr (db1, ())"
    and frames: "nd_workflow db2 = nd_workflow db1" "nd_workflow db3 = nd_workflow db2" "db' = db3"
    and s': "s' = s\<lparr>ws_accepted := Some v, ws_best := Some v, ws_status := WorkflowRunStatus_COMPLETED\<rparr>"
    using assms(1) by (auto simp: accept_node_def and_run_Inr ran_Inr_iff run_of_def dest!: record_aux_workflow)
  then show ?thesis
    using accept_version_run [OF acc] assms(2) by (auto simp: index_keeps_runs_def)
qed

lemma review_node_run:
  assumes "review_node env s db = (db', Inr s')"
  shows "\<exists>run_id r. ws_run_id s' = Some run_id \<and> nd_workflow db' run_id = Some r \<and>
    wr_status r = WorkflowRunStatus_COMPLETED_NEEDS_REVIEW \<and> ws_status s' = WorkflowRunStatus_COMPLETED_NEEDS_REVIEW"
  using assms reviewed_run
  by (fastforce simp: review_node_def and_run_Inr ran_Inr_iff run_of_def dest!: record_aux_workflow)

text \<open>
  C29. A graph that finishes has ended its run: the durable row is completed with the version the state
  names as accepted, or completed with a review; the checkpointed status says the same, and the
  failure node is never reached.
\<close>

theorem finished_graph_ends_run:
  assumes "node_ready n s" and "n \<noteq> Initialize_Workflow" and "index_keeps_runs env"
    and "graph_run env pause k n s db = (db', ck, Graph_Finished)"
  shows "\<exists>run_id r. ws_run_id (ck_state ck) = Some run_id \<and> nd_workflow db' run_id = Some r \<and>
    wr_status r = ws_status (ck_state ck) \<and>
    (wr_status r = WorkflowRunStatus_COMPLETED \<and> wr_accepted_version_id r = ws_accepted (ck_state ck) \<or>
     wr_status r = WorkflowRunStatus_COMPLETED_NEEDS_REVIEW)"
proof -
  obtain m t db1 where ex: "execute_node env m t db1 = (db', Inr (ck_state ck))"
    and final: "next_node m (ck_state ck) = Inr None" and ready: "node_ready m t"
    using graph_run_last [OF assms(1,2,4)] by blast
  have m: "m = Accept_Version \<or> m = Mark_Needs_Human_Review"
    using final ready by (cases m) (auto split: if_splits)
  then have "run_action env True (node_name m) (node_action env m t) t db1 = (db', Inr (ck_state ck))"
    using ex by (auto simp: execute_node_def)
  then obtain db2 db3 s1 where act: "node_action env m t db2 = (db3, Inr s1)"
    and ck: "ck_state ck = state_update (node_name m) s1"
    and ended: "node_completed env s1 (node_name m) True db3 = (db', Inr ())"
    by (rule run_action_Inr)
  note frame = terminal_completion_workflow [OF ended]
  from m show ?thesis
  proof
    assume "m = Accept_Version"
    then have "accept_node env t db2 = (db3, Inr s1)" using act by simp
    from accept_node_run [OF this assms(3)] show ?thesis by (auto simp: ck frame)
  next
    assume "m = Mark_Needs_Human_Review"
    then have "review_node env t db2 = (db3, Inr s1)" using act by simp
    from review_node_run [OF this] show ?thesis by (auto simp: ck frame)
  qed
qed

section \<open>Pausing\<close>

text \<open>
  Pausing after a node and going on from the checkpoint is the same as not pausing: what the
  uninterrupted graph does from there on is what the continued graph does, with the database as
  other processes (the marks of pause and resume among them) leave it in between.
\<close>

theorem pause_is_transparent:
  assumes "graph_run env (Some p) k n s db = (db', ck, Graph_Interrupted)"
  shows "\<exists>m j. ck_next ck = Some m \<and> j < k \<and>
    graph_run env None k n s db = graph_run env None j m (ck_state ck) (wn_between env m db')"
  using assms
proof (induction k arbitrary: n s db)
  case 0
  then show ?case by simp
next
  case (Suc k)
  obtain db1 r where ex: "execute_node env n s db = (db1, r)" by fastforce
  obtain s1 where r: "r = Inr s1" using Suc.prems ex by (cases r) auto
  note ok = ex [unfolded r]
  obtain m where nxt: "next_node n s1 = Inr (Some m)"
    using Suc.prems ok by (auto split: sum.splits option.splits)
  show ?case
  proof (cases "p = n")
    case True
    then have "db' = db1" "ck = \<lparr>ck_state = s1, ck_next = Some m\<rparr>" using Suc.prems ok nxt by auto
    moreover have "graph_run env None (Suc k) n s db = graph_run env None k m s1 (wn_between env m db1)"
      using ok nxt by simp
    ultimately show ?thesis by (intro exI [of _ m] exI [of _ k]) simp
  next
    case False
    then have "graph_run env (Some p) k m s1 (wn_between env m db1) = (db', ck, Graph_Interrupted)"
      using Suc.prems ok nxt by simp
    from Suc.IH [OF this] obtain m' j where ih: "ck_next ck = Some m'" "j < k"
      "graph_run env None k m s1 (wn_between env m db1) =
         graph_run env None j m' (ck_state ck) (wn_between env m' db')" by blast
    moreover have "graph_run env None (Suc k) n s db = graph_run env None k m s1 (wn_between env m db1)"
      using ok nxt by simp
    ultimately show ?thesis by (intro exI [of _ m'] exI [of _ j]) simp
  qed
qed


section \<open>Nodes and the row of the run\<close>

definition run_row :: "ndb \<Rightarrow> int \<Rightarrow> (string \<times> int \<times> workflow_run_status) option" where
  "run_row db i = map_option (\<lambda>r. (wr_thread_id r, wr_chapter_id r, wr_status r)) (nd_workflow db i)"

lemma run_row_frames [simp]:
  "run_row (save_version db v) i = run_row db i" "run_row (save_narrative_chapter db c) i = run_row db i"
  "run_row (fst (add_version db v)) i = run_row db i" "run_row (save_revision db x) i = run_row db i"
  "run_row (reject_facts_of k db) i = run_row db i" "run_row (db\<lparr>nd_facts := t1\<rparr>) i = run_row db i"
  "run_row (db\<lparr>nd_revisions := t2\<rparr>) i = run_row db i" "run_row (db\<lparr>nd_comparisons := t3\<rparr>) i = run_row db i"
  "run_row (put_event db k node event_type attempt status d ve ev code now) i = run_row db i"
  by (simp_all add: save_version_def save_narrative_chapter_def save_revision_def reject_facts_of_def
      add_version_def repo_add_def Let_def run_row_def nd_workflow_def put_event_def split: option.split)

lemma run_row_saved:
  assumes "run_row db (wr_id w) = Some (wr_thread_id w, wr_chapter_id w, wr_status w)"
  shows "run_row (save_workflow db w) i = run_row db i"
  using assms workflow_runs.get_save [of "nd_workflow_runs db" w i]
  by (auto simp: run_row_def nd_workflow_def save_workflow_def)

lemma run_row_known:
  "nd_workflow db k = Some r \<Longrightarrow> wr_id r = k \<and> run_row db k = Some (wr_thread_id r, wr_chapter_id r, wr_status r)"
  using nd_workflow_row [of db k r] by (simp add: run_row_def)

lemma run_row_case:
  assumes "\<And>r. wr_id (f r) = wr_id r \<and> wr_thread_id (f r) = wr_thread_id r \<and>
      wr_chapter_id (f r) = wr_chapter_id r \<and> wr_status (f r) = wr_status r"
  shows "run_row (case nd_workflow db k of None \<Rightarrow> db | Some r \<Rightarrow> save_workflow db (f r)) i = run_row db i"
  using assms by (auto simp: run_row_saved split: option.split dest!: run_row_known)

lemma draft_run_row: "draft_txn db p n k d now = Inr (db', a) \<Longrightarrow> run_row db' i = run_row db i"
  by (cases "version_by_key db (draft_key k)") (auto simp: draft_txn_def Let_def case_prod_beta run_row_case)

lemma extraction_run_row: "extraction_txn h db p v k x = Inr (db', a) \<Longrightarrow> run_row db' i = run_row db i"
  by (auto simp: extraction_txn_def Let_def run_row_saved split: option.splits prod.splits dest!: run_row_known)

lemma revise_run_row: "revise_txn db k v b d now = Inr (db', a) \<Longrightarrow> run_row db' i = run_row db i"
  by (cases "version_by_key db (revise_key k (rb_revision_attempt b))")
    (auto simp: revise_txn_def Let_def run_row_saved case_prod_beta dest!: run_row_known)

lemma compare_run_row: "compare_versions m db k u v n l = Inr (db', r) \<Longrightarrow> run_row db' i = run_row db i"
  by (cases "comparison_for_new_version db k v") (auto simp: compare_versions_def Let_def run_row_case)

lemma reject_run_row: "reject_revision db k v = Inr (db', b) \<Longrightarrow> run_row db' i = run_row db i"
  by (auto simp: reject_revision_def Let_def run_row_saved split: option.splits dest!: run_row_known)

lemma evaluated_run_row: "evaluated_txn db k v reasons = Inr (db', u) \<Longrightarrow> run_row db' i = run_row db i"
  by (auto simp: evaluated_txn_def run_row_saved split: option.splits dest!: run_row_known)

lemma aux_run_row: "record_aux_event db k node t n s v e now = Inr (db', u) \<Longrightarrow> run_row db' i = run_row db i"
  by (auto simp: record_aux_event_def)

lemma start_run_row: "start_txn db k node n now = Inr (db', u) \<Longrightarrow> run_row db' i = run_row db i"
  by (auto simp: start_txn_def run_row_saved dest!: run_row_known)

lemma complete_run_row: "complete_txn db s node d t now = Inr (db', u) \<Longrightarrow> run_row db' i = run_row db i"
  by (auto simp: complete_txn_def Let_def run_row_saved split: if_splits dest!: run_row_known)

lemma failed_run_row: "node_failed env s node e db = Inr (db', u) \<Longrightarrow> run_row db' i = run_row db i"
  by (auto simp: node_failed_def split: option.splits)

section \<open>Nodes\<close>

text \<open>Between the nodes, in the evaluation service and in the callback of a new run, nothing touches the row.\<close>

definition keeps_run :: "workflow_env \<Rightarrow> int \<Rightarrow> bool" where
  "keeps_run env i \<longleftrightarrow> (\<forall>n db. run_row (wn_between env n db) i = run_row db i) \<and>
     (\<forall>db p c v k key. run_row (fst (wn_evaluate env db p c v k key)) i = run_row db i) \<and>
     (\<forall>db k db'. wn_initialized env db k = Inr db' \<longrightarrow> run_row db' i = run_row db i)"

lemma ran_row: "(\<And>db' a. r = Inr (db', a) \<Longrightarrow> run_row db' i = run_row db i) \<Longrightarrow> run_row (fst (ran db r)) i = run_row db i"
  by (auto simp: ran_def split: sum.split)

lemma and_run_row:
  assumes "run_row (fst x) i = run_row db i" and "\<And>db1 a. run_row (fst (f db1 a)) i = run_row db1 i"
  shows "run_row (fst (and_run x f)) i = run_row db i"
  using assms by (auto simp: and_run_def split: prod.split sum.split)

lemma and_run_keeps: "(\<And>db1 a. fst (f db1 a) = db1) \<Longrightarrow> run_row (fst (and_run x f)) i = run_row (fst x) i"
  by (auto simp: and_run_def split: prod.split sum.split)

lemma with_value_row:
  assumes "\<And>a. run_row (fst (f a)) i = run_row db i"
  shows "run_row (fst (with_value db r f)) i = run_row db i"
  using assms by (simp add: with_value_def split: sum.split)

lemmas row_intros = ran_row and_run_row with_value_row

lemma version_created_row: "run_row (fst (version_created db k node n a now)) i = run_row db i"
  by (auto simp: version_created_def intro!: ran_row dest: aux_run_row)

lemma take_route_row: "run_row (fst (take_route env node route s db)) i = run_row db i"
  unfolding take_route_def by (intro row_intros) (auto dest: aux_run_row)

lemma generate_row: "run_row (fst (generate_draft env s db)) i = run_row db i"
  unfolding generate_draft_def
  by (intro row_intros) (auto simp: ensure_initial_version_def version_created_row split: option.splits dest: draft_run_row)

lemma extract_row: "run_row (fst (extract_facts env s db)) i = run_row db i"
  unfolding extract_facts_def
  by (intro row_intros) (auto simp: extract_candidate_facts_def split: option.splits dest: extraction_run_row)

lemma revise_row: "run_row (fst (revise_draft env s db)) i = run_row db i"
  unfolding revise_draft_def
  by (intro row_intros) (auto simp: revise_def version_created_row split: option.splits dest: revise_run_row)

lemma compare_row: "run_row (fst (compare_node env s db)) i = run_row db i"
  unfolding compare_node_def by (intro row_intros) (auto dest: compare_run_row)

lemma reject_row: "run_row (fst (reject_node env s db)) i = run_row db i"
  unfolding reject_node_def
  by (intro row_intros) (auto intro!: row_intros dest: reject_run_row aux_run_row)

lemma evaluate_row:
  assumes "keeps_run env i"
  shows "run_row (fst (evaluate_version env node s db)) i = run_row db i"
  unfolding evaluate_version_def
  using assms
  by (intro row_intros)
    (auto simp: keeps_run_def intro!: row_intros dest: evaluated_run_row aux_run_row)

lemma action_row:
  assumes "keeps_run env i" and "n \<notin> {Accept_Version, Mark_Needs_Human_Review}"
  shows "run_row (fst (node_action env n s db)) i = run_row db i"
  using assms
  by (cases n) (auto simp: load_context_def decide_after_evaluation_def decide_after_comparison_def
      revision_brief_node_def generate_row extract_row revise_row compare_row reject_row evaluate_row take_route_row
      intro!: with_value_row)

definition ending_nodes :: "wnode list" where
  "ending_nodes = [Accept_Version, Mark_Needs_Human_Review, Fail_Workflow]"

lemma failed_row: "run_row (fst (ran db (node_failed env s node e db))) i = run_row db i"
  by (rule ran_row) (rule failed_run_row)

lemma complete_row: "run_row (fst (ran db (complete_txn db s node d t now))) i = run_row db i"
  by (rule ran_row) (rule complete_run_row)

lemma execute_row:
  assumes "keeps_run env i" and "n \<noteq> Initialize_Workflow" and "n \<notin> set ending_nodes"
  shows "run_row (fst (execute_node env n s db)) i = run_row db i"
proof -
  have act: "run_row (fst (node_action env n s db1)) i = run_row db1 i" for db1
    using assms(3) by (intro action_row [OF assms(1)]) (auto simp: ending_nodes_def)
  have "run_row (fst (case node_action env n s db1 of
      (db2, Inl e) \<Rightarrow> and_run (ran db2 (node_failed env s (node_name n) e db2)) (\<lambda>db3 _. (db3, Inl e))
    | (db2, Inr s1) \<Rightarrow> and_run (node_completed env s1 (node_name n) t db2)
        (\<lambda>db3 _. (db3, Inr (state_update (node_name n) s1))))) i = run_row db1 i" for db1 t
    using act [of db1]
    by (auto split: prod.split sum.split simp: node_completed_def and_run_keeps failed_row complete_row)
  then show ?thesis
    using assms(2,3)
    by (auto simp: execute_node_def run_action_def node_started_def ending_nodes_def split: sum.split
        intro!: and_run_row ran_row dest: start_run_row)
qed

lemma graph_row:
  assumes "keeps_run env i" and "n \<noteq> Initialize_Workflow"
    and "graph_run env pause k n s db = (db', ck, out)" and "ck_next ck = Some m" and "m \<notin> set ending_nodes"
  shows "run_row db' i = run_row db i"
  using assms(2,3)
proof (induction k arbitrary: n s db)
  case 0
  then show ?case by simp
next
  case (Suc k)
  obtain db1 r where ex: "execute_node env n s db = (db1, r)" by fastforce
  have n: "n \<notin> set ending_nodes"
  proof
    assume "n \<in> set ending_nodes"
    then have "next_node n x = Inr None" for x by (auto simp: ending_nodes_def)
    then show False
      using Suc.prems(2) ex assms(4,5) \<open>n \<in> set ending_nodes\<close> by (cases r) auto
  qed
  have row: "run_row db1 i = run_row db i" using execute_row [OF assms(1) Suc.prems(1) n, of s db] ex by simp
  show ?case
  proof (cases "db' = db1")
    case True
    then show ?thesis using row by simp
  next
    case False
    then obtain s1 where r: "r = Inr s1" using Suc.prems(2) ex by (cases r) auto
    obtain m' where nxt: "next_node n s1 = Inr (Some m')"
      using Suc.prems(2) ex r False by (auto split: sum.splits option.splits)
    then have "graph_run env pause k m' s1 (wn_between env m' db1) = (db', ck, out)"
      using Suc.prems(2) ex r False by (auto split: if_splits)
    moreover have "m' \<noteq> Initialize_Workflow" using nxt by (cases n) (auto split: if_splits)
    ultimately have "run_row db' i = run_row (wn_between env m' db1) i" using Suc.IH by blast
    then show ?thesis using row assms(1) by (simp add: keeps_run_def)
  qed
qed

section \<open>The start of a run\<close>

lemma started_row:
  assumes "initialize_txn env db s = Inr (db', s')" and "run_by_thread db (ws_thread_id s) = None"
    and "table_ok wr_id (nd_workflow_runs db)" and "keeps_run env (t_next (nd_workflow_runs db))"
  obtains c where "narrative_chapter_by_number db (ws_project_id s) (ws_chapter_number s) = Some c"
    and "run_row db' (t_next (nd_workflow_runs db)) = Some (ws_thread_id s, ch_id c, WorkflowRunStatus_RUNNING)"
proof -
  let ?i = "t_next (nd_workflow_runs db)"
  obtain p c where c: "narrative_chapter_by_number db (ws_project_id s) (ws_chapter_number s) = Some c"
    and start: "start_run env db s p c = Inr (db', s')"
    using assms(1,2) by (auto simp: initialize_txn_def split: if_splits)
  let ?r = "new_run p c s (wn_now env)\<lparr>wr_id := ?i, wr_status := WorkflowRunStatus_RUNNING\<rparr>"
  let ?t = "fst (repo_add (\<lambda>i r. r\<lparr>wr_id := i\<rparr>) (nd_workflow_runs db) (new_run p c s (wn_now env)))"
  from start obtain db1 where init: "wn_initialized env (save_workflow (db\<lparr>nd_workflow_runs := ?t\<rparr>) ?r) ?i = Inr db1"
    and db': "run_row db' ?i = run_row db1 ?i"
    by (auto simp: start_run_def Let_def repo_add_def transition_workflow_def new_run_def split: if_splits)
  have "run_row (save_workflow (db\<lparr>nd_workflow_runs := ?t\<rparr>) ?r) ?i =
      Some (ws_thread_id s, ch_id c, WorkflowRunStatus_RUNNING)"
    using workflow_runs.get_add [OF assms(3), of "new_run p c s (wn_now env)" ?i]
      workflow_runs.get_save [of ?t ?r ?i]
    by (simp add: run_row_def nd_workflow_def save_workflow_def) (simp add: new_run_def)
  then show thesis using that [OF c] init db' assms(4) by (simp add: keeps_run_def)
qed

lemma new_run_row:
  assumes run: "graph_run env p limit Initialize_Workflow (initial_state q thread_id) db = (db', ck, out)"
    and "run_by_thread db thread_id = None" and "table_ok wr_id (nd_workflow_runs db)"
    and keeps: "keeps_run env (t_next (nd_workflow_runs db))"
    and m: "ck_next ck = Some m" "m \<noteq> Initialize_Workflow" "m \<notin> set ending_nodes"
  shows "\<exists>c. narrative_chapter_by_number db (cq_project_id q) (cq_chapter_number q) = Some c \<and>
    run_row db' (t_next (nd_workflow_runs db)) = Some (thread_id, ch_id c, WorkflowRunStatus_RUNNING)"
proof -
  let ?i = "t_next (nd_workflow_runs db)"
  obtain k where limit: "limit = Suc k" using run m by (cases limit) auto
  obtain db1 r where ex: "execute_node env Initialize_Workflow (initial_state q thread_id) db = (db1, r)" by fastforce
  obtain s1 where r: "r = Inr s1" using run ex limit m by (cases r) auto
  have init: "initialize_txn env db (initial_state q thread_id) = Inr (db1, s1)"
    using ex r by (simp add: execute_node_def ran_Inr_iff)
  obtain c where c: "narrative_chapter_by_number db (cq_project_id q) (cq_chapter_number q) = Some c"
    and row: "run_row db1 ?i = Some (thread_id, ch_id c, WorkflowRunStatus_RUNNING)"
    using started_row [OF init _ assms(3) keeps] assms(2) by (auto simp: initial_state_def)
  have "run_row db' ?i = run_row db1 ?i"
  proof (cases "p = Some Initialize_Workflow")
    case True
    then show ?thesis using run ex r limit by simp
  next
    case False
    then have "graph_run env p k Load_Context s1 (wn_between env Load_Context db1) = (db', ck, out)"
      using run ex r limit by simp
    from graph_row [OF keeps _ this m(1,3)] keeps show ?thesis by (simp add: keeps_run_def)
  qed
  then show ?thesis using c row by simp
qed

lemma invoked_row:
  assumes "invoke_graph env limit p thread_id cks db n s = (cks1, db1, Inl e)" and "cks1 thread_id = Some ck"
  shows "\<exists>db' out. graph_run env p limit n s db = (db', ck, out) \<and> run_row db1 i = run_row db' i"
  using assms
  by (auto simp: invoke_graph_def with_value_def split: prod.splits graph_outcome.splits sum.splits dest!: ran_Inl)

section \<open>Later runs\<close>

lemma active_run_blocks:
  assumes "run_by_thread db thread_id = None" and "nd_project db (cq_project_id q) \<noteq> None"
    and "narrative_chapter_by_number db (cq_project_id q) (cq_chapter_number q) = Some c"
    and "nd_workflow db i = Some r" and "workflow_active r" and "wr_chapter_id r = ch_id c"
    and "pause_node (cq_pause_after q) = Inr p"
  shows "fst (snd (run_workflow env (Suc limit) q thread_id cks db)) = db \<and>
    snd (snd (run_workflow env (Suc limit) q thread_id cks db)) = Inl WorkflowAlreadyRunningError"
proof -
  have "active_run_of_chapter db (ch_id c) \<noteq> None"
    using assms(5,6) nd_workflow_row [OF assms(4)] by (auto simp: active_run_of_chapter_def find_None_iff)
  then have "initialize_txn env db (initial_state q thread_id) = Inl WorkflowAlreadyRunningError"
    using assms(1-3) by (auto simp: initialize_txn_def initial_state_def)
  then have "execute_node env Initialize_Workflow (initial_state q thread_id) db = (db, Inl WorkflowAlreadyRunningError)"
    by (simp add: execute_node_def)
  moreover have "reraised WorkflowAlreadyRunningError" by (simp add: reraised_def)
  ultimately show ?thesis
    using assms(7) by (simp add: run_workflow_def start_graph_def invoke_graph_def settle_invocation_def)
qed

text \<open>
  C30. When a node of a new run (any but the ones that start and end it) raises an \<open>InvalidStateError\<close>, an
  \<open>EntityNotFoundError\<close> or a \<open>ValueError\<close> (a failed validation is one) and no other process has touched the row
  of the run, \<open>run\<close> raises the error again without marking the run: its row is still RUNNING. Until
  something else ends that row, every later run of the chapter under a new thread is refused with
  \<open>WorkflowAlreadyRunningError\<close> and changes nothing.
\<close>

theorem reraised_failure_blocks_chapter:
  assumes "run_by_thread db thread_id = None" and "table_ok wr_id (nd_workflow_runs db)"
    and "keeps_run env (t_next (nd_workflow_runs db))" and "pause_node (cq_pause_after q) = Inr p"
    and "start_graph env limit p thread_id cks db (initial_state q thread_id) = (cks1, db1, Inl e)"
    and "reraised e" and "cks1 thread_id = Some ck" and "ck_next ck = Some m"
    and "m \<noteq> Initialize_Workflow" and "m \<notin> set ending_nodes"
  shows "run_workflow env limit q thread_id cks db = (cks1, db1, Inl e) \<and>
    (\<exists>c r. narrative_chapter_by_number db (cq_project_id q) (cq_chapter_number q) = Some c \<and>
       nd_workflow db1 (t_next (nd_workflow_runs db)) = Some r \<and> wr_thread_id r = thread_id \<and>
       wr_chapter_id r = ch_id c \<and> wr_status r = WorkflowRunStatus_RUNNING \<and>
       (\<forall>env2 limit2 q2 p2 thread2 cks2 db2 r2 c2.
          nd_workflow db2 (t_next (nd_workflow_runs db)) = Some r2 \<and> workflow_active r2 \<and>
          wr_chapter_id r2 = ch_id c \<and> nd_project db2 (cq_project_id q2) \<noteq> None \<and>
          narrative_chapter_by_number db2 (cq_project_id q2) (cq_chapter_number q2) = Some c2 \<and>
          ch_id c2 = ch_id c \<and> run_by_thread db2 thread2 = None \<and> pause_node (cq_pause_after q2) = Inr p2 \<longrightarrow>
          fst (snd (run_workflow env2 (Suc limit2) q2 thread2 cks2 db2)) = db2 \<and>
          snd (snd (run_workflow env2 (Suc limit2) q2 thread2 cks2 db2)) = Inl WorkflowAlreadyRunningError))"
proof -
  let ?i = "t_next (nd_workflow_runs db)"
  have e: "e \<noteq> JobPauseRequested" "e \<noteq> JobCancellationRequested"
    using assms(6) by (auto simp: reraised_def)
  have first: "run_workflow env limit q thread_id cks db = (cks1, db1, Inl e)"
    using assms(4-6) e by (simp add: run_workflow_def settle_invocation_def)
  obtain db' out where run: "graph_run env p limit Initialize_Workflow (initial_state q thread_id) db = (db', ck, out)"
    and same: "run_row db1 ?i = run_row db' ?i" using invoked_row assms(5,7) by (metis start_graph_def)
  obtain c where c: "narrative_chapter_by_number db (cq_project_id q) (cq_chapter_number q) = Some c"
    and row: "run_row db' ?i = Some (thread_id, ch_id c, WorkflowRunStatus_RUNNING)"
    using new_run_row [OF run assms(1-3) assms(8-10)] by blast
  obtain r where r: "nd_workflow db1 ?i = Some r" "wr_thread_id r = thread_id" "wr_chapter_id r = ch_id c"
    "wr_status r = WorkflowRunStatus_RUNNING"
    using row same by (auto simp: run_row_def)
  show ?thesis
    using first c r active_run_blocks by (intro conjI exI [of _ c] exI [of _ r]) (simp, simp, simp, simp, simp, simp, metis)
qed

end
