(* ===== verification/Chapter_Demo.thy ===== *)
theory Chapter_Demo
  imports Chapter_Outcomes Version_Demo
begin

text \<open>The properties of the chapter workflow applied to runs over the story of \<open>Version_Demo\<close>.\<close>

definition quiet_env :: workflow_env where
  "quiet_env =
     \<lparr>wn_context = \<lambda>_ _ _. Inr (),
      wn_write = \<lambda>_ _ _. Inl (OtherException ''ChapterGenerationError''),
      wn_extract = \<lambda>_ _. Inr \<lparr>xt_facts = [], xt_character_updates = [], xt_foreshadowing_updates = [],
        xt_metadata = JNull, xt_prompt_versions = []\<rparr>,
      wn_hash = xf_subject,
      wn_evaluate = \<lambda>db _ _ version_id _ _. (db, Inr (version_id, [''short''])),
      wn_revise = \<lambda>_ _ _. Inr \<lparr>dr_title = ''One'', dr_content = ''It rained again.'', dr_summary = ''Rain'',
        dr_provider = ''mock'', dr_model = ''m'', dr_prompt_versions = [], dr_metadata = []\<rparr>,
      wn_brief_config = small_config,
      wn_minimum_improvement = 1 / 4,
      wn_memory = None,
      wn_index = \<lambda>db _. (db, True),
      wn_control = \<lambda>_ _. Inr (),
      wn_progress = \<lambda>_ _. Inr (),
      wn_initialized = \<lambda>db _. Inr db,
      wn_between = \<lambda>_ db. db,
      wn_duration = \<lambda>_. 0,
      wn_redact = exn_name,
      wn_now = 30\<rparr>"

definition refusing_env :: workflow_env where
  "refusing_env = quiet_env\<lparr>wn_context := \<lambda>_ _ _. Inl ValueError\<rparr>"

definition story_request :: chapter_workflow_request where
  "story_request = \<lparr>cq_project_id = 1, cq_chapter_number = 1, cq_operation = ''evaluate_existing'',
     cq_max_revision_attempts = 2, cq_pause_after = None\<rparr>"

text \<open>The story without a run in progress.\<close>

definition idle_story :: ndb where
  "idle_story = story\<lparr>nd_workflow_runs := \<lparr>t_rows = [story_run 1 WorkflowRunStatus_FAILED 1], t_next = 2\<rparr>\<rparr>"

section \<open>The bound\<close>

theorem chapter_workflow_ends_applied:
  "\<exists>db ck out. graph_run quiet_env None 20 Initialize_Workflow (initial_state story_request ''t'') idle_story = (db, ck, out) \<and>
     out \<noteq> Recursion_Limit \<and> ws_attempt (ck_state ck) \<le> 2"
proof -
  obtain db ck out where run:
    "graph_run quiet_env None 20 Initialize_Workflow (initial_state story_request ''t'') idle_story = (db, ck, out)"
    using prod_cases3 by blast
  have "run_by_thread idle_story (ws_thread_id (initial_state story_request ''t'')) = None" by code_simp
  from chapter_workflow_ends [OF this _ _ _ run] show ?thesis
    using run by (simp add: initial_state_def story_request_def)
qed

section \<open>An exception that is raised again\<close>

definition raised_facts :: "ndb \<times> checkpoint \<times> graph_outcome \<Rightarrow> bool" where
  "raised_facts r = (case r of (db, ck, out) \<Rightarrow> out = Graph_Raised ValueError \<and> ck_next ck = Some Load_Context \<and>
     map_option ch_id (narrative_chapter_by_number db 1 1) = Some 1 \<and> nd_project db 1 \<noteq> None \<and>
     run_by_thread db ''u'' = None)"

lemma raised_run_facts:
  "raised_facts (graph_run refusing_env None 20 Initialize_Workflow (initial_state story_request ''t'') idle_story)"
  by code_simp

definition idle_facts :: bool where
  "idle_facts \<longleftrightarrow> run_by_thread idle_story ''t'' = None \<and> t_next (nd_workflow_runs idle_story) = 2 \<and>
     map wr_id (t_rows (nd_workflow_runs idle_story)) = [1] \<and>
     map_option ch_id (narrative_chapter_by_number idle_story 1 1) = Some 1"

lemma idle_holds: "idle_facts" by code_simp

lemma refusing_keeps: "keeps_run refusing_env i"
  by (simp add: keeps_run_def refusing_env_def quiet_env_def)

section \<open>The properties applied\<close>

theorem reraised_failure_blocks_chapter_applied:
  "\<exists>cks db r. run_workflow refusing_env 20 story_request ''t'' Map.empty idle_story = (cks, db, Inl ValueError) \<and>
     nd_workflow db 2 = Some r \<and> wr_status r = WorkflowRunStatus_RUNNING \<and>
     snd (snd (run_workflow quiet_env 20 story_request ''u'' cks db)) = Inl WorkflowAlreadyRunningError"
proof -
  obtain db ck out where run: "graph_run refusing_env None 20 Initialize_Workflow
      (initial_state story_request ''t'') idle_story = (db, ck, out)"
    using prod_cases3 by blast
  then have out: "out = Graph_Raised ValueError" "ck_next ck = Some Load_Context"
    and thread: "run_by_thread db ''u'' = None" "nd_project db 1 \<noteq> None"
    using raised_run_facts by (simp_all add: raised_facts_def)
  obtain c2 where c2: "narrative_chapter_by_number db 1 1 = Some c2" "ch_id c2 = 1"
    using raised_run_facts run by (auto simp: raised_facts_def)
  have start: "start_graph refusing_env 20 None ''t'' Map.empty idle_story (initial_state story_request ''t'') =
      ([''t'' \<mapsto> ck], db, Inl ValueError)"
    using run out by (simp add: start_graph_def invoke_graph_def)
  have idle: "run_by_thread idle_story ''t'' = None" "t_next (nd_workflow_runs idle_story) = 2"
    "table_ok wr_id (nd_workflow_runs idle_story)"
    using idle_holds by (auto simp: idle_facts_def table_ok_def)
  have request: "cq_project_id story_request = 1" "cq_chapter_number story_request = 1"
    "pause_node (cq_pause_after story_request) = Inr None"
    by (simp_all add: story_request_def pause_node_def)
  have "reraised ValueError" by (simp add: reraised_def)
  note blocked = reraised_failure_blocks_chapter [OF idle(1,3) refusing_keeps request(3) start this _ out(2)]
  obtain c r where first: "run_workflow refusing_env 20 story_request ''t'' Map.empty idle_story =
      ([''t'' \<mapsto> ck], db, Inl ValueError)"
    and c: "narrative_chapter_by_number idle_story 1 1 = Some c"
    and r: "nd_workflow db 2 = Some r" "wr_chapter_id r = ch_id c" "wr_status r = WorkflowRunStatus_RUNNING"
    and later: "\<And>env2 limit2 q2 p2 thread2 cks2 db2 r2 c2.
        nd_workflow db2 2 = Some r2 \<Longrightarrow> workflow_active r2 \<Longrightarrow> wr_chapter_id r2 = ch_id c \<Longrightarrow>
        nd_project db2 (cq_project_id q2) \<noteq> None \<Longrightarrow>
        narrative_chapter_by_number db2 (cq_project_id q2) (cq_chapter_number q2) = Some c2 \<Longrightarrow>
        ch_id c2 = ch_id c \<Longrightarrow> run_by_thread db2 thread2 = None \<Longrightarrow> pause_node (cq_pause_after q2) = Inr p2 \<Longrightarrow>
        snd (snd (run_workflow env2 (Suc limit2) q2 thread2 cks2 db2)) = Inl WorkflowAlreadyRunningError"
    using blocked unfolding idle(2) request by (force simp: ending_nodes_def)
  have "workflow_active r" using r(3) by (simp add: workflow_active_def)
  moreover have "ch_id c = 1" using idle_holds c by (simp add: idle_facts_def)
  ultimately have "snd (snd (run_workflow quiet_env (Suc 19) story_request ''u'' [''t'' \<mapsto> ck] db)) =
      Inl WorkflowAlreadyRunningError"
    using later [OF r(1) _ r(2), of story_request c2 "''u''" None quiet_env 19] thread c2 request by simp
  moreover have "Suc 19 = 20" by simp
  ultimately show ?thesis using first r by metis
qed

section \<open>A finished run\<close>

definition accepting_state :: wstate where
  "accepting_state = (initial_state story_request ''1'')
     \<lparr>ws_run_id := Some 1, ws_chapter_id := Some 1, ws_current := Some 2, ws_best := Some 2,
      ws_evaluation_id := Some 2, ws_attempt := 1, ws_route := ''accept''\<rparr>"

definition accepting_run :: workflow_run where
  "accepting_run = (story_run 1 WorkflowRunStatus_RUNNING 1)
     \<lparr>wr_current_node := ''accept_version'', wr_updated_at := 30, wr_node_history := [''accept_version'']\<rparr>"

definition event_at :: "ndb \<Rightarrow> workflow_event_type \<Rightarrow> string \<Rightarrow> int option \<Rightarrow> int option \<Rightarrow> ndb" where
  "event_at db event_type status v e =
     put_event db 1 ''accept_version'' event_type 1 status 0 v e None 30"

definition accept_started :: ndb where
  "accept_started = event_at (save_workflow story accepting_run) WorkflowEventType_NODE_STARTED ''running'' None None"

definition accept_promoted :: ndb where
  "accept_promoted = promote None accept_started accepting_run
     (story_version 2 ChapterVersionStatus_REVISION (Some 1)) story_chapter story_project
     (story_evaluation 2 8 True []) 30"

definition accept_reported :: ndb where
  "accept_reported = event_at accept_promoted WorkflowEventType_VERSION_ACCEPTED ''completed'' (Some 2) (Some 2)"

definition accept_closed :: ndb where
  "accept_closed = event_at accept_reported WorkflowEventType_WORKFLOW_COMPLETED ''completed'' (Some 2) (Some 2)"

definition accept_finished :: ndb where
  "accept_finished = event_at accept_closed WorkflowEventType_NODE_COMPLETED ''completed'' (Some 2) (Some 2)"

definition started_facts :: "ndb \<Rightarrow> bool" where
  "started_facts db \<longleftrightarrow> ndb_ok db \<and> nd_workflow db 1 = Some accepting_run \<and>
     get_version db 2 = Some (story_version 2 ChapterVersionStatus_REVISION (Some 1)) \<and>
     nd_chapter db 1 = Some story_chapter \<and> nd_project db 1 = Some story_project \<and>
     latest_evaluation db 2 = Some (story_evaluation 2 8 True [])"

lemma accept_started_facts: "started_facts accept_started" by code_simp

definition live_facts :: "ndb \<Rightarrow> bool" where
  "live_facts db \<longleftrightarrow> ndb_ok db \<and> nd_workflow db 1 \<noteq> None"

lemma accept_stages: "live_facts accept_promoted" "live_facts accept_reported" "live_facts accept_closed"
  "live_facts accept_finished"
  by code_simp+

lemma accept_stage_1:
  "node_started quiet_env accepting_state ''accept_version'' story = (accept_started, Inr ())"
proof -
  have "push_node ''accept_version'' (wr_node_history (story_run 1 WorkflowRunStatus_RUNNING 1)) = [''accept_version'']"
    by (simp add: push_node_def story_run_def)
  then show ?thesis
    using accept_started_facts story_reads(1)
    by (simp add: node_started_def quiet_env_def accepting_state_def start_txn_def started_facts_def
        accept_started_def event_at_def accepting_run_def story_run_def require_def ncommit_def initial_state_def)
qed

lemma accept_stage_2:
  "accept_version None (wn_index quiet_env) accept_started 1 2 30 = Inr (accept_promoted, ())"
proof -
  have "accept_txn None accept_started 1 2 30 = Inr (accept_promoted, True)"
    unfolding accept_promoted_def
    by (rule accept_txn_ok)
       (use accept_started_facts accept_stages(1) in
         \<open>simp_all add: started_facts_def live_facts_def accept_promoted_def accepting_run_def story_run_def
           story_version_def story_evaluation_def\<close>)
  then show ?thesis by (simp add: accept_version_def)
qed

lemma accept_stage_3: "accept_node quiet_env accepting_state accept_started = (accept_closed, Inr (accepting_state
    \<lparr>ws_accepted := Some 2, ws_best := Some 2, ws_status := WorkflowRunStatus_COMPLETED\<rparr>))"
  using accept_stage_2 accept_stages(2,3)
  by (simp add: accept_node_def accepting_state_def required_id_def run_of_def quiet_env_def initial_state_def
      record_aux_event_def accept_reported_def accept_closed_def event_at_def ncommit_def live_facts_def)

lemma accept_stage_4: "node_completed quiet_env (accepting_state\<lparr>ws_accepted := Some 2, ws_best := Some 2,
    ws_status := WorkflowRunStatus_COMPLETED\<rparr>) ''accept_version'' True accept_closed = (accept_finished, Inr ())"
  using accept_stages(3,4)
  by (auto simp: node_completed_def complete_txn_def accepting_state_def quiet_env_def initial_state_def Let_def
      accept_finished_def event_at_def ncommit_def live_facts_def)

lemma finished_run:
  "graph_run quiet_env None 1 Accept_Version accepting_state story = (accept_finished,
     \<lparr>ck_state = state_update ''accept_version'' (accepting_state\<lparr>ws_accepted := Some 2, ws_best := Some 2,
        ws_status := WorkflowRunStatus_COMPLETED\<rparr>), ck_next = None\<rparr>, Graph_Finished)"
  using accept_stage_1 accept_stage_3 accept_stage_4
  by (simp add: execute_node_def run_action_def)

theorem finished_graph_ends_run_applied:
  "\<exists>r. nd_workflow accept_finished 1 = Some r \<and> wr_status r = WorkflowRunStatus_COMPLETED \<and>
     wr_accepted_version_id r = Some 2"
proof -
  have "node_ready Accept_Version accepting_state"
    by (simp add: attempts_ok_def accepting_state_def initial_state_def story_request_def)
  moreover have "index_keeps_runs quiet_env" by (simp add: index_keeps_runs_def quiet_env_def)
  ultimately show ?thesis
    using finished_graph_ends_run [OF _ _ _ finished_run] by (auto simp: accepting_state_def initial_state_def)
qed

end
