(* ===== verification/Evaluation_Scoring.thy ===== *)
theory Evaluation_Scoring
  imports Narrative_Store
begin

text \<open>
  Scores and gates of a chapter evaluation: the typed results of the mechanical evaluator and the
  critic (\<open>src/src/storyforge/evaluation/models.py\<close>), the validated scoring configuration
  (\<open>evaluation/config.py\<close>) and the combination with its blocking reasons (\<open>evaluation/scoring.py\<close>).
  Scores are rational numbers; \<open>round\<close> takes ties to the even neighbour.
\<close>

section \<open>Rounding\<close>

definition round_to :: "nat \<Rightarrow> rat \<Rightarrow> rat" where
  "round_to n x = of_int (round_half_even (x * 10 ^ n)) / 10 ^ n"

definition bounded_score :: "rat \<Rightarrow> rat" where
  "bounded_score value = round_to 2 (min 10 (max 0 value))"

lemma round_half_even_of_int [simp]: "round_half_even (of_int k) = k"
  by (simp add: round_half_even_def)

lemma round_half_even_mono:
  assumes "x \<le> y"
  shows "round_half_even x \<le> round_half_even y"
proof (cases "\<lfloor>x\<rfloor> = \<lfloor>y\<rfloor>")
  case True
  then show ?thesis using assms by (auto simp: round_half_even_def Let_def)
next
  case False
  then have "\<lfloor>x\<rfloor> + 1 \<le> \<lfloor>y\<rfloor>" using floor_mono [OF assms] by linarith
  then show ?thesis by (auto simp: round_half_even_def Let_def)
qed

lemma round_to_mono: "x \<le> y \<Longrightarrow> round_to n x \<le> round_to n y"
  by (simp add: round_to_def divide_right_mono round_half_even_mono mult_right_mono)

lemma round_to_exact: "x * 10 ^ n = of_int k \<Longrightarrow> round_to n x = x"
  by (simp add: round_to_def field_simps)

lemma bounded_score_mono: "x \<le> y \<Longrightarrow> bounded_score x \<le> bounded_score y"
  unfolding bounded_score_def by (rule round_to_mono) auto

lemma bounded_score_range: "0 \<le> bounded_score x \<and> bounded_score x \<le> 10"
proof -
  have "round_to 2 0 \<le> bounded_score x" "bounded_score x \<le> round_to 2 10"
    unfolding bounded_score_def by (rule round_to_mono, simp)+
  moreover have "round_to 2 0 = 0" "round_to 2 10 = 10"
    by (rule round_to_exact [of _ _ 0], simp, rule round_to_exact [of _ _ 1000], simp)
  ultimately show ?thesis by simp
qed

section \<open>Text\<close>

text \<open>\<open>part in text\<close>\<close>

fun contains :: "string \<Rightarrow> string \<Rightarrow> bool" where
  "contains part [] = (part = [])"
| "contains part (c # cs) = (starts_with (c # cs) part \<or> contains part cs)"

text \<open>\<open>sep.join(items)\<close>\<close>

fun join_with :: "string \<Rightarrow> string list \<Rightarrow> string" where
  "join_with sep [] = []"
| "join_with sep [x] = x"
| "join_with sep (x # y # zs) = x @ sep @ join_with sep (y # zs)"

section \<open>Typed results\<close>

record mechanical_issue =
  mq_code :: string
  mq_category :: string
  mq_severity :: conflict_severity
  mq_message :: string
  mq_evidence :: "string option"
  mq_location :: "string option"
  mq_score_penalty :: rat

record mechanical_metrics =
  mm_word_count :: int
  mm_paragraph_count :: int
  mm_sentence_count :: int
  mm_average_sentence_length :: rat
  mm_sentence_length_stddev :: rat
  mm_dialogue_ratio :: rat
  mm_repeated_paragraph_count :: int
  mm_repeated_ngram_ratio :: rat
  mm_banned_phrase_count :: int
  mm_short_paragraph_ratio :: rat
  mm_long_paragraph_ratio :: rat

record mechanical_result =
  ml_score :: rat
  ml_metrics :: mechanical_metrics
  ml_issues :: "mechanical_issue list"
  ml_evaluator_version :: string

record critic_issue =
  ci_code :: string
  ci_category :: string
  ci_severity :: conflict_severity
  ci_description :: string
  ci_evidence :: "string option"
  ci_suggestion :: string
  ci_affected_characters :: "string list"
  ci_affected_facts :: "string list"

record dimension_score =
  ds_score :: rat
  ds_rationale :: string

record chapter_critique =
  ct_prose :: dimension_score
  ct_plot :: dimension_score
  ct_character :: dimension_score
  ct_pacing :: dimension_score
  ct_dialogue :: dimension_score
  ct_emotional_impact :: dimension_score
  ct_consistency :: dimension_score
  ct_outline_adherence :: dimension_score
  ct_overall_score :: rat
  ct_strengths :: "string list"
  ct_issues :: "critic_issue list"
  ct_revision_priorities :: "string list"
  ct_pass_recommendation :: bool

text \<open>\<open>TenScore\<close>\<close>

definition ten_score :: "rat \<Rightarrow> bool" where
  "ten_score x \<longleftrightarrow> in_range 10 x"

definition make_mechanical_issue :: "mechanical_issue \<Rightarrow> mechanical_issue result" where
  "make_mechanical_issue raw =
     (let i = raw\<lparr>mq_code := strip (mq_code raw), mq_category := strip (mq_category raw),
                  mq_message := strip (mq_message raw), mq_evidence := map_option strip (mq_evidence raw),
                  mq_location := map_option strip (mq_location raw)\<rparr>
      in if text_upto 100 (mq_code i) \<and> text_upto 100 (mq_category i) \<and> mq_message i \<noteq> [] \<and>
            optional_upto 500 (mq_evidence i) \<and> optional_upto 100 (mq_location i) \<and> ten_score (mq_score_penalty i)
         then Inr i else Inl ValueError)"

definition score_after_penalties :: "mechanical_issue list \<Rightarrow> rat" where
  "score_after_penalties issues = bounded_score (10 - sum_list (map mq_score_penalty issues))"

definition make_critic_issue :: "critic_issue \<Rightarrow> critic_issue result" where
  "make_critic_issue raw =
     (let i = raw\<lparr>ci_code := strip (ci_code raw), ci_category := strip (ci_category raw),
                  ci_description := strip (ci_description raw), ci_evidence := map_option strip (ci_evidence raw),
                  ci_suggestion := strip (ci_suggestion raw),
                  ci_affected_characters := map strip (ci_affected_characters raw),
                  ci_affected_facts := map strip (ci_affected_facts raw)\<rparr>
      in if text_upto 100 (ci_code i) \<and> text_upto 100 (ci_category i) \<and> ci_description i \<noteq> [] \<and>
            optional_upto 500 (ci_evidence i) \<and> ci_suggestion i \<noteq> []
         then Inr i else Inl ValueError)"

definition make_dimension :: "dimension_score \<Rightarrow> dimension_score result" where
  "make_dimension raw =
     (let d = raw\<lparr>ds_rationale := strip (ds_rationale raw)\<rparr>
      in if ten_score (ds_score d) \<and> ds_rationale d \<noteq> [] then Inr d else Inl ValueError)"

definition dimensions :: "chapter_critique \<Rightarrow> dimension_score list" where
  "dimensions c =
     [ct_prose c, ct_plot c, ct_character c, ct_pacing c, ct_dialogue c, ct_emotional_impact c,
      ct_consistency c, ct_outline_adherence c]"

definition mean_score :: "chapter_critique \<Rightarrow> rat" where
  "mean_score c = sum_list (map ds_score (dimensions c)) / of_nat (length (dimensions c))"

text \<open>\<open>ChapterCritique.validate_business_rules\<close>\<close>

definition business_rules_ok :: "chapter_critique \<Rightarrow> bool" where
  "business_rules_ok c \<longleftrightarrow>
     \<bar>ct_overall_score c - mean_score c\<bar> \<le> 2 \<and> distinct (map ci_code (ct_issues c)) \<and>
     set (ct_revision_priorities c) \<subseteq> set (map ci_code (ct_issues c)) \<and>
     \<not> (list_ex (\<lambda>i. ci_severity i = ConflictSeverity_CRITICAL \<and> casefold (ci_category i) = ''consistency'')
           (ct_issues c) \<and> ct_pass_recommendation c)"

definition make_critique :: "chapter_critique \<Rightarrow> chapter_critique result" where
  "make_critique raw =
     and_then (make_dimension (ct_prose raw)) (\<lambda>prose.
     and_then (make_dimension (ct_plot raw)) (\<lambda>plot.
     and_then (make_dimension (ct_character raw)) (\<lambda>character.
     and_then (make_dimension (ct_pacing raw)) (\<lambda>pacing.
     and_then (make_dimension (ct_dialogue raw)) (\<lambda>dialogue.
     and_then (make_dimension (ct_emotional_impact raw)) (\<lambda>emotional_impact.
     and_then (make_dimension (ct_consistency raw)) (\<lambda>consistency.
     and_then (make_dimension (ct_outline_adherence raw)) (\<lambda>outline_adherence.
     and_then (require (ten_score (ct_overall_score raw)) ValueError) (\<lambda>_.
     and_then (map_result make_critic_issue (ct_issues raw)) (\<lambda>issues.
     let c = \<lparr>ct_prose = prose, ct_plot = plot, ct_character = character, ct_pacing = pacing,
              ct_dialogue = dialogue, ct_emotional_impact = emotional_impact, ct_consistency = consistency,
              ct_outline_adherence = outline_adherence, ct_overall_score = ct_overall_score raw,
              ct_strengths = map strip (ct_strengths raw), ct_issues = issues,
              ct_revision_priorities = map strip (ct_revision_priorities raw),
              ct_pass_recommendation = ct_pass_recommendation raw\<rparr>
     in if business_rules_ok c then Inr c else Inl ValueError))))))))))"

section \<open>Scoring configuration\<close>

record scoring_config =
  ec_version :: string
  ec_weights :: "(string \<times> rat) list"
  ec_pass_threshold :: rat
  ec_critical_score_cap :: rat
  ec_high_conflict_penalty :: rat
  ec_max_high_conflicts :: int
  ec_min_consistency_score :: rat
  ec_min_outline_adherence_score :: rat

definition default_weights :: "(string \<times> rat) list" where
  "default_weights =
     [(''mechanical'', 20 / 100), (''prose'', 15 / 100), (''plot'', 15 / 100), (''character'', 10 / 100),
      (''pacing'', 10 / 100), (''dialogue'', 5 / 100), (''emotional_impact'', 5 / 100),
      (''consistency'', 15 / 100), (''outline_adherence'', 5 / 100)]"

definition default_scoring :: scoring_config where
  "default_scoring =
     \<lparr>ec_version = ''m4-scoring-v1'', ec_weights = default_weights, ec_pass_threshold = 7,
      ec_critical_score_cap = 5, ec_high_conflict_penalty = 1 / 2, ec_max_high_conflicts = 0,
      ec_min_consistency_score = 13 / 2, ec_min_outline_adherence_score = 6\<rparr>"

text \<open>\<open>math.isclose\<close> with its default relative tolerance.\<close>

definition isclose :: "rat \<Rightarrow> rat \<Rightarrow> rat \<Rightarrow> bool" where
  "isclose abs_tol a b \<longleftrightarrow> \<bar>a - b\<bar> \<le> max (max \<bar>a\<bar> \<bar>b\<bar> / 10 ^ 9) abs_tol"

text \<open>\<open>validate_weights\<close>; the weights are a dictionary, so their names are distinct.\<close>

definition weights_ok :: "(string \<times> rat) list \<Rightarrow> bool" where
  "weights_ok weights \<longleftrightarrow>
     distinct (map fst weights) \<and> set (map fst weights) = set (map fst default_weights) \<and>
     list_all (\<lambda>(name, w). 0 \<le> w) weights \<and> isclose (1 / 10 ^ 9) (sum_list (map snd weights)) 1"

definition make_scoring_config :: "scoring_config \<Rightarrow> scoring_config result" where
  "make_scoring_config raw =
     (let c = raw\<lparr>ec_version := strip (ec_version raw)\<rparr>
      in if ten_score (ec_pass_threshold c) \<and> ten_score (ec_critical_score_cap c) \<and>
            ten_score (ec_high_conflict_penalty c) \<and> 0 \<le> ec_max_high_conflicts c \<and>
            ten_score (ec_min_consistency_score c) \<and> ten_score (ec_min_outline_adherence_score c) \<and>
            weights_ok (ec_weights c)
         then Inr c else Inl ValueError)"

section \<open>EvaluationScorer.combine\<close>

record combined_evaluation =
  cm_final_score :: rat
  cm_passed :: bool
  cm_raw_scores :: "(string \<times> rat) list"
  cm_weighted_scores :: "(string \<times> rat) list"
  cm_blocking_reasons :: "string list"
  cm_recommended_action :: recommended_action

definition raw_scores :: "rat \<Rightarrow> chapter_critique \<Rightarrow> rat \<Rightarrow> (string \<times> rat) list" where
  "raw_scores mechanical_score critique consistency_score =
     [(''mechanical'', bounded_score mechanical_score), (''prose'', ds_score (ct_prose critique)),
      (''plot'', ds_score (ct_plot critique)), (''character'', ds_score (ct_character critique)),
      (''pacing'', ds_score (ct_pacing critique)), (''dialogue'', ds_score (ct_dialogue critique)),
      (''emotional_impact'', ds_score (ct_emotional_impact critique)),
      (''consistency'', bounded_score consistency_score),
      (''outline_adherence'', ds_score (ct_outline_adherence critique)),
      (''critic_overall'', ct_overall_score critique),
      (''critic_consistency'', ds_score (ct_consistency critique))]"

definition weighted_scores :: "scoring_config \<Rightarrow> (string \<times> rat) list \<Rightarrow> (string \<times> rat) list result" where
  "weighted_scores config raw =
     map_result (\<lambda>(name, weight). and_then (or_raise KeyError (map_of raw name)) (\<lambda>x.
       Inr (name, round_to 4 (x * weight)))) (ec_weights config)"

definition final_score :: "scoring_config \<Rightarrow> (string \<times> rat) list \<Rightarrow> int \<Rightarrow> int \<Rightarrow> bool \<Rightarrow> rat" where
  "final_score config weighted critical_conflicts high_conflicts content_empty =
     (let penalized = sum_list (map snd weighted) - of_int high_conflicts * ec_high_conflict_penalty config;
          capped = (if critical_conflicts \<noteq> 0 then min penalized (ec_critical_score_cap config) else penalized)
      in bounded_score (if content_empty then 0 else capped))"

definition blocking_reasons ::
  "scoring_config \<Rightarrow> chapter_critique \<Rightarrow> rat \<Rightarrow> int \<Rightarrow> int \<Rightarrow> bool \<Rightarrow> rat \<Rightarrow> string list" where
  "blocking_reasons config critique consistency_score critical_conflicts high_conflicts content_empty final =
     map snd (filter fst
       [(content_empty, ''chapter_content_empty''),
        (critical_conflicts \<noteq> 0, ''critical_conflict_present''),
        (ec_max_high_conflicts config < high_conflicts, ''too_many_high_conflicts''),
        (consistency_score < ec_min_consistency_score config, ''consistency_score_below_minimum''),
        (ds_score (ct_outline_adherence critique) < ec_min_outline_adherence_score config,
           ''outline_adherence_below_minimum''),
        (\<not> ct_pass_recommendation critique, ''critic_does_not_recommend_pass''),
        (final < ec_pass_threshold config, ''final_score_below_threshold'')])"

definition action_of :: "scoring_config \<Rightarrow> bool \<Rightarrow> int \<Rightarrow> int \<Rightarrow> bool \<Rightarrow> rat \<Rightarrow> recommended_action" where
  "action_of config passed critical_conflicts high_conflicts content_empty final =
     (if passed then Recommend_Accept
      else if content_empty \<or> 1 < critical_conflicts \<or> final < 3 then Recommend_Reject
      else if critical_conflicts \<noteq> 0 \<or> ec_max_high_conflicts config < high_conflicts then Recommend_Human_Review
      else Recommend_Revise)"

definition combine ::
  "scoring_config \<Rightarrow> rat \<Rightarrow> chapter_critique \<Rightarrow> rat \<Rightarrow> int \<Rightarrow> int \<Rightarrow> bool \<Rightarrow> combined_evaluation result" where
  "combine config mechanical_score critique consistency_score critical_conflicts high_conflicts content_empty =
     (let raw = raw_scores mechanical_score critique consistency_score in
      and_then (weighted_scores config raw) (\<lambda>weighted.
      let final = final_score config weighted critical_conflicts high_conflicts content_empty;
          reasons = blocking_reasons config critique consistency_score critical_conflicts high_conflicts
                      content_empty final;
          passed = (reasons = [])
      in Inr \<lparr>cm_final_score = final, cm_passed = passed, cm_raw_scores = raw, cm_weighted_scores = weighted,
              cm_blocking_reasons = reasons,
              cm_recommended_action = action_of config passed critical_conflicts high_conflicts content_empty final\<rparr>))"

text \<open>The declared types of \<open>CombinedEvaluationResult\<close>.\<close>

definition combined_ok :: "combined_evaluation \<Rightarrow> bool" where
  "combined_ok c \<longleftrightarrow> ten_score (cm_final_score c) \<and> list_all (\<lambda>(name, x). ten_score x) (cm_raw_scores c)"

end
