(* ===== verification/Fact_Normalizer.thy ===== *)
theory Fact_Normalizer
  imports Evaluation_Scoring
begin

text \<open>
  Comparison-only normalization of facts (\<open>src/src/storyforge/consistency/normalizer.py\<close>) with the fact
  evidence it works on (\<open>consistency/models.py\<close>). Strings are over the first 256 code points, so the
  aliases and marks outside them can match no string of the model and are not listed.
\<close>

section \<open>Evidence\<close>

record fact_evidence =
  fe_fact_id :: "int option"
  fe_subject :: string
  fe_predicate :: string
  fe_object :: string
  fe_fact_type :: string
  fe_confidence :: rat
  fe_source_quote :: string
  fe_chapter_number :: int
  fe_valid_from_chapter :: int
  fe_valid_to_chapter :: "int option"

definition positive_option :: "int option \<Rightarrow> bool" where
  "positive_option x \<longleftrightarrow> (case x of None \<Rightarrow> True | Some i \<Rightarrow> 0 < i)"

definition make_fact_evidence :: "fact_evidence \<Rightarrow> fact_evidence result" where
  "make_fact_evidence raw =
     (let f = raw\<lparr>fe_subject := strip (fe_subject raw), fe_predicate := strip (fe_predicate raw),
                  fe_object := strip (fe_object raw), fe_fact_type := strip (fe_fact_type raw),
                  fe_source_quote := strip (fe_source_quote raw)\<rparr>
      in if positive_option (fe_fact_id f) \<and> fe_subject f \<noteq> [] \<and> fe_predicate f \<noteq> [] \<and> fe_object f \<noteq> [] \<and>
            in_range 1 (fe_confidence f) \<and> 0 < fe_chapter_number f \<and> 0 < fe_valid_from_chapter f \<and>
            positive_option (fe_valid_to_chapter f)
         then Inr f else Inl ValueError)"

record normalized_fact =
  kn_subject :: string
  kn_predicate :: string
  kn_object :: string
  kn_raw :: fact_evidence

section \<open>Subjects and predicates\<close>

text \<open>\<open>\s\<close> of a text pattern: the white space of \<open>strip\<close> and the four separators 28 to 31.\<close>

definition pattern_space :: "char \<Rightarrow> bool" where
  "pattern_space c \<longleftrightarrow> is_space c \<or> c \<in> set [CHR 0x1C, CHR 0x1D, CHR 0x1E, CHR 0x1F]"

text \<open>\<open>_PUNCTUATION_RE\<close>\<close>

definition removed_mark :: "char \<Rightarrow> bool" where
  "removed_mark c \<longleftrightarrow> pattern_space c \<or> c \<in> set '',.!?;:()[]{}'' \<or> c \<in> set [CHR 0x22, CHR 0x27]"

definition normalize_subject :: "string \<Rightarrow> string" where
  "normalize_subject value = filter (\<lambda>c. \<not> removed_mark c) (casefold value)"

definition predicate_aliases :: "(string \<times> string) list" where
  "predicate_aliases =
     [(''locatedat'', ''location''), (''isat'', ''location''), (''location'', ''location''),
      (''owns'', ''possession''), (''carries'', ''possession''), (''possesses'', ''possession''),
      (''knows'', ''knowledge''), (''learned'', ''knowledge''), (''discovered'', ''knowledge''),
      (''revealed'', ''reveal''), (''reveal'', ''reveal''), (''state'', ''state''),
      (''isalive'', ''alive''), (''alive'', ''alive''), (''timelineorder'', ''timeline_order''),
      (''sequence'', ''timeline_order''), (''eventstatus'', ''event_status''), (''uses'', ''use''),
      (''used'', ''use''), (''transfers'', ''transfer''), (''transferred'', ''transfer''),
      (''moves'', ''move''), (''travels'', ''move''), (''arrives'', ''arrive''), (''departs'', ''depart''),
      (''walks'', ''walk''), (''speaks'', ''speak''), (''attacks'', ''attack'')]"

definition alias_in :: "(string \<times> string) list \<Rightarrow> string \<Rightarrow> string" where
  "alias_in aliases value = (case map_of aliases value of Some a \<Rightarrow> a | None \<Rightarrow> value)"

definition normalize_predicate :: "string \<Rightarrow> string" where
  "normalize_predicate value =
     alias_in predicate_aliases (filter (\<lambda>c. c \<noteq> CHR ''_'') (normalize_subject value))"

section \<open>Numbers\<close>

definition is_digit :: "char \<Rightarrow> bool" where
  "is_digit c \<longleftrightarrow> (let n = of_char c :: int in 48 \<le> n \<and> n \<le> 57)"

fun signed_text :: "string \<Rightarrow> bool \<times> string" where
  "signed_text [] = (False, [])"
| "signed_text (c # cs) =
     (if c = CHR ''-'' then (True, cs) else if c = CHR ''+'' then (False, cs) else (False, c # cs))"

text \<open>A full match of \<open>_NUMBER_RE\<close>: the sign, the digits before and after the point.\<close>

definition number_parts :: "string \<Rightarrow> (bool \<times> string \<times> string) option" where
  "number_parts s =
     (let (negative, body) = signed_text s; whole = takeWhile is_digit body; rest = dropWhile is_digit body in
      if whole = [] then None
      else
        (case rest of
           [] \<Rightarrow> Some (negative, whole, [])
         | c # fraction \<Rightarrow>
             if c = CHR ''.'' \<and> fraction \<noteq> [] \<and> list_all is_digit fraction
             then Some (negative, whole, fraction) else None))"

text \<open>\<open>Decimal.normalize\<close>: 28 significant digits, ties to even, no trailing zeros.\<close>

definition round_digits :: "nat \<times> int \<Rightarrow> nat \<times> int" where
  "round_digits d =
     (case d of (coefficient, e) \<Rightarrow>
        let k = length (nat_str coefficient) - 28
        in if k = 0 then d
           else (nat (round_half_even (of_nat coefficient / 10 ^ k)), e + int k))"

function strip_zeros :: "nat \<Rightarrow> int \<Rightarrow> nat \<times> int" where
  "strip_zeros c e =
     (if c = 0 then (0, 0) else if c mod 10 = 0 then strip_zeros (c div 10) (e + 1) else (c, e))"
  by pat_completeness auto

termination
  by (relation "measure fst") auto

declare strip_zeros.simps [simp del]

text \<open>\<open>format(number, "f")\<close>\<close>

definition plain_format :: "bool \<Rightarrow> nat \<times> int \<Rightarrow> string" where
  "plain_format negative d =
     (case d of (coefficient, e) \<Rightarrow>
        let digits = nat_str coefficient; n = nat (- e);
            padded = replicate (Suc n - length digits) (CHR ''0'') @ digits
        in (if negative then ''-'' else []) @
           (if 0 \<le> e then digits @ replicate (nat e) (CHR ''0'')
            else take (length padded - n) padded @ ''.'' @ drop (length padded - n) padded))"

definition strip_right :: "char \<Rightarrow> string \<Rightarrow> string" where
  "strip_right c s = rev (dropWhile (\<lambda>x. x = c) (rev s))"

definition number_text :: "bool \<times> string \<times> string \<Rightarrow> string" where
  "number_text parts =
     (case parts of (negative, whole, fraction) \<Rightarrow>
        let (c, e) = round_digits (undigits (whole @ fraction), - int (length fraction));
            text = plain_format negative (strip_zeros c e);
            short = (if CHR ''.'' \<in> set text then strip_right (CHR ''.'') (strip_right (CHR ''0'') text) else text)
        in if short = [] then ''0'' else short)"

section \<open>Objects\<close>

definition boolean_values :: "(string \<times> string) list" where
  "boolean_values =
     [(''alive'', ''alive''), (''surviving'', ''alive''), (''dead'', ''dead''), (''deceased'', ''dead''),
      (''true'', ''true''), (''yes'', ''true''), (''false'', ''false''), (''no'', ''false'')]"

definition normalize_object :: "string \<Rightarrow> string" where
  "normalize_object value =
     (case number_parts (filter (\<lambda>c. \<not> pattern_space c) (casefold value)) of
        Some parts \<Rightarrow> number_text parts
      | None \<Rightarrow> alias_in boolean_values (normalize_subject value))"

definition normalize_fact :: "fact_evidence \<Rightarrow> normalized_fact" where
  "normalize_fact f =
     \<lparr>kn_subject = normalize_subject (fe_subject f), kn_predicate = normalize_predicate (fe_predicate f),
      kn_object = normalize_object (fe_object f), kn_raw = f\<rparr>"

section \<open>Identity\<close>

definition unit_separator :: char where
  "unit_separator = CHR 0x1F"

definition identity_payload :: "string \<Rightarrow> string \<Rightarrow> string \<Rightarrow> string" where
  "identity_payload subject predicate object =
     normalize_subject subject @ unit_separator # normalize_predicate predicate @ unit_separator #
     normalize_object object"

text \<open>\<open>identity_hash\<close>; the digest is a parameter.\<close>

definition identity_hash :: "(string \<Rightarrow> string) \<Rightarrow> string \<Rightarrow> string \<Rightarrow> string \<Rightarrow> string" where
  "identity_hash digest subject predicate object = digest (identity_payload subject predicate object)"

lemma normalize_subject_plain: "unit_separator \<notin> set (normalize_subject s)"
  by (simp add: normalize_subject_def removed_mark_def pattern_space_def unit_separator_def)

lemma alias_in_plain:
  assumes "list_all (\<lambda>(k, v). c \<notin> set v) aliases" and "c \<notin> set value"
  shows "c \<notin> set (alias_in aliases value)"
  using assms by (auto simp: alias_in_def list_all_iff split: option.split dest: map_of_SomeD)

lemma normalize_predicate_plain: "unit_separator \<notin> set (normalize_predicate s)"
  unfolding normalize_predicate_def
  by (rule alias_in_plain) (use normalize_subject_plain [of s] in
      \<open>auto simp: predicate_aliases_def unit_separator_def\<close>)

text \<open>The payload determines the three normalized parts: no two facts share one by concatenation.\<close>

lemma identity_payload_parts:
  "identity_payload s p x = identity_payload s' p' x' \<longleftrightarrow>
   normalize_subject s = normalize_subject s' \<and> normalize_predicate p = normalize_predicate p' \<and>
   normalize_object x = normalize_object x'"
  by (auto simp: identity_payload_def append_sep_eq normalize_subject_plain normalize_predicate_plain)

end
