(* ===== verification/Mechanical_Evaluation.thy ===== *)
theory Mechanical_Evaluation
  imports Fact_Normalizer
begin

text \<open>
  The rule-based text checks (\<open>src/src/storyforge/evaluation/mechanical.py\<close>) with their thresholds
  (\<open>evaluation/config.py\<close>). The regular expressions are written out as functions on characters; marks and
  phrases outside the first 256 code points occur in no string of the model. \<open>statistics.pstdev\<close>, a
  floating-point square root, is an argument.
\<close>

section \<open>Configuration\<close>

record mechanical_config =
  kd_version :: string
  kd_min_length_ratio :: rat
  kd_max_length_ratio :: rat
  kd_ngram_size :: nat
  kd_repeated_ngram_ratio_threshold :: rat
  kd_sentence_stddev_min :: rat
  kd_sentence_uniformity_min_count :: nat
  kd_similar_opening_length :: nat
  kd_similar_opening_run :: nat
  kd_punctuation_per_100_limit :: rat
  kd_dialogue_ratio_min :: rat
  kd_dialogue_ratio_max :: rat
  kd_dialogue_check_min_chars :: nat
  kd_short_paragraph_chars :: nat
  kd_long_paragraph_chars :: nat
  kd_short_paragraph_ratio_limit :: rat
  kd_long_paragraph_ratio_limit :: rat
  kd_punctuation_ratio_limit :: rat
  kd_ai_phrases :: "string list"
  kd_banned_phrases :: "string list"
  kd_penalties :: "(string \<times> rat) list"

definition mechanical_penalties :: "(string \<times> rat) list" where
  "mechanical_penalties =
     [(''empty_content'', 10), (''length_too_short'', 2), (''length_too_long'', 3 / 2),
      (''duplicate_paragraph'', 3 / 2), (''repeated_ngram_high'', 3 / 2), (''uniform_sentence_lengths'', 8 / 10),
      (''similar_paragraph_openings'', 8 / 10), (''ai_cliche'', 8 / 10), (''banned_phrase'', 1),
      (''punctuation_overuse'', 8 / 10), (''dialogue_ratio_high'', 8 / 10), (''dialogue_ratio_low'', 1 / 2),
      (''long_paragraph'', 8 / 10), (''short_paragraphs'', 8 / 10), (''punctuation_anomaly'', 8 / 10),
      (''embedded_heading_or_summary'', 1)]"

definition default_mechanical :: mechanical_config where
  "default_mechanical =
     \<lparr>kd_version = ''m4-mechanical-v1'', kd_min_length_ratio = 6 / 10, kd_max_length_ratio = 16 / 10,
      kd_ngram_size = 4, kd_repeated_ngram_ratio_threshold = 18 / 100, kd_sentence_stddev_min = 5 / 2,
      kd_sentence_uniformity_min_count = 4, kd_similar_opening_length = 6, kd_similar_opening_run = 3,
      kd_punctuation_per_100_limit = 8, kd_dialogue_ratio_min = 4 / 100, kd_dialogue_ratio_max = 7 / 10,
      kd_dialogue_check_min_chars = 100, kd_short_paragraph_chars = 30, kd_long_paragraph_chars = 500,
      kd_short_paragraph_ratio_limit = 65 / 100, kd_long_paragraph_ratio_limit = 25 / 100,
      kd_punctuation_ratio_limit = 14 / 100, kd_ai_phrases = [''it is worth noting'', ''a testament to''],
      kd_banned_phrases = [], kd_penalties = mechanical_penalties\<rparr>"

text \<open>The field ranges and \<open>validate_thresholds\<close>; the phrases and the version are stripped.\<close>

definition make_mechanical_config :: "mechanical_config \<Rightarrow> mechanical_config result" where
  "make_mechanical_config raw =
     (let c = raw\<lparr>kd_version := strip (kd_version raw), kd_ai_phrases := map strip (kd_ai_phrases raw),
                  kd_banned_phrases := map strip (kd_banned_phrases raw)\<rparr>
      in if 0 < kd_min_length_ratio c \<and> 1 < kd_max_length_ratio c \<and>
            2 \<le> kd_ngram_size c \<and> kd_ngram_size c \<le> 10 \<and>
            list_all (in_range 1) [kd_repeated_ngram_ratio_threshold c, kd_dialogue_ratio_min c,
              kd_dialogue_ratio_max c, kd_short_paragraph_ratio_limit c, kd_long_paragraph_ratio_limit c,
              kd_punctuation_ratio_limit c] \<and>
            0 \<le> kd_sentence_stddev_min c \<and> 2 \<le> kd_sentence_uniformity_min_count c \<and>
            2 \<le> kd_similar_opening_length c \<and> 2 \<le> kd_similar_opening_run c \<and>
            0 \<le> kd_punctuation_per_100_limit c \<and> 1 \<le> kd_short_paragraph_chars c \<and>
            kd_dialogue_ratio_min c < kd_dialogue_ratio_max c \<and>
            kd_short_paragraph_chars c < kd_long_paragraph_chars c \<and>
            set (map fst mechanical_penalties) \<subseteq> set (map fst (kd_penalties c)) \<and>
            list_all (\<lambda>(code, p). 0 \<le> p) (kd_penalties c)
         then Inr c else Inl ValueError)"

section \<open>Text statistics\<close>

definition is_letter :: "char \<Rightarrow> bool" where
  "is_letter c \<longleftrightarrow> (let n = of_char c :: int in (65 \<le> n \<and> n \<le> 90) \<or> (97 \<le> n \<and> n \<le> 122))"

text \<open>The text after a greedy run of \<open>p\<close> and one optional joined run.\<close>

definition after_run :: "(char \<Rightarrow> bool) \<Rightarrow> char \<Rightarrow> string \<Rightarrow> string" where
  "after_run p joiner s =
     (case dropWhile p s of
        q # d # cs \<Rightarrow> if q = joiner \<and> p d then dropWhile p cs else q # d # cs
      | rest \<Rightarrow> rest)"

lemma after_run_length: "length (after_run p joiner s) \<le> length s"
proof -
  have *: "length (dropWhile p xs) \<le> length xs" for xs by (rule length_dropWhile_le)
  show ?thesis
    using * [of s] by (auto simp: after_run_def split: list.split intro: order_trans [OF *])
qed

function matched_words :: "string \<Rightarrow> int" where
  "matched_words [] = 0"
| "matched_words (c # cs) =
     (if is_letter c then 1 + matched_words (after_run is_letter (CHR 0x27) cs)
      else if is_digit c then 1 + matched_words (after_run is_digit (CHR ''.'') cs)
      else matched_words cs)"
  by pat_completeness auto

termination
  by (relation "measure length") (auto simp: le_imp_less_Suc after_run_length)

text \<open>\<open>_word_count\<close>\<close>

definition cjk_mark :: "char \<Rightarrow> bool" where
  "cjk_mark c \<longleftrightarrow> (let n = of_char c :: int in 13312 \<le> n \<and> n \<le> 40959)"

definition text_words :: "string \<Rightarrow> int" where
  "text_words content = int (length (filter cjk_mark content)) + matched_words content"

text \<open>\<open>_normalized_text\<close>\<close>

definition normalized_text :: "string \<Rightarrow> string" where
  "normalized_text value = filter (\<lambda>c. is_alnum c \<or> c = CHR ''_'' \<or> cjk_mark c) (casefold value)"

text \<open>\<open>str.strip\<close> and \<open>re.split\<close> at single separators; empty pieces are dropped by the callers.\<close>

definition trim :: "string \<Rightarrow> string" where
  "trim s = rev (dropWhile pattern_space (rev (dropWhile pattern_space s)))"

fun split_at :: "(char \<Rightarrow> bool) \<Rightarrow> string \<Rightarrow> string list" where
  "split_at p [] = [[]]"
| "split_at p (c # cs) =
     (if p c then [] # split_at p cs
      else (case split_at p cs of [] \<Rightarrow> [[c]] | w # ws \<Rightarrow> (c # w) # ws))"

definition pieces :: "(char \<Rightarrow> bool) \<Rightarrow> string \<Rightarrow> string list" where
  "pieces p s = filter (\<lambda>w. w \<noteq> []) (map trim (split_at p s))"

definition paragraphs_of :: "string \<Rightarrow> string list" where
  "paragraphs_of content = pieces (\<lambda>c. c = CHR 0x0A) content"

definition sentences_of :: "string \<Rightarrow> string list" where
  "sentences_of content = pieces (\<lambda>c. c \<in> set ''!?.'') content"

text \<open>\<open>sum(count - 1 for count in Counter(xs).values() if count > 1)\<close>\<close>

definition repeated_count :: "'a list \<Rightarrow> int" where
  "repeated_count xs =
     sum_list (map (\<lambda>x. if 1 < count_list xs x then int (count_list xs x) - 1 else 0) (remdups xs))"

definition ngrams :: "nat \<Rightarrow> string \<Rightarrow> string list" where
  "ngrams n s = map (\<lambda>i. take n (drop i s)) [0..<length s - n + 1]"

definition repeated_ngram_ratio :: "nat \<Rightarrow> string \<Rightarrow> rat" where
  "repeated_ngram_ratio n content =
     (let normalized = normalized_text content in
      if length normalized < n then 0
      else min 1 (of_int (repeated_count (ngrams n normalized)) / of_nat (length (ngrams n normalized))))"

text \<open>\<open>text.count(part)\<close>: occurrences that do not overlap.\<close>

function occurrences :: "string \<Rightarrow> string \<Rightarrow> int" where
  "occurrences part s =
     (if part = [] then int (length s) + 1
      else if s = [] then 0
      else if starts_with s part then 1 + occurrences part (drop (length part) s)
      else occurrences part (tl s))"
  by pat_completeness auto

termination
  by (relation "measure (\<lambda>(part, s). length s)") auto

declare occurrences.simps [simp del]

lemma dropWhile_shorter: "dropWhile p (tl (dropWhile p s)) \<noteq> [] \<Longrightarrow>
  length (tl (dropWhile p (tl (dropWhile p s)))) < length s"
  using length_dropWhile_le [of p s] length_dropWhile_le [of p "tl (dropWhile p s)"]
  by (cases "dropWhile p s") auto

text \<open>The texts between quotation marks.\<close>

function quoted_texts :: "string \<Rightarrow> string list" where
  "quoted_texts s =
     (let opened = dropWhile (\<lambda>c. c \<noteq> CHR 0x22) s;
          closed = dropWhile (\<lambda>c. c \<noteq> CHR 0x22) (tl opened)
      in if opened = [] \<or> closed = [] then []
         else takeWhile (\<lambda>c. c \<noteq> CHR 0x22) (tl opened) # quoted_texts (tl closed))"
  by pat_completeness auto

termination
  by (relation "measure length") (auto simp: dropWhile_shorter simp del: dropWhile_eq_Nil_conv length_tl)

declare quoted_texts.simps [simp del]

definition visible_units :: "string \<Rightarrow> int" where
  "visible_units content = max 1 (int (length (filter (\<lambda>c. \<not> pattern_space c) content)))"

definition share :: "('a \<Rightarrow> bool) \<Rightarrow> 'a list \<Rightarrow> rat" where
  "share p xs = (if xs = [] then 0 else of_nat (length (filter p xs)) / of_nat (length xs))"

text \<open>\<open>_similar_opening_run\<close>: the longest run of equal non-empty openings.\<close>

fun opening_run :: "int \<Rightarrow> int \<Rightarrow> string option \<Rightarrow> string list \<Rightarrow> int" where
  "opening_run longest current previous [] = longest"
| "opening_run longest current previous (x # xs) =
     (let current' = (if x \<noteq> [] \<and> Some x = previous then current + 1 else if x \<noteq> [] then 1 else 0)
      in opening_run (max longest current') current' (Some x) xs)"

definition similar_opening_run :: "nat \<Rightarrow> string list \<Rightarrow> int" where
  "similar_opening_run n paragraphs = opening_run 0 0 None (map (\<lambda>p. take n (normalized_text p)) paragraphs)"

fun tripled_mark :: "string \<Rightarrow> bool" where
  "tripled_mark (a # b # c # cs) = ((a \<in> set ''!?,.'' \<and> a = b \<and> b = c) \<or> tripled_mark (b # c # cs))"
| "tripled_mark cs = False"

text \<open>\<open>_HEADING_RE\<close>\<close>

definition embedded_heading :: "string \<Rightarrow> bool" where
  "embedded_heading content \<longleftrightarrow>
     (let s = dropWhile pattern_space (casefold content); r = drop 7 s; t = dropWhile pattern_space r
      in starts_with s ''chapter'' \<and> length t < length r \<and> t \<noteq> [] \<and> is_digit (hd t) \<or>
         starts_with s ''summary'' \<and> t \<noteq> [] \<and> hd t = CHR '':'')"

section \<open>MechanicalEvaluator.evaluate\<close>

record mechanical_request =
  ka_chapter_id :: int
  ka_chapter_number :: int
  ka_content :: string
  ka_target_words :: int
  ka_language :: string

definition make_mechanical_request :: "mechanical_request \<Rightarrow> mechanical_request result" where
  "make_mechanical_request raw =
     (let q = raw\<lparr>ka_content := strip (ka_content raw), ka_language := strip (ka_language raw)\<rparr>
      in if 0 < ka_chapter_id q \<and> 0 < ka_chapter_number q \<and> 0 < ka_target_words q \<and>
            2 \<le> length (ka_language q) \<and> length (ka_language q) \<le> 32
         then Inr q else Inl ValueError)"

definition average :: "rat list \<Rightarrow> rat" where
  "average xs = (if xs = [] then 0 else sum_list xs / of_nat (length xs))"

definition metrics_of :: "mechanical_config \<Rightarrow> (rat list \<Rightarrow> rat) \<Rightarrow> string \<Rightarrow> mechanical_metrics" where
  "metrics_of cfg pstdev content =
     (let paragraphs = paragraphs_of content; sentences = sentences_of content;
          lengths = map (\<lambda>s. of_int (text_words s)) sentences
      in \<lparr>mm_word_count = text_words content, mm_paragraph_count = int (length paragraphs),
          mm_sentence_count = int (length sentences), mm_average_sentence_length = average lengths,
          mm_sentence_length_stddev = (if 1 < length lengths then pstdev lengths else 0),
          mm_dialogue_ratio =
            min 1 (of_nat (sum_list (map length (quoted_texts content))) / of_int (visible_units content)),
          mm_repeated_paragraph_count = repeated_count (map normalized_text paragraphs),
          mm_repeated_ngram_ratio = repeated_ngram_ratio (kd_ngram_size cfg) content,
          mm_banned_phrase_count =
            sum_list (map (\<lambda>p. occurrences (casefold p) (casefold content)) (kd_banned_phrases cfg)),
          mm_short_paragraph_ratio = share (\<lambda>p. length p < kd_short_paragraph_chars cfg) paragraphs,
          mm_long_paragraph_ratio = share (\<lambda>p. kd_long_paragraph_chars cfg < length p) paragraphs\<rparr>)"

definition metrics_ok :: "mechanical_metrics \<Rightarrow> bool" where
  "metrics_ok m \<longleftrightarrow>
     0 \<le> mm_word_count m \<and> 0 \<le> mm_paragraph_count m \<and> 0 \<le> mm_sentence_count m \<and>
     0 \<le> mm_average_sentence_length m \<and> 0 \<le> mm_sentence_length_stddev m \<and>
     in_range 1 (mm_dialogue_ratio m) \<and> 0 \<le> mm_repeated_paragraph_count m \<and>
     in_range 1 (mm_repeated_ngram_ratio m) \<and> 0 \<le> mm_banned_phrase_count m \<and>
     in_range 1 (mm_short_paragraph_ratio m) \<and> in_range 1 (mm_long_paragraph_ratio m)"

text \<open>\<open>_issue\<close>; an empty evidence is no evidence.\<close>

definition issue_for ::
  "mechanical_config \<Rightarrow> string \<times> string \<times> conflict_severity \<times> string \<times> string \<Rightarrow> mechanical_issue result" where
  "issue_for cfg spec =
     (case spec of (code, category, severity, message, evidence) \<Rightarrow>
        and_then (or_raise KeyError (map_of (kd_penalties cfg) code)) (\<lambda>penalty.
        make_mechanical_issue
          \<lparr>mq_code = code, mq_category = category, mq_severity = severity, mq_message = message,
           mq_evidence = (if evidence = [] then None else Some (take 500 evidence)), mq_location = None,
           mq_score_penalty = penalty\<rparr>))"

definition found_phrases :: "string list \<Rightarrow> string \<Rightarrow> string list" where
  "found_phrases phrases content = filter (\<lambda>p. contains (casefold p) (casefold content)) phrases"

text \<open>\<open>_detect\<close>: the rules in order, each with its condition.\<close>

definition rule_findings ::
  "mechanical_config \<Rightarrow> int \<Rightarrow> string \<Rightarrow> mechanical_metrics \<Rightarrow>
   (bool \<times> string \<times> string \<times> conflict_severity \<times> string \<times> string) list" where
  "rule_findings cfg target content m =
     (let paragraphs = paragraphs_of content; units = of_int (visible_units content) :: rat;
          ai = found_phrases (kd_ai_phrases cfg) content; banned = found_phrases (kd_banned_phrases cfg) content;
          marks = of_nat (length (filter (\<lambda>c. c = CHR ''!'') content)) :: rat;
          punctuation = of_nat (length (filter (\<lambda>c. c \<in> set '',.!?;:-'') content)) :: rat;
          speech = kd_dialogue_check_min_chars cfg \<le> length content
      in [(of_int (mm_word_count m) < of_int target * kd_min_length_ratio cfg,
             ''length_too_short'', ''length'', ConflictSeverity_HIGH,
             ''Chapter is substantially shorter than its target.'', []),
          (of_int target * kd_max_length_ratio cfg < of_int (mm_word_count m),
             ''length_too_long'', ''length'', ConflictSeverity_MEDIUM,
             ''Chapter is substantially longer than its target.'', []),
          (mm_repeated_paragraph_count m \<noteq> 0,
             ''duplicate_paragraph'', ''repetition'', ConflictSeverity_HIGH,
             ''One or more paragraphs are exact duplicates.'', []),
          (kd_repeated_ngram_ratio_threshold cfg < mm_repeated_ngram_ratio m,
             ''repeated_ngram_high'', ''repetition'', ConflictSeverity_MEDIUM,
             ''Repeated n-grams occupy too much of the chapter.'', []),
          (kd_sentence_uniformity_min_count cfg \<le> length (sentences_of content) \<and>
             mm_sentence_length_stddev m < kd_sentence_stddev_min cfg,
             ''uniform_sentence_lengths'', ''style'', ConflictSeverity_LOW,
             ''Sentence lengths are unusually uniform.'', []),
          (int (kd_similar_opening_run cfg) \<le> similar_opening_run (kd_similar_opening_length cfg) paragraphs,
             ''similar_paragraph_openings'', ''style'', ConflictSeverity_LOW,
             ''Several consecutive paragraphs use the same opening pattern.'', []),
          (ai \<noteq> [], ''ai_cliche'', ''style'', ConflictSeverity_MEDIUM,
             ''High-frequency generic AI phrasing was detected.'', join_with '', '' ai),
          (banned \<noteq> [], ''banned_phrase'', ''safety'', ConflictSeverity_HIGH,
             ''Configured banned phrasing was detected.'', join_with '', '' banned),
          (kd_punctuation_per_100_limit cfg < marks / units * 100,
             ''punctuation_overuse'', ''punctuation'', ConflictSeverity_MEDIUM,
             ''Dashes, ellipses, or exclamation marks are overused.'', []),
          (speech \<and> kd_dialogue_ratio_max cfg < mm_dialogue_ratio m,
             ''dialogue_ratio_high'', ''dialogue'', ConflictSeverity_MEDIUM,
             ''Dialogue occupies an unusually high share of the chapter.'', []),
          (speech \<and> \<not> kd_dialogue_ratio_max cfg < mm_dialogue_ratio m \<and>
             mm_dialogue_ratio m < kd_dialogue_ratio_min cfg,
             ''dialogue_ratio_low'', ''dialogue'', ConflictSeverity_LOW,
             ''Dialogue is nearly absent from a dialogue-sized chapter.'', []),
          (kd_long_paragraph_ratio_limit cfg < mm_long_paragraph_ratio m,
             ''long_paragraph'', ''paragraph'', ConflictSeverity_MEDIUM,
             ''Too many paragraphs exceed the configured length.'', []),
          (3 \<le> length paragraphs \<and> kd_short_paragraph_ratio_limit cfg < mm_short_paragraph_ratio m,
             ''short_paragraphs'', ''paragraph'', ConflictSeverity_MEDIUM,
             ''A large share of paragraphs are extremely short.'', []),
          (kd_punctuation_ratio_limit cfg < punctuation / units \<or> tripled_mark content,
             ''punctuation_anomaly'', ''punctuation'', ConflictSeverity_MEDIUM,
             ''Punctuation density or repetition is abnormal.'', []),
          (embedded_heading content, ''embedded_heading_or_summary'', ''structure'', ConflictSeverity_MEDIUM,
             ''A chapter heading or summary appears to be mixed into the body.'', [])])"

definition detect ::
  "mechanical_config \<Rightarrow> int \<Rightarrow> string \<Rightarrow> mechanical_metrics \<Rightarrow> mechanical_issue list result" where
  "detect cfg target content m =
     (if content = []
      then map_result (issue_for cfg)
             [(''empty_content'', ''length'', ConflictSeverity_CRITICAL, ''Chapter content is empty.'', [])]
      else map_result (issue_for cfg) (map snd (filter fst (rule_findings cfg target content m))))"

definition evaluate_mechanically ::
  "mechanical_config \<Rightarrow> (rat list \<Rightarrow> rat) \<Rightarrow> mechanical_request \<Rightarrow> mechanical_result result" where
  "evaluate_mechanically cfg pstdev q =
     (let content = trim (ka_content q); m = metrics_of cfg pstdev content in
      and_then (require (metrics_ok m) ValueError) (\<lambda>_.
      and_then (detect cfg (ka_target_words q) content m) (\<lambda>issues.
      if ten_score (score_after_penalties issues) \<and> text_upto 50 (strip (kd_version cfg))
      then Inr \<lparr>ml_score = score_after_penalties issues, ml_metrics = m, ml_issues = issues,
                ml_evaluator_version = strip (kd_version cfg)\<rparr>
      else Inl ValueError)))"

end
