(* ===== verification/Consistency_Checker.thy ===== *)
theory Consistency_Checker
  imports Fact_Normalizer
begin

text \<open>
  The deterministic consistency rules of a chapter (\<open>src/src/storyforge/consistency/checker.py\<close>,
  \<open>rules.py\<close>, \<open>models.py\<close>): ten rule groups over the evidence of one chapter, deduplication, counts and
  score. A rule group is the list of the conflicts it raises, in order. \<open>str(fact.model_dump())\<close> and
  \<open>str\<close> of a nested JSON value are renderings of the libraries and arguments here.
\<close>

section \<open>Evidence bundle and result\<close>

record character_update_evidence =
  ku_character_name :: string
  ku_field :: string
  ku_value :: string
  ku_confidence :: rat
  ku_source_quote :: string

record character_evidence =
  ke_name :: string
  ke_current_state :: string
  ke_knowledge :: "string list"
  ke_secrets :: "string list"

record story_rule_evidence =
  ks_rule_id :: int
  ks_category :: string
  ks_statement :: string
  ks_structured_metadata :: "(string \<times> json) list"

record outline_evidence =
  ko_key_events :: "string list"
  ko_forbidden_reveals :: "string list"
  ko_payoff_foreshadowing :: "string list"

record foreshadowing_evidence =
  kf_foreshadowing_id :: int
  kf_description :: string
  kf_setup_chapter :: int
  kf_expected_payoff_chapter :: int
  kf_payoff_chapter :: "int option"
  kf_status :: foreshadowing_status

record foreshadowing_update_evidence =
  kp_action :: string
  kp_description :: string
  kp_foreshadowing_id :: "int option"
  kp_confidence :: rat

record consistency_request =
  kq_project_id :: int
  kq_chapter_id :: int
  kq_chapter_number :: int
  kq_content :: string
  kq_new_facts :: "fact_evidence list"
  kq_character_updates :: "character_update_evidence list"
  kq_historical_facts :: "fact_evidence list"
  kq_characters :: "character_evidence list"
  kq_story_rules :: "story_rule_evidence list"
  kq_outline :: outline_evidence
  kq_active_foreshadowing :: "foreshadowing_evidence list"
  kq_foreshadowing_updates :: "foreshadowing_update_evidence list"
  kq_previous_summaries :: "(int \<times> string) list"

record consistency_conflict =
  kc_conflict_type :: conflict_type
  kc_severity :: conflict_severity
  kc_subject :: string
  kc_description :: string
  kc_new_evidence :: string
  kc_existing_evidence :: "string option"
  kc_existing_fact_id :: "int option"
  kc_chapter_number :: int
  kc_suggested_resolution :: string
  kc_confidence :: rat
  kc_rule_code :: string

record consistency_result =
  kr_score :: rat
  kr_conflicts :: "consistency_conflict list"
  kr_checked_rule_count :: int
  kr_critical_count :: int
  kr_high_count :: int
  kr_medium_count :: int
  kr_low_count :: int
  kr_checker_version :: string

definition make_conflict :: "consistency_conflict \<Rightarrow> consistency_conflict result" where
  "make_conflict raw =
     (let c = raw\<lparr>kc_subject := strip (kc_subject raw), kc_description := strip (kc_description raw),
                  kc_new_evidence := strip (kc_new_evidence raw),
                  kc_existing_evidence := map_option strip (kc_existing_evidence raw),
                  kc_suggested_resolution := strip (kc_suggested_resolution raw),
                  kc_rule_code := strip (kc_rule_code raw)\<rparr>
      in if kc_subject c \<noteq> [] \<and> kc_description c \<noteq> [] \<and> kc_new_evidence c \<noteq> [] \<and>
            positive_option (kc_existing_fact_id c) \<and> 0 < kc_chapter_number c \<and> kc_suggested_resolution c \<noteq> [] \<and>
            in_range 1 (kc_confidence c) \<and> text_upto 100 (kc_rule_code c)
         then Inr c else Inl ValueError)"

section \<open>Configuration and rendering\<close>

record rule_config =
  kg_version :: string
  kg_severity_penalties :: "(conflict_severity \<times> rat) list"
  kg_critical_confidence_min :: rat
  kg_dump :: "fact_evidence \<Rightarrow> string"
  kg_render :: "json \<Rightarrow> string"

definition default_penalties :: "(conflict_severity \<times> rat) list" where
  "default_penalties =
     [(ConflictSeverity_LOW, 1 / 2), (ConflictSeverity_MEDIUM, 1), (ConflictSeverity_HIGH, 2),
      (ConflictSeverity_CRITICAL, 4)]"

definition default_rules :: "(fact_evidence \<Rightarrow> string) \<Rightarrow> (json \<Rightarrow> string) \<Rightarrow> rule_config" where
  "default_rules dump render =
     \<lparr>kg_version = ''m4-consistency-v1'', kg_severity_penalties = default_penalties,
      kg_critical_confidence_min = 8 / 10, kg_dump = dump, kg_render = render\<rparr>"

text \<open>\<open>str(value)\<close> and \<open>bool(value)\<close> of a JSON value.\<close>

fun json_text :: "rule_config \<Rightarrow> json \<Rightarrow> string" where
  "json_text cfg JNull = ''None''"
| "json_text cfg (JBool b) = (if b then ''True'' else ''False'')"
| "json_text cfg (JInt i) = int_str i"
| "json_text cfg (JFloat s) = s"
| "json_text cfg (JStr s) = s"
| "json_text cfg v = kg_render cfg v"

fun json_truth :: "json \<Rightarrow> bool" where
  "json_truth JNull = False"
| "json_truth (JBool b) = b"
| "json_truth (JInt i) = (i \<noteq> 0)"
| "json_truth (JFloat s) = (s \<notin> {''0.0'', ''-0.0''})"
| "json_truth (JStr s) = (s \<noteq> [])"
| "json_truth (JList vs) = (vs \<noteq> [])"
| "json_truth (JDict kvs) = (kvs \<noteq> [])"
| "json_truth JOther = True"

definition or_else :: "string \<Rightarrow> string \<Rightarrow> string" where
  "or_else s t = (if s = [] then t else s)"

text \<open>A dictionary built by a comprehension: the last entry of a key wins.\<close>

definition last_with :: "('a \<Rightarrow> 'k) \<Rightarrow> 'a list \<Rightarrow> 'k \<Rightarrow> 'a option" where
  "last_with key xs k = find (\<lambda>x. key x = k) (rev xs)"

section \<open>_conflict\<close>

definition downgraded :: "rule_config \<Rightarrow> conflict_severity \<Rightarrow> rat \<Rightarrow> conflict_severity" where
  "downgraded cfg severity confidence =
     (if severity = ConflictSeverity_CRITICAL \<and> confidence < kg_critical_confidence_min cfg
      then ConflictSeverity_HIGH else severity)"

definition conflict_for ::
  "rule_config \<Rightarrow> consistency_request \<Rightarrow> conflict_type \<Rightarrow> conflict_severity \<Rightarrow> string \<Rightarrow> string \<Rightarrow> string \<Rightarrow>
   fact_evidence option \<Rightarrow> rat \<Rightarrow> string \<Rightarrow> string \<Rightarrow> consistency_conflict" where
  "conflict_for cfg q kind severity subject description new_evidence existing confidence rule_code suggestion =
     \<lparr>kc_conflict_type = kind, kc_severity = downgraded cfg severity confidence, kc_subject = subject,
      kc_description = description, kc_new_evidence = new_evidence,
      kc_existing_evidence = map_option (\<lambda>f. or_else (fe_source_quote f) (kg_dump cfg f)) existing,
      kc_existing_fact_id = Option.bind existing fe_fact_id, kc_chapter_number = kq_chapter_number q,
      kc_suggested_resolution = suggestion, kc_confidence = confidence, kc_rule_code = rule_code\<rparr>"

definition quote_or_dump :: "rule_config \<Rightarrow> fact_evidence \<Rightarrow> string" where
  "quote_or_dump cfg f = or_else (fe_source_quote f) (kg_dump cfg f)"

definition quote_or_object :: "fact_evidence \<Rightarrow> string" where
  "quote_or_object f = or_else (fe_source_quote f) (fe_object f)"

section \<open>Contradictions and dead characters\<close>

definition contradicts :: "normalized_fact \<Rightarrow> normalized_fact \<Rightarrow> bool" where
  "contradicts current existing \<longleftrightarrow> kn_subject current = kn_subject existing \<and>
     kn_predicate current = kn_predicate existing \<and> kn_object current \<noteq> kn_object existing"

definition contradiction ::
  "rule_config \<Rightarrow> consistency_request \<Rightarrow> normalized_fact \<Rightarrow> normalized_fact \<Rightarrow> consistency_conflict" where
  "contradiction cfg q current existing =
     conflict_for cfg q ConflictType_FACT_CONTRADICTION ConflictSeverity_HIGH (fe_subject (kn_raw current))
       ''A new fact directly contradicts an earlier fact.'' (quote_or_dump cfg (kn_raw current))
       (Some (kn_raw existing)) (min (fe_confidence (kn_raw current)) (fe_confidence (kn_raw existing)))
       ''fact.direct_contradiction'' ''Verify which fact is canonical and update the chapter.''"

definition direct_fact_conflicts ::
  "rule_config \<Rightarrow> consistency_request \<Rightarrow> normalized_fact list \<Rightarrow> normalized_fact list \<Rightarrow> consistency_conflict list" where
  "direct_fact_conflicts cfg q new history =
     concat (map (\<lambda>current. map (contradiction cfg q current) (filter (contradicts current) history)) new)"

definition action_predicates :: "string list" where
  "action_predicates = [''walk'', ''speak'', ''attack'', ''arrive'', ''move'', ''use'']"

definition memory_fact_types :: "string list" where
  "memory_fact_types = [''memory'', ''dream'', ''quotation'', ''corpse'', ''flashback'']"

definition dead_subjects :: "consistency_request \<Rightarrow> normalized_fact list \<Rightarrow> string list" where
  "dead_subjects q history =
     map kn_subject (filter (\<lambda>f. kn_predicate f \<in> {''alive'', ''state''} \<and> kn_object f = ''dead'') history) @
     map (\<lambda>u. normalize_subject (ku_character_name u))
       (filter (\<lambda>u. normalize_object (ku_value u) = ''dead'') (kq_character_updates q)) @
     map (\<lambda>c. normalize_subject (ke_name c))
       (filter (\<lambda>c. contains ''dead'' (normalize_object (ke_current_state c))) (kq_characters q))"

definition resurrection_allowed :: "consistency_request \<Rightarrow> bool" where
  "resurrection_allowed q =
     list_ex (\<lambda>r. case map_of (ks_structured_metadata r) ''allows_resurrection'' of None \<Rightarrow> False | Some v \<Rightarrow> json_truth v)
       (kq_story_rules q)"

definition acts_dead :: "string list \<Rightarrow> normalized_fact \<Rightarrow> bool" where
  "acts_dead dead f \<longleftrightarrow> kn_subject f \<in> set dead \<and> kn_predicate f \<in> set action_predicates \<and>
     casefold (fe_fact_type (kn_raw f)) \<notin> set memory_fact_types \<and> kn_predicate f \<noteq> ''corpse_moved''"

definition dead_character_actions ::
  "rule_config \<Rightarrow> consistency_request \<Rightarrow> normalized_fact list \<Rightarrow> normalized_fact list \<Rightarrow> consistency_conflict list" where
  "dead_character_actions cfg q new history =
     (if resurrection_allowed q then []
      else map (\<lambda>f. conflict_for cfg q ConflictType_CHARACTER_STATE ConflictSeverity_CRITICAL
                   (fe_subject (kn_raw f)) ''A character marked dead performs a new action.''
                   (quote_or_dump cfg (kn_raw f)) None (fe_confidence (kn_raw f)) ''character.dead_action''
                   ''Mark the scene as memory/dream or establish resurrection.'')
             (filter (acts_dead (dead_subjects q history)) new))"

section \<open>Locations and knowledge\<close>

definition transition_predicates :: "string list" where
  "transition_predicates = [''move'', ''arrive'', ''depart'', ''transfer'']"

definition first_occurrences :: "'a list \<Rightarrow> 'a list" where
  "first_occurrences xs = rev (remdups (rev xs))"

definition location_conflict ::
  "rule_config \<Rightarrow> consistency_request \<Rightarrow> normalized_fact list \<Rightarrow> consistency_conflict" where
  "location_conflict cfg q items =
     conflict_for cfg q ConflictType_LOCATION ConflictSeverity_HIGH (fe_subject (kn_raw (hd items)))
       ''A character is placed in incompatible locations without movement.''
       (join_with ''; '' (map (\<lambda>f. quote_or_object (kn_raw f)) items)) None
       (Min (set (map (\<lambda>f. fe_confidence (kn_raw f)) items))) ''location.simultaneous''
       ''Add a movement transition or correct one location fact.''"

definition location_conflicts ::
  "rule_config \<Rightarrow> consistency_request \<Rightarrow> normalized_fact list \<Rightarrow> consistency_conflict list" where
  "location_conflicts cfg q new =
     (if list_ex (\<lambda>f. kn_predicate f \<in> set transition_predicates) new then []
      else
        (let located = filter (\<lambda>f. kn_predicate f = ''location'') new;
             groups = map (\<lambda>subject. filter (\<lambda>f. kn_subject f = subject) located)
                        (first_occurrences (map kn_subject located))
         in map (location_conflict cfg q) (filter (\<lambda>items. 1 < card (set (map kn_object items))) groups)))"

definition leaks_secret :: "consistency_request \<Rightarrow> normalized_fact list \<Rightarrow> normalized_fact \<Rightarrow> bool" where
  "leaks_secret q history f \<longleftrightarrow>
     kn_predicate f = ''knowledge'' \<and>
     kn_object f \<in> set (map normalize_object (concat (map ke_secrets (kq_characters q)))) \<and>
     (case last_with (\<lambda>c. normalize_subject (ke_name c)) (kq_characters q) (kn_subject f) of
        None \<Rightarrow> True | Some c \<Rightarrow> kn_object f \<notin> set (map normalize_object (ke_knowledge c))) \<and>
     \<not> list_ex (\<lambda>p. kn_subject p = kn_subject f \<and> kn_object p = kn_object f \<and>
                   kn_predicate p \<in> {''knowledge'', ''reveal''}) history"

definition knowledge_leaks ::
  "rule_config \<Rightarrow> consistency_request \<Rightarrow> normalized_fact list \<Rightarrow> normalized_fact list \<Rightarrow> consistency_conflict list" where
  "knowledge_leaks cfg q new history =
     map (\<lambda>f. conflict_for cfg q ConflictType_CHARACTER_KNOWLEDGE ConflictSeverity_HIGH (fe_subject (kn_raw f))
            ''A character knows an unrevealed secret without an acquisition event.''
            (quote_or_object (kn_raw f)) None (fe_confidence (kn_raw f)) ''character.knowledge_leak''
            ''Add a reveal/learning event or remove the knowledge.'')
       (filter (leaks_secret q history) new)"

end
