(* ===== verification/Consistency_Check.thy ===== *)
theory Consistency_Check
  imports Consistency_Checker
begin

text \<open>
  The remaining rule groups of \<open>src/src/storyforge/consistency/checker.py\<close> (story rules, objects, time
  line, outline, foreshadowing) and \<open>check\<close>, which runs all ten, drops duplicates and scores the rest.
\<close>

section \<open>Story rules\<close>

definition forbidden_predicates :: "rule_config \<Rightarrow> story_rule_evidence \<Rightarrow> string list" where
  "forbidden_predicates cfg r =
     (case map_of (ks_structured_metadata r) ''forbidden_predicates'' of
        Some (JList vs) \<Rightarrow> map (\<lambda>v. normalize_predicate (json_text cfg v)) vs
      | _ \<Rightarrow> [])"

definition rule_location :: "rule_config \<Rightarrow> story_rule_evidence \<Rightarrow> string option" where
  "rule_location cfg r =
     (case map_of (ks_structured_metadata r) ''location'' of
        None \<Rightarrow> None | Some JNull \<Rightarrow> None | Some v \<Rightarrow> Some (normalize_object (json_text cfg v)))"

definition violates_rule ::
  "rule_config \<Rightarrow> normalized_fact list \<Rightarrow> story_rule_evidence \<Rightarrow> normalized_fact \<Rightarrow> bool" where
  "violates_rule cfg new r f \<longleftrightarrow> kn_predicate f \<in> set (forbidden_predicates cfg r) \<and>
     (case rule_location cfg r of
        None \<Rightarrow> True
      | Some l \<Rightarrow> l \<in> set (map kn_object (filter (\<lambda>g. kn_predicate g = ''location'') new)))"

definition story_rule_conflicts ::
  "rule_config \<Rightarrow> consistency_request \<Rightarrow> normalized_fact list \<Rightarrow> consistency_conflict list" where
  "story_rule_conflicts cfg q new =
     concat (map (\<lambda>r. map (\<lambda>f. conflict_for cfg q ConflictType_STORY_RULE ConflictSeverity_HIGH
           (fe_subject (kn_raw f)) (''A structured story rule is violated: '' @ ks_statement r)
           (quote_or_object (kn_raw f)) None (fe_confidence (kn_raw f)) ''story_rule.structured_violation''
           ''Revise the action or explicitly change the story rule.'')
         (filter (violates_rule cfg new r) new)) (kq_story_rules q))"

section \<open>Objects\<close>

definition holds_object :: "normalized_fact \<Rightarrow> bool" where
  "holds_object f \<longleftrightarrow> kn_predicate f \<in> {''use'', ''possession''}"

definition destroyed_conflict ::
  "rule_config \<Rightarrow> consistency_request \<Rightarrow> normalized_fact list \<Rightarrow> normalized_fact \<Rightarrow> consistency_conflict list" where
  "destroyed_conflict cfg q history f =
     (case last_with kn_subject
             (filter (\<lambda>h. kn_predicate h = ''state'' \<and> kn_object h = ''destroyed'') history)
             (if holds_object f then kn_object f else kn_subject f) of
        None \<Rightarrow> []
      | Some existing \<Rightarrow>
          if holds_object f
          then [conflict_for cfg q ConflictType_OBJECT_STATE ConflictSeverity_HIGH (fe_object (kn_raw f))
                  ''An object previously destroyed is used or possessed again.'' (quote_or_object (kn_raw f))
                  (Some (kn_raw existing)) (min (fe_confidence (kn_raw f)) (fe_confidence (kn_raw existing)))
                  ''object.destroyed_use'' ''Establish repair/replacement or use a different object.'']
          else [])"

definition possession_conflict ::
  "rule_config \<Rightarrow> consistency_request \<Rightarrow> normalized_fact list \<Rightarrow> normalized_fact \<Rightarrow> consistency_conflict list" where
  "possession_conflict cfg q history f =
     (case last_with kn_object (filter (\<lambda>h. kn_predicate h = ''possession'') history) (kn_object f) of
        None \<Rightarrow> []
      | Some existing \<Rightarrow>
          if kn_predicate f = ''possession'' \<and> kn_subject existing \<noteq> kn_subject f
          then [conflict_for cfg q ConflictType_OBJECT_STATE ConflictSeverity_MEDIUM (fe_object (kn_raw f))
                  ''Possession changes owner without a transfer event.''
                  (or_else (fe_source_quote (kn_raw f)) (fe_subject (kn_raw f))) (Some (kn_raw existing))
                  (min (fe_confidence (kn_raw f)) (fe_confidence (kn_raw existing)))
                  ''object.possession_without_transfer'' ''Add a transfer event or correct the owner.'']
          else [])"

definition object_state_conflicts ::
  "rule_config \<Rightarrow> consistency_request \<Rightarrow> normalized_fact list \<Rightarrow> normalized_fact list \<Rightarrow> consistency_conflict list" where
  "object_state_conflicts cfg q new history =
     concat (map (destroyed_conflict cfg q history) new) @
     (if list_ex (\<lambda>f. kn_predicate f = ''transfer'') new then []
      else concat (map (possession_conflict cfg q history) new))"

section \<open>Time line\<close>

text \<open>
  \<open>float(text)\<close> on text without white space; \<open>None\<close> where it raises. A finite value is kept exactly.
\<close>

datatype float_value = Finite rat | Infinite bool | Not_A_Number

fun single_underscores :: "string \<Rightarrow> bool" where
  "single_underscores (c # d # cs) = (\<not> (c = CHR ''_'' \<and> d = CHR ''_'') \<and> single_underscores (d # cs))"
| "single_underscores cs = True"

definition digit_part :: "string \<Rightarrow> bool" where
  "digit_part s \<longleftrightarrow> s \<noteq> [] \<and> is_digit (hd s) \<and> is_digit (last s) \<and>
     list_all (\<lambda>c. is_digit c \<or> c = CHR ''_'') s \<and> single_underscores s"

definition digits_of :: "string \<Rightarrow> string" where
  "digits_of s = filter is_digit s"

definition mantissa :: "string \<Rightarrow> rat option" where
  "mantissa s =
     (let whole = takeWhile (\<lambda>c. c \<noteq> CHR ''.'') s; rest = dropWhile (\<lambda>c. c \<noteq> CHR ''.'') s;
          fraction = tl rest;
          value = of_nat (undigits (digits_of whole @ digits_of fraction)) / 10 ^ length (digits_of fraction)
      in if (whole = [] \<or> digit_part whole) \<and> (fraction = [] \<or> digit_part fraction) \<and> whole @ fraction \<noteq> []
         then Some value else None)"

definition exponent_value :: "string \<Rightarrow> int option" where
  "exponent_value s =
     (let (negative, body) = signed_text s
      in if digit_part body
         then Some ((if negative then -1 else 1) * int (undigits (digits_of body))) else None)"

definition unsigned_float :: "string \<Rightarrow> float_value option" where
  "unsigned_float s =
     (if s \<in> {''inf'', ''infinity''} then Some (Infinite False)
      else if s = ''nan'' then Some Not_A_Number
      else
        (let base = takeWhile (\<lambda>c. c \<noteq> CHR ''e'') s; rest = dropWhile (\<lambda>c. c \<noteq> CHR ''e'') s in
         case (mantissa base, if rest = [] then Some 0 else exponent_value (tl rest)) of
           (Some m, Some e) \<Rightarrow> Some (Finite (if 0 \<le> e then m * 10 ^ nat e else m / 10 ^ nat (- e)))
         | _ \<Rightarrow> None))"

fun negated :: "float_value \<Rightarrow> float_value" where
  "negated (Finite x) = Finite (- x)"
| "negated (Infinite b) = Infinite (\<not> b)"
| "negated Not_A_Number = Not_A_Number"

definition parse_float :: "string \<Rightarrow> float_value option" where
  "parse_float s =
     (let (negative, body) = signed_text (casefold s)
      in map_option (if negative then negated else id) (unsigned_float body))"

fun float_less :: "float_value \<Rightarrow> float_value \<Rightarrow> bool" where
  "float_less (Finite x) (Finite y) = (x < y)"
| "float_less (Finite x) (Infinite negative) = (\<not> negative)"
| "float_less (Infinite negative) (Finite y) = negative"
| "float_less (Infinite a) (Infinite b) = (a \<and> \<not> b)"
| "float_less x y = False"

definition moves_back :: "normalized_fact \<Rightarrow> normalized_fact \<Rightarrow> bool" where
  "moves_back f previous =
     (case (parse_float (kn_object f), parse_float (kn_object previous)) of
        (Some a, Some b) \<Rightarrow> float_less a b | _ \<Rightarrow> False)"

definition future_conflict ::
  "rule_config \<Rightarrow> consistency_request \<Rightarrow> normalized_fact list \<Rightarrow> normalized_fact \<Rightarrow> consistency_conflict" where
  "future_conflict cfg q history f =
     conflict_for cfg q ConflictType_TIMELINE ConflictSeverity_HIGH (fe_subject (kn_raw f))
       ''A fact from a future validity interval is used now.'' (quote_or_object (kn_raw f))
       (if f \<in> set history then Some (kn_raw f) else None) (fe_confidence (kn_raw f)) ''timeline.future_fact''
       ''Exclude future facts from the current chapter context.''"

definition restarted_conflict ::
  "rule_config \<Rightarrow> consistency_request \<Rightarrow> normalized_fact list \<Rightarrow> normalized_fact \<Rightarrow> consistency_conflict list" where
  "restarted_conflict cfg q history f =
     (case last_with kn_subject (filter (\<lambda>h. kn_predicate h = ''event_status'') history) (kn_subject f) of
        None \<Rightarrow> []
      | Some existing \<Rightarrow>
          if kn_object existing = ''ended'' \<and> kn_predicate f = ''event_status'' \<and> kn_object f = ''notstarted''
          then [conflict_for cfg q ConflictType_TIMELINE ConflictSeverity_HIGH (fe_subject (kn_raw f))
                  ''An ended event is marked as not started.'' (quote_or_object (kn_raw f))
                  (Some (kn_raw existing)) (min (fe_confidence (kn_raw f)) (fe_confidence (kn_raw existing)))
                  ''timeline.event_order'' ''Correct the event status chronology.'']
          else [])"

definition backwards_conflict ::
  "rule_config \<Rightarrow> consistency_request \<Rightarrow> normalized_fact list \<Rightarrow> normalized_fact \<Rightarrow> consistency_conflict list" where
  "backwards_conflict cfg q history f =
     (case last_with kn_subject (filter (\<lambda>h. kn_predicate h = ''timeline_order'') history) (kn_subject f) of
        None \<Rightarrow> []
      | Some previous \<Rightarrow>
          if kn_predicate f = ''timeline_order'' \<and> moves_back f previous
          then [conflict_for cfg q ConflictType_TIMELINE ConflictSeverity_MEDIUM (fe_subject (kn_raw f))
                  ''An explicit timeline sequence moves backwards.'' (quote_or_object (kn_raw f))
                  (Some (kn_raw previous)) (min (fe_confidence (kn_raw f)) (fe_confidence (kn_raw previous)))
                  ''timeline.event_order'' ''Restore monotonic event order.'']
          else [])"

definition timeline_conflicts ::
  "rule_config \<Rightarrow> consistency_request \<Rightarrow> normalized_fact list \<Rightarrow> normalized_fact list \<Rightarrow> consistency_conflict list" where
  "timeline_conflicts cfg q new history =
     map (future_conflict cfg q history)
       (filter (\<lambda>f. kq_chapter_number q < fe_valid_from_chapter (kn_raw f)) (new @ history)) @
     concat (map (\<lambda>f. restarted_conflict cfg q history f @ backwards_conflict cfg q history f) new)"

section \<open>Outline\<close>

definition outline_conflicts ::
  "rule_config \<Rightarrow> consistency_request \<Rightarrow> normalized_fact list \<Rightarrow> consistency_conflict list" where
  "outline_conflicts cfg q new =
     (let searchable = normalize_object (kq_content q @ '' '' @ join_with '' ''
            (map (\<lambda>f. fe_subject (kn_raw f) @ fe_predicate (kn_raw f) @ fe_object (kn_raw f)) new))
      in map (\<lambda>event. conflict_for cfg q ConflictType_OUTLINE_VIOLATION ConflictSeverity_MEDIUM event
                ''A planned key event is not evidenced in the chapter.'' ''No matching content or fact evidence.''
                None 1 ''outline.key_event_missing'' ''Add the planned event or update the chapter outline.'')
           (filter (\<lambda>event. \<not> contains (normalize_object event) searchable) (ko_key_events (kq_outline q))))"

definition reveal_conflicts ::
  "rule_config \<Rightarrow> consistency_request \<Rightarrow> normalized_fact list \<Rightarrow> consistency_conflict list" where
  "reveal_conflicts cfg q new =
     (let searchable = normalize_object (kq_content q @ '' '' @ join_with '' '' (map (\<lambda>f. fe_object (kn_raw f)) new))
      in map (\<lambda>reveal. conflict_for cfg q ConflictType_OUTLINE_VIOLATION ConflictSeverity_HIGH reveal
                ''The chapter exposes content explicitly forbidden by its outline.'' reveal None 1
                ''outline.forbidden_reveal'' ''Remove or defer the forbidden reveal.'')
           (filter (\<lambda>reveal. contains (normalize_object reveal) searchable) (ko_forbidden_reveals (kq_outline q))))"

section \<open>Foreshadowing\<close>

definition early_payoffs :: "rule_config \<Rightarrow> consistency_request \<Rightarrow> consistency_conflict list" where
  "early_payoffs cfg q =
     concat (map (\<lambda>i. case kf_payoff_chapter i of
          None \<Rightarrow> []
        | Some payoff \<Rightarrow>
            if payoff < kf_setup_chapter i
            then [conflict_for cfg q ConflictType_FORESHADOWING ConflictSeverity_HIGH (kf_description i)
                    ''Foreshadowing payoff occurs before setup.'' (int_str payoff) None 1
                    ''foreshadowing.payoff_before_setup'' ''Move payoff after setup.'']
            else []) (kq_active_foreshadowing q))"

definition resolved_descriptions :: "consistency_request \<Rightarrow> string list" where
  "resolved_descriptions q =
     map (\<lambda>i. normalize_object (kf_description i))
       (filter (\<lambda>i. kf_status i = ForeshadowingStatus_RESOLVED \<and>
          (case kf_payoff_chapter i of None \<Rightarrow> True | Some c \<Rightarrow> c < kq_chapter_number q)) (kq_active_foreshadowing q))"

definition resolved_now :: "consistency_request \<Rightarrow> int option list" where
  "resolved_now q =
     map kp_foreshadowing_id
       (filter (\<lambda>u. kp_action u = ''resolve'' \<and> kp_foreshadowing_id u \<noteq> None) (kq_foreshadowing_updates q))"

definition planned_conflicts :: "rule_config \<Rightarrow> consistency_request \<Rightarrow> string \<Rightarrow> consistency_conflict list" where
  "planned_conflicts cfg q planned =
     (let normalized = normalize_object planned;
          matching = filter (\<lambda>i. contains normalized (normalize_object (kf_description i))) (kq_active_foreshadowing q)
      in (if normalized \<in> set (resolved_descriptions q)
          then [conflict_for cfg q ConflictType_FORESHADOWING ConflictSeverity_MEDIUM planned
                  ''An already resolved foreshadowing is paid off again.'' planned None 1
                  ''foreshadowing.repeated_payoff'' ''Remove the duplicate payoff.'']
          else []) @
         (if matching \<noteq> [] \<and> \<not> list_ex (\<lambda>i. Some (kf_foreshadowing_id i) \<in> set (resolved_now q) \<or>
                                  kf_status i = ForeshadowingStatus_RESOLVED) matching
          then [conflict_for cfg q ConflictType_FORESHADOWING ConflictSeverity_MEDIUM planned
                  ''A planned payoff has no resolution update.'' planned None 1
                  ''foreshadowing.planned_payoff_missing'' ''Add the payoff event or update the plan.'']
          else []))"

definition unset_payoffs :: "rule_config \<Rightarrow> consistency_request \<Rightarrow> consistency_conflict list" where
  "unset_payoffs cfg q =
     map (\<lambda>u. conflict_for cfg q ConflictType_FORESHADOWING ConflictSeverity_HIGH (kp_description u)
            ''A payoff references foreshadowing that was never set up.'' (kp_description u) None (kp_confidence u)
            ''foreshadowing.payoff_without_setup'' ''Add a prior setup or remove the payoff.'')
       (filter (\<lambda>u. kp_action u = ''resolve'' \<and>
          (case kp_foreshadowing_id u of
             None \<Rightarrow> True | Some i \<Rightarrow> i \<notin> set (map kf_foreshadowing_id (kq_active_foreshadowing q))))
          (kq_foreshadowing_updates q))"

definition foreshadowing_conflicts :: "rule_config \<Rightarrow> consistency_request \<Rightarrow> consistency_conflict list" where
  "foreshadowing_conflicts cfg q =
     early_payoffs cfg q @
     concat (map (planned_conflicts cfg q) (ko_payoff_foreshadowing (kq_outline q))) @ unset_payoffs cfg q"

section \<open>check\<close>

definition conflict_key :: "consistency_conflict \<Rightarrow> string \<times> string \<times> string" where
  "conflict_key c = (kc_rule_code c, casefold (kc_subject c), kc_description c)"

text \<open>\<open>_deduplicate\<close>: the first conflict of each key.\<close>

fun deduplicate_from :: "(string \<times> string \<times> string) list \<Rightarrow> consistency_conflict list \<Rightarrow> consistency_conflict list" where
  "deduplicate_from seen [] = []"
| "deduplicate_from seen (c # cs) =
     (if conflict_key c \<in> set seen then deduplicate_from seen cs
      else c # deduplicate_from (conflict_key c # seen) cs)"

definition deduplicate :: "consistency_conflict list \<Rightarrow> consistency_conflict list" where
  "deduplicate cs = deduplicate_from [] cs"

definition count_severity :: "conflict_severity \<Rightarrow> consistency_conflict list \<Rightarrow> int" where
  "count_severity severity cs = int (length (filter (\<lambda>c. kc_severity c = severity) cs))"

definition raised_conflicts ::
  "rule_config \<Rightarrow> consistency_request \<Rightarrow> normalized_fact list \<Rightarrow> normalized_fact list \<Rightarrow> consistency_conflict list" where
  "raised_conflicts cfg q new history =
     direct_fact_conflicts cfg q new history @ dead_character_actions cfg q new history @
     location_conflicts cfg q new @ knowledge_leaks cfg q new history @ story_rule_conflicts cfg q new @
     object_state_conflicts cfg q new history @ timeline_conflicts cfg q new history @
     outline_conflicts cfg q new @ reveal_conflicts cfg q new @ foreshadowing_conflicts cfg q"

definition penalty_of :: "rule_config \<Rightarrow> consistency_conflict \<Rightarrow> rat result" where
  "penalty_of cfg c = or_raise KeyError (map_of (kg_severity_penalties cfg) (kc_severity c))"

definition checked_rule_count :: int where
  "checked_rule_count = 10"

definition check :: "rule_config \<Rightarrow> consistency_request \<Rightarrow> consistency_result result" where
  "check cfg q =
     and_then (map_result make_conflict (raised_conflicts cfg q (map normalize_fact (kq_new_facts q))
        (map normalize_fact (kq_historical_facts q)))) (\<lambda>raised.
     let conflicts = deduplicate raised in
     and_then (map_result (penalty_of cfg) conflicts) (\<lambda>penalties.
     Inr \<lparr>kr_score = bounded_score (10 - sum_list penalties), kr_conflicts = conflicts,
          kr_checked_rule_count = checked_rule_count,
          kr_critical_count = count_severity ConflictSeverity_CRITICAL conflicts,
          kr_high_count = count_severity ConflictSeverity_HIGH conflicts,
          kr_medium_count = count_severity ConflictSeverity_MEDIUM conflicts,
          kr_low_count = count_severity ConflictSeverity_LOW conflicts,
          kr_checker_version = kg_version cfg\<rparr>))"

end
