(* ===== verification/Evaluation_Service.thy ===== *)
theory Evaluation_Service
  imports Mechanical_Evaluation Consistency_Check Effects
begin

text \<open>
  One evaluation of a chapter version (\<open>src/src/storyforge/services/evaluation_service.py\<close>): reading the
  evidence, marking the chapter, the local checks, the critic (\<open>agents/critic.py\<close>) and the immutable record
  of the attempt. The language model's answer, \<open>pstdev\<close>, the rendering of numbers and what other
  processes commit while the critic runs (\<open>ve_between\<close>) are functions of the environment.
\<close>

section \<open>Requests, results, contexts\<close>

record evaluation_request =
  eq_project_id :: int
  eq_chapter_number :: int
  eq_chapter_version_id :: "int option"
  eq_workflow_run_id :: "int option"
  eq_idempotency_key :: "string option"

definition make_evaluation_request :: "evaluation_request \<Rightarrow> evaluation_request result" where
  "make_evaluation_request raw =
     (let q = raw\<lparr>eq_idempotency_key := map_option strip (eq_idempotency_key raw)\<rparr>
      in if 0 < eq_project_id q \<and> 0 < eq_chapter_number q \<and> positive_option (eq_chapter_version_id q) \<and>
            positive_option (eq_workflow_run_id q) \<and>
            (case eq_idempotency_key q of None \<Rightarrow> True | Some k \<Rightarrow> text_upto 200 k)
         then Inr q else Inl ValueError)"

record chapter_evaluation_result =
  er_evaluation_id :: int
  er_project_id :: int
  er_chapter_id :: int
  er_chapter_version_id :: int
  er_chapter_number :: int
  er_evaluation_version :: int
  er_status :: evaluation_status
  er_mechanical_score :: rat
  er_critic_score :: rat
  er_consistency_score :: rat
  er_final_score :: rat
  er_passed :: bool
  er_issue_count :: int
  er_conflict_count :: int
  er_critical_conflict_count :: int
  er_recommended_action :: recommended_action
  er_blocking_reasons :: "string list"
  er_evaluator_versions :: "(string \<times> string) list"
  er_prompt_versions :: "(string \<times> string) list"

record critic_character =
  xh_name :: string
  xh_role :: string
  xh_description :: string
  xh_current_state :: string

record critic_context =
  xc_project_id :: int
  xc_chapter_id :: int
  xc_chapter_number :: int
  xc_genre :: string
  xc_premise :: string
  xc_outline :: "(string \<times> json) list"
  xc_content :: string
  xc_summary :: string
  xc_characters :: "critic_character list"
  xc_story_rules :: "string list"
  xc_previous_chapter_summary :: "string option"
  xc_active_foreshadowing :: "string list"
  xc_mechanical_summary :: "(string \<times> json) list"
  xc_consistency_summary :: "(string \<times> json) list"

record critic_result =
  ca_output :: chapter_critique
  ca_provider :: string
  ca_model :: string
  ca_prompt_versions :: "(string \<times> string) list"

record loaded_context =
  lo_project_id :: int
  lo_chapter_id :: int
  lo_chapter_number :: int
  lo_chapter_version_id :: int
  lo_workflow_run_id :: "int option"
  lo_idempotency_key :: "string option"
  lo_target_words :: int
  lo_language :: string
  lo_genre :: string
  lo_premise :: string
  lo_content :: string
  lo_summary :: string
  lo_previous_status :: chapter_status
  lo_consistency_request :: consistency_request
  lo_critic_characters :: "critic_character list"
  lo_story_rule_statements :: "string list"
  lo_active_foreshadowing :: "string list"
  lo_previous_chapter_summary :: "string option"
  lo_outline_metadata :: "(string \<times> json) list"

record evaluation_env =
  ve_mechanical :: mechanical_config
  ve_pstdev :: "rat list \<Rightarrow> rat"
  ve_rules :: rule_config
  ve_scoring :: scoring_config
  ve_invoke :: "critic_context \<Rightarrow> critic_result result"
  ve_prompt_versions :: "(string \<times> string) list"
  ve_provider :: string
  ve_number :: "rat \<Rightarrow> string"
  ve_between :: "ndb \<Rightarrow> ndb"
  ve_now :: time

section \<open>Reading the evidence\<close>

definition evaluatable_statuses :: "chapter_status list" where
  "evaluatable_statuses =
     [ChapterStatus_GENERATED, ChapterStatus_EVALUATED_PASSED, ChapterStatus_EVALUATED_NEEDS_REVISION,
      ChapterStatus_EVALUATION_FAILED, ChapterStatus_ACCEPTED, ChapterStatus_NEEDS_REVISION,
      ChapterStatus_WORKFLOW_RUNNING, ChapterStatus_DRAFTING, ChapterStatus_REVISING]"

definition string_list :: "rule_config \<Rightarrow> json \<Rightarrow> string list" where
  "string_list cfg v = (case v of JList vs \<Rightarrow> map (json_text cfg) vs | _ \<Rightarrow> [])"

definition outline_texts :: "rule_config \<Rightarrow> (string \<times> json) list \<Rightarrow> string \<Rightarrow> string list" where
  "outline_texts cfg metadata key = (case map_of metadata key of None \<Rightarrow> [] | Some v \<Rightarrow> string_list cfg v)"

definition outline_of :: "rule_config \<Rightarrow> (string \<times> json) list \<Rightarrow> outline_evidence" where
  "outline_of cfg metadata =
     \<lparr>ko_key_events = map strip (outline_texts cfg metadata ''key_events''),
      ko_forbidden_reveals = map strip (outline_texts cfg metadata ''forbidden_reveals''),
      ko_payoff_foreshadowing = map strip (outline_texts cfg metadata ''payoff_foreshadowing'')\<rparr>"

definition fact_evidence_of :: "fact \<Rightarrow> int \<Rightarrow> fact_evidence result" where
  "fact_evidence_of f chapter_number =
     make_fact_evidence
       \<lparr>fe_fact_id = Some (fa_id f), fe_subject = fa_subject f, fe_predicate = fa_predicate f,
        fe_object = fa_object f, fe_fact_type = fa_fact_type f, fe_confidence = fa_confidence f,
        fe_source_quote = fa_source_quote f, fe_chapter_number = chapter_number,
        fe_valid_from_chapter = fa_valid_from_chapter f, fe_valid_to_chapter = fa_valid_to_chapter f\<rparr>"

definition resolve_version :: "ndb \<Rightarrow> chapter_row \<Rightarrow> int option \<Rightarrow> chapter_version result" where
  "resolve_version db c requested =
     (let asked = Option.bind (case requested of Some i \<Rightarrow> Some i | None \<Rightarrow> ch_current_version_id c) (get_version db);
          found = (case asked of
                     Some v \<Rightarrow> Some v
                   | None \<Rightarrow> find (\<lambda>v. cv_chapter_id v = ch_id c \<and> cv_version v = ch_version c) (t_rows (nd_versions db)))
      in and_then (or_raise InvalidStateError found) (\<lambda>v.
         and_then (require (cv_chapter_id v = ch_id c) InvalidStateError) (\<lambda>_. Inr v)))"

definition current_facts :: "ndb \<Rightarrow> int \<Rightarrow> fact list" where
  "current_facts db version_id =
     sort_key fa_id (filter (\<lambda>f. fa_chapter_version_id f = version_id \<and>
       fa_status f \<in> {FactStatus_CANDIDATE, FactStatus_ACCEPTED}) (t_rows (nd_facts db)))"

definition visible_foreshadowing :: "ndb \<Rightarrow> int \<Rightarrow> int \<Rightarrow> foreshadowing list" where
  "visible_foreshadowing db project_id chapter_number =
     sort_key fs_id (filter (\<lambda>f. fs_project_id f = project_id \<and> fs_setup_chapter f \<le> chapter_number)
       (t_rows (nd_foreshadowings db)))"

definition earlier_chapters :: "ndb \<Rightarrow> int \<Rightarrow> int \<Rightarrow> chapter_row list" where
  "earlier_chapters db project_id chapter_number =
     sort_key ch_chapter_number (filter (\<lambda>c. ch_project_id c = project_id \<and> ch_chapter_number c < chapter_number)
       (t_rows (nd_chapters db)))"

definition character_evidence_of :: "character \<Rightarrow> character_evidence" where
  "character_evidence_of c =
     \<lparr>ke_name = strip (hc_name c), ke_current_state = strip (hc_current_state c),
      ke_knowledge = map strip (hc_knowledge c), ke_secrets = map strip (hc_secrets c)\<rparr>"

definition rule_evidence_of :: "story_rule \<Rightarrow> story_rule_evidence result" where
  "rule_evidence_of r =
     (if 0 < sr_id r
      then Inr \<lparr>ks_rule_id = sr_id r, ks_category = strip (sr_category r), ks_statement = strip (sr_statement r),
                ks_structured_metadata = sr_structured_metadata r\<rparr>
      else Inl ValueError)"

definition foreshadowing_evidence_of :: "foreshadowing \<Rightarrow> foreshadowing_evidence result" where
  "foreshadowing_evidence_of f =
     (if 0 < fs_id f \<and> 0 < fs_setup_chapter f \<and> 0 < fs_expected_payoff_chapter f \<and>
         positive_option (fs_payoff_chapter f)
      then Inr \<lparr>kf_foreshadowing_id = fs_id f, kf_description = strip (fs_description f),
                kf_setup_chapter = fs_setup_chapter f, kf_expected_payoff_chapter = fs_expected_payoff_chapter f,
                kf_payoff_chapter = fs_payoff_chapter f, kf_status = fs_status f\<rparr>
      else Inl ValueError)"

definition resolved_updates :: "foreshadowing list \<Rightarrow> int \<Rightarrow> foreshadowing_update_evidence list" where
  "resolved_updates fs chapter_number =
     map (\<lambda>f. \<lparr>kp_action = ''resolve'', kp_description = strip (fs_description f),
               kp_foreshadowing_id = Some (fs_id f), kp_confidence = 1\<rparr>)
       (filter (\<lambda>f. fs_payoff_chapter f = Some chapter_number \<and> fs_status f = ForeshadowingStatus_RESOLVED) fs)"

definition summaries_of :: "chapter_row list \<Rightarrow> (int \<times> string) list" where
  "summaries_of cs =
     concat (map (\<lambda>c. case ch_summary c of None \<Rightarrow> [] | Some s \<Rightarrow>
       if s = [] then [] else [(ch_chapter_number c, strip s)]) cs)"

text \<open>The facts known before the chapter, each with the number of the chapter it comes from.\<close>

definition historical_evidence :: "ndb \<Rightarrow> int \<Rightarrow> int \<Rightarrow> fact_evidence list result" where
  "historical_evidence db project_id chapter_number =
     map_result (\<lambda>f. and_then (or_raise (OtherException ''AttributeError'') (nd_chapter db (fa_chapter_id f)))
         (\<lambda>c. fact_evidence_of f (ch_chapter_number c)))
       (known_before db project_id chapter_number)"

definition consistency_request_of ::
  "rule_config \<Rightarrow> ndb \<Rightarrow> project \<Rightarrow> chapter_row \<Rightarrow> chapter_version \<Rightarrow> consistency_request result" where
  "consistency_request_of cfg db p c v =
     (let number = ch_chapter_number c; fs = visible_foreshadowing db (pr_id p) number in
      and_then (map_result (\<lambda>f. fact_evidence_of f number) (current_facts db (cv_id v))) (\<lambda>new_facts.
      and_then (historical_evidence db (pr_id p) number) (\<lambda>history.
      and_then (map_result rule_evidence_of (active_rules db (pr_id p))) (\<lambda>rules.
      and_then (map_result foreshadowing_evidence_of fs) (\<lambda>active.
      if 0 < pr_id p \<and> 0 < ch_id c \<and> 0 < number
      then Inr \<lparr>kq_project_id = pr_id p, kq_chapter_id = ch_id c, kq_chapter_number = number,
                kq_content = strip (cv_content v), kq_new_facts = new_facts, kq_character_updates = [],
                kq_historical_facts = history,
                kq_characters = map character_evidence_of (characters_of_project db (pr_id p)),
                kq_story_rules = rules, kq_outline = outline_of cfg (ch_outline_metadata c),
                kq_active_foreshadowing = active, kq_foreshadowing_updates = resolved_updates fs number,
                kq_previous_summaries = summaries_of (earlier_chapters db (pr_id p) number)\<rparr>
      else Inl ValueError)))))"

definition participants :: "rule_config \<Rightarrow> ndb \<Rightarrow> int \<Rightarrow> (string \<times> json) list \<Rightarrow> critic_character list" where
  "participants cfg db project_id metadata =
     map (\<lambda>c. \<lparr>xh_name = strip (hc_name c), xh_role = strip (hc_role c), xh_description = strip (hc_description c),
               xh_current_state = strip (hc_current_state c)\<rparr>)
       (filter (\<lambda>c. hc_name c \<in> set (outline_texts cfg metadata ''participating_characters''))
          (characters_of_project db project_id))"

definition previous_summary :: "chapter_row list \<Rightarrow> string option" where
  "previous_summary cs = (if cs = [] then None else ch_summary (last cs))"

definition loaded_of ::
  "rule_config \<Rightarrow> ndb \<Rightarrow> evaluation_request \<Rightarrow> project \<Rightarrow> chapter_row \<Rightarrow> chapter_version \<Rightarrow> consistency_request \<Rightarrow>
   loaded_context" where
  "loaded_of cfg db q p c v r =
     \<lparr>lo_project_id = pr_id p, lo_chapter_id = ch_id c, lo_chapter_number = ch_chapter_number c,
      lo_chapter_version_id = cv_id v, lo_workflow_run_id = eq_workflow_run_id q,
      lo_idempotency_key = eq_idempotency_key q, lo_target_words = pr_target_words_per_chapter p,
      lo_language = pr_language p, lo_genre = pr_genre p, lo_premise = pr_premise p, lo_content = cv_content v,
      lo_summary = cv_summary v, lo_previous_status = ch_status c, lo_consistency_request = r,
      lo_critic_characters = participants cfg db (pr_id p) (ch_outline_metadata c),
      lo_story_rule_statements = map sr_statement (active_rules db (pr_id p)),
      lo_active_foreshadowing = map fs_description (visible_foreshadowing db (pr_id p) (ch_chapter_number c)),
      lo_previous_chapter_summary = previous_summary (earlier_chapters db (pr_id p) (ch_chapter_number c)),
      lo_outline_metadata = ch_outline_metadata c\<rparr>"

text \<open>\<open>_load_context\<close>\<close>

definition load_evaluation :: "rule_config \<Rightarrow> ndb \<Rightarrow> evaluation_request \<Rightarrow> loaded_context result" where
  "load_evaluation cfg db q =
     and_then (or_raise EntityNotFoundError (nd_project db (eq_project_id q))) (\<lambda>p.
     and_then (or_raise EntityNotFoundError
        (narrative_chapter_by_number db (eq_project_id q) (eq_chapter_number q))) (\<lambda>c.
     and_then (require (trim (ch_content c) \<noteq> [] \<or> eq_chapter_version_id q \<noteq> None) InvalidStateError) (\<lambda>_.
     and_then (require (ch_status c \<in> set evaluatable_statuses) InvalidStateError) (\<lambda>_.
     and_then (resolve_version db c (eq_chapter_version_id q)) (\<lambda>v.
     and_then (require (trim (cv_content v) \<noteq> []) InvalidStateError) (\<lambda>_.
     and_then (consistency_request_of cfg db p c v) (\<lambda>r.
     Inr (loaded_of cfg db q p c v r))))))))"

end
