(* ===== verification/Evaluation_Runs.thy ===== *)
theory Evaluation_Runs
  imports Evaluation_Service
begin

text \<open>
  The transactions of an evaluation (\<open>src/src/storyforge/services/evaluation_service.py\<close>): the mark on the
  chapter, the complete or partial record with its issues and conflicts, \<open>evaluate\<close> with its error exits, and
  the queries and the manual update of conflicts.
\<close>

section \<open>Stored results\<close>

definition evaluation_result_ok :: "chapter_evaluation_result \<Rightarrow> bool" where
  "evaluation_result_ok r \<longleftrightarrow>
     0 < er_evaluation_id r \<and> 0 < er_project_id r \<and> 0 < er_chapter_id r \<and> 0 < er_chapter_version_id r \<and>
     0 < er_chapter_number r \<and> 0 < er_evaluation_version r \<and>
     list_all ten_score [er_mechanical_score r, er_critic_score r, er_consistency_score r, er_final_score r]"

definition to_result :: "ndb \<Rightarrow> evaluation \<Rightarrow> int \<Rightarrow> chapter_evaluation_result result" where
  "to_result db e chapter_number =
     (let r = \<lparr>er_evaluation_id = ev_id e, er_project_id = ev_project_id e, er_chapter_id = ev_chapter_id e,
               er_chapter_version_id = ev_chapter_version_id e, er_chapter_number = chapter_number,
               er_evaluation_version = ev_evaluation_version e, er_status = ev_status e,
               er_mechanical_score = ev_mechanical_score e, er_critic_score = ev_critic_score e,
               er_consistency_score = ev_consistency_score e, er_final_score = ev_overall_score e,
               er_passed = ev_passed e, er_issue_count = int (length (issues_of_evaluation db (ev_id e))),
               er_conflict_count = int (length (conflicts_of_evaluation db (ev_id e))),
               er_critical_conflict_count = int (length (filter (\<lambda>c. co_severity c = ConflictSeverity_CRITICAL)
                 (conflicts_of_evaluation db (ev_id e)))),
               er_recommended_action = ev_recommended_action e,
               er_blocking_reasons = map strip (ev_blocking_reasons e),
               er_evaluator_versions = map (map_prod strip strip) (ev_evaluator_versions e),
               er_prompt_versions = map (map_prod strip strip) (ev_prompt_versions e)\<rparr>
      in if evaluation_result_ok r then Inr r else Inl ValueError)"

definition existing_result :: "ndb \<Rightarrow> evaluation_request \<Rightarrow> chapter_evaluation_result option result" where
  "existing_result db q =
     (case Option.bind (eq_idempotency_key q) (evaluation_by_key db) of
        None \<Rightarrow> Inr None
      | Some e \<Rightarrow>
          and_then (or_raise EntityNotFoundError (nd_chapter db (ev_chapter_id e))) (\<lambda>c.
          and_then (to_result db e (ch_chapter_number c)) (\<lambda>r. Inr (Some r))))"

section \<open>Marks on the chapter\<close>

definition mark_evaluating :: "ndb \<Rightarrow> loaded_context \<Rightarrow> (ndb \<times> unit) result" where
  "mark_evaluating db l =
     and_then (or_raise EntityNotFoundError (nd_chapter db (lo_chapter_id l))) (\<lambda>c.
     and_then (require (ch_status c = lo_previous_status l) InvalidStateError) (\<lambda>_.
     ncommit (save_narrative_chapter db (c\<lparr>ch_status := ChapterStatus_EVALUATING\<rparr>)) ()))"

text \<open>\<open>_mark_failed\<close>; an error of the database is logged and swallowed.\<close>

definition mark_evaluation_failed :: "ndb \<Rightarrow> loaded_context \<Rightarrow> ndb" where
  "mark_evaluation_failed db l =
     (case nd_chapter db (lo_chapter_id l) of
        None \<Rightarrow> db
      | Some c \<Rightarrow>
          if ch_status c = ChapterStatus_EVALUATING
          then (case ncommit (save_narrative_chapter db (c\<lparr>ch_status := ChapterStatus_EVALUATION_FAILED\<rparr>)) () of
                  Inl e \<Rightarrow> db | Inr (db1, _) \<Rightarrow> db1)
          else db)"

section \<open>Rows\<close>

definition add_all :: "(int \<Rightarrow> 'r \<Rightarrow> 'r) \<Rightarrow> 'r table \<Rightarrow> 'r list \<Rightarrow> 'r table" where
  "add_all with_key t rows = foldl (\<lambda>t r. fst (repo_add with_key t r)) t rows"

definition mechanical_row :: "int \<Rightarrow> mechanical_issue \<Rightarrow> evaluation_issue" where
  "mechanical_row evaluation_id i =
     \<lparr>ei_id = 0, ei_evaluation_id = evaluation_id, ei_source = ''mechanical'', ei_code = mq_code i,
      ei_category = mq_category i, ei_severity = mq_severity i, ei_description = mq_message i,
      ei_evidence = mq_evidence i, ei_suggestion = None, ei_score_penalty = mq_score_penalty i,
      ei_details = [(''location'', case mq_location i of None \<Rightarrow> JNull | Some s \<Rightarrow> JStr s)]\<rparr>"

definition critic_row :: "int \<Rightarrow> critic_issue \<Rightarrow> evaluation_issue" where
  "critic_row evaluation_id i =
     \<lparr>ei_id = 0, ei_evaluation_id = evaluation_id, ei_source = ''critic'', ei_code = ci_code i,
      ei_category = ci_category i, ei_severity = ci_severity i, ei_description = ci_description i,
      ei_evidence = ci_evidence i, ei_suggestion = Some (ci_suggestion i), ei_score_penalty = 0,
      ei_details = [(''affected_characters'', JList (map JStr (ci_affected_characters i))),
                    (''affected_facts'', JList (map JStr (ci_affected_facts i)))]\<rparr>"

definition conflict_row :: "loaded_context \<Rightarrow> int \<Rightarrow> time \<Rightarrow> consistency_conflict \<Rightarrow> conflict" where
  "conflict_row l evaluation_id now c =
     \<lparr>co_id = 0, co_evaluation_id = evaluation_id, co_project_id = lo_project_id l, co_chapter_id = lo_chapter_id l,
      co_chapter_version_id = lo_chapter_version_id l, co_conflict_type = kc_conflict_type c,
      co_severity = kc_severity c, co_subject = kc_subject c, co_description = kc_description c,
      co_new_evidence = kc_new_evidence c, co_existing_evidence = kc_existing_evidence c,
      co_existing_fact_id = kc_existing_fact_id c, co_suggested_resolution = kc_suggested_resolution c,
      co_confidence = kc_confidence c, co_rule_code = kc_rule_code c, co_status = ConflictStatus_OPEN,
      co_resolution_note = None, co_created_at = now, co_resolved_at = None\<rparr>"

definition legacy_issue :: "string \<Rightarrow> string \<Rightarrow> conflict_severity \<Rightarrow> (string \<times> json) list" where
  "legacy_issue source code severity =
     [(''source'', JStr source), (''code'', JStr code), (''severity'', JStr (conflict_severity_value severity))]"

definition legacy_issues :: "mechanical_result \<Rightarrow> chapter_critique option \<Rightarrow> (string \<times> json) list list" where
  "legacy_issues m critique =
     map (\<lambda>i. legacy_issue ''mechanical'' (mq_code i) (mq_severity i)) (ml_issues m) @
     (case critique of None \<Rightarrow> [] | Some c \<Rightarrow> map (\<lambda>i. legacy_issue ''critic'' (ci_code i) (ci_severity i)) (ct_issues c))"

definition metrics_json :: "(rat \<Rightarrow> string) \<Rightarrow> mechanical_metrics \<Rightarrow> (string \<times> json) list" where
  "metrics_json number m =
     [(''word_count'', JInt (mm_word_count m)), (''paragraph_count'', JInt (mm_paragraph_count m)),
      (''sentence_count'', JInt (mm_sentence_count m)),
      (''average_sentence_length'', JFloat (number (mm_average_sentence_length m))),
      (''sentence_length_stddev'', JFloat (number (mm_sentence_length_stddev m))),
      (''dialogue_ratio'', JFloat (number (mm_dialogue_ratio m))),
      (''repeated_paragraph_count'', JInt (mm_repeated_paragraph_count m)),
      (''repeated_ngram_ratio'', JFloat (number (mm_repeated_ngram_ratio m))),
      (''banned_phrase_count'', JInt (mm_banned_phrase_count m)),
      (''short_paragraph_ratio'', JFloat (number (mm_short_paragraph_ratio m))),
      (''long_paragraph_ratio'', JFloat (number (mm_long_paragraph_ratio m)))]"

definition dimension_json :: "(rat \<Rightarrow> string) \<Rightarrow> dimension_score \<Rightarrow> json" where
  "dimension_json number d = JDict [(''score'', JFloat (number (ds_score d))), (''rationale'', JStr (ds_rationale d))]"

definition critic_dimensions :: "(rat \<Rightarrow> string) \<Rightarrow> chapter_critique \<Rightarrow> (string \<times> json) list" where
  "critic_dimensions number c =
     zip [''prose'', ''plot'', ''character'', ''pacing'', ''dialogue'', ''emotional_impact'', ''consistency'',
          ''outline_adherence''] (map (dimension_json number) (dimensions c))"

definition evaluator_versions :: "evaluation_env \<Rightarrow> mechanical_result \<Rightarrow> consistency_result \<Rightarrow> (string \<times> string) list" where
  "evaluator_versions env m c =
     [(''mechanical'', ml_evaluator_version m), (''consistency'', kr_checker_version c),
      (''scoring'', ec_version (ve_scoring env))]"

definition complete_row ::
  "evaluation_env \<Rightarrow> ndb \<Rightarrow> loaded_context \<Rightarrow> mechanical_result \<Rightarrow> consistency_result \<Rightarrow> critic_result \<Rightarrow>
   combined_evaluation \<Rightarrow> evaluation" where
  "complete_row env db l m c a cm =
     (let critique = ca_output a in
      \<lparr>ev_id = 0, ev_project_id = lo_project_id l, ev_chapter_id = lo_chapter_id l,
       ev_chapter_version_id = lo_chapter_version_id l, ev_workflow_run_id = lo_workflow_run_id l,
       ev_idempotency_key = lo_idempotency_key l, ev_evaluator = ''milestone-4'',
       ev_evaluation_version = next_evaluation_version db (lo_chapter_id l),
       ev_status = EvaluationStatus_COMPLETED, ev_overall_score = cm_final_score cm,
       ev_mechanical_score = ml_score m, ev_critic_score = ct_overall_score critique,
       ev_consistency_score = kr_score c, ev_prose_score = ds_score (ct_prose critique),
       ev_character_score = ds_score (ct_character critique), ev_plot_score = ds_score (ct_plot critique),
       ev_pacing_score = ds_score (ct_pacing critique), ev_dialogue_score = ds_score (ct_dialogue critique),
       ev_emotional_impact_score = ds_score (ct_emotional_impact critique),
       ev_outline_adherence_score = ds_score (ct_outline_adherence critique), ev_raw_scores = cm_raw_scores cm,
       ev_weighted_scores = cm_weighted_scores cm, ev_mechanical_metrics = metrics_json (ve_number env) (ml_metrics m),
       ev_critic_dimensions = critic_dimensions (ve_number env) critique,
       ev_evaluator_versions = evaluator_versions env m c, ev_prompt_versions = ca_prompt_versions a,
       ev_blocking_reasons = cm_blocking_reasons cm, ev_recommended_action = cm_recommended_action cm,
       ev_passed = cm_passed cm, ev_provider = ca_provider a, ev_model = ca_model a,
       ev_config_version = ec_version (ve_scoring env), ev_issues = legacy_issues m (Some critique),
       ev_suggestions = map ci_suggestion (ct_issues critique), ev_created_at = ve_now env\<rparr>)"

definition partial_row ::
  "evaluation_env \<Rightarrow> ndb \<Rightarrow> loaded_context \<Rightarrow> mechanical_result \<Rightarrow> consistency_result \<Rightarrow> evaluation" where
  "partial_row env db l m c =
     \<lparr>ev_id = 0, ev_project_id = lo_project_id l, ev_chapter_id = lo_chapter_id l,
      ev_chapter_version_id = lo_chapter_version_id l, ev_workflow_run_id = lo_workflow_run_id l,
      ev_idempotency_key = lo_idempotency_key l, ev_evaluator = ''milestone-4'',
      ev_evaluation_version = next_evaluation_version db (lo_chapter_id l),
      ev_status = EvaluationStatus_PARTIAL_FAILED, ev_overall_score = 0, ev_mechanical_score = ml_score m,
      ev_critic_score = 0, ev_consistency_score = kr_score c, ev_prose_score = 0, ev_character_score = 0,
      ev_plot_score = 0, ev_pacing_score = 0, ev_dialogue_score = 0, ev_emotional_impact_score = 0,
      ev_outline_adherence_score = 0,
      ev_raw_scores = [(''mechanical'', ml_score m), (''consistency'', kr_score c)], ev_weighted_scores = [],
      ev_mechanical_metrics = metrics_json (ve_number env) (ml_metrics m), ev_critic_dimensions = [],
      ev_evaluator_versions = evaluator_versions env m c, ev_prompt_versions = ve_prompt_versions env,
      ev_blocking_reasons = [''critic_agent_failed''], ev_recommended_action = Recommend_Human_Review,
      ev_passed = False, ev_provider = ve_provider env, ev_model = ''unavailable'',
      ev_config_version = ec_version (ve_scoring env), ev_issues = legacy_issues m None, ev_suggestions = [],
      ev_created_at = ve_now env\<rparr>"

text \<open>The row of the attempt with its issues and conflicts, and the version marked as evaluated.\<close>

definition add_attempt ::
  "ndb \<Rightarrow> evaluation \<Rightarrow> loaded_context \<Rightarrow> mechanical_result \<Rightarrow> critic_issue list \<Rightarrow> consistency_conflict list \<Rightarrow>
   time \<Rightarrow> ndb \<times> evaluation" where
  "add_attempt db row l m critic_issues conflicts now =
     (let (t, e) = repo_add (\<lambda>i r. r\<lparr>ev_id := i\<rparr>) (nd_evaluations db) row;
          db1 = db\<lparr>nd_evaluations := t,
                   nd_issues := add_all (\<lambda>i r. r\<lparr>ei_id := i\<rparr>) (nd_issues db)
                     (map (mechanical_row (ev_id e)) (ml_issues m) @ map (critic_row (ev_id e)) critic_issues),
                   nd_conflicts := add_all (\<lambda>i r. r\<lparr>co_id := i\<rparr>) (nd_conflicts db)
                     (map (conflict_row l (ev_id e) now) conflicts)\<rparr>;
          db2 = (case get_version db1 (lo_chapter_version_id l) of
                   None \<Rightarrow> db1
                 | Some v \<Rightarrow> save_version db1 (v\<lparr>cv_status := ChapterVersionStatus_EVALUATED\<rparr>))
      in (db2, e))"

definition evaluating_chapter :: "ndb \<Rightarrow> loaded_context \<Rightarrow> chapter_row result" where
  "evaluating_chapter db l =
     (case nd_chapter db (lo_chapter_id l) of
        None \<Rightarrow> Inl InvalidStateError
      | Some c \<Rightarrow> if ch_status c = ChapterStatus_EVALUATING then Inr c else Inl InvalidStateError)"

definition persist_complete ::
  "evaluation_env \<Rightarrow> ndb \<Rightarrow> loaded_context \<Rightarrow> mechanical_result \<Rightarrow> consistency_result \<Rightarrow> critic_result \<Rightarrow>
   combined_evaluation \<Rightarrow> (ndb \<times> chapter_evaluation_result) result" where
  "persist_complete env db l m k a cm =
     and_then (evaluating_chapter db l) (\<lambda>c.
     let (db1, e) = add_attempt db (complete_row env db l m k a cm) l m (ct_issues (ca_output a)) (kr_conflicts k)
           (ve_now env);
         db2 = save_narrative_chapter db1 (c\<lparr>ch_score := Some (cm_final_score cm),
           ch_status := if cm_passed cm then ChapterStatus_EVALUATED_PASSED
                        else ChapterStatus_EVALUATED_NEEDS_REVISION\<rparr>)
     in and_then (to_result db2 e (lo_chapter_number l)) (ncommit db2))"

definition persist_partial ::
  "evaluation_env \<Rightarrow> ndb \<Rightarrow> loaded_context \<Rightarrow> mechanical_result \<Rightarrow> consistency_result \<Rightarrow> (ndb \<times> unit) result" where
  "persist_partial env db l m k =
     and_then (evaluating_chapter db l) (\<lambda>c.
     let (db1, e) = add_attempt db (partial_row env db l m k) l m [] (kr_conflicts k) (ve_now env)
     in ncommit (save_narrative_chapter db1 (c\<lparr>ch_status := ChapterStatus_EVALUATION_FAILED\<rparr>)) ())"

section \<open>evaluate\<close>

definition database_error :: "exn \<Rightarrow> bool" where
  "database_error e \<longleftrightarrow> e \<in> {IntegrityError, OperationalError}"

definition evaluation_error :: exn where
  "evaluation_error = OtherException ''EvaluationError''"

definition critic_error :: "exn \<Rightarrow> bool" where
  "critic_error e \<longleftrightarrow> e \<in> {OtherException ''AgentExecutionError'', evaluation_error}"

text \<open>\<open>CriticAgent.critique\<close>: what the model answers must quote the chapter.\<close>

definition critique :: "evaluation_env \<Rightarrow> critic_context \<Rightarrow> critic_result result" where
  "critique env ctx =
     and_then (require (trim (xc_content ctx) \<noteq> []) evaluation_error) (\<lambda>_.
     and_then (ve_invoke env ctx) (\<lambda>a.
     and_then (require (list_all (\<lambda>i. case ci_evidence i of None \<Rightarrow> True
        | Some s \<Rightarrow> s = [] \<or> contains s (xc_content ctx)) (ct_issues (ca_output a))) evaluation_error) (\<lambda>_.
     Inr a)))"

definition critic_context_of ::
  "evaluation_env \<Rightarrow> loaded_context \<Rightarrow> mechanical_result \<Rightarrow> consistency_result \<Rightarrow> critic_context" where
  "critic_context_of env l m k =
     \<lparr>xc_project_id = lo_project_id l, xc_chapter_id = lo_chapter_id l, xc_chapter_number = lo_chapter_number l,
      xc_genre = strip (lo_genre l), xc_premise = strip (lo_premise l), xc_outline = lo_outline_metadata l,
      xc_content = strip (lo_content l), xc_summary = strip (lo_summary l),
      xc_characters = lo_critic_characters l, xc_story_rules = map strip (lo_story_rule_statements l),
      xc_previous_chapter_summary = map_option strip (lo_previous_chapter_summary l),
      xc_active_foreshadowing = map strip (lo_active_foreshadowing l),
      xc_mechanical_summary =
        [(''score'', JFloat (ve_number env (ml_score m))),
         (''metrics'', JDict (metrics_json (ve_number env) (ml_metrics m))),
         (''issue_codes'', JList (map (\<lambda>i. JStr (mq_code i)) (ml_issues m)))],
      xc_consistency_summary =
        [(''score'', JFloat (ve_number env (kr_score k))),
         (''conflicts'', JList (map (\<lambda>c. JDict
            [(''code'', JStr (kc_rule_code c)), (''severity'', JStr (conflict_severity_value (kc_severity c))),
             (''description'', JStr (kc_description c))]) (kr_conflicts k)))]\<rparr>"

definition local_checks :: "evaluation_env \<Rightarrow> loaded_context \<Rightarrow> (mechanical_result \<times> consistency_result) result" where
  "local_checks env l =
     and_then (make_mechanical_request
       \<lparr>ka_chapter_id = lo_chapter_id l, ka_chapter_number = lo_chapter_number l, ka_content = lo_content l,
        ka_target_words = lo_target_words l, ka_language = lo_language l\<rparr>) (\<lambda>q.
     and_then (evaluate_mechanically (ve_mechanical env) (ve_pstdev env) q) (\<lambda>m.
     and_then (check (ve_rules env) (lo_consistency_request l)) (\<lambda>k. Inr (m, k))))"

text \<open>The end of a transaction that a database error turns into \<open>EvaluationError\<close>.\<close>

definition settled ::
  "ndb \<Rightarrow> loaded_context \<Rightarrow> (ndb \<times> 'a) result \<Rightarrow> ndb \<times> 'a result" where
  "settled db l r =
     (case r of
        Inr (db1, a) \<Rightarrow> (db1, Inr a)
      | Inl e \<Rightarrow> if database_error e then (mark_evaluation_failed db l, Inl evaluation_error) else (db, Inl e))"

definition evaluate_marked ::
  "evaluation_env \<Rightarrow> loaded_context \<Rightarrow> ndb \<Rightarrow> ndb \<times> chapter_evaluation_result result" where
  "evaluate_marked env l db =
     (case local_checks env l of
        Inl e \<Rightarrow> (mark_evaluation_failed db l, Inl evaluation_error)
      | Inr (m, k) \<Rightarrow>
          let db1 = ve_between env db in
          (case critique env (critic_context_of env l m k) of
             Inl e \<Rightarrow>
               if critic_error e
               then and_run (settled db1 l (persist_partial env db1 l m k)) (\<lambda>db2 _. (db2, Inl evaluation_error))
               else (db1, Inl e)
           | Inr a \<Rightarrow>
               (case combine (ve_scoring env) (ml_score m) (ca_output a) (kr_score k) (kr_critical_count k)
                       (kr_high_count k) (trim (lo_content l) = []) of
                  Inl e \<Rightarrow> (db1, Inl e)
                | Inr cm \<Rightarrow> settled db1 l (persist_complete env db1 l m k a cm))))"

definition evaluate ::
  "evaluation_env \<Rightarrow> ndb \<Rightarrow> evaluation_request \<Rightarrow> ndb \<times> chapter_evaluation_result result" where
  "evaluate env db q =
     (case existing_result db q of
        Inl e \<Rightarrow> (db, Inl e)
      | Inr (Some r) \<Rightarrow> (db, Inr r)
      | Inr None \<Rightarrow>
          and_run (db, load_evaluation (ve_rules env) db q) (\<lambda>db0 l.
          and_run (ran db0 (mark_evaluating db0 l)) (\<lambda>db1 _. evaluate_marked env l db1)))"

section \<open>Queries and conflicts\<close>

definition list_evaluations :: "ndb \<Rightarrow> int \<Rightarrow> int \<Rightarrow> chapter_evaluation_result list result" where
  "list_evaluations db project_id chapter_number =
     and_then (or_raise EntityNotFoundError (narrative_chapter_by_number db project_id chapter_number)) (\<lambda>c.
     map_result (\<lambda>e. to_result db e (ch_chapter_number c)) (evaluations_of_chapter db (ch_id c)))"

definition list_conflicts ::
  "ndb \<Rightarrow> int \<Rightarrow> int option \<Rightarrow> conflict_severity option \<Rightarrow> conflict_type option \<Rightarrow> conflict_status option \<Rightarrow>
   conflict list result" where
  "list_conflicts db project_id chapter_number severity kind status =
     and_then (or_raise EntityNotFoundError (nd_project db project_id)) (\<lambda>_.
     case chapter_number of
       None \<Rightarrow> Inr (conflicts_of_project db project_id None severity kind status)
     | Some n \<Rightarrow>
         and_then (or_raise EntityNotFoundError (narrative_chapter_by_number db project_id n)) (\<lambda>c.
         Inr (conflicts_of_project db project_id (Some (ch_id c)) severity kind status)))"

definition update_conflict_status ::
  "ndb \<Rightarrow> int \<Rightarrow> int \<Rightarrow> conflict_status \<Rightarrow> time \<Rightarrow> (ndb \<times> conflict) result" where
  "update_conflict_status db project_id conflict_id status now =
     and_then (or_raise EntityNotFoundError (get_conflict db conflict_id)) (\<lambda>c.
     and_then (require (co_project_id c = project_id) EntityNotFoundError) (\<lambda>_.
     let c1 = c\<lparr>co_status := status, co_resolved_at := if status = ConflictStatus_OPEN then None else Some now\<rparr>
     in ncommit (db\<lparr>nd_conflicts := repo_save co_id (nd_conflicts db) c1\<rparr>) c1))"

end
