(* ===== verification/Evaluation_Laws.thy ===== *)
theory Evaluation_Laws
  imports Evaluation_Runs Version_Canon
begin

text \<open>
  The effect of each transaction of an evaluation: what is appended, which row is returned, and how the
  chapter ends. \<open>evaluate_fresh\<close> splits a successful evaluation into its parts.
\<close>

section \<open>Appended rows\<close>

lemma add_all_rows:
  "\<exists>new. t_rows (add_all with_key t rows) = t_rows t @ new \<and> list_all2 (\<lambda>r n. \<exists>i. n = with_key i r) rows new"
proof (induction rows arbitrary: t)
  case Nil
  then show ?case by (simp add: add_all_def)
next
  case (Cons r rows)
  obtain new where "t_rows (add_all with_key (fst (repo_add with_key t r)) rows) =
      t_rows (fst (repo_add with_key t r)) @ new" "list_all2 (\<lambda>r n. \<exists>i. n = with_key i r) rows new"
    using Cons.IH by blast
  then show ?case
    by (intro exI [of _ "with_key (t_next t) r # new"]) (auto simp: add_all_def repo_add_def Let_def)
qed

definition stored :: "evaluation \<Rightarrow> ndb \<Rightarrow> evaluation" where
  "stored row db = row\<lparr>ev_id := t_next (nd_evaluations db)\<rparr>"

lemma add_attempt_effect:
  assumes "add_attempt db row l m issues conflicts now = (db', e)"
  shows "e = stored row db \<and> t_rows (nd_evaluations db') = t_rows (nd_evaluations db) @ [e] \<and>
    t_next (nd_evaluations db') = t_next (nd_evaluations db) + 1 \<and>
    nd_chapters db' = nd_chapters db \<and> nd_projects db' = nd_projects db \<and> nd_facts db' = nd_facts db \<and>
    nd_workflow_runs db' = nd_workflow_runs db \<and> nd_events db' = nd_events db \<and>
    (\<exists>new. t_rows (nd_conflicts db') = t_rows (nd_conflicts db) @ new \<and>
       list_all2 (\<lambda>k n. \<exists>i. n = (conflict_row l (ev_id e) now k)\<lparr>co_id := i\<rparr>) conflicts new) \<and>
    (\<exists>new. t_rows (nd_issues db') = t_rows (nd_issues db) @ new) \<and>
    (nd_versions db' = nd_versions db \<or> (\<exists>v. get_version db (lo_chapter_version_id l) = Some v \<and>
       nd_versions db' = repo_save cv_id (nd_versions db) (v\<lparr>cv_status := ChapterVersionStatus_EVALUATED\<rparr>)))"
proof -
  obtain new where "t_rows (add_all (\<lambda>i r. r\<lparr>co_id := i\<rparr>) (nd_conflicts db)
      (map (conflict_row l (t_next (nd_evaluations db)) now) conflicts)) = t_rows (nd_conflicts db) @ new"
    "list_all2 (\<lambda>r n. \<exists>i. n = r\<lparr>co_id := i\<rparr>) (map (conflict_row l (t_next (nd_evaluations db)) now) conflicts) new"
    using add_all_rows by blast
  moreover obtain new' where "t_rows (add_all (\<lambda>i r. r\<lparr>ei_id := i\<rparr>) (nd_issues db)
      (map (mechanical_row (t_next (nd_evaluations db))) (ml_issues m) @
       map (critic_row (t_next (nd_evaluations db))) issues)) = t_rows (nd_issues db) @ new'"
    using add_all_rows by blast
  ultimately show ?thesis
    using assms
    by (auto simp: add_attempt_def repo_add_def Let_def stored_def save_version_def get_version_def list_all2_map1
        split: option.splits)
qed

lemma evaluating_chapter_Inr:
  "evaluating_chapter db l = Inr c \<longleftrightarrow> nd_chapter db (lo_chapter_id l) = Some c \<and> ch_status c = ChapterStatus_EVALUATING"
  by (auto simp: evaluating_chapter_def split: option.splits)

section \<open>The complete record\<close>

definition scored_chapter :: "chapter_row \<Rightarrow> combined_evaluation \<Rightarrow> chapter_row" where
  "scored_chapter c cm = c\<lparr>ch_score := Some (cm_final_score cm),
     ch_status := if cm_passed cm then ChapterStatus_EVALUATED_PASSED else ChapterStatus_EVALUATED_NEEDS_REVISION\<rparr>"

lemma persist_complete_effect:
  assumes "persist_complete env db l m k a cm = Inr (db', r)"
  obtains c db1 e where "nd_chapter db (lo_chapter_id l) = Some c" and "ch_status c = ChapterStatus_EVALUATING"
    and "add_attempt db (complete_row env db l m k a cm) l m (ct_issues (ca_output a)) (kr_conflicts k) (ve_now env) =
      (db1, e)"
    and "db' = save_narrative_chapter db1 (scored_chapter c cm)"
    and "to_result db' e (lo_chapter_number l) = Inr r" and "ndb_ok db'"
proof -
  obtain c where c: "nd_chapter db (lo_chapter_id l) = Some c" "ch_status c = ChapterStatus_EVALUATING"
    using assms by (auto simp: persist_complete_def evaluating_chapter_Inr)
  obtain db1 e where add: "add_attempt db (complete_row env db l m k a cm) l m (ct_issues (ca_output a))
      (kr_conflicts k) (ve_now env) = (db1, e)" by fastforce
  show thesis
    using that [OF c add] assms c add
    by (auto simp: persist_complete_def evaluating_chapter_def scored_chapter_def Let_def)
qed

section \<open>A successful evaluation\<close>

lemma settled_Inr: "settled db l r = (db', Inr a) \<longleftrightarrow> r = Inr (db', a)"
  by (auto simp: settled_def split: sum.splits prod.splits if_splits)

lemma evaluate_marked_Inr:
  assumes "evaluate_marked env l db = (db', Inr r)"
  obtains m k a cm where "local_checks env l = Inr (m, k)" and "critique env (critic_context_of env l m k) = Inr a"
    and "combine (ve_scoring env) (ml_score m) (ca_output a) (kr_score k) (kr_critical_count k) (kr_high_count k)
           (trim (lo_content l) = []) = Inr cm"
    and "persist_complete env (ve_between env db) l m k a cm = Inr (db', r)"
proof (cases "local_checks env l")
  case (Inl e)
  then show thesis using assms by (simp add: evaluate_marked_def)
next
  case (Inr mk)
  obtain m k where mk: "mk = (m, k)" by fastforce
  show thesis
  proof (cases "critique env (critic_context_of env l m k)")
    case (Inl e)
    then show thesis
      using assms Inr mk by (auto simp: evaluate_marked_def Let_def and_run_def split: if_splits prod.splits sum.splits)
  next
    case ok: (Inr a)
    then show thesis
      using assms Inr mk that [OF Inr [unfolded mk] ok]
      by (auto simp: evaluate_marked_def Let_def settled_Inr split: sum.splits)
  qed
qed

lemma load_evaluation_Inr:
  assumes "load_evaluation cfg db q = Inr l"
  obtains p c v where "nd_project db (eq_project_id q) = Some p"
    and "narrative_chapter_by_number db (eq_project_id q) (eq_chapter_number q) = Some c"
    and "resolve_version db c (eq_chapter_version_id q) = Inr v" and "trim (cv_content v) \<noteq> []"
    and "ch_status c \<in> set evaluatable_statuses"
    and "lo_chapter_id l = ch_id c" and "lo_chapter_number l = ch_chapter_number c"
    and "lo_chapter_version_id l = cv_id v" and "lo_content l = cv_content v"
    and "lo_idempotency_key l = eq_idempotency_key q" and "lo_previous_status l = ch_status c"
  using assms by (auto simp: load_evaluation_def loaded_of_def)

definition marked_chapter :: "chapter_row \<Rightarrow> chapter_row" where
  "marked_chapter c = c\<lparr>ch_status := ChapterStatus_EVALUATING\<rparr>"

lemma mark_evaluating_effect:
  assumes "mark_evaluating db l = Inr (db', u)"
  obtains c where "nd_chapter db (lo_chapter_id l) = Some c" and "ch_status c = lo_previous_status l"
    and "db' = save_narrative_chapter db (marked_chapter c)" and "ndb_ok db'"
  using assms by (auto simp: mark_evaluating_def marked_chapter_def)

lemma evaluate_fresh:
  assumes "evaluate env db q = (db', Inr r)" and "existing_result db q = Inr None"
  obtains l db1 m k a cm where "load_evaluation (ve_rules env) db q = Inr l"
    and "mark_evaluating db l = Inr (db1, ())" and "local_checks env l = Inr (m, k)"
    and "critique env (critic_context_of env l m k) = Inr a"
    and "combine (ve_scoring env) (ml_score m) (ca_output a) (kr_score k) (kr_critical_count k) (kr_high_count k)
           (trim (lo_content l) = []) = Inr cm"
    and "persist_complete env (ve_between env db1) l m k a cm = Inr (db', r)"
proof -
  obtain l db1 where l: "load_evaluation (ve_rules env) db q = Inr l" "mark_evaluating db l = Inr (db1, ())"
    and rest: "evaluate_marked env l db1 = (db', Inr r)"
    using assms by (auto simp: evaluate_def elim!: and_run_InrE dest!: ran_Inr)
  show thesis using evaluate_marked_Inr [OF rest] that [OF l] by metis
qed

end
