(* ===== verification/Scoring_Properties.thy ===== *)
theory Scoring_Properties
  imports Mechanical_Evaluation
begin

text \<open>
  The combination of scores is total on validated input and stays within its declared types, passes exactly
  when no gate is closed, and never rewards a conflict; so does the mechanical evaluation.
\<close>

section \<open>Gates\<close>

lemma combine_Inr:
  assumes "combine cfg ms cr cs critical high blank = Inr cm"
  obtains weighted where "weighted_scores cfg (raw_scores ms cr cs) = Inr weighted"
    and "cm_final_score cm = final_score cfg weighted critical high blank"
    and "cm_blocking_reasons cm = blocking_reasons cfg cr cs critical high blank (cm_final_score cm)"
    and "cm_passed cm = (cm_blocking_reasons cm = [])"
    and "cm_recommended_action cm = action_of cfg (cm_passed cm) critical high blank (cm_final_score cm)"
    and "cm_raw_scores cm = raw_scores ms cr cs"
  using assms by (auto simp: combine_def Let_def)

lemma no_blocking_reasons:
  "blocking_reasons cfg cr cs critical high blank final = [] \<longleftrightarrow>
   \<not> blank \<and> critical = 0 \<and> high \<le> ec_max_high_conflicts cfg \<and> ec_min_consistency_score cfg \<le> cs \<and>
   ec_min_outline_adherence_score cfg \<le> ds_score (ct_outline_adherence cr) \<and> ct_pass_recommendation cr \<and>
   ec_pass_threshold cfg \<le> final"
  by (auto simp: blocking_reasons_def filter_empty_conv not_less)

lemma combine_passed:
  assumes "combine cfg ms cr cs critical high blank = Inr cm"
  shows "cm_passed cm \<longleftrightarrow>
    \<not> blank \<and> critical = 0 \<and> high \<le> ec_max_high_conflicts cfg \<and> ec_min_consistency_score cfg \<le> cs \<and>
    ec_min_outline_adherence_score cfg \<le> ds_score (ct_outline_adherence cr) \<and> ct_pass_recommendation cr \<and>
    ec_pass_threshold cfg \<le> cm_final_score cm"
  by (rule combine_Inr [OF assms]) (simp add: no_blocking_reasons)

lemma combine_action:
  assumes "combine cfg ms cr cs critical high blank = Inr cm"
  shows "cm_recommended_action cm = Recommend_Accept \<longleftrightarrow> cm_passed cm"
  by (rule combine_Inr [OF assms]) (auto simp: action_of_def)

section \<open>Types\<close>

lemma map_result_total:
  assumes "\<And>x. x \<in> set xs \<Longrightarrow> \<exists>y. f x = Inr y"
  shows "\<exists>ys. map_result f xs = Inr ys"
  using assms
proof (induction xs)
  case (Cons x xs)
  then obtain y ys where "f x = Inr y" "map_result f xs = Inr ys" by fastforce
  then show ?case by simp
qed simp

lemma raw_names: "set (map fst default_weights) \<subseteq> dom (map_of (raw_scores ms cr cs))"
  by (auto simp: default_weights_def raw_scores_def)

lemma weighted_scores_total:
  assumes "weights_ok (ec_weights cfg)"
  shows "\<exists>w. weighted_scores cfg (raw_scores ms cr cs) = Inr w"
  unfolding weighted_scores_def
proof (rule map_result_total)
  fix x
  assume x: "x \<in> set (ec_weights cfg)"
  obtain name w where nw: "x = (name, w)" by fastforce
  then have "name \<in> set (map fst default_weights)" using assms x by (force simp: weights_ok_def)
  then obtain v where "map_of (raw_scores ms cr cs) name = Some v" using raw_names [of ms cr cs] by blast
  then show "\<exists>y. (case x of (name, weight) \<Rightarrow> and_then (or_raise KeyError (map_of (raw_scores ms cr cs) name))
      (\<lambda>x. Inr (name, round_to 4 (x * weight)))) = Inr y"
    by (simp add: nw)
qed

lemma make_dimension_Inr: "make_dimension raw = Inr d \<Longrightarrow> ten_score (ds_score d)"
  by (auto simp: make_dimension_def Let_def split: if_splits)

lemma made_critique:
  assumes "make_critique raw = Inr c"
  shows "list_all (\<lambda>d. ten_score (ds_score d)) (dimensions c) \<and> ten_score (ct_overall_score c)"
  using assms by (auto simp: make_critique_def dimensions_def Let_def dest!: make_dimension_Inr split: if_splits)

lemma made_scoring_config: "make_scoring_config raw = Inr c \<Longrightarrow> weights_ok (ec_weights c) \<and> 0 \<le> ec_high_conflict_penalty c"
  by (auto simp: make_scoring_config_def Let_def ten_score_def in_range_def split: if_splits)

lemma ten_score_bounded [simp]: "ten_score (bounded_score x)"
  using bounded_score_range [of x] by (simp add: ten_score_def in_range_def)

text \<open>
  C34. With a validated configuration and a validated critique the combination never raises, whatever the local
  scores and counts are, and its result has the declared types: every raw score and the final score lie
  between 0 and 10.
\<close>

theorem combination_is_typed:
  assumes "make_scoring_config raw_config = Inr cfg" and "make_critique raw_critique = Inr cr"
  shows "\<exists>cm. combine cfg ms cr cs critical high blank = Inr cm \<and> combined_ok cm"
proof -
  obtain w where w: "weighted_scores cfg (raw_scores ms cr cs) = Inr w"
    using weighted_scores_total made_scoring_config [OF assms(1)] by blast
  then obtain cm where cm: "combine cfg ms cr cs critical high blank = Inr cm" by (simp add: combine_def Let_def)
  have "list_all (\<lambda>(name, x). ten_score x) (raw_scores ms cr cs)"
    using made_critique [OF assms(2)] by (simp add: raw_scores_def dimensions_def)
  moreover have "ten_score (final_score cfg w critical high blank)" by (simp add: final_score_def Let_def)
  ultimately have "combined_ok cm" using cm w by (auto simp: combine_def Let_def combined_ok_def)
  with cm show ?thesis by blast
qed

section \<open>Conflicts never help\<close>

lemma map_result_sums:
  assumes "map_result f xs = Inr ys" and "map_result g xs = Inr zs"
    and "\<And>x y z. x \<in> set xs \<Longrightarrow> f x = Inr y \<Longrightarrow> g x = Inr z \<Longrightarrow> snd z \<le> (snd y :: rat)"
  shows "sum_list (map snd zs) \<le> sum_list (map snd ys)"
  using assms
proof (induction xs arbitrary: ys zs)
  case (Cons x xs)
  obtain y ys' z zs' where *: "ys = y # ys'" "zs = z # zs'" "f x = Inr y" "g x = Inr z"
    "map_result f xs = Inr ys'" "map_result g xs = Inr zs'" using Cons.prems(1,2) by auto
  have "snd z \<le> snd y" using Cons.prems(3) [OF _ *(3,4)] by simp
  moreover have "sum_list (map snd zs') \<le> sum_list (map snd ys')"
    by (rule Cons.IH [OF *(5,6)]) (rule Cons.prems(3), simp_all)
  ultimately show ?case using *(1,2) by simp
qed simp

lemma raw_scores_mono:
  assumes "cs' \<le> cs" and "map_of (raw_scores ms cr cs) name = Some x" and "map_of (raw_scores ms cr cs') name = Some y"
  shows "y \<le> x"
  using assms(2,3) bounded_score_mono [OF assms(1)] by (auto simp: raw_scores_def split: if_splits)

lemma weighted_scores_mono:
  assumes "weights_ok (ec_weights cfg)" and "cs' \<le> cs"
    and "weighted_scores cfg (raw_scores ms cr cs) = Inr w" and "weighted_scores cfg (raw_scores ms cr cs') = Inr w'"
  shows "sum_list (map snd w') \<le> sum_list (map snd w)"
proof (rule map_result_sums [OF assms(3,4) [unfolded weighted_scores_def]])
  fix x y z
  assume x: "x \<in> set (ec_weights cfg)"
    and y: "(case x of (name, weight) \<Rightarrow> and_then (or_raise KeyError (map_of (raw_scores ms cr cs) name))
        (\<lambda>x. Inr (name, round_to 4 (x * weight)))) = Inr y"
    and z: "(case x of (name, weight) \<Rightarrow> and_then (or_raise KeyError (map_of (raw_scores ms cr cs') name))
        (\<lambda>x. Inr (name, round_to 4 (x * weight)))) = Inr z"
  obtain name w where nw: "x = (name, w)" by fastforce
  have "0 \<le> w" using assms(1) x by (auto simp: weights_ok_def list_all_iff nw)
  then show "snd z \<le> snd y"
    using y z raw_scores_mono [OF assms(2)] by (auto simp: nw intro!: round_to_mono mult_right_mono)
qed

lemma final_score_mono:
  assumes "sum_list (map snd w') \<le> sum_list (map snd w)" and "0 \<le> ec_high_conflict_penalty cfg"
    and "0 \<le> critical" and "critical \<le> critical'" and "high \<le> high'" and "blank \<Longrightarrow> blank'"
  shows "final_score cfg w' critical' high' blank' \<le> final_score cfg w critical high blank"
proof (cases blank')
  case True
  have "bounded_score 0 = 0" by code_simp
  then show ?thesis using True bounded_score_range by (simp add: final_score_def Let_def)
next
  case False
  have "of_int high * ec_high_conflict_penalty cfg \<le> of_int high' * ec_high_conflict_penalty cfg"
    using assms(2,5) by (intro mult_right_mono) simp_all
  then show ?thesis
    using False assms(1,3,4,6) by (auto simp: final_score_def Let_def intro!: bounded_score_mono)
qed

text \<open>
  C35. A lower consistency score, more critical or more high conflicts, or an empty text never raise the final
  score and never open the gate: whatever passes with them passes without them.
\<close>

theorem conflicts_never_help:
  assumes "make_scoring_config raw_config = Inr cfg"
    and "combine cfg ms cr cs critical high blank = Inr a" and "combine cfg ms cr cs' critical' high' blank' = Inr b"
    and "cs' \<le> cs" and "0 \<le> critical" and "critical \<le> critical'" and "high \<le> high'" and "blank \<longrightarrow> blank'"
  shows "cm_final_score b \<le> cm_final_score a \<and> (cm_passed b \<longrightarrow> cm_passed a)"
proof -
  note cfg = made_scoring_config [OF assms(1)]
  obtain w where w: "weighted_scores cfg (raw_scores ms cr cs) = Inr w"
    and a: "cm_final_score a = final_score cfg w critical high blank"
    by (rule combine_Inr [OF assms(2)])
  obtain w' where w': "weighted_scores cfg (raw_scores ms cr cs') = Inr w'"
    and b: "cm_final_score b = final_score cfg w' critical' high' blank'"
    by (rule combine_Inr [OF assms(3)])
  have final: "cm_final_score b \<le> cm_final_score a"
    unfolding a b using weighted_scores_mono [OF _ assms(4) w w'] cfg assms(5-8)
    by (intro final_score_mono) auto
  then show ?thesis using combine_passed [OF assms(2)] combine_passed [OF assms(3)] assms(4-8) by auto
qed

end
