(* ===== verification/Consistency_Properties.thy ===== *)
theory Consistency_Properties
  imports Consistency_Check
begin

text \<open>
  What a successful consistency check reports: the contradictions of the evidence, one per subject; the
  grounds of every critical conflict; and a score that counts every reported conflict.
\<close>

section \<open>Deduplication\<close>

lemma deduplicate_from_keys:
  "distinct (map conflict_key (deduplicate_from seen cs)) \<and>
   set (map conflict_key (deduplicate_from seen cs)) = set (map conflict_key cs) - set seen \<and>
   set (deduplicate_from seen cs) \<subseteq> set cs"
proof (induction cs arbitrary: seen)
  case Nil
  then show ?case by simp
next
  case (Cons c cs)
  show ?case
  proof (cases "conflict_key c \<in> set seen")
    case True
    with Cons.IH [of seen] show ?thesis by auto
  next
    case False
    with Cons.IH [of "conflict_key c # seen"] show ?thesis by auto
  qed
qed

lemma deduplicate_keys: "set (map conflict_key (deduplicate cs)) = set (map conflict_key cs)"
  using deduplicate_from_keys [of "[]" cs] by (simp add: deduplicate_def)

lemma deduplicate_distinct: "distinct (map conflict_key (deduplicate cs))"
  using deduplicate_from_keys [of "[]" cs] by (simp add: deduplicate_def)

lemma deduplicate_subset: "c \<in> set (deduplicate cs) \<Longrightarrow> c \<in> set cs"
  using deduplicate_from_keys [of "[]" cs] by (auto simp: deduplicate_def)

section \<open>What was raised\<close>

lemma map_result_member:
  assumes "map_result f xs = Inr ys" and "y \<in> set ys"
  shows "\<exists>x \<in> set xs. f x = Inr y"
  using assms by (induction xs arbitrary: ys) auto

lemma map_result_image:
  assumes "map_result f xs = Inr ys" and "x \<in> set xs"
  shows "\<exists>y \<in> set ys. f x = Inr y"
  using assms by (induction xs arbitrary: ys) auto

lemma made_conflict:
  "make_conflict raw = Inr c \<Longrightarrow> kc_severity c = kc_severity raw \<and> kc_confidence c = kc_confidence raw \<and>
   kc_subject c = strip (kc_subject raw) \<and> kc_description c = strip (kc_description raw) \<and>
   kc_rule_code c = strip (kc_rule_code raw)"
  by (auto simp: make_conflict_def Let_def split: if_splits)

definition raised_for :: "rule_config \<Rightarrow> consistency_request \<Rightarrow> consistency_conflict list" where
  "raised_for cfg q =
     raised_conflicts cfg q (map normalize_fact (kq_new_facts q)) (map normalize_fact (kq_historical_facts q))"

lemma check_Inr:
  assumes "check cfg q = Inr r"
  obtains raised penalties where "map_result make_conflict (raised_for cfg q) = Inr raised"
    and "kr_conflicts r = deduplicate raised"
    and "map_result (penalty_of cfg) (kr_conflicts r) = Inr penalties"
    and "kr_score r = bounded_score (10 - sum_list penalties)"
    and "kr_critical_count r = count_severity ConflictSeverity_CRITICAL (kr_conflicts r)"
    and "kr_high_count r = count_severity ConflictSeverity_HIGH (kr_conflicts r)"
    and "kr_medium_count r = count_severity ConflictSeverity_MEDIUM (kr_conflicts r)"
    and "kr_low_count r = count_severity ConflictSeverity_LOW (kr_conflicts r)"
  using assms by (auto simp: check_def Let_def raised_for_def)

lemma check_raised:
  "check cfg q = Inr r \<Longrightarrow>
   \<exists>raised. map_result make_conflict (raised_for cfg q) = Inr raised \<and> kr_conflicts r = deduplicate raised"
  by (auto simp: check_def Let_def raised_for_def)

lemma reported_raised:
  assumes "check cfg q = Inr r" and "c \<in> set (kr_conflicts r)"
  shows "\<exists>raw \<in> set (raised_for cfg q). make_conflict raw = Inr c"
  using check_raised [OF assms(1)] deduplicate_subset map_result_member assms(2) by metis

text \<open>The rule codes are literals without surrounding white space.\<close>

lemma codes_stripped [simp]:
  "strip ''fact.direct_contradiction'' = ''fact.direct_contradiction''"
  "strip ''character.dead_action'' = ''character.dead_action''"
  "strip ''A new fact directly contradicts an earlier fact.'' = ''A new fact directly contradicts an earlier fact.''"
  by code_simp+

lemmas conflict_columns = conflict_for_def contradiction_def downgraded_def

lemma other_groups:
  assumes "raw \<in> set (raised_for cfg q)"
  shows "(\<exists>f \<in> set (kq_new_facts q). \<exists>h \<in> set (kq_historical_facts q).
            contradicts (normalize_fact f) (normalize_fact h) \<and>
            raw = contradiction cfg q (normalize_fact f) (normalize_fact h)) \<or>
         raw \<in> set (dead_character_actions cfg q (map normalize_fact (kq_new_facts q))
                     (map normalize_fact (kq_historical_facts q))) \<or>
         kc_severity raw \<noteq> ConflictSeverity_CRITICAL \<and>
         strip (kc_rule_code raw) \<noteq> ''fact.direct_contradiction''"
proof -
  have codes: "strip ''location.simultaneous'' \<noteq> ''fact.direct_contradiction''"
    "strip ''character.knowledge_leak'' \<noteq> ''fact.direct_contradiction''"
    "strip ''story_rule.structured_violation'' \<noteq> ''fact.direct_contradiction''"
    "strip ''object.destroyed_use'' \<noteq> ''fact.direct_contradiction''"
    "strip ''object.possession_without_transfer'' \<noteq> ''fact.direct_contradiction''"
    "strip ''timeline.future_fact'' \<noteq> ''fact.direct_contradiction''"
    "strip ''timeline.event_order'' \<noteq> ''fact.direct_contradiction''"
    "strip ''outline.key_event_missing'' \<noteq> ''fact.direct_contradiction''"
    "strip ''outline.forbidden_reveal'' \<noteq> ''fact.direct_contradiction''"
    "strip ''foreshadowing.payoff_before_setup'' \<noteq> ''fact.direct_contradiction''"
    "strip ''foreshadowing.repeated_payoff'' \<noteq> ''fact.direct_contradiction''"
    "strip ''foreshadowing.planned_payoff_missing'' \<noteq> ''fact.direct_contradiction''"
    "strip ''foreshadowing.payoff_without_setup'' \<noteq> ''fact.direct_contradiction''"
    by code_simp+
  show ?thesis
    using assms unfolding raised_for_def raised_conflicts_def set_append
    apply (elim UnE)
             apply (force simp: direct_fact_conflicts_def)
            apply blast
           apply (auto simp: location_conflicts_def location_conflict_def conflict_for_def downgraded_def Let_def codes
             split: if_splits) [1]
          apply (auto simp: knowledge_leaks_def conflict_for_def downgraded_def codes) [1]
         apply (auto simp: story_rule_conflicts_def conflict_for_def downgraded_def codes) [1]
        apply (auto simp: object_state_conflicts_def destroyed_conflict_def possession_conflict_def conflict_for_def
          downgraded_def codes split: option.splits if_splits) [1]
       apply (auto simp: timeline_conflicts_def future_conflict_def restarted_conflict_def backwards_conflict_def
         conflict_for_def downgraded_def codes split: option.splits if_splits) [1]
      apply (auto simp: outline_conflicts_def Let_def conflict_for_def downgraded_def codes) [1]
     apply (auto simp: reveal_conflicts_def Let_def conflict_for_def downgraded_def codes) [1]
    apply (auto simp: foreshadowing_conflicts_def early_payoffs_def planned_conflicts_def unset_payoffs_def Let_def
      conflict_for_def downgraded_def codes split: option.splits if_splits) [1]
    done
qed


section \<open>Contradictions\<close>

lemma reported_contradiction:
  assumes "check cfg q = Inr r" and "c \<in> set (kr_conflicts r)" and "kc_rule_code c = ''fact.direct_contradiction''"
  shows "kc_description c = ''A new fact directly contradicts an earlier fact.'' \<and>
    (\<exists>f \<in> set (kq_new_facts q). kc_subject c = strip (fe_subject f) \<and>
      (\<exists>h \<in> set (kq_historical_facts q). contradicts (normalize_fact f) (normalize_fact h)))"
proof -
  obtain raw where raw: "raw \<in> set (raised_for cfg q)" "make_conflict raw = Inr c"
    using reported_raised [OF assms(1,2)] by blast
  have code: "strip (kc_rule_code raw) = ''fact.direct_contradiction''"
    using made_conflict [OF raw(2)] assms(3) by simp
  have "raw \<notin> set (dead_character_actions cfg q new history)" for new history
    using code by (auto simp: dead_character_actions_def conflict_for_def split: if_splits)
  with other_groups [OF raw(1)] code obtain f h where
    fh: "f \<in> set (kq_new_facts q)" "h \<in> set (kq_historical_facts q)"
      "contradicts (normalize_fact f) (normalize_fact h)"
      and raw': "raw = contradiction cfg q (normalize_fact f) (normalize_fact h)" by blast
  have "kc_description c = ''A new fact directly contradicts an earlier fact.''"
    "kc_subject c = strip (fe_subject f)"
    using made_conflict [OF raw(2)] by (simp_all add: raw' contradiction_def conflict_for_def normalize_fact_def)
  with fh show ?thesis by blast
qed

lemma contradiction_reported:
  assumes "check cfg q = Inr r" and "f \<in> set (kq_new_facts q)" and "h \<in> set (kq_historical_facts q)"
    and "contradicts (normalize_fact f) (normalize_fact h)"
  shows "\<exists>c \<in> set (kr_conflicts r). kc_rule_code c = ''fact.direct_contradiction'' \<and>
    casefold (kc_subject c) = casefold (strip (fe_subject f))"
proof -
  let ?raw = "contradiction cfg q (normalize_fact f) (normalize_fact h)"
  have raw: "?raw \<in> set (raised_for cfg q)"
    using assms(2-4) by (auto simp: raised_for_def raised_conflicts_def direct_fact_conflicts_def)
  obtain raised where raised: "map_result make_conflict (raised_for cfg q) = Inr raised"
    and r: "kr_conflicts r = deduplicate raised"
    using check_raised [OF assms(1)] by blast
  obtain c0 where c0: "c0 \<in> set raised" "make_conflict ?raw = Inr c0"
    using map_result_image [OF raised raw] by blast
  then have "conflict_key c0 \<in> set (map conflict_key (kr_conflicts r))"
    unfolding r deduplicate_keys by simp
  then obtain c where c: "c \<in> set (kr_conflicts r)" "conflict_key c = conflict_key c0" by auto
  have same: "kc_rule_code c = kc_rule_code c0" "casefold (kc_subject c) = casefold (kc_subject c0)"
    using c(2) by (simp_all add: conflict_key_def)
  have "kc_rule_code c0 = ''fact.direct_contradiction''" "kc_subject c0 = strip (fe_subject f)"
    using made_conflict [OF c0(2)] by (simp_all add: contradiction_def conflict_for_def normalize_fact_def)
  with same c(1) show ?thesis by metis
qed

definition contradicted_subjects :: "consistency_request \<Rightarrow> string set" where
  "contradicted_subjects q =
     (\<lambda>f. casefold (strip (fe_subject f))) ` {f \<in> set (kq_new_facts q).
        \<exists>h \<in> set (kq_historical_facts q). contradicts (normalize_fact f) (normalize_fact h)}"

text \<open>
  C31. A successful check reports contradictions of the earlier facts for exactly the subjects that have one
  (compared without case), and one for each: further contradictions of a subject are dropped as duplicates
  and cost nothing.
\<close>

theorem contradictions_are_reported:
  assumes "check cfg q = Inr r"
  shows "(\<lambda>c. casefold (kc_subject c)) ` {c \<in> set (kr_conflicts r). kc_rule_code c = ''fact.direct_contradiction''} =
      contradicted_subjects q \<and>
    length (filter (\<lambda>c. kc_rule_code c = ''fact.direct_contradiction'') (kr_conflicts r)) =
      card (contradicted_subjects q)"
proof -
  let ?reported = "filter (\<lambda>c. kc_rule_code c = ''fact.direct_contradiction'') (kr_conflicts r)"
  let ?subject = "\<lambda>c. casefold (kc_subject c)"
  have subjects: "?subject ` set ?reported = contradicted_subjects q"
    using reported_contradiction [OF assms] contradiction_reported [OF assms]
    unfolding contradicted_subjects_def
    by (intro equalityI subsetI) (auto simp: image_iff, metis+)
  have "distinct (map conflict_key (kr_conflicts r))"
    using check_raised [OF assms] deduplicate_distinct by auto
  then have "distinct (map conflict_key ?reported)" by (rule distinct_map_filter)
  moreover have "inj_on ?subject (set ?reported)" if "inj_on conflict_key (set ?reported)"
    using that reported_contradiction [OF assms] by (fastforce simp: inj_on_def conflict_key_def)
  ultimately have "distinct (map ?subject ?reported)" by (simp add: distinct_map)
  then have "length ?reported = card (?subject ` set ?reported)"
    using distinct_card by fastforce
  then show ?thesis using subjects by simp
qed

section \<open>Critical conflicts\<close>

text \<open>
  C32. A critical conflict always comes from one new fact: a dead character acts outside memories and dreams,
  no rule allows resurrection, and the fact's confidence reaches the configured floor.
\<close>

theorem critical_conflicts_are_grounded:
  assumes "check cfg q = Inr r" and "c \<in> set (kr_conflicts r)" and "kc_severity c = ConflictSeverity_CRITICAL"
  shows "\<not> resurrection_allowed q \<and> kg_critical_confidence_min cfg \<le> kc_confidence c \<and>
    (\<exists>f \<in> set (kq_new_facts q). kc_subject c = strip (fe_subject f) \<and> kc_confidence c = fe_confidence f \<and>
       acts_dead (dead_subjects q (map normalize_fact (kq_historical_facts q))) (normalize_fact f))"
proof -
  obtain raw where raw: "raw \<in> set (raised_for cfg q)" "make_conflict raw = Inr c"
    using reported_raised [OF assms(1,2)] by blast
  have critical: "kc_severity raw = ConflictSeverity_CRITICAL" using made_conflict [OF raw(2)] assms(3) by simp
  then have "raw \<in> set (dead_character_actions cfg q (map normalize_fact (kq_new_facts q))
      (map normalize_fact (kq_historical_facts q)))"
    using other_groups [OF raw(1)] by (auto simp: contradiction_def conflict_for_def downgraded_def)
  then obtain f where f: "f \<in> set (kq_new_facts q)" "\<not> resurrection_allowed q"
      "acts_dead (dead_subjects q (map normalize_fact (kq_historical_facts q))) (normalize_fact f)"
    and kind: "kc_severity raw = downgraded cfg ConflictSeverity_CRITICAL (fe_confidence f)"
      "kc_subject raw = fe_subject f" "kc_confidence raw = fe_confidence f"
    by (auto simp: dead_character_actions_def conflict_for_def normalize_fact_def split: if_splits)
  have "kg_critical_confidence_min cfg \<le> fe_confidence f"
    using kind(1) critical by (auto simp: downgraded_def split: if_splits)
  then show ?thesis using f kind made_conflict [OF raw(2)] by auto
qed

section \<open>The score\<close>

lemma penalties_sum:
  assumes "map_result (penalty_of cfg) cs = Inr ps" and "kg_severity_penalties cfg = default_penalties"
  shows "sum_list ps = 4 * of_int (count_severity ConflictSeverity_CRITICAL cs) +
      2 * of_int (count_severity ConflictSeverity_HIGH cs) + of_int (count_severity ConflictSeverity_MEDIUM cs) +
      of_int (count_severity ConflictSeverity_LOW cs) / 2"
  using assms(1)
proof (induction cs arbitrary: ps)
  case Nil
  then show ?case by (simp add: count_severity_def)
next
  case (Cons c cs)
  then obtain p ps' where ps: "ps = p # ps'" "penalty_of cfg c = Inr p" "map_result (penalty_of cfg) cs = Inr ps'"
    by auto
  show ?case
    using Cons.IH [OF ps(3)] ps(1,2) assms(2)
    by (cases "kc_severity c") (auto simp: penalty_of_def default_penalties_def count_severity_def field_simps)
qed

lemma severity_counts:
  "count_severity ConflictSeverity_CRITICAL cs + count_severity ConflictSeverity_HIGH cs +
   count_severity ConflictSeverity_MEDIUM cs + count_severity ConflictSeverity_LOW cs = int (length cs)"
proof (induction cs)
  case (Cons c cs)
  then show ?case by (cases "kc_severity c") (simp_all add: count_severity_def)
qed (simp add: count_severity_def)

lemma count_severity_nonneg: "0 \<le> count_severity s cs"
  by (simp add: count_severity_def)

text \<open>
  With the default penalties the score is ten points less four per critical, two per high, one per medium
  and one half per low conflict, within 0 and 10; the four counts are all the reported conflicts, and the full
  score means that nothing was reported.
\<close>

theorem consistency_score_counts_all:
  assumes "check cfg q = Inr r" and "kg_severity_penalties cfg = default_penalties"
  shows "kr_score r = bounded_score (10 - (4 * of_int (kr_critical_count r) + 2 * of_int (kr_high_count r) +
      of_int (kr_medium_count r) + of_int (kr_low_count r) / 2)) \<and>
    kr_critical_count r + kr_high_count r + kr_medium_count r + kr_low_count r = int (length (kr_conflicts r)) \<and>
    0 \<le> kr_score r \<and> kr_score r \<le> 10 \<and> (kr_score r = 10 \<longleftrightarrow> kr_conflicts r = [])"
proof -
  obtain penalties where penalties: "map_result (penalty_of cfg) (kr_conflicts r) = Inr penalties"
    and score: "kr_score r = bounded_score (10 - sum_list penalties)"
    and counts: "kr_critical_count r = count_severity ConflictSeverity_CRITICAL (kr_conflicts r)"
      "kr_high_count r = count_severity ConflictSeverity_HIGH (kr_conflicts r)"
      "kr_medium_count r = count_severity ConflictSeverity_MEDIUM (kr_conflicts r)"
      "kr_low_count r = count_severity ConflictSeverity_LOW (kr_conflicts r)"
    by (rule check_Inr [OF assms(1)]) blast
  note total = penalties_sum [OF penalties assms(2), folded counts]
  note parts = severity_counts [of "kr_conflicts r", folded counts]
  have full: "kr_score r < 10" if "kr_conflicts r \<noteq> []"
  proof -
    have "0 < int (length (kr_conflicts r))" using that by simp
    then have "1 / 2 \<le> sum_list penalties"
      unfolding total using parts count_severity_nonneg [of _ "kr_conflicts r", folded counts]
        counts count_severity_nonneg [of ConflictSeverity_CRITICAL "kr_conflicts r"]
        count_severity_nonneg [of ConflictSeverity_HIGH "kr_conflicts r"]
        count_severity_nonneg [of ConflictSeverity_MEDIUM "kr_conflicts r"]
        count_severity_nonneg [of ConflictSeverity_LOW "kr_conflicts r"]
      by linarith
    then have "bounded_score (10 - sum_list penalties) \<le> bounded_score (19 / 2)"
      by (intro bounded_score_mono) simp
    also have "bounded_score (19 / 2) < 10" by code_simp
    finally show ?thesis using score by simp
  qed
  have empty: "kr_score r = 10" if "kr_conflicts r = []"
  proof -
    have "penalties = []" using penalties that by simp
    moreover have "bounded_score 10 = 10" by code_simp
    ultimately show ?thesis using score by simp
  qed
  show ?thesis
    using score total parts bounded_score_range full empty by (metis less_irrefl)
qed

section \<open>Identities\<close>

definition decode_payload :: "string \<Rightarrow> string \<times> string \<times> string" where
  "decode_payload t =
     (let subject = takeWhile (\<lambda>c. c \<noteq> unit_separator) t; rest = drop (Suc (length subject)) t;
          predicate = takeWhile (\<lambda>c. c \<noteq> unit_separator) rest
      in (subject, predicate, drop (Suc (length predicate)) rest))"

lemma takeWhile_separator:
  "c \<notin> set s \<Longrightarrow> takeWhile (\<lambda>x. x \<noteq> c) (s @ c # t) = s"
  by (induction s) auto

text \<open>
  C33. The text that identifies a fact can be decoded into its normalised subject, predicate and object: the
  separator occurs in none of the first two, so facts are identified exactly when their normalised parts agree,
  never because the parts of one concatenate to those of another.
\<close>

theorem identity_payload_decodes:
  "decode_payload (identity_payload s p x) = (normalize_subject s, normalize_predicate p, normalize_object x)"
  by (simp add: decode_payload_def identity_payload_def Let_def
      takeWhile_separator normalize_subject_plain normalize_predicate_plain)

end
