(* ===== verification/Evaluation_Properties.thy ===== *)
theory Evaluation_Properties
  imports Evaluation_Laws Scoring_Properties Consistency_Properties
begin

text \<open>
  What an evaluation guarantees: the same key gives the stored result again, a passing evaluation has no
  critical conflict, and what is left when the critic is stopped or an accepted version is evaluated.
\<close>

section \<open>Neighbours\<close>

text \<open>
  Other transactions that commit while the critic runs keep the constraints and the keys of the tables, and
  do not renumber a chapter.
\<close>

definition sound_neighbours :: "evaluation_env \<Rightarrow> bool" where
  "sound_neighbours env \<longleftrightarrow>
     (\<forall>db. (ndb_ok db \<longrightarrow> ndb_ok (ve_between env db)) \<and>
        (table_ok ev_id (nd_evaluations db) \<longrightarrow> table_ok ev_id (nd_evaluations (ve_between env db))) \<and>
        (\<forall>i. map_option ch_chapter_number (nd_chapter (ve_between env db) i) =
             map_option ch_chapter_number (nd_chapter db i)))"

lemma sound_neighboursD:
  assumes "sound_neighbours env"
  shows "ndb_ok db \<Longrightarrow> ndb_ok (ve_between env db)"
    and "table_ok ev_id (nd_evaluations db) \<Longrightarrow> table_ok ev_id (nd_evaluations (ve_between env db))"
    and "map_option ch_chapter_number (nd_chapter (ve_between env db) i) = map_option ch_chapter_number (nd_chapter db i)"
  using assms by (auto simp: sound_neighbours_def)

lemma chapter_by_number_row:
  "table_ok ch_id (nd_chapters db) \<Longrightarrow> narrative_chapter_by_number db p n = Some c \<Longrightarrow>
   nd_chapter db (ch_id c) = Some c \<and> ch_chapter_number c = n"
  by (auto simp: narrative_chapter_by_number_def nd_chapter_def chapters.get_row dest!: find_SomeD)

section \<open>Replay\<close>

lemma key_of_appended:
  assumes "ndb_ok db" and "t_rows (nd_evaluations db) = rows @ [e]" and "ev_idempotency_key e = Some key"
  shows "evaluation_by_key db key = Some e"
proof -
  have "unique_where (\<lambda>e. ev_idempotency_key e \<noteq> None) ev_idempotency_key (rows @ [e])"
    using assms(1,2) by (simp add: ndb_ok_def evaluations_ok_def)
  then have "\<not> (\<exists>x \<in> set rows. ev_idempotency_key x = Some key)"
    using assms(3) by (auto simp: unique_where_def image_iff)
  then have "find (\<lambda>e. ev_idempotency_key e = Some key) rows = None"
    by (auto simp: find_None_iff)
  then show ?thesis using assms(2,3) by (simp add: evaluation_by_key_def find_append)
qed

lemma fresh_result_is_stored:
  assumes "evaluate env db q = (db', Inr r)" and "existing_result db q = Inr None"
    and "table_ok ch_id (nd_chapters db)" and "sound_neighbours env"
  shows "\<exists>e c rows. t_rows (nd_evaluations db') = rows @ [e] \<and> ev_idempotency_key e = eq_idempotency_key q \<and>
    ndb_ok db' \<and> nd_chapter db' (ev_chapter_id e) = Some c \<and> to_result db' e (ch_chapter_number c) = Inr r"
proof -
  from assms(1,2) obtain l db1 m k a cm where l: "load_evaluation (ve_rules env) db q = Inr l"
    and mark: "mark_evaluating db l = Inr (db1, ())"
    and persist: "persist_complete env (ve_between env db1) l m k a cm = Inr (db', r)"
    by (rule evaluate_fresh)
  from l obtain p c v where c: "narrative_chapter_by_number db (eq_project_id q) (eq_chapter_number q) = Some c"
    and lo: "lo_chapter_id l = ch_id c" "lo_chapter_number l = ch_chapter_number c"
      "lo_idempotency_key l = eq_idempotency_key q" by (rule load_evaluation_Inr)
  have row: "nd_chapter db (ch_id c) = Some c" using chapter_by_number_row [OF assms(3) c] by simp
  from mark obtain c1 where c1: "nd_chapter db (lo_chapter_id l) = Some c1"
    and db1: "db1 = save_narrative_chapter db (marked_chapter c1)" by (rule mark_evaluating_effect)
  have "c1 = c" using c1 row lo(1) by simp
  then have number1: "map_option ch_chapter_number (nd_chapter db1 (ch_id c)) = Some (ch_chapter_number c)"
    using db1 row by (simp add: nd_chapter_save marked_chapter_def)
  from persist obtain c2 db2 e where c2: "nd_chapter (ve_between env db1) (lo_chapter_id l) = Some c2"
    and add: "add_attempt (ve_between env db1) (complete_row env (ve_between env db1) l m k a cm) l m
        (ct_issues (ca_output a)) (kr_conflicts k) (ve_now env) = (db2, e)"
    and db': "db' = save_narrative_chapter db2 (scored_chapter c2 cm)"
    and res: "to_result db' e (lo_chapter_number l) = Inr r" and ok: "ndb_ok db'"
    by (rule persist_complete_effect)
  have number2: "ch_chapter_number c2 = ch_chapter_number c"
    using sound_neighboursD(3) [OF assms(4), of db1 "ch_id c"] number1 c2 lo(1) by simp
  note effect = add_attempt_effect [OF add]
  have id2: "ch_id c2 = ch_id c" using nd_chapter_row [OF c2] lo(1) by simp
  have same: "nd_chapter db2 = nd_chapter (ve_between env db1)" using effect by (simp add: nd_chapter_def fun_eq_iff)
  have e: "ev_chapter_id e = ch_id c" "ev_idempotency_key e = eq_idempotency_key q"
    using effect lo by (simp_all add: stored_def complete_row_def Let_def)
  have "nd_chapter db' (ch_id c) = Some (scored_chapter c2 cm)"
    using db' c2 same lo(1) id2 by (simp add: nd_chapter_save scored_chapter_def)
  moreover have "ch_chapter_number (scored_chapter c2 cm) = lo_chapter_number l"
    using number2 lo(2) by (simp add: scored_chapter_def)
  moreover have "t_rows (nd_evaluations db') = t_rows (nd_evaluations (ve_between env db1)) @ [e]"
    using effect db' by (simp add: save_narrative_chapter_def)
  ultimately show ?thesis using e ok res by auto
qed

lemma result_is_stored:
  assumes "evaluate env db q = (db', Inr r)" and "eq_idempotency_key q = Some key"
    and "table_ok ch_id (nd_chapters db)" and "sound_neighbours env" and "eq_idempotency_key q2 = Some key"
  shows "existing_result db' q2 = Inr (Some r)"
proof (cases "existing_result db q")
  case (Inl x)
  then show ?thesis using assms(1) by (simp add: evaluate_def)
next
  case (Inr stored_result)
  show ?thesis
  proof (cases stored_result)
    case (Some r0)
    then have "db' = db" "r0 = r" using assms(1) Inr by (simp_all add: evaluate_def)
    moreover have "existing_result db q2 = existing_result db q" using assms(2,5) by (simp add: existing_result_def)
    ultimately show ?thesis using Inr Some by simp
  next
    case None
    then obtain e c rows where e: "t_rows (nd_evaluations db') = rows @ [e]" "ev_idempotency_key e = Some key"
      "ndb_ok db'" "nd_chapter db' (ev_chapter_id e) = Some c" "to_result db' e (ch_chapter_number c) = Inr r"
      using fresh_result_is_stored [OF assms(1) _ assms(3,4)] Inr assms(2) by auto
    then show ?thesis using key_of_appended [OF e(3,1,2)] assms(5) by (simp add: existing_result_def)
  qed
qed

text \<open>
  After an evaluation with a key has succeeded, every evaluation with that key returns the stored result
  and changes nothing: neither the checks nor the critic run again, whatever else the request says.
\<close>

theorem evaluation_is_idempotent:
  assumes "evaluate env db q = (db', Inr r)" and "eq_idempotency_key q = Some key"
    and "table_ok ch_id (nd_chapters db)" and "sound_neighbours env" and "eq_idempotency_key q2 = Some key"
  shows "evaluate env2 db' q2 = (db', Inr r)"
  using result_is_stored [OF assms] by (simp add: evaluate_def)

section \<open>A passing evaluation\<close>

lemma new_conflict_counts:
  assumes "list_all2 (\<lambda>k n. \<exists>i. n = (conflict_row l e now k)\<lparr>co_id := i\<rparr>) ks new"
  shows "filter (\<lambda>n. co_evaluation_id n = e \<and> co_severity n = s) new = filter (\<lambda>n. co_severity n = s) new \<and>
    int (length (filter (\<lambda>n. co_severity n = s) new)) = count_severity s ks"
  using assms by (induction rule: list_all2_induct) (auto simp: conflict_row_def count_severity_def)

lemma old_conflicts_elsewhere:
  assumes "ndb_ok db" and "table_ok ev_id (nd_evaluations db)" and "n \<in> set (t_rows (nd_conflicts db))"
  shows "co_evaluation_id n \<noteq> t_next (nd_evaluations db)"
proof
  assume eq: "co_evaluation_id n = t_next (nd_evaluations db)"
  have "get_evaluation db (co_evaluation_id n) \<noteq> None"
    using assms(1,3) by (simp add: ndb_ok_def evaluations_ok_def)
  then obtain e where "e \<in> set (t_rows (nd_evaluations db))" "ev_id e = t_next (nd_evaluations db)"
    using eq by (auto simp: get_evaluation_def repo_get_def dest: find_SomeD)
  then show False using assms(2) by (auto simp: table_ok_def)
qed

definition conflicts_rated :: "ndb \<Rightarrow> int \<Rightarrow> conflict_severity \<Rightarrow> int" where
  "conflicts_rated db evaluation_id severity =
     int (length (filter (\<lambda>k. co_evaluation_id k = evaluation_id \<and> co_severity k = severity) (t_rows (nd_conflicts db))))"

lemma check_counts:
  "check cfg q = Inr r \<Longrightarrow>
   kr_critical_count r = count_severity ConflictSeverity_CRITICAL (kr_conflicts r) \<and>
   kr_high_count r = count_severity ConflictSeverity_HIGH (kr_conflicts r)"
  by (auto simp: check_def Let_def)

lemma local_checks_Inr: "local_checks env l = Inr (m, k) \<Longrightarrow> check (ve_rules env) (lo_consistency_request l) = Inr k"
  by (auto simp: local_checks_def)

lemma to_result_columns:
  "to_result db e n = Inr r \<Longrightarrow> er_evaluation_id r = ev_id e \<and> er_chapter_id r = ev_chapter_id e \<and>
   er_passed r = ev_passed e \<and> er_final_score r = ev_overall_score e \<and>
   er_consistency_score r = ev_consistency_score e \<and> er_recommended_action r = ev_recommended_action e \<and>
   er_chapter_version_id r = ev_chapter_version_id e"
  by (auto simp: to_result_def Let_def split: if_splits)

lemma fresh_evaluation_recorded:
  assumes "evaluate env db q = (db', Inr r)" and "existing_result db q = Inr None"
    and "table_ok ev_id (nd_evaluations db)" and "sound_neighbours env"
  shows "\<exists>l m k (a :: critic_result) cm c. local_checks env l = Inr (m, k) \<and>
    combine (ve_scoring env) (ml_score m) (ca_output a) (kr_score k) (kr_critical_count k) (kr_high_count k)
      (trim (lo_content l) = []) = Inr cm \<and>
    er_passed r = cm_passed cm \<and> er_final_score r = cm_final_score cm \<and> er_consistency_score r = kr_score k \<and>
    er_recommended_action r = cm_recommended_action cm \<and>
    (\<forall>s. conflicts_rated db' (er_evaluation_id r) s = count_severity s (kr_conflicts k)) \<and>
    nd_chapter db' (er_chapter_id r) = Some (scored_chapter c cm) \<and>
    critique env (critic_context_of env l m k) = Inr a \<and>
    (\<exists>e. e \<in> set (t_rows (nd_evaluations db')) \<and> ev_id e = er_evaluation_id r \<and>
       ev_outline_adherence_score e = ds_score (ct_outline_adherence (ca_output a)))"
proof -
  from assms(1,2) obtain l db1 m k a cm where mark: "mark_evaluating db l = Inr (db1, ())"
    and checks: "local_checks env l = Inr (m, k)" and asked: "critique env (critic_context_of env l m k) = Inr a"
    and comb: "combine (ve_scoring env) (ml_score m) (ca_output a) (kr_score k) (kr_critical_count k) (kr_high_count k)
      (trim (lo_content l) = []) = Inr cm"
    and persist: "persist_complete env (ve_between env db1) l m k a cm = Inr (db', r)"
    by (rule evaluate_fresh)
  from mark obtain c1 where db1: "db1 = save_narrative_chapter db (marked_chapter c1)" and ok1: "ndb_ok db1"
    by (rule mark_evaluating_effect)
  have keys: "table_ok ev_id (nd_evaluations (ve_between env db1))" and ok: "ndb_ok (ve_between env db1)"
    using sound_neighboursD(1,2) [OF assms(4), of db1] ok1 assms(3) db1 by (simp_all add: save_narrative_chapter_def)
  from persist obtain c db2 e where c: "nd_chapter (ve_between env db1) (lo_chapter_id l) = Some c"
    and add: "add_attempt (ve_between env db1) (complete_row env (ve_between env db1) l m k a cm) l m
        (ct_issues (ca_output a)) (kr_conflicts k) (ve_now env) = (db2, e)"
    and db': "db' = save_narrative_chapter db2 (scored_chapter c cm)"
    and res: "to_result db' e (lo_chapter_number l) = Inr r"
    by (rule persist_complete_effect)
  note effect = add_attempt_effect [OF add]
  have e: "e = stored (complete_row env (ve_between env db1) l m k a cm) (ve_between env db1)" using effect by blast
  obtain new where new: "t_rows (nd_conflicts db2) = t_rows (nd_conflicts (ve_between env db1)) @ new"
    "list_all2 (\<lambda>k n. \<exists>i. n = (conflict_row l (ev_id e) (ve_now env) k)\<lparr>co_id := i\<rparr>) (kr_conflicts k) new"
    using effect by blast
  have "filter (\<lambda>n. co_evaluation_id n = ev_id e \<and> co_severity n = s) (t_rows (nd_conflicts (ve_between env db1))) = []" for s
    using old_conflicts_elsewhere [OF ok keys] by (auto simp: filter_empty_conv e stored_def)
  then have rated: "conflicts_rated db' (ev_id e) s = count_severity s (kr_conflicts k)" for s
    using new_conflict_counts [OF new(2), of s] new(1) db' by (simp add: conflicts_rated_def save_narrative_chapter_def)
  have same: "nd_chapter db2 = nd_chapter (ve_between env db1)" using effect by (simp add: nd_chapter_def fun_eq_iff)
  have "nd_chapter db' (lo_chapter_id l) = Some (scored_chapter c cm)"
    using db' c same nd_chapter_row [OF c] by (simp add: nd_chapter_save scored_chapter_def)
  moreover have "er_chapter_id r = lo_chapter_id l" "er_passed r = cm_passed cm" "er_final_score r = cm_final_score cm"
    "er_consistency_score r = kr_score k" "er_recommended_action r = cm_recommended_action cm"
    "er_evaluation_id r = ev_id e"
    using to_result_columns [OF res] by (simp_all add: e stored_def complete_row_def Let_def)
  moreover have "e \<in> set (t_rows (nd_evaluations db'))"
    using effect db' by (simp add: save_narrative_chapter_def)
  moreover have "ev_outline_adherence_score e = ds_score (ct_outline_adherence (ca_output a))"
    by (simp add: e stored_def complete_row_def Let_def)
  ultimately have "local_checks env l = Inr (m, k) \<and>
    combine (ve_scoring env) (ml_score m) (ca_output a) (kr_score k) (kr_critical_count k) (kr_high_count k)
      (trim (lo_content l) = []) = Inr cm \<and>
    er_passed r = cm_passed cm \<and> er_final_score r = cm_final_score cm \<and> er_consistency_score r = kr_score k \<and>
    er_recommended_action r = cm_recommended_action cm \<and>
    (\<forall>s. conflicts_rated db' (er_evaluation_id r) s = count_severity s (kr_conflicts k)) \<and>
    nd_chapter db' (er_chapter_id r) = Some (scored_chapter c cm) \<and>
    critique env (critic_context_of env l m k) = Inr a \<and>
    (\<exists>e. e \<in> set (t_rows (nd_evaluations db')) \<and> ev_id e = er_evaluation_id r \<and>
       ev_outline_adherence_score e = ds_score (ct_outline_adherence (ca_output a)))"
    using checks comb rated asked by auto
  then show ?thesis by blast
qed

text \<open>
  C37. When an evaluation passes, the stored attempt has no critical conflict and at most the permitted number of
  high ones, its consistency, outline-adherence and final scores reach their thresholds, the critic's answer
  recommends to pass, acceptance is recommended, and the chapter is committed as passed with the final score.
\<close>

theorem passing_evaluation_is_clean:
  assumes "evaluate env db q = (db', Inr r)" and "existing_result db q = Inr None" and "er_passed r"
    and "table_ok ev_id (nd_evaluations db)" and "sound_neighbours env"
  shows "conflicts_rated db' (er_evaluation_id r) ConflictSeverity_CRITICAL = 0 \<and>
    conflicts_rated db' (er_evaluation_id r) ConflictSeverity_HIGH \<le> ec_max_high_conflicts (ve_scoring env) \<and>
    ec_min_consistency_score (ve_scoring env) \<le> er_consistency_score r \<and>
    ec_pass_threshold (ve_scoring env) \<le> er_final_score r \<and> er_recommended_action r = Recommend_Accept \<and>
    (\<exists>e context a. e \<in> set (t_rows (nd_evaluations db')) \<and> ev_id e = er_evaluation_id r \<and>
       ec_min_outline_adherence_score (ve_scoring env) \<le> ev_outline_adherence_score e \<and>
       critique env context = Inr a \<and> ct_pass_recommendation (ca_output a) \<and>
       ev_outline_adherence_score e = ds_score (ct_outline_adherence (ca_output a))) \<and>
    (\<exists>c. nd_chapter db' (er_chapter_id r) = Some c \<and> ch_status c = ChapterStatus_EVALUATED_PASSED \<and>
       ch_score c = Some (er_final_score r))"
proof -
  obtain l m k and a :: critic_result and cm c e where one: "local_checks env l = Inr (m, k)"
    "combine (ve_scoring env) (ml_score m) (ca_output a) (kr_score k) (kr_critical_count k) (kr_high_count k)
      (trim (lo_content l) = []) = Inr cm"
    "er_passed r = cm_passed cm" "er_final_score r = cm_final_score cm" "er_consistency_score r = kr_score k"
    "er_recommended_action r = cm_recommended_action cm"
    "\<forall>s. conflicts_rated db' (er_evaluation_id r) s = count_severity s (kr_conflicts k)"
    "nd_chapter db' (er_chapter_id r) = Some (scored_chapter c cm)"
    "critique env (critic_context_of env l m k) = Inr a"
    "e \<in> set (t_rows (nd_evaluations db'))" "ev_id e = er_evaluation_id r"
    "ev_outline_adherence_score e = ds_score (ct_outline_adherence (ca_output a))"
    using fresh_evaluation_recorded [OF assms(1,2,4,5)] by blast
  note gates = combine_passed [OF one(2)]
  have stored: "\<exists>e context a. e \<in> set (t_rows (nd_evaluations db')) \<and> ev_id e = er_evaluation_id r \<and>
      ec_min_outline_adherence_score (ve_scoring env) \<le> ev_outline_adherence_score e \<and>
      critique env context = Inr a \<and> ct_pass_recommendation (ca_output a) \<and>
      ev_outline_adherence_score e = ds_score (ct_outline_adherence (ca_output a))"
    using gates one(3,9-12) assms(3) by metis
  show ?thesis
    using gates combine_action [OF one(2)] one(3-8) assms(3) stored
      check_counts [OF local_checks_Inr [OF one(1)]] by (simp add: scored_chapter_def)
qed

section \<open>Stopped evaluations\<close>

lemma chapter_saved_by_number:
  assumes "narrative_chapter_by_number db p n = Some c" and "table_ok ch_id (nd_chapters db)"
    and "ch_id c' = ch_id c" and "ch_project_id c' = ch_project_id c" and "ch_chapter_number c' = ch_chapter_number c"
  shows "narrative_chapter_by_number (save_narrative_chapter db c') p n = Some c'"
proof -
  have eq: "find P (map (\<lambda>x. if ch_id x = ch_id c' then c' else x) xs) = Some c'"
    if "find P xs = Some c" "distinct (map ch_id xs)" "P c' = P c" for P xs
    using that by (induction xs) (auto simp: assms(3) split: if_splits dest: find_SomeD)
  show ?thesis
    using assms(1,2)
    unfolding narrative_chapter_by_number_def save_narrative_chapter_def repo_save_def table_ok_def
    by (simp, intro eq) (use assms(4,5) in auto)
qed

lemma evaluating_is_refused:
  assumes "existing_result db q = Inr None" and "nd_project db (eq_project_id q) \<noteq> None"
    and "narrative_chapter_by_number db (eq_project_id q) (eq_chapter_number q) = Some c"
    and "ch_status c = ChapterStatus_EVALUATING"
  shows "evaluate env db q = (db, Inl InvalidStateError)"
  using assms by (auto simp: evaluate_def load_evaluation_def require_def evaluatable_statuses_def)

text \<open>
  C38. When the critic is stopped by anything but its own errors (a refused budget, an open circuit, a control
  request), the exception escapes with the chapter committed as EVALUATING. Until something else writes
  the status of the chapter, every evaluation of it, whatever its key and the services, the same
  request among them, is refused with \<open>InvalidStateError\<close> and changes nothing; only a key under which
  an evaluation is stored is answered, with that evaluation.
\<close>

theorem stopped_critic_blocks_evaluation:
  assumes "existing_result db q = Inr None" and "load_evaluation (ve_rules env) db q = Inr l"
    and "mark_evaluating db l = Inr (db1, ())" and "local_checks env l = Inr (m, k)"
    and "critique env (critic_context_of env l m k) = Inl e" and "\<not> critic_error e"
    and "table_ok ch_id (nd_chapters db)"
  shows "evaluate env db q = (ve_between env db1, Inl e) \<and>
    (\<exists>c. narrative_chapter_by_number db1 (eq_project_id q) (eq_chapter_number q) = Some c \<and>
       ch_status c = ChapterStatus_EVALUATING) \<and>
    (\<forall>env2. evaluate env2 db1 q = (db1, Inl InvalidStateError)) \<and>
    (\<forall>env2 db2 q2 c. eq_project_id q2 = eq_project_id q \<and> eq_chapter_number q2 = eq_chapter_number q \<and>
       nd_project db2 (eq_project_id q) \<noteq> None \<and>
       narrative_chapter_by_number db2 (eq_project_id q) (eq_chapter_number q) = Some c \<and>
       ch_status c = ChapterStatus_EVALUATING \<and> existing_result db2 q2 = Inr None \<longrightarrow>
       evaluate env2 db2 q2 = (db2, Inl InvalidStateError))"
proof -
  have first: "evaluate env db q = (ve_between env db1, Inl e)"
    using assms(1-6) by (simp add: evaluate_def evaluate_marked_def Let_def)
  from assms(2) obtain p c where p: "nd_project db (eq_project_id q) = Some p"
    and c: "narrative_chapter_by_number db (eq_project_id q) (eq_chapter_number q) = Some c"
    and lo: "lo_chapter_id l = ch_id c" by (rule load_evaluation_Inr)
  have row: "nd_chapter db (ch_id c) = Some c" using chapter_by_number_row [OF assms(7) c] by simp
  from assms(3) obtain c1 where "nd_chapter db (lo_chapter_id l) = Some c1"
    and db1: "db1 = save_narrative_chapter db (marked_chapter c1)" by (rule mark_evaluating_effect)
  then have c1: "c1 = c" using row lo by simp
  have marked: "narrative_chapter_by_number db1 (eq_project_id q) (eq_chapter_number q) = Some (marked_chapter c)"
    unfolding db1 c1 by (intro chapter_saved_by_number [OF c assms(7)]) (simp_all add: marked_chapter_def)
  have status: "ch_status (marked_chapter c) = ChapterStatus_EVALUATING" by (simp add: marked_chapter_def)
  have "nd_project db1 (eq_project_id q) \<noteq> None" using p db1 by (simp add: nd_project_def save_narrative_chapter_def)
  moreover have "existing_result db1 q = Inr None"
    using assms(1) db1 by (auto simp: existing_result_def evaluation_by_key_def save_narrative_chapter_def
        Option.bind_eq_None_conv split: option.splits)
  ultimately have "evaluate env2 db1 q = (db1, Inl InvalidStateError)" for env2
    using evaluating_is_refused marked status by blast
  then show ?thesis using first marked status evaluating_is_refused by metis
qed

section \<open>Accepted versions\<close>

text \<open>
  C39. Evaluating the accepted version of a chapter takes the accepted status from it: the chapter goes on naming
  it as accepted, the version is EVALUATED, and the database is no longer canonical.
\<close>

theorem evaluation_breaks_canon:
  assumes "evaluate env db q = (db', Inr r)" and "existing_result db q = Inr None" and "ve_between env = (\<lambda>d. d)"
    and "table_ok ch_id (nd_chapters db)" and "table_ok cv_id (nd_versions db)"
    and "nd_chapter db (er_chapter_id r) = Some c" and "ch_accepted_version_id c = Some (er_chapter_version_id r)"
  shows "\<exists>c' v. nd_chapter db' (er_chapter_id r) = Some c' \<and> ch_accepted_version_id c' = Some (cv_id v) \<and>
    get_version db' (er_chapter_version_id r) = Some v \<and> cv_status v = ChapterVersionStatus_EVALUATED \<and>
    \<not> canonical db'"
proof -
  from assms(1,2) obtain l db1 m k a cm where l: "load_evaluation (ve_rules env) db q = Inr l"
    and mark: "mark_evaluating db l = Inr (db1, ())"
    and persist: "persist_complete env (ve_between env db1) l m k a cm = Inr (db', r)"
    by (rule evaluate_fresh)
  from mark obtain c1 where c1: "nd_chapter db (lo_chapter_id l) = Some c1"
    and db1: "db1 = save_narrative_chapter db (marked_chapter c1)" by (rule mark_evaluating_effect)
  from l obtain c0 v where c0: "lo_chapter_id l = ch_id c0"
    and v0: "resolve_version db c0 (eq_chapter_version_id q) = Inr v" and lv: "lo_chapter_version_id l = cv_id v"
    by (rule load_evaluation_Inr)
  have v: "v \<in> set (t_rows (nd_versions db))" "cv_chapter_id v = ch_id c0"
    using v0 by (auto simp: resolve_version_def Let_def get_version_def bind_eq_Some_conv
        dest!: find_SomeD dest: versions.get_Some split: option.splits)
  then have got: "get_version db (cv_id v) = Some v" using versions.get_row [OF assms(5)] by (simp add: get_version_def)
  note persist' = persist [unfolded assms(3)]
  from persist' obtain c2 db2 e where c2: "nd_chapter db1 (lo_chapter_id l) = Some c2"
    and add: "add_attempt db1 (complete_row env db1 l m k a cm) l m (ct_issues (ca_output a)) (kr_conflicts k)
        (ve_now env) = (db2, e)"
    and db': "db' = save_narrative_chapter db2 (scored_chapter c2 cm)"
    and res: "to_result db' e (lo_chapter_number l) = Inr r"
    by (rule persist_complete_effect)
  note effect = add_attempt_effect [OF add]
  have ids: "er_chapter_id r = lo_chapter_id l" "er_chapter_version_id r = cv_id v"
    using to_result_columns [OF res] effect lv by (simp_all add: stored_def complete_row_def Let_def)
  have "c1 = c" using c1 assms(6) ids by simp
  then have c2': "c2 = marked_chapter c" using c1 c2 db1 nd_chapter_row [OF c1]
    by (auto simp: nd_chapter_save marked_chapter_def split: if_splits)
  have got1: "get_version db1 (cv_id v) = Some v"
    using got db1 by (simp add: get_version_def save_narrative_chapter_def)
  have db2: "get_version db2 (cv_id v) = Some (v\<lparr>cv_status := ChapterVersionStatus_EVALUATED\<rparr>)"
    using add got1 lv by (auto simp: add_attempt_def Let_def repo_add_def get_version_save get_version_def
        save_version_def versions.get_save split: option.splits)
  have version: "get_version db' (er_chapter_version_id r) = Some (v\<lparr>cv_status := ChapterVersionStatus_EVALUATED\<rparr>)"
    using db2 db' ids by (simp add: get_version_def save_narrative_chapter_def)
  have same: "nd_chapter db2 = nd_chapter db1" using effect by (simp add: nd_chapter_def fun_eq_iff)
  have saved: "nd_chapter db' (er_chapter_id r) = Some (scored_chapter c2 cm)"
    using db' c2 same nd_chapter_row [OF c2] ids by (simp add: nd_chapter_save scored_chapter_def)
  have accepted: "ch_accepted_version_id (scored_chapter c2 cm) = Some (cv_id v)"
    using assms(7) ids c2' by (simp add: scored_chapter_def marked_chapter_def)
  have "\<not> canonical db'"
  proof
    assume canon: "canonical db'"
    have "scored_chapter c2 cm \<in> set (t_rows (nd_chapters db'))" (is "?c \<in> _")
      and "v\<lparr>cv_status := ChapterVersionStatus_EVALUATED\<rparr> \<in> set (t_rows (nd_versions db'))" (is "?v \<in> _")
      using nd_chapter_row [OF saved] get_version_row [OF version] by auto
    moreover have "cv_chapter_id ?v = ch_id ?c"
      using v(2) c0 nd_chapter_row [OF saved] ids by simp
    ultimately have "is_accepted ?v \<longleftrightarrow> ch_accepted_version_id ?c = Some (cv_id ?v)"
      using canon [unfolded canonical_def] by blast
    then show False using accepted by (simp add: is_accepted_def)
  qed
  with saved accepted version show ?thesis by auto
qed

end
