(* ===== verification/Evaluation_Workflow.thy ===== *)
theory Evaluation_Workflow
  imports Chapter_Outcomes Evaluation_Properties
begin

text \<open>
  The chapter workflow with the evaluation service as its evaluator (\<open>_evaluate_node\<close> of
  \<open>src/src/storyforge/services/workflow.py\<close>), and what a node does when it is executed again.
\<close>

section \<open>The client\<close>

definition evaluation_client ::
  "evaluation_env \<Rightarrow> ndb \<Rightarrow> int \<Rightarrow> int \<Rightarrow> int \<Rightarrow> int \<Rightarrow> string \<Rightarrow> ndb \<times> (int \<times> string list) result" where
  "evaluation_client env db project_id number version_id run_id key =
     (case make_evaluation_request
             \<lparr>eq_project_id = project_id, eq_chapter_number = number, eq_chapter_version_id = Some version_id,
              eq_workflow_run_id = Some run_id, eq_idempotency_key = Some key\<rparr> of
        Inl e \<Rightarrow> (db, Inl e)
      | Inr q \<Rightarrow>
          and_run (evaluate env db q) (\<lambda>db1 r. (db1, Inr (er_evaluation_id r, er_blocking_reasons r))))"

definition evaluating :: "workflow_env \<Rightarrow> evaluation_env \<Rightarrow> workflow_env" where
  "evaluating wenv env = wenv\<lparr>wn_evaluate := evaluation_client env\<rparr>"

section \<open>Transactions of the node, repeated\<close>

lemma event_for_put:
  "event_for (put_event db run_id node event_type attempt status d v e c now) run_id node event_type attempt \<noteq> None"
proof (cases "event_for db run_id node event_type attempt")
  case None
  then show ?thesis by (auto simp: put_event_def event_for_def repo_add_def find_append Let_def)
next
  case (Some x)
  then show ?thesis by (simp add: put_event_def)
qed

lemma put_event_again:
  "put_event (put_event db run_id node event_type attempt status d v e c now) run_id node event_type attempt
     status' d' v' e' c' now' = put_event db run_id node event_type attempt status d v e c now"
  using event_for_put [of db run_id node event_type attempt status d v e c now]
  by (subst put_event_def) (auto split: option.split)

lemma record_aux_again:
  assumes "record_aux_event db run_id node event_type attempt status v e now = Inr (db', u)"
  shows "record_aux_event db' run_id node event_type attempt status' v' e' now' = Inr (db', ())"
  using assms by (auto simp: record_aux_event_def put_event_again ncommit_def split: if_splits)

lemma save_workflow_same:
  assumes "table_ok wr_id (nd_workflow_runs db)" and "nd_workflow db i = Some r"
  shows "save_workflow db r = db"
proof -
  have "r \<in> set (t_rows (nd_workflow_runs db))" using nd_workflow_row [OF assms(2)] by simp
  then have "map (\<lambda>x. if wr_id x = wr_id r then r else x) (t_rows (nd_workflow_runs db)) = t_rows (nd_workflow_runs db)"
    using assms(1) by (intro map_idI) (auto simp: table_ok_def dest: inj_onD simp: distinct_map)
  then show ?thesis by (simp add: save_workflow_def repo_save_def)
qed

lemma nd_workflow_saved:
  "nd_workflow (save_workflow db w) i =
     (if i = wr_id w then map_option (\<lambda>_. w) (nd_workflow db i) else nd_workflow db i)"
  using workflow_runs.get_save [of "nd_workflow_runs db" w i] by (simp add: nd_workflow_def save_workflow_def)

lemma or_id_again [simp]: "or_id (or_id x i) i = or_id x i"
  by (cases x) (simp_all add: or_id_def)

lemma evaluated_again:
  assumes "evaluated_txn db0 run_id version_id reasons = Inr (db1, u)"
    and "nd_workflow db = nd_workflow db1" and "table_ok wr_id (nd_workflow_runs db)" and "ndb_ok db"
  shows "evaluated_txn db run_id version_id reasons = Inr (db, ())"
proof (cases "nd_workflow db run_id")
  case None
  then show ?thesis using assms(4) by (simp add: evaluated_txn_def ncommit_def)
next
  case (Some r)
  with assms(1,2) have "r\<lparr>wr_current_version_id := Some version_id, wr_blocking_reasons := reasons,
      wr_best_version_id := or_id (wr_best_version_id r) version_id\<rparr> = r"
    by (auto simp: evaluated_txn_def nd_workflow_saved dest: nd_workflow_row
        split: option.splits if_splits)
  then show ?thesis
    using Some save_workflow_same [OF assms(3) Some] assms(4) by (simp add: evaluated_txn_def ncommit_def)
qed

definition evaluation_tables :: "ndb \<Rightarrow> evaluation table \<times> evaluation_issue table \<times> conflict table \<times> chapter_row table" where
  "evaluation_tables db = (nd_evaluations db, nd_issues db, nd_conflicts db, nd_chapters db)"

lemma existing_result_cong:
  assumes "evaluation_tables a = evaluation_tables b"
  shows "existing_result a q = existing_result b q"
proof -
  have "evaluation_by_key a = evaluation_by_key b" "nd_chapter a = nd_chapter b" "to_result a = to_result b"
    using assms
    by (simp_all add: evaluation_tables_def fun_eq_iff evaluation_by_key_def nd_chapter_def to_result_def
        issues_of_evaluation_def conflicts_of_evaluation_def)
  then show ?thesis by (simp add: existing_result_def cong: option.case_cong)
qed

lemma evaluation_payload_cong:
  "evaluation_tables a = evaluation_tables b \<Longrightarrow> evaluation_payload_of a i = evaluation_payload_of b i"
  by (simp add: evaluation_tables_def evaluation_payload_of_def payload_of_def get_evaluation_def
      conflicts_of_severity_def conflicts_of_evaluation_def)

lemma evaluated_tables:
  "evaluated_txn db run_id version_id reasons = Inr (db', u) \<Longrightarrow> evaluation_tables db' = evaluation_tables db"
  by (auto simp: evaluated_txn_def evaluation_tables_def save_workflow_def split: option.splits)

lemma record_aux_tables:
  "record_aux_event db run_id node event_type attempt status v e now = Inr (db', u) \<Longrightarrow>
   evaluation_tables db' = evaluation_tables db \<and> ndb_ok db'"
  by (auto simp: record_aux_event_def evaluation_tables_def put_event_def split: option.splits)

section \<open>Executing the node again\<close>

lemma evaluation_client_Inr:
  "evaluation_client env db project_id number version_id run_id key = (db', Inr x) \<longleftrightarrow>
     (\<exists>q r. make_evaluation_request \<lparr>eq_project_id = project_id, eq_chapter_number = number,
          eq_chapter_version_id = Some version_id, eq_workflow_run_id = Some run_id,
          eq_idempotency_key = Some key\<rparr> = Inr q \<and>
        evaluate env db q = (db', Inr r) \<and> x = (er_evaluation_id r, er_blocking_reasons r))"
  by (auto simp: evaluation_client_def and_run_Inr split: sum.split)

lemma evaluate_version_Inr:
  assumes "evaluate_version wenv node s db = (db', Inr s')"
  shows "\<exists>v run_id i reasons payload db1 db2. required_id (ws_current s) = Inr v \<and> run_of s = Inr run_id \<and>
    wn_evaluate wenv db (ws_project_id s) (ws_chapter_number s) v run_id (evaluation_key run_id node (ws_attempt s)) =
      (db1, Inr (i, reasons)) \<and>
    evaluation_payload_of db1 i = Inr payload \<and> evaluated_txn db1 run_id v reasons = Inr (db2, ()) \<and>
    record_aux_event db2 run_id node WorkflowEventType_EVALUATION_CREATED (ws_attempt s) ''completed'' (Some v) (Some i)
      (wn_now wenv) = Inr (db', ()) \<and>
    s' = s\<lparr>ws_evaluation_id := Some i, ws_evaluation := Some payload, ws_blocking := reasons\<rparr>"
  using assms by (auto simp: evaluate_version_def with_value_Inr and_run_Inr ran_Inr_iff)

lemma evaluating_simps [simp]:
  "wn_evaluate (evaluating wenv env) = evaluation_client env" "wn_now (evaluating wenv env) = wn_now wenv"
  by (simp_all add: evaluating_def)

text \<open>
  C36. A worker that dies after the evaluation node and runs it again, with any other settings, model or clock,
  leaves the database as it is and continues from the same state: the evaluation, the audit event and the run
  are those of the first execution.
\<close>

theorem evaluation_node_replays:
  assumes "evaluate_version (evaluating wenv env) node s db = (db', Inr s')"
    and "table_ok ch_id (nd_chapters db)" and "table_ok wr_id (nd_workflow_runs db')" and "sound_neighbours env"
  shows "evaluate_version (evaluating wenv2 env2) node s db' = (db', Inr s')"
proof -
  obtain version_id run_id q db1 r payload db2 where ids: "required_id (ws_current s) = Inr version_id"
      "run_of s = Inr run_id"
    and q: "make_evaluation_request \<lparr>eq_project_id = ws_project_id s, eq_chapter_number = ws_chapter_number s,
        eq_chapter_version_id = Some version_id, eq_workflow_run_id = Some run_id,
        eq_idempotency_key = Some (evaluation_key run_id node (ws_attempt s))\<rparr> = Inr q"
    and evaluated: "evaluate env db q = (db1, Inr r)"
    and payload: "evaluation_payload_of db1 (er_evaluation_id r) = Inr payload"
    and txn: "evaluated_txn db1 run_id version_id (er_blocking_reasons r) = Inr (db2, ())"
    and event: "record_aux_event db2 run_id node WorkflowEventType_EVALUATION_CREATED (ws_attempt s) ''completed''
        (Some version_id) (Some (er_evaluation_id r)) (wn_now wenv) = Inr (db', ())"
    and s': "s' = s\<lparr>ws_evaluation_id := Some (er_evaluation_id r), ws_evaluation := Some payload,
        ws_blocking := er_blocking_reasons r\<rparr>"
    using evaluate_version_Inr [OF assms(1)] unfolding evaluating_simps evaluation_client_Inr by blast
  obtain key where key: "eq_idempotency_key q = Some key"
    using q by (auto simp: make_evaluation_request_def Let_def split: if_splits)
  have tables: "evaluation_tables db' = evaluation_tables db1" and ok: "ndb_ok db'"
    using evaluated_tables [OF txn] record_aux_tables [OF event] by simp_all
  have "existing_result db' q = Inr (Some r)"
    using result_is_stored [OF evaluated key assms(2,4) key] existing_result_cong [OF tables] by simp
  then have again: "evaluate env2 db' q = (db', Inr r)" by (simp add: evaluate_def)
  have payload': "evaluation_payload_of db' (er_evaluation_id r) = Inr payload"
    using evaluation_payload_cong [OF tables] payload by simp
  have txn': "evaluated_txn db' run_id version_id (er_blocking_reasons r) = Inr (db', ())"
    by (rule evaluated_again [OF txn record_aux_workflow [OF event] assms(3) ok])
  show ?thesis
    using ids q again payload' txn' record_aux_again [OF event] s'
    by (simp add: evaluate_version_def evaluation_client_def with_value_def and_run_def ran_def)
qed

end
