(* ===== verification/Evaluation_Demo.thy ===== *)
theory Evaluation_Demo
  imports Evaluation_Workflow Chapter_Demo
begin

text \<open>
  A check of facts with a contradiction and a dead character who speaks, the scores of two critiques, and
  evaluations of the story of \<open>Version_Demo\<close>: the properties of the evaluation applied to them.
\<close>

section \<open>Consistency\<close>

definition plain_rules :: rule_config where
  "plain_rules = default_rules fe_object (\<lambda>_. ''value'')"

definition demo_fact :: "string \<Rightarrow> string \<Rightarrow> string \<Rightarrow> fact_evidence" where
  "demo_fact subject predicate object =
     \<lparr>fe_fact_id = None, fe_subject = subject, fe_predicate = predicate, fe_object = object,
      fe_fact_type = ''event'', fe_confidence = 9 / 10, fe_source_quote = ''q'', fe_chapter_number = 2,
      fe_valid_from_chapter = 1, fe_valid_to_chapter = None\<rparr>"

definition demo_request :: consistency_request where
  "demo_request =
     \<lparr>kq_project_id = 1, kq_chapter_id = 2, kq_chapter_number = 2, kq_content = ''T'',
      kq_new_facts = [demo_fact ''M'' ''speak'' ''x'', demo_fact ''I'' ''age'' ''30''],
      kq_character_updates = [], kq_historical_facts = [demo_fact ''m'' ''state'' ''dead'',
        demo_fact ''I'' ''age'' ''29''],
      kq_characters = [], kq_story_rules = [],
      kq_outline = \<lparr>ko_key_events = [], ko_forbidden_reveals = [], ko_payoff_foreshadowing = []\<rparr>,
      kq_active_foreshadowing = [], kq_foreshadowing_updates = [], kq_previous_summaries = []\<rparr>"

definition is_critical :: "consistency_conflict \<Rightarrow> bool" where
  "is_critical c \<longleftrightarrow> kc_severity c = ConflictSeverity_CRITICAL"

definition check_facts :: "consistency_result result \<Rightarrow> bool" where
  "check_facts x = (case x of Inl _ \<Rightarrow> False | Inr r \<Rightarrow>
     list_ex is_critical (kr_conflicts r) \<and> map kc_subject (kr_conflicts r) = [''I'', ''M''] \<and>
     length (filter (\<lambda>c. kc_rule_code c = ''fact.direct_contradiction'') (kr_conflicts r)) = 1 \<and>
     kr_critical_count r = 1 \<and> kr_high_count r = 1 \<and> kr_score r = 4)"

lemma demo_check: "check_facts (check plain_rules demo_request)" by code_simp

theorem contradictions_are_reported_applied:
  "\<exists>r. check plain_rules demo_request = Inr r \<and> card (contradicted_subjects demo_request) = 1"
proof -
  obtain r where r: "check plain_rules demo_request = Inr r"
    "length (filter (\<lambda>c. kc_rule_code c = ''fact.direct_contradiction'') (kr_conflicts r)) = 1"
    using demo_check by (auto simp: check_facts_def split: sum.splits)
  then show ?thesis using contradictions_are_reported [OF r(1)] by simp
qed

theorem critical_conflicts_are_grounded_applied:
  "\<exists>r c. check plain_rules demo_request = Inr r \<and> c \<in> set (kr_conflicts r) \<and> is_critical c \<and>
     \<not> resurrection_allowed demo_request \<and> kg_critical_confidence_min plain_rules \<le> kc_confidence c"
proof -
  obtain r c where r: "check plain_rules demo_request = Inr r" "c \<in> set (kr_conflicts r)" "is_critical c"
    using demo_check by (auto simp: check_facts_def list_ex_iff split: sum.splits)
  then show ?thesis using critical_conflicts_are_grounded [OF r(1,2)] by (auto simp: is_critical_def)
qed

theorem consistency_score_counts_all_applied:
  "\<exists>r. check plain_rules demo_request = Inr r \<and> kr_score r = 4 \<and>
     kr_score r = bounded_score (10 - (4 * of_int (kr_critical_count r) + 2 * of_int (kr_high_count r) +
       of_int (kr_medium_count r) + of_int (kr_low_count r) / 2))"
proof -
  obtain r where r: "check plain_rules demo_request = Inr r" "kr_score r = 4"
    using demo_check by (auto simp: check_facts_def split: sum.splits)
  have "kg_severity_penalties plain_rules = default_penalties" by (simp add: plain_rules_def default_rules_def)
  then show ?thesis using consistency_score_counts_all [OF r(1)] r by auto
qed

section \<open>Scores\<close>

definition demo_dimension :: "rat \<Rightarrow> dimension_score" where
  "demo_dimension x = \<lparr>ds_score = x, ds_rationale = ''r''\<rparr>"

definition demo_critique :: "rat \<Rightarrow> chapter_critique" where
  "demo_critique x =
     \<lparr>ct_prose = demo_dimension x, ct_plot = demo_dimension x, ct_character = demo_dimension x,
      ct_pacing = demo_dimension x, ct_dialogue = demo_dimension x, ct_emotional_impact = demo_dimension x,
      ct_consistency = demo_dimension x, ct_outline_adherence = demo_dimension x, ct_overall_score = x,
      ct_strengths = [''s''], ct_issues = [], ct_revision_priorities = [], ct_pass_recommendation = True\<rparr>"

lemma default_scoring_made: "make_scoring_config default_scoring = Inr default_scoring" by code_simp

lemma demo_critique_made: "make_critique (demo_critique 9) = Inr (demo_critique 9)" by code_simp

definition score_facts :: "combined_evaluation result \<Rightarrow> bool \<Rightarrow> bool" where
  "score_facts x p = (case x of Inl _ \<Rightarrow> False | Inr cm \<Rightarrow> cm_passed cm = p)"

lemmas score_defs = combine_def score_facts_def raw_scores_def weighted_scores_def default_scoring_def
  default_weights_def final_score_def blocking_reasons_def bounded_score_def round_to_def round_half_even_def
  demo_critique_def demo_dimension_def

lemma demo_scores:
  "score_facts (combine default_scoring 8 (demo_critique 9) 10 0 0 False) True"
  "score_facts (combine default_scoring 8 (demo_critique 9) 4 1 2 False) False"
  by (simp_all add: score_defs Let_def)

theorem combination_is_typed_applied:
  "\<exists>cm. combine default_scoring 8 (demo_critique 9) 4 1 2 False = Inr cm \<and> combined_ok cm"
  by (rule combination_is_typed [OF default_scoring_made demo_critique_made])

theorem conflicts_never_help_applied:
  "\<exists>a b. combine default_scoring 8 (demo_critique 9) 10 0 0 False = Inr a \<and>
     combine default_scoring 8 (demo_critique 9) 4 1 2 False = Inr b \<and> cm_final_score b \<le> cm_final_score a \<and>
     cm_passed a \<and> \<not> cm_passed b"
proof -
  obtain a where a: "combine default_scoring 8 (demo_critique 9) 10 0 0 False = Inr a" "cm_passed a"
    using demo_scores(1) by (auto simp: score_facts_def split: sum.splits)
  obtain b where b: "combine default_scoring 8 (demo_critique 9) 4 1 2 False = Inr b" "\<not> cm_passed b"
    using demo_scores(2) by (auto simp: score_facts_def split: sum.splits)
  show ?thesis using conflicts_never_help [OF default_scoring_made a(1) b(1)] a b by simp
qed

section \<open>Evaluations\<close>

definition demo_env :: evaluation_env where
  "demo_env =
     \<lparr>ve_mechanical = default_mechanical, ve_pstdev = \<lambda>_. 0, ve_rules = plain_rules, ve_scoring = default_scoring,
      ve_invoke = \<lambda>_. Inr \<lparr>ca_output = demo_critique 9, ca_provider = ''mock'', ca_model = ''m'',
        ca_prompt_versions = [(''critic'', ''1'')]\<rparr>,
      ve_prompt_versions = [(''critic'', ''1'')], ve_provider = ''mock'', ve_number = \<lambda>_. ''n'',
      ve_between = \<lambda>db. db, ve_now = 40\<rparr>"

definition evaluation_asked :: evaluation_request where
  "evaluation_asked = \<lparr>eq_project_id = 1, eq_chapter_number = 1, eq_chapter_version_id = Some 2,
     eq_workflow_run_id = Some 1, eq_idempotency_key = Some ''once''\<rparr>"

text \<open>The story with its revision accepted.\<close>

definition accepted_story :: ndb where
  "accepted_story = story
     \<lparr>nd_facts := \<lparr>t_rows = [], t_next = 1\<rparr>, nd_chapters := \<lparr>t_rows = [story_chapter\<lparr>ch_accepted_version_id := Some 2\<rparr>], t_next = 2\<rparr>,
      nd_versions := \<lparr>t_rows = [story_version 1 ChapterVersionStatus_DRAFT None,
        story_version 2 ChapterVersionStatus_ACCEPTED (Some 1)], t_next = 3\<rparr>\<rparr>"

text \<open>The transactions once their reads are known; the writes are evaluated as one state.\<close>

lemma evaluate_ok:
  assumes "existing_result db q = Inr None" and "load_evaluation (ve_rules env) db q = Inr l"
    and "mark_evaluating db l = Inr (db1, ())" and "local_checks env l = Inr (m, k)"
    and "critique env (critic_context_of env l m k) = Inr a"
    and "combine (ve_scoring env) (ml_score m) (ca_output a) (kr_score k) (kr_critical_count k) (kr_high_count k)
      (trim (lo_content l) = []) = Inr cm"
    and "persist_complete env (ve_between env db1) l m k a cm = Inr (db', r)"
  shows "evaluate env db q = (db', Inr r)"
  using assms by (simp add: evaluate_def evaluate_marked_def settled_def and_run_def ran_def Let_def)

lemma persist_complete_ok:
  assumes "evaluating_chapter db l = Inr c"
    and "add_attempt db (complete_row env db l m k a cm) l m (ct_issues (ca_output a)) (kr_conflicts k) (ve_now env) =
      (db1, e)"
    and "to_result (save_narrative_chapter db1 (scored_chapter c cm)) e (lo_chapter_number l) = Inr r"
    and "ndb_ok (save_narrative_chapter db1 (scored_chapter c cm))"
  shows "persist_complete env db l m k a cm = Inr (save_narrative_chapter db1 (scored_chapter c cm), r)"
  using assms by (simp add: persist_complete_def scored_chapter_def ncommit_def Let_def)

definition demo_loaded :: loaded_context where
  "demo_loaded = (case load_evaluation plain_rules accepted_story evaluation_asked of Inr l \<Rightarrow> l)"

definition demo_consistency :: consistency_result where
  "demo_consistency = (case check plain_rules (lo_consistency_request demo_loaded) of Inr k \<Rightarrow> k)"

definition demo_text :: string where
  "demo_text = ''It rained.''"

definition demo_metrics :: mechanical_metrics where
  "demo_metrics = metrics_of default_mechanical (\<lambda>_. 0) demo_text"

definition short_issue :: mechanical_issue where
  "short_issue = \<lparr>mq_code = ''length_too_short'', mq_category = ''length'', mq_severity = ConflictSeverity_HIGH,
     mq_message = ''Chapter is substantially shorter than its target.'', mq_evidence = None, mq_location = None,
     mq_score_penalty = 2\<rparr>"

definition demo_mechanical :: mechanical_result where
  "demo_mechanical = \<lparr>ml_score = 8, ml_metrics = demo_metrics, ml_issues = [short_issue],
     ml_evaluator_version = ''m4-mechanical-v1''\<rparr>"

definition loaded_facts :: "loaded_context result \<Rightarrow> bool" where
  "loaded_facts x = (case x of Inl _ \<Rightarrow> False | Inr l \<Rightarrow>
     lo_chapter_id l = 1 \<and> lo_chapter_number l = 1 \<and> lo_chapter_version_id l = 2 \<and> lo_content l = demo_text \<and>
     lo_project_id l = 1 \<and> lo_workflow_run_id l = Some 1 \<and> lo_idempotency_key l = Some ''once'' \<and>
     lo_target_words l = 1000 \<and> lo_language l = ''en'' \<and> lo_previous_status l = ChapterStatus_REVISING)"

lemma loaded_demo: "loaded_facts (load_evaluation plain_rules accepted_story evaluation_asked)" by code_simp

definition clean_facts :: "consistency_result result \<Rightarrow> bool" where
  "clean_facts x = (case x of Inl _ \<Rightarrow> False | Inr k \<Rightarrow>
     kr_conflicts k = [] \<and> kr_critical_count k = 0 \<and> kr_high_count k = 0 \<and> kr_score k = 10 \<and>
     kr_checker_version k = ''m4-consistency-v1'')"

lemma clean_demo: "clean_facts (check plain_rules (lo_consistency_request demo_loaded))" by code_simp

lemma metrics_demo: "metrics_ok demo_metrics" by code_simp

lemma detected_demo: "detect default_mechanical 1000 demo_text demo_metrics = Inr [short_issue]" by code_simp

lemma issues_demo: "score_after_penalties [short_issue] = 8" by code_simp

definition demo_marked :: ndb where
  "demo_marked = save_narrative_chapter accepted_story (story_chapter\<lparr>ch_accepted_version_id := Some 2,
     ch_status := ChapterStatus_EVALUATING\<rparr>)"

definition start_facts :: "ndb \<Rightarrow> bool" where
  "start_facts db \<longleftrightarrow> ndb_ok demo_marked \<and> next_evaluation_version demo_marked 1 = 3 \<and>
     t_next (nd_evaluations demo_marked) = 3 \<and>
     get_version demo_marked 2 = Some (story_version 2 ChapterVersionStatus_ACCEPTED (Some 1)) \<and> existing_result db evaluation_asked = Inr None \<and>
     nd_chapter db 1 = Some (story_chapter\<lparr>ch_accepted_version_id := Some 2\<rparr>) \<and>
     table_ok ch_id (nd_chapters db) \<and> table_ok cv_id (nd_versions db) \<and> table_ok ev_id (nd_evaluations db)"

lemma start_demo: "start_facts accepted_story" by code_simp

definition demo_weighted :: "(string \<times> rat) list" where
  "demo_weighted = map (\<lambda>(name, w). (name, round_to 4 ((if name = ''mechanical'' then 8
     else if name = ''consistency'' then 10 else 9) * w))) default_weights"

definition demo_combined :: combined_evaluation where
  "demo_combined = \<lparr>cm_final_score = 179 / 20, cm_passed = True,
     cm_raw_scores = raw_scores 8 (demo_critique 9) 10, cm_weighted_scores = demo_weighted,
     cm_blocking_reasons = [], cm_recommended_action = Recommend_Accept\<rparr>"

lemma combined_demo: "combine default_scoring 8 (demo_critique 9) 10 0 0 False = Inr demo_combined"
  by (simp add: score_defs demo_combined_def demo_weighted_def action_of_def Let_def)

definition demo_answer :: critic_result where
  "demo_answer = \<lparr>ca_output = demo_critique 9, ca_provider = ''mock'', ca_model = ''m'',
     ca_prompt_versions = [(''critic'', ''1'')]\<rparr>"

type_synonym row_details =
  "(string \<times> rat) list \<times> (string \<times> rat) list \<times> (string \<times> json) list \<times> (string \<times> json) list \<times>
   (string \<times> json) list list"

definition row_with :: "row_details \<Rightarrow> evaluation" where
  "row_with x = (case x of (raw, weighted, metrics, dims, issues) \<Rightarrow>
     \<lparr>ev_id = 0, ev_project_id = 1, ev_chapter_id = 1, ev_chapter_version_id = 2, ev_workflow_run_id = Some 1,
      ev_idempotency_key = Some ''once'', ev_evaluator = ''milestone-4'', ev_evaluation_version = 3,
      ev_status = EvaluationStatus_COMPLETED, ev_overall_score = 179 / 20, ev_mechanical_score = 8,
      ev_critic_score = 9, ev_consistency_score = 10, ev_prose_score = 9, ev_character_score = 9,
      ev_plot_score = 9, ev_pacing_score = 9, ev_dialogue_score = 9, ev_emotional_impact_score = 9,
      ev_outline_adherence_score = 9, ev_raw_scores = raw,
      ev_weighted_scores = weighted, ev_mechanical_metrics = metrics, ev_critic_dimensions = dims,
      ev_evaluator_versions = [(''mechanical'', ''m4-mechanical-v1''), (''consistency'', ''m4-consistency-v1''),
        (''scoring'', ''m4-scoring-v1'')],
      ev_prompt_versions = [(''critic'', ''1'')], ev_blocking_reasons = [],
      ev_recommended_action = Recommend_Accept, ev_passed = True, ev_provider = ''mock'', ev_model = ''m'',
      ev_config_version = ''m4-scoring-v1'', ev_issues = issues,
      ev_suggestions = [], ev_created_at = 40\<rparr>)"

definition demo_row :: evaluation where
  "demo_row = row_with (raw_scores 8 (demo_critique 9) 10, demo_weighted, metrics_json (\<lambda>_. ''n'') demo_metrics,
     critic_dimensions (\<lambda>_. ''n'') (demo_critique 9), legacy_issues demo_mechanical (Some (demo_critique 9)))"

definition state_with :: "row_details \<Rightarrow> ndb" where
  "state_with x = demo_marked
     \<lparr>nd_evaluations := fst (repo_add (\<lambda>i r. r\<lparr>ev_id := i\<rparr>) (nd_evaluations demo_marked) (row_with x)),
      nd_issues := add_all (\<lambda>i r. r\<lparr>ei_id := i\<rparr>) (nd_issues demo_marked) [mechanical_row 3 short_issue],
      nd_versions := \<lparr>t_rows = [story_version 1 ChapterVersionStatus_DRAFT None,
        story_version 2 ChapterVersionStatus_EVALUATED (Some 1)], t_next = 3\<rparr>,
      nd_chapters := \<lparr>t_rows = [story_chapter\<lparr>ch_accepted_version_id := Some 2, ch_score := Some (179 / 20),
        ch_status := ChapterStatus_EVALUATED_PASSED\<rparr>], t_next = 2\<rparr>\<rparr>"

definition demo_evaluated :: ndb where
  "demo_evaluated = state_with (raw_scores 8 (demo_critique 9) 10, demo_weighted,
     metrics_json (\<lambda>_. ''n'') demo_metrics, critic_dimensions (\<lambda>_. ''n'') (demo_critique 9),
     legacy_issues demo_mechanical (Some (demo_critique 9)))"

lemma state_with_ok: "ndb_ok (state_with (raw, weighted, metrics, dims, issues))" by code_simp

lemma evaluated_ok: "ndb_ok demo_evaluated" unfolding demo_evaluated_def by (rule state_with_ok)

definition result_facts :: "chapter_evaluation_result result \<Rightarrow> bool" where
  "result_facts x = (case x of Inl _ \<Rightarrow> False | Inr r \<Rightarrow>
     er_passed r \<and> er_chapter_id r = 1 \<and> er_chapter_version_id r = 2)"

lemma result_demo: "result_facts (to_result demo_evaluated (demo_row\<lparr>ev_id := 3\<rparr>) 1)"
  by (simp add: result_facts_def to_result_def demo_row_def row_with_def evaluation_result_ok_def ten_score_def
      in_range_def Let_def)

text \<open>The steps of the evaluation.\<close>

lemma loaded_eq: "load_evaluation plain_rules accepted_story evaluation_asked = Inr demo_loaded"
  using loaded_demo by (simp add: loaded_facts_def demo_loaded_def split: sum.splits)

lemma loaded_fields:
  "lo_chapter_id demo_loaded = 1" "lo_chapter_number demo_loaded = 1" "lo_chapter_version_id demo_loaded = 2"
  "lo_content demo_loaded = demo_text" "lo_project_id demo_loaded = 1" "lo_workflow_run_id demo_loaded = Some 1"
  "lo_idempotency_key demo_loaded = Some ''once''" "lo_target_words demo_loaded = 1000"
  "lo_language demo_loaded = ''en''" "lo_previous_status demo_loaded = ChapterStatus_REVISING"
  using loaded_demo loaded_eq by (simp_all add: loaded_facts_def)

lemma checked_eq: "check plain_rules (lo_consistency_request demo_loaded) = Inr demo_consistency"
  using clean_demo by (simp add: clean_facts_def demo_consistency_def split: sum.splits)

lemma checked_fields:
  "kr_conflicts demo_consistency = []" "kr_critical_count demo_consistency = 0" "kr_high_count demo_consistency = 0"
  "kr_score demo_consistency = 10" "kr_checker_version demo_consistency = ''m4-consistency-v1''"
  using clean_demo checked_eq by (simp_all add: clean_facts_def)

lemma trimmed_demo: "trim demo_text = demo_text" "strip demo_text = demo_text" "demo_text \<noteq> []"
  "strip ''m4-mechanical-v1'' = ''m4-mechanical-v1''" "text_upto 50 ''m4-mechanical-v1''" "strip ''en'' = ''en''"
  by code_simp+

lemma mechanical_eq:
  "make_mechanical_request \<lparr>ka_chapter_id = 1, ka_chapter_number = 1, ka_content = demo_text,
     ka_target_words = 1000, ka_language = ''en''\<rparr> = Inr \<lparr>ka_chapter_id = 1, ka_chapter_number = 1,
     ka_content = demo_text, ka_target_words = 1000, ka_language = ''en''\<rparr>"
  "evaluate_mechanically default_mechanical (\<lambda>_. 0) \<lparr>ka_chapter_id = 1, ka_chapter_number = 1,
     ka_content = demo_text, ka_target_words = 1000, ka_language = ''en''\<rparr> = Inr demo_mechanical"
  using metrics_demo detected_demo issues_demo trimmed_demo
  by (simp_all add: make_mechanical_request_def text_upto_def evaluate_mechanically_def demo_mechanical_def Let_def
      demo_metrics_def [symmetric] default_mechanical_def [THEN arg_cong [of _ _ kd_version]] ten_score_def in_range_def)

lemma local_checks_demo: "local_checks demo_env demo_loaded = Inr (demo_mechanical, demo_consistency)"
  using mechanical_eq checked_eq by (simp add: local_checks_def loaded_fields demo_env_def)

lemma marked_demo: "mark_evaluating accepted_story demo_loaded = Inr (demo_marked, ())"
  using start_demo
  by (simp add: mark_evaluating_def loaded_fields start_facts_def demo_marked_def story_chapter_def ncommit_def)

lemma critique_demo: "critique demo_env (critic_context_of demo_env demo_loaded m k) = Inr demo_answer"
  using trimmed_demo
  by (simp add: critique_def critic_context_of_def loaded_fields demo_env_def demo_answer_def demo_critique_def)

lemma row_demo:
  "complete_row demo_env demo_marked demo_loaded demo_mechanical demo_consistency demo_answer demo_combined = demo_row"
  using start_demo
  by (simp add: complete_row_def demo_row_def row_with_def loaded_fields checked_fields demo_answer_def demo_env_def
      start_facts_def evaluator_versions_def demo_mechanical_def demo_combined_def default_scoring_def Let_def)
     (simp add: demo_critique_def demo_dimension_def)


lemma added_demo:
  "add_attempt demo_marked demo_row demo_loaded demo_mechanical (ct_issues (ca_output demo_answer))
     (kr_conflicts demo_consistency) (ve_now demo_env) = (d, e) \<Longrightarrow>
   e = demo_row\<lparr>ev_id := 3\<rparr> \<and> save_narrative_chapter d (scored_chapter (story_chapter
     \<lparr>ch_accepted_version_id := Some 2, ch_status := ChapterStatus_EVALUATING\<rparr>) demo_combined) = demo_evaluated"
  using start_demo
  by (auto simp: add_attempt_def start_facts_def loaded_fields checked_fields demo_answer_def demo_critique_def
      demo_mechanical_def repo_add_def Let_def add_all_def get_version_def demo_evaluated_def state_with_def demo_row_def save_version_def
      repo_save_def save_narrative_chapter_def scored_chapter_def demo_combined_def demo_marked_def
      accepted_story_def story_version_def story_chapter_def story_def demo_env_def)

lemma demo_evaluation:
  "\<exists>r. evaluate demo_env accepted_story evaluation_asked = (demo_evaluated, Inr r) \<and> er_passed r \<and>
     er_chapter_id r = 1 \<and> er_chapter_version_id r = 2"
proof -
  obtain r where r: "to_result demo_evaluated (demo_row\<lparr>ev_id := 3\<rparr>) 1 = Inr r" "er_passed r"
    "er_chapter_id r = 1" "er_chapter_version_id r = 2"
    using result_demo by (auto simp: result_facts_def split: sum.splits)
  obtain d e where d: "add_attempt demo_marked demo_row demo_loaded demo_mechanical (ct_issues (ca_output demo_answer))
     (kr_conflicts demo_consistency) (ve_now demo_env) = (d, e)" by fastforce
  let ?c = "story_chapter\<lparr>ch_accepted_version_id := Some 2, ch_status := ChapterStatus_EVALUATING\<rparr>"
  have "nd_chapter demo_marked 1 = Some ?c"
    using start_demo by (simp add: start_facts_def demo_marked_def nd_chapter_save story_chapter_def)
  then have c: "evaluating_chapter demo_marked demo_loaded = Inr ?c"
    by (simp add: evaluating_chapter_def loaded_fields)
  have "persist_complete demo_env demo_marked demo_loaded demo_mechanical demo_consistency demo_answer demo_combined =
      Inr (demo_evaluated, r)"
    using persist_complete_ok [OF c, of demo_env demo_mechanical demo_consistency demo_answer demo_combined d e r]
      added_demo [OF d] d r(1) evaluated_ok by (simp add: row_demo loaded_fields)
  then have "evaluate demo_env accepted_story evaluation_asked = (demo_evaluated, Inr r)"
    using start_demo marked_demo local_checks_demo critique_demo loaded_eq combined_demo trimmed_demo(1,3)
    by (intro evaluate_ok [of accepted_story evaluation_asked demo_env demo_loaded demo_marked demo_mechanical
          demo_consistency demo_answer demo_combined])
      (simp_all add: start_facts_def demo_env_def checked_fields loaded_fields demo_answer_def demo_mechanical_def)
  then show ?thesis using r by blast
qed

lemma demo_neighbours: "sound_neighbours demo_env" "ve_between demo_env = (\<lambda>db. db)"
  by (simp_all add: sound_neighbours_def demo_env_def)

section \<open>Applied\<close>

definition failing_env :: evaluation_env where
  "failing_env = demo_env\<lparr>ve_invoke := \<lambda>_. Inl (OtherException ''BudgetBlockedError'')\<rparr>"

theorem evaluation_is_idempotent_applied:
  "\<exists>r. evaluate demo_env accepted_story evaluation_asked = (demo_evaluated, Inr r) \<and>
     evaluate failing_env demo_evaluated (evaluation_asked\<lparr>eq_chapter_number := 9\<rparr>) = (demo_evaluated, Inr r)"
proof -
  obtain r where r: "evaluate demo_env accepted_story evaluation_asked = (demo_evaluated, Inr r)"
    using demo_evaluation by blast
  then show ?thesis
    using evaluation_is_idempotent [OF r _ _ demo_neighbours(1), of "''once''"] start_demo
    by (simp add: start_facts_def evaluation_asked_def)
qed

theorem passing_evaluation_is_clean_applied:
  "\<exists>r. evaluate demo_env accepted_story evaluation_asked = (demo_evaluated, Inr r) \<and> er_passed r \<and>
     conflicts_rated demo_evaluated (er_evaluation_id r) ConflictSeverity_CRITICAL = 0 \<and>
     ec_pass_threshold (ve_scoring demo_env) \<le> er_final_score r"
proof -
  obtain r where r: "evaluate demo_env accepted_story evaluation_asked = (demo_evaluated, Inr r)" "er_passed r"
    using demo_evaluation by blast
  then show ?thesis
    using passing_evaluation_is_clean [OF r(1) _ r(2) _ demo_neighbours(1)] start_demo by (simp add: start_facts_def)
qed

theorem evaluation_breaks_canon_applied:
  "\<exists>r. evaluate demo_env accepted_story evaluation_asked = (demo_evaluated, Inr r) \<and> \<not> canonical demo_evaluated"
proof -
  obtain r where r: "evaluate demo_env accepted_story evaluation_asked = (demo_evaluated, Inr r)"
    "er_chapter_id r = 1" "er_chapter_version_id r = 2" using demo_evaluation by blast
  then show ?thesis
    using evaluation_breaks_canon [OF r(1) _ demo_neighbours(2)] start_demo
    by (auto simp: start_facts_def story_chapter_def)
qed

theorem stopped_critic_blocks_evaluation_applied:
  "evaluate failing_env accepted_story evaluation_asked = (demo_marked, Inl (OtherException ''BudgetBlockedError'')) \<and>
   evaluate demo_env demo_marked evaluation_asked = (demo_marked, Inl InvalidStateError)"
proof -
  have same: "ve_rules failing_env = plain_rules" "ve_between failing_env demo_marked = demo_marked"
    "local_checks failing_env demo_loaded = Inr (demo_mechanical, demo_consistency)"
    using local_checks_demo by (simp_all add: failing_env_def demo_env_def local_checks_def)
  have stopped: "critique failing_env (critic_context_of failing_env demo_loaded demo_mechanical demo_consistency) =
      Inl (OtherException ''BudgetBlockedError'')"
    using trimmed_demo
    by (simp add: critique_def critic_context_of_def loaded_fields failing_env_def demo_env_def require_def)
  have other: "\<not> critic_error (OtherException ''BudgetBlockedError'')"
    by (simp add: critic_error_def evaluation_error_def)
  have fresh: "existing_result accepted_story evaluation_asked = Inr None"
    and loaded: "load_evaluation (ve_rules failing_env) accepted_story evaluation_asked = Inr demo_loaded"
    and chapters: "table_ok ch_id (nd_chapters accepted_story)"
    using start_demo loaded_eq same(1) by (simp_all add: start_facts_def)
  show ?thesis
    using stopped_critic_blocks_evaluation [OF fresh loaded marked_demo same(3) stopped other chapters] same(2) by simp
qed

text \<open>The node \<open>evaluate_draft\<close> of a run whose evaluation is stored, executed twice.\<close>

definition stored_evaluation :: evaluation where
  "stored_evaluation = (story_evaluation 2 8 True [])\<lparr>ev_idempotency_key := Some ''workflow:1:evaluate_draft:0''\<rparr>"

definition stored_story :: ndb where
  "stored_story = story\<lparr>nd_evaluations :=
     \<lparr>t_rows = [story_evaluation 1 5 False [''short''], stored_evaluation], t_next = 3\<rparr>\<rparr>"

definition node_state :: wstate where
  "node_state = (initial_state story_request ''t'')\<lparr>ws_run_id := Some 1, ws_current := Some 2\<rparr>"

definition asked_by_node :: evaluation_request where
  "asked_by_node = \<lparr>eq_project_id = 1, eq_chapter_number = 1, eq_chapter_version_id = Some 2,
     eq_workflow_run_id = Some 1, eq_idempotency_key = Some ''workflow:1:evaluate_draft:0''\<rparr>"

definition node_facts :: "ndb \<Rightarrow> bool" where
  "node_facts db \<longleftrightarrow> evaluation_key 1 ''evaluate_draft'' 0 = ''workflow:1:evaluate_draft:0'' \<and>
     make_evaluation_request asked_by_node = Inr asked_by_node \<and> table_ok ch_id (nd_chapters db) \<and>
     (case existing_result db asked_by_node of
        Inr (Some r) \<Rightarrow> er_evaluation_id r = 2 \<and> er_blocking_reasons r = [] | _ \<Rightarrow> False) \<and>
     (case evaluation_payload_of db 2 of Inl _ \<Rightarrow> False | Inr p \<Rightarrow> True)"

lemma node_start: "node_facts stored_story" by code_simp

definition node_written :: "(ndb \<times> unit) result" where
  "node_written = and_then (evaluated_txn stored_story 1 2 []) (\<lambda>(db, _).
     record_aux_event db 1 ''evaluate_draft'' WorkflowEventType_EVALUATION_CREATED 0 ''completed'' (Some 2) (Some 2) 30)"

definition written_facts :: "(ndb \<times> unit) result \<Rightarrow> bool" where
  "written_facts x = (case x of Inl _ \<Rightarrow> False | Inr (db, _) \<Rightarrow>
     table_ok wr_id (nd_workflow_runs db) \<and> length (t_rows (nd_events db)) = 1)"

lemma node_end: "written_facts node_written" by code_simp

theorem evaluation_node_replays_applied:
  "\<exists>db s. evaluate_version (evaluating quiet_env demo_env) ''evaluate_draft'' node_state stored_story = (db, Inr s) \<and>
     evaluate_version (evaluating quiet_env failing_env) ''evaluate_draft'' node_state db = (db, Inr s)"
proof -
  obtain r payload where r: "existing_result stored_story asked_by_node = Inr (Some r)" "er_evaluation_id r = 2"
      "er_blocking_reasons r = []" "evaluation_payload_of stored_story 2 = Inr payload"
    using node_start by (auto simp: node_facts_def split: sum.splits option.splits)
  obtain db1 db where db: "evaluated_txn stored_story 1 2 [] = Inr (db1, ())"
    "record_aux_event db1 1 ''evaluate_draft'' WorkflowEventType_EVALUATION_CREATED 0 ''completed'' (Some 2) (Some 2) 30 =
       Inr (db, ())" and runs: "table_ok wr_id (nd_workflow_runs db)"
    using node_end by (auto simp: written_facts_def node_written_def split: sum.splits)
  have fields: "ws_project_id node_state = 1" "ws_chapter_number node_state = 1" "ws_run_id node_state = Some 1"
    "ws_current node_state = Some 2" "ws_attempt node_state = 0"
    by (simp_all add: node_state_def initial_state_def story_request_def)
  have "evaluation_client demo_env stored_story 1 1 2 1 ''workflow:1:evaluate_draft:0'' = (stored_story, Inr (2, []))"
    using node_start r
    by (simp add: evaluation_client_def node_facts_def asked_by_node_def evaluate_def and_run_def)
  then obtain s where s: "evaluate_version (evaluating quiet_env demo_env) ''evaluate_draft'' node_state stored_story =
      (db, Inr s)"
    using node_start db r(4) fields
    by (simp add: evaluate_version_def with_value_def run_of_def required_id_def node_facts_def and_run_def ran_def
        quiet_env_def)
  show ?thesis
    using evaluation_node_replays [OF s _ runs demo_neighbours(1)] s node_start by (auto simp: node_facts_def)
qed

end
