(* ===== verification/Circuit_Breaker.thy ===== *)
theory Circuit_Breaker
  imports Complex_Main Prelude
begin

text \<open>
  \<open>CircuitBreaker\<close> (\<open>src/src/storyforge/reliability/circuit_breaker.py\<close>) and \<open>RetryPolicy\<close>
  (\<open>reliability/retry.py\<close>). The lock makes every method atomic, so the behaviour of a breaker
  that several threads share is a list of calls. Clock readings (floating-point seconds) are
  rational arguments; \<open>before_call\<close> reads the clock twice.
\<close>

section \<open>The breaker\<close>



record circuit_config =
  cc_threshold :: int
  cc_cooldown :: rat

record circuit =
  cb_failures :: "string \<rightharpoonup> int"
  cb_opened_at :: "string \<rightharpoonup> rat"
  cb_half_open_probe :: "string set"

definition new_circuit :: circuit where
  "new_circuit = \<lparr>cb_failures = Map.empty, cb_opened_at = Map.empty, cb_half_open_probe = {}\<rparr>"

definition failures_of :: "circuit \<Rightarrow> string \<Rightarrow> int" where
  "failures_of c k = (case cb_failures c k of None \<Rightarrow> 0 | Some n \<Rightarrow> n)"

definition before_call :: "circuit_config \<Rightarrow> circuit \<Rightarrow> string \<Rightarrow> rat \<Rightarrow> rat \<Rightarrow> circuit result" where
  "before_call cfg c k now1 now2 =
     (if failures_of c k < cc_threshold cfg then Inr c
      else
        let opened = (case cb_opened_at c k of None \<Rightarrow> now1 | Some t \<Rightarrow> t)
        in if now2 - opened < cc_cooldown cfg then Inl CircuitOpenError
           else if k \<in> cb_half_open_probe c then Inl CircuitOpenError
           else Inr (c\<lparr>cb_half_open_probe := insert k (cb_half_open_probe c)\<rparr>))"

definition circuit_success :: "circuit \<Rightarrow> string \<Rightarrow> circuit" where
  "circuit_success c k =
     c\<lparr>cb_failures := (cb_failures c)(k := None), cb_opened_at := (cb_opened_at c)(k := None),
       cb_half_open_probe := cb_half_open_probe c - {k}\<rparr>"

definition circuit_failure :: "circuit_config \<Rightarrow> circuit \<Rightarrow> string \<Rightarrow> rat \<Rightarrow> circuit" where
  "circuit_failure cfg c k now =
     (let failures = failures_of c k + 1;
          c1 = c\<lparr>cb_failures := (cb_failures c)(k \<mapsto> failures),
                 cb_half_open_probe := cb_half_open_probe c - {k}\<rparr>
      in if cc_threshold cfg \<le> failures
         then c1\<lparr>cb_opened_at := (cb_opened_at c1)(k \<mapsto> now)\<rparr>
         else c1)"


section \<open>Histories of calls\<close>

datatype breaker_call = Before string rat rat | Success string | Failure string rat

fun about :: "breaker_call \<Rightarrow> string" where
  "about (Before k _ _) = k"
| "about (Success k) = k"
| "about (Failure k _) = k"

text \<open>The state after a list of calls, and the admitted calls with their (second) clock reading.\<close>

fun after_call :: "circuit_config \<Rightarrow> circuit \<Rightarrow> breaker_call \<Rightarrow> circuit" where
  "after_call cfg c (Before k t1 t2) = (case before_call cfg c k t1 t2 of Inl e \<Rightarrow> c | Inr c' \<Rightarrow> c')"
| "after_call cfg c (Success k) = circuit_success c k"
| "after_call cfg c (Failure k t) = circuit_failure cfg c k t"

fun admits_call :: "circuit_config \<Rightarrow> circuit \<Rightarrow> breaker_call \<Rightarrow> (string \<times> rat) list" where
  "admits_call cfg c (Before k t1 t2) = (if isl (before_call cfg c k t1 t2) then [] else [(k, t2)])"
| "admits_call cfg c _ = []"

definition after_calls :: "circuit_config \<Rightarrow> circuit \<Rightarrow> breaker_call list \<Rightarrow> circuit" where
  "after_calls cfg c calls = foldl (after_call cfg) c calls"

fun admitted :: "circuit_config \<Rightarrow> circuit \<Rightarrow> breaker_call list \<Rightarrow> (string \<times> rat) list" where
  "admitted cfg c [] = []"
| "admitted cfg c (call # calls) = admits_call cfg c call @ admitted cfg (after_call cfg c call) calls"

lemma after_calls_simps [simp]:
  "after_calls cfg c [] = c"
  "after_calls cfg c (call # calls) = after_calls cfg (after_call cfg c call) calls"
  by (simp_all add: after_calls_def)

lemma failures_of_simps [simp]:
  "failures_of (circuit_success c k) x = (if x = k then 0 else failures_of c x)"
  "failures_of (circuit_failure cfg c k t) x = (if x = k then failures_of c k + 1 else failures_of c x)"
  by (auto simp: failures_of_def circuit_success_def circuit_failure_def Let_def)

lemma failures_of_new [simp]: "failures_of new_circuit k = 0"
  by (simp add: failures_of_def new_circuit_def)

lemma before_call_frame:
  "before_call cfg c k t1 t2 = Inr c' \<Longrightarrow>
   cb_failures c' = cb_failures c \<and> cb_opened_at c' = cb_opened_at c \<and>
   (\<forall>x. x \<noteq> k \<longrightarrow> x \<in> cb_half_open_probe c' \<longleftrightarrow> x \<in> cb_half_open_probe c)"
  by (auto simp: before_call_def Let_def split: if_splits)

lemma before_call_failures: "before_call cfg c k t1 t2 = Inr c' \<Longrightarrow> failures_of c' x = failures_of c x"
  by (drule before_call_frame) (simp add: failures_of_def)

text \<open>What the breaker holds for one key; the calls about other keys leave it alone.\<close>

definition view :: "circuit \<Rightarrow> string \<Rightarrow> int \<times> rat option \<times> bool" where
  "view c k = (failures_of c k, cb_opened_at c k, k \<in> cb_half_open_probe c)"

lemma view_frame: "about call \<noteq> k \<Longrightarrow> view (after_call cfg c call) k = view c k"
  by (cases call)
    (auto simp: view_def failures_of_def circuit_success_def circuit_failure_def Let_def
      dest: before_call_frame split: sum.split)

lemma admits_frame: "about call \<noteq> k \<Longrightarrow> filter (\<lambda>a. fst a = k) (admits_call cfg c call) = []"
  by (cases call) auto

lemma before_call_view:
  "before_call cfg c k t1 t2 =
     (case view c k of (failures, opened, probing) \<Rightarrow>
        if failures < cc_threshold cfg then Inr c
        else if t2 - (case opened of None \<Rightarrow> t1 | Some t \<Rightarrow> t) < cc_cooldown cfg \<or> probing
        then Inl CircuitOpenError
        else Inr (c\<lparr>cb_half_open_probe := insert k (cb_half_open_probe c)\<rparr>))"
  by (simp add: before_call_def view_def Let_def)


lemma after_call_failures:
  "failures_of (after_call cfg c call) k =
     (case call of
        Before x _ _ \<Rightarrow> failures_of c k
      | Success x \<Rightarrow> if x = k then 0 else failures_of c k
      | Failure x _ \<Rightarrow> if x = k then failures_of c k + 1 else failures_of c k)"
  by (cases call) (auto dest: before_call_failures split: sum.split)


text \<open>
  A tripped key: without a recorded outcome the failures and the opening time stay, and the
  probe mark never goes away.
\<close>

definition unrecorded :: "string \<Rightarrow> breaker_call list \<Rightarrow> bool" where
  "unrecorded k calls \<longleftrightarrow> (\<forall>call \<in> set calls. call \<noteq> Success k \<and> (\<forall>t. call \<noteq> Failure k t))"

lemma tripped_admits:
  assumes "cc_threshold cfg \<le> failures_of c k" and "cb_opened_at c k = Some opened"
    and "unrecorded k calls"
  shows "length (filter (\<lambda>a. fst a = k) (admitted cfg c calls)) \<le> (if k \<in> cb_half_open_probe c then 0 else 1) \<and>
    (\<forall>(x, t) \<in> set (admitted cfg c calls). x = k \<longrightarrow> opened + cc_cooldown cfg \<le> t)"
  using assms
proof (induction calls arbitrary: c)
  case (Cons call calls)
  have un: "unrecorded k calls" using Cons.prems(3) by (simp add: unrecorded_def)
  show ?case
  proof (cases "about call = k")
    case False
    have v: "view (after_call cfg c call) k = view c k" using False by (rule view_frame)
    have none: "\<forall>(x, t) \<in> set (admits_call cfg c call). x \<noteq> k"
      using admits_frame [OF False, of cfg c] by (force simp: filter_empty_conv)
    show ?thesis
      using Cons.IH [of "after_call cfg c call"] Cons.prems un v none admits_frame [OF False]
      by (auto simp: view_def)
  next
    case True
    then obtain t1 t2 where call: "call = Before k t1 t2"
      using Cons.prems(3) by (cases call) (auto simp: unrecorded_def)
    let ?c' = "after_call cfg c call"
    have frame: "failures_of ?c' k = failures_of c k" "cb_opened_at ?c' k = Some opened"
      using Cons.prems(2) call after_call_failures [of cfg c call k]
      by (auto dest: before_call_frame split: sum.split)
    have ih: "length (filter (\<lambda>a. fst a = k) (admitted cfg ?c' calls)) \<le>
        (if k \<in> cb_half_open_probe ?c' then 0 else 1)"
      "\<forall>(x, t) \<in> set (admitted cfg ?c' calls). x = k \<longrightarrow> opened + cc_cooldown cfg \<le> t"
      using Cons.IH [of ?c'] frame Cons.prems(1) un by auto
    show ?thesis
      using ih call Cons.prems(1,2)
      by (auto simp: before_call_def Let_def split: if_splits)
  qed
qed simp

section \<open>Retry policy\<close>

record retry_policy =
  rp_max_retries :: int
  rp_base_delay_seconds :: rat
  rp_max_delay_seconds :: rat
  rp_jitter_ratio :: rat

definition default_retry_policy :: retry_policy where
  "default_retry_policy =
     \<lparr>rp_max_retries = 2, rp_base_delay_seconds = 1 / 2, rp_max_delay_seconds = 10,
      rp_jitter_ratio = 1 / 10\<rparr>"

definition retryable :: "exn \<Rightarrow> bool" where
  "retryable error \<longleftrightarrow>
     (if error \<in> {LLMAuthenticationError, LLMRefusalError, BudgetBlockedError, PrivacyPolicyError,
                  ProviderRateLimitError, CircuitOpenError}
      then False
      else error \<in> {LLMTimeoutError, LLMRateLimitError, LLMServiceError})"

text \<open>\<open>random\<close> is what \<open>random_source()\<close> returned, a number in [0, 1).\<close>

definition retry_delay :: "retry_policy \<Rightarrow> nat \<Rightarrow> rat option \<Rightarrow> rat \<Rightarrow> rat" where
  "retry_delay p retry_index retry_after random =
     (case retry_after of
        Some after \<Rightarrow> min (rp_max_delay_seconds p) (max 0 after)
      | None \<Rightarrow>
          let base = min (rp_max_delay_seconds p) (rp_base_delay_seconds p * 2 ^ retry_index);
              jitter = base * rp_jitter_ratio p * random
          in min (rp_max_delay_seconds p) (base + jitter))"

lemma retry_delay_range:
  assumes "0 \<le> rp_base_delay_seconds p" "0 \<le> rp_max_delay_seconds p" "0 \<le> rp_jitter_ratio p" "0 \<le> random"
  shows "0 \<le> retry_delay p i after random \<and> retry_delay p i after random \<le> rp_max_delay_seconds p"
  using assms by (auto simp: retry_delay_def Let_def split: option.split)


section \<open>Properties\<close>

text \<open>
  C16. An open circuit admits one probe: however many threads call it, from the failure that
  opens the circuit at \<open>opened\<close> until an outcome of that key is recorded, at most one call of the
  key is admitted, and none before the cooldown has passed.
\<close>

theorem open_circuit_admits_one_probe:
  assumes "cc_threshold cfg \<le> failures_of c k + 1" and "unrecorded k calls"
  shows "length (filter (\<lambda>a. fst a = k) (admitted cfg (circuit_failure cfg c k opened) calls)) \<le> 1 \<and>
    (\<forall>(x, t) \<in> set (admitted cfg (circuit_failure cfg c k opened) calls).
       x = k \<longrightarrow> opened + cc_cooldown cfg \<le> t)"
proof -
  let ?c = "circuit_failure cfg c k opened"
  have "cc_threshold cfg \<le> failures_of ?c k" "cb_opened_at ?c k = Some opened" "k \<notin> cb_half_open_probe ?c"
    using assms(1) by (simp_all add: circuit_failure_def Let_def failures_of_def)
  from tripped_admits [OF this(1,2) assms(2)] this(3) show ?thesis by simp
qed

definition demo_circuit_config :: circuit_config where
  "demo_circuit_config = \<lparr>cc_threshold = 2, cc_cooldown = 30\<rparr>"

theorem open_circuit_admits_one_probe_applied:
  "map fst (admitted demo_circuit_config
      (circuit_failure demo_circuit_config (circuit_failure demo_circuit_config new_circuit ''p'' 1) ''p'' 5)
      [Before ''p'' 6 6, Before ''p'' 35 35, Before ''q'' 36 36, Before ''p'' 90 90]) = [''p'', ''q''] \<and>
   length (filter (\<lambda>a. fst a = ''p'') (admitted demo_circuit_config
      (circuit_failure demo_circuit_config (circuit_failure demo_circuit_config new_circuit ''p'' 1) ''p'' 5)
      [Before ''p'' 6 6, Before ''p'' 35 35, Before ''q'' 36 36, Before ''p'' 90 90])) \<le> 1"
proof
  let ?c = "circuit_failure demo_circuit_config new_circuit ''p'' 1"
  have "cc_threshold demo_circuit_config \<le> failures_of ?c ''p'' + 1"
    "unrecorded ''p'' [Before ''p'' 6 6, Before ''p'' 35 35, Before ''q'' 36 36, Before ''p'' 90 90]"
    by (simp_all add: demo_circuit_config_def failures_of_new unrecorded_def)
  from open_circuit_admits_one_probe [OF this, of 5]
  show "length (filter (\<lambda>a. fst a = ''p'') (admitted demo_circuit_config
      (circuit_failure demo_circuit_config ?c ''p'' 5)
      [Before ''p'' 6 6, Before ''p'' 35 35, Before ''q'' 36 36, Before ''p'' 90 90])) \<le> 1" by blast
qed (simp add: demo_circuit_config_def new_circuit_def before_call_def circuit_failure_def failures_of_def Let_def)





end
