(* ===== verification/Rate_Limiter.thy ===== *)
theory Rate_Limiter
  imports Complex_Main Prelude
begin

text \<open>
  \<open>ProviderRateLimiter\<close> (\<open>src/src/storyforge/reliability/rate_limit.py\<close>): admission by requests
  per minute, tokens per minute and concurrency, without waiting. \<open>acquire\<close> is a context manager:
  \<open>limiter_enter\<close> is its code up to \<open>yield\<close>, \<open>limiter_exit\<close> the \<open>finally\<close> block. A
  \<open>defaultdict\<close> is a total function.
\<close>

section \<open>The limiter\<close>

record limiter_config =
  rl_rpm :: int
  rl_tpm :: int
  rl_max_concurrency :: int

record limiter =
  rl_requests :: "string \<Rightarrow> rat list"
  rl_tokens :: "string \<Rightarrow> (rat \<times> int) list"
  rl_active :: "string \<Rightarrow> int"

definition new_limiter :: limiter where
  "new_limiter = \<lparr>rl_requests = (\<lambda>_. []), rl_tokens = (\<lambda>_. []), rl_active = (\<lambda>_. 0)\<rparr>"

text \<open>The entries older than a minute are dropped even when the call is then refused.\<close>

definition limiter_enter ::
  "limiter_config \<Rightarrow> limiter \<Rightarrow> string \<Rightarrow> int \<Rightarrow> rat \<Rightarrow> limiter \<times> unit result" where
  "limiter_enter cfg l key estimated_tokens now =
     (let cutoff = now - 60;
          requests = dropWhile (\<lambda>t. t \<le> cutoff) (rl_requests l key);
          tokens = dropWhile (\<lambda>(t, _). t \<le> cutoff) (rl_tokens l key);
          pruned = l\<lparr>rl_requests := (rl_requests l)(key := requests),
                     rl_tokens := (rl_tokens l)(key := tokens)\<rparr>
      in if rl_rpm cfg \<le> int (length requests) then (pruned, Inl ProviderRateLimitError)
         else if rl_tpm cfg < sum_list (map snd tokens) + estimated_tokens
         then (pruned, Inl ProviderRateLimitError)
         else if rl_max_concurrency cfg \<le> rl_active l key
         then (pruned, Inl ProviderRateLimitError)
         else
           (l\<lparr>rl_requests := (rl_requests l)(key := requests @ [now]),
              rl_tokens := (rl_tokens l)(key := tokens @ [(now, estimated_tokens)]),
              rl_active := (rl_active l)(key := rl_active l key + 1)\<rparr>, Inr ()))"

definition limiter_exit :: "limiter \<Rightarrow> string \<Rightarrow> limiter" where
  "limiter_exit l key = l\<lparr>rl_active := (rl_active l)(key := max 0 (rl_active l key - 1))\<rparr>"

section \<open>Histories\<close>

text \<open>
  Any interleaving of calls by threads that share a limiter. A thread reads the clock before it takes
  the lock, so the readings arrive in the order of the lock, not of the clock: \<open>clock\<close> is the latest
  reading so far, and a reading may be behind it by at most \<open>lag\<close>. A block is left only after it was
  entered. The history records the admitted calls (key, reading, tokens) and how many are running.
\<close>

type_synonym admission = "string \<times> rat \<times> int"

inductive limiter_history ::
  "limiter_config \<Rightarrow> rat \<Rightarrow> rat \<Rightarrow> limiter \<Rightarrow> admission list \<Rightarrow> (string \<Rightarrow> nat) \<Rightarrow> bool" for cfg lag where
  started: "limiter_history cfg lag clock new_limiter [] (\<lambda>_. 0)"
| entered: "\<lbrakk>limiter_history cfg lag clock l hist running; clock - lag \<le> now;
     limiter_enter cfg l key tokens now = (l', Inr u)\<rbrakk> \<Longrightarrow>
     limiter_history cfg lag (max clock now) l' (hist @ [(key, now, tokens)])
       (running(key := running key + 1))"
| refused: "\<lbrakk>limiter_history cfg lag clock l hist running; clock - lag \<le> now;
     limiter_enter cfg l key tokens now = (l', Inl e)\<rbrakk> \<Longrightarrow>
     limiter_history cfg lag (max clock now) l' hist running"
| left: "\<lbrakk>limiter_history cfg lag clock l hist running; 0 < running key\<rbrakk> \<Longrightarrow>
     limiter_history cfg lag clock (limiter_exit l key) hist (running(key := running key - 1))"

text \<open>The admissions of a key, as the limiter keeps them: reading and tokens.\<close>

definition log_of :: "string \<Rightarrow> admission list \<Rightarrow> (rat \<times> int) list" where
  "log_of k hist = map snd (filter (\<lambda>a. fst a = k) hist)"

lemma log_of_simps [simp]:
  "log_of k [] = []"
  "log_of k (hist @ [(x, a)]) = (if x = k then log_of k hist @ [a] else log_of k hist)"
  by (simp_all add: log_of_def)

text \<open>The admissions with a reading in the window \<open>(w, w + len]\<close>.\<close>

definition window :: "rat \<Rightarrow> rat \<Rightarrow> (rat \<times> int) list \<Rightarrow> (rat \<times> int) list" where
  "window len w hist = filter (\<lambda>(t, _). w < t \<and> t \<le> w + len) hist"

lemma window_append: "window len w (xs @ ys) = window len w xs @ window len w ys"
  by (simp add: window_def)

lemma window_one: "window len w [(t, n)] = (if w < t \<and> t \<le> w + len then [(t, n)] else [])"
  by (simp add: window_def)

text \<open>
  What the limiter keeps of a key: a suffix of its log; what it has dropped is at least a minute older
  than the latest reading; and every window shorter than a minute by the lag is within the limits.
\<close>

definition key_inv ::
  "limiter_config \<Rightarrow> rat \<Rightarrow> rat \<Rightarrow> rat list \<Rightarrow> (rat \<times> int) list \<Rightarrow> (rat \<times> int) list \<Rightarrow> bool" where
  "key_inv cfg lag clock requests tokens hist \<longleftrightarrow>
     requests = map fst tokens \<and>
     (\<exists>old. hist = old @ tokens \<and> (\<forall>(t, _) \<in> set old. t \<le> clock - 60)) \<and>
     (\<forall>w. int (length (window (60 - lag) w hist)) \<le> max 0 (rl_rpm cfg) \<and>
          ((\<forall>(_, n) \<in> set hist. 0 \<le> n) \<longrightarrow>
             sum_list (map snd (window (60 - lag) w hist)) \<le> max 0 (rl_tpm cfg)))"

lemma dropWhile_map: "dropWhile P (map f xs) = map f (dropWhile (P \<circ> f) xs)"
  by (induction xs) auto

lemma dropWhile_fst:
  "dropWhile (\<lambda>t. t \<le> c) (map fst xs) = map fst (dropWhile (\<lambda>(t, _). t \<le> c) xs)"
  by (simp add: dropWhile_map comp_def case_prod_unfold)

lemma key_inv_later:
  assumes "key_inv cfg lag clock requests tokens hist" and "clock \<le> clock'"
  shows "key_inv cfg lag clock' requests tokens hist"
  using assms unfolding key_inv_def by (fastforce elim: order_trans)

text \<open>Pruning by any reading drops only what is a minute older than it.\<close>

lemma key_inv_prune:
  assumes "key_inv cfg lag clock requests tokens hist"
  shows "key_inv cfg lag (max clock now) (dropWhile (\<lambda>t. t \<le> now - 60) requests)
    (dropWhile (\<lambda>(t, _). t \<le> now - 60) tokens) hist"
proof -
  let ?p = "\<lambda>(t :: rat, _ :: int). t \<le> now - 60"
  obtain old where old: "hist = old @ tokens" "\<forall>(t, _) \<in> set old. t \<le> clock - 60"
    and req: "requests = map fst tokens"
    using assms by (auto simp: key_inv_def)
  have "hist = (old @ takeWhile ?p tokens) @ dropWhile ?p tokens" using old(1) by simp
  moreover have "\<forall>(t, _) \<in> set (old @ takeWhile ?p tokens). t \<le> max clock now - 60"
    using old(2) by (fastforce dest: set_takeWhileD)
  ultimately show ?thesis
    using assms unfolding key_inv_def req dropWhile_fst by blast
qed

lemma sum_filter_le:
  "\<forall>(_, n) \<in> set xs. (0 :: int) \<le> n \<Longrightarrow> sum_list (map snd (filter P xs)) \<le> sum_list (map snd xs)"
  by (induction xs) (auto simp: add_increasing)

text \<open>An admission: what is left after pruning counts every earlier entry of a window with the new one.\<close>

lemma key_inv_enter:
  assumes inv: "key_inv cfg lag clock requests tokens hist" and lag: "0 \<le> lag" "clock - lag \<le> now"
    and rpm: "\<not> rl_rpm cfg \<le> int (length (dropWhile (\<lambda>t. t \<le> now - 60) requests))"
    and tpm: "\<not> rl_tpm cfg < sum_list (map snd (dropWhile (\<lambda>(t, _). t \<le> now - 60) tokens)) + n"
  shows "key_inv cfg lag (max clock now) (dropWhile (\<lambda>t. t \<le> now - 60) requests @ [now])
    (dropWhile (\<lambda>(t, _). t \<le> now - 60) tokens @ [(now, n)]) (hist @ [(now, n)])"
proof -
  let ?req = "dropWhile (\<lambda>t. t \<le> now - 60) requests"
  let ?tok = "dropWhile (\<lambda>(t, _). t \<le> now - 60) tokens"
  let ?win = "window (60 - lag)"
  have pr: "key_inv cfg lag (max clock now) ?req ?tok hist" using inv by (rule key_inv_prune)
  then obtain old where old: "hist = old @ ?tok" "\<forall>(t, _) \<in> set old. t \<le> max clock now - 60"
    and req: "?req = map fst ?tok" by (auto simp: key_inv_def)
  have inv_len: "int (length (?win w hist)) \<le> max 0 (rl_rpm cfg)" for w
    using pr by (simp add: key_inv_def)
  have inv_sum: "sum_list (map snd (?win w hist)) \<le> max 0 (rl_tpm cfg)" if "\<forall>(_, n) \<in> set hist. 0 \<le> n" for w
    using pr that by (simp add: key_inv_def)
  have recent: "?win w hist = ?win w ?tok" if "w < now \<and> now \<le> w + (60 - lag)" for w
  proof -
    have "max clock now - 60 \<le> w" using that lag by (auto simp: max_def)
    then have "?win w old = []" using old(2) by (fastforce simp: window_def filter_empty_conv)
    then show ?thesis using window_append [of "60 - lag" w old ?tok] old(1) by simp
  qed
  have len: "int (length (?win w (hist @ [(now, n)]))) \<le> max 0 (rl_rpm cfg)" for w
  proof (cases "w < now \<and> now \<le> w + (60 - lag)")
    case True
    have "length (?win w ?tok) \<le> length ?req" unfolding req by (simp add: window_def)
    then show ?thesis using True rpm recent [OF True] by (simp add: window_append window_one)
  next
    case False
    then show ?thesis using inv_len [of w] by (auto simp: window_append window_one)
  qed
  have tok: "sum_list (map snd (?win w (hist @ [(now, n)]))) \<le> max 0 (rl_tpm cfg)"
    if pos: "\<forall>(_, n) \<in> set (hist @ [(now, n)]). 0 \<le> n" for w
  proof (cases "w < now \<and> now \<le> w + (60 - lag)")
    case True
    have "\<forall>(_, n) \<in> set ?tok. 0 \<le> n" using pos old(1) by (fastforce dest: set_dropWhileD)
    then have "sum_list (map snd (?win w ?tok)) \<le> sum_list (map snd ?tok)"
      unfolding window_def by (rule sum_filter_le)
    then show ?thesis using True tpm recent [OF True] by (simp add: window_append window_one)
  next
    case False
    then show ?thesis using inv_sum [of w] pos by (auto simp: window_append window_one)
  qed
  have "\<exists>old. hist @ [(now, n)] = old @ (?tok @ [(now, n)]) \<and> (\<forall>(t, _) \<in> set old. t \<le> max clock now - 60)"
    using old by (intro exI [of _ old]) simp
  then show ?thesis unfolding key_inv_def using len tok req by simp
qed

section \<open>Properties\<close>

lemma limiter_enter_other:
  assumes "limiter_enter cfg l key n now = (l', r)" and "k \<noteq> key"
  shows "rl_requests l' k = rl_requests l k" "rl_tokens l' k = rl_tokens l k"
    "rl_active l' k = rl_active l k"
  using assms by (auto simp: limiter_enter_def Let_def split: if_splits)

lemma history_inv:
  assumes "limiter_history cfg lag clock l hist running" and lag: "0 \<le> lag"
  shows "key_inv cfg lag clock (rl_requests l k) (rl_tokens l k) (log_of k hist) \<and>
    rl_active l k = int (running k) \<and> rl_active l k \<le> max 0 (rl_max_concurrency cfg)"
  using assms(1)
proof (induction rule: limiter_history.induct)
  case (started clock)
  then show ?case by (auto simp: key_inv_def new_limiter_def window_def)
next
  case (entered clock l hist running now key n l' u)
  show ?case
  proof (cases "k = key")
    case True
    have lim: "\<not> rl_rpm cfg \<le> int (length (dropWhile (\<lambda>t. t \<le> now - 60) (rl_requests l key)))"
      "\<not> rl_tpm cfg < sum_list (map snd (dropWhile (\<lambda>(t, _). t \<le> now - 60) (rl_tokens l key))) + n"
      "\<not> rl_max_concurrency cfg \<le> rl_active l key"
      using entered(3) by (auto simp: limiter_enter_def Let_def split: if_splits)
    then have l': "rl_requests l' key = dropWhile (\<lambda>t. t \<le> now - 60) (rl_requests l key) @ [now]"
      "rl_tokens l' key = dropWhile (\<lambda>(t, _). t \<le> now - 60) (rl_tokens l key) @ [(now, n)]"
      "rl_active l' key = rl_active l key + 1"
      using entered(3) by (auto simp: limiter_enter_def Let_def split: if_splits)
    have "key_inv cfg lag clock (rl_requests l key) (rl_tokens l key) (log_of key hist)"
      using entered(4) True by simp
    from key_inv_enter [OF this lag entered(2) lim(1,2)] l' entered(4) lim(3) True
    show ?thesis by simp
  next
    case False
    then show ?thesis
      using entered(4) key_inv_later [of cfg lag clock _ _ _ "max clock now"]
        limiter_enter_other [OF entered(3)] by simp
  qed
next
  case (refused clock l hist running now key n l' e)
  show ?case
  proof (cases "k = key")
    case True
    then have "rl_requests l' k = dropWhile (\<lambda>t. t \<le> now - 60) (rl_requests l k)"
      "rl_tokens l' k = dropWhile (\<lambda>(t, _). t \<le> now - 60) (rl_tokens l k)"
      "rl_active l' k = rl_active l k"
      using refused(3) by (auto simp: limiter_enter_def Let_def split: if_splits)
    then show ?thesis using refused(4) key_inv_prune by simp
  next
    case False
    then show ?thesis
      using refused(4) key_inv_later [of cfg lag clock _ _ _ "max clock now"]
        limiter_enter_other [OF refused(3)] by simp
  qed
next
  case (left clock l hist running key)
  then show ?case by (auto simp: limiter_exit_def)
qed

text \<open>
  C18. The rate limits hold in every sliding window: if no thread takes the lock with a clock reading
  more than \<open>lag\<close> seconds behind the latest one, then under any interleaving, of the calls of a key
  whose readings lie within \<open>60 - lag\<close> seconds at most \<open>requests_per_minute\<close> are admitted, their token
  estimates (none negative) sum up to at most \<open>tokens_per_minute\<close>, and at most \<open>max_concurrency\<close> calls run
  at the same time. With readings in order (no lag) the window is the full minute; the lemma
  \<open>stale_reading_exceeds_limit\<close> shows that with a lag it is not.
\<close>

theorem rate_limits_hold:
  assumes "limiter_history cfg lag clock l hist running" and "0 \<le> lag"
    and "0 \<le> rl_rpm cfg" and "0 \<le> rl_tpm cfg" and "0 \<le> rl_max_concurrency cfg"
    and "\<forall>(_, n) \<in> set (log_of k hist). 0 \<le> n"
  shows "int (length (window (60 - lag) w (log_of k hist))) \<le> rl_rpm cfg \<and>
    sum_list (map snd (window (60 - lag) w (log_of k hist))) \<le> rl_tpm cfg \<and>
    int (running k) \<le> rl_max_concurrency cfg"
proof -
  note inv = history_inv [OF assms(1,2), of k]
  then have "int (length (window (60 - lag) w (log_of k hist))) \<le> max 0 (rl_rpm cfg)"
    "sum_list (map snd (window (60 - lag) w (log_of k hist))) \<le> max 0 (rl_tpm cfg)"
    using assms(6) unfolding key_inv_def by blast+
  then show ?thesis using inv assms(3-5) by simp
qed

definition demo_limits :: limiter_config where
  "demo_limits = \<lparr>rl_rpm = 2, rl_tpm = 100, rl_max_concurrency = 1\<rparr>"

text \<open>The second call read the clock at 29, and entered after a thread that had read 30.\<close>

theorem rate_limits_hold_applied:
  "length (window 59 0 (log_of ''p'' [(''p'', 30, 40), (''p'', 29, 50)])) \<le> 2 \<and>
   sum_list (map snd (window 59 0 (log_of ''p'' [(''p'', 30, 40), (''p'', 29, 50)]))) \<le> 100"
proof -
  let ?l1 = "fst (limiter_enter demo_limits new_limiter ''p'' 40 30)"
  let ?l2 = "limiter_exit ?l1 ''p''"
  have "limiter_enter demo_limits new_limiter ''p'' 40 30 = (?l1, Inr ())"
    by (simp add: limiter_enter_def demo_limits_def new_limiter_def Let_def)
  from limiter_history.entered [OF limiter_history.started [where clock = 0 and lag = 1] _ this]
  obtain r1 where h1: "limiter_history demo_limits 1 30 ?l1 [(''p'', 30, 40)] r1" "0 < r1 ''p''" by auto
  from limiter_history.left [OF h1]
  obtain r2 where h2: "limiter_history demo_limits 1 30 ?l2 [(''p'', 30, 40)] r2" by auto
  have "snd (limiter_enter demo_limits ?l2 ''p'' 50 29) = Inr ()"
    by (simp add: limiter_enter_def limiter_exit_def demo_limits_def new_limiter_def Let_def)
  then have "limiter_enter demo_limits ?l2 ''p'' 50 29 =
      (fst (limiter_enter demo_limits ?l2 ''p'' 50 29), Inr ())" by (metis prod.collapse)
  from limiter_history.entered [OF h2 _ this]
  obtain l running where "limiter_history demo_limits 1 30 l [(''p'', 30, 40), (''p'', 29, 50)] running" by auto
  from rate_limits_hold [OF this, of "''p''" 0] show ?thesis by (simp add: demo_limits_def log_of_def)
qed

text \<open>
  A stale reading exceeds the limit: with one request per minute, a request at 0, a refused call at 60
  that drops it, and a call that had read 59 before: both requests were admitted within 59 seconds.
\<close>

lemma stale_reading_exceeds_limit:
  fixes cfg defines "cfg \<equiv> \<lparr>rl_rpm = 1, rl_tpm = 100, rl_max_concurrency = 1\<rparr>"
  shows "let (l1, first) = limiter_enter cfg new_limiter ''p'' 40 0;
      (l2, too_large) = limiter_enter cfg (limiter_exit l1 ''p'') ''p'' 101 60;
      (l3, second) = limiter_enter cfg l2 ''p'' 40 59
    in first = Inr () \<and> too_large = Inl ProviderRateLimitError \<and> second = Inr ()"
  by (simp add: cfg_def limiter_enter_def limiter_exit_def new_limiter_def)

end
