(* ===== verification/Provider_Store.thy ===== *)
theory Provider_Store
  imports Entities
begin

text \<open>
  The tables behind the governance of model calls: \<open>ProjectBudget\<close>, \<open>ProviderCall\<close> and
  \<open>ProviderIdempotencyRecord\<close> (\<open>src/src/storyforge/models/entities.py\<close>) with their constraints,
  the two tables they refer to, and their repositories (\<open>usage/repositories.py\<close>). As in
  \<open>Job_Store\<close> a transaction is one function on the database and row locks make it atomic. The
  bookkeeping columns \<open>created_at\<close> and \<open>updated_at\<close> of budgets and claims, which no code reads,
  have no field.
\<close>

section \<open>Entities\<close>

record project_budget =
  pb_id :: int
  pb_project_id :: int
  pb_currency :: string
  pb_soft_limit :: rat
  pb_hard_limit :: rat
  pb_period :: budget_period
  pb_spent_estimated :: rat
  pb_spent_billed :: rat
  pb_reserved_estimated :: rat
  pb_alert_thresholds :: "string list"
  pb_enabled :: bool

text \<open>\<open>PricingSnapshot\<close> of \<open>usage/models.py\<close>, which a call row keeps as JSON (\<open>None\<close> for \<open>{}\<close>).\<close>

record pricing_snapshot =
  ps_provider :: string
  ps_model :: string
  ps_input_cost_per_million :: "rat option"
  ps_output_cost_per_million :: "rat option"
  ps_cached_input_cost_per_million :: "rat option"
  ps_currency :: string
  ps_pricing_version :: "string option"
  ps_effective_date :: "string option"

record provider_call =
  pc_id :: int
  pc_project_id :: "int option"
  pc_workflow_run_id :: "int option"
  pc_chapter_id :: "int option"
  pc_chapter_version_id :: "int option"
  pc_task_type :: task_type
  pc_provider :: string
  pc_model :: string
  pc_profile :: model_profile
  pc_privacy_policy :: privacy_policy
  pc_prompt_name :: string
  pc_prompt_version :: string
  pc_request_hash :: string
  pc_idempotency_key :: string
  pc_status :: provider_call_status
  pc_attempt :: int
  pc_fallback_index :: int
  pc_fallback_reason :: "string option"
  pc_input_tokens :: int
  pc_output_tokens :: int
  pc_cached_input_tokens :: int
  pc_total_tokens :: int
  pc_usage_source :: token_usage_source
  pc_estimated_cost :: "rat option"
  pc_billed_cost :: "rat option"
  pc_currency :: string
  pc_pricing_snapshot :: "pricing_snapshot option"
  pc_latency_ms :: int
  pc_provider_request_id :: "string option"
  pc_error_code :: "string option"
  pc_created_at :: time
  pc_completed_at :: "time option"

record idempotency_record =
  ir_id :: int
  ir_idempotency_key :: string
  ir_status :: idempotency_status
  ir_provider_call_id :: "int option"
  ir_response_hash :: "string option"
  ir_error_code :: "string option"

record pdb =
  pd_projects :: "project table"
  pd_workflow_runs :: "workflow_run table"
  pd_budgets :: "project_budget table"
  pd_calls :: "provider_call table"
  pd_idempotency :: "idempotency_record table"

definition empty_pdb :: pdb where
  "empty_pdb = \<lparr>pd_projects = empty_table, pd_workflow_runs = empty_table,
     pd_budgets = empty_table, pd_calls = empty_table, pd_idempotency = empty_table\<rparr>"

interpretation budgets: repository pb_id "\<lambda>i r. r\<lparr>pb_id := i\<rparr>"
  by unfold_locales simp

interpretation calls: repository pc_id "\<lambda>i r. r\<lparr>pc_id := i\<rparr>"
  by unfold_locales simp

interpretation claims: repository ir_id "\<lambda>i r. r\<lparr>ir_id := i\<rparr>"
  by unfold_locales simp

section \<open>Constraints\<close>

definition budget_row_ok :: "project_budget \<Rightarrow> bool" where
  "budget_row_ok b \<longleftrightarrow> 0 \<le> pb_soft_limit b \<and> 0 < pb_hard_limit b \<and>
     pb_soft_limit b \<le> pb_hard_limit b \<and> 0 \<le> pb_spent_estimated b \<and> 0 \<le> pb_spent_billed b \<and>
     0 \<le> pb_reserved_estimated b"

definition call_row_ok :: "provider_call \<Rightarrow> bool" where
  "call_row_ok c \<longleftrightarrow> 0 < pc_attempt c \<and> 0 \<le> pc_fallback_index c \<and> 0 \<le> pc_input_tokens c \<and>
     0 \<le> pc_output_tokens c \<and> 0 \<le> pc_cached_input_tokens c \<and> 0 \<le> pc_total_tokens c \<and>
     0 \<le> pc_latency_ms c"

definition call_identity :: "provider_call \<Rightarrow> string \<times> int \<times> int" where
  "call_identity c = (pc_idempotency_key c, pc_attempt c, pc_fallback_index c)"

definition get_pd_project :: "pdb \<Rightarrow> int \<Rightarrow> project option" where
  "get_pd_project db i = repo_get pr_id (pd_projects db) i"

definition get_pd_workflow :: "pdb \<Rightarrow> int \<Rightarrow> workflow_run option" where
  "get_pd_workflow db i = repo_get wr_id (pd_workflow_runs db) i"

definition get_call :: "pdb \<Rightarrow> int \<Rightarrow> provider_call option" where
  "get_call db i = repo_get pc_id (pd_calls db) i"

definition present :: "('k \<Rightarrow> 'r option) \<Rightarrow> 'k option \<Rightarrow> bool" where
  "present get i \<longleftrightarrow> (case i of None \<Rightarrow> True | Some k \<Rightarrow> get k \<noteq> None)"

definition budgets_ok :: "pdb \<Rightarrow> bool" where
  "budgets_ok db \<longleftrightarrow> distinct (map pb_project_id (t_rows (pd_budgets db))) \<and>
     (\<forall>b \<in> set (t_rows (pd_budgets db)). budget_row_ok b \<and> get_pd_project db (pb_project_id b) \<noteq> None)"

definition calls_ok :: "pdb \<Rightarrow> bool" where
  "calls_ok db \<longleftrightarrow> distinct (map call_identity (t_rows (pd_calls db))) \<and>
     (\<forall>c \<in> set (t_rows (pd_calls db)). call_row_ok c \<and>
        present (get_pd_project db) (pc_project_id c) \<and>
        present (get_pd_workflow db) (pc_workflow_run_id c))"

definition claims_ok :: "pdb \<Rightarrow> bool" where
  "claims_ok db \<longleftrightarrow> distinct (map ir_idempotency_key (t_rows (pd_idempotency db))) \<and>
     (\<forall>r \<in> set (t_rows (pd_idempotency db)). present (get_call db) (ir_provider_call_id r))"

definition pdb_ok :: "pdb \<Rightarrow> bool" where
  "pdb_ok db \<longleftrightarrow> budgets_ok db \<and> calls_ok db \<and> claims_ok db"

definition pcommit :: "pdb \<Rightarrow> 'a \<Rightarrow> (pdb \<times> 'a) result" where
  "pcommit db a = (if pdb_ok db then Inr (db, a) else Inl IntegrityError)"

lemma pcommit_Inr_iff [simp]: "pcommit db a = Inr (db', a') \<longleftrightarrow> db' = db \<and> a' = a \<and> pdb_ok db"
  by (auto simp: pcommit_def)

lemma pcommit_ok: "pdb_ok db \<Longrightarrow> pcommit db a = Inr (db, a)"
  by (simp add: pcommit_def)

definition pkeys_ok :: "pdb \<Rightarrow> bool" where
  "pkeys_ok db \<longleftrightarrow> table_ok pb_id (pd_budgets db) \<and> table_ok pc_id (pd_calls db) \<and>
     table_ok ir_id (pd_idempotency db)"

section \<open>Repositories: usage/repositories.py\<close>

text \<open>\<open>ProjectBudgetRepository.for_project\<close>, at most one row by the unique constraint.\<close>

definition budget_for_project :: "pdb \<Rightarrow> int \<Rightarrow> project_budget option" where
  "budget_for_project db project_id = find (\<lambda>b. pb_project_id b = project_id) (t_rows (pd_budgets db))"

definition save_budget :: "pdb \<Rightarrow> project_budget \<Rightarrow> pdb" where
  "save_budget db b = db\<lparr>pd_budgets := repo_save pb_id (pd_budgets db) b\<rparr>"

definition add_budget :: "pdb \<Rightarrow> project_budget \<Rightarrow> pdb \<times> project_budget" where
  "add_budget db b =
     (let (t, row) = repo_add (\<lambda>i r. r\<lparr>pb_id := i\<rparr>) (pd_budgets db) b
      in (db\<lparr>pd_budgets := t\<rparr>, row))"

text \<open>\<open>ProviderIdempotencyRepository.for_key\<close>.\<close>

definition claim_for_key :: "pdb \<Rightarrow> string \<Rightarrow> idempotency_record option" where
  "claim_for_key db key = find (\<lambda>r. ir_idempotency_key r = key) (t_rows (pd_idempotency db))"

definition save_claim :: "pdb \<Rightarrow> idempotency_record \<Rightarrow> pdb" where
  "save_claim db r = db\<lparr>pd_idempotency := repo_save ir_id (pd_idempotency db) r\<rparr>"

definition add_claim :: "pdb \<Rightarrow> idempotency_record \<Rightarrow> pdb" where
  "add_claim db r =
     db\<lparr>pd_idempotency := fst (repo_add (\<lambda>i x. x\<lparr>ir_id := i\<rparr>) (pd_idempotency db) r)\<rparr>"

definition save_call :: "pdb \<Rightarrow> provider_call \<Rightarrow> pdb" where
  "save_call db c = db\<lparr>pd_calls := repo_save pc_id (pd_calls db) c\<rparr>"

definition add_call :: "pdb \<Rightarrow> provider_call \<Rightarrow> pdb \<times> provider_call" where
  "add_call db c =
     (let (t, row) = repo_add (\<lambda>i r. r\<lparr>pc_id := i\<rparr>) (pd_calls db) c
      in (db\<lparr>pd_calls := t\<rparr>, row))"

definition save_pd_workflow :: "pdb \<Rightarrow> workflow_run \<Rightarrow> pdb" where
  "save_pd_workflow db r = db\<lparr>pd_workflow_runs := repo_save wr_id (pd_workflow_runs db) r\<rparr>"

text \<open>The filters of \<open>ProviderCallRepository\<close>: every given one must hold.\<close>

record call_filter =
  cf_project_id :: "int option"
  cf_workflow_run_id :: "int option"
  cf_task_type :: "task_type option"
  cf_provider :: "string option"
  cf_model :: "string option"
  cf_status :: "provider_call_status option"
  cf_created_from :: "time option"
  cf_created_to :: "time option"

definition given :: "'v option \<Rightarrow> ('v \<Rightarrow> bool) \<Rightarrow> bool" where
  "given x p \<longleftrightarrow> (case x of None \<Rightarrow> True | Some v \<Rightarrow> p v)"

definition call_matches :: "call_filter \<Rightarrow> provider_call \<Rightarrow> bool" where
  "call_matches f c \<longleftrightarrow>
     given (cf_project_id f) (\<lambda>v. pc_project_id c = Some v) \<and>
     given (cf_workflow_run_id f) (\<lambda>v. pc_workflow_run_id c = Some v) \<and>
     given (cf_task_type f) (\<lambda>v. pc_task_type c = v) \<and>
     given (cf_provider f) (\<lambda>v. pc_provider c = v) \<and>
     given (cf_model f) (\<lambda>v. pc_model c = v) \<and>
     given (cf_status f) (\<lambda>v. pc_status c = v) \<and>
     given (cf_created_from f) (\<lambda>v. v \<le> pc_created_at c) \<and>
     given (cf_created_to f) (\<lambda>v. pc_created_at c \<le> v)"

definition calls_filtered :: "pdb \<Rightarrow> call_filter \<Rightarrow> provider_call list" where
  "calls_filtered db f = sort_key pc_id (filter (call_matches f) (t_rows (pd_calls db)))"

definition calls_page :: "pdb \<Rightarrow> call_filter \<Rightarrow> int \<Rightarrow> int \<Rightarrow> provider_call page_slice result" where
  "calls_page db f page page_size =
     paginate (sort_key (\<lambda>c. (- pc_created_at c, - pc_id c))
       (filter (call_matches f) (t_rows (pd_calls db)))) page page_size"

definition count_for_workflow :: "pdb \<Rightarrow> int \<Rightarrow> int" where
  "count_for_workflow db workflow_run_id =
     int (length (filter (\<lambda>c. pc_workflow_run_id c = Some workflow_run_id) (t_rows (pd_calls db))))"

section \<open>Lookups after updates\<close>

lemma budget_for_project_row:
  "budget_for_project db p = Some b \<Longrightarrow> b \<in> set (t_rows (pd_budgets db)) \<and> pb_project_id b = p"
  by (auto simp: budget_for_project_def dest: find_SomeD)

lemma find_replace_col:
  assumes "distinct (map key xs)" and "find (\<lambda>a. col a = p) xs = Some x" and "key y = key x"
    and "col y = p"
  shows "find (\<lambda>a. col a = q) (map (\<lambda>a. if key a = key y then y else a) xs) =
    (if q = p then Some y else find (\<lambda>a. col a = q) xs)"
  using assms
proof (induction xs)
  case (Cons a xs)
  show ?case
  proof (cases "col a = p")
    case True
    then have "a = x" using Cons.prems(2) by simp
    then have "map (\<lambda>b. if key b = key y then y else b) xs = xs"
      using Cons.prems(1,3) by (intro map_idI) (auto simp: rev_image_eqI)
    then show ?thesis using True \<open>a = x\<close> Cons.prems by auto
  next
    case False
    then have f: "find (\<lambda>a. col a = p) xs = Some x" using Cons.prems(2) by simp
    then have "x \<in> set xs" by (auto dest: find_SomeD)
    then have "key a \<noteq> key y" using Cons.prems(1,3) by force
    then show ?thesis using Cons.IH [OF _ f Cons.prems(3,4)] Cons.prems False by auto
  qed
qed simp

lemma save_budget_lookup:
  assumes "pkeys_ok db" and "budget_for_project db p = Some b" and "pb_id b' = pb_id b"
    and "pb_project_id b' = p"
  shows "budget_for_project (save_budget db b') q = (if q = p then Some b' else budget_for_project db q)"
  using find_replace_col [of pb_id "t_rows (pd_budgets db)" pb_project_id p b b' q] assms
  by (simp add: budget_for_project_def save_budget_def repo_save_def pkeys_ok_def table_ok_def)

lemma save_claim_lookup:
  assumes "pkeys_ok db" and "claim_for_key db k = Some r" and "ir_id r' = ir_id r"
    and "ir_idempotency_key r' = k"
  shows "claim_for_key (save_claim db r') q = (if q = k then Some r' else claim_for_key db q)"
  using find_replace_col [of ir_id "t_rows (pd_idempotency db)" ir_idempotency_key k r r' q] assms
  by (simp add: claim_for_key_def save_claim_def repo_save_def pkeys_ok_def table_ok_def)

lemma add_budget_lookup:
  "budget_for_project (fst (add_budget db b)) q =
     (case budget_for_project db q of Some x \<Rightarrow> Some x
      | None \<Rightarrow> if pb_project_id b = q then Some (snd (add_budget db b)) else None)"
  by (simp add: budget_for_project_def add_budget_def repo_add_def Let_def find_append split: option.split)

lemma add_claim_lookup:
  "claim_for_key (add_claim db r) q =
     (case claim_for_key db q of Some x \<Rightarrow> Some x
      | None \<Rightarrow> if ir_idempotency_key r = q then Some (r\<lparr>ir_id := t_next (pd_idempotency db)\<rparr>) else None)"
  by (simp add: claim_for_key_def add_claim_def repo_add_def Let_def find_append split: option.split)

lemma pkeys_ok_preserved [simp]:
  "pkeys_ok db \<Longrightarrow> pkeys_ok (save_budget db b)"
  "pkeys_ok db \<Longrightarrow> pkeys_ok (fst (add_budget db b))"
  "pkeys_ok db \<Longrightarrow> pkeys_ok (save_claim db r)"
  "pkeys_ok db \<Longrightarrow> pkeys_ok (add_claim db r)"
  "pkeys_ok db \<Longrightarrow> pkeys_ok (save_call db c)"
  "pkeys_ok db \<Longrightarrow> pkeys_ok (fst (add_call db c))"
  "pkeys_ok (save_pd_workflow db w) = pkeys_ok db"
  by (simp_all add: pkeys_ok_def save_budget_def add_budget_def save_claim_def add_claim_def
      save_call_def add_call_def save_pd_workflow_def split_def Let_def budgets.ok_save
      budgets.ok_add calls.ok_save calls.ok_add claims.ok_save claims.ok_add)

end
