(* ===== verification/Budget_Service.thy ===== *)
theory Budget_Service
  imports Provider_Store Settings "HOL-Library.Multiset"
begin

text \<open>
  \<open>BudgetService\<close> and \<open>UsageService\<close> (\<open>src/src/storyforge/usage/service.py\<close>): project budgets
  that reserve the estimated cost of a model call before it is made and settle it afterwards,
  the ceilings of a workflow run, and the usage summary. Amounts are exact rationals, as
  \<open>Decimal\<close> is for the eight places the columns keep.
\<close>

section \<open>Budgets\<close>

definition new_budget ::
  "int \<Rightarrow> string \<Rightarrow> rat \<Rightarrow> rat \<Rightarrow> budget_period \<Rightarrow> bool \<Rightarrow> project_budget" where
  "new_budget project_id currency soft_limit hard_limit period enabled =
     \<lparr>pb_id = 0, pb_project_id = project_id, pb_currency = currency, pb_soft_limit = soft_limit,
      pb_hard_limit = hard_limit, pb_period = period, pb_spent_estimated = 0, pb_spent_billed = 0,
      pb_reserved_estimated = 0, pb_alert_thresholds = [''0.5'', ''0.8'', ''1.0''],
      pb_enabled = enabled\<rparr>"

definition get_or_create :: "settings \<Rightarrow> pdb \<Rightarrow> int \<Rightarrow> (pdb \<times> project_budget) result" where
  "get_or_create s db project_id =
     (case get_pd_project db project_id of
        None \<Rightarrow> Inl EntityNotFoundError
      | Some _ \<Rightarrow>
          (case budget_for_project db project_id of
             Some budget \<Rightarrow> pcommit db budget
           | None \<Rightarrow>
               let (db', budget) = add_budget db
                 (new_budget project_id (s_default_currency s) (s_project_soft_budget s)
                    (s_project_hard_budget s) BudgetPeriod_LIFETIME True)
               in pcommit db' budget))"

definition set_budget ::
  "pdb \<Rightarrow> int \<Rightarrow> rat \<Rightarrow> rat \<Rightarrow> string \<Rightarrow> budget_period \<Rightarrow> bool \<Rightarrow> (pdb \<times> project_budget) result" where
  "set_budget db project_id soft_limit hard_limit currency period enabled =
     (if soft_limit < 0 \<or> hard_limit \<le> 0 \<or> hard_limit < soft_limit then Inl ValueError
      else
        (case budget_for_project db project_id of
           None \<Rightarrow>
             (case get_pd_project db project_id of
                None \<Rightarrow> Inl EntityNotFoundError
              | Some _ \<Rightarrow>
                  let (db', budget) = add_budget db
                    (new_budget project_id currency soft_limit hard_limit period enabled)
                  in pcommit db' budget)
         | Some budget \<Rightarrow>
             if hard_limit < pb_spent_estimated budget + pb_reserved_estimated budget
             then Inl BudgetBlockedError
             else
               let budget' = budget\<lparr>pb_soft_limit := soft_limit, pb_hard_limit := hard_limit,
                     pb_currency := currency, pb_period := period, pb_enabled := enabled\<rparr>
               in pcommit (save_budget db budget') budget'))"

record budget_decision =
  bd_allowed :: bool
  bd_warning :: bool
  bd_reason :: string
  bd_reserved_amount :: rat

text \<open>
  \<open>reserve\<close> is two transactions: the first stays committed when the second raises. The database
  of the result is what the call leaves behind in either case.
\<close>

definition reserve_txn :: "pdb \<Rightarrow> int \<Rightarrow> rat \<Rightarrow> (pdb \<times> budget_decision) result" where
  "reserve_txn db project_id estimated_cost =
     (case budget_for_project db project_id of
        None \<Rightarrow> Inl RuntimeError
      | Some budget \<Rightarrow>
          if \<not> pb_enabled budget
          then pcommit db \<lparr>bd_allowed = True, bd_warning = False, bd_reason = ''budget_disabled'',
                           bd_reserved_amount = 0\<rparr>
          else
            let projected = pb_spent_estimated budget + pb_reserved_estimated budget + estimated_cost
            in if pb_hard_limit budget < projected then Inl BudgetBlockedError
               else
                 let budget' = budget\<lparr>pb_reserved_estimated := pb_reserved_estimated budget + estimated_cost\<rparr>;
                     warning = pb_soft_limit budget \<le> projected
                 in pcommit (save_budget db budget')
                      \<lparr>bd_allowed = True, bd_warning = warning,
                       bd_reason = (if warning then ''soft_limit_warning'' else ''within_budget''),
                       bd_reserved_amount = estimated_cost\<rparr>)"

definition reserve ::
  "settings \<Rightarrow> pdb \<Rightarrow> int \<Rightarrow> rat option \<Rightarrow> pdb \<times> budget_decision result" where
  "reserve s db project_id estimated_cost =
     (case (case estimated_cost of
              None \<Rightarrow> if s_allow_unknown_pricing s then Inr 0 else Inl BudgetBlockedError
            | Some cost \<Rightarrow> Inr cost) of
        Inl e \<Rightarrow> (db, Inl e)
      | Inr cost \<Rightarrow>
          (case get_or_create s db project_id of
             Inl e \<Rightarrow> (db, Inl e)
           | Inr (db1, _) \<Rightarrow>
               (case reserve_txn db1 project_id cost of
                  Inl e \<Rightarrow> (db1, Inl e)
                | Inr (db2, d) \<Rightarrow> (db2, Inr d))))"

definition check_workflow ::
  "settings \<Rightarrow> pdb \<Rightarrow> int option \<Rightarrow> rat option \<Rightarrow> int \<Rightarrow> unit result" where
  "check_workflow s db workflow_run_id estimated_cost estimated_tokens =
     (case workflow_run_id of
        None \<Rightarrow> Inr ()
      | Some i \<Rightarrow>
          (case get_pd_workflow db i of
             None \<Rightarrow> Inl EntityNotFoundError
           | Some workflow \<Rightarrow>
               if s_workflow_max_provider_calls s < wr_provider_call_count workflow + 1
               then Inl BudgetBlockedError
               else if s_workflow_max_tokens s
                 < wr_provider_input_tokens workflow + wr_provider_output_tokens workflow + estimated_tokens
               then Inl BudgetBlockedError
               else if estimated_cost = None \<and> \<not> s_allow_unknown_pricing s
               then Inl BudgetBlockedError
               else
                 (case estimated_cost of
                    None \<Rightarrow> Inr ()
                  | Some cost \<Rightarrow>
                      if s_workflow_max_cost s < wr_provider_estimated_cost workflow + cost
                      then Inl BudgetBlockedError else Inr ())))"

definition settle :: "pdb \<Rightarrow> int \<Rightarrow> rat \<Rightarrow> rat option \<Rightarrow> rat option \<Rightarrow> (pdb \<times> unit) result" where
  "settle db project_id reserved estimated_cost billed_cost =
     (case budget_for_project db project_id of
        None \<Rightarrow> pcommit db ()
      | Some budget \<Rightarrow>
          let b1 = budget\<lparr>pb_reserved_estimated := max 0 (pb_reserved_estimated budget - reserved)\<rparr>;
              b2 = (case estimated_cost of None \<Rightarrow> b1
                    | Some c \<Rightarrow> b1\<lparr>pb_spent_estimated := pb_spent_estimated b1 + c\<rparr>);
              b3 = (case billed_cost of None \<Rightarrow> b2
                    | Some c \<Rightarrow> b2\<lparr>pb_spent_billed := pb_spent_billed b2 + c\<rparr>)
          in pcommit (save_budget db b3) ())"

definition release_reservation :: "pdb \<Rightarrow> int \<Rightarrow> rat \<Rightarrow> (pdb \<times> unit) result" where
  "release_reservation db project_id reserved = settle db project_id reserved None None"

section \<open>Usage\<close>

record usage_summary =
  us_calls :: int
  us_succeeded :: int
  us_failures :: int
  us_input_tokens :: int
  us_output_tokens :: int
  us_cached_input_tokens :: int
  us_total_tokens :: int
  us_estimated_cost :: "rat option"
  us_billed_cost :: "rat option"
  us_fallback_count :: int
  us_timeout_count :: int
  us_rate_limit_count :: int
  us_average_latency_ms :: rat
  us_currency :: string

definition count_if :: "('r \<Rightarrow> bool) \<Rightarrow> 'r list \<Rightarrow> int" where
  "count_if p rows = int (length (filter p rows))"

definition or_zero :: "rat option \<Rightarrow> rat" where
  "or_zero x = (case x of None \<Rightarrow> 0 | Some v \<Rightarrow> v)"

definition summarise :: "string \<Rightarrow> provider_call list \<Rightarrow> usage_summary" where
  "summarise currency calls =
     (let succeeded = count_if (\<lambda>c. pc_status c = ProviderCallStatus_SUCCEEDED) calls;
          unknown = list_ex (\<lambda>c. pc_status c = ProviderCallStatus_SUCCEEDED \<and> pc_estimated_cost c = None) calls;
          billed = List.map_filter pc_billed_cost calls
      in \<lparr>us_calls = int (length calls), us_succeeded = succeeded,
          us_failures = int (length calls) - succeeded,
          us_input_tokens = sum_list (map pc_input_tokens calls),
          us_output_tokens = sum_list (map pc_output_tokens calls),
          us_cached_input_tokens = sum_list (map pc_cached_input_tokens calls),
          us_total_tokens = sum_list (map pc_total_tokens calls),
          us_estimated_cost =
            (if unknown then None else Some (sum_list (map (\<lambda>c. or_zero (pc_estimated_cost c)) calls))),
          us_billed_cost = (if billed = [] then None else Some (sum_list billed)),
          us_fallback_count = count_if (\<lambda>c. 0 < pc_fallback_index c) calls,
          us_timeout_count = count_if (\<lambda>c. pc_status c = ProviderCallStatus_TIMED_OUT) calls,
          us_rate_limit_count = count_if (\<lambda>c. pc_status c = ProviderCallStatus_RATE_LIMITED) calls,
          us_average_latency_ms =
            (if calls = [] then 0
             else of_int (sum_list (map pc_latency_ms calls)) / of_int (int (length calls))),
          us_currency = currency\<rparr>)"

definition usage_summary_of :: "string \<Rightarrow> pdb \<Rightarrow> call_filter \<Rightarrow> usage_summary result" where
  "usage_summary_of currency db f =
     (if (case cf_project_id f of None \<Rightarrow> False | Some p \<Rightarrow> get_pd_project db p = None)
      then Inl EntityNotFoundError
      else Inr (summarise currency (calls_filtered db f)))"

section \<open>What each transaction does to the budgets\<close>

lemma add_budget_pair:
  assumes "add_budget db b = (db', b')"
  shows "b' = b\<lparr>pb_id := t_next (pd_budgets db)\<rparr>"
    and "pkeys_ok db \<Longrightarrow> pkeys_ok db'"
    and "budget_for_project db (pb_project_id b) = None \<Longrightarrow>
      budget_for_project db' q = (if q = pb_project_id b then Some b' else budget_for_project db q)"
  using assms pkeys_ok_preserved(2) [of db b] add_budget_lookup [of db b q]
  by (auto simp: add_budget_def repo_add_def Let_def split: option.splits)

lemma get_or_create_effect:
  assumes "get_or_create s db p = Inr (db', b)"
  shows "pdb_ok db'" "pkeys_ok db \<Longrightarrow> pkeys_ok db'"
    and "budget_for_project db' q = (if q = p then Some b else budget_for_project db q)"
    and "budget_for_project db p = Some b \<or>
      budget_for_project db p = None \<and> pb_spent_estimated b = 0 \<and> pb_reserved_estimated b = 0"
proof -
  let ?new = "new_budget p (s_default_currency s) (s_project_soft_budget s)
    (s_project_hard_budget s) BudgetPeriod_LIFETIME True"
  obtain db1 b1 where a: "add_budget db ?new = (db1, b1)" by fastforce
  have new: "pb_project_id ?new = p" "pb_spent_estimated ?new = 0" "pb_reserved_estimated ?new = 0"
    by (simp_all add: new_budget_def)
  note pair = add_budget_pair [OF a]
  show "pdb_ok db'" using assms a by (auto simp: get_or_create_def split: option.splits)
  show "pkeys_ok db \<Longrightarrow> pkeys_ok db'"
    using assms a pair(2) by (auto simp: get_or_create_def split: option.splits)
  show "budget_for_project db' q = (if q = p then Some b else budget_for_project db q)"
    using assms a pair(3) new by (auto simp: get_or_create_def split: option.splits)
  show "budget_for_project db p = Some b \<or>
      budget_for_project db p = None \<and> pb_spent_estimated b = 0 \<and> pb_reserved_estimated b = 0"
    using assms a pair(1) new by (auto simp: get_or_create_def split: option.splits)
qed

lemma set_budget_effect:
  assumes "set_budget db p soft hard currency period enabled = Inr (db', b)" and "pkeys_ok db"
  shows "pdb_ok db'" "pkeys_ok db'"
    and "budget_for_project db' q = (if q = p then Some b else budget_for_project db q)"
    and "pb_hard_limit b = hard" "pb_spent_estimated b + pb_reserved_estimated b \<le> hard"
    and "case budget_for_project db p of
        None \<Rightarrow> pb_spent_estimated b = 0 \<and> pb_reserved_estimated b = 0
      | Some b0 \<Rightarrow> pb_spent_estimated b = pb_spent_estimated b0 \<and>
          pb_reserved_estimated b = pb_reserved_estimated b0"
proof -
  let ?new = "new_budget p currency soft hard period enabled"
  obtain db1 b1 where a: "add_budget db ?new = (db1, b1)" by fastforce
  have new: "pb_project_id ?new = p" "pb_spent_estimated ?new = 0" "pb_reserved_estimated ?new = 0"
    "pb_hard_limit ?new = hard"
    by (simp_all add: new_budget_def)
  note pair = add_budget_pair [OF a]
  show "pdb_ok db'" using assms(1) a
    by (auto simp: set_budget_def Let_def split: option.splits if_splits)
  show "pkeys_ok db'" using assms a pair(2)
    by (auto simp: set_budget_def Let_def split: option.splits if_splits)
  show "budget_for_project db' q = (if q = p then Some b else budget_for_project db q)"
  proof (cases "budget_for_project db p")
    case None
    then show ?thesis using assms(1) a pair(3) new
      by (auto simp: set_budget_def split: option.splits if_splits)
  next
    case (Some b0)
    then show ?thesis
      using assms(1) save_budget_lookup [OF assms(2) Some] budget_for_project_row [OF Some]
      by (auto simp: set_budget_def Let_def split: if_splits)
  qed
  show "pb_hard_limit b = hard" "pb_spent_estimated b + pb_reserved_estimated b \<le> hard"
    "case budget_for_project db p of
        None \<Rightarrow> pb_spent_estimated b = 0 \<and> pb_reserved_estimated b = 0
      | Some b0 \<Rightarrow> pb_spent_estimated b = pb_spent_estimated b0 \<and>
          pb_reserved_estimated b = pb_reserved_estimated b0"
    using assms(1) a pair(1) new
    by (auto simp: set_budget_def Let_def split: option.splits if_splits)
qed

lemma reserve_txn_effect:
  assumes "reserve_txn db p cost = Inr (db', d)" and "pkeys_ok db"
  obtains b where "budget_for_project db p = Some b" "pdb_ok db'" "pkeys_ok db'"
    "\<And>q. budget_for_project db' q =
      (if q = p then Some (b\<lparr>pb_reserved_estimated := pb_reserved_estimated b + bd_reserved_amount d\<rparr>)
       else budget_for_project db q)"
    "if pb_enabled b
     then bd_reserved_amount d = cost \<and>
       pb_spent_estimated b + pb_reserved_estimated b + cost \<le> pb_hard_limit b
     else bd_reserved_amount d = 0"
proof -
  obtain b where b: "budget_for_project db p = Some b"
    using assms(1) by (auto simp: reserve_txn_def split: option.splits)
  let ?b = "b\<lparr>pb_reserved_estimated := pb_reserved_estimated b + cost\<rparr>"
  have look: "budget_for_project (save_budget db ?b) q = (if q = p then Some ?b else budget_for_project db q)" for q
    using save_budget_lookup [OF assms(2) b, of ?b q] budget_for_project_row [OF b] by simp
  show thesis
    by (rule that [OF b])
      (use assms b look in \<open>auto simp: reserve_txn_def Let_def split: if_splits\<close>)
qed

lemma settle_effect:
  assumes "settle db p r est billed = Inr (db', u)" and "pkeys_ok db"
  shows "pdb_ok db'" "pkeys_ok db'"
    and "budget_for_project db p = None \<Longrightarrow> db' = db"
    and "budget_for_project db p = Some b \<Longrightarrow> \<exists>b'.
      (\<forall>q. budget_for_project db' q = (if q = p then Some b' else budget_for_project db q)) \<and>
      pb_reserved_estimated b' = max 0 (pb_reserved_estimated b - r) \<and>
      pb_spent_estimated b' = pb_spent_estimated b + or_zero est \<and>
      pb_spent_billed b' = pb_spent_billed b + or_zero billed \<and>
      pb_enabled b' = pb_enabled b \<and> pb_hard_limit b' = pb_hard_limit b"
proof -
  show "pdb_ok db'" "pkeys_ok db'" "budget_for_project db p = None \<Longrightarrow> db' = db"
    using assms by (auto simp: settle_def Let_def split: option.splits)
  assume b: "budget_for_project db p = Some b"
  let ?b1 = "b\<lparr>pb_reserved_estimated := max 0 (pb_reserved_estimated b - r)\<rparr>"
  let ?b2 = "case est of None \<Rightarrow> ?b1 | Some c \<Rightarrow> ?b1\<lparr>pb_spent_estimated := pb_spent_estimated ?b1 + c\<rparr>"
  let ?b3 = "case billed of None \<Rightarrow> ?b2 | Some c \<Rightarrow> ?b2\<lparr>pb_spent_billed := pb_spent_billed ?b2 + c\<rparr>"
  have db': "db' = save_budget db ?b3" using assms(1) b by (simp add: settle_def Let_def)
  have f: "pb_id ?b3 = pb_id b" "pb_project_id ?b3 = pb_project_id b"
    "pb_reserved_estimated ?b3 = max 0 (pb_reserved_estimated b - r)"
    "pb_spent_estimated ?b3 = pb_spent_estimated b + or_zero est"
    "pb_spent_billed ?b3 = pb_spent_billed b + or_zero billed"
    "pb_enabled ?b3 = pb_enabled b" "pb_hard_limit ?b3 = pb_hard_limit b"
    by (simp_all add: or_zero_def split: option.split)
  have "budget_for_project db' q = (if q = p then Some ?b3 else budget_for_project db q)" for q
    unfolding db' using save_budget_lookup [OF assms(2) b f(1), of q] f(2) budget_for_project_row [OF b]
    by simp
  then show "\<exists>b'. (\<forall>q. budget_for_project db' q = (if q = p then Some b' else budget_for_project db q)) \<and>
      pb_reserved_estimated b' = max 0 (pb_reserved_estimated b - r) \<and>
      pb_spent_estimated b' = pb_spent_estimated b + or_zero est \<and>
      pb_spent_billed b' = pb_spent_billed b + or_zero billed \<and>
      pb_enabled b' = pb_enabled b \<and> pb_hard_limit b' = pb_hard_limit b"
    using f(3-7) by blast
qed

lemma save_budget_frame:
  "get_pd_project (save_budget db b) = get_pd_project db"
  "get_pd_workflow (save_budget db b) = get_pd_workflow db"
  "get_call (save_budget db b) = get_call db"
  "pd_calls (save_budget db b) = pd_calls db"
  "pd_idempotency (save_budget db b) = pd_idempotency db"
  by (simp_all add: fun_eq_iff get_pd_project_def get_pd_workflow_def get_call_def save_budget_def)

text \<open>Saving a row that is still legal keeps every constraint.\<close>

lemma save_budget_ok:
  assumes "pdb_ok db" and "b \<in> set (t_rows (pd_budgets db))" and "pb_id b' = pb_id b"
    and "pb_project_id b' = pb_project_id b" and "budget_row_ok b'" and "pkeys_ok db"
  shows "pdb_ok (save_budget db b')"
proof -
  have d: "distinct (map pb_id (t_rows (pd_budgets db)))"
    using assms(6) by (simp add: pkeys_ok_def table_ok_def)
  have same: "x = b" if "x \<in> set (t_rows (pd_budgets db))" "pb_id x = pb_id b'" for x
    using d that assms(2,3) by (auto simp: distinct_map dest: inj_onD)
  have "map pb_project_id (t_rows (repo_save pb_id (pd_budgets db) b')) = map pb_project_id (t_rows (pd_budgets db))"
    by (rule budgets.map_save [OF refl]) (use same assms(4) in auto)
  moreover have "budget_row_ok x \<and> get_pd_project db (pb_project_id x) \<noteq> None"
    if "x \<in> set (t_rows (repo_save pb_id (pd_budgets db) b'))" for x
    using that budgets.rows_save [of "pd_budgets db" b'] assms(1,2,4,5)
    by (auto simp: pdb_ok_def budgets_ok_def)
  ultimately have "budgets_ok (save_budget db b')"
    using assms(1) by (simp add: budgets_ok_def pdb_ok_def save_budget_frame) (simp add: save_budget_def)
  then show ?thesis
    using assms(1) by (simp add: pdb_ok_def calls_ok_def claims_ok_def save_budget_frame)
qed

section \<open>Histories\<close>

text \<open>
  Any interleaving of the budget transactions of all projects, seen from project \<open>p\<close>. \<open>out\<close> are the
  reservations of \<open>p\<close> that no caller has settled yet; a caller settles or releases a reservation it
  holds, at any actual cost: the gateway settles the price computed from the usage the provider
  reports, which may exceed the estimate. \<open>over\<close> adds up these overruns since the limits were last set.
\<close>

inductive budget_history :: "settings \<Rightarrow> int \<Rightarrow> pdb \<Rightarrow> rat multiset \<Rightarrow> rat \<Rightarrow> bool" for s p where
  fresh: "\<lbrakk>pkeys_ok db; budget_for_project db p = None\<rbrakk> \<Longrightarrow> budget_history s p db {#} 0"
| created: "\<lbrakk>budget_history s p db out over; get_or_create s db q = Inr (db', b)\<rbrakk> \<Longrightarrow>
     budget_history s p db' out over"
| limited: "\<lbrakk>budget_history s p db out over;
     set_budget db q soft hard currency period enabled = Inr (db', b)\<rbrakk> \<Longrightarrow>
     budget_history s p db' out (if q = p then 0 else over)"
| reserved: "\<lbrakk>budget_history s p db out over; reserve_txn db q cost = Inr (db', d); 0 \<le> cost\<rbrakk> \<Longrightarrow>
     budget_history s p db' (if q = p then add_mset (bd_reserved_amount d) out else out) over"
| settled: "\<lbrakk>budget_history s p db out over; settle db q r est billed = Inr (db', u);
     q = p \<Longrightarrow> r \<in># out\<rbrakk> \<Longrightarrow>
     budget_history s p db' (if q = p then out - {#r#} else out)
       (if q = p then over + max 0 (or_zero est - r) else over)"

definition within_limit :: "project_budget \<Rightarrow> rat \<Rightarrow> bool" where
  "within_limit b over \<longleftrightarrow>
     (pb_enabled b \<longrightarrow> pb_spent_estimated b + pb_reserved_estimated b \<le> pb_hard_limit b + over)"

lemma budget_positive:
  "pdb_ok db \<Longrightarrow> budget_for_project db p = Some b \<Longrightarrow> 0 < pb_hard_limit b"
  by (auto simp: pdb_ok_def budgets_ok_def budget_row_ok_def dest!: budget_for_project_row)

definition ledger_ok :: "pdb \<Rightarrow> int \<Rightarrow> rat multiset \<Rightarrow> rat \<Rightarrow> bool" where
  "ledger_ok db p out over \<longleftrightarrow> 0 \<le> over \<and> (\<forall>r \<in># out. 0 \<le> r) \<and>
     (case budget_for_project db p of
        None \<Rightarrow> out = {#}
      | Some b \<Rightarrow> pb_reserved_estimated b = sum_mset out \<and> within_limit b over)"

lemma sum_nonneg: "\<forall>x \<in># M. 0 \<le> x \<Longrightarrow> 0 \<le> sum_mset (M :: rat multiset)"
  by (induction M) auto

lemma ledger_created:
  assumes "ledger_ok db p out over" and "get_or_create s db q = Inr (db', b)"
  shows "ledger_ok db' p out over"
proof (cases "q = p \<and> budget_for_project db p = None")
  case True
  note e = get_or_create_effect [OF assms(2)]
  have b': "budget_for_project db' p = Some b" using e(3) True by simp
  then have "0 < pb_hard_limit b" using budget_positive e(1) by blast
  then show ?thesis using assms(1) True e(4) b' by (auto simp: ledger_ok_def within_limit_def)
next
  case False
  then have "budget_for_project db' p = budget_for_project db p"
    using get_or_create_effect(3) [OF assms(2), of p] get_or_create_effect(4) [OF assms(2)] by auto
  then show ?thesis using assms(1) by (simp add: ledger_ok_def)
qed

lemma ledger_limited:
  assumes "ledger_ok db p out over" and "set_budget db q soft hard currency period enabled = Inr (db', b)"
    and "pkeys_ok db"
  shows "ledger_ok db' p out (if q = p then 0 else over)"
proof (cases "q = p")
  case True
  note e = set_budget_effect [OF assms(2,3)]
  have "budget_for_project db' p = Some b" using e(3) True by simp
  then show ?thesis
    using assms(1) e(4-6) True by (auto simp: ledger_ok_def within_limit_def split: option.splits)
next
  case False
  then have "budget_for_project db' p = budget_for_project db p"
    using set_budget_effect(3) [OF assms(2,3)] by simp
  then show ?thesis using assms(1) False by (simp add: ledger_ok_def)
qed

lemma ledger_reserved:
  assumes "ledger_ok db p out over" and "reserve_txn db q cost = Inr (db', d)" and "0 \<le> cost" and "pkeys_ok db"
  shows "ledger_ok db' p (if q = p then add_mset (bd_reserved_amount d) out else out) over"
proof -
  obtain b where b: "budget_for_project db q = Some b"
    "\<And>x. budget_for_project db' x =
      (if x = q then Some (b\<lparr>pb_reserved_estimated := pb_reserved_estimated b + bd_reserved_amount d\<rparr>)
       else budget_for_project db x)"
    "if pb_enabled b
     then bd_reserved_amount d = cost \<and>
       pb_spent_estimated b + pb_reserved_estimated b + cost \<le> pb_hard_limit b
     else bd_reserved_amount d = 0"
    using reserve_txn_effect [OF assms(2,4)] by metis
  have "0 \<le> bd_reserved_amount d" using b(3) assms(3) by (simp split: if_splits)
  then show ?thesis
  proof (cases "q = p")
    case True
    have old: "\<forall>r \<in># out. 0 \<le> r" "pb_reserved_estimated b = sum_mset out" "within_limit b over" "0 \<le> over"
      using assms(1) b(1) True by (auto simp: ledger_ok_def)
    have "within_limit (b\<lparr>pb_reserved_estimated := pb_reserved_estimated b + bd_reserved_amount d\<rparr>) over"
      using b(3) old(3,4) by (auto simp: within_limit_def split: if_splits)
    then show ?thesis using True b(2) [of p] old(1,2,4) \<open>0 \<le> bd_reserved_amount d\<close> by (simp add: ledger_ok_def)
  next
    case False
    then show ?thesis using assms(1) b(2) [of p] by (simp add: ledger_ok_def)
  qed
qed

lemma ledger_settled:
  assumes "ledger_ok db p out over" and "settle db q r est billed = Inr (db', u)" and "pkeys_ok db"
    and "q = p \<Longrightarrow> r \<in># out"
  shows "ledger_ok db' p (if q = p then out - {#r#} else out)
    (if q = p then over + max 0 (or_zero est - r) else over)"
proof (cases "q = p")
  case True
  then have r: "r \<in># out" using assms(4) by simp
  then obtain b where b: "budget_for_project db p = Some b"
    using assms(1) by (cases "budget_for_project db p") (auto simp: ledger_ok_def)
  have sum: "sum_mset out = r + sum_mset (out - {#r#})"
    using multi_member_split [OF r] by auto
  have pos: "\<forall>x \<in># out - {#r#}. 0 \<le> x" using assms(1) by (auto simp: ledger_ok_def dest: in_diffD)
  then have "0 \<le> sum_mset (out - {#r#})" by (rule sum_nonneg)
  then have res: "max 0 (pb_reserved_estimated b - r) = sum_mset (out - {#r#})"
    "pb_reserved_estimated b = r + sum_mset (out - {#r#})"
    using assms(1) b sum by (auto simp: ledger_ok_def)
  from settle_effect(4) [OF assms(2,3), of b] b True obtain b' where
    b': "budget_for_project db' p = Some b'"
      "pb_reserved_estimated b' = max 0 (pb_reserved_estimated b - r)"
      "pb_spent_estimated b' = pb_spent_estimated b + or_zero est"
      "pb_enabled b' = pb_enabled b" "pb_hard_limit b' = pb_hard_limit b" by auto
  have "within_limit b over" using assms(1) b by (simp add: ledger_ok_def)
  then have "within_limit b' (over + max 0 (or_zero est - r))"
    using b'(2-5) res by (auto simp: within_limit_def max_def)
  moreover have "0 \<le> over" using assms(1) by (simp add: ledger_ok_def)
  ultimately show ?thesis using True b'(1,2) res(1) pos by (simp add: ledger_ok_def)
next
  case False
  have "budget_for_project db' p = budget_for_project db p"
  proof (cases "budget_for_project db q")
    case None
    then show ?thesis using settle_effect(3) [OF assms(2,3)] by simp
  next
    case (Some b)
    then show ?thesis using settle_effect(4) [OF assms(2,3) Some] False by metis
  qed
  then show ?thesis using False assms(1) by (simp add: ledger_ok_def)
qed

lemma budget_history_inv: "budget_history s p db out over \<Longrightarrow> pkeys_ok db \<and> ledger_ok db p out over"
proof (induction rule: budget_history.induct)
  case (fresh db)
  then show ?case by (simp add: ledger_ok_def)
next
  case (created db out over q db' b)
  then show ?case using ledger_created get_or_create_effect(2) by blast
next
  case (limited db out over q soft hard currency period enabled db' b)
  then show ?case using ledger_limited [OF _ limited(2)] set_budget_effect(2) [OF limited(2)] by simp
next
  case (reserved db out over q cost db' d)
  moreover have "pkeys_ok db'" using reserve_txn_effect [OF reserved(2)] reserved(4) by blast
  ultimately show ?case using ledger_reserved by blast
next
  case (settled db out over q r est billed db' u)
  have "pkeys_ok db'" using settle_effect(2) [OF settled(2)] settled(4) by blast
  then show ?case using ledger_settled [OF _ settled(2)] settled(3,4) by simp
qed

section \<open>Properties\<close>

text \<open>
  C19. What the hard limit guarantees under concurrency: in every interleaving of budget transactions
  the amount reserved is exactly the sum of the reservations not yet settled, and while the budget is
  enabled, what is spent and reserved together passes the hard limit by at most the overruns of
  settled calls since the limits were last set, where an overrun is what the actual price of a call
  exceeds its reservation by. Without overruns the hard limit holds; with them it does not.
\<close>

theorem hard_budget_holds:
  assumes "budget_history s p db outstanding over" and "budget_for_project db p = Some b"
  shows "pb_reserved_estimated b = sum_mset outstanding \<and>
    (pb_enabled b \<longrightarrow> pb_spent_estimated b + pb_reserved_estimated b \<le> pb_hard_limit b + over)"
  using budget_history_inv [OF assms(1)] assms(2) by (auto simp: ledger_ok_def within_limit_def)

text \<open>
  The outcome of a reservation, in full: without a budget row it is an internal error; a
  disabled budget reserves nothing; otherwise the call is refused exactly when it would pass the
  hard limit, and allowed with a warning exactly when it reaches the soft limit. A reservation
  that is released leaves the budget as it was.
\<close>

theorem reservation_outcome:
  assumes "pdb_ok db" and "pkeys_ok db" and "0 \<le> cost"
  shows "case budget_for_project db p of
      None \<Rightarrow> reserve_txn db p cost = Inl RuntimeError
    | Some b \<Rightarrow>
        if \<not> pb_enabled b
        then \<exists>d. reserve_txn db p cost = Inr (db, d) \<and> bd_reserved_amount d = 0 \<and> \<not> bd_warning d
        else if pb_hard_limit b < pb_spent_estimated b + pb_reserved_estimated b + cost
        then reserve_txn db p cost = Inl BudgetBlockedError
        else \<exists>db' d. reserve_txn db p cost = Inr (db', d) \<and> bd_reserved_amount d = cost \<and>
          bd_warning d = (pb_soft_limit b \<le> pb_spent_estimated b + pb_reserved_estimated b + cost) \<and>
          (\<exists>db''. release_reservation db' p cost = Inr (db'', ()) \<and>
             (\<forall>q. budget_for_project db'' q = budget_for_project db q))"
proof (cases "budget_for_project db p")
  case None
  then show ?thesis by (simp add: reserve_txn_def)
next
  case (Some b)
  let ?b1 = "b\<lparr>pb_reserved_estimated := pb_reserved_estimated b + cost\<rparr>"
  let ?db1 = "save_budget db ?b1"
  have b: "b \<in> set (t_rows (pd_budgets db))" "pb_project_id b = p"
    using budget_for_project_row [OF Some] by auto
  have row: "budget_row_ok b" using assms(1) b(1) by (simp add: pdb_ok_def budgets_ok_def)
  have ok1: "pdb_ok ?db1" by (rule save_budget_ok [OF assms(1) b(1)]) (use row assms(2,3) in \<open>simp_all add: budget_row_ok_def\<close>)
  have look1: "budget_for_project ?db1 q = (if q = p then Some ?b1 else budget_for_project db q)" for q
    using save_budget_lookup [OF assms(2) Some, of ?b1 q] b(2) by simp
  have keys1: "pkeys_ok ?db1" using assms(2) by simp
  let ?db2 = "save_budget ?db1 b"
  have "b\<lparr>pb_reserved_estimated := max 0 (pb_reserved_estimated ?b1 - cost)\<rparr> = b"
    using row by (simp add: budget_row_ok_def)
  then have s: "settle ?db1 p cost None None = pcommit ?db2 ()"
    using look1 by (simp add: settle_def Let_def)
  have "?b1 \<in> set (t_rows (pd_budgets ?db1))"
    using look1 [of p] budget_for_project_row by auto
  then have ok2: "pdb_ok ?db2" by (rule save_budget_ok [OF ok1]) (use row keys1 in simp_all)
  have "budget_for_project ?db2 q = budget_for_project db q" for q
    using save_budget_lookup [OF keys1, of p ?b1 b q] look1 b(2) Some by simp
  then have rel: "\<exists>db''. release_reservation ?db1 p cost = Inr (db'', ()) \<and>
      (\<forall>q. budget_for_project db'' q = budget_for_project db q)"
    using s ok2 by (simp add: release_reservation_def pcommit_ok)
  show ?thesis
    using Some rel ok1 by (simp add: reserve_txn_def Let_def pcommit_ok assms(1))
qed

definition demo_pd_project :: project where
  "demo_pd_project = \<lparr>pr_id = 1, pr_title = ''Novel'', pr_genre = ''SF'', pr_premise = ''p'',
     pr_target_chapters = 3, pr_target_words_per_chapter = 1000, pr_language = ''en'',
     pr_tone = None, pr_audience = None, pr_additional_requirements = [], pr_logline = None,
     pr_themes = [], pr_world_summary = None, pr_central_conflict = None,
     pr_ending_direction = None, pr_style_guide = None, pr_status = ProjectStatus_CREATED,
     pr_model_profile = ModelProfile_OFFLINE, pr_privacy_policy = PrivacyPolicy_OFFLINE\<rparr>"

definition demo_pdb :: pdb where
  "demo_pdb = empty_pdb\<lparr>pd_projects := \<lparr>t_rows = [demo_pd_project], t_next = 2\<rparr>\<rparr>"

definition pcommitted :: "(pdb \<times> 'a) result \<Rightarrow> pdb" where
  "pcommitted r = (case r of Inl _ \<Rightarrow> empty_pdb | Inr (db, _) \<Rightarrow> db)"

definition demo_budgeted :: pdb where
  "demo_budgeted = pcommitted (get_or_create default_settings demo_pdb 1)"

definition demo_reserved :: pdb where
  "demo_reserved = pcommitted (reserve_txn demo_budgeted 1 4)"

lemma pcommitted_eq: "\<not> isl r \<Longrightarrow> \<exists>a. r = Inr (pcommitted r, a)"
  by (cases r) (auto simp: pcommitted_def)

text \<open>A call that was reserved at 4 and cost 12 takes the project past its hard limit of 10.\<close>

definition demo_overrun :: pdb where
  "demo_overrun = pcommitted (settle demo_reserved 1 4 (Some 12) None)"

theorem hard_budget_holds_applied:
  "map_option (\<lambda>b. (pb_spent_estimated b, pb_reserved_estimated b, pb_hard_limit b))
       (budget_for_project demo_overrun 1) = Some (12, 0, 10) \<and>
   \<not> (\<exists>b. budget_for_project demo_overrun 1 = Some b \<and>
      pb_hard_limit b + 8 < pb_spent_estimated b + pb_reserved_estimated b)"
proof
  show f: "map_option (\<lambda>b. (pb_spent_estimated b, pb_reserved_estimated b, pb_hard_limit b))
       (budget_for_project demo_overrun 1) = Some (12, 0, 10)"
    by code_simp
  have "\<not> isl (get_or_create default_settings demo_pdb 1)" "\<not> isl (reserve_txn demo_budgeted 1 4)"
    "\<not> isl (settle demo_reserved 1 4 (Some 12) None)"
    by code_simp+
  then obtain b d u where r: "get_or_create default_settings demo_pdb 1 = Inr (demo_budgeted, b)"
    "reserve_txn demo_budgeted 1 4 = Inr (demo_reserved, d)"
    "settle demo_reserved 1 4 (Some 12) None = Inr (demo_overrun, u)"
    using pcommitted_eq unfolding demo_budgeted_def demo_reserved_def demo_overrun_def by metis
  have d: "bd_reserved_amount d = 4"
  proof -
    have "map_sum id (\<lambda>(_, d). bd_reserved_amount d) (reserve_txn demo_budgeted 1 4) = Inr 4" by code_simp
    then show ?thesis using r(2) by simp
  qed
  have "pkeys_ok demo_pdb" "budget_for_project demo_pdb 1 = None" by code_simp+
  then have "budget_history default_settings 1 demo_pdb {#} 0" by (rule budget_history.fresh)
  from budget_history.reserved [OF budget_history.created [OF this r(1)] r(2)] d
  have "budget_history default_settings 1 demo_reserved {#4#} 0" by simp
  from budget_history.settled [OF this r(3)]
  have h: "budget_history default_settings 1 demo_overrun {#} 8" by (simp add: or_zero_def)
  have en: "map_option pb_enabled (budget_for_project demo_overrun 1) = Some True" by code_simp
  show "\<not> (\<exists>b. budget_for_project demo_overrun 1 = Some b \<and>
      pb_hard_limit b + 8 < pb_spent_estimated b + pb_reserved_estimated b)"
    using hard_budget_holds [OF h] en by fastforce
qed

end
