(* ===== verification/Model_Routing.thy ===== *)
theory Model_Routing
  imports Settings "HOL-Library.List_Lexorder" "HOL-Library.Char_ord" "HOL-Library.Product_Lexorder"
begin

text \<open>
  Which model serves a task: the validated descriptions of models and routes
  (\<open>src/src/storyforge/providers/models.py\<close>), the registry with its built-in models and the merge
  of a price list (\<open>providers/registry.py\<close>) and the router (\<open>providers/routing.py\<close>). Reading a JSON
  file is an argument: the models or prices it holds, or the error of reading it. A date is its
  ISO text.
\<close>

section \<open>Models: providers/models.py\<close>

record model_reference =
  mr_provider :: string
  mr_model :: string

definition reference_key :: "model_reference \<Rightarrow> string \<times> string" where
  "reference_key r = (mr_provider r, mr_model r)"

text \<open>The validation of a \<open>ModelReference\<close>: whitespace is stripped, then the lengths are checked.\<close>

definition make_reference :: "string \<Rightarrow> string \<Rightarrow> model_reference result" where
  "make_reference provider model =
     (let p = strip provider; m = strip model
      in if 1 \<le> length p \<and> length p \<le> 100 \<and> 1 \<le> length m \<and> length m \<le> 200
         then Inr \<lparr>mr_provider = p, mr_model = m\<rparr> else Inl ValueError)"

datatype model_type = Chat_Model | Embedding_Model

record model_capability =
  mc_provider :: string
  mc_model :: string
  mc_model_type :: model_type
  mc_context_window :: int
  mc_max_output_tokens :: int
  mc_supports_structured_output :: bool
  mc_supports_json_schema :: bool
  mc_supports_tool_calling :: bool
  mc_supports_batch :: bool
  mc_supports_embeddings :: bool
  mc_embedding_dimensions :: "int option"
  mc_input_cost_per_million :: "rat option"
  mc_output_cost_per_million :: "rat option"
  mc_cached_input_cost_per_million :: "rat option"
  mc_currency :: string
  mc_pricing_version :: "string option"
  mc_pricing_effective_date :: "string option"
  mc_enabled :: bool
  mc_external :: bool

definition capability_key :: "model_capability \<Rightarrow> string \<times> string" where
  "capability_key c = (mc_provider c, mc_model c)"

definition given_ge :: "rat \<Rightarrow> rat option \<Rightarrow> bool" where
  "given_ge b x \<longleftrightarrow> (case x of None \<Rightarrow> True | Some v \<Rightarrow> b \<le> v)"

definition currency_ok :: "string \<Rightarrow> bool" where
  "currency_ok c \<longleftrightarrow> length c = 3 \<and> list_all (\<lambda>ch. ch \<in> set ''ABCDEFGHIJKLMNOPQRSTUVWXYZ'') c"

definition truthy_text :: "string option \<Rightarrow> bool" where
  "truthy_text x \<longleftrightarrow> (case x of None \<Rightarrow> False | Some s \<Rightarrow> s \<noteq> [])"

definition capability_fields_ok :: "model_capability \<Rightarrow> bool" where
  "capability_fields_ok c \<longleftrightarrow>
     1 \<le> length (mc_provider c) \<and> length (mc_provider c) \<le> 100 \<and>
     1 \<le> length (mc_model c) \<and> length (mc_model c) \<le> 200 \<and>
     0 < mc_context_window c \<and> 0 \<le> mc_max_output_tokens c \<and>
     (case mc_embedding_dimensions c of None \<Rightarrow> True | Some d \<Rightarrow> 0 < d) \<and>
     given_ge 0 (mc_input_cost_per_million c) \<and> given_ge 0 (mc_output_cost_per_million c) \<and>
     given_ge 0 (mc_cached_input_cost_per_million c) \<and> currency_ok (mc_currency c)"

definition capability_shape_ok :: "model_capability \<Rightarrow> bool" where
  "capability_shape_ok c \<longleftrightarrow>
     (if mc_model_type c = Embedding_Model
      then mc_supports_embeddings c \<and> mc_embedding_dimensions c \<noteq> None
      else \<not> mc_supports_embeddings c \<and> mc_embedding_dimensions c = None) \<and>
     (mc_supports_json_schema c \<longrightarrow> mc_supports_structured_output c) \<and>
     (mc_input_cost_per_million c \<noteq> None \<or> mc_output_cost_per_million c \<noteq> None \<or>
        mc_cached_input_cost_per_million c \<noteq> None \<longrightarrow>
      truthy_text (mc_pricing_version c) \<and> mc_pricing_effective_date c \<noteq> None)"

text \<open>Building a \<open>ModelCapability\<close> from values: texts are stripped, then everything is checked.\<close>

definition make_capability :: "model_capability \<Rightarrow> model_capability result" where
  "make_capability raw =
     (let c = raw\<lparr>mc_provider := strip (mc_provider raw), mc_model := strip (mc_model raw),
                  mc_currency := strip (mc_currency raw),
                  mc_pricing_version := map_option strip (mc_pricing_version raw)\<rparr>
      in if capability_fields_ok c \<and> capability_shape_ok c then Inr c else Inl ValueError)"

definition pricing_known :: "model_capability \<Rightarrow> bool" where
  "pricing_known c \<longleftrightarrow>
     (if mc_model_type c = Embedding_Model then mc_input_cost_per_million c \<noteq> None
      else mc_input_cost_per_million c \<noteq> None \<and> mc_output_cost_per_million c \<noteq> None)"

record model_route =
  rt_task_type :: task_type
  rt_primary_model :: model_reference
  rt_fallback_models :: "model_reference list"
  rt_max_input_tokens :: int
  rt_max_output_tokens :: int
  rt_timeout_seconds :: rat
  rt_retry_policy :: string
  rt_budget_policy :: string

definition make_route ::
  "task_type \<Rightarrow> model_reference \<Rightarrow> model_reference list \<Rightarrow> int \<Rightarrow> int \<Rightarrow> rat \<Rightarrow> model_route result" where
  "make_route task_type primary fallbacks max_input max_output timeout =
     (if 0 < max_input \<and> 0 < max_output \<and> 0 < timeout \<and>
         distinct (map reference_key (primary # fallbacks))
      then Inr \<lparr>rt_task_type = task_type, rt_primary_model = primary,
                rt_fallback_models = fallbacks, rt_max_input_tokens = max_input,
                rt_max_output_tokens = max_output, rt_timeout_seconds = timeout,
                rt_retry_policy = ''default'', rt_budget_policy = ''project_and_workflow''\<rparr>
      else Inl ValueError)"

section \<open>Registry: providers/registry.py\<close>

type_synonym provider_registry = "((string \<times> string) \<times> model_capability) list"

fun register_all :: "provider_registry \<Rightarrow> model_capability list \<Rightarrow> provider_registry result" where
  "register_all models [] = Inr models"
| "register_all models (c # cs) =
     (if map_of models (capability_key c) \<noteq> None then Inl ConfigurationError
      else register_all (models @ [(capability_key c, c)]) cs)"

definition make_registry :: "model_capability list \<Rightarrow> provider_registry result" where
  "make_registry capabilities =
     and_then (register_all [] capabilities)
       (\<lambda>models. if models = [] then Inl ConfigurationError else Inr models)"

definition provider_registry_get :: "provider_registry \<Rightarrow> model_reference \<Rightarrow> model_capability result" where
  "provider_registry_get models reference =
     (case map_of models (reference_key reference) of
        None \<Rightarrow> Inl ConfigurationError
      | Some c \<Rightarrow> if \<not> mc_enabled c then Inl ConfigurationError else Inr c)"

definition provider_registry_list :: "provider_registry \<Rightarrow> model_capability list" where
  "provider_registry_list models = sort_key capability_key (map snd models)"

record pricing_update =
  pu_provider :: string
  pu_model :: string
  pu_input_cost_per_million :: "rat option"
  pu_output_cost_per_million :: "rat option"
  pu_cached_input_cost_per_million :: "rat option"
  pu_currency :: string
  pu_pricing_version :: string
  pu_pricing_effective_date :: string

definition update_key :: "pricing_update \<Rightarrow> string \<times> string" where
  "update_key u = (pu_provider u, pu_model u)"

definition with_prices :: "model_capability \<Rightarrow> pricing_update \<Rightarrow> model_capability" where
  "with_prices c u =
     c\<lparr>mc_provider := pu_provider u, mc_model := pu_model u,
       mc_input_cost_per_million := pu_input_cost_per_million u,
       mc_output_cost_per_million := pu_output_cost_per_million u,
       mc_cached_input_cost_per_million := pu_cached_input_cost_per_million u,
       mc_currency := pu_currency u, mc_pricing_version := Some (pu_pricing_version u),
       mc_pricing_effective_date := Some (pu_pricing_effective_date u)\<rparr>"

fun merge_prices ::
  "pricing_update list \<Rightarrow> model_capability list \<Rightarrow> model_capability list result" where
  "merge_prices prices [] = Inr []"
| "merge_prices prices (c # cs) =
     (case find (\<lambda>u. update_key u = capability_key c) prices of
        None \<Rightarrow> and_then (merge_prices prices cs) (\<lambda>rest. Inr (c # rest))
      | Some u \<Rightarrow> and_then (make_capability (with_prices c u))
          (\<lambda>c'. and_then (merge_prices prices cs) (\<lambda>rest. Inr (c' # rest))))"

definition apply_pricing ::
  "model_capability list \<Rightarrow> pricing_update list result \<Rightarrow> model_capability list result" where
  "apply_pricing capabilities file =
     and_then file (\<lambda>prices.
       if \<not> distinct (map update_key prices) then Inl ConfigurationError
       else if \<not> set (map update_key prices) \<subseteq> set (map capability_key capabilities)
       then Inl ConfigurationError
       else merge_prices prices capabilities)"

definition llm_provider_text :: "setting_llm_provider \<Rightarrow> string" where
  "llm_provider_text p =
     (case p of LlmProvider_mock \<Rightarrow> ''mock'' | LlmProvider_openai_compatible \<Rightarrow> ''openai-compatible'')"

definition embedding_provider_text :: "setting_embedding_provider \<Rightarrow> string" where
  "embedding_provider_text p =
     (case p of EmbeddingProvider_mock \<Rightarrow> ''mock''
      | EmbeddingProvider_openai_compatible \<Rightarrow> ''openai-compatible'')"

text \<open>A chat model with the mock's capabilities; the other built-in models vary it.\<close>

definition mock_chat :: "string \<Rightarrow> int \<Rightarrow> model_capability" where
  "mock_chat model context_window =
     \<lparr>mc_provider = ''mock'', mc_model = model, mc_model_type = Chat_Model,
      mc_context_window = context_window, mc_max_output_tokens = 16384,
      mc_supports_structured_output = True, mc_supports_json_schema = True,
      mc_supports_tool_calling = False, mc_supports_batch = False, mc_supports_embeddings = False,
      mc_embedding_dimensions = None, mc_input_cost_per_million = Some 0,
      mc_output_cost_per_million = Some 0, mc_cached_input_cost_per_million = Some 0,
      mc_currency = ''USD'', mc_pricing_version = Some ''mock-v1'',
      mc_pricing_effective_date = Some ''2026-07-17'', mc_enabled = True, mc_external = False\<rparr>"

definition mock_embedding :: model_capability where
  "mock_embedding = (mock_chat ''mock-hash-embedding-v1'' 8192)
     \<lparr>mc_model_type := Embedding_Model, mc_max_output_tokens := 0,
      mc_supports_structured_output := False, mc_supports_json_schema := False,
      mc_supports_batch := True, mc_supports_embeddings := True,
      mc_embedding_dimensions := Some 64\<rparr>"

definition external_chat :: "settings \<Rightarrow> model_capability" where
  "external_chat s =
     \<lparr>mc_provider = llm_provider_text (s_llm_provider s), mc_model = s_llm_model s,
      mc_model_type = Chat_Model, mc_context_window = 128000,
      mc_max_output_tokens = s_llm_max_output_tokens s, mc_supports_structured_output = True,
      mc_supports_json_schema = (s_llm_structured_output_mode s = OutputMode_json_schema),
      mc_supports_tool_calling = False, mc_supports_batch = False, mc_supports_embeddings = False,
      mc_embedding_dimensions = None, mc_input_cost_per_million = None,
      mc_output_cost_per_million = None, mc_cached_input_cost_per_million = None,
      mc_currency = ''USD'', mc_pricing_version = None, mc_pricing_effective_date = None,
      mc_enabled = True, mc_external = True\<rparr>"

definition external_embedding :: "settings \<Rightarrow> model_capability" where
  "external_embedding s = (external_chat s)
     \<lparr>mc_provider := embedding_provider_text (s_embedding_provider s),
      mc_model := s_embedding_model s, mc_model_type := Embedding_Model,
      mc_context_window := 8192, mc_max_output_tokens := 0,
      mc_supports_structured_output := False, mc_supports_json_schema := False,
      mc_supports_batch := True, mc_supports_embeddings := True,
      mc_embedding_dimensions := Some (s_embedding_dimensions s)\<rparr>"

fun make_all :: "model_capability list \<Rightarrow> model_capability list result" where
  "make_all [] = Inr []"
| "make_all (c # cs) = and_then (make_capability c) (\<lambda>c'. and_then (make_all cs) (\<lambda>r. Inr (c' # r)))"

definition build_provider_registry ::
  "settings \<Rightarrow> model_capability list result \<Rightarrow> pricing_update list result \<Rightarrow> provider_registry result" where
  "build_provider_registry s models_file pricing_file =
     (let priced = (\<lambda>caps. and_then
            (if s_pricing_config_path s \<noteq> None then apply_pricing caps pricing_file else Inr caps)
            make_registry)
      in if s_provider_config_path s \<noteq> None then and_then models_file priced
         else and_then (make_all
           ([mock_chat ''mock-storyforge-v1'' 128000, mock_chat ''mock-storyforge-fallback-v1'' 256000,
             mock_embedding] @
            (if s_llm_provider s \<noteq> LlmProvider_mock then [external_chat s] else []) @
            (if s_embedding_provider s \<noteq> EmbeddingProvider_mock then [external_embedding s] else [])))
           priced)"

section \<open>Router: providers/routing.py\<close>

definition prompt_tasks :: "(string \<times> task_type) list" where
  "prompt_tasks =
     [(''planner'', TaskType_PLANNING), (''writer'', TaskType_CHAPTER_DRAFTING),
      (''fact_extractor'', TaskType_FACT_EXTRACTION), (''critic'', TaskType_LITERARY_CRITIQUE),
      (''revision'', TaskType_REVISION), (''book_critic'', TaskType_BOOK_CRITIQUE),
      (''provider.smoke'', TaskType_LITERARY_CRITIQUE)]"

definition task_for_prompt :: "string \<Rightarrow> task_type result" where
  "task_for_prompt name = or_raise ConfigurationError (map_of prompt_tasks name)"

definition is_embedding_task :: "task_type \<Rightarrow> bool" where
  "is_embedding_task t \<longleftrightarrow> t \<in> {TaskType_EMBEDDING_DOCUMENT, TaskType_EMBEDDING_QUERY}"

text \<open>The checks of a selected model, the same for the primary and every fallback.\<close>

definition check_capability :: "settings \<Rightarrow> bool \<Rightarrow> model_capability \<Rightarrow> unit result" where
  "check_capability s is_embedding c =
     (if mc_model_type c \<noteq> (if is_embedding then Embedding_Model else Chat_Model)
      then Inl ConfigurationError
      else if \<not> is_embedding \<and> \<not> mc_supports_structured_output c then Inl ConfigurationError
      else if is_embedding \<and> mc_embedding_dimensions c \<noteq> Some (s_embedding_dimensions s)
      then Inl ConfigurationError
      else Inr ())"

fun check_fallbacks :: "provider_registry \<Rightarrow> settings \<Rightarrow> bool \<Rightarrow> model_reference list \<Rightarrow> unit result" where
  "check_fallbacks models s is_embedding [] = Inr ()"
| "check_fallbacks models s is_embedding (r # rs) =
     and_then (provider_registry_get models r) (\<lambda>c.
       and_then (check_capability s is_embedding c) (\<lambda>_. check_fallbacks models s is_embedding rs))"

definition choose_models ::
  "settings \<Rightarrow> bool \<Rightarrow> model_profile \<Rightarrow> (model_reference \<times> model_reference list) result" where
  "choose_models s is_embedding profile =
     (if is_embedding
      then and_then (make_reference (embedding_provider_text (s_embedding_provider s)) (s_embedding_model s))
             (\<lambda>p. Inr (p, []))
      else if profile = ModelProfile_OFFLINE \<or> s_llm_provider s = LlmProvider_mock
      then Inr (\<lparr>mr_provider = ''mock'', mr_model = ''mock-storyforge-v1''\<rparr>,
                [\<lparr>mr_provider = ''mock'', mr_model = ''mock-storyforge-fallback-v1''\<rparr>])
      else and_then (make_reference (llm_provider_text (s_llm_provider s)) (s_llm_model s))
             (\<lambda>p. Inr (p, [])))"

definition route :: "provider_registry \<Rightarrow> settings \<Rightarrow> task_type \<Rightarrow> model_profile \<Rightarrow> model_route result" where
  "route models s task_type profile =
     (let is_embedding = is_embedding_task task_type
      in and_then (choose_models s is_embedding profile) (\<lambda>(primary, fallbacks).
           and_then (provider_registry_get models primary) (\<lambda>c.
             and_then (check_capability s is_embedding c) (\<lambda>_.
               and_then (check_fallbacks models s is_embedding fallbacks) (\<lambda>_.
                 make_route task_type primary fallbacks (min (mc_context_window c) 128000)
                   (if is_embedding then max 1 (mc_context_window c) else s_llm_max_output_tokens s)
                   (if is_embedding then s_embedding_timeout_seconds s else s_llm_timeout_seconds s))))))"

section \<open>What the registry and the router guarantee\<close>

definition registry_ok :: "provider_registry \<Rightarrow> bool" where
  "registry_ok models \<longleftrightarrow> models \<noteq> [] \<and> distinct (map fst models) \<and>
     (\<forall>(k, c) \<in> set models. k = capability_key c)"

lemma register_all_ok:
  assumes "register_all models cs = Inr models'" and "distinct (map fst models)"
    and "\<forall>(k, c) \<in> set models. k = capability_key c"
  shows "distinct (map fst models') \<and> (\<forall>(k, c) \<in> set models'. k = capability_key c) \<and>
    map snd models' = map snd models @ cs"
  using assms
proof (induction models cs rule: register_all.induct)
  case (2 models c cs)
  have new: "map_of models (capability_key c) = None" using 2(2) by (auto split: if_splits)
  then have "distinct (map fst (models @ [(capability_key c, c)]))"
    using 2(3) by (simp add: map_of_eq_None_iff)
  then show ?case using 2 new by simp
qed simp

lemma make_registry_ok:
  "make_registry cs = Inr models \<Longrightarrow> registry_ok models \<and> map snd models = cs"
  using register_all_ok [of "[]" cs models]
  by (auto simp: make_registry_def registry_ok_def split: if_splits)

lemma registry_get_key:
  "registry_ok models \<Longrightarrow> provider_registry_get models r = Inr c \<Longrightarrow>
   c \<in> set (map snd models) \<and> capability_key c = reference_key r \<and> mc_enabled c"
  by (force simp: provider_registry_get_def registry_ok_def split: option.splits if_splits
      dest!: map_of_SomeD)

lemma check_fallbacks_ok:
  "check_fallbacks models s e rs = Inr u \<Longrightarrow>
   \<forall>r \<in> set rs. \<exists>c. provider_registry_get models r = Inr c \<and> check_capability s e c = Inr ()"
  by (induction rs) auto

end
