(* ===== verification/Provider_Calls.thy ===== *)
theory Provider_Calls
  imports Budget_Service Model_Routing
begin

text \<open>
  What surrounds one call of a model: token estimates and prices
  (\<open>src/src/storyforge/usage/pricing.py\<close>, \<open>usage/models.py\<close>), the idempotency claim of a request
  (\<open>reliability/idempotency.py\<close>) and the egress policy (\<open>privacy/policy.py\<close>). The text of a prompt
  is the list of its code points.
\<close>

section \<open>Tokens and prices\<close>

type_synonym codepoints = "int list"

definition estimate_tokens :: "codepoints \<Rightarrow> int" where
  "estimate_tokens content =
     (if content = [] then 0
      else
        let cjk = int (length (filter (\<lambda>c. 13312 \<le> c \<and> c \<le> 40959) content));
            other = int (length content) - cjk
        in max 1 (cjk + \<lceil>of_int other / (4 :: rat)\<rceil>))"

record token_usage =
  tu_input_tokens :: int
  tu_output_tokens :: int
  tu_cached_input_tokens :: int
  tu_total_tokens :: int
  tu_source :: token_usage_source

definition usage_ok :: "token_usage \<Rightarrow> bool" where
  "usage_ok u \<longleftrightarrow> 0 \<le> tu_input_tokens u \<and> 0 \<le> tu_output_tokens u \<and> 0 \<le> tu_cached_input_tokens u \<and>
     0 \<le> tu_total_tokens u \<and> tu_total_tokens u = tu_input_tokens u + tu_output_tokens u \<and>
     tu_cached_input_tokens u \<le> tu_input_tokens u"

definition make_usage :: "token_usage \<Rightarrow> token_usage result" where
  "make_usage u = (if usage_ok u then Inr u else Inl ValueError)"

definition pricing_snapshot_of :: "model_capability \<Rightarrow> pricing_snapshot" where
  "pricing_snapshot_of c =
     \<lparr>ps_provider = mc_provider c, ps_model = mc_model c,
      ps_input_cost_per_million = mc_input_cost_per_million c,
      ps_output_cost_per_million = mc_output_cost_per_million c,
      ps_cached_input_cost_per_million = mc_cached_input_cost_per_million c,
      ps_currency = mc_currency c, ps_pricing_version = mc_pricing_version c,
      ps_effective_date = mc_pricing_effective_date c\<rparr>"

record price_estimate =
  pe_amount :: "rat option"
  pe_currency :: string
  pe_snapshot :: pricing_snapshot

text \<open>\<open>quantize\<close> to eight places, \<open>ROUND_HALF_UP\<close>: ties away from zero.\<close>

definition quantize :: "rat \<Rightarrow> rat" where
  "quantize x =
     (if 0 \<le> x then of_int \<lfloor>x * 100000000 + 1 / 2\<rfloor> / 100000000
      else - (of_int \<lfloor>- x * 100000000 + 1 / 2\<rfloor> / 100000000))"

definition estimate_price :: "model_capability \<Rightarrow> token_usage \<Rightarrow> price_estimate" where
  "estimate_price c u =
     (let unknown = \<lparr>pe_amount = None, pe_currency = mc_currency c, pe_snapshot = pricing_snapshot_of c\<rparr>
      in case mc_input_cost_per_million c of
           None \<Rightarrow> unknown
         | Some input_cost \<Rightarrow>
             if tu_output_tokens u \<noteq> 0 \<and> mc_output_cost_per_million c = None then unknown
             else
               let uncached_input = tu_input_tokens u - tu_cached_input_tokens u;
                   cached_rate =
                     (if tu_cached_input_tokens u \<noteq> 0 \<and> mc_cached_input_cost_per_million c = None
                      then Some input_cost else mc_cached_input_cost_per_million c);
                   amount =
                     of_int uncached_input * input_cost / 1000000 +
                     of_int (tu_cached_input_tokens u) * or_zero cached_rate / 1000000 +
                     of_int (tu_output_tokens u) * or_zero (mc_output_cost_per_million c) / 1000000
               in unknown\<lparr>pe_amount := Some (quantize amount)\<rparr>)"

definition local_usage :: "codepoints \<Rightarrow> codepoints \<Rightarrow> token_usage result" where
  "local_usage input_text output_text =
     (let i = estimate_tokens input_text; n = estimate_tokens output_text
      in make_usage \<lparr>tu_input_tokens = i, tu_output_tokens = n, tu_cached_input_tokens = 0,
                     tu_total_tokens = i + n, tu_source = TokenUsageSource_LOCAL_ESTIMATE\<rparr>)"

lemma estimate_tokens_nonneg: "0 \<le> estimate_tokens c"
  by (simp add: estimate_tokens_def Let_def le_max_iff_disj)

lemma estimate_tokens_bound: "estimate_tokens c \<le> int (length c)"
proof (cases c)
  case Nil
  then show ?thesis by (simp add: estimate_tokens_def)
next
  case (Cons x xs)
  let ?n = "length (filter (\<lambda>c. 13312 \<le> c \<and> c \<le> 40959) c)"
  have "?n \<le> length c" by simp
  moreover have "\<lceil>of_int k / (4 :: rat)\<rceil> \<le> k" if "0 \<le> k" for k :: int
    using that by (simp add: ceiling_le_iff)
  ultimately have "int ?n + \<lceil>of_int (int (length c) - int ?n) / (4 :: rat)\<rceil> \<le> int (length c)"
    by (smt (verit, best) of_nat_le_iff)
  then show ?thesis using Cons by (simp add: estimate_tokens_def Let_def)
qed

lemma quantize_mono: "x \<le> y \<Longrightarrow> quantize x \<le> quantize y"
proof -
  assume xy: "x \<le> y"
  let ?r = "\<lambda>a :: rat. of_int \<lfloor>a * 100000000 + 1 / 2\<rfloor> / 100000000 :: rat"
  have floor: "a \<le> b \<Longrightarrow> ?r a \<le> ?r b" for a b :: rat
    by (simp add: divide_right_mono floor_mono)
  have pos: "0 \<le> a \<Longrightarrow> 0 \<le> ?r a" for a :: rat
    using floor [of 0 a] by simp
  consider "0 \<le> x" "0 \<le> y" | "\<not> 0 \<le> x" "0 \<le> y" | "\<not> 0 \<le> x" "\<not> 0 \<le> y" using xy by linarith
  then show ?thesis
  proof cases
    case 1
    then show ?thesis unfolding quantize_def using floor [OF xy] by simp
  next
    case 2
    have "0 \<le> ?r (- x)" "0 \<le> ?r y" using 2 pos [of "- x"] pos [of y] by simp_all
    then have "- ?r (- x) \<le> ?r y" by linarith
    then show ?thesis unfolding quantize_def if_P [OF 2(2)] if_not_P [OF 2(1)] .
  next
    case 3
    have "?r (- y) \<le> ?r (- x)" using floor [of "- y" "- x"] xy by simp
    then have "- ?r (- x) \<le> - ?r (- y)" by linarith
    then show ?thesis unfolding quantize_def if_not_P [OF 3(2)] if_not_P [OF 3(1)] .
  qed
qed

section \<open>Idempotency claims\<close>

definition claim_request :: "pdb \<Rightarrow> string \<Rightarrow> (pdb \<times> bool) result" where
  "claim_request db key =
     (case
        (case claim_for_key db key of
           None \<Rightarrow>
             pcommit (add_claim db \<lparr>ir_id = 0, ir_idempotency_key = key,
                 ir_status = IdempotencyStatus_ACTIVE, ir_provider_call_id = None,
                 ir_response_hash = None, ir_error_code = None\<rparr>) False
         | Some current \<Rightarrow>
             if ir_status current = IdempotencyStatus_SUCCEEDED then pcommit db True
             else if ir_status current = IdempotencyStatus_ACTIVE then Inl IdempotencyConflictError
             else pcommit (save_claim db (current\<lparr>ir_status := IdempotencyStatus_ACTIVE,
                 ir_provider_call_id := None, ir_response_hash := None, ir_error_code := None\<rparr>)) False) of
        Inl e \<Rightarrow> Inl (if e = IntegrityError then IdempotencyConflictError else e)
      | Inr r \<Rightarrow> Inr r)"

definition finish_claim ::
  "pdb \<Rightarrow> string \<Rightarrow> idempotency_status \<Rightarrow> int option \<Rightarrow> string option \<Rightarrow> string option \<Rightarrow>
   (pdb \<times> unit) result" where
  "finish_claim db key status call_id response_hash error_code =
     (case claim_for_key db key of
        None \<Rightarrow> Inl RuntimeError
      | Some current \<Rightarrow>
          pcommit (save_claim db (current\<lparr>ir_status := status, ir_provider_call_id := call_id,
              ir_response_hash := response_hash, ir_error_code := error_code\<rparr>)) ())"

definition claim_succeeded :: "pdb \<Rightarrow> string \<Rightarrow> int \<Rightarrow> string \<Rightarrow> (pdb \<times> unit) result" where
  "claim_succeeded db key call_id response_hash =
     finish_claim db key IdempotencyStatus_SUCCEEDED (Some call_id) (Some response_hash) None"

definition claim_failed :: "pdb \<Rightarrow> string \<Rightarrow> string \<Rightarrow> (pdb \<times> unit) result" where
  "claim_failed db key error_code =
     finish_claim db key IdempotencyStatus_FAILED None None (Some error_code)"

section \<open>Prompts and the egress policy\<close>

record llm_message =
  lm_role :: string
  lm_content :: codepoints

record prompt_request =
  pq_name :: string
  pq_version :: string
  pq_messages :: "llm_message list"

text \<open>
  \<open>ProviderDataPolicy.prepare\<close>, the request that may leave the process. \<open>redact\<close> is
  \<open>RedactionService.redact\<close>, whose redacted text must not be blank (\<open>LLMMessage\<close> checks it; blank
  is no code point but white space).
\<close>

definition blank_text :: "codepoints \<Rightarrow> bool" where
  "blank_text c \<longleftrightarrow> list_all (\<lambda>x. x \<in> {9, 10, 11, 12, 13, 28, 29, 30, 31, 32, 133, 160, 5760,
     8192, 8193, 8194, 8195, 8196, 8197, 8198, 8199, 8200, 8201, 8202, 8232, 8233, 8239, 8287, 12288}) c"

fun redact_messages :: "(codepoints \<Rightarrow> codepoints) \<Rightarrow> llm_message list \<Rightarrow> llm_message list result" where
  "redact_messages redact [] = Inr []"
| "redact_messages redact (m # ms) =
     (let content = redact (lm_content m)
      in if blank_text content then Inl ValueError
         else and_then (redact_messages redact ms) (\<lambda>rest. Inr (m\<lparr>lm_content := content\<rparr> # rest)))"

definition prepare_request ::
  "(codepoints \<Rightarrow> codepoints) \<Rightarrow> prompt_request \<Rightarrow> privacy_policy \<Rightarrow> bool \<Rightarrow> prompt_request result" where
  "prepare_request redact request policy external =
     (if policy = PrivacyPolicy_OFFLINE \<and> external then Inl PrivacyPolicyError
      else if policy \<noteq> PrivacyPolicy_STRICT \<or> \<not> external then Inr request
      else and_then (redact_messages redact (pq_messages request))
             (\<lambda>ms. Inr (request\<lparr>pq_messages := ms\<rparr>)))"

section \<open>Lemmas on claims\<close>

lemma claim_row: "claim_for_key db k = Some r \<Longrightarrow> ir_idempotency_key r = k"
  by (auto simp: claim_for_key_def dest: find_SomeD)

lemma claim_request_frame:
  "claim_request db k = Inr (db', b) \<Longrightarrow>
   pd_budgets db' = pd_budgets db \<and> pd_calls db' = pd_calls db \<and> pd_projects db' = pd_projects db \<and>
   pd_workflow_runs db' = pd_workflow_runs db \<and> pdb_ok db' \<and> (pkeys_ok db \<longrightarrow> pkeys_ok db')"
  by (auto simp: claim_request_def add_claim_def save_claim_def pkeys_ok_def claims.ok_add claims.ok_save
      split: sum.splits option.splits if_splits)

lemma claim_request_claims:
  assumes "claim_request db k = Inr (db', False)" and "pkeys_ok db"
  shows "\<exists>r. claim_for_key db' k = Some r \<and> ir_status r = IdempotencyStatus_ACTIVE"
    and "q \<noteq> k \<Longrightarrow> claim_for_key db' q = claim_for_key db q"
proof -
  have "(\<exists>r. claim_for_key db' k = Some r \<and> ir_status r = IdempotencyStatus_ACTIVE) \<and>
      (q \<noteq> k \<longrightarrow> claim_for_key db' q = claim_for_key db q)"
  proof (cases "claim_for_key db k")
    case None
    then show ?thesis using assms(1)
      by (auto simp: claim_request_def add_claim_lookup split: sum.splits option.splits)
  next
    case (Some r)
    let ?r = "r\<lparr>ir_status := IdempotencyStatus_ACTIVE,
                 ir_provider_call_id := None, ir_response_hash := None, ir_error_code := None\<rparr>"
    have "db' = save_claim db ?r"
      using assms(1) Some by (auto simp: claim_request_def split: sum.splits if_splits)
    then show ?thesis
      using save_claim_lookup [OF assms(2) Some, of ?r] claim_row [OF Some] by simp
  qed
  then show "\<exists>r. claim_for_key db' k = Some r \<and> ir_status r = IdempotencyStatus_ACTIVE"
    "q \<noteq> k \<Longrightarrow> claim_for_key db' q = claim_for_key db q" by blast+
qed

lemma finish_claim_effect:
  assumes "finish_claim db k st cid h e = Inr (db', u)" and "pkeys_ok db"
  shows "pdb_ok db'" "pkeys_ok db'" "pd_budgets db' = pd_budgets db" "pd_calls db' = pd_calls db"
    "pd_projects db' = pd_projects db"
    and "\<exists>r. claim_for_key db' k = Some r \<and> ir_status r = st \<and> ir_provider_call_id r = cid \<and>
      ir_response_hash r = h \<and> ir_error_code r = e"
    and "q \<noteq> k \<Longrightarrow> claim_for_key db' q = claim_for_key db q"
proof -
  obtain r where r: "claim_for_key db k = Some r"
    using assms(1) by (auto simp: finish_claim_def split: option.splits)
  let ?r = "r\<lparr>ir_status := st, ir_provider_call_id := cid, ir_response_hash := h, ir_error_code := e\<rparr>"
  have db': "db' = save_claim db ?r" "pdb_ok db'"
    using assms(1) r by (auto simp: finish_claim_def)
  show "pdb_ok db'" "pkeys_ok db'" "pd_budgets db' = pd_budgets db" "pd_calls db' = pd_calls db"
    "pd_projects db' = pd_projects db"
    using db' assms(2) by (simp_all add: save_claim_def pkeys_ok_def claims.ok_save)
  show "\<exists>r. claim_for_key db' k = Some r \<and> ir_status r = st \<and> ir_provider_call_id r = cid \<and>
      ir_response_hash r = h \<and> ir_error_code r = e"
    "q \<noteq> k \<Longrightarrow> claim_for_key db' q = claim_for_key db q"
    unfolding db'(1) using save_claim_lookup [OF assms(2) r, of ?r] claim_row [OF r] by simp_all
qed

end
