(* ===== verification/Gateway.thy ===== *)
theory Gateway
  imports Provider_Calls Circuit_Breaker Rate_Limiter
begin

text \<open>
  \<open>GovernedLLMProvider.generate\<close> (\<open>src/src/storyforge/providers/gateway.py\<close>): one structured model
  request, from the idempotency claim through privacy, circuit, budget, audit and rate limit to
  the provider, with retries and fallbacks. The providers themselves, clocks, random numbers and
  digests are the environment; \<open>gw_invoked\<close> records the requests handed to a provider.
\<close>

section \<open>State and environment\<close>

record call_context =
  cx_project_id :: "int option"
  cx_workflow_run_id :: "int option"
  cx_chapter_id :: "int option"
  cx_chapter_version_id :: "int option"
  cx_idempotency_scope :: "string option"
  cx_profile :: model_profile
  cx_privacy_policy :: privacy_policy

record llm_response =
  lr_output :: codepoints
  lr_provider :: string
  lr_model :: string
  lr_attempts :: int
  lr_usage :: "token_usage option"
  lr_request_id :: "string option"

record gateway_env =
  ge_settings :: settings
  ge_registry :: provider_registry
  ge_context :: call_context
  ge_providers :: "(string \<times> string) list"
  ge_retry :: retry_policy
  ge_circuit_config :: circuit_config
  ge_limiter_config :: limiter_config
  ge_deadline :: rat
  ge_redact :: "codepoints \<Rightarrow> codepoints"
  ge_invoke :: "nat \<Rightarrow> model_reference \<Rightarrow> prompt_request \<Rightarrow> llm_response result"
  ge_clock :: "nat \<Rightarrow> rat"
  ge_now :: "nat \<Rightarrow> time"
  ge_hash_request :: "string \<times> string \<times> (string \<times> codepoints) list \<Rightarrow> string"
  ge_hash_key :: "(string \<times> json) list \<Rightarrow> string"
  ge_hash_output :: "codepoints \<Rightarrow> string"

text \<open>
  The state of one gateway: the database, the shared breaker and limiter, its result cache, the
  number of clock readings so far and the requests given to providers.
\<close>

record gateway =
  gw_db :: pdb
  gw_circuit :: circuit
  gw_limiter :: limiter
  gw_cache :: "(string \<times> llm_response) list"
  gw_ticks :: nat
  gw_invoked :: "(model_reference \<times> prompt_request) list"

definition tick :: "gateway \<Rightarrow> gateway" where
  "tick gw = gw\<lparr>gw_ticks := gw_ticks gw + 1\<rparr>"

section \<open>Identity of a request\<close>

definition request_hash :: "gateway_env \<Rightarrow> prompt_request \<Rightarrow> string" where
  "request_hash env request =
     ge_hash_request env (pq_name request, pq_version request,
       map (\<lambda>m. (lm_role m, lm_content m)) (pq_messages request))"

definition json_id :: "int option \<Rightarrow> json" where
  "json_id x = (case x of None \<Rightarrow> JNull | Some i \<Rightarrow> JInt i)"

definition gateway_key :: "gateway_env \<Rightarrow> string \<Rightarrow> task_type \<Rightarrow> int option \<Rightarrow> string" where
  "gateway_key env hash task workflow_run_id =
     (let cx = ge_context env
      in ge_hash_key env
           [(''project'', json_id (cx_project_id cx)), (''workflow'', json_id workflow_run_id),
            (''chapter'', json_id (cx_chapter_id cx)), (''version'', json_id (cx_chapter_version_id cx)),
            (''scope'', (case cx_idempotency_scope cx of None \<Rightarrow> JNull | Some s \<Rightarrow> JStr s)),
            (''task'', JStr (task_type_value task)),
            (''profile'', JStr (model_profile_value (cx_profile cx))), (''request_hash'', JStr hash)])"

definition effective_workflow_run_id :: "gateway_env \<Rightarrow> pdb \<Rightarrow> int option" where
  "effective_workflow_run_id env db =
     (let cx = ge_context env
      in case cx_workflow_run_id cx of
           Some i \<Rightarrow> Some i
         | None \<Rightarrow>
             (case (cx_project_id cx, cx_chapter_id cx) of
                (Some p, Some c) \<Rightarrow>
                  (let runs = filter (\<lambda>r. wr_project_id r = p \<and> wr_chapter_id r = c \<and>
                         wr_status r \<in> {WorkflowRunStatus_PENDING, WorkflowRunStatus_RUNNING,
                                        WorkflowRunStatus_PAUSED})
                       (t_rows (pd_workflow_runs db))
                   in if runs = [] then None else Some (Max (set (map wr_id runs))))
              | _ \<Rightarrow> None))"

section \<open>Audit rows\<close>

definition status_for_error :: "exn \<Rightarrow> provider_call_status" where
  "status_for_error e =
     (if e = BudgetBlockedError then ProviderCallStatus_BUDGET_BLOCKED
      else if e \<in> {ProviderRateLimitError, LLMRateLimitError} then ProviderCallStatus_RATE_LIMITED
      else if e = LLMTimeoutError then ProviderCallStatus_TIMED_OUT
      else if e = CircuitOpenError then ProviderCallStatus_CIRCUIT_OPEN
      else ProviderCallStatus_FAILED)"

text \<open>What identifies the rows of one request: its name, hash, key, task and workflow run.\<close>

record request_identity =
  ri_request :: prompt_request
  ri_task :: task_type
  ri_hash :: string
  ri_key :: string
  ri_workflow_run_id :: "int option"

definition new_call ::
  "gateway_env \<Rightarrow> request_identity \<Rightarrow> model_reference \<Rightarrow> int \<Rightarrow> int \<Rightarrow> pricing_snapshot option \<Rightarrow> time \<Rightarrow>
   provider_call" where
  "new_call env ri reference attempt fallback_index price_snapshot now =
     (let cx = ge_context env
      in \<lparr>pc_id = 0, pc_project_id = cx_project_id cx, pc_workflow_run_id = ri_workflow_run_id ri,
          pc_chapter_id = cx_chapter_id cx, pc_chapter_version_id = cx_chapter_version_id cx,
          pc_task_type = ri_task ri, pc_provider = mr_provider reference, pc_model = mr_model reference,
          pc_profile = cx_profile cx, pc_privacy_policy = cx_privacy_policy cx,
          pc_prompt_name = pq_name (ri_request ri), pc_prompt_version = pq_version (ri_request ri),
          pc_request_hash = ri_hash ri, pc_idempotency_key = ri_key ri,
          pc_status = ProviderCallStatus_RUNNING, pc_attempt = attempt,
          pc_fallback_index = fallback_index,
          pc_fallback_reason = (if fallback_index \<noteq> 0 then Some ''primary_failure'' else None),
          pc_input_tokens = 0, pc_output_tokens = 0, pc_cached_input_tokens = 0, pc_total_tokens = 0,
          pc_usage_source = TokenUsageSource_UNKNOWN, pc_estimated_cost = None, pc_billed_cost = None,
          pc_currency = (case price_snapshot of None \<Rightarrow> ''USD'' | Some p \<Rightarrow> ps_currency p),
          pc_pricing_snapshot = price_snapshot, pc_latency_ms = 0, pc_provider_request_id = None,
          pc_error_code = None, pc_created_at = now, pc_completed_at = None\<rparr>)"

definition start_call ::
  "gateway_env \<Rightarrow> pdb \<Rightarrow> request_identity \<Rightarrow> model_reference \<Rightarrow> int \<Rightarrow> int \<Rightarrow> pricing_snapshot option \<Rightarrow>
   time \<Rightarrow> (pdb \<times> int) result" where
  "start_call env db ri reference attempt fallback_index price_snapshot now =
     (let (db', row) = add_call db (new_call env ri reference attempt fallback_index price_snapshot now)
      in pcommit db' (pc_id row))"

definition count_on_workflow ::
  "pdb \<Rightarrow> provider_call \<Rightarrow> provider_call_status \<Rightarrow> token_usage option \<Rightarrow> rat option \<Rightarrow> pdb" where
  "count_on_workflow db row status usage estimated_cost =
     (case Option.bind (pc_workflow_run_id row) (get_pd_workflow db) of
        None \<Rightarrow> db
      | Some w \<Rightarrow> save_pd_workflow db (w
          \<lparr>wr_provider_call_count := wr_provider_call_count w + 1,
           wr_provider_input_tokens := wr_provider_input_tokens w +
             (case usage of None \<Rightarrow> 0 | Some u \<Rightarrow> tu_input_tokens u),
           wr_provider_output_tokens := wr_provider_output_tokens w +
             (case usage of None \<Rightarrow> 0 | Some u \<Rightarrow> tu_output_tokens u),
           wr_provider_estimated_cost := wr_provider_estimated_cost w + or_zero estimated_cost,
           wr_provider_fallback_count := wr_provider_fallback_count w +
             (if 0 < pc_fallback_index row then 1 else 0),
           wr_provider_rate_limit_count := wr_provider_rate_limit_count w +
             (if status = ProviderCallStatus_RATE_LIMITED then 1 else 0)\<rparr>))"

definition finish_call ::
  "pdb \<Rightarrow> int \<Rightarrow> provider_call_status \<Rightarrow> token_usage option \<Rightarrow> rat option \<Rightarrow> int \<Rightarrow> string option \<Rightarrow>
   string option \<Rightarrow> time \<Rightarrow> (pdb \<times> int) result" where
  "finish_call db call_id status usage estimated_cost latency_ms request_id error_code now =
     (case get_call db call_id of
        None \<Rightarrow> Inl RuntimeError
      | Some row \<Rightarrow>
          let row1 = row\<lparr>pc_status := status, pc_latency_ms := latency_ms,
                pc_provider_request_id := request_id, pc_error_code := error_code,
                pc_completed_at := Some now\<rparr>;
              row2 = (case usage of None \<Rightarrow> row1
                      | Some u \<Rightarrow> row1\<lparr>pc_input_tokens := tu_input_tokens u,
                          pc_output_tokens := tu_output_tokens u,
                          pc_cached_input_tokens := tu_cached_input_tokens u,
                          pc_total_tokens := tu_total_tokens u, pc_usage_source := tu_source u,
                          pc_estimated_cost := estimated_cost\<rparr>)
          in pcommit (count_on_workflow (save_call db row2) row2 status usage estimated_cost) (pc_id row2))"

definition normalize_usage :: "llm_response \<Rightarrow> codepoints \<Rightarrow> token_usage result" where
  "normalize_usage response input_text =
     (case lr_usage response of
        Some u \<Rightarrow> make_usage u
      | None \<Rightarrow> local_usage input_text (lr_output response))"

section \<open>One attempt\<close>

definition circuit_key :: "model_reference \<Rightarrow> string" where
  "circuit_key r = mr_provider r @ ''/'' @ mr_model r"

text \<open>A request prepared for one model, with its preflight estimate.\<close>

record prepared_request =
  pp_request :: prompt_request
  pp_input_text :: codepoints
  pp_usage :: token_usage
  pp_price :: price_estimate

fun join_lines :: "codepoints list \<Rightarrow> codepoints" where
  "join_lines [] = []"
| "join_lines [c] = c"
| "join_lines (c # cs) = c @ [10] @ join_lines cs"

definition prepare_call ::
  "gateway_env \<Rightarrow> model_route \<Rightarrow> model_capability \<Rightarrow> prompt_request \<Rightarrow> prepared_request result" where
  "prepare_call env rt c request =
     and_then (prepare_request (ge_redact env) request (cx_privacy_policy (ge_context env)) (mc_external c))
       (\<lambda>prepared.
          let input_text = join_lines (map lm_content (pq_messages prepared))
          in and_then (local_usage input_text []) (\<lambda>local.
               and_then (make_usage
                   \<lparr>tu_input_tokens = tu_input_tokens local, tu_output_tokens = rt_max_output_tokens rt,
                    tu_cached_input_tokens = 0,
                    tu_total_tokens = tu_input_tokens local + rt_max_output_tokens rt,
                    tu_source = TokenUsageSource_LOCAL_ESTIMATE\<rparr>)
                 (\<lambda>u. Inr \<lparr>pp_request = prepared, pp_input_text = input_text, pp_usage = u,
                           pp_price = estimate_price c u\<rparr>)))"

text \<open>
  The body of the \<open>try\<close>: what it leaves behind, the audit row it opened, the amount it reserved,
  and the response or the exception. The steps follow the code; each one's failure ends the body.
\<close>

record attempt_state =
  at_call_id :: "int option"
  at_reserved :: rat

definition attempt_success ::
  "gateway_env \<Rightarrow> request_identity \<Rightarrow> model_reference \<Rightarrow> model_capability \<Rightarrow> prepared_request \<Rightarrow> int \<Rightarrow>
   rat \<Rightarrow> attempt_state \<Rightarrow> int \<Rightarrow> llm_response \<Rightarrow> gateway \<Rightarrow> gateway \<times> llm_response result" where
  "attempt_success env ri reference c pp global_attempt call_started att call_id response gw =
     (let latency_ms = max 0 (round_half_even ((ge_clock env (gw_ticks gw) - call_started) * 1000));
          gw1 = tick gw;
          now = ge_now env (gw_ticks gw1)
      in case normalize_usage response (pp_input_text pp) of
           Inl e \<Rightarrow> (gw1, Inl e)
         | Inr usage \<Rightarrow>
             let amount = pe_amount (estimate_price c usage)
             in case finish_call (gw_db gw1) call_id ProviderCallStatus_SUCCEEDED (Some usage) amount
                       latency_ms (lr_request_id response) None now of
                  Inl e \<Rightarrow> (gw1, Inl e)
                | Inr (db2, finished_call_id) \<Rightarrow>
                    (case (case cx_project_id (ge_context env) of
                             None \<Rightarrow> Inr (db2, ())
                           | Some p \<Rightarrow> settle db2 p (at_reserved att) amount None) of
                       Inl e \<Rightarrow> (gw1\<lparr>gw_db := db2\<rparr>, Inl e)
                     | Inr (db3, _) \<Rightarrow>
                         let gw3 = gw1\<lparr>gw_db := db3,
                               gw_circuit := circuit_success (gw_circuit gw1) (circuit_key reference)\<rparr>
                         in case claim_succeeded db3 (ri_key ri) finished_call_id
                                   (ge_hash_output env (lr_output response)) of
                              Inl e \<Rightarrow> (gw3, Inl e)
                            | Inr (db4, _) \<Rightarrow>
                                let governed = response\<lparr>lr_provider := mr_provider reference,
                                      lr_model := mr_model reference, lr_attempts := global_attempt\<rparr>
                                in (gw3\<lparr>gw_db := db4, gw_cache := (ri_key ri, governed) # gw_cache gw3\<rparr>,
                                    Inr governed)))"

definition attempt_invoke ::
  "gateway_env \<Rightarrow> request_identity \<Rightarrow> model_reference \<Rightarrow> model_capability \<Rightarrow> prepared_request \<Rightarrow> int \<Rightarrow>
   attempt_state \<Rightarrow> int \<Rightarrow> gateway \<Rightarrow> gateway \<times> llm_response result" where
  "attempt_invoke env ri reference c pp global_attempt att call_id gw =
     (let call_started = ge_clock env (gw_ticks gw);
          gw1 = tick gw;
          key = circuit_key reference
      in case limiter_enter (ge_limiter_config env) (gw_limiter gw1) key
                (tu_total_tokens (pp_usage pp)) (ge_clock env (gw_ticks gw1)) of
           (l, Inl e) \<Rightarrow> (tick (gw1\<lparr>gw_limiter := l\<rparr>), Inl e)
         | (l, Inr _) \<Rightarrow>
             let gw2 = tick (gw1\<lparr>gw_limiter := limiter_exit l key,
                   gw_invoked := gw_invoked gw1 @ [(reference, pp_request pp)]\<rparr>)
             in case ge_invoke env (length (gw_invoked gw1)) reference (pp_request pp) of
                  Inl e \<Rightarrow> (gw2, Inl e)
                | Inr response \<Rightarrow>
                    attempt_success env ri reference c pp global_attempt call_started att call_id
                      response gw2)"

text \<open>The reservation for the project of the context, if there is one.\<close>

definition reserve_for :: "gateway_env \<Rightarrow> pdb \<Rightarrow> rat option \<Rightarrow> pdb \<times> rat result" where
  "reserve_for env db amount =
     (case cx_project_id (ge_context env) of
        None \<Rightarrow> (db, Inr 0)
      | Some p \<Rightarrow>
          (case reserve (ge_settings env) db p amount of
             (db', Inl e) \<Rightarrow> (db', Inl e)
           | (db', Inr d) \<Rightarrow> (db', Inr (bd_reserved_amount d))))"

definition attempt ::
  "gateway_env \<Rightarrow> request_identity \<Rightarrow> model_reference \<Rightarrow> model_capability \<Rightarrow> prepared_request \<Rightarrow> int \<Rightarrow>
   int \<Rightarrow> gateway \<Rightarrow> gateway \<times> attempt_state \<times> llm_response result" where
  "attempt env ri reference c pp global_attempt fallback_index gw =
     (let key = circuit_key reference;
          t = ge_clock env (gw_ticks gw);
          at0 = \<lparr>at_call_id = None, at_reserved = 0\<rparr>;
          gw1 = tick (tick gw)
      in case before_call (ge_circuit_config env) (gw_circuit gw) key t (ge_clock env (gw_ticks gw + 1)) of
           Inl e \<Rightarrow> (gw1, at0, Inl e)
         | Inr circuit \<Rightarrow>
             let gw2 = gw1\<lparr>gw_circuit := circuit\<rparr>
             in case check_workflow (ge_settings env) (gw_db gw2) (ri_workflow_run_id ri)
                       (pe_amount (pp_price pp)) (tu_total_tokens (pp_usage pp)) of
                  Inl e \<Rightarrow> (gw2, at0, Inl e)
                | Inr _ \<Rightarrow>
                    (case reserve_for env (gw_db gw2) (pe_amount (pp_price pp)) of
                       (db3, Inl e) \<Rightarrow> (gw2\<lparr>gw_db := db3\<rparr>, at0, Inl e)
                     | (db3, Inr reserved) \<Rightarrow>
                         let gw3 = gw2\<lparr>gw_db := db3\<rparr>; at1 = at0\<lparr>at_reserved := reserved\<rparr>
                         in case start_call env db3 ri reference global_attempt fallback_index
                                   (Some (pe_snapshot (pp_price pp))) (ge_now env (gw_ticks gw3)) of
                              Inl e \<Rightarrow> (gw3, at1, Inl e)
                            | Inr (db4, call_id) \<Rightarrow>
                                let at2 = at1\<lparr>at_call_id := Some call_id\<rparr>;
                                    (gw5, r) = attempt_invoke env ri reference c pp global_attempt at2
                                      call_id (gw3\<lparr>gw_db := db4\<rparr>)
                                in (gw5, at2, r)))"

text \<open>
  The \<open>except\<close> clause: release the reservation, close the audit row (opening it first if the body
  did not get that far) and tell the breaker. An exception raised here leaves \<open>generate\<close>.
\<close>

definition handle_failure ::
  "gateway_env \<Rightarrow> request_identity \<Rightarrow> model_reference \<Rightarrow> prepared_request \<Rightarrow> int \<Rightarrow> int \<Rightarrow>
   attempt_state \<Rightarrow> exn \<Rightarrow> gateway \<Rightarrow> gateway \<times> unit result" where
  "handle_failure env ri reference pp global_attempt fallback_index att error gw =
     (let now = ge_now env (gw_ticks gw)
      in case (case cx_project_id (ge_context env) of
                 Some p \<Rightarrow> if at_reserved att \<noteq> 0 then release_reservation (gw_db gw) p (at_reserved att)
                            else Inr (gw_db gw, ())
               | None \<Rightarrow> Inr (gw_db gw, ())) of
           Inl e \<Rightarrow> (gw, Inl e)
         | Inr (db1, _) \<Rightarrow>
             let gw1 = gw\<lparr>gw_db := db1\<rparr>
             in case (case at_call_id att of
                        Some i \<Rightarrow> Inr (db1, i)
                      | None \<Rightarrow> start_call env db1 ri reference global_attempt fallback_index
                          (Some (pe_snapshot (pp_price pp))) now) of
                  Inl e \<Rightarrow> (gw1, Inl e)
                | Inr (db2, call_id) \<Rightarrow>
                    (case finish_call db2 call_id (status_for_error error) None None 0 None
                            (Some (exn_name error)) now of
                       Inl e \<Rightarrow> (gw1\<lparr>gw_db := db2\<rparr>, Inl e)
                     | Inr (db3, _) \<Rightarrow>
                         let gw3 = gw1\<lparr>gw_db := db3\<rparr>
                         in (if error \<in> {LLMTimeoutError, LLMServiceError}
                             then tick (gw3\<lparr>gw_circuit := circuit_failure (ge_circuit_config env)
                                    (gw_circuit gw3) (circuit_key reference) (ge_clock env (gw_ticks gw3))\<rparr>)
                             else gw3, Inr ())))"

section \<open>Retries and fallbacks\<close>

text \<open>How a loop ends: with a response, with an exception that leaves \<open>generate\<close>, or normally.\<close>

datatype loop_end = Returned llm_response | Raised exn | Ended "exn option"

fun retry_loop ::
  "gateway_env \<Rightarrow> rat \<Rightarrow> request_identity \<Rightarrow> model_reference \<Rightarrow> model_capability \<Rightarrow> prepared_request \<Rightarrow>
   int \<Rightarrow> int list \<Rightarrow> exn option \<Rightarrow> int \<Rightarrow> gateway \<Rightarrow> gateway \<times> int \<times> loop_end" where
  "retry_loop env started ri reference c pp fallback_index [] last_error n gw = (gw, n, Ended last_error)"
| "retry_loop env started ri reference c pp fallback_index (retry_index # rest) last_error n gw =
     (let n1 = n + 1; gw1 = tick gw
      in if ge_deadline env \<le> ge_clock env (gw_ticks gw) - started
         then (gw1, n1, Ended (Some LLMTimeoutError))
         else
           (case attempt env ri reference c pp n1 fallback_index gw1 of
              (gw2, att, Inr response) \<Rightarrow> (gw2, n1, Returned response)
            | (gw2, att, Inl error) \<Rightarrow>
                (case handle_failure env ri reference pp n1 fallback_index att error gw2 of
                   (gw3, Inl e) \<Rightarrow> (gw3, n1, Raised e)
                 | (gw3, Inr _) \<Rightarrow>
                     if \<not> retryable error \<or> rp_max_retries (ge_retry env) \<le> retry_index
                     then (gw3, n1, Ended (Some error))
                     else retry_loop env started ri reference c pp fallback_index rest (Some error) n1 gw3)))"

fun fallback_loop ::
  "gateway_env \<Rightarrow> rat \<Rightarrow> request_identity \<Rightarrow> model_route \<Rightarrow> (int \<times> model_reference) list \<Rightarrow>
   exn option \<Rightarrow> int \<Rightarrow> gateway \<Rightarrow> gateway \<times> int \<times> loop_end" where
  "fallback_loop env started ri rt [] last_error n gw = (gw, n, Ended last_error)"
| "fallback_loop env started ri rt ((fallback_index, reference) # rest) last_error n gw =
     (case provider_registry_get (ge_registry env) reference of
        Inl e \<Rightarrow> (gw, n, Raised e)
      | Inr c \<Rightarrow>
          if reference_key reference \<notin> set (ge_providers env)
          then fallback_loop env started ri rt rest (Some LLMServiceError) n gw
          else
            (case prepare_call env rt c (ri_request ri) of
               Inl e \<Rightarrow>
                 (case start_call env (gw_db gw) ri reference (n + 1) fallback_index None
                         (ge_now env (gw_ticks gw)) of
                    Inl e' \<Rightarrow> (gw, n + 1, Raised e')
                  | Inr (db1, call_id) \<Rightarrow>
                      (case finish_call db1 call_id (status_for_error e) None None 0 None
                              (Some (exn_name e)) (ge_now env (gw_ticks gw)) of
                         Inl e' \<Rightarrow> (gw\<lparr>gw_db := db1\<rparr>, n + 1, Raised e')
                       | Inr (db2, _) \<Rightarrow> (gw\<lparr>gw_db := db2\<rparr>, n + 1, Ended (Some e))))
             | Inr pp \<Rightarrow>
                 (case retry_loop env started ri reference c pp fallback_index
                         [0..rp_max_retries (ge_retry env)] last_error n gw of
                    (gw1, n1, Ended (Some e)) \<Rightarrow>
                      if e \<in> {LLMAuthenticationError, LLMRefusalError, BudgetBlockedError, PrivacyPolicyError}
                      then (gw1, n1, Ended (Some e))
                      else fallback_loop env started ri rt rest (Some e) n1 gw1
                  | (gw1, n1, Ended None) \<Rightarrow> fallback_loop env started ri rt rest None n1 gw1
                  | other \<Rightarrow> other)))"

definition generate :: "gateway_env \<Rightarrow> gateway \<Rightarrow> prompt_request \<Rightarrow> gateway \<times> llm_response result" where
  "generate env gw request =
     (case task_for_prompt (pq_name request) of
        Inl e \<Rightarrow> (gw, Inl e)
      | Inr task \<Rightarrow>
     (case route (ge_registry env) (ge_settings env) task (cx_profile (ge_context env)) of
        Inl e \<Rightarrow> (gw, Inl e)
      | Inr rt \<Rightarrow>
          let hash = request_hash env request;
              workflow_run_id = effective_workflow_run_id env (gw_db gw);
              key = gateway_key env hash task workflow_run_id;
              ri = \<lparr>ri_request = request, ri_task = task, ri_hash = hash, ri_key = key,
                    ri_workflow_run_id = workflow_run_id\<rparr>
          in case map_of (gw_cache gw) key of
               Some cached \<Rightarrow> (gw, Inr cached)
             | None \<Rightarrow>
                 (case claim_request (gw_db gw) key of
                    Inl e \<Rightarrow> (gw, Inl e)
                  | Inr (db1, replay) \<Rightarrow>
                      if replay then (gw\<lparr>gw_db := db1\<rparr>, Inl IdempotencyConflictError)
                      else
                        let candidates = rt_primary_model rt # rt_fallback_models rt
                        in case fallback_loop env (ge_clock env (gw_ticks gw)) ri rt
                                  (zip [0..int (length candidates) - 1] candidates) None 0
                                  (tick (gw\<lparr>gw_db := db1\<rparr>)) of
                             (gw2, n, Returned response) \<Rightarrow> (gw2, Inr response)
                           | (gw2, n, Raised e) \<Rightarrow> (gw2, Inl e)
                           | (gw2, n, Ended last_error) \<Rightarrow>
                               (case claim_failed (gw_db gw2) key
                                       (case last_error of None \<Rightarrow> ''provider_failed'' | Some e \<Rightarrow> exn_name e) of
                                  Inl e \<Rightarrow> (gw2, Inl e)
                                | Inr (db3, _) \<Rightarrow>
                                    (gw2\<lparr>gw_db := db3\<rparr>,
                                     Inl (case last_error of None \<Rightarrow> LLMProviderError | Some e \<Rightarrow> e))))))"

end
