(* ===== verification/Gateway_Laws.thy ===== *)
theory Gateway_Laws
  imports Gateway
begin

text \<open>
  What the steps of \<open>generate\<close> do to the database and to the providers: the requests handed out,
  the money reserved and spent, the audit rows and the claim. Each law is stated for one step and
  lifted through the retry and fallback loops by computation induction.
\<close>

section \<open>Requests handed to providers\<close>

lemma tick_frame [simp]:
  "gw_db (tick gw) = gw_db gw" "gw_invoked (tick gw) = gw_invoked gw" "gw_cache (tick gw) = gw_cache gw"
  "gw_circuit (tick gw) = gw_circuit gw" "gw_limiter (tick gw) = gw_limiter gw"
  "gw_ticks (tick gw) = gw_ticks gw + 1"
  by (simp_all add: tick_def)

lemma attempt_success_invoked:
  "gw_invoked (fst (attempt_success env ri reference c pp n t att i response gw)) = gw_invoked gw"
  by (simp add: attempt_success_def Let_def split: sum.split prod.split option.split)

lemma attempt_invoke_invoked:
  "\<exists>k \<le> 1. gw_invoked (fst (attempt_invoke env ri reference c pp n att i gw)) =
     gw_invoked gw @ replicate k (reference, pp_request pp)"
proof -
  obtain l x where l: "limiter_enter (ge_limiter_config env) (gw_limiter (tick gw)) (circuit_key reference)
      (tu_total_tokens (pp_usage pp)) (ge_clock env (gw_ticks (tick gw))) = (l, x)" by fastforce
  show ?thesis
  proof (cases x)
    case (Inl e)
    then show ?thesis using l by (intro exI [of _ 0]) (simp add: attempt_invoke_def)
  next
    case (Inr u)
    then show ?thesis using l
      by (intro exI [of _ 1]) (simp add: attempt_invoke_def Let_def attempt_success_invoked split: sum.split)
  qed
qed

text \<open>The five ways an attempt can go.\<close>

lemma attempt_elim:
  assumes "attempt env ri reference c pp n f gw = (gw', att, r)"
  obtains
    (blocked) e circuit where "r = Inl e" "att = \<lparr>at_call_id = None, at_reserved = 0\<rparr>"
      "gw' = (tick (tick gw))\<lparr>gw_circuit := circuit\<rparr>"
  | (unreserved) e circuit db where "r = Inl e" "att = \<lparr>at_call_id = None, at_reserved = 0\<rparr>"
      "reserve_for env (gw_db gw) (pe_amount (pp_price pp)) = (db, Inl e)"
      "gw' = (tick (tick gw))\<lparr>gw_circuit := circuit, gw_db := db\<rparr>"
  | (unaudited) e circuit db reserved now where "r = Inl e"
      "att = \<lparr>at_call_id = None, at_reserved = reserved\<rparr>"
      "reserve_for env (gw_db gw) (pe_amount (pp_price pp)) = (db, Inr reserved)"
      "start_call env db ri reference n f (Some (pe_snapshot (pp_price pp))) now = Inl e"
      "gw' = (tick (tick gw))\<lparr>gw_circuit := circuit, gw_db := db\<rparr>"
  | (started) circuit db reserved now db4 i where
      "att = \<lparr>at_call_id = Some i, at_reserved = reserved\<rparr>"
      "reserve_for env (gw_db gw) (pe_amount (pp_price pp)) = (db, Inr reserved)"
      "start_call env db ri reference n f (Some (pe_snapshot (pp_price pp))) now = Inr (db4, i)"
      "attempt_invoke env ri reference c pp n att i
         ((tick (tick gw))\<lparr>gw_circuit := circuit, gw_db := db4\<rparr>) = (gw', r)"
proof -
  let ?b = "before_call (ge_circuit_config env) (gw_circuit gw) (circuit_key reference)
    (ge_clock env (gw_ticks gw)) (ge_clock env (gw_ticks gw + 1))"
  let ?w = "check_workflow (ge_settings env) (gw_db gw) (ri_workflow_run_id ri)
    (pe_amount (pp_price pp)) (tu_total_tokens (pp_usage pp))"
  obtain db rs where rs: "reserve_for env (gw_db gw) (pe_amount (pp_price pp)) = (db, rs)" by fastforce
  have self: "tick (tick gw) = (tick (tick gw))\<lparr>gw_circuit := gw_circuit gw\<rparr>" by (simp add: tick_def)
  show thesis
  proof (cases ?b)
    case (Inl e)
    then show ?thesis using assms self by (intro blocked [of e "gw_circuit gw"]) (auto simp: attempt_def Let_def)
  next
    case b: (Inr circuit)
    show ?thesis
    proof (cases ?w)
      case (Inl e)
      then show ?thesis using assms b by (intro blocked [of e circuit]) (auto simp: attempt_def Let_def)
    next
      case w: (Inr u)
      show ?thesis
      proof (cases rs)
        case (Inl e)
        then show ?thesis using assms b w rs
          by (intro unreserved [of e db circuit]) (auto simp: attempt_def Let_def)
      next
        case r: (Inr reserved)
        let ?now = "ge_now env (gw_ticks gw + 2)"
        show ?thesis
        proof (cases "start_call env db ri reference n f (Some (pe_snapshot (pp_price pp))) ?now")
          case (Inl e)
          then show ?thesis using assms b w rs r
            by (intro unaudited [of e reserved db ?now circuit]) (auto simp: attempt_def Let_def)
        next
          case (Inr x)
          then show ?thesis using assms b w rs r
            by (cases x) (auto simp: attempt_def Let_def split: prod.splits
                intro!: started [of _ reserved db ?now _ circuit])
        qed
      qed
    qed
  qed
qed

lemma attempt_invoked:
  "\<exists>k \<le> 1. gw_invoked (fst (attempt env ri reference c pp n f gw)) =
     gw_invoked gw @ replicate k (reference, pp_request pp)"
proof -
  obtain gw' att r where a: "attempt env ri reference c pp n f gw = (gw', att, r)" by (metis prod_cases3)
  have none: "\<exists>k \<le> 1. gw_invoked gw = gw_invoked gw @ replicate k (reference, pp_request pp)"
    by (intro exI [of _ 0]) simp
  from a show ?thesis
  proof (cases rule: attempt_elim)
    case (started circuit db reserved now db4 i)
    then show ?thesis using attempt_invoke_invoked [of env ri reference c pp n att i
        "(tick (tick gw))\<lparr>gw_circuit := circuit, gw_db := db4\<rparr>"] a by simp
  qed (use a none in simp_all)
qed

lemma handle_failure_invoked:
  "gw_invoked (fst (handle_failure env ri reference pp n f att e gw)) = gw_invoked gw"
  by (simp add: handle_failure_def Let_def split: sum.split prod.split option.split)

lemma retry_loop_invoked:
  "\<exists>k \<le> length idx. gw_invoked (fst (retry_loop env started ri reference c pp f idx lerr n gw)) =
     gw_invoked gw @ replicate k (reference, pp_request pp)"
proof (induction "idx" arbitrary: lerr n gw)
  case Nil
  then show ?case by simp
next
  case (Cons i rest)
  obtain gw2 att r where a: "attempt env ri reference c pp (n + 1) f (tick gw) = (gw2, att, r)"
    by (metis prod_cases3)
  obtain k where k: "k \<le> 1" "gw_invoked gw2 = gw_invoked gw @ replicate k (reference, pp_request pp)"
    using attempt_invoked [of env ri reference c pp "n + 1" f "tick gw"] a by auto
  show ?case
  proof (cases r)
    case (Inr response)
    then show ?thesis using a k by (auto simp: Let_def)
  next
    case (Inl e)
    obtain gw3 u where h: "handle_failure env ri reference pp (n + 1) f att e gw2 = (gw3, u)" by fastforce
    have inv3: "gw_invoked gw3 = gw_invoked gw2"
      using handle_failure_invoked [of env ri reference pp "n + 1" f att e gw2] h by simp
    obtain k' where k': "k' \<le> length rest"
      "gw_invoked (fst (retry_loop env started ri reference c pp f rest (Some e) (n + 1) gw3)) =
       gw_invoked gw3 @ replicate k' (reference, pp_request pp)" using Cons.IH by blast
    have "\<exists>k. k \<le> Suc (length rest) \<and> gw_invoked gw3 = gw_invoked gw @ replicate k (reference, pp_request pp)"
      using k inv3 by (intro exI [of _ k]) simp
    moreover have "\<exists>k. k \<le> Suc (length rest) \<and>
        gw_invoked (fst (retry_loop env started ri reference c pp f rest (Some e) (n + 1) gw3)) =
        gw_invoked gw @ replicate k (reference, pp_request pp)"
      using k k' inv3 by (intro exI [of _ "k + k'"]) (simp add: replicate_add)
    ultimately show ?thesis using a h Inl k
      by (auto simp: Let_def split: sum.split)
  qed
qed

text \<open>The requests a fallback loop hands out: prepared for a registered candidate.\<close>

definition prepared_for ::
  "gateway_env \<Rightarrow> model_route \<Rightarrow> prompt_request \<Rightarrow> model_reference set \<Rightarrow> model_reference \<times> prompt_request \<Rightarrow> bool" where
  "prepared_for env rt request candidates call \<longleftrightarrow> fst call \<in> candidates \<and>
     (\<exists>c pp. provider_registry_get (ge_registry env) (fst call) = Inr c \<and>
        prepare_call env rt c request = Inr pp \<and> snd call = pp_request pp)"

lemma prepared_for_mono:
  "prepared_for env rt request A call \<Longrightarrow> A \<subseteq> B \<Longrightarrow> prepared_for env rt request B call"
  by (auto simp: prepared_for_def)

lemma fallback_loop_invoked:
  "\<exists>new. gw_invoked (fst (fallback_loop env started ri rt cs lerr n gw)) = gw_invoked gw @ new \<and>
     length new \<le> nat (rp_max_retries (ge_retry env) + 1) * length cs \<and>
     (\<forall>call \<in> set new. prepared_for env rt (ri_request ri) (set (map snd cs)) call)"
proof (induction cs arbitrary: lerr n gw)
  case Nil
  then show ?case by simp
next
  case (Cons entry rest)
  obtain f reference where e: "entry = (f, reference)" by fastforce
  let ?m = "nat (rp_max_retries (ge_retry env) + 1)"
  let ?ok = "prepared_for env rt (ri_request ri) (set (map snd (entry # rest)))"
  have none: "\<exists>new. gw_invoked gw = gw_invoked gw @ new \<and> length new \<le> ?m * length (entry # rest) \<and>
      (\<forall>call \<in> set new. ?ok call)" by (intro exI [of _ "[]"]) simp
  have skip: "\<exists>new. gw_invoked (fst (fallback_loop env started ri rt rest l k gw1)) = gw_invoked gw1 @ new \<and>
      length new \<le> ?m * length rest \<and> (\<forall>call \<in> set new. ?ok call)" for l k gw1
    using Cons.IH [of l k gw1] by (fastforce intro: prepared_for_mono)
  show ?case
  proof (cases "provider_registry_get (ge_registry env) reference")
    case (Inl x)
    then show ?thesis using none e by simp
  next
    case (Inr c)
    show ?thesis
    proof (cases "reference_key reference \<in> set (ge_providers env)")
      case False
      obtain new where "gw_invoked (fst (fallback_loop env started ri rt rest (Some LLMServiceError) n gw)) =
          gw_invoked gw @ new" "length new \<le> ?m * length rest" "\<forall>call \<in> set new. ?ok call"
        using skip by blast
      then show ?thesis using Inr e False by (intro exI [of _ new]) auto
    next
      case known: True
      show ?thesis
      proof (cases "prepare_call env rt c (ri_request ri)")
        case prep: (Inl x)
        then show ?thesis using Inr e known none
          by (auto split: sum.split prod.split)
      next
        case prep: (Inr pp)
        obtain gw1 n1 r where l: "retry_loop env started ri reference c pp f
            [0..rp_max_retries (ge_retry env)] lerr n gw = (gw1, n1, r)" by (metis prod_cases3)
        obtain k where k: "k \<le> ?m" "gw_invoked gw1 = gw_invoked gw @ replicate k (reference, pp_request pp)"
          using retry_loop_invoked [of "[0..rp_max_retries (ge_retry env)]" env started ri reference c pp f lerr n gw] l
          by auto
        have here: "?ok (reference, pp_request pp)"
          using Inr prep e by (auto simp: prepared_for_def)
        then have one: "\<exists>new. gw_invoked gw1 = gw_invoked gw @ new \<and>
            length new \<le> ?m * length (entry # rest) \<and> (\<forall>call \<in> set new. ?ok call)"
          using k by (intro exI [of _ "replicate k (reference, pp_request pp)"]) auto
        have more: "\<exists>new. gw_invoked (fst (fallback_loop env started ri rt rest l n1 gw1)) = gw_invoked gw @ new \<and>
            length new \<le> ?m * length (entry # rest) \<and> (\<forall>call \<in> set new. ?ok call)" for l
        proof -
          obtain new where "gw_invoked (fst (fallback_loop env started ri rt rest l n1 gw1)) = gw_invoked gw1 @ new"
            "length new \<le> ?m * length rest" "\<forall>call \<in> set new. ?ok call" using skip by blast
          then show ?thesis using k here
            by (intro exI [of _ "replicate k (reference, pp_request pp) @ new"]) auto
        qed
        have step: "fallback_loop env started ri rt (entry # rest) lerr n gw =
            (case (gw1, n1, r) of
               (gw1, n1, Ended (Some e)) \<Rightarrow>
                 if e \<in> {LLMAuthenticationError, LLMRefusalError, BudgetBlockedError, PrivacyPolicyError}
                 then (gw1, n1, Ended (Some e))
                 else fallback_loop env started ri rt rest (Some e) n1 gw1
             | (gw1, n1, Ended None) \<Rightarrow> fallback_loop env started ri rt rest None n1 gw1
             | other \<Rightarrow> other)"
          using Inr e known prep l by simp
        show ?thesis unfolding step using one more
          by (cases r) (auto split: option.split)
      qed
    qed
  qed
qed

end
