(* ===== verification/Gateway_Ledger.thy ===== *)
theory Gateway_Ledger
  imports Gateway_Laws
begin

text \<open>
  The money and the claims of \<open>generate\<close>: what every step does to the reserved and the spent amount
  of the project, to the audit rows and to the idempotency claims, and that the steps which must
  not fail do not.
\<close>

section \<open>Views of the database\<close>

definition db_inv :: "pdb \<Rightarrow> bool" where
  "db_inv db \<longleftrightarrow> pdb_ok db \<and> pkeys_ok db"

definition reserved_of :: "pdb \<Rightarrow> int \<Rightarrow> rat" where
  "reserved_of db p = (case budget_for_project db p of None \<Rightarrow> 0 | Some b \<Rightarrow> pb_reserved_estimated b)"

definition spent_of :: "pdb \<Rightarrow> int \<Rightarrow> rat" where
  "spent_of db p = (case budget_for_project db p of None \<Rightarrow> 0 | Some b \<Rightarrow> pb_spent_estimated b)"

lemma budget_frame: "pd_budgets db' = pd_budgets db \<Longrightarrow> budget_for_project db' = budget_for_project db"
  by (simp add: fun_eq_iff budget_for_project_def)

lemma ledger_frame:
  "pd_budgets db' = pd_budgets db \<Longrightarrow> reserved_of db' = reserved_of db"
  "pd_budgets db' = pd_budgets db \<Longrightarrow> spent_of db' = spent_of db"
  by (drule budget_frame, simp add: fun_eq_iff reserved_of_def spent_of_def)+

lemma claim_frame: "pd_idempotency db' = pd_idempotency db \<Longrightarrow> claim_for_key db' = claim_for_key db"
  by (simp add: fun_eq_iff claim_for_key_def)

lemma budget_row_legal: "pdb_ok db \<Longrightarrow> budget_for_project db p = Some b \<Longrightarrow> budget_row_ok b"
  by (auto simp: pdb_ok_def budgets_ok_def dest!: budget_for_project_row)

lemma reserved_nonneg: "db_inv db \<Longrightarrow> 0 \<le> reserved_of db p"
  by (auto simp: reserved_of_def db_inv_def budget_row_ok_def dest: budget_row_legal split: option.split)

section \<open>Budgets\<close>

lemma get_or_create_frame:
  "get_or_create s db p = Inr (db', b) \<Longrightarrow>
   pd_idempotency db' = pd_idempotency db \<and> pd_calls db' = pd_calls db"
  by (auto simp: get_or_create_def add_budget_def Let_def split_def split: option.splits)

lemma reserve_txn_frame:
  "reserve_txn db p cost = Inr (db', d) \<Longrightarrow>
   pd_idempotency db' = pd_idempotency db \<and> pd_calls db' = pd_calls db"
  by (auto simp: reserve_txn_def Let_def save_budget_def split: option.splits if_splits)

lemma settle_frame:
  "settle db p r est billed = Inr (db', u) \<Longrightarrow>
   pd_idempotency db' = pd_idempotency db \<and> pd_calls db' = pd_calls db"
  by (auto simp: settle_def Let_def save_budget_def split: option.splits)

lemma reserve_effect:
  assumes "reserve s db p amount = (db', x)" and "db_inv db"
  shows "db_inv db'" "pd_idempotency db' = pd_idempotency db" "pd_calls db' = pd_calls db"
    "spent_of db' p = spent_of db p"
    "reserved_of db' p = reserved_of db p + (case x of Inl e \<Rightarrow> 0 | Inr d \<Rightarrow> bd_reserved_amount d)"
    "x = Inr d \<Longrightarrow> budget_for_project db' p \<noteq> None"
proof -
  have "db_inv db' \<and> pd_idempotency db' = pd_idempotency db \<and> pd_calls db' = pd_calls db \<and>
      spent_of db' p = spent_of db p \<and>
      reserved_of db' p = reserved_of db p + (case x of Inl e \<Rightarrow> 0 | Inr d \<Rightarrow> bd_reserved_amount d) \<and>
      (x = Inr d \<longrightarrow> budget_for_project db' p \<noteq> None)"
  proof (cases "\<exists>cost db1 b. get_or_create s db p = Inr (db1, b) \<and>
      (case amount of None \<Rightarrow> if s_allow_unknown_pricing s then Inr 0 else Inl BudgetBlockedError
       | Some cost \<Rightarrow> Inr cost) = Inr cost")
    case False
    then have "db' = db" "\<exists>e. x = Inl e"
      using assms(1) by (auto simp: reserve_def split: sum.splits option.splits)
    then show ?thesis using assms(2) by auto
  next
    case True
    then obtain cost db1 b where c: "get_or_create s db p = Inr (db1, b)"
      "(case amount of None \<Rightarrow> if s_allow_unknown_pricing s then Inr 0 else Inl BudgetBlockedError
       | Some cost \<Rightarrow> Inr cost) = Inr cost" by blast
    note e = get_or_create_effect [OF c(1)]
    have inv1: "db_inv db1" using e(1,2) assms(2) by (simp add: db_inv_def)
    have same: "spent_of db1 p = spent_of db p" "reserved_of db1 p = reserved_of db p"
      using e(3) [of p] e(4) by (auto simp: spent_of_def reserved_of_def)
    show ?thesis
    proof (cases "reserve_txn db1 p cost")
      case (Inl err)
      then have "db' = db1" "x = Inl err" using assms(1) c by (auto simp: reserve_def)
      then show ?thesis using inv1 same get_or_create_frame [OF c(1)] by simp
    next
      case (Inr r)
      then obtain db2 d2 where r: "reserve_txn db1 p cost = Inr (db2, d2)" by (cases r) auto
      then have x: "db' = db2" "x = Inr d2" using assms(1) c by (auto simp: reserve_def)
      from reserve_txn_effect [OF r] inv1 obtain b1 where
        b1: "budget_for_project db1 p = Some b1" "pdb_ok db2" "pkeys_ok db2"
          "budget_for_project db2 p =
            Some (b1\<lparr>pb_reserved_estimated := pb_reserved_estimated b1 + bd_reserved_amount d2\<rparr>)"
        unfolding db_inv_def by metis
      then have "spent_of db2 p = spent_of db1 p" "reserved_of db2 p = reserved_of db1 p + bd_reserved_amount d2"
        by (simp_all add: spent_of_def reserved_of_def)
      then show ?thesis
        using x b1 same reserve_txn_frame [OF r] get_or_create_frame [OF c(1)] by (simp add: db_inv_def)
    qed
  qed
  then show "db_inv db'" "pd_idempotency db' = pd_idempotency db" "pd_calls db' = pd_calls db"
    "spent_of db' p = spent_of db p"
    "reserved_of db' p = reserved_of db p + (case x of Inl e \<Rightarrow> 0 | Inr d \<Rightarrow> bd_reserved_amount d)"
    "x = Inr d \<Longrightarrow> budget_for_project db' p \<noteq> None" by blast+
qed

lemma reserve_for_effect:
  assumes "reserve_for env db amount = (db', x)" and "db_inv db" and "cx_project_id (ge_context env) = Some p"
  shows "db_inv db'" "pd_idempotency db' = pd_idempotency db" "pd_calls db' = pd_calls db"
    "spent_of db' p = spent_of db p"
    "reserved_of db' p = reserved_of db p + (case x of Inl e \<Rightarrow> 0 | Inr r \<Rightarrow> r)"
    "x = Inr r \<Longrightarrow> budget_for_project db' p \<noteq> None"
proof -
  obtain y where y: "reserve (ge_settings env) db p amount = (db', y)"
    "x = (case y of Inl e \<Rightarrow> Inl e | Inr d \<Rightarrow> Inr (bd_reserved_amount d))"
    using assms(1,3) by (auto simp: reserve_for_def split: prod.splits sum.splits)
  note e = reserve_effect [OF y(1) assms(2)]
  show "db_inv db'" "pd_idempotency db' = pd_idempotency db" "pd_calls db' = pd_calls db"
    "spent_of db' p = spent_of db p" by (fact e)+
  show "reserved_of db' p = reserved_of db p + (case x of Inl e \<Rightarrow> 0 | Inr r \<Rightarrow> r)"
    using e(5) y(2) by (cases y) simp_all
  show "x = Inr r \<Longrightarrow> budget_for_project db' p \<noteq> None"
    using e(6) y(2) by (cases y) auto
qed

text \<open>A release cannot fail, and a settlement gives back what was reserved.\<close>

lemma release_ok:
  assumes "db_inv db"
  shows "\<exists>db'. release_reservation db p r = Inr (db', ())"
proof (cases "budget_for_project db p")
  case None
  then show ?thesis using assms by (simp add: release_reservation_def settle_def pcommit_ok db_inv_def)
next
  case (Some b)
  have "budget_row_ok (b\<lparr>pb_reserved_estimated := max 0 (pb_reserved_estimated b - r)\<rparr>)"
    using budget_row_legal [OF _ Some] assms by (simp add: budget_row_ok_def db_inv_def)
  then have "pdb_ok (save_budget db (b\<lparr>pb_reserved_estimated := max 0 (pb_reserved_estimated b - r)\<rparr>))"
    using budget_for_project_row [OF Some] assms
    by (intro save_budget_ok [of db b]) (simp_all add: db_inv_def)
  then show ?thesis using Some by (simp add: release_reservation_def settle_def Let_def pcommit_ok)
qed

lemma settle_ledger:
  assumes "settle db p r est billed = Inr (db', u)" and "db_inv db"
  shows "db_inv db'" "reserved_of db' p = max 0 (reserved_of db p - r) \<or> budget_for_project db p = None"
    "spent_of db' p = spent_of db p + (if budget_for_project db p = None then 0 else or_zero est)"
    "budget_for_project db p = None \<Longrightarrow> db' = db"
proof -
  have keys: "pkeys_ok db" using assms(2) by (simp add: db_inv_def)
  note e = settle_effect [OF assms(1) keys]
  show "db_inv db'" using e(1,2) by (simp add: db_inv_def)
  show "budget_for_project db p = None \<Longrightarrow> db' = db" by (rule e(3))
  have both: "(reserved_of db' p = max 0 (reserved_of db p - r) \<or> budget_for_project db p = None) \<and>
      spent_of db' p = spent_of db p + (if budget_for_project db p = None then 0 else or_zero est)"
  proof (cases "budget_for_project db p")
    case None
    then show ?thesis using e(3) by simp
  next
    case (Some b)
    then obtain b' where "budget_for_project db' p = Some b'"
      "pb_reserved_estimated b' = max 0 (pb_reserved_estimated b - r)"
      "pb_spent_estimated b' = pb_spent_estimated b + or_zero est"
      using e(4) [OF Some] by metis
    then show ?thesis using Some by (simp add: reserved_of_def spent_of_def)
  qed
  then show "reserved_of db' p = max 0 (reserved_of db p - r) \<or> budget_for_project db p = None"
    "spent_of db' p = spent_of db p + (if budget_for_project db p = None then 0 else or_zero est)"
    by (rule conjunct1, rule conjunct2)
qed

section \<open>Audit rows\<close>

lemma start_call_effect:
  assumes "start_call env db ri reference n f snap now = Inr (db', i)" and "db_inv db"
  shows "db_inv db'" "pd_budgets db' = pd_budgets db" "pd_idempotency db' = pd_idempotency db"
    and "\<exists>row. get_call db' i = Some row \<and> pc_id row = i \<and> pc_idempotency_key row = ri_key ri"
proof -
  let ?c = "new_call env ri reference n f snap now"
  have db': "db' = fst (add_call db ?c)" "i = pc_id (snd (add_call db ?c))" "pdb_ok db'"
    using assms(1) by (auto simp: start_call_def Let_def split_def)
  show "db_inv db'" using db' assms(2) by (simp add: db_inv_def)
  show "pd_budgets db' = pd_budgets db" "pd_idempotency db' = pd_idempotency db"
    unfolding db'(1) by (simp_all add: add_call_def split_def Let_def)
  have "table_ok pc_id (pd_calls db)" using assms(2) by (simp add: db_inv_def pkeys_ok_def)
  from calls.get_add [OF this, of ?c i] show
    "\<exists>row. get_call db' i = Some row \<and> pc_id row = i \<and> pc_idempotency_key row = ri_key ri"
    unfolding db'(1,2)
    by (auto simp: add_call_def split_def get_call_def repo_add_def Let_def new_call_def)
qed

lemma start_call_error: "start_call env db ri reference n f snap now = Inl e \<Longrightarrow> e = IntegrityError"
  by (auto simp: start_call_def Let_def split_def pcommit_def split: if_splits)

lemma count_on_workflow_frame [simp]:
  "pd_budgets (count_on_workflow db row st u c) = pd_budgets db"
  "pd_idempotency (count_on_workflow db row st u c) = pd_idempotency db"
  "pd_calls (count_on_workflow db row st u c) = pd_calls db"
  "pkeys_ok (count_on_workflow db row st u c) = pkeys_ok db"
  by (auto simp: count_on_workflow_def save_pd_workflow_def pkeys_ok_def split: option.split)

lemma finish_call_effect:
  assumes "finish_call db i st usage cost ms rid err now = Inr (db', j)" and "db_inv db"
  shows "db_inv db'" "pd_budgets db' = pd_budgets db" "pd_idempotency db' = pd_idempotency db"
    and "\<exists>row row'. get_call db i = Some row \<and> get_call db' i = Some row' \<and> j = i \<and> pc_id row' = i \<and>
      pc_status row' = st \<and> pc_idempotency_key row' = pc_idempotency_key row \<and>
      (\<forall>u. usage = Some u \<longrightarrow> pc_estimated_cost row' = cost)"
proof -
  obtain row where row: "get_call db i = Some row"
    using assms(1) by (auto simp: finish_call_def split: option.splits)
  let ?row1 = "row\<lparr>pc_status := st, pc_latency_ms := ms, pc_provider_request_id := rid, pc_error_code := err,
      pc_completed_at := Some now\<rparr>"
  let ?row2 = "case usage of None \<Rightarrow> ?row1
    | Some u \<Rightarrow> ?row1\<lparr>pc_input_tokens := tu_input_tokens u, pc_output_tokens := tu_output_tokens u,
        pc_cached_input_tokens := tu_cached_input_tokens u, pc_total_tokens := tu_total_tokens u,
        pc_usage_source := tu_source u, pc_estimated_cost := cost\<rparr>"
  have db': "db' = count_on_workflow (save_call db ?row2) ?row2 st usage cost" "j = pc_id ?row2" "pdb_ok db'"
    using assms(1) row by (simp_all add: finish_call_def Let_def)
  have id: "pc_id row = i" using row by (auto simp: get_call_def dest: calls.get_Some)
  have r2: "pc_id ?row2 = i" "pc_status ?row2 = st" "pc_idempotency_key ?row2 = pc_idempotency_key row"
    "\<forall>u. usage = Some u \<longrightarrow> pc_estimated_cost ?row2 = cost"
    using id by (simp_all split: option.split)
  show "db_inv db'" using db'(1,3) assms(2) by (simp add: db_inv_def)
  show "pd_budgets db' = pd_budgets db" "pd_idempotency db' = pd_idempotency db"
    unfolding db'(1) by (simp_all add: save_call_def)
  have "get_call db' i = Some ?row2"
    unfolding get_call_def db'(1) count_on_workflow_frame save_call_def pdb.simps
    using calls.get_save [of "pd_calls db" ?row2 i] row r2(1) by (simp add: get_call_def)
  then show "\<exists>row row'. get_call db i = Some row \<and> get_call db' i = Some row' \<and> j = i \<and> pc_id row' = i \<and>
      pc_status row' = st \<and> pc_idempotency_key row' = pc_idempotency_key row \<and>
      (\<forall>u. usage = Some u \<longrightarrow> pc_estimated_cost row' = cost)"
    using row db'(2) r2 by blast
qed

section \<open>Claims\<close>

lemma finish_claim_ok:
  assumes "db_inv db" and "claim_for_key db k = Some r" and "present (get_call db) cid"
  shows "\<exists>db'. finish_claim db k st cid h e = Inr (db', ())"
proof -
  let ?r = "r\<lparr>ir_status := st, ir_provider_call_id := cid, ir_response_hash := h, ir_error_code := e\<rparr>"
  let ?db = "save_claim db ?r"
  have mem: "r \<in> set (t_rows (pd_idempotency db))"
    using assms(2) by (auto simp: claim_for_key_def dest: find_SomeD)
  have d: "distinct (map ir_id (t_rows (pd_idempotency db)))"
    using assms(1) by (simp add: db_inv_def pkeys_ok_def table_ok_def)
  have same: "x = r" if "x \<in> set (t_rows (pd_idempotency db))" "ir_id x = ir_id r" for x
    using d that mem by (auto simp: distinct_map dest: inj_onD)
  have "map ir_idempotency_key (t_rows (repo_save ir_id (pd_idempotency db) ?r)) =
      map ir_idempotency_key (t_rows (pd_idempotency db))"
    by (rule claims.map_save [OF refl]) (use same in auto)
  moreover have "present (get_call db) (ir_provider_call_id x)"
    if "x \<in> set (t_rows (repo_save ir_id (pd_idempotency db) ?r))" for x
    using that claims.rows_save [of "pd_idempotency db" ?r] assms(1,3)
    by (auto simp: db_inv_def pdb_ok_def claims_ok_def)
  moreover have "get_call ?db = get_call db" "get_pd_project ?db = get_pd_project db"
    "get_pd_workflow ?db = get_pd_workflow db"
    by (simp_all add: fun_eq_iff get_call_def get_pd_project_def get_pd_workflow_def save_claim_def)
  ultimately have "pdb_ok ?db"
    using assms(1) by (simp add: db_inv_def pdb_ok_def budgets_ok_def calls_ok_def claims_ok_def)
      (simp add: save_claim_def)
  then show ?thesis using assms(2) by (simp add: finish_claim_def pcommit_ok)
qed

end
