(* ===== verification/Gateway_Effects.thy ===== *)
theory Gateway_Effects
  imports Gateway_Ledger
begin

text \<open>
  The accounts of one request across the whole of \<open>generate\<close>: a step either leaves the project's
  money and the claim as they were (\<open>untouched\<close>) or closes the request with one recorded success
  (\<open>recorded\<close>). The laws of the single steps are lifted through retries and fallbacks.
\<close>

definition untouched :: "int \<Rightarrow> string \<Rightarrow> pdb \<Rightarrow> pdb \<Rightarrow> bool" where
  "untouched p k db db' \<longleftrightarrow> db_inv db' \<and> reserved_of db' p = reserved_of db p \<and>
     spent_of db' p = spent_of db p \<and> claim_for_key db' k = claim_for_key db k"

definition recorded :: "int \<Rightarrow> string \<Rightarrow> pdb \<Rightarrow> pdb \<Rightarrow> bool" where
  "recorded p k db db' \<longleftrightarrow> db_inv db' \<and> reserved_of db' p = reserved_of db p \<and>
     (\<exists>r row. claim_for_key db' k = Some r \<and> ir_status r = IdempotencyStatus_SUCCEEDED \<and>
        ir_provider_call_id r = Some (pc_id row) \<and> get_call db' (pc_id row) = Some row \<and>
        pc_status row = ProviderCallStatus_SUCCEEDED \<and> pc_idempotency_key row = k \<and>
        spent_of db' p = spent_of db p + or_zero (pc_estimated_cost row))"

lemma untouched_refl: "db_inv db \<Longrightarrow> untouched p k db db"
  by (simp add: untouched_def)

lemma untouched_trans:
  "untouched p k a b \<Longrightarrow> untouched p k b c \<Longrightarrow> untouched p k a c"
  "untouched p k a b \<Longrightarrow> recorded p k b c \<Longrightarrow> recorded p k a c"
  by (auto simp: untouched_def recorded_def)

text \<open>The half-way state of an attempt: \<open>amount\<close> is reserved and everything else is as before.\<close>

definition holding :: "int \<Rightarrow> string \<Rightarrow> rat \<Rightarrow> pdb \<Rightarrow> pdb \<Rightarrow> bool" where
  "holding p k amount db db' \<longleftrightarrow> db_inv db' \<and> reserved_of db' p = reserved_of db p + amount \<and>
     spent_of db' p = spent_of db p \<and> claim_for_key db' k = claim_for_key db k \<and>
     (amount = 0 \<or> budget_for_project db' p \<noteq> None)"

lemma holding_0: "holding p k 0 db db' = untouched p k db db'"
  by (simp add: holding_def untouched_def)

lemma holding_frame:
  assumes "holding p k amount db db1" "db_inv db2" "pd_budgets db2 = pd_budgets db1"
    "pd_idempotency db2 = pd_idempotency db1"
  shows "holding p k amount db db2"
  using assms(1,2) ledger_frame [OF assms(3)] budget_frame [OF assms(3)] claim_frame [OF assms(4)]
  by (simp add: holding_def)

section \<open>One attempt\<close>

lemma attempt_success_effect:
  assumes run: "attempt_success env ri reference c pp n t att i response gw = (gw', r)"
    and inv: "db_inv (gw_db gw)" and p: "cx_project_id (ge_context env) = Some p"
    and row: "get_call (gw_db gw) i = Some row" "pc_idempotency_key row = ri_key ri"
    and budget: "budget_for_project (gw_db gw) p \<noteq> None"
    and claim: "claim_for_key (gw_db gw) (ri_key ri) \<noteq> None"
  shows "case r of
      Inl e \<Rightarrow> db_inv (gw_db gw') \<and> pd_budgets (gw_db gw') = pd_budgets (gw_db gw) \<and>
        pd_idempotency (gw_db gw') = pd_idempotency (gw_db gw)
    | Inr resp \<Rightarrow> db_inv (gw_db gw') \<and>
        reserved_of (gw_db gw') p = max 0 (reserved_of (gw_db gw) p - at_reserved att) \<and>
        (\<exists>q row. claim_for_key (gw_db gw') (ri_key ri) = Some q \<and> ir_status q = IdempotencyStatus_SUCCEEDED \<and>
           ir_provider_call_id q = Some (pc_id row) \<and> get_call (gw_db gw') (pc_id row) = Some row \<and>
           pc_status row = ProviderCallStatus_SUCCEEDED \<and> pc_idempotency_key row = ri_key ri \<and>
           spent_of (gw_db gw') p = spent_of (gw_db gw) p + or_zero (pc_estimated_cost row))"
proof (cases "normalize_usage response (pp_input_text pp)")
  case (Inl e)
  then show ?thesis using run inv by (auto simp: attempt_success_def Let_def)
next
  case u: (Inr usage)
  define amount where "amount = pe_amount (estimate_price c usage)"
  define latency where "latency = max 0 (round_half_even ((ge_clock env (gw_ticks gw) - t) * 1000))"
  let ?f = "finish_call (gw_db gw) i ProviderCallStatus_SUCCEEDED (Some usage) amount latency
    (lr_request_id response) None (ge_now env (gw_ticks (tick gw)))"
  show ?thesis
  proof (cases ?f)
    case (Inl e)
    then show ?thesis using run inv u by (auto simp: attempt_success_def Let_def amount_def latency_def)
  next
    case (Inr x)
    then obtain db2 j where f: "?f = Inr (db2, j)" by (cases x) auto
    note e = finish_call_effect [OF f inv]
    obtain row' where row': "get_call db2 i = Some row'" "j = i" "pc_id row' = i"
      "pc_status row' = ProviderCallStatus_SUCCEEDED" "pc_idempotency_key row' = ri_key ri"
      "pc_estimated_cost row' = amount" using e(4) row by auto
    show ?thesis
    proof (cases "settle db2 p (at_reserved att) amount None")
      case (Inl e)
      then show ?thesis using run u f p e(1,2,3)
        by (auto simp: attempt_success_def Let_def amount_def latency_def)
    next
      case (Inr y)
      then obtain db3 v where s: "settle db2 p (at_reserved att) amount None = Inr (db3, v)" by (cases y) auto
      note l = settle_ledger [OF s e(1)] and fr = settle_frame [OF s]
      have b2: "budget_for_project db2 p \<noteq> None" using budget budget_frame [OF e(2)] by simp
      have "get_call db3 = get_call db2" using fr by (simp add: fun_eq_iff get_call_def)
      moreover from claim obtain r0 where "claim_for_key (gw_db gw) (ri_key ri) = Some r0" by auto
      then have "claim_for_key db3 (ri_key ri) = Some r0"
        using claim_frame [OF e(3)] claim_frame [of db3 db2] fr by simp
      ultimately have "\<exists>db4. claim_succeeded db3 (ri_key ri) i (ge_hash_output env (lr_output response))
          = Inr (db4, ())"
        using finish_claim_ok [OF l(1), of "ri_key ri" r0 "Some i"] row'(1)
        by (simp add: claim_succeeded_def present_def)
      then obtain db4 where c: "claim_succeeded db3 (ri_key ri) i (ge_hash_output env (lr_output response))
          = Inr (db4, ())" ..
      note g = finish_claim_effect [OF c [unfolded claim_succeeded_def]]
      have keys: "pkeys_ok db3" using l(1) by (simp add: db_inv_def)
      have r: "r = Inr (response\<lparr>lr_provider := mr_provider reference,
                                      lr_model := mr_model reference, lr_attempts := n\<rparr>)" "gw_db gw' = db4"
        using run u f p s c row'(2) by (auto simp: attempt_success_def Let_def amount_def latency_def)
      have "get_call db4 i = Some row'"
        using row'(1) fr g(4) [OF keys] by (simp add: get_call_def)
      moreover have "reserved_of db4 p = reserved_of db3 p" "spent_of db4 p = spent_of db3 p"
        using ledger_frame [OF g(3) [OF keys]] by simp_all
      moreover have "reserved_of db2 p = reserved_of (gw_db gw) p" "spent_of db2 p = spent_of (gw_db gw) p"
        using ledger_frame [OF e(2)] by simp_all
      moreover obtain q where "claim_for_key db4 (ri_key ri) = Some q" "ir_status q = IdempotencyStatus_SUCCEEDED"
        "ir_provider_call_id q = Some i" using g(6) [OF keys] by auto
      ultimately show ?thesis
        using r g(1,2) [OF keys] l(2,3) b2 row' by (auto simp: db_inv_def)
    qed
  qed
qed

lemma attempt_invoke_effect:
  assumes run: "attempt_invoke env ri reference c pp n att i gw = (gw', r)"
    and inv: "db_inv (gw_db gw)" and p: "cx_project_id (ge_context env) = Some p"
    and row: "get_call (gw_db gw) i = Some row" "pc_idempotency_key row = ri_key ri"
    and budget: "budget_for_project (gw_db gw) p \<noteq> None"
    and claim: "claim_for_key (gw_db gw) (ri_key ri) \<noteq> None"
  shows "case r of
      Inl e \<Rightarrow> db_inv (gw_db gw') \<and> pd_budgets (gw_db gw') = pd_budgets (gw_db gw) \<and>
        pd_idempotency (gw_db gw') = pd_idempotency (gw_db gw)
    | Inr resp \<Rightarrow> db_inv (gw_db gw') \<and>
        reserved_of (gw_db gw') p = max 0 (reserved_of (gw_db gw) p - at_reserved att) \<and>
        (\<exists>q row. claim_for_key (gw_db gw') (ri_key ri) = Some q \<and> ir_status q = IdempotencyStatus_SUCCEEDED \<and>
           ir_provider_call_id q = Some (pc_id row) \<and> get_call (gw_db gw') (pc_id row) = Some row \<and>
           pc_status row = ProviderCallStatus_SUCCEEDED \<and> pc_idempotency_key row = ri_key ri \<and>
           spent_of (gw_db gw') p = spent_of (gw_db gw) p + or_zero (pc_estimated_cost row))"
proof -
  let ?gw1 = "tick gw"
  obtain l x where l: "limiter_enter (ge_limiter_config env) (gw_limiter ?gw1) (circuit_key reference)
      (tu_total_tokens (pp_usage pp)) (ge_clock env (gw_ticks ?gw1)) = (l, x)" by fastforce
  show ?thesis
  proof (cases x)
    case (Inl e)
    then show ?thesis using run l inv by (auto simp: attempt_invoke_def Let_def)
  next
    case (Inr u)
    let ?gw2 = "tick (?gw1\<lparr>gw_limiter := limiter_exit l (circuit_key reference),
                   gw_invoked := gw_invoked ?gw1 @ [(reference, pp_request pp)]\<rparr>)"
    show ?thesis
    proof (cases "ge_invoke env (length (gw_invoked ?gw1)) reference (pp_request pp)")
      case (Inl e)
      then have "r = Inl e" "gw_db gw' = gw_db gw" using run l Inr by (auto simp: attempt_invoke_def Let_def)
      then show ?thesis using inv by simp
    next
      case resp: (Inr response)
      then have "attempt_success env ri reference c pp n (ge_clock env (gw_ticks gw)) att i response ?gw2 = (gw', r)"
        using run l Inr by (simp add: attempt_invoke_def Let_def)
      moreover have db2: "gw_db ?gw2 = gw_db gw" by simp
      ultimately show ?thesis
        using attempt_success_effect [of env ri reference c pp n "ge_clock env (gw_ticks gw)" att i response ?gw2,
            unfolded db2, OF _ inv p row budget claim] by blast
    qed
  qed
qed

text \<open>An attempt that fails leaves its reservation behind; one that succeeds has settled it.\<close>

lemma attempt_effect:
  assumes run: "attempt env ri reference c pp n f gw = (gw', att, r)"
    and inv: "db_inv (gw_db gw)" and p: "cx_project_id (ge_context env) = Some p"
    and claim: "claim_for_key (gw_db gw) (ri_key ri) \<noteq> None"
  shows "case r of Inl e \<Rightarrow> holding p (ri_key ri) (at_reserved att) (gw_db gw) (gw_db gw')
    | Inr resp \<Rightarrow> recorded p (ri_key ri) (gw_db gw) (gw_db gw')"
  using run
proof (cases rule: attempt_elim)
  case (blocked e circuit)
  then show ?thesis using inv by (simp add: holding_def)
next
  case (unreserved e circuit db)
  note re = reserve_for_effect [OF unreserved(3) inv p]
  show ?thesis
    using unreserved re(1,4,5) claim_frame [OF re(2)] by (simp add: holding_def)
next
  case (unaudited e circuit db reserved now)
  note re = reserve_for_effect [OF unaudited(3) inv p]
  show ?thesis
    using unaudited re(1,4,5,6) claim_frame [OF re(2)] by (simp add: holding_def)
next
  case (started circuit db reserved now db4 i)
  note re = reserve_for_effect [OF started(2) inv p]
  have h: "holding p (ri_key ri) reserved (gw_db gw) db"
    using re claim_frame [OF re(2)] by (simp add: holding_def)
  note sc = start_call_effect [OF started(3) re(1)]
  from holding_frame [OF h sc(1,2,3)] have h4: "holding p (ri_key ri) reserved (gw_db gw) db4" .
  obtain row where row: "get_call db4 i = Some row" "pc_idempotency_key row = ri_key ri"
    using sc(4) by blast
  have b4: "budget_for_project db4 p \<noteq> None" using re(6) budget_frame [OF sc(2)] by simp
  have c4: "claim_for_key db4 (ri_key ri) \<noteq> None" using h4 claim by (simp add: holding_def)
  let ?gw4 = "(tick (tick gw))\<lparr>gw_circuit := circuit, gw_db := db4\<rparr>"
  have db4: "gw_db ?gw4 = db4" by simp
  note ai = attempt_invoke_effect [OF started(4), unfolded db4, OF sc(1) p row b4 c4]
  show ?thesis
  proof (cases r)
    case (Inl e)
    then show ?thesis using ai holding_frame [OF h4] started(1) by simp
  next
    case (Inr resp)
    have "0 \<le> reserved_of (gw_db gw) p" by (rule reserved_nonneg [OF inv])
    then have "max 0 (reserved_of db4 p - at_reserved att) = reserved_of (gw_db gw) p"
      using h4 started(1) by (simp add: holding_def)
    then show ?thesis using ai Inr h4 by (simp add: recorded_def holding_def)
  qed
qed

section \<open>A failed attempt is closed\<close>

lemma handle_failure_effect:
  assumes run: "handle_failure env ri reference pp n f att e gw = (gw', r)"
    and h: "holding p (ri_key ri) (at_reserved att) db0 (gw_db gw)" and inv: "db_inv db0"
    and p: "cx_project_id (ge_context env) = Some p"
  shows "untouched p (ri_key ri) db0 (gw_db gw')"
proof -
  let ?rel = "if at_reserved att \<noteq> 0 then release_reservation (gw_db gw) p (at_reserved att)
    else Inr (gw_db gw, ())"
  let ?now = "ge_now env (gw_ticks gw)"
  have hi: "db_inv (gw_db gw)" using h by (simp add: holding_def)
  have "\<exists>db1. ?rel = Inr (db1, ())"
    using release_ok [OF hi, of p "at_reserved att"] by (cases "at_reserved att = 0") simp_all
  then obtain db1 where rel: "?rel = Inr (db1, ())" ..
  have u1: "untouched p (ri_key ri) db0 db1"
  proof (cases "at_reserved att = 0")
    case True
    then show ?thesis using h rel by (simp add: holding_0)
  next
    case False
    then have s: "settle (gw_db gw) p (at_reserved att) None None = Inr (db1, ())"
      using rel by (simp add: release_reservation_def)
    note l = settle_ledger [OF s hi]
    have b: "budget_for_project (gw_db gw) p \<noteq> None" using h False by (simp add: holding_def)
    then have "reserved_of db1 p = max 0 (reserved_of (gw_db gw) p - at_reserved att)"
      "spent_of db1 p = spent_of (gw_db gw) p" using l(2,3) by (auto simp: or_zero_def)
    moreover have "0 \<le> reserved_of db0 p" by (rule reserved_nonneg [OF inv])
    moreover have "claim_for_key db1 = claim_for_key (gw_db gw)" using settle_frame [OF s] claim_frame by blast
    ultimately show ?thesis using h l(1) by (simp add: untouched_def holding_def)
  qed
  define opened where "opened = (case at_call_id att of Some i \<Rightarrow> Inr (db1, i)
    | None \<Rightarrow> start_call env db1 ri reference n f (Some (pe_snapshot (pp_price pp))) ?now)"
  have frame: "untouched p (ri_key ri) db0 db2"
    if "untouched p (ri_key ri) db0 db'" "db_inv db2" "pd_budgets db2 = pd_budgets db'"
      "pd_idempotency db2 = pd_idempotency db'" for db' db2
    using holding_frame [of p "ri_key ri" 0 db0 db' db2] that by (simp add: holding_0)
  show ?thesis
  proof (cases opened)
    case (Inl x)
    then have "gw_db gw' = db1" using run p rel by (auto simp: handle_failure_def Let_def opened_def)
    then show ?thesis using u1 by simp
  next
    case (Inr y)
    then obtain db2 i where o: "opened = Inr (db2, i)" by (cases y) auto
    have i1: "db_inv db1" using u1 by (simp add: untouched_def)
    have "untouched p (ri_key ri) db0 db2"
    proof (cases "at_call_id att")
      case None
      then have sc: "start_call env db1 ri reference n f (Some (pe_snapshot (pp_price pp))) ?now = Inr (db2, i)"
        using o by (simp add: opened_def)
      show ?thesis by (rule frame [OF u1 start_call_effect(1,2,3) [OF sc i1]])
    next
      case (Some j)
      then show ?thesis using o u1 by (simp add: opened_def)
    qed
    note u2 = this
    then have i2: "db_inv db2" by (simp add: untouched_def)
    let ?fin = "finish_call db2 i (status_for_error e) None None 0 None (Some (exn_name e)) ?now"
    show ?thesis
    proof (cases ?fin)
      case (Inl x)
      then have "gw_db gw' = db2" using run p rel o by (auto simp: handle_failure_def Let_def opened_def)
      then show ?thesis using u2 by simp
    next
      case (Inr z)
      then obtain db3 j where fin: "?fin = Inr (db3, j)" by (cases z) auto
      then have "gw_db gw' = db3"
        using run p rel o by (auto simp: handle_failure_def Let_def opened_def split: if_splits)
      then show ?thesis using frame [OF u2 finish_call_effect(1,2,3) [OF fin i2]] by simp
    qed
  qed
qed

section \<open>Retries and fallbacks\<close>

definition loop_accounts :: "int \<Rightarrow> string \<Rightarrow> pdb \<Rightarrow> pdb \<Rightarrow> loop_end \<Rightarrow> bool" where
  "loop_accounts p k db db' r \<longleftrightarrow>
     (case r of Returned resp \<Rightarrow> recorded p k db db' | _ \<Rightarrow> untouched p k db db')"

lemma loop_accounts_trans:
  "untouched p k a b \<Longrightarrow> loop_accounts p k b c r \<Longrightarrow> loop_accounts p k a c r"
  by (auto simp: loop_accounts_def intro: untouched_trans split: loop_end.splits)

lemma untouched_claim: "untouched p k db db' \<Longrightarrow> claim_for_key db' k = claim_for_key db k"
  by (simp add: untouched_def)

lemma untouched_inv: "untouched p k db db' \<Longrightarrow> db_inv db'"
  by (simp add: untouched_def)

lemma retry_loop_accounts:
  assumes "db_inv (gw_db gw)" and p: "cx_project_id (ge_context env) = Some p"
    and "claim_for_key (gw_db gw) (ri_key ri) \<noteq> None"
    and "retry_loop env started ri reference c pp f idx lerr n gw = (gw', n', r)"
  shows "loop_accounts p (ri_key ri) (gw_db gw) (gw_db gw') r"
  using assms(1,3,4)
proof (induction "idx" arbitrary: lerr n gw)
  case Nil
  then show ?case by (auto simp: loop_accounts_def untouched_refl)
next
  case (Cons i rest)
  obtain gw2 att x where a: "attempt env ri reference c pp (n + 1) f (tick gw) = (gw2, att, x)"
    by (metis prod_cases3)
  have ae: "case x of Inl e \<Rightarrow> holding p (ri_key ri) (at_reserved att) (gw_db gw) (gw_db gw2)
    | Inr resp \<Rightarrow> recorded p (ri_key ri) (gw_db gw) (gw_db gw2)"
    using attempt_effect [OF a, unfolded tick_frame(1), OF Cons.prems(1) p Cons.prems(2)] .
  show ?case
  proof (cases "ge_deadline env \<le> ge_clock env (gw_ticks gw) - started")
    case True
    then show ?thesis using Cons.prems by (auto simp: loop_accounts_def untouched_refl Let_def)
  next
    case time: False
    show ?thesis
    proof (cases x)
      case (Inr response)
      then show ?thesis using Cons.prems(3) a ae time by (auto simp: loop_accounts_def Let_def)
    next
      case (Inl e)
      obtain gw3 u where h: "handle_failure env ri reference pp (n + 1) f att e gw2 = (gw3, u)" by fastforce
      have u3: "untouched p (ri_key ri) (gw_db gw) (gw_db gw3)"
        using handle_failure_effect [OF h _ Cons.prems(1) p] ae Inl by simp
      show ?thesis
      proof (cases u)
        case u: (Inl y)
        then show ?thesis using Cons.prems(3) a h Inl time u3 by (auto simp: loop_accounts_def Let_def)
      next
        case u: (Inr y)
        show ?thesis
        proof (cases "\<not> retryable e \<or> rp_max_retries (ge_retry env) \<le> i")
          case True
          then show ?thesis using Cons.prems(3) a h Inl u time u3 by (auto simp: loop_accounts_def Let_def)
        next
          case False
          then have "retry_loop env started ri reference c pp f rest (Some e) (n + 1) gw3 = (gw', n', r)"
            using Cons.prems(3) a h Inl u time by (simp add: Let_def)
          then show ?thesis
            using Cons.IH [of gw3 "Some e" "n + 1"] untouched_inv [OF u3] untouched_claim [OF u3]
              Cons.prems(2) loop_accounts_trans [OF u3] by simp
        qed
      qed
    qed
  qed
qed

lemma loop_accounts_frame:
  assumes "db_inv db2" "pd_budgets db2 = pd_budgets db" "pd_idempotency db2 = pd_idempotency db"
  shows "untouched p k db db2"
  using assms(1) ledger_frame [OF assms(2)] claim_frame [OF assms(3)] by (simp add: untouched_def)

lemma fallback_loop_accounts:
  assumes "db_inv (gw_db gw)" and p: "cx_project_id (ge_context env) = Some p"
    and "claim_for_key (gw_db gw) (ri_key ri) \<noteq> None"
    and "fallback_loop env started ri rt cs lerr n gw = (gw', n', r)"
  shows "loop_accounts p (ri_key ri) (gw_db gw) (gw_db gw') r"
  using assms(1,3,4)
proof (induction cs arbitrary: lerr n gw)
  case Nil
  then show ?case by (auto simp: loop_accounts_def untouched_refl)
next
  case (Cons entry rest)
  obtain f reference where e: "entry = (f, reference)" by fastforce
  note inv = Cons.prems(1) and claim = Cons.prems(2)
  have same: "untouched p (ri_key ri) (gw_db gw) (gw_db gw)" by (rule untouched_refl [OF inv])
  show ?case
  proof (cases "provider_registry_get (ge_registry env) reference")
    case (Inl x)
    then show ?thesis using Cons.prems(3) e same by (auto simp: loop_accounts_def)
  next
    case reg: (Inr c)
    show ?thesis
    proof (cases "reference_key reference \<in> set (ge_providers env)")
      case False
      then show ?thesis using Cons.IH [OF inv claim] Cons.prems(3) e reg by simp
    next
      case known: True
      show ?thesis
      proof (cases "prepare_call env rt c (ri_request ri)")
        case prep: (Inl x)
        let ?start = "start_call env (gw_db gw) ri reference (n + 1) f None (ge_now env (gw_ticks gw))"
        show ?thesis
        proof (cases ?start)
          case (Inl y)
          then show ?thesis using Cons.prems(3) e reg known prep same by (auto simp: loop_accounts_def)
        next
          case (Inr z)
          then obtain db1 i where s: "?start = Inr (db1, i)" by (cases z) auto
          note se = start_call_effect [OF s inv]
          let ?fin = "finish_call db1 i (status_for_error x) None None 0 None (Some (exn_name x))
            (ge_now env (gw_ticks gw))"
          show ?thesis
          proof (cases ?fin)
            case (Inl y)
            then show ?thesis using Cons.prems(3) e reg known prep s loop_accounts_frame [OF se(1,2,3)]
              by (auto simp: loop_accounts_def)
          next
            case (Inr z)
            then obtain db2 j where fin: "?fin = Inr (db2, j)" by (cases z) auto
            note fe = finish_call_effect [OF fin se(1)]
            have "untouched p (ri_key ri) (gw_db gw) db2"
              using fe(1,2,3) se(2,3) by (intro loop_accounts_frame) simp_all
            then show ?thesis using Cons.prems(3) e reg known prep s fin by (auto simp: loop_accounts_def)
          qed
        qed
      next
        case prep: (Inr pp)
        obtain gw1 n1 x where l: "retry_loop env started ri reference c pp f
            [0..rp_max_retries (ge_retry env)] lerr n gw = (gw1, n1, x)" by (metis prod_cases3)
        note ra = retry_loop_accounts [OF inv p claim l]
        have step: "(gw', n', r) = (case x of
              Ended (Some e) \<Rightarrow>
                 if e \<in> {LLMAuthenticationError, LLMRefusalError, BudgetBlockedError, PrivacyPolicyError}
                 then (gw1, n1, Ended (Some e))
                 else fallback_loop env started ri rt rest (Some e) n1 gw1
             | Ended None \<Rightarrow> fallback_loop env started ri rt rest None n1 gw1
             | other \<Rightarrow> (gw1, n1, other))"
          using Cons.prems(3) e reg known prep l by (cases x) (auto split: option.splits)
        show ?thesis
        proof (cases "\<exists>l'. x = Ended l' \<and> (gw', n', r) = fallback_loop env started ri rt rest l' n1 gw1")
          case True
          then obtain l' where x: "x = Ended l'" "fallback_loop env started ri rt rest l' n1 gw1 = (gw', n', r)"
            by metis
          then have u: "untouched p (ri_key ri) (gw_db gw) (gw_db gw1)" using ra by (simp add: loop_accounts_def)
          show ?thesis
            using Cons.IH [OF untouched_inv [OF u] _ x(2)] untouched_claim [OF u] claim
              loop_accounts_trans [OF u] by simp
        next
          case False
          then have "gw' = gw1 \<and> r = x" using step by (cases x) (auto split: option.splits if_splits)
          then show ?thesis using ra by simp
        qed
      qed
    qed
  qed
qed

end
