(* ===== verification/Gateway_Demo.thy ===== *)
theory Gateway_Demo
  imports Gateway_Effects
begin

text \<open>
  One concrete gateway for the theorems about \<open>generate\<close>: a project with a budget, the built-in
  mock models with a price, and providers that answer from a script.
\<close>

definition demo_models :: provider_registry where
  "demo_models =
     (case make_registry
        [(mock_chat ''mock-storyforge-v1'' 128000)
           \<lparr>mc_input_cost_per_million := Some 2, mc_output_cost_per_million := Some 10,
            mc_cached_input_cost_per_million := Some 1\<rparr>,
         mock_chat ''mock-storyforge-fallback-v1'' 256000, mock_embedding] of
        Inl e \<Rightarrow> [] | Inr models \<Rightarrow> models)"

definition demo_context :: call_context where
  "demo_context = \<lparr>cx_project_id = Some 1, cx_workflow_run_id = None, cx_chapter_id = None,
     cx_chapter_version_id = None, cx_idempotency_scope = None, cx_profile = ModelProfile_OFFLINE,
     cx_privacy_policy = PrivacyPolicy_OFFLINE\<rparr>"

definition demo_env :: "(nat \<Rightarrow> llm_response result) \<Rightarrow> gateway_env" where
  "demo_env script =
     \<lparr>ge_settings = default_settings, ge_registry = demo_models, ge_context = demo_context,
      ge_providers = [(''mock'', ''mock-storyforge-v1''), (''mock'', ''mock-storyforge-fallback-v1'')],
      ge_retry = default_retry_policy, ge_circuit_config = \<lparr>cc_threshold = 5, cc_cooldown = 30\<rparr>,
      ge_limiter_config = \<lparr>rl_rpm = 60, rl_tpm = 1000000, rl_max_concurrency = 4\<rparr>,
      ge_deadline = 120, ge_redact = (\<lambda>c. c), ge_invoke = (\<lambda>k reference request. script k),
      ge_clock = (\<lambda>t. 0), ge_now = (\<lambda>t. 7),
      ge_hash_request = (\<lambda>(name, version, messages). name @ version),
      ge_hash_key = (\<lambda>fields. ''key''), ge_hash_output = (\<lambda>out. ''digest'')\<rparr>"

definition demo_response :: llm_response where
  "demo_response = \<lparr>lr_output = [104, 105], lr_provider = ''mock'', lr_model = ''mock-storyforge-v1'',
     lr_attempts = 1, lr_usage = Some \<lparr>tu_input_tokens = 100, tu_output_tokens = 50,
       tu_cached_input_tokens = 0, tu_total_tokens = 150, tu_source = TokenUsageSource_PROVIDER_REPORTED\<rparr>,
     lr_request_id = Some ''r1''\<rparr>"

definition demo_prompt :: prompt_request where
  "demo_prompt = \<lparr>pq_name = ''planner'', pq_version = ''1'',
     pq_messages = [\<lparr>lm_role = ''user'', lm_content = [104, 101, 108, 108, 111]\<rparr>]\<rparr>"

definition demo_gateway :: gateway where
  "demo_gateway = \<lparr>gw_db = demo_budgeted, gw_circuit = new_circuit, gw_limiter = new_limiter,
     gw_cache = [], gw_ticks = 0, gw_invoked = []\<rparr>"

text \<open>The first answer of the provider is a timeout; the second is the response.\<close>

definition demo_recovers :: gateway_env where
  "demo_recovers = demo_env (\<lambda>k. if k = 0 then Inl LLMTimeoutError else Inr demo_response)"

text \<open>Every answer is a refusal.\<close>

definition demo_refuses :: gateway_env where
  "demo_refuses = demo_env (\<lambda>k. Inl LLMRefusalError)"

definition demo_served :: gateway where
  "demo_served = fst (generate demo_recovers demo_gateway demo_prompt)"

definition demo_failed :: gateway where
  "demo_failed = fst (generate demo_refuses demo_gateway demo_prompt)"

lemma demo_gateway_inv: "db_inv (gw_db demo_gateway)"
  by code_simp

end
