(* ===== verification/Gateway_Properties.thy ===== *)
theory Gateway_Properties
  imports Gateway_Demo
begin

text \<open>
  What \<open>GovernedLLMProvider.generate\<close> guarantees to a caller: the accounts, what leaves the process,
  that a success is never sent again, and the failure that cannot be retried.
\<close>

section \<open>The run behind a request\<close>

definition request_key :: "gateway_env \<Rightarrow> gateway \<Rightarrow> prompt_request \<Rightarrow> string" where
  "request_key env gw request =
     gateway_key env (request_hash env request)
       (case task_for_prompt (pq_name request) of Inl e \<Rightarrow> TaskType_PLANNING | Inr t \<Rightarrow> t)
       (effective_workflow_run_id env (gw_db gw))"

text \<open>Either nothing was claimed and nothing happened, or the fallback loop ran under the claim.\<close>

lemma generate_elim:
  assumes "generate env gw request = (gw', r)"
  obtains
    (refused) e where "r = Inl e" "gw' = gw"
      "(case task_for_prompt (pq_name request) of
          Inl e' \<Rightarrow> e' = e
        | Inr task \<Rightarrow> route (ge_registry env) (ge_settings env) task (cx_profile (ge_context env)) = Inl e \<or>
            claim_request (gw_db gw) (request_key env gw request) = Inl e)"
  | (cached) resp where "r = Inr resp" "gw' = gw" "map_of (gw_cache gw) (request_key env gw request) = Some resp"
  | (replayed) db where "r = Inl IdempotencyConflictError" "gw' = gw\<lparr>gw_db := db\<rparr>"
      "claim_request (gw_db gw) (request_key env gw request) = Inr (db, True)"
  | (sent) task rt ri db1 gw2 n x where
      "task_for_prompt (pq_name request) = Inr task"
      "route (ge_registry env) (ge_settings env) task (cx_profile (ge_context env)) = Inr rt"
      "map_of (gw_cache gw) (request_key env gw request) = None"
      "claim_request (gw_db gw) (request_key env gw request) = Inr (db1, False)"
      "ri_request ri = request" "ri_key ri = request_key env gw request"
      "fallback_loop env (ge_clock env (gw_ticks gw)) ri rt
         (zip [0..int (length (rt_primary_model rt # rt_fallback_models rt)) - 1]
            (rt_primary_model rt # rt_fallback_models rt)) None 0
         (tick (gw\<lparr>gw_db := db1\<rparr>)) = (gw2, n, x)"
      "(gw', r) = (case x of
          Returned response \<Rightarrow> (gw2, Inr response)
        | Raised e \<Rightarrow> (gw2, Inl e)
        | Ended last_error \<Rightarrow>
            (case claim_failed (gw_db gw2) (ri_key ri)
                    (case last_error of None \<Rightarrow> ''provider_failed'' | Some e \<Rightarrow> exn_name e) of
               Inl e \<Rightarrow> (gw2, Inl e)
             | Inr (db3, _) \<Rightarrow> (gw2\<lparr>gw_db := db3\<rparr>,
                 Inl (case last_error of None \<Rightarrow> LLMProviderError | Some e \<Rightarrow> e))))"
proof (cases "task_for_prompt (pq_name request)")
  case (Inl e)
  then show ?thesis using assms refused by (auto simp: generate_def)
next
  case t: (Inr task)
  show ?thesis
  proof (cases "route (ge_registry env) (ge_settings env) task (cx_profile (ge_context env))")
    case (Inl e)
    then show ?thesis using assms refused t by (auto simp: generate_def)
  next
    case rt: (Inr rt)
    define k where "k = request_key env gw request"
    have k: "gateway_key env (request_hash env request) task (effective_workflow_run_id env (gw_db gw)) = k"
      using t by (simp add: k_def request_key_def)
    show ?thesis
    proof (cases "map_of (gw_cache gw) k")
      case (Some resp)
      then show ?thesis using assms t rt k by (intro cached) (auto simp: generate_def Let_def k_def)
    next
      case c: None
      show ?thesis
      proof (cases "claim_request (gw_db gw) k")
        case (Inl e)
        then show ?thesis using assms refused t rt k c by (auto simp: generate_def Let_def k_def)
      next
        case (Inr y)
        then obtain db1 replay where claim: "claim_request (gw_db gw) k = Inr (db1, replay)" by (cases y) auto
        show ?thesis
        proof (cases replay)
          case True
          then show ?thesis using assms t rt k c claim
            by (intro replayed) (auto simp: generate_def Let_def k_def)
        next
          case False
          then have claim': "claim_request (gw_db gw) k = Inr (db1, False)" using claim by simp
          define ri where "ri = \<lparr>ri_request = request, ri_task = task, ri_hash = request_hash env request,
            ri_key = k, ri_workflow_run_id = effective_workflow_run_id env (gw_db gw)\<rparr>"
          obtain gw2 n x where l: "fallback_loop env (ge_clock env (gw_ticks gw)) ri rt
             (zip [0..int (length (rt_primary_model rt # rt_fallback_models rt)) - 1]
                (rt_primary_model rt # rt_fallback_models rt)) None 0
             (tick (gw\<lparr>gw_db := db1\<rparr>)) = (gw2, n, x)" by (metis prod_cases3)
          have g: "generate env gw request = (case (gw2, n, x) of
                 (gw2, n, Returned response) \<Rightarrow> (gw2, Inr response)
               | (gw2, n, Raised e) \<Rightarrow> (gw2, Inl e)
               | (gw2, n, Ended last_error) \<Rightarrow>
                   (case claim_failed (gw_db gw2) k
                           (case last_error of None \<Rightarrow> ''provider_failed'' | Some e \<Rightarrow> exn_name e) of
                      Inl e \<Rightarrow> (gw2, Inl e)
                    | Inr (db3, _) \<Rightarrow> (gw2\<lparr>gw_db := db3\<rparr>,
                        Inl (case last_error of None \<Rightarrow> LLMProviderError | Some e \<Rightarrow> e))))"
            using l False unfolding generate_def Let_def t rt sum.case k c option.case claim' prod.case ri_def
            by simp
          have "(gw', r) = (case x of
              Returned response \<Rightarrow> (gw2, Inr response)
            | Raised e \<Rightarrow> (gw2, Inl e)
            | Ended last_error \<Rightarrow>
                (case claim_failed (gw_db gw2) (ri_key ri)
                        (case last_error of None \<Rightarrow> ''provider_failed'' | Some e \<Rightarrow> exn_name e) of
                   Inl e \<Rightarrow> (gw2, Inl e)
                 | Inr (db3, _) \<Rightarrow> (gw2\<lparr>gw_db := db3\<rparr>,
                     Inl (case last_error of None \<Rightarrow> LLMProviderError | Some e \<Rightarrow> e))))"
            using g assms by (simp add: ri_def split: loop_end.split)
          from sent [OF t rt c [unfolded k_def] claim' [unfolded k_def] _ _ l this] show ?thesis
            by (simp add: ri_def k_def)
        qed
      qed
    qed
  qed
qed

section \<open>The accounts of a request\<close>

lemma claimed_start:
  assumes "claim_request db k = Inr (db1, False)" and "db_inv db"
  shows "db_inv db1" "reserved_of db1 = reserved_of db" "spent_of db1 = spent_of db"
    "\<exists>c. claim_for_key db1 k = Some c \<and> ir_status c = IdempotencyStatus_ACTIVE"
proof -
  note fr = claim_request_frame [OF assms(1)]
  show "db_inv db1" using fr assms(2) by (simp add: db_inv_def)
  show "reserved_of db1 = reserved_of db" "spent_of db1 = spent_of db"
    using fr ledger_frame by blast+
  show "\<exists>c. claim_for_key db1 k = Some c \<and> ir_status c = IdempotencyStatus_ACTIVE"
    using claim_request_claims(1) [OF assms(1)] assms(2) by (simp add: db_inv_def)
qed

lemma sent_accounts:
  assumes inv: "db_inv (gw_db gw)" and p: "cx_project_id (ge_context env) = Some p"
    and claim: "claim_request (gw_db gw) (ri_key ri) = Inr (db1, False)"
    and run: "fallback_loop env started ri rt cs None 0 (tick (gw\<lparr>gw_db := db1\<rparr>)) = (gw2, n, x)"
  shows "loop_accounts p (ri_key ri) db1 (gw_db gw2) x"
proof -
  note c = claimed_start [OF claim inv]
  let ?gw1 = "tick (gw\<lparr>gw_db := db1\<rparr>)"
  have "gw_db ?gw1 = db1" by simp
  from fallback_loop_accounts [of ?gw1, unfolded this, OF c(1) p _ run] c(4) show ?thesis by auto
qed

lemma generate_accounts:
  assumes inv: "db_inv (gw_db gw)" and p: "cx_project_id (ge_context env) = Some p"
    and run: "generate env gw request = (gw', r)"
  shows "case r of
      Inl e \<Rightarrow> db_inv (gw_db gw') \<and> reserved_of (gw_db gw') p = reserved_of (gw_db gw) p \<and>
        spent_of (gw_db gw') p = spent_of (gw_db gw) p
    | Inr resp \<Rightarrow> gw' = gw \<and> map_of (gw_cache gw) (request_key env gw request) = Some resp \<or>
        recorded p (request_key env gw request) (gw_db gw) (gw_db gw')"
  using run
proof (cases rule: generate_elim)
  case (refused e)
  then show ?thesis using inv by simp
next
  case (cached resp)
  then show ?thesis by simp
next
  case (replayed db)
  from claim_request_frame [OF replayed(3)] have fr: "pd_budgets db = pd_budgets (gw_db gw)" "db_inv db"
    using inv by (simp_all add: db_inv_def)
  then show ?thesis using replayed ledger_frame [OF fr(1)] by simp
next
  case (sent task rt ri db1 gw2 n x)
  note c = claimed_start [OF sent(4) inv]
  note a = sent_accounts [OF inv p _ sent(7), unfolded sent(6), OF sent(4)]
  show ?thesis
  proof (cases x)
    case (Returned resp)
    then show ?thesis using sent(8) a c(2,3) by (simp add: loop_accounts_def recorded_def)
  next
    case (Raised e)
    then show ?thesis using sent(8) a c(2,3) by (simp add: loop_accounts_def untouched_def)
  next
    case (Ended lerr)
    then have u: "untouched p (request_key env gw request) db1 (gw_db gw2)" using a by (simp add: loop_accounts_def)
    show ?thesis
    proof (cases "claim_failed (gw_db gw2) (ri_key ri)
        (case lerr of None \<Rightarrow> ''provider_failed'' | Some e \<Rightarrow> exn_name e)")
      case (Inl e)
      then show ?thesis using sent(8) Ended u c(2,3) by (simp add: untouched_def)
    next
      case (Inr y)
      then obtain db3 v where f: "claim_failed (gw_db gw2) (ri_key ri)
        (case lerr of None \<Rightarrow> ''provider_failed'' | Some e \<Rightarrow> exn_name e) = Inr (db3, v)" by (cases y) auto
      have "pkeys_ok (gw_db gw2)" using u by (simp add: untouched_def db_inv_def)
      note fe = finish_claim_effect [OF f [unfolded claim_failed_def] this]
      have "gw_db gw' = db3" "isl r" using sent(8) Ended f by simp_all
      then show ?thesis using fe(1,2) ledger_frame [OF fe(3)] u c(2,3)
        by (cases r) (simp_all add: untouched_def db_inv_def)
    qed
  qed
qed

text \<open>
  C10. Whatever happens to a request (a missing model, an open circuit, a full budget, timeouts,
  retries, fallbacks, a database error), \<open>generate\<close> leaves the project's reservations exactly as
  it found them, so no reservation leaks. When it raises, nothing was spent. When it returns, the
  response either comes from the gateway's cache, with no state changed, or there is one audit row
  of this request with status SUCCEEDED, the request's claim is SUCCEEDED and names that row, and
  the project's spending grew by exactly the cost the row records.
\<close>

theorem request_is_paid_once:
  assumes "db_inv (gw_db gw)" and "cx_project_id (ge_context env) = Some p"
    and "generate env gw request = (gw', r)"
  shows "reserved_of (gw_db gw') p = reserved_of (gw_db gw) p \<and>
    (case r of
      Inl e \<Rightarrow> spent_of (gw_db gw') p = spent_of (gw_db gw) p
    | Inr resp \<Rightarrow> gw' = gw \<and> map_of (gw_cache gw) (request_key env gw request) = Some resp \<or>
        (\<exists>claim row. claim_for_key (gw_db gw') (request_key env gw request) = Some claim \<and>
           ir_status claim = IdempotencyStatus_SUCCEEDED \<and>
           ir_provider_call_id claim = Some (pc_id row) \<and>
           get_call (gw_db gw') (pc_id row) = Some row \<and>
           pc_status row = ProviderCallStatus_SUCCEEDED \<and>
           pc_idempotency_key row = request_key env gw request \<and>
           spent_of (gw_db gw') p = spent_of (gw_db gw) p + or_zero (pc_estimated_cost row)))"
  using generate_accounts [OF assms] by (cases r) (auto simp: recorded_def)

lemma demo_served_run:
  "(case generate demo_recovers demo_gateway demo_prompt of
      (gw, r) \<Rightarrow> (r = Inr (demo_response\<lparr>lr_attempts := 2\<rparr>), map fst (gw_cache gw), length (gw_invoked gw))) =
   (True, [''key''], 2)"
  by code_simp

theorem request_is_paid_once_applied:
  "reserved_of (gw_db demo_served) 1 = reserved_of (gw_db demo_gateway) 1 \<and>
   (\<exists>row. get_call (gw_db demo_served) (pc_id row) = Some row \<and>
      pc_status row = ProviderCallStatus_SUCCEEDED \<and>
      spent_of (gw_db demo_served) 1 = spent_of (gw_db demo_gateway) 1 + or_zero (pc_estimated_cost row))"
proof -
  obtain gw r where g: "generate demo_recovers demo_gateway demo_prompt = (gw, r)" by fastforce
  have p: "cx_project_id (ge_context demo_recovers) = Some 1" by code_simp
  have r: "r = Inr (demo_response\<lparr>lr_attempts := 2\<rparr>)" "gw_cache gw \<noteq> []"
    using demo_served_run g by (auto split: if_splits)
  have "gw_cache demo_gateway = []" by (simp add: demo_gateway_def)
  moreover have "gw = demo_served" using g by (simp add: demo_served_def)
  ultimately show ?thesis
    using request_is_paid_once [OF demo_gateway_inv p g] r by auto
qed

section \<open>What leaves the process\<close>

lemma redact_messages_Inr:
  "redact_messages redact ms = Inr out \<Longrightarrow> out = map (\<lambda>m. m\<lparr>lm_content := redact (lm_content m)\<rparr>) ms"
  by (induction ms arbitrary: out) (auto simp: Let_def split: if_splits)

lemma prepared_request_policy:
  assumes "prepare_call env rt c request = Inr pp"
  shows "\<not> (cx_privacy_policy (ge_context env) = PrivacyPolicy_OFFLINE \<and> mc_external c)"
    and "pp_request pp =
      (if cx_privacy_policy (ge_context env) = PrivacyPolicy_STRICT \<and> mc_external c
       then request\<lparr>pq_messages :=
         map (\<lambda>m. m\<lparr>lm_content := ge_redact env (lm_content m)\<rparr>) (pq_messages request)\<rparr>
       else request)"
  using assms by (auto simp: prepare_call_def prepare_request_def Let_def redact_messages_Inr split: if_splits)

lemma prepared_for_policy:
  assumes "prepared_for env rt request A (reference, sent)"
  shows "\<exists>c. provider_registry_get (ge_registry env) reference = Inr c \<and>
     \<not> (cx_privacy_policy (ge_context env) = PrivacyPolicy_OFFLINE \<and> mc_external c) \<and>
     sent = (if cx_privacy_policy (ge_context env) = PrivacyPolicy_STRICT \<and> mc_external c
       then request\<lparr>pq_messages :=
         map (\<lambda>m. m\<lparr>lm_content := ge_redact env (lm_content m)\<rparr>) (pq_messages request)\<rparr>
       else request)"
proof -
  obtain c pp where c: "provider_registry_get (ge_registry env) reference = Inr c"
    "prepare_call env rt c request = Inr pp" "sent = pp_request pp"
    using assms by (auto simp: prepared_for_def)
  show ?thesis using c(1) prepared_request_policy [OF c(2)] unfolding c(3) by (intro exI [of _ c] conjI)
qed

lemma route_fallbacks:
  "route models s task profile = Inr rt \<Longrightarrow> length (rt_fallback_models rt) \<le> 1"
  by (auto simp: route_def choose_models_def make_route_def Let_def split: if_splits)

lemma generate_invoked:
  assumes "generate env gw request = (gw', r)"
  shows "\<exists>new rt. gw_invoked gw' = gw_invoked gw @ new \<and>
     length new \<le> nat (rp_max_retries (ge_retry env) + 1) * 2 \<and>
     (\<forall>call \<in> set new. prepared_for env rt request UNIV call)"
  using assms
proof (cases rule: generate_elim)
  case (sent task rt ri db1 gw2 n x)
  let ?cs = "rt_primary_model rt # rt_fallback_models rt"
  have "gw_invoked gw' = gw_invoked gw2"
    using sent(8) by (cases x) (auto split: sum.splits)
  moreover
  let ?zip = "zip [0..int (length ?cs) - 1] ?cs"
  have "gw_invoked (gw\<lparr>gw_db := db1\<rparr>) = gw_invoked gw" by simp
  then obtain new where new: "gw_invoked gw2 = gw_invoked gw @ new"
    "length new \<le> nat (rp_max_retries (ge_retry env) + 1) * length ?zip"
    "\<forall>call \<in> set new. prepared_for env rt request (set (map snd ?zip)) call"
    using fallback_loop_invoked [of env "ge_clock env (gw_ticks gw)" ri rt ?zip None 0 "tick (gw\<lparr>gw_db := db1\<rparr>)"]
    unfolding sent(5,7) fst_conv tick_frame by metis
  moreover have "\<forall>call \<in> set new. prepared_for env rt request UNIV call"
    using new(3) prepared_for_mono by blast
  moreover have "length ?zip \<le> 2" using route_fallbacks [OF sent(2)] by simp
  then have "nat (rp_max_retries (ge_retry env) + 1) * length ?zip \<le> nat (rp_max_retries (ge_retry env) + 1) * 2"
    by (rule mult_le_mono2)
  with new(2) have "length new \<le> nat (rp_max_retries (ge_retry env) + 1) * 2" by (rule order_trans)
  ultimately show ?thesis by (intro exI [of _ new] exI [of _ rt]) metis
qed (intro exI [of _ "[]"]; simp)+

text \<open>
  C12. One call of \<open>generate\<close> hands at most 2 * (max_retries + 1) requests to providers (a route has
  at most one fallback). Every request handed out goes to a registered, enabled model; under the
  OFFLINE policy never to an external model; under the STRICT policy an external model gets every
  message redacted; in every other case the request is sent unchanged.
\<close>

theorem only_permitted_requests_leave:
  assumes "generate env gw request = (gw', r)"
  shows "\<exists>new. gw_invoked gw' = gw_invoked gw @ new \<and>
     length new \<le> 2 * nat (rp_max_retries (ge_retry env) + 1) \<and>
     (\<forall>(reference, sent) \<in> set new. \<exists>c. provider_registry_get (ge_registry env) reference = Inr c \<and>
        \<not> (cx_privacy_policy (ge_context env) = PrivacyPolicy_OFFLINE \<and> mc_external c) \<and>
        sent = (if cx_privacy_policy (ge_context env) = PrivacyPolicy_STRICT \<and> mc_external c
          then request\<lparr>pq_messages :=
            map (\<lambda>m. m\<lparr>lm_content := ge_redact env (lm_content m)\<rparr>) (pq_messages request)\<rparr>
          else request))"
proof -
  obtain new rt where n: "gw_invoked gw' = gw_invoked gw @ new"
    "length new \<le> nat (rp_max_retries (ge_retry env) + 1) * 2"
    "\<forall>call \<in> set new. prepared_for env rt request UNIV call"
    using generate_invoked [OF assms] by blast
  show ?thesis
    using n(1,2) prepared_for_policy n(3) unfolding mult.commute [of 2]
    by (intro exI [of _ new] conjI) blast+
qed

theorem only_permitted_requests_leave_applied:
  "\<exists>new. gw_invoked demo_served = gw_invoked demo_gateway @ new \<and> length new \<le> 6 \<and>
     \<not> (\<exists>(reference, sent) \<in> set new. sent \<noteq> demo_prompt)"
proof -
  obtain gw r where g: "generate demo_recovers demo_gateway demo_prompt = (gw, r)" by fastforce
  have e: "rp_max_retries (ge_retry demo_recovers) = 2"
    "cx_privacy_policy (ge_context demo_recovers) = PrivacyPolicy_OFFLINE" by code_simp+
  from only_permitted_requests_leave [OF g, unfolded e] obtain new where
    "gw_invoked gw = gw_invoked demo_gateway @ new" "length new \<le> 6"
    "\<forall>(reference, sent) \<in> set new. sent = demo_prompt" by auto
  then show ?thesis using g by (intro exI [of _ new]) (auto simp: demo_served_def)
qed

section \<open>A success is final\<close>

lemma claim_request_succeeded:
  "claim_for_key db k = Some c \<Longrightarrow> ir_status c = IdempotencyStatus_SUCCEEDED \<Longrightarrow>
   (\<exists>e. claim_request db k = Inl e) \<or> claim_request db k = Inr (db, True)"
  by (auto simp: claim_request_def pcommit_def)

text \<open>
  C13. A request that returned a response is never sent again. Any later call of \<open>generate\<close> for the
  same key on the same database, from whatever gateway (another process with an empty cache, other
  breaker and limiter states), invokes no provider and changes no row: it returns a cached response
  or raises.
\<close>

theorem success_is_never_resent:
  assumes "db_inv (gw_db gw)" and "cx_project_id (ge_context env) = Some p"
    and "generate env gw request = (gw1, Inr resp)"
    and "map_of (gw_cache gw) (request_key env gw request) = None"
    and "gw_db gw2 = gw_db gw1" and "request_key env gw2 request = request_key env gw request"
    and "generate env gw2 request = (gw3, r)"
  shows "gw_invoked gw3 = gw_invoked gw2 \<and> gw_db gw3 = gw_db gw2 \<and>
    (case r of Inl e \<Rightarrow> True | Inr again \<Rightarrow> map_of (gw_cache gw2) (request_key env gw request) = Some again)"
proof -
  obtain c where c: "claim_for_key (gw_db gw2) (request_key env gw2 request) = Some c"
    "ir_status c = IdempotencyStatus_SUCCEEDED"
    using generate_accounts [OF assms(1-3)] assms(4,5,6) by (auto simp: recorded_def)
  from assms(7) show ?thesis
  proof (cases rule: generate_elim)
    case (replayed db)
    then show ?thesis using claim_request_succeeded [OF c] by auto
  next
    case (sent task rt ri db1 gw2 n x)
    then show ?thesis using claim_request_succeeded [OF c] by auto
  qed (use assms(6) in simp_all)
qed

theorem success_is_never_resent_applied:
  "gw_invoked (fst (generate demo_recovers (demo_served\<lparr>gw_cache := []\<rparr>) demo_prompt)) = gw_invoked demo_served"
proof -
  obtain gw r where g: "generate demo_recovers demo_gateway demo_prompt = (gw, r)" by fastforce
  have p: "cx_project_id (ge_context demo_recovers) = Some 1" by code_simp
  have r: "r = Inr (demo_response\<lparr>lr_attempts := 2\<rparr>)" using demo_served_run g by (auto split: if_splits)
  have gw: "gw = demo_served" using g by (simp add: demo_served_def)
  have key: "request_key demo_recovers x demo_prompt = ''key''" for x
    by (simp add: request_key_def gateway_key_def demo_recovers_def demo_env_def Let_def)
  obtain gw3 r3 where h: "generate demo_recovers (demo_served\<lparr>gw_cache := []\<rparr>) demo_prompt = (gw3, r3)"
    by fastforce
  have "map_of (gw_cache demo_gateway) (request_key demo_recovers demo_gateway demo_prompt) = None"
    by (simp add: demo_gateway_def)
  from success_is_never_resent [OF demo_gateway_inv p g [unfolded r gw] this _ _ h]
  show ?thesis using h key by simp
qed

end
