(* ===== verification/Gateway_Retry.thy ===== *)
theory Gateway_Retry
  imports Gateway_Properties
begin

text \<open>
  Retrying a request that failed. The audit rows of a request are unique by key, attempt and
  fallback index; the second run of the same request numbers its attempts from one again, so its
  first row collides with the first row of the failed run.
\<close>

lemma start_call_duplicate:
  assumes "(ri_key ri, n, f) \<in> call_identity ` set (t_rows (pd_calls db))"
  shows "start_call env db ri reference n f price_snapshot now = Inl IntegrityError"
proof -
  let ?c = "new_call env ri reference n f price_snapshot now"
  have "call_identity (x\<lparr>pc_id := i\<rparr>) = call_identity x" for x i by (simp add: call_identity_def)
  moreover have "call_identity ?c = (ri_key ri, n, f)" by (simp add: call_identity_def new_call_def Let_def)
  ultimately have "\<not> distinct (map call_identity (t_rows (pd_calls (fst (add_call db ?c)))))"
    using assms by (simp add: add_call_def repo_add_def Let_def)
  then show ?thesis by (simp add: start_call_def split_def Let_def pcommit_def pdb_ok_def calls_ok_def)
qed

text \<open>The attempt cannot open its row, and neither can the handler that would record the failure.\<close>

lemma attempt_duplicate:
  assumes run: "attempt env ri reference c pp n f gw = (gw', att, r)"
    and inv: "db_inv (gw_db gw)" and p: "cx_project_id (ge_context env) = Some p"
    and dup: "(ri_key ri, n, f) \<in> call_identity ` set (t_rows (pd_calls (gw_db gw)))"
  shows "(\<exists>e. r = Inl e) \<and> at_call_id att = None \<and> pd_calls (gw_db gw') = pd_calls (gw_db gw) \<and>
    gw_invoked gw' = gw_invoked gw \<and> db_inv (gw_db gw')"
  using run
proof (cases rule: attempt_elim)
  case (blocked e circuit)
  then show ?thesis using inv by simp
next
  case (unreserved e circuit db)
  then show ?thesis using reserve_for_effect(1,3) [OF unreserved(3) inv p] by simp
next
  case (unaudited e circuit db reserved now)
  then show ?thesis using reserve_for_effect(1,3) [OF unaudited(3) inv p] by simp
next
  case (started circuit db reserved now db4 i)
  have "pd_calls db = pd_calls (gw_db gw)" by (rule reserve_for_effect(3) [OF started(2) inv p])
  then have "start_call env db ri reference n f (Some (pe_snapshot (pp_price pp))) now = Inl IntegrityError"
    using dup by (intro start_call_duplicate) simp
  then show ?thesis using started(3) by simp
qed

lemma handle_failure_duplicate:
  assumes inv: "db_inv (gw_db gw)" and p: "cx_project_id (ge_context env) = Some p"
    and none: "at_call_id att = None"
    and dup: "(ri_key ri, n, f) \<in> call_identity ` set (t_rows (pd_calls (gw_db gw)))"
  shows "\<exists>gw'. handle_failure env ri reference pp n f att e gw = (gw', Inl IntegrityError) \<and>
    gw_invoked gw' = gw_invoked gw"
proof -
  let ?rel = "if at_reserved att \<noteq> 0 then release_reservation (gw_db gw) p (at_reserved att)
    else Inr (gw_db gw, ())"
  have "\<exists>db1. ?rel = Inr (db1, ())"
    using release_ok [OF inv, of p "at_reserved att"] by (cases "at_reserved att = 0") simp_all
  then obtain db1 where rel: "?rel = Inr (db1, ())" ..
  have "pd_calls db1 = pd_calls (gw_db gw)"
    using rel settle_frame [of "gw_db gw" p "at_reserved att" None None db1 "()"]
    by (auto simp: release_reservation_def split: if_splits)
  then have "start_call env db1 ri reference n f (Some (pe_snapshot (pp_price pp)))
      (ge_now env (gw_ticks gw)) = Inl IntegrityError"
    using dup by (intro start_call_duplicate) simp
  then show ?thesis
    using p none rel by (auto simp: handle_failure_def Let_def)
qed

lemma retry_loop_duplicate:
  assumes inv: "db_inv (gw_db gw)" and p: "cx_project_id (ge_context env) = Some p"
    and dup: "(ri_key ri, n + 1, f) \<in> call_identity ` set (t_rows (pd_calls (gw_db gw)))"
    and time: "ge_clock env (gw_ticks gw) - started < ge_deadline env"
  shows "\<exists>gw' n'. retry_loop env started ri reference c pp f (i # idx) lerr n gw = (gw', n', Raised IntegrityError) \<and>
    gw_invoked gw' = gw_invoked gw"
proof -
  obtain gw2 att r where a: "attempt env ri reference c pp (n + 1) f (tick gw) = (gw2, att, r)"
    by (metis prod_cases3)
  note ad = attempt_duplicate [OF a, unfolded tick_frame, OF inv p dup]
  then obtain e where r: "r = Inl e" by blast
  have "(ri_key ri, n + 1, f) \<in> call_identity ` set (t_rows (pd_calls (gw_db gw2)))" using ad dup by simp
  from handle_failure_duplicate [OF _ p _ this] ad obtain gw3 where
    "handle_failure env ri reference pp (n + 1) f att e gw2 = (gw3, Inl IntegrityError)"
    "gw_invoked gw3 = gw_invoked gw2" by blast
  then show ?thesis using a r time ad by (auto simp: Let_def)
qed

lemma fallback_loop_duplicate:
  assumes inv: "db_inv (gw_db gw)" and p: "cx_project_id (ge_context env) = Some p"
    and dup: "(ri_key ri, n + 1, f) \<in> call_identity ` set (t_rows (pd_calls (gw_db gw)))"
    and time: "ge_clock env (gw_ticks gw) - started < ge_deadline env"
    and c: "provider_registry_get (ge_registry env) reference = Inr c"
    and known: "reference_key reference \<in> set (ge_providers env)"
    and retries: "0 \<le> rp_max_retries (ge_retry env)"
  shows "\<exists>gw' n'. fallback_loop env started ri rt ((f, reference) # cs) lerr n gw =
      (gw', n', Raised IntegrityError) \<and> gw_invoked gw' = gw_invoked gw"
proof (cases "prepare_call env rt c (ri_request ri)")
  case (Inl e)
  then show ?thesis using c known start_call_duplicate [OF dup] by simp
next
  case (Inr pp)
  have "[0..rp_max_retries (ge_retry env)] = 0 # [1..rp_max_retries (ge_retry env)]"
    using retries by (simp add: upto_rec1)
  then show ?thesis
    using retry_loop_duplicate [OF inv p dup time, of reference c pp 0 "[1..rp_max_retries (ge_retry env)]" lerr]
      c known Inr by auto
qed

lemma route_primary:
  "route models s task profile = Inr rt \<Longrightarrow>
   \<exists>c. provider_registry_get models (rt_primary_model rt) = Inr c"
  by (auto simp: route_def make_route_def Let_def split: if_splits)

lemma failed_claim_taken:
  assumes "db_inv db" and "map_option ir_status (claim_for_key db k) = Some IdempotencyStatus_FAILED"
  shows "\<exists>db'. claim_request db k = Inr (db', False)"
proof -
  obtain c where c: "claim_for_key db k = Some c" "ir_status c = IdempotencyStatus_FAILED"
    using assms(2) by auto
  have "present (get_call db) None" by (simp add: present_def)
  from finish_claim_ok [OF assms(1) c(1) this, of IdempotencyStatus_ACTIVE None None]
  show ?thesis using c by (auto simp: finish_claim_def claim_request_def pcommit_ok)
qed

text \<open>
  C11. A request that failed can never be retried. Its claim is FAILED, which \<open>claim\<close> is written to
  take up again, but the audit row of its first attempt (key, attempt 1, fallback 0) is still there
  and the unique constraint \<open>provider_call_attempt_identity\<close> refuses a second one. Whatever the
  failure was, the next run of the same request reaches no provider, raises the database's
  IntegrityError instead of a governed error, and leaves the claim ACTIVE; from then on every
  further run is refused as a conflict.
\<close>

theorem failed_request_cannot_be_retried:
  assumes inv: "db_inv (gw_db gw)" and p: "cx_project_id (ge_context env) = Some p"
    and task: "task_for_prompt (pq_name request) = Inr task"
    and rt: "route (ge_registry env) (ge_settings env) task (cx_profile (ge_context env)) = Inr rt"
    and fresh: "map_of (gw_cache gw) (request_key env gw request) = None"
    and known: "reference_key (rt_primary_model rt) \<in> set (ge_providers env)"
    and retries: "0 \<le> rp_max_retries (ge_retry env)"
    and time: "ge_clock env (gw_ticks gw + 1) - ge_clock env (gw_ticks gw) < ge_deadline env"
    and failed: "map_option ir_status (claim_for_key (gw_db gw) (request_key env gw request)) =
      Some IdempotencyStatus_FAILED"
    and row: "call \<in> set (t_rows (pd_calls (gw_db gw)))"
      "call_identity call = (request_key env gw request, 1, 0)"
    and run: "generate env gw request = (gw', r)"
  shows "r = Inl IntegrityError \<and> gw_invoked gw' = gw_invoked gw \<and>
    map_option ir_status (claim_for_key (gw_db gw') (request_key env gw request)) =
      Some IdempotencyStatus_ACTIVE \<and>
    claim_request (gw_db gw') (request_key env gw request) = Inl IdempotencyConflictError"
proof -
  let ?k = "request_key env gw request"
  from run have "r = Inl IntegrityError \<and> gw_invoked gw' = gw_invoked gw \<and>
    map_option ir_status (claim_for_key (gw_db gw') ?k) = Some IdempotencyStatus_ACTIVE"
  proof (cases rule: generate_elim)
    case (refused e)
    then show ?thesis using failed_claim_taken [OF inv failed] task rt by auto
  next
    case (cached resp)
    then show ?thesis using fresh by simp
  next
    case (replayed db)
    then show ?thesis using failed_claim_taken [OF inv failed] by auto
  next
    case (sent task' rt' ri db1 gw2 n x)
    have rt': "rt' = rt" using sent(1,2) task rt by simp
    let ?gw1 = "tick (gw\<lparr>gw_db := db1\<rparr>)"
    let ?cs = "rt_primary_model rt # rt_fallback_models rt"
    note c = claimed_start [OF sent(4) inv]
    have calls: "pd_calls db1 = pd_calls (gw_db gw)" using claim_request_frame [OF sent(4)] by simp
    have dup: "(ri_key ri, 0 + 1, 0) \<in> call_identity ` set (t_rows (pd_calls (gw_db ?gw1)))"
      using row sent(6) calls by (force simp: image_iff)
    obtain cap where cap: "provider_registry_get (ge_registry env) (rt_primary_model rt) = Inr cap"
      using route_primary [OF rt] by blast
    have zip: "zip [0..int (length ?cs) - 1] ?cs =
        (0, rt_primary_model rt) # zip [1..int (length ?cs) - 1] (rt_fallback_models rt)"
      by (simp add: upto_rec1)
    have inv1: "db_inv (gw_db ?gw1)" using c(1) by simp
    have time1: "ge_clock env (gw_ticks ?gw1) - ge_clock env (gw_ticks gw) < ge_deadline env"
      using time by simp
    have "x = Raised IntegrityError \<and> gw_invoked gw2 = gw_invoked gw"
      using fallback_loop_duplicate [OF inv1 p dup time1 cap known retries, of rt
          "zip [1..int (length ?cs) - 1] (rt_fallback_models rt)" None] sent(7)
      unfolding rt' zip by auto
    then show ?thesis
      using sent(8) sent_accounts [OF inv p _ sent(7), unfolded sent(6), OF sent(4)] c(4)
      by (auto simp: loop_accounts_def untouched_def)
  qed
  then show ?thesis by (auto simp: claim_request_def)
qed

lemma demo_failed_state:
  "(case generate demo_refuses demo_gateway demo_prompt of
     (gw, r) \<Rightarrow> (r = Inl LLMRefusalError, map_option ir_status (claim_for_key (gw_db gw) ''key''),
       map call_identity (t_rows (pd_calls (gw_db gw))), gw_cache gw = [], db_inv (gw_db gw))) =
   (True, Some IdempotencyStatus_FAILED, [(''key'', 1, 0)], True, True)"
  by code_simp

theorem failed_request_cannot_be_retried_applied:
  "\<exists>gw. generate demo_recovers demo_failed demo_prompt = (gw, Inl IntegrityError) \<and>
     claim_request (gw_db gw) ''key'' = Inl IdempotencyConflictError"
proof -
  have f: "map_option ir_status (claim_for_key (gw_db demo_failed) ''key'') = Some IdempotencyStatus_FAILED"
    "map call_identity (t_rows (pd_calls (gw_db demo_failed))) = [(''key'', 1, 0)]"
    "gw_cache demo_failed = []" "db_inv (gw_db demo_failed)"
    using demo_failed_state by (simp_all add: demo_failed_def split_def)
  then obtain row where row: "row \<in> set (t_rows (pd_calls (gw_db demo_failed)))"
    "call_identity row = (''key'', 1, 0)" by auto
  have env: "cx_project_id (ge_context demo_recovers) = Some 1"
    "task_for_prompt (pq_name demo_prompt) = Inr TaskType_PLANNING"
    "0 \<le> rp_max_retries (ge_retry demo_recovers)" by code_simp+
  have "\<not> isl (route (ge_registry demo_recovers) (ge_settings demo_recovers) TaskType_PLANNING
      (cx_profile (ge_context demo_recovers)))"
    "(case route (ge_registry demo_recovers) (ge_settings demo_recovers) TaskType_PLANNING
      (cx_profile (ge_context demo_recovers)) of Inl e \<Rightarrow> False
     | Inr rt \<Rightarrow> reference_key (rt_primary_model rt) \<in> set (ge_providers demo_recovers))" by code_simp+
  then obtain rt where rt: "route (ge_registry demo_recovers) (ge_settings demo_recovers) TaskType_PLANNING
      (cx_profile (ge_context demo_recovers)) = Inr rt"
    "reference_key (rt_primary_model rt) \<in> set (ge_providers demo_recovers)"
    by (auto simp: isl_def split: sum.splits)
  have key: "request_key demo_recovers x demo_prompt = ''key''" for x
    by (simp add: request_key_def gateway_key_def demo_recovers_def demo_env_def Let_def)
  have time: "ge_clock demo_recovers (gw_ticks demo_failed + 1) - ge_clock demo_recovers (gw_ticks demo_failed)
      < ge_deadline demo_recovers"
    by (simp add: demo_recovers_def demo_env_def)
  obtain gw r where g: "generate demo_recovers demo_failed demo_prompt = (gw, r)" by fastforce
  have "map_of (gw_cache demo_failed) ''key'' = None" using f(3) by simp
  from failed_request_cannot_be_retried [OF f(4) env(1,2) rt(1) _ rt(2) env(3) time _ row(1) _ g,
      unfolded key, OF this f(1) row(2)]
  show ?thesis using g by auto
qed

end
