(* ===== verification/Provider_Properties.thy ===== *)
theory Provider_Properties
  imports Model_Routing Provider_Calls
begin

text \<open>
  Properties of routing and of prices: an OFFLINE profile reaches only local models, and the cost
  settled for a call stays within the amount reserved for it.
\<close>

section \<open>Offline profiles stay local\<close>

text \<open>Among the built-in models, priced or not, the external ones belong to the configured service.\<close>

definition local_or_service :: "model_capability \<Rightarrow> bool" where
  "local_or_service c \<longleftrightarrow> (mc_external c \<longrightarrow> mc_provider c = ''openai-compatible'')"

lemma make_capability_local:
  assumes "make_capability raw = Inr c" and "local_or_service raw"
  shows "local_or_service c"
proof -
  have "strip ''openai-compatible'' = ''openai-compatible''" by code_simp
  then show ?thesis using assms
    by (auto simp: make_capability_def local_or_service_def Let_def split: if_splits)
qed

lemma make_all_local:
  "make_all cs = Inr cs' \<Longrightarrow> list_all local_or_service cs \<Longrightarrow> list_all local_or_service cs'"
  by (induction cs arbitrary: cs') (auto intro: make_capability_local)

lemma merge_prices_local:
  "merge_prices prices cs = Inr cs' \<Longrightarrow> list_all local_or_service cs \<Longrightarrow> list_all local_or_service cs'"
proof (induction cs arbitrary: cs')
  case (Cons c cs)
  show ?case
  proof (cases "find (\<lambda>u. update_key u = capability_key c) prices")
    case None
    then show ?thesis using Cons by auto
  next
    case (Some u)
    then have "update_key u = capability_key c" by (auto dest: find_SomeD)
    then have "local_or_service (with_prices c u)"
      using Cons.prems(2) by (simp add: local_or_service_def with_prices_def update_key_def capability_key_def)
    then show ?thesis using Cons Some by (auto dest: make_capability_local)
  qed
qed simp

lemma builtin_local:
  assumes "build_provider_registry s models_file pricing_file = Inr models"
    and "s_provider_config_path s = None"
  shows "registry_ok models \<and> list_all local_or_service (map snd models)"
proof -
  let ?built = "[mock_chat ''mock-storyforge-v1'' 128000, mock_chat ''mock-storyforge-fallback-v1'' 256000,
             mock_embedding] @
            (if s_llm_provider s \<noteq> LlmProvider_mock then [external_chat s] else []) @
            (if s_embedding_provider s \<noteq> EmbeddingProvider_mock then [external_embedding s] else [])"
  have "list_all local_or_service ?built"
    by (auto simp: local_or_service_def mock_chat_def mock_embedding_def external_chat_def
        external_embedding_def llm_provider_text_def embedding_provider_text_def
        split: setting_llm_provider.split setting_embedding_provider.split)
  moreover obtain caps priced where "make_all ?built = Inr caps"
    "(if s_pricing_config_path s \<noteq> None then apply_pricing caps pricing_file else Inr caps) = Inr priced"
    "make_registry priced = Inr models"
    using assms by (auto simp: build_provider_registry_def Let_def simp del: make_all.simps)
  ultimately show ?thesis
    using make_all_local [of ?built caps] make_registry_ok [of priced models]
    by (auto simp: apply_pricing_def split: if_splits dest: merge_prices_local)
qed

lemma route_models:
  assumes "route models s task profile = Inr rt"
  shows "choose_models s (is_embedding_task task) profile = Inr (rt_primary_model rt, rt_fallback_models rt)"
  using assms by (auto simp: route_def make_route_def Let_def split: if_splits)

text \<open>
  With the built-in registry, priced or not, a project with the OFFLINE profile never reaches an
  external service from a chat task, whatever provider the settings configure: every model of the
  route (primary or fallback) is a local one.
\<close>

theorem offline_profile_stays_local:
  assumes "build_provider_registry s models_file pricing_file = Inr models"
    and "s_provider_config_path s = None" and "\<not> is_embedding_task task"
    and "route models s task ModelProfile_OFFLINE = Inr rt"
    and "reference \<in> set (rt_primary_model rt # rt_fallback_models rt)"
    and "provider_registry_get models reference = Inr c"
  shows "\<not> mc_external c \<and> mc_provider c = ''mock''"
proof -
  have "mr_provider reference = ''mock''"
    using route_models [OF assms(4), symmetric] assms(3,5) by (auto simp: choose_models_def)
  moreover have "c \<in> set (map snd models)" "capability_key c = reference_key reference"
    using registry_get_key [OF _ assms(6)] builtin_local [OF assms(1,2)] by auto
  ultimately have "mc_provider c = ''mock''" "local_or_service c"
    using builtin_local [OF assms(1,2)] by (auto simp: capability_key_def reference_key_def list_all_iff)
  then show ?thesis by (auto simp: local_or_service_def)
qed

definition demo_online :: settings where
  "demo_online = default_settings\<lparr>s_llm_provider := LlmProvider_openai_compatible, s_llm_model := ''big''\<rparr>"

theorem offline_profile_stays_local_applied:
  "\<exists>models rt c. build_provider_registry demo_online (Inr []) (Inr []) = Inr models \<and>
     route models demo_online TaskType_PLANNING ModelProfile_OFFLINE = Inr rt \<and>
     provider_registry_get models (rt_primary_model rt) = Inr c \<and> \<not> mc_external c"
proof -
  have "(case build_provider_registry demo_online (Inr []) (Inr []) of Inl e \<Rightarrow> False | Inr models \<Rightarrow>
     (case route models demo_online TaskType_PLANNING ModelProfile_OFFLINE of Inl e \<Rightarrow> False | Inr rt \<Rightarrow>
       (case provider_registry_get models (rt_primary_model rt) of Inl e \<Rightarrow> False | Inr c \<Rightarrow> True)))"
    by code_simp
  then obtain models rt c where h: "build_provider_registry demo_online (Inr []) (Inr []) = Inr models"
    "route models demo_online TaskType_PLANNING ModelProfile_OFFLINE = Inr rt"
    "provider_registry_get models (rt_primary_model rt) = Inr c"
    by (auto split: sum.splits)
  have "s_provider_config_path demo_online = None" "\<not> is_embedding_task TaskType_PLANNING" by code_simp+
  from offline_profile_stays_local [OF h(1) this h(2) _ h(3)] h show ?thesis by auto
qed

section \<open>Prices\<close>

lemma price_bound:
  assumes usage: "usage_ok u" and rates: "0 \<le> ic" "0 \<le> oc" "cr \<le> ic"
    and bound: "tu_input_tokens u \<le> i" "tu_output_tokens u \<le> n"
  shows "of_int (tu_input_tokens u - tu_cached_input_tokens u) * ic + of_int (tu_cached_input_tokens u) * cr +
      of_int (tu_output_tokens u) * oc \<le> of_int i * ic + of_int n * (oc :: rat)"
proof -
  have "of_int (tu_cached_input_tokens u) * cr \<le> of_int (tu_cached_input_tokens u) * ic"
    using usage rates(3) by (intro mult_left_mono) (simp_all add: usage_ok_def)
  moreover have "of_int (tu_input_tokens u) * ic \<le> of_int i * ic"
    using bound(1) rates(1) by (intro mult_right_mono) simp_all
  moreover have "of_int (tu_output_tokens u) * oc \<le> of_int n * oc"
    using bound(2) rates(2) by (intro mult_right_mono) simp_all
  ultimately show ?thesis by (simp add: algebra_simps)
qed

text \<open>
  The reservation covers the settlement. The preflight estimate prices the local input tokens
  and the route's output limit; if the usage the provider reports stays within these two and the
  cached rate is not above the input rate, the price of the reported usage, quantised to eight
  places, is at most the price that was reserved.
\<close>

theorem settlement_within_reservation:
  assumes "usage_ok u" and "usage_ok pre" and "tu_cached_input_tokens pre = 0"
    and "tu_input_tokens u \<le> tu_input_tokens pre" and "tu_output_tokens u \<le> tu_output_tokens pre"
    and "capability_fields_ok c"
    and "mc_cached_input_cost_per_million c = Some cr" and "mc_input_cost_per_million c = Some ic" and "cr \<le> ic"
    and "pe_amount (estimate_price c u) = Some spent" and "pe_amount (estimate_price c pre) = Some reserved"
  shows "spent \<le> reserved"
proof -
  define oc where "oc = or_zero (mc_output_cost_per_million c)"
  have rates: "0 \<le> ic" "0 \<le> oc" "0 \<le> cr"
    using assms(6,7,8) by (auto simp: capability_fields_ok_def given_ge_def oc_def or_zero_def split: option.splits)
  let ?p = "\<lambda>u. of_int (tu_input_tokens u - tu_cached_input_tokens u) * ic / 1000000 +
    of_int (tu_cached_input_tokens u) * cr / 1000000 + of_int (tu_output_tokens u) * oc / (1000000 :: rat)"
  have price: "pe_amount (estimate_price c v) = Some a \<Longrightarrow> a = quantize (?p v)" for v a
    using assms(7,8) by (auto simp: estimate_price_def Let_def oc_def or_zero_def split: if_splits)
  have "?p u \<le> ?p pre"
    using price_bound [OF assms(1) rates(1,2) assms(9,4,5)] assms(3)
    by (simp add: add_divide_distrib [symmetric] divide_right_mono)
  then show ?thesis using price assms(10,11) quantize_mono by blast
qed

definition demo_priced :: model_capability where
  "demo_priced = (mock_chat ''m'' 1000)\<lparr>mc_input_cost_per_million := Some 2,
     mc_output_cost_per_million := Some 10, mc_cached_input_cost_per_million := Some 1\<rparr>"

definition demo_usage :: "int \<Rightarrow> int \<Rightarrow> int \<Rightarrow> token_usage" where
  "demo_usage i cached n = \<lparr>tu_input_tokens = i, tu_output_tokens = n, tu_cached_input_tokens = cached,
     tu_total_tokens = i + n, tu_source = TokenUsageSource_PROVIDER_REPORTED\<rparr>"

theorem settlement_within_reservation_applied:
  "\<exists>spent reserved. pe_amount (estimate_price demo_priced (demo_usage 90 40 200)) = Some spent \<and>
     pe_amount (estimate_price demo_priced (demo_usage 100 0 500)) = Some reserved \<and> spent \<le> reserved"
proof -
  have h: "usage_ok (demo_usage 90 40 200)" "usage_ok (demo_usage 100 0 500)" "capability_fields_ok demo_priced"
    "mc_cached_input_cost_per_million demo_priced = Some 1" "mc_input_cost_per_million demo_priced = Some 2"
    by code_simp+
  obtain spent reserved where p: "pe_amount (estimate_price demo_priced (demo_usage 90 40 200)) = Some spent"
    "pe_amount (estimate_price demo_priced (demo_usage 100 0 500)) = Some reserved"
    by (auto simp: estimate_price_def demo_priced_def mock_chat_def Let_def)
  from settlement_within_reservation [OF h(1,2) _ _ _ h(3-5) _ p] p show ?thesis
    by (auto simp: demo_usage_def)
qed

end
