(* ===== verification/Spec2Isabelle.thy ===== *)
theory Spec2Isabelle
  imports Job_Safety Job_Admission Job_Controls Dispatch_Properties Book_Histories Book_Outcome Version_Demo Chapter_Demo Evaluation_Demo
    Circuit_Breaker Rate_Limiter Budget_Service Gateway_Retry Provider_Properties
begin

text \<open>
  StoryForge (\<open>src/src/storyforge\<close>) generates novels with language models: HTTP and command-line
  adapters admit work as durable jobs, workers execute the jobs, every shared state lives in one
  relational database, and every model call passes one governed gateway. The development models
  the parts whose correctness does not depend on a language model.

  \<^bold>\<open>Conventions.\<close> An entity is a record with one field per column (two letters of prefix), a table
  the list of its rows with the next key (\<open>Repository\<close>, \<open>repositories/base.py\<close>), a database a
  record of tables. One transaction of the code (one \<open>session_factory.begin()\<close> block) is one
  function from a database to a \<open>result\<close>: \<open>Inl\<close> the exception, with the database unchanged by
  rollback, or \<open>Inr\<close> the committed database and the value; the commit checks the declared
  constraints and fails with \<open>IntegrityError\<close>. Row locks are the atomicity of a transaction, and
  concurrency is the interleaving of transactions: an inductive history of operations. Times,
  digests, random numbers and providers are arguments. Exceptions keep their class
  (\<open>Prelude.exn\<close>), not their text. \<open>Decimal\<close> and \<open>float\<close> are rational numbers; Python's
  integers are \<open>int\<close>.

  \<^bold>\<open>Shared vocabulary.\<close> \<open>Prelude\<close> (exceptions, results, JSON, text), \<open>Enums\<close> (\<open>enums.py\<close>),
  \<open>Repository\<close>, \<open>Entities\<close> and \<open>Constraints\<close> (\<open>models/entities.py\<close>, \<open>models/books.py\<close>), \<open>Settings\<close>
  (\<open>settings.py\<close>), \<open>Transitions\<close> (the three state machines).

  \<^bold>\<open>Durable jobs.\<close> \<open>Job_Store\<close> (\<open>repositories/jobs.py\<close>), \<open>Job_Requests\<close> and \<open>Job_Service\<close>
  (\<open>jobs/registry.py\<close>, \<open>jobs/models.py\<close>, \<open>services/jobs.py\<close>: admission, cancel, pause, resume, dead
  letters), \<open>Job_Worker\<close> (\<open>jobs/worker.py\<close>: claim, heartbeat, outcomes, recovery of expired leases),
  \<open>Job_Dispatcher\<close> (\<open>jobs/dispatcher.py\<close>, \<open>jobs/broker.py\<close>: the outbox), \<open>Job_Handlers\<close>
  (\<open>jobs/handlers.py\<close>). \<open>Store_Laws\<close> states the store's contract as a locale interpreted on the
  store; \<open>Job_Service_Laws\<close>, \<open>Worker_System\<close>, \<open>Dispatcher_System\<close> give the effect of each operation;
  \<open>Job_Lifecycle\<close> is the abstract life cycle of one job and \<open>Job_Refinement\<close> shows that every
  operation implements one of its steps. \<open>Job_System\<close> and \<open>Job_Histories\<close> are the interleavings, with the
  invariant of \<open>Job_Invariants\<close>: a step (\<open>job_step\<close>) is any transaction that writes jobs, events or the
  outbox, those of the book service among them, which inserts the records of its chapters as
  succeeded jobs (\<open>Book_Steps\<close>; \<open>Book_Histories\<close> shows that the execution of a book run is
  such a history). \<open>Job_Demo\<close> is a concrete run for the witnesses. The theorems are in
  \<open>Job_Safety\<close> (well-formed jobs, exclusive execution, leases, bounded attempts, final statuses, gapless
  events), \<open>Job_Admission\<close> (idempotence after any history, races, effect and success of an admission),
  \<open>Job_Controls\<close> (cancel, resume and the second resume that strands a job) and
  \<open>Dispatch_Properties\<close> (bounded publication, delivered counts, batch order).

  \<^bold>\<open>Book scheduling.\<close> \<open>Book_Scheduler\<close> (\<open>book/scheduler.py\<close>) with \<open>Scheduler_Properties\<close>: the plan
  check against acyclicity, the decision against the dependencies, and completion of the book.

  \<^bold>\<open>Book runs.\<close> \<open>Book_Runs\<close> (\<open>services/book_runs.py\<close>, \<open>repositories/books.py\<close>) admits a run with its
  top-level job and controls it; \<open>Book_Execution\<close> (\<open>application/books.py\<close>) has each transaction that
  advances a run, the loop \<open>execute\<close> over the scheduler and the global review; the chapter workflow,
  the periodic checker and the analysis service are functions of the environment. An operation of
  several transactions maps the database to the one it leaves, with the value or the exception. The
  \<open>while True\<close> loop is \<open>book_loop\<close> with fuel: \<open>Book_Loop\<close> shows that one round per chapter without an accepted
  version and one more are enough if the services leave the status map and the chapter numbers alone,
  and that an interrupted chapter stops the book.
  \<open>Book_Admission\<close> gives the effect of an admission on top of the invariant of the jobs,
  \<open>Book_Properties\<close> the controls of queued runs and what a failed attempt leaves, \<open>Book_Outcome\<close> what a
  normal end of the job means. \<open>Effects\<close> has the sequencing of transactions.

  \<^bold>\<open>Chapter versions.\<close> \<open>Narrative_Store\<close> has the tables of the story (versions, facts, foreshadowing,
  evaluations, revisions, memory, workflow events) with their constraints and queries;
  \<open>Revision_Policy\<close> (\<open>revision/\<close>) the revision brief and the comparison of two versions; \<open>Versioning\<close> and
  \<open>Version_Acceptance\<close> (\<open>services/versioning.py\<close>, \<open>memory/indexer.py\<close>) each transaction of the version
  service, with agents as parameters. \<open>Version_Canon\<close> states what canon means, \<open>Version_Steps\<close> shows it
  kept by each transaction, \<open>Version_Properties\<close> holds the theorems (a rejection or a hand-over of an
  accepted version, which the code does not refuse, breaks the canon; nothing else does), \<open>Version_Demo\<close>
  a story for the witnesses.

  \<^bold>\<open>Chapter workflow.\<close> \<open>Chapter_Workflow\<close> (state, edges, the transactions around a node), \<open>Chapter_Nodes\<close>
  (the nodes) and \<open>Chapter_Runs\<close> (run, pause, resume, cancel, the exits for exceptions) model
  \<open>services/workflow.py\<close>. The executor \<open>graph_run\<close> takes LangGraph's recursion limit as its fuel:
  \<open>Chapter_Termination\<close> shows that 6 + 7 * max 1 n nodes are enough for n revision attempts, whatever the
  agents answer and other processes write between two nodes. \<open>Chapter_Outcomes\<close> gives the durable
  status of a finished run, the equality of a paused and continued run with an uninterrupted one, and
  what an exception that \<open>run\<close> raises again leaves; \<open>Chapter_Demo\<close> applies them.

  \<^bold>\<open>Evaluation and consistency.\<close> \<open>Evaluation_Scoring\<close> (\<open>evaluation/config.py\<close>, \<open>models.py\<close>, \<open>scoring.py\<close>) has the
  critique, the weights and the gates of the combined score, \<open>Mechanical_Evaluation\<close>
  (\<open>evaluation/mechanical.py\<close>) the text statistics and their rules, \<open>Fact_Normalizer\<close>,
  \<open>Consistency_Checker\<close> and \<open>Consistency_Check\<close> (\<open>consistency/\<close>) the ten rule groups over normalised facts,
  \<open>Evaluation_Service\<close> and \<open>Evaluation_Runs\<close> (\<open>services/evaluation_service.py\<close>) the reading of the evidence and
  every transaction of an evaluation with its error exits. \<open>Evaluation_Laws\<close> reads a successful evaluation
  backwards; \<open>Consistency_Properties\<close>, \<open>Scoring_Properties\<close> and \<open>Evaluation_Properties\<close> hold the theorems, and
  \<open>Evaluation_Workflow\<close> plugs the service into the nodes of the chapter workflow; \<open>Evaluation_Demo\<close> applies them.

  \<^bold>\<open>Governed model calls.\<close> \<open>Circuit_Breaker\<close> and \<open>Rate_Limiter\<close> (\<open>reliability/\<close>) under any
  interleaving, the limiter with clock readings that reach its lock late; \<open>Provider_Store\<close> (budgets,
  audit rows, idempotency claims), \<open>Budget_Service\<close> (\<open>usage/service.py\<close>), whose histories settle any
  actual price and count what it exceeds the reservation by; \<open>Model_Routing\<close> (\<open>providers/models.py\<close>, \<open>registry.py\<close>, \<open>routing.py\<close>),
  \<open>Provider_Calls\<close> (\<open>usage/pricing.py\<close>, \<open>reliability/idempotency.py\<close>, \<open>privacy/policy.py\<close>) and
  \<open>Gateway\<close> (\<open>providers/gateway.py\<close>), whose retry and fallback loops recurse over the finite lists of
  retries and candidates, so \<open>generate\<close> is total. \<open>Gateway_Laws\<close>, \<open>Gateway_Ledger\<close> and
  \<open>Gateway_Effects\<close> give the effect of each step and lift it through the loops;
  \<open>Gateway_Properties\<close>, \<open>Gateway_Retry\<close> and \<open>Provider_Properties\<close> hold the theorems.

  \<^bold>\<open>Not modelled.\<close> The text generation itself (prompts, agents, HTTP clients), logging, and the
  adapters (HTTP routes, command line, response schemas); the Redis scripts of
  \<open>reliability/distributed.py\<close>; retrieval, and the persistence of the analysis of whole books.
\<close>

end
